(* ===== verification/Prelude.thy ===== *)
theory Prelude
  imports Main "HOL-Library.AList" "HOL-Library.Multiset"
begin

text \<open>
  Shared vocabulary of the development. A Python dictionary whose iteration order matters
  is an association list updated with \<open>AList.update\<close>, which keeps the position of an
  existing key and appends a new one, as a Python dictionary does. A fallible operation
  returns a sum with the error on the left. The lemmas are the generic facts on
  association lists, queues and decimal numerals that the components share.
\<close>

named_theorems wf_intros "introduction rules of the components' invariants"
named_theorems step_simps "unfolding equations of the components' operations"

text \<open>Python's built-in exceptions, as far as the modelled code can raise them.\<close>

datatype py_exc = KeyError | ValueError | IndexError | TypeError | RuntimeError | AttributeError
  | PyZeroDivisionError

type_synonym ('k, 'v) pydict = "('k \<times> 'v) list"

subsection \<open>Sequencing of fallible operations\<close>

definition bind_res :: "'e + 'a \<Rightarrow> ('a \<Rightarrow> 'e + 'b) \<Rightarrow> 'e + 'b" where
  "bind_res m f = (case m of Inl e \<Rightarrow> Inl e | Inr x \<Rightarrow> f x)"

lemma bind_res_simps [simp]:
  "bind_res (Inl e) f = Inl e"
  "bind_res (Inr x) f = f x"
  by (simp_all add: bind_res_def)

lemma bind_res_Inr_iff: "bind_res m f = Inr y \<longleftrightarrow> (\<exists>x. m = Inr x \<and> f x = Inr y)"
  by (cases m) auto

lemma bind_res_Inl_iff:
  "bind_res m f = Inl e \<longleftrightarrow> m = Inl e \<or> (\<exists>x. m = Inr x \<and> f x = Inl e)"
  by (cases m) auto

lemma bind_res_assoc: "bind_res (bind_res m f) g = bind_res m (\<lambda>x. bind_res (f x) g)"
  by (cases m) auto

text \<open>A check that raises when its condition fails, and a loop of checks.\<close>

definition guard_res :: "bool \<Rightarrow> 'e \<Rightarrow> 'e + unit" where
  "guard_res b e = (if b then Inr () else Inl e)"

lemma guard_res_simps [simp]:
  "guard_res b e = Inr u \<longleftrightarrow> b"
  "guard_res b e = Inl e' \<longleftrightarrow> \<not> b \<and> e' = e"
  by (auto simp: guard_res_def)

fun each_res :: "('a \<Rightarrow> 'e + unit) \<Rightarrow> 'a list \<Rightarrow> 'e + unit" where
  "each_res f [] = Inr ()"
| "each_res f (x # xs) = bind_res (f x) (\<lambda>_. each_res f xs)"

lemma each_res_Inr_iff: "each_res f xs = Inr () \<longleftrightarrow> (\<forall>x \<in> set xs. f x = Inr ())"
  by (induction xs) (auto simp: bind_res_Inr_iff)

lemma each_res_Inl: "each_res f xs = Inl e \<Longrightarrow> \<exists>x \<in> set xs. f x = Inl e"
  by (induction xs) (auto simp: bind_res_Inl_iff)

fun map_res :: "('a \<Rightarrow> 'e + 'b) \<Rightarrow> 'a list \<Rightarrow> 'e + 'b list" where
  "map_res f [] = Inr []"
| "map_res f (x # xs) = bind_res (f x) (\<lambda>y. bind_res (map_res f xs) (\<lambda>ys. Inr (y # ys)))"

lemma map_res_Inr: "(\<And>x. x \<in> set xs \<Longrightarrow> f x = Inr (g x)) \<Longrightarrow> map_res f xs = Inr (map g xs)"
  by (induction xs) auto

lemma map_res_length: "map_res f xs = Inr ys \<Longrightarrow> length ys = length xs"
  by (induction xs arbitrary: ys) (auto simp: bind_res_Inr_iff)

text \<open>The same with a state that an exception does not undo; \<open>catch_st\<close> hands an exception
  to a handler, which runs in the state the failed part left.\<close>

definition return_st :: "'a \<Rightarrow> 's \<Rightarrow> ('e + 'a) \<times> 's" where
  "return_st x s = (Inr x, s)"

definition raise_st :: "'e \<Rightarrow> 's \<Rightarrow> ('e + 'a) \<times> 's" where
  "raise_st e s = (Inl e, s)"

definition bind_st :: "('s \<Rightarrow> ('e + 'a) \<times> 's) \<Rightarrow> ('a \<Rightarrow> 's \<Rightarrow> ('e + 'b) \<times> 's) \<Rightarrow> 's \<Rightarrow> ('e + 'b) \<times> 's" where
  "bind_st m f s = (case m s of (Inl e, s') \<Rightarrow> (Inl e, s') | (Inr x, s') \<Rightarrow> f x s')"

definition catch_st :: "('s \<Rightarrow> ('e + 'a) \<times> 's) \<Rightarrow> ('e \<Rightarrow> 's \<Rightarrow> ('e + 'a) \<times> 's) \<Rightarrow> 's \<Rightarrow> ('e + 'a) \<times> 's" where
  "catch_st m h s = (case m s of (Inl e, s') \<Rightarrow> h e s' | (Inr x, s') \<Rightarrow> (Inr x, s'))"

lemmas st_defs = return_st_def raise_st_def bind_st_def catch_st_def

text \<open>A program keeps an assertion on the state, or keeps it and raises in every state.\<close>

named_theorems st_intros "rules for assertions kept by programs"

definition keeps_st :: "('s \<Rightarrow> bool) \<Rightarrow> ('s \<Rightarrow> ('e + 'a) \<times> 's) \<Rightarrow> bool" where
  "keeps_st I m \<longleftrightarrow> (\<forall>s. I s \<longrightarrow> I (snd (m s)))"

definition fails_st :: "('s \<Rightarrow> bool) \<Rightarrow> ('s \<Rightarrow> ('e + 'a) \<times> 's) \<Rightarrow> bool" where
  "fails_st I m \<longleftrightarrow> (\<forall>s. I s \<longrightarrow> I (snd (m s)) \<and> (\<exists>e. fst (m s) = Inl e))"

lemma keeps_return [st_intros]: "keeps_st I (return_st x)"
  by (simp add: keeps_st_def return_st_def)

lemma keeps_raise [st_intros]: "keeps_st I (raise_st e)"
  by (simp add: keeps_st_def raise_st_def)

lemma keeps_bind [st_intros]:
  assumes "keeps_st I m" "\<And>x. keeps_st I (f x)"
  shows "keeps_st I (bind_st m f)"
  unfolding keeps_st_def
proof (intro allI impI)
  fix s assume "I s"
  then show "I (snd (bind_st m f s))"
    using assms by (cases "m s"; cases "fst (m s)") (fastforce simp: keeps_st_def bind_st_def)+
qed

lemma keeps_catch [st_intros]:
  assumes "keeps_st I m" "\<And>e. keeps_st I (h e)"
  shows "keeps_st I (catch_st m h)"
  unfolding keeps_st_def
proof (intro allI impI)
  fix s assume "I s"
  then show "I (snd (catch_st m h s))"
    using assms by (cases "m s"; cases "fst (m s)") (fastforce simp: keeps_st_def catch_st_def)+
qed

lemma keeps_if [st_intros]: "keeps_st I m \<Longrightarrow> keeps_st I m' \<Longrightarrow> keeps_st I (if b then m else m')"
  by simp

text \<open>A loop that runs an operation on each element.\<close>

fun each_st :: "('a \<Rightarrow> 's \<Rightarrow> ('e + unit) \<times> 's) \<Rightarrow> 'a list \<Rightarrow> 's \<Rightarrow> ('e + unit) \<times> 's" where
  "each_st f [] = return_st ()"
| "each_st f (x # xs) = bind_st (f x) (\<lambda>_. each_st f xs)"

lemma keeps_each [st_intros]:
  assumes "\<And>x. x \<in> set xs \<Longrightarrow> keeps_st I (f x)"
  shows "keeps_st I (each_st f xs)"
  using assms by (induction xs) (auto intro!: st_intros)

lemma fails_raise: "fails_st I (raise_st e)"
  by (simp add: fails_st_def raise_st_def)

lemma fails_bind:
  assumes "fails_st I m"
  shows "fails_st I (bind_st m f)"
  unfolding fails_st_def
proof (intro allI impI)
  fix s assume "I s"
  with assms obtain e where "I (snd (m s))" "fst (m s) = Inl e" unfolding fails_st_def by blast
  then show "I (snd (bind_st m f s)) \<and> (\<exists>e. fst (bind_st m f s) = Inl e)"
    by (cases "m s") (simp add: bind_st_def)
qed

lemma fails_bind_rest:
  assumes "keeps_st I m" "\<And>x. fails_st I (f x)"
  shows "fails_st I (bind_st m f)"
  unfolding fails_st_def
proof (intro allI impI)
  fix s assume "I s"
  then show "I (snd (bind_st m f s)) \<and> (\<exists>e. fst (bind_st m f s) = Inl e)"
    using assms by (cases "m s"; cases "fst (m s)") (fastforce simp: keeps_st_def fails_st_def bind_st_def)+
qed

lemma fails_catch:
  assumes "fails_st I m" "\<And>e. fails_st I (h e)"
  shows "fails_st I (catch_st m h)"
  unfolding fails_st_def
proof (intro allI impI)
  fix s assume "I s"
  with assms(1) obtain e where "I (snd (m s))" "fst (m s) = Inl e" unfolding fails_st_def by blast
  then show "I (snd (catch_st m h s)) \<and> (\<exists>e. fst (catch_st m h s) = Inl e)"
    using assms(2) [of e] by (cases "m s") (simp add: catch_st_def fails_st_def)
qed

lemma fails_keeps: "fails_st I m \<Longrightarrow> keeps_st I m"
  by (simp add: fails_st_def keeps_st_def)

subsection \<open>Association lists\<close>

lemma map_of_update [simp]: "map_of (AList.update k v al) = (map_of al)(k \<mapsto> v)"
  by (rule update_conv')

lemma map_of_delete [simp]: "map_of (AList.delete k al) = (map_of al)(k := None)"
  by (rule delete_conv')

lemma distinct_update [simp]:
  "distinct (map fst al) \<Longrightarrow> distinct (map fst (AList.update k v al))"
  by (rule distinct_update)

lemma distinct_delete [simp]:
  "distinct (map fst al) \<Longrightarrow> distinct (map fst (AList.delete k al))"
  by (rule distinct_delete)

lemma update_new: "k \<notin> fst ` set al \<Longrightarrow> AList.update k v al = al @ [(k, v)]"
  by (induction al) auto

definition weight :: "('k \<times> 'v list) list \<Rightarrow> nat" where
  "weight al = (\<Sum>p \<leftarrow> al. length (snd p))"

lemma weight_update:
  "map_of al k = Some q \<Longrightarrow> weight (AList.update k q' al) + length q = weight al + length q'"
  by (induction al) (auto simp: weight_def split: if_splits)

lemma weight_delete: "weight (AList.delete k al) \<le> weight al"
  by (induction al) (auto simp: weight_def AList.delete_eq)

lemma weight_delete_Some:
  "map_of al k = Some q \<Longrightarrow> weight (AList.delete k al) + length q \<le> weight al"
  using weight_delete [of k]
  by (induction al) (fastforce simp: weight_def AList.delete_eq split: if_splits)+

lemma map_of_eq_Some_distinct:
  "distinct (map fst al) \<Longrightarrow> (k, v) \<in> set al \<longleftrightarrow> map_of al k = Some v"
  by simp

lemma map_of_notin_iff: "map_of al k = None \<longleftrightarrow> k \<notin> fst ` set al"
  by (rule map_of_eq_None_iff)

text \<open>An update of the one element that satisfies a condition.\<close>

lemma image_if_one:
  assumes "{r \<in> S. P r} = {b}"
  shows "(\<lambda>r. if P r then f r else r) ` S = insert (f b) (S - {b})"
proof -
  have "b \<in> {r \<in> S. P r}" unfolding assms by simp
  then have b: "b \<in> S" "P b" by simp_all
  have other: "r = b" if "r \<in> S" "P r" for r
  proof -
    have "r \<in> {r \<in> S. P r}" using that by simp
    then show ?thesis unfolding assms by simp
  qed
  have "(\<lambda>r. if P r then f r else r) ` (S - {b}) = (\<lambda>r. r) ` (S - {b})"
    by (rule image_cong) (use other in auto)
  moreover have "S = insert b (S - {b})" using b by blast
  moreover have "(\<lambda>r. if P r then f r else r) ` insert b (S - {b}) =
      insert (f b) ((\<lambda>r. if P r then f r else r) ` (S - {b}))"
    unfolding image_insert using b(2) by (simp only: if_True)
  ultimately show ?thesis by (simp only: image_ident)
qed

lemma distinct_set_singleton:
  assumes "distinct xs" "set xs = {x}"
  shows "xs = [x]"
proof -
  have "length xs = 1" using distinct_card [OF assms(1)] assms(2) by simp
  then obtain y where "xs = [y]" by (cases xs) auto
  with assms(2) show ?thesis by simp
qed

lemma image_if_none:
  assumes "\<forall>r \<in> S. \<not> P r"
  shows "(\<lambda>r. if P r then f r else r) ` S = S"
proof -
  have "(\<lambda>r. if P r then f r else r) ` S = (\<lambda>r. r) ` S"
    by (rule image_cong) (use assms in simp_all)
  then show ?thesis by (simp only: image_ident)
qed

lemma select_new: "\<forall>r \<in> S. \<not> P r \<Longrightarrow> P x \<Longrightarrow> {r \<in> insert x S. P r} = {x}"
  and unselect_new: "\<forall>r \<in> S. \<not> P r \<Longrightarrow> P x \<Longrightarrow> {r \<in> insert x S. \<not> P r} = S"
  by blast+

subsection \<open>Decimal numerals: Python's \<open>%d\<close> on a natural number\<close>

definition digit :: "nat \<Rightarrow> char" where
  "digit d = char_of (48 + d)"

fun nat_str :: "nat \<Rightarrow> string" where
  "nat_str n = (if n < 10 then [digit n] else nat_str (n div 10) @ [digit (n mod 10)])"

declare nat_str.simps [simp del]

lemma digit_inj: "d < 10 \<Longrightarrow> e < 10 \<Longrightarrow> digit d = digit e \<Longrightarrow> d = e"
  by (simp add: digit_def)

lemma nat_str_nonempty [simp]: "nat_str n \<noteq> []"
  by (subst nat_str.simps) simp

lemma nat_str_inj: "nat_str m = nat_str n \<Longrightarrow> m = n"
proof (induction m arbitrary: n rule: less_induct)
  case (less m)
  have unfold: "\<And>k. nat_str k = (if k < 10 then [digit k] else nat_str (k div 10) @ [digit (k mod 10)])"
    by (rule nat_str.simps)
  have last: "\<And>k. last (nat_str k) = digit (k mod 10)"
    by (subst unfold) simp
  have "digit (m mod 10) = digit (n mod 10)"
    using less.prems last by metis
  then have mods: "m mod 10 = n mod 10"
    by (rule digit_inj [rotated 2]) simp_all
  have front: "\<And>k. butlast (nat_str k) = (if k < 10 then [] else nat_str (k div 10))"
    by (subst unfold) simp
  show ?case
  proof (cases "m < 10")
    case True
    then have "butlast (nat_str n) = []"
      using front [of m] less.prems by simp
    then have "n < 10"
      using front [of n] by (auto split: if_splits)
    with True mods show ?thesis by simp
  next
    case False
    then have "\<not> n < 10"
      using front less.prems by (metis nat_str_nonempty)
    then have "nat_str (m div 10) = nat_str (n div 10)"
      using front False less.prems by metis
    then have "m div 10 = n div 10"
      using less.IH [of "m div 10"] False by simp
    with mods show ?thesis by (metis div_mult_mod_eq)
  qed
qed

lemma nat_str_eq_iff [simp]: "nat_str m = nat_str n \<longleftrightarrow> m = n"
  using nat_str_inj by blast

definition int_str :: "int \<Rightarrow> string" where
  "int_str i = (if i < 0 then ''-'' @ nat_str (nat (- i)) else nat_str (nat i))"

subsection \<open>Python's \<open>split\<close> and \<open>int\<close> on strings\<close>

fun split_at_char :: "char \<Rightarrow> string \<Rightarrow> string list" where
  "split_at_char d [] = [[]]"
| "split_at_char d (c # s) =
     (if c = d then [] # split_at_char d s
      else (case split_at_char d s of [] \<Rightarrow> [[c]] | p # ps \<Rightarrow> (c # p) # ps))"

lemma split_at_char_nonempty [simp]: "split_at_char d s \<noteq> []"
  by (induction s) (auto split: list.splits)

lemma split_at_char_plain: "d \<notin> set s \<Longrightarrow> split_at_char d s = [s]"
  by (induction s) auto

lemma split_at_char_append:
  assumes "d \<notin> set s"
  shows "split_at_char d (s @ d # t) = s # split_at_char d t"
  using assms by (induction s) auto

text \<open>Decimal digits with single underscores between them, an optional sign and surrounding
  white space, over ASCII strings.\<close>

fun py_digits :: "bool \<Rightarrow> int \<Rightarrow> string \<Rightarrow> int option" where
  "py_digits after_digit acc [] = (if after_digit then Some acc else None)"
| "py_digits after_digit acc (c # cs) =
     (if 48 \<le> (of_char c :: nat) \<and> (of_char c :: nat) \<le> 57 then py_digits True (10 * acc + (of_char c - 48)) cs
      else if c = CHR ''_'' \<and> after_digit then py_digits False acc cs else None)"

definition py_space :: "char \<Rightarrow> bool" where
  "py_space c \<longleftrightarrow> (of_char c :: nat) \<in> {9, 10, 11, 12, 13, 32}"

definition py_strip :: "string \<Rightarrow> string" where
  "py_strip s = rev (dropWhile py_space (rev (dropWhile py_space s)))"

definition py_int :: "string \<Rightarrow> int option" where
  "py_int s =
     (case py_strip s of
        [] \<Rightarrow> None
      | c # cs \<Rightarrow>
          if c = CHR ''-'' then map_option uminus (py_digits False 0 cs)
          else if c = CHR ''+'' then py_digits False 0 cs
          else py_digits False 0 (c # cs))"

text \<open>\<open>int()\<close> reads a decimal numeral back, and rejects two of them with something else in between.\<close>

lemma digit_code: "d < 10 \<Longrightarrow> (of_char (digit d) :: nat) = 48 + d"
  by (simp add: digit_def)

lemma nat_str_chars: "c \<in> set (nat_str n) \<Longrightarrow> 48 \<le> (of_char c :: nat) \<and> (of_char c :: nat) \<le> 57"
proof (induction n rule: nat_str.induct)
  case (1 n)
  show ?case
  proof (cases "n < 10")
    case True
    then show ?thesis using 1(2) by (auto simp: nat_str.simps [of n] digit_code)
  next
    case False
    then show ?thesis using 1 digit_code [of "n mod 10"] by (auto simp: nat_str.simps [of n])
  qed
qed

lemma py_digits_step:
  assumes "d < 10"
  shows "py_digits b acc (digit d # cs) = py_digits True (10 * acc + int d) cs"
proof -
  have "(of_char (digit d) :: int) = int (of_char (digit d) :: nat)" by (simp only: of_nat_of_char)
  then show ?thesis using digit_code [OF assms] assms by simp
qed

lemma py_digits_nat_str: "\<exists>k. \<forall>b acc cs. py_digits b acc (nat_str n @ cs) = py_digits True (acc * 10 ^ k + int n) cs"
proof (induction n rule: nat_str.induct)
  case (1 n)
  show ?case
  proof (cases "n < 10")
    case True
    then show ?thesis by (intro exI [of _ 1]) (simp add: nat_str.simps [of n] py_digits_step mult.commute del: py_digits.simps)
  next
    case False
    with 1 obtain k where k: "\<And>b acc cs. py_digits b acc (nat_str (n div 10) @ cs) = py_digits True (acc * 10 ^ k + int (n div 10)) cs"
      by blast
    have "int n = 10 * int (n div 10) + int (n mod 10)" by presburger
    then have sum: "10 * (acc * 10 ^ k + int (n div 10)) + int (n mod 10) = acc * 10 ^ Suc k + int n" for acc by simp
    show ?thesis
    proof (intro exI allI)
      fix b acc cs
      have "py_digits b acc (nat_str n @ cs) = py_digits True (10 * (acc * 10 ^ k + int (n div 10)) + int (n mod 10)) cs"
        using False by (simp add: nat_str.simps [of n] k py_digits_step del: py_digits.simps)
      then show "py_digits b acc (nat_str n @ cs) = py_digits True (acc * 10 ^ Suc k + int n) cs" unfolding sum .
    qed
  qed
qed

lemma py_strip_dense: "\<forall>c \<in> set s. \<not> py_space c \<Longrightarrow> py_strip s = s"
proof -
  assume "\<forall>c \<in> set s. \<not> py_space c"
  then have "dropWhile py_space t = t" if "set t = set s" for t using that by (cases t) auto
  from this [of s] this [of "rev s"] show ?thesis by (simp add: py_strip_def)
qed

lemma nat_str_dense: "c \<in> set (nat_str n) \<Longrightarrow> \<not> py_space c"
  using nat_str_chars [of c n] by (auto simp: py_space_def)

lemma py_int_digits:
  assumes "\<forall>c \<in> set (nat_str n @ cs). \<not> py_space c"
  shows "py_int (nat_str n @ cs) = py_digits False 0 (nat_str n @ cs)"
proof -
  obtain c t where ct: "nat_str n = c # t" by (cases "nat_str n") auto
  have "c \<noteq> CHR ''-''" "c \<noteq> CHR ''+''" using nat_str_chars [of c n] ct by auto
  then show ?thesis unfolding py_int_def py_strip_dense [OF assms] by (simp add: ct)
qed

lemma py_int_nat_str [simp]: "py_int (nat_str n) = Some (int n)"
proof -
  obtain k where "\<And>b acc cs. py_digits b acc (nat_str n @ cs) = py_digits True (acc * 10 ^ k + int n) cs"
    using py_digits_nat_str [of n] by blast
  from this [of False 0 "[]"] py_int_digits [of n "[]"] nat_str_dense show ?thesis by simp
qed

lemma py_int_range:
  assumes "\<not> py_space c" "\<not> (48 \<le> (of_char c :: nat) \<and> (of_char c :: nat) \<le> 57)" "c \<noteq> CHR ''_''"
  shows "py_int (nat_str m @ c # nat_str n) = None"
proof -
  obtain k where k: "\<And>b acc cs. py_digits b acc (nat_str m @ cs) = py_digits True (acc * 10 ^ k + int m) cs"
    using py_digits_nat_str [of m] by blast
  have "py_int (nat_str m @ c # nat_str n) = py_digits False 0 (nat_str m @ c # nat_str n)"
    by (rule py_int_digits) (use assms(1) nat_str_dense in auto)
  also have "\<dots> = py_digits True (int m) (c # nat_str n)" by (simp add: k del: py_digits.simps)
  also have "\<dots> = None" unfolding py_digits.simps if_not_P [OF assms(2)] using assms(3) by simp
  finally show ?thesis .
qed

end
