(* ===== verification/PrioQueue.thy ===== *)
theory PrioQueue
  imports Prelude
begin

text \<open>
  The interface to the priority queue that holds the pool of connections. The code uses
  \<open>eventlet.queue.PriorityQueue\<close>, which is not part of the repository, with entries
  \<open>(priority, connection)\<close>. The locale states what the code relies on: entries come out in
  ascending order of priority as long as no two priorities are equal. A tuple comparison
  that finds equal priorities goes on to compare the connections, which raises TypeError;
  an entry that ties with the least one of the queue is always compared with it. A put that
  raises may leave the queue in any state.
\<close>

record ('q, 'a) pq =
  pq_put :: "'q \<Rightarrow> int \<Rightarrow> 'a \<Rightarrow> (py_exc \<times> 'q) + 'q"
  pq_get :: "'q \<Rightarrow> ((int \<times> 'a) \<times> 'q) option"
  pq_size :: "'q \<Rightarrow> nat"
  pq_new :: 'q

text \<open>The entries in ascending order of priority.\<close>

definition by_prio :: "(int \<times> 'a) list \<Rightarrow> bool" where
  "by_prio xs \<longleftrightarrow> sorted_wrt (<) (map fst xs)"

fun put_sorted :: "int \<times> 'a \<Rightarrow> (int \<times> 'a) list \<Rightarrow> (int \<times> 'a) list" where
  "put_sorted e [] = [e]"
| "put_sorted e (x # xs) = (if fst e < fst x then e # x # xs else x # put_sorted e xs)"

lemma put_sorted_set [simp]: "set (put_sorted e xs) = insert e (set xs)"
  by (induction xs) auto

lemma put_sorted_mset [simp]: "mset (put_sorted e xs) = add_mset e (mset xs)"
  by (induction xs) auto

lemma put_sorted_by_prio:
  "by_prio xs \<Longrightarrow> fst e \<notin> fst ` set xs \<Longrightarrow> by_prio (put_sorted e xs)"
  by (induction xs) (auto simp: by_prio_def)

lemma put_sorted_last:
  "\<forall>x \<in> set xs. fst x < fst e \<Longrightarrow> put_sorted e xs = xs @ [e]"
  by (induction xs) auto

locale prio_queue =
  fixes Q :: "('q, 'a) pq" and entries :: "'q \<Rightarrow> (int \<times> 'a) list" and ok :: "'q \<Rightarrow> bool"
  assumes entries_sorted: "ok q \<Longrightarrow> by_prio (entries q)"
    and new_ok: "ok (pq_new Q)" "entries (pq_new Q) = []"
    and size_entries: "ok q \<Longrightarrow> pq_size Q q = length (entries q)"
    and get_empty: "ok q \<Longrightarrow> entries q = [] \<Longrightarrow> pq_get Q q = None"
    and get_first: "ok q \<Longrightarrow> entries q = e # es \<Longrightarrow>
      \<exists>q'. pq_get Q q = Some (e, q') \<and> ok q' \<and> entries q' = es"
    and put_new: "ok q \<Longrightarrow> p \<notin> fst ` set (entries q) \<Longrightarrow>
      \<exists>q'. pq_put Q q p c = Inr q' \<and> ok q' \<and> entries q' = put_sorted (p, c) (entries q)"
    and put_tie: "ok q \<Longrightarrow> entries q = (p, c') # es \<Longrightarrow> \<exists>q'. pq_put Q q p c = Inl (TypeError, q')"
begin

lemma get_cases [consumes 1, case_names empty first]:
  assumes "ok q"
  obtains "entries q = []" "pq_get Q q = None"
  | e es q' where "entries q = e # es" "pq_get Q q = Some (e, q')" "ok q'" "entries q' = es"
proof (cases "entries q")
  case Nil
  with get_empty [OF assms] that(1) show thesis by blast
next
  case (Cons e es)
  with get_first [OF assms Cons] that(2) show thesis by blast
qed

end

text \<open>A list in ascending order of priority meets the contract.\<close>

definition list_pq :: "((int \<times> 'a) list, 'a) pq" where
  "list_pq =
     \<lparr>pq_put = (\<lambda>q p c. if p \<in> fst ` set q then Inl (TypeError, q) else Inr (put_sorted (p, c) q)),
      pq_get = (\<lambda>q. case q of [] \<Rightarrow> None | e # es \<Rightarrow> Some (e, es)),
      pq_size = length, pq_new = []\<rparr>"

lemma list_pq_queue: "prio_queue list_pq (\<lambda>q. q) by_prio"
  by unfold_locales (auto simp: list_pq_def by_prio_def put_sorted_by_prio [unfolded by_prio_def])

interpretation list_queue: prio_queue list_pq "\<lambda>q. q" by_prio
  by (rule list_pq_queue)

end
