(* ===== verification/ApiClient.thy ===== *)
theory ApiClient
  imports PrioQueue
begin

text \<open>
  The connection pool of the NSX API client (\<open>api_client/base.py\<close>,
  \<open>api_client/eventlet_client.py\<close>): the set of API providers with the session cookie of
  each, the priority queue of free connections, acquiring and releasing a connection, the
  connection to the target of a redirect, and the configuration generation. The queue is the
  parameter \<open>Q\<close> (theory PrioQueue), the exchange that logs a connection in is the parameter
  \<open>login\<close>, and the time of a call is the argument \<open>now\<close>. A connection is a value with the
  attributes that the code sets on the connection object.
\<close>

subsection \<open>Exceptions, connections and the client\<close>

datatype exn = Py py_exc | UnboundLocalError | SocketError | OtherError string

type_synonym conn_params = "string \<times> nat option \<times> bool"

record conn =
  cn_id :: nat
  cn_host :: string
  cn_port :: nat
  cn_ssl :: bool
  cn_last_used :: "int option"
  cn_priority :: "int option"
  cn_no_release :: bool

text \<open>The data of a provider is its login semaphore (True when free) and its session cookie.\<close>

record 'q client =
  api_providers :: "conn_params list"
  api_provider_data :: "(conn_params, bool \<times> string option) pydict"
  concurrent_connections :: nat
  config_gen_raw :: "int option"
  config_gen_ts :: "int option"
  gen_timeout :: int
  conn_pool :: 'q
  next_conn_priority :: int
  next_conn_id :: nat

text \<open>\<open>http.client\<close> resolves a missing port to the default of the scheme when the connection
  object is made.\<close>

definition default_port :: "bool \<Rightarrow> nat" where
  "default_port is_ssl = (if is_ssl then 443 else 80)"

fun create_connection :: "'q client \<Rightarrow> conn_params \<Rightarrow> conn \<times> 'q client" where
  "create_connection cl (host, port, is_ssl) =
     (\<lparr>cn_id = next_conn_id cl, cn_host = host,
        cn_port = (case port of None \<Rightarrow> default_port is_ssl | Some p \<Rightarrow> p), cn_ssl = is_ssl,
        cn_last_used = None, cn_priority = None, cn_no_release = False\<rparr>,
      cl\<lparr>next_conn_id := Suc (next_conn_id cl)\<rparr>)"

definition conn_params :: "conn \<Rightarrow> conn_params" where
  "conn_params c = (cn_host c, Some (cn_port c), cn_ssl c)"

fun normalize_conn_params :: "conn_params \<Rightarrow> conn_params" where
  "normalize_conn_params (host, port, is_ssl) =
     (host, (case port of None \<Rightarrow> Some (if is_ssl then 443 else 80) | Some p \<Rightarrow> Some p), is_ssl)"

definition get_provider_data :: "'q client \<Rightarrow> conn_params \<Rightarrow> (bool \<times> string option) option" where
  "get_provider_data cl params = map_of (api_provider_data cl) (normalize_conn_params params)"

definition set_provider_data :: "'q client \<Rightarrow> conn_params \<Rightarrow> bool \<times> string option \<Rightarrow> 'q client" where
  "set_provider_data cl params data =
     cl\<lparr>api_provider_data := AList.update (normalize_conn_params params) data (api_provider_data cl)\<rparr>"

subsection \<open>Session cookies and the configuration generation\<close>

definition auth_cookie :: "'q client \<Rightarrow> conn \<Rightarrow> string option" where
  "auth_cookie cl c =
     (case get_provider_data cl (conn_params c) of None \<Rightarrow> None | Some data \<Rightarrow> snd data)"

definition set_auth_cookie :: "'q client \<Rightarrow> conn \<Rightarrow> string option \<Rightarrow> 'q client" where
  "set_auth_cookie cl c cookie =
     (case get_provider_data cl (conn_params c) of
        None \<Rightarrow> cl
      | Some data \<Rightarrow> set_provider_data cl (conn_params c) (fst data, cookie))"

definition config_gen :: "'q client \<Rightarrow> int \<Rightarrow> int option" where
  "config_gen cl now =
     (if gen_timeout cl \<noteq> -1 then
        (case config_gen_ts cl of
           Some ts \<Rightarrow> if now - ts > gen_timeout cl then None else config_gen_raw cl
         | None \<Rightarrow> config_gen_raw cl)
      else config_gen_raw cl)"

definition set_config_gen :: "'q client \<Rightarrow> int \<Rightarrow> int option \<Rightarrow> 'q client" where
  "set_config_gen cl now v =
     (let cl = (if config_gen_raw cl \<noteq> v \<and> gen_timeout cl \<noteq> -1
                then cl\<lparr>config_gen_ts := Some now\<rparr> else cl)
      in cl\<lparr>config_gen_raw := v\<rparr>)"

text \<open>A login goes on if the semaphore of the provider is free, and gives it back also when
  the login raises. When another green thread holds it, the call waits for that login to end
  and changes nothing itself.\<close>

definition wait_for_login :: "(conn \<Rightarrow> exn + string option) \<Rightarrow> 'q client \<Rightarrow> conn \<Rightarrow> exn option \<times> 'q client" where
  "wait_for_login login cl c =
     (case get_provider_data cl (conn_params c) of
        None \<Rightarrow> (None, cl)
      | Some (free, _) \<Rightarrow>
          if free then
            (case login c of
               Inl e \<Rightarrow> (Some e, cl)
             | Inr cookie \<Rightarrow> (None, set_auth_cookie cl c cookie))
          else (None, cl))"

subsection \<open>The pool\<close>

text \<open>The constructor: \<open>concurrent_connections\<close> connections to every provider, with ascending
  priorities from 1.\<close>

fun fill_pool :: "('q, conn) pq \<Rightarrow> 'q client \<Rightarrow> conn_params list \<Rightarrow> exn + 'q client" where
  "fill_pool Q cl [] = Inr cl"
| "fill_pool Q cl (p # ps) =
     (let (c, cl) = create_connection cl p
      in case pq_put Q (conn_pool cl) (next_conn_priority cl) c of
           Inl (e, _) \<Rightarrow> Inl (Py e)
         | Inr q \<Rightarrow> fill_pool Q (cl\<lparr>conn_pool := q, next_conn_priority := next_conn_priority cl + 1\<rparr>) ps)"

definition new_client :: "('q, conn) pq \<Rightarrow> conn_params list \<Rightarrow> nat \<Rightarrow> int \<Rightarrow> exn + 'q client" where
  "new_client Q providers concurrent timeout =
     (let cl = \<lparr>api_providers = remdups providers, api_provider_data = [],
                concurrent_connections = concurrent, config_gen_raw = None, config_gen_ts = None,
                gen_timeout = timeout, conn_pool = pq_new Q, next_conn_priority = 1, next_conn_id = 0\<rparr>;
          cl = fold (\<lambda>p cl. set_provider_data cl p (True, None)) (remdups providers) cl
      in fill_pool Q cl (concat (replicate concurrent providers)))"

datatype acquired = Got conn | No_providers | Blocked | Raised exn

definition acquire_connection :: "('q, conn) pq \<Rightarrow> (conn \<Rightarrow> exn + string option) \<Rightarrow> 'q client \<Rightarrow> bool \<Rightarrow>
    int \<Rightarrow> int \<Rightarrow> acquired \<times> 'q client" where
  "acquire_connection Q login cl auto_login now conn_idle_timeout =
     (if api_providers cl = [] then (No_providers, cl)
      else case pq_get Q (conn_pool cl) of
        None \<Rightarrow> (Blocked, cl)
      | Some ((priority, c), q) \<Rightarrow>
          let cl = cl\<lparr>conn_pool := q\<rparr>;
              (c, cl) = (if (case cn_last_used c of None \<Rightarrow> now | Some l \<Rightarrow> l) < now - conn_idle_timeout
                         then create_connection cl (conn_params c) else (c, cl));
              c = c\<lparr>cn_last_used := Some now, cn_priority := Some priority\<rparr>
          in if auto_login \<and> auth_cookie cl c = None
             then (case wait_for_login login cl c of
                 (Some e, cl) \<Rightarrow> (Raised e, cl)
               | (None, cl) \<Rightarrow> (Got c, cl))
             else (Got c, cl))"

text \<open>The two loops of a release after a 503: the pool is emptied, with new priorities for the
  connections to the same provider, and filled again. \<open>n\<close> bounds the iterations; it is the
  size of the queue at the call.\<close>

fun drain_pool :: "('q, conn) pq \<Rightarrow> conn_params \<Rightarrow> nat \<Rightarrow> 'q \<Rightarrow> int \<Rightarrow> (int \<times> conn) list \<times> 'q \<times> int" where
  "drain_pool Q params 0 q next = ([], q, next)"
| "drain_pool Q params (Suc n) q next =
     (case pq_get Q q of
        None \<Rightarrow> ([], q, next)
      | Some ((priority, c), q') \<Rightarrow>
          let (priority, next) = (if conn_params c = params then (next, next + 1) else (priority, next));
              (conns, q'', next) = drain_pool Q params n q' next
          in ((priority, c) # conns, q'', next))"

fun put_all :: "('q, 'a) pq \<Rightarrow> 'q \<Rightarrow> (int \<times> 'a) list \<Rightarrow> (py_exc \<times> 'q) + 'q" where
  "put_all Q q [] = Inr q"
| "put_all Q q ((priority, c) # cs) = bind_res (pq_put Q q priority c) (\<lambda>q. put_all Q q cs)"

definition release_connection :: "('q, conn) pq \<Rightarrow> 'q client \<Rightarrow> conn \<Rightarrow> bool \<Rightarrow> bool \<Rightarrow>
    (exn \<times> 'q client) + 'q client" where
  "release_connection Q cl http_conn bad_state service_unavail =
     (if conn_params http_conn \<notin> set (api_providers cl) then Inr cl
      else if cn_no_release http_conn then Inr cl
      else case cn_priority http_conn of
        None \<Rightarrow> Inl (Py AttributeError, cl)
      | Some priority \<Rightarrow>
          if bad_state then
            let (c, cl) = create_connection cl (conn_params http_conn)
            in (case pq_put Q (conn_pool cl) priority c of
                  Inl (e, q) \<Rightarrow> Inl (Py e, cl\<lparr>conn_pool := q\<rparr>)
                | Inr q \<Rightarrow> Inr (cl\<lparr>conn_pool := q\<rparr>))
          else if service_unavail then
            let (conns, q, next) = drain_pool Q (conn_params http_conn) (pq_size Q (conn_pool cl))
                  (conn_pool cl) (next_conn_priority cl)
            in (case put_all Q q conns of
                  Inl (e, q) \<Rightarrow> Inl (Py e, cl\<lparr>conn_pool := q, next_conn_priority := next\<rparr>)
                | Inr q \<Rightarrow>
                    (case pq_put Q q next http_conn of
                       Inl (e, q) \<Rightarrow> Inl (Py e, cl\<lparr>conn_pool := q, next_conn_priority := next + 1\<rparr>)
                     | Inr q \<Rightarrow> Inr (cl\<lparr>conn_pool := q, next_conn_priority := next + 1\<rparr>)))
          else
            (case pq_put Q (conn_pool cl) priority http_conn of
               Inl (e, q) \<Rightarrow> Inl (Py e, cl\<lparr>conn_pool := q\<rparr>)
             | Inr q \<Rightarrow> Inr (cl\<lparr>conn_pool := q\<rparr>)))"

subsection \<open>Connections to the target of a redirect\<close>

text \<open>The loop over the pool that looks for a free connection to the target. Its last
  component is the variable \<open>conn\<close> after the loop, the connection taken out last.\<close>

fun search_pool :: "('q, conn) pq \<Rightarrow> conn_params \<Rightarrow> nat \<Rightarrow> 'q \<Rightarrow> conn option \<Rightarrow> conn option \<Rightarrow>
    conn option \<times> (int \<times> conn) list \<times> 'q \<times> conn option" where
  "search_pool Q params 0 q result lst = (result, [], q, lst)"
| "search_pool Q params (Suc n) q result lst =
     (case pq_get Q q of
        None \<Rightarrow> (result, [], q, lst)
      | Some ((priority, c), q') \<Rightarrow>
          if result = None \<and> conn_params c = params then
            let c = c\<lparr>cn_priority := Some priority\<rparr>
            in search_pool Q params n q' (Some c) (Some c)
          else
            let (result, conns, q'', lst) = search_pool Q params n q' result (Some c)
            in (result, (priority, c) # conns, q'', lst))"

text \<open>New connections of priority 0; the last one made is not put into the pool.\<close>

fun new_redirect_conns :: "('q, conn) pq \<Rightarrow> 'q client \<Rightarrow> conn_params \<Rightarrow> nat \<Rightarrow>
    (exn \<times> 'q client) + conn option \<times> 'q client" where
  "new_redirect_conns Q cl params 0 = Inr (None, cl)"
| "new_redirect_conns Q cl params (Suc n) =
     (let (c, cl) = create_connection cl params; c = c\<lparr>cn_priority := Some 0\<rparr>
      in if n = 0 then Inr (Some c, cl)
         else case pq_put Q (conn_pool cl) 0 c of
             Inl (e, q) \<Rightarrow> Inl (Py e, cl\<lparr>conn_pool := q\<rparr>)
           | Inr q \<Rightarrow> new_redirect_conns Q (cl\<lparr>conn_pool := q\<rparr>) params n)"

text \<open>The variable \<open>conn\<close> whose cookie decides about the login: after the loop that refills
  the pool it is the last connection put back, or, if none was, the last one taken out.\<close>

definition acquire_redirect_connection :: "('q, conn) pq \<Rightarrow> (conn \<Rightarrow> exn + string option) \<Rightarrow> 'q client \<Rightarrow>
    conn_params \<Rightarrow> bool \<Rightarrow> int \<Rightarrow> (exn \<times> 'q client) + conn \<times> 'q client" where
  "acquire_redirect_connection Q login cl params auto_login now =
     bind_res
       (case get_provider_data cl params of
          Some data \<Rightarrow>
            let (result, conns, q, lst) = search_pool Q params (pq_size Q (conn_pool cl)) (conn_pool cl) None None
            in (case put_all Q q conns of
                  Inl (e, q) \<Rightarrow> Inl (Py e, cl\<lparr>conn_pool := q\<rparr>)
                | Inr q \<Rightarrow>
                    let cl = cl\<lparr>conn_pool := q\<rparr>;
                        lst = (if conns = [] then lst else Some (snd (last conns)))
                    in (case result of
                          Some c \<Rightarrow> Inr (c, lst, cl)
                        | None \<Rightarrow>
                            let (c, cl) = create_connection cl params;
                                c = c\<lparr>cn_priority := Some 0, cn_no_release := True\<rparr>
                            in Inr (c, Some c, cl)))
        | None \<Rightarrow>
            let cl = cl\<lparr>api_providers := List.insert params (api_providers cl)\<rparr>;
                cl = set_provider_data cl params (True, None)
            in (case new_redirect_conns Q cl params (concurrent_connections cl) of
                  Inl e \<Rightarrow> Inl e
                | Inr (None, cl) \<Rightarrow> Inl (UnboundLocalError, cl)
                | Inr (Some c, cl) \<Rightarrow> Inr (c, Some c, cl)))
       (\<lambda>(result, lst, cl).
          let result = result\<lparr>cn_last_used := Some now\<rparr>
          in if auto_login \<and> (case lst of None \<Rightarrow> True | Some c \<Rightarrow> auth_cookie cl c = None)
             then (case wait_for_login login cl result of
                 (Some e, cl) \<Rightarrow> Inl (e, cl)
               | (None, cl) \<Rightarrow> Inr (result, cl))
             else Inr (result, cl))"

subsection \<open>The pool as a multiset of entries\<close>

locale conn_queue = prio_queue Q entries ok
  for Q :: "('q, conn) pq" and entries :: "'q \<Rightarrow> (int \<times> conn) list" and ok :: "'q \<Rightarrow> bool"
begin

lemma entries_distinct: "ok q \<Longrightarrow> distinct (map fst (entries q))"
  using entries_sorted [of q] by (auto simp: by_prio_def strict_sorted_iff)

lemma put_all_ok:
  assumes "ok q" "distinct (map fst cs)" "fst ` set cs \<inter> fst ` set (entries q) = {}"
  shows "\<exists>q'. put_all Q q cs = Inr q' \<and> ok q' \<and> mset (entries q') = mset cs + mset (entries q)"
  using assms
proof (induction cs arbitrary: q)
  case (Cons e cs)
  obtain p c where e: "e = (p, c)" by fastforce
  then obtain q1 where q1: "pq_put Q q p c = Inr q1" "ok q1" "entries q1 = put_sorted (p, c) (entries q)"
    using put_new [OF Cons.prems(1), of p c] Cons.prems(3) by auto
  then have "fst ` set cs \<inter> fst ` set (entries q1) = {}" using Cons.prems(2,3) e by auto
  from Cons.IH [OF q1(2) _ this] Cons.prems(2) q1 e show ?case by auto
qed simp

text \<open>Draining empties the queue and gives the connections to one provider fresh
  priorities from \<open>next\<close> on; the others keep theirs.\<close>

definition reprio :: "conn_params \<Rightarrow> int \<Rightarrow> (int \<times> conn) list \<Rightarrow> (int \<times> conn) list \<Rightarrow> int \<Rightarrow> bool" where
  "reprio params next es cs next' \<longleftrightarrow> map snd cs = map snd es \<and> next \<le> next' \<and>
     distinct (map fst cs) \<and>
     (\<forall>(p, c) \<in> set cs. if conn_params c = params then next \<le> p \<and> p < next' else (p, c) \<in> set es)"

lemma reprio_lift: "reprio params n es cs n' \<Longrightarrow> p < n \<Longrightarrow> p \<notin> fst ` set es \<Longrightarrow> conn_params c \<noteq> params \<Longrightarrow>
    reprio params n ((p, c) # es) ((p, c) # cs) n'"
  unfolding reprio_def by (auto simp: image_iff split: if_splits; fastforce)

lemma reprio_fresh: "reprio params (n + 1) es cs n' \<Longrightarrow> \<forall>e \<in> set es. fst e < n \<Longrightarrow> conn_params c = params \<Longrightarrow>
    reprio params n ((p, c) # es) ((n, c) # cs) n'"
  unfolding reprio_def by (auto simp: image_iff split: if_splits; fastforce)

lemma drain_pool_ok:
  assumes "ok q" "length (entries q) \<le> n" "\<forall>e \<in> set (entries q). fst e < next"
  shows "\<exists>cs q' next'. drain_pool Q params n q next = (cs, q', next') \<and> ok q' \<and> entries q' = [] \<and>
    reprio params next (entries q) cs next'"
  using assms
proof (induction n arbitrary: q "next")
  case 0
  then show ?case by (simp add: reprio_def)
next
  case (Suc n)
  from Suc.prems(1) show ?case
  proof (cases rule: get_cases)
    case empty
    then show ?thesis using Suc.prems(1) by (simp add: reprio_def)
  next
    case (first e es q1)
    obtain p c where e: "e = (p, c)" by fastforce
    have "distinct (map fst (entries q))" using entries_distinct [OF Suc.prems(1)] .
    then have p: "p \<notin> fst ` set es" "p < next" using first(1) e Suc.prems(3) by auto
    define next1 where "next1 = (if conn_params c = params then next + 1 else next)"
    have "\<forall>e \<in> set (entries q1). fst e < next1" using Suc.prems(3) first(1,4) by (auto simp: next1_def)
    then obtain cs q' next' where IH: "drain_pool Q params n q1 next1 = (cs, q', next')" "ok q'"
      "entries q' = []" "reprio params next1 (entries q1) cs next'"
      using Suc.IH [OF first(3), of next1] Suc.prems(2) first(1,4) by auto
    show ?thesis
    proof (cases "conn_params c = params")
      case True
      moreover have "\<forall>e \<in> set es. fst e < next" using Suc.prems(3) first(1) by simp
      ultimately have "reprio params next ((p, c) # es) ((next, c) # cs) next'"
        using reprio_fresh [of params "next" es cs next' c p] IH(4) first(4) by (simp add: next1_def)
      then show ?thesis using True IH first e by (simp add: next1_def)
    next
      case False
      then have "reprio params next ((p, c) # es) ((p, c) # cs) next'"
        using reprio_lift [of params "next" es cs next' p c] IH(4) first(4) p by (simp add: next1_def)
      then show ?thesis using False IH first e by (simp add: next1_def)
    qed
  qed
qed

text \<open>Searching takes out every entry and sets the first connection to the target aside.\<close>

lemma search_pool_found:
  assumes "ok q" "length (entries q) \<le> n"
  shows "\<exists>q' l'. search_pool Q params n q (Some c) l = (Some c, entries q, q', l') \<and> ok q' \<and> entries q' = []"
  using assms
proof (induction n arbitrary: q l)
  case (Suc n)
  from Suc.prems(1) show ?case
  proof (cases rule: get_cases)
    case (first e es q1)
    then show ?thesis using Suc.IH [of q1 "Some (snd e)"] Suc.prems(2) by (cases e) fastforce
  qed (use Suc.prems in auto)
qed simp

lemma search_pool_ok:
  assumes "ok q" "length (entries q) \<le> n"
  shows "\<exists>r cs q' l'. search_pool Q params n q None l = (r, cs, q', l') \<and> ok q' \<and> entries q' = [] \<and>
    (case r of
       None \<Rightarrow> cs = entries q \<and> (\<forall>e \<in> set (entries q). conn_params (snd e) \<noteq> params)
     | Some c \<Rightarrow> conn_params c = params \<and> (\<exists>p c0. c = c0\<lparr>cn_priority := Some p\<rparr> \<and>
         mset (entries q) = add_mset (p, c0) (mset cs)))"
  using assms
proof (induction n arbitrary: q l)
  case (Suc n)
  from Suc.prems(1) show ?case
  proof (cases rule: get_cases)
    case (first e es q1)
    obtain p c where e: "e = (p, c)" by fastforce
    have len: "length (entries q1) \<le> n" using Suc.prems(2) first by simp
    show ?thesis
    proof (cases "conn_params c = params")
      case True
      have "conn_params (c\<lparr>cn_priority := Some p\<rparr>) = params" using True by (simp add: conn_params_def)
      moreover obtain q' l' where
        "search_pool Q params n q1 (Some (c\<lparr>cn_priority := Some p\<rparr>)) (Some (c\<lparr>cn_priority := Some p\<rparr>)) =
         (Some (c\<lparr>cn_priority := Some p\<rparr>), entries q1, q', l')" "ok q'" "entries q' = []"
        using search_pool_found [OF first(3) len] by blast
      ultimately show ?thesis using True first e by (auto simp: Let_def)
    next
      case False
      obtain r cs q' l' where IH: "search_pool Q params n q1 None (Some c) = (r, cs, q', l')" "ok q'" "entries q' = []"
        "case r of
           None \<Rightarrow> cs = entries q1 \<and> (\<forall>e \<in> set (entries q1). conn_params (snd e) \<noteq> params)
         | Some c \<Rightarrow> conn_params c = params \<and> (\<exists>p c0. c = c0\<lparr>cn_priority := Some p\<rparr> \<and>
             mset (entries q1) = add_mset (p, c0) (mset cs))"
        using Suc.IH [OF first(3) len, of "Some c"] by blast
      then have eq: "search_pool Q params (Suc n) q None l = (r, (p, c) # cs, q', l')"
        using first(2) e False by simp
      show ?thesis unfolding eq using IH first e False by (cases r) auto
    qed
  qed (use Suc.prems in auto)
qed simp

end

subsection \<open>No connection is lost\<close>

text \<open>The stock of connections: those in the pool and those checked out. The extra
  connections that a redirect makes when all are in use do not count.\<close>

definition stock :: "('q \<Rightarrow> (int \<times> conn) list) \<Rightarrow> 'q client \<Rightarrow> conn list \<Rightarrow> conn_params multiset" where
  "stock entries cl out =
     mset (map (\<lambda>e. conn_params (snd e)) (entries (conn_pool cl))) +
     mset (map conn_params (filter (\<lambda>c. \<not> cn_no_release c) out))"

definition out_prios :: "conn list \<Rightarrow> int list" where
  "out_prios out = map (\<lambda>c. the (cn_priority c)) (filter (\<lambda>c. \<not> cn_no_release c) out)"

definition pool_ok :: "('q \<Rightarrow> (int \<times> conn) list) \<Rightarrow> ('q \<Rightarrow> bool) \<Rightarrow> 'q client \<Rightarrow> conn list \<Rightarrow> bool" where
  "pool_ok entries ok cl out \<longleftrightarrow>
     ok (conn_pool cl) \<and>
     (\<forall>e \<in> set (entries (conn_pool cl)). fst e < next_conn_priority cl \<and>
        conn_params (snd e) \<in> set (api_providers cl) \<and> \<not> cn_no_release (snd e)) \<and>
     (\<forall>c \<in> set out. cn_no_release c \<or> conn_params c \<in> set (api_providers cl) \<and>
        (\<exists>p. cn_priority c = Some p \<and> p < next_conn_priority cl)) \<and>
     distinct (map fst (entries (conn_pool cl)) @ out_prios out)"

lemma create_connection_params [simp]:
  "conn_params (fst (create_connection cl p)) = normalize_conn_params p"
  "\<not> cn_no_release (fst (create_connection cl p))"
  by (cases p; auto simp: conn_params_def default_port_def split: option.splits)+

lemma normalize_conn [simp]: "normalize_conn_params (conn_params c) = conn_params c"
  by (simp add: conn_params_def)

lemma conn_params_update [simp]:
  "conn_params (c\<lparr>cn_last_used := l\<rparr>) = conn_params c"
  "conn_params (c\<lparr>cn_priority := p\<rparr>) = conn_params c"
  "conn_params (c\<lparr>cn_no_release := b\<rparr>) = conn_params c"
  by (simp_all add: conn_params_def)

lemma client_frames [simp]:
  "conn_pool (snd (create_connection cl p)) = conn_pool cl"
  "api_providers (snd (create_connection cl p)) = api_providers cl"
  "next_conn_priority (snd (create_connection cl p)) = next_conn_priority cl"
  "concurrent_connections (snd (create_connection cl p)) = concurrent_connections cl"
  "conn_pool (set_provider_data cl p d) = conn_pool cl"
  "api_providers (set_provider_data cl p d) = api_providers cl"
  "next_conn_priority (set_provider_data cl p d) = next_conn_priority cl"
  "concurrent_connections (set_provider_data cl p d) = concurrent_connections cl"
  by (cases p; simp add: set_provider_data_def)+

lemma set_auth_cookie_frames [simp]:
  "conn_pool (set_auth_cookie cl c d) = conn_pool cl"
  "api_providers (set_auth_cookie cl c d) = api_providers cl"
  "next_conn_priority (set_auth_cookie cl c d) = next_conn_priority cl"
  "concurrent_connections (set_auth_cookie cl c d) = concurrent_connections cl"
  by (auto simp: set_auth_cookie_def split: option.splits)

lemma wait_for_login_frames [simp]:
  "conn_pool (snd (wait_for_login login cl c)) = conn_pool cl"
  "api_providers (snd (wait_for_login login cl c)) = api_providers cl"
  "next_conn_priority (snd (wait_for_login login cl c)) = next_conn_priority cl"
  "concurrent_connections (snd (wait_for_login login cl c)) = concurrent_connections cl"
  by (auto simp: wait_for_login_def split: option.splits sum.splits)

lemma wait_for_login_snd:
  assumes "wait_for_login login cl c = (r, cl')"
  shows "conn_pool cl' = conn_pool cl \<and> api_providers cl' = api_providers cl \<and>
    next_conn_priority cl' = next_conn_priority cl"
  using wait_for_login_frames [of login cl c] assms by simp

lemma stock_cong: "conn_pool cl' = conn_pool cl \<Longrightarrow> stock entries cl' out = stock entries cl out"
  by (simp add: stock_def)

lemma pool_ok_cong:
  "conn_pool cl' = conn_pool cl \<Longrightarrow> api_providers cl' = api_providers cl \<Longrightarrow>
   next_conn_priority cl' = next_conn_priority cl \<Longrightarrow> pool_ok entries ok cl' out = pool_ok entries ok cl out"
  by (simp add: pool_ok_def)

text \<open>Taking a connection out of the pool and putting one back, whatever becomes of its
  timestamp or of the connection object.\<close>

lemma pool_ok_take:
  assumes "pool_ok entries ok cl out" "mset (entries (conn_pool cl)) = add_mset (p, c) (mset (entries q))" "ok q"
    "conn_params c' = conn_params c" "\<not> cn_no_release c'" "cn_priority c' = Some p"
  shows "pool_ok entries ok (cl\<lparr>conn_pool := q\<rparr>) (c' # out)"
    "stock entries (cl\<lparr>conn_pool := q\<rparr>) (c' # out) = stock entries cl out"
proof -
  have s: "set (entries (conn_pool cl)) = insert (p, c) (set (entries q))"
    using arg_cong [OF assms(2), of set_mset] by simp
  have "mset (map fst (entries (conn_pool cl)) @ out_prios out) = mset (map fst (entries q) @ p # out_prios out)"
    using arg_cong [OF assms(2), of "image_mset fst"] by simp
  then have "distinct (map fst (entries q) @ p # out_prios out)"
    using assms(1) unfolding pool_ok_def by (metis mset_eq_imp_distinct_iff)
  then show "pool_ok entries ok (cl\<lparr>conn_pool := q\<rparr>) (c' # out)"
    using assms(1,3-6) s by (auto simp: pool_ok_def out_prios_def)
  show "stock entries (cl\<lparr>conn_pool := q\<rparr>) (c' # out) = stock entries cl out"
    using arg_cong [OF assms(2), of "image_mset (\<lambda>e. conn_params (snd e))"] assms(4,5)
    by (simp add: stock_def)
qed

lemma pool_ok_give:
  assumes "pool_ok entries ok cl (c # out)" "\<not> cn_no_release c" "cn_priority c = Some p" "ok q"
    "mset (entries q) = add_mset (p, c') (mset (entries (conn_pool cl)))"
    "conn_params c' = conn_params c" "\<not> cn_no_release c'"
  shows "pool_ok entries ok (cl\<lparr>conn_pool := q\<rparr>) out"
    "stock entries (cl\<lparr>conn_pool := q\<rparr>) out = stock entries cl (c # out)"
proof -
  have s: "set (entries q) = insert (p, c') (set (entries (conn_pool cl)))"
    using arg_cong [OF assms(5), of set_mset] by simp
  have "mset (map fst (entries q) @ out_prios out) = mset (map fst (entries (conn_pool cl)) @ out_prios (c # out))"
    using arg_cong [OF assms(5), of "image_mset fst"] assms(2,3) by (simp add: out_prios_def)
  then have "distinct (map fst (entries q) @ out_prios out)"
    using assms(1) unfolding pool_ok_def by (metis mset_eq_imp_distinct_iff)
  then show "pool_ok entries ok (cl\<lparr>conn_pool := q\<rparr>) out"
    using assms s by (auto simp: pool_ok_def)
  show "stock entries (cl\<lparr>conn_pool := q\<rparr>) out = stock entries cl (c # out)"
    using arg_cong [OF assms(5), of "image_mset (\<lambda>e. conn_params (snd e))"] assms(2,6)
    by (simp add: stock_def)
qed

lemma pool_ok_mset: "mset out = mset out' \<Longrightarrow> pool_ok entries ok cl out = pool_ok entries ok cl out'"
proof -
  assume m: "mset out = mset out'"
  have "mset (map fst es @ out_prios out) = mset (map fst es @ out_prios out')" for es :: "(int \<times> conn) list"
    using m by (simp add: out_prios_def)
  then have "distinct (map fst es @ out_prios out) = distinct (map fst es @ out_prios out')"
    for es :: "(int \<times> conn) list" by (metis mset_eq_imp_distinct_iff)
  moreover have "set out = set out'" using m by (metis set_mset_mset)
  ultimately show ?thesis by (simp add: pool_ok_def)
qed

lemma stock_mset: "mset out = mset out' \<Longrightarrow> stock entries cl out = stock entries cl out'"
  by (simp add: stock_def)

context conn_queue
begin

lemma acquire_ok:
  assumes "acquire_connection Q login cl auto now idle = (Got c, cl')" "pool_ok entries ok cl out"
  shows "pool_ok entries ok cl' (c # out) \<and> stock entries cl' (c # out) = stock entries cl out \<and>
    api_providers cl' = api_providers cl \<and> \<not> cn_no_release c"
proof -
  have ok: "ok (conn_pool cl)" using assms(2) by (simp add: pool_ok_def)
  from assms(1) obtain e q where "pq_get Q (conn_pool cl) = Some (e, q)"
    by (auto simp: acquire_connection_def split: if_splits option.splits)
  with ok obtain es where q: "entries (conn_pool cl) = e # es" "pq_get Q (conn_pool cl) = Some (e, q)" "ok q"
    "entries q = es" by (cases rule: get_cases) auto
  obtain p c0 where e: "e = (p, c0)" by fastforce
  define old where "old \<longleftrightarrow> (case cn_last_used c0 of None \<Rightarrow> now | Some l \<Rightarrow> l) < now - idle"
  define r where "r = (if old then create_connection (cl\<lparr>conn_pool := q\<rparr>) (conn_params c0) else (c0, cl\<lparr>conn_pool := q\<rparr>))"
  define c1 where "c1 = (fst r)\<lparr>cn_last_used := Some now, cn_priority := Some p\<rparr>"
  have nr: "\<not> cn_no_release c0" using assms(2) q(1) e by (simp add: pool_ok_def)
  have c1: "conn_params c1 = conn_params c0" "\<not> cn_no_release c1" "cn_priority c1 = Some p"
    using nr by (simp_all add: c1_def r_def)
  have r2: "conn_pool (snd r) = q" "api_providers (snd r) = api_providers cl"
    "next_conn_priority (snd r) = next_conn_priority cl" by (simp_all add: r_def)
  have "acquire_connection Q login cl auto now idle = (case r of (c, cl) \<Rightarrow>
      let c = c\<lparr>cn_last_used := Some now, cn_priority := Some p\<rparr>
      in if auto \<and> auth_cookie cl c = None then
         (case wait_for_login login cl c of (Some e, cl) \<Rightarrow> (Raised e, cl) | (None, cl) \<Rightarrow> (Got c, cl))
       else (Got c, cl))" if "api_providers cl \<noteq> []"
    using q(2) e that by (simp add: acquire_connection_def r_def old_def Let_def)
  then have "acquire_connection Q login cl auto now idle =
      (if auto \<and> auth_cookie (snd r) c1 = None then
         (case wait_for_login login (snd r) c1 of (Some e, cl) \<Rightarrow> (Raised e, cl) | (None, cl) \<Rightarrow> (Got c1, cl))
       else (Got c1, snd r))" if "api_providers cl \<noteq> []"
    using that unfolding c1_def Let_def case_prod_unfold .
  moreover have "api_providers cl \<noteq> []" using assms(1) by (auto simp: acquire_connection_def)
  ultimately have res: "c = c1" "cl' = snd r \<or> cl' = snd (wait_for_login login (snd r) c1)"
    using assms(1) by (auto split: if_splits prod.splits option.splits)
  then have f: "conn_pool cl' = conn_pool (cl\<lparr>conn_pool := q\<rparr>)" "api_providers cl' = api_providers (cl\<lparr>conn_pool := q\<rparr>)"
    "next_conn_priority cl' = next_conn_priority (cl\<lparr>conn_pool := q\<rparr>)" using r2 by auto
  have "mset (entries (conn_pool cl)) = add_mset (p, c0) (mset (entries q))" using q e by simp
  from pool_ok_take [OF assms(2) this q(3) c1] show ?thesis
    using pool_ok_cong [OF f] stock_cong [OF f(1)] res(1) f(2) c1(2) by simp
qed

lemma acquire_takes_first:
  assumes "acquire_connection Q login cl auto now idle = (Got c, cl')" "ok (conn_pool cl)"
    "entries (conn_pool cl) = e # es"
  shows "conn_params c = conn_params (snd e)"
proof -
  from get_first [OF assms(2,3)] obtain q where q: "pq_get Q (conn_pool cl) = Some (e, q)" by blast
  obtain p c0 where e: "e = (p, c0)" by fastforce
  obtain r where r: "acquire_connection Q login cl auto now idle = (case r of (c, cl) \<Rightarrow>
      let c = c\<lparr>cn_last_used := Some now, cn_priority := Some p\<rparr>
      in if auto \<and> auth_cookie cl c = None then
         (case wait_for_login login cl c of (Some e, cl) \<Rightarrow> (Raised e, cl) | (None, cl) \<Rightarrow> (Got c, cl))
       else (Got c, cl))" "conn_params (fst r) = conn_params c0"
  proof (rule that)
    let ?r = "if (case cn_last_used c0 of None \<Rightarrow> now | Some l \<Rightarrow> l) < now - idle
      then create_connection (cl\<lparr>conn_pool := q\<rparr>) (conn_params c0) else (c0, cl\<lparr>conn_pool := q\<rparr>)"
    have "api_providers cl \<noteq> []" using assms(1) by (auto simp: acquire_connection_def)
    then show "acquire_connection Q login cl auto now idle = (case ?r of (c, cl) \<Rightarrow>
      let c = c\<lparr>cn_last_used := Some now, cn_priority := Some p\<rparr>
      in if auto \<and> auth_cookie cl c = None then
         (case wait_for_login login cl c of (Some e, cl) \<Rightarrow> (Raised e, cl) | (None, cl) \<Rightarrow> (Got c, cl))
       else (Got c, cl))"
      using q e by (simp add: acquire_connection_def Let_def)
    show "conn_params (fst ?r) = conn_params c0" by simp
  qed
  then have "c = (fst r)\<lparr>cn_last_used := Some now, cn_priority := Some p\<rparr>"
    using assms(1) by (cases r) (auto simp: Let_def split: if_splits prod.splits option.splits)
  then show ?thesis using r(2) e by simp
qed

lemma put_mset: "ok q \<Longrightarrow> p \<notin> fst ` set (entries q) \<Longrightarrow>
    \<exists>q'. pq_put Q q p c = Inr q' \<and> ok q' \<and> mset (entries q') = add_mset (p, c) (mset (entries q))"
  using put_new [of q p c] by auto

lemma release_unavail:
  assumes "pool_ok entries ok cl (c # out)" "\<not> cn_no_release c"
  shows "\<exists>cs q2 n'. release_connection Q cl c False True =
      Inr (cl\<lparr>conn_pool := q2, next_conn_priority := n' + 1\<rparr>) \<and> ok q2 \<and>
    mset (entries q2) = add_mset (n', c) (mset cs) \<and>
    reprio (conn_params c) (next_conn_priority cl) (entries (conn_pool cl)) cs n' \<and>
    (\<forall>e \<in> set cs. fst e < n')"
proof -
  let ?es = "entries (conn_pool cl)" and ?n = "next_conn_priority cl"
  from assms obtain p where p: "cn_priority c = Some p" "conn_params c \<in> set (api_providers cl)"
    by (auto simp: pool_ok_def)
  have ok: "ok (conn_pool cl)" and lt: "\<forall>e \<in> set ?es. fst e < ?n" using assms(1) by (simp_all add: pool_ok_def)
  from drain_pool_ok [OF ok order_refl lt, of "conn_params c"] obtain cs q n' where
    d: "drain_pool Q (conn_params c) (length ?es) (conn_pool cl) ?n = (cs, q, n')" "ok q" "entries q = []"
      "reprio (conn_params c) ?n ?es cs n'" by blast
  then obtain q1 where q1: "put_all Q q cs = Inr q1" "ok q1" "mset (entries q1) = mset cs"
    using put_all_ok [OF d(2), of cs] by (auto simp: reprio_def)
  have csn: "\<forall>e \<in> set cs. fst e < n'"
    using d(4) lt unfolding reprio_def by (fastforce split: if_splits)
  have "set (entries q1) = set cs" using q1(3) by (metis set_mset_mset)
  then have "n' \<notin> fst ` set (entries q1)" using csn by fastforce
  from put_mset [OF q1(2) this, of c] obtain q2 where
    q2: "pq_put Q q1 n' c = Inr q2" "ok q2" "mset (entries q2) = add_mset (n', c) (mset cs)"
    unfolding q1(3) by blast
  have "release_connection Q cl c False True = Inr (cl\<lparr>conn_pool := q2, next_conn_priority := n' + 1\<rparr>)"
    using assms(2) p d(1) q1(1) q2(1) by (simp add: release_connection_def size_entries [OF ok])
  then show ?thesis using q2(2,3) d(4) csn by blast
qed

lemma release_ok:
  assumes "pool_ok entries ok cl (c # out)"
  shows "\<exists>cl'. release_connection Q cl c bad unavail = Inr cl' \<and> pool_ok entries ok cl' out \<and>
    stock entries cl' out = stock entries cl (c # out) \<and> api_providers cl' = api_providers cl"
proof (cases "cn_no_release c")
  case True
  then have "release_connection Q cl c bad unavail = Inr cl" by (simp add: release_connection_def)
  then show ?thesis using assms True by (auto simp: pool_ok_def stock_def out_prios_def)
next
  case False
  then obtain p where p: "cn_priority c = Some p" "p < next_conn_priority cl" "conn_params c \<in> set (api_providers cl)"
    using assms by (auto simp: pool_ok_def)
  have ok: "ok (conn_pool cl)" using assms by (simp add: pool_ok_def)
  have new: "p \<notin> fst ` set (entries (conn_pool cl))" using assms p False by (auto simp: pool_ok_def out_prios_def)
  consider "bad" | "\<not> bad" "unavail" | "\<not> bad" "\<not> unavail" by blast
  then show ?thesis
  proof cases
    case 1
    let ?r = "create_connection cl (conn_params c)"
    from put_mset [OF ok new, of "fst ?r"] obtain q where
      q: "pq_put Q (conn_pool cl) p (fst ?r) = Inr q" "ok q"
        "mset (entries q) = add_mset (p, fst ?r) (mset (entries (conn_pool cl)))" by blast
    have rel: "release_connection Q cl c bad unavail = Inr ((snd ?r)\<lparr>conn_pool := q\<rparr>)"
      using 1 False p q(1) by (simp add: release_connection_def split_def Let_def)
    have c: "conn_params (fst ?r) = conn_params c" "\<not> cn_no_release (fst ?r)" by simp_all
    have f: "conn_pool ((snd ?r)\<lparr>conn_pool := q\<rparr>) = conn_pool (cl\<lparr>conn_pool := q\<rparr>)"
      "api_providers ((snd ?r)\<lparr>conn_pool := q\<rparr>) = api_providers (cl\<lparr>conn_pool := q\<rparr>)"
      "next_conn_priority ((snd ?r)\<lparr>conn_pool := q\<rparr>) = next_conn_priority (cl\<lparr>conn_pool := q\<rparr>)" by simp_all
    show ?thesis using pool_ok_give [OF assms False p(1) q(2,3) c] pool_ok_cong [OF f] stock_cong [OF f(1)] rel
      by simp
  next
    case 3
    from put_mset [OF ok new, of c] obtain q where q: "pq_put Q (conn_pool cl) p c = Inr q" "ok q"
      "mset (entries q) = add_mset (p, c) (mset (entries (conn_pool cl)))" by blast
    have "release_connection Q cl c bad unavail = Inr (cl\<lparr>conn_pool := q\<rparr>)"
      using 3 False p q(1) by (simp add: release_connection_def)
    then show ?thesis using pool_ok_give [OF assms False p(1) q(2,3) refl False] by simp
  next
    case 2
    let ?es = "entries (conn_pool cl)" and ?n = "next_conn_priority cl"
    from release_unavail [OF assms False] obtain cs q2 n' where
      rel: "release_connection Q cl c False True = Inr (cl\<lparr>conn_pool := q2, next_conn_priority := n' + 1\<rparr>)"
      and q2: "ok q2" "mset (entries q2) = add_mset (n', c) (mset cs)"
      and d: "reprio (conn_params c) ?n ?es cs n'" and csn: "\<And>e. e \<in> set cs \<Longrightarrow> fst e < n'" by blast
    let ?cl = "cl\<lparr>conn_pool := q2, next_conn_priority := n' + 1\<rparr>"
    have sc: "snd ` set cs = snd ` set ?es" "?n \<le> n'" "distinct (map fst cs)"
      using d by (metis reprio_def list.set_map, simp_all add: reprio_def)
    have set2: "set (entries q2) = insert (n', c) (set cs)"
      using arg_cong [OF q2(2), of set_mset] by simp
    have old: "\<forall>c' \<in> set out. cn_no_release c' \<or> conn_params c' \<in> set (api_providers cl) \<and>
        (\<exists>p. cn_priority c' = Some p \<and> p < ?n)" using assms by (simp add: pool_ok_def)
    have outp: "\<forall>p \<in> set (out_prios out). p < ?n \<and> p \<notin> fst ` set ?es"
    proof
      fix p' assume p': "p' \<in> set (out_prios out)"
      then show "p' < ?n \<and> p' \<notin> fst ` set ?es"
        using old assms unfolding pool_ok_def out_prios_def by (auto split: if_splits)
    qed
    have "distinct (map fst cs @ n' # out_prios out)"
    proof -
      have "fst e \<notin> set (out_prios out)" if "e \<in> set cs" for e
        using d that outp unfolding reprio_def by (cases e) (fastforce split: if_splits)
      moreover have "n' \<notin> set (out_prios out)" "n' \<notin> fst ` set cs" using outp sc(2) csn by fastforce+
      moreover have "distinct (out_prios out)" using assms by (simp add: pool_ok_def out_prios_def split: if_splits)
      ultimately show ?thesis using sc(3) by auto
    qed
    moreover have "mset (map fst (entries q2) @ out_prios out) = mset (map fst cs @ n' # out_prios out)"
      using arg_cong [OF q2(2), of "image_mset fst"] by simp
    ultimately have dist: "distinct (map fst (entries q2) @ out_prios out)" by (metis mset_eq_imp_distinct_iff)
    have "\<forall>e \<in> set cs. conn_params (snd e) \<in> set (api_providers cl) \<and> \<not> cn_no_release (snd e)"
    proof
      fix e assume "e \<in> set cs"
      then have "snd e \<in> snd ` set ?es" using sc(1) by blast
      then show "conn_params (snd e) \<in> set (api_providers cl) \<and> \<not> cn_no_release (snd e)"
        using assms by (auto simp: pool_ok_def)
    qed
    then have "pool_ok entries ok ?cl out"
      using q2(1) set2 csn p(3) False old sc(2) dist by (fastforce simp: pool_ok_def)
    moreover have "mset (map (\<lambda>e. conn_params (snd e)) cs) = mset (map (\<lambda>e. conn_params (snd e)) ?es)"
      using d by (metis (no_types, lifting) list.map_comp o_def reprio_def map_eq_conv)
    then have "stock entries ?cl out = stock entries cl (c # out)"
      using arg_cong [OF q2(2), of "image_mset (\<lambda>e. conn_params (snd e))"] False by (simp add: stock_def)
    ultimately show ?thesis using rel 2 by simp
  qed
qed

end

context conn_queue
begin

lemma refill:
  assumes "ok q" "entries q = []" "distinct (map fst cs)"
  obtains q1 where "put_all Q q cs = Inr q1" "ok q1" "mset (entries q1) = mset cs"
  using put_all_ok [OF assms(1,3)] assms(2) by auto

lemma redirect_known:
  assumes "pool_ok entries ok cl out" "get_provider_data cl params \<noteq> None"
    "acquire_redirect_connection Q login cl params auto now = Inr (c, cl')"
  shows "\<exists>cl1 c1. c = c1\<lparr>cn_last_used := Some now\<rparr> \<and> conn_pool cl' = conn_pool cl1 \<and>
    api_providers cl' = api_providers cl1 \<and> next_conn_priority cl' = next_conn_priority cl1 \<and>
    api_providers cl1 = api_providers cl \<and> next_conn_priority cl1 = next_conn_priority cl \<and>
    (cn_no_release c1 \<and> conn_params c1 = normalize_conn_params params \<and> ok (conn_pool cl1) \<and>
       mset (entries (conn_pool cl1)) = mset (entries (conn_pool cl)) \<and>
       (\<forall>e \<in> set (entries (conn_pool cl)). conn_params (snd e) \<noteq> params) \<or>
     (\<exists>p c0 q. cl1 = cl\<lparr>conn_pool := q\<rparr> \<and> ok q \<and> c1 = c0\<lparr>cn_priority := Some p\<rparr> \<and> conn_params c1 = params \<and>
       mset (entries (conn_pool cl)) = add_mset (p, c0) (mset (entries q))))"
proof -
  have ok: "ok (conn_pool cl)" using assms(1) by (simp add: pool_ok_def)
  let ?n = "pq_size Q (conn_pool cl)"
  have "length (entries (conn_pool cl)) \<le> ?n" using size_entries [OF ok] by simp
  from search_pool_ok [OF ok this] obtain r cs q l where
    s: "search_pool Q params ?n (conn_pool cl) None None = (r, cs, q, l)" "ok q" "entries q = []"
      "case r of None \<Rightarrow> cs = entries (conn_pool cl) \<and> (\<forall>e \<in> set (entries (conn_pool cl)). conn_params (snd e) \<noteq> params)
       | Some c \<Rightarrow> conn_params c = params \<and> (\<exists>p c0. c = c0\<lparr>cn_priority := Some p\<rparr> \<and>
           mset (entries (conn_pool cl)) = add_mset (p, c0) (mset cs))" by blast
  have "distinct (map fst cs)"
  proof (cases r)
    case (Some x)
    then obtain p c0 where "mset (entries (conn_pool cl)) = add_mset (p, c0) (mset cs)" using s(4) by auto
    from arg_cong [OF this, of "image_mset fst"] have "mset (map fst (entries (conn_pool cl))) = mset (p # map fst cs)" by simp
    with entries_distinct [OF ok] have "distinct (p # map fst cs)" by (metis mset_eq_imp_distinct_iff)
    then show ?thesis by simp
  qed (use s(4) entries_distinct [OF ok] in simp)
  then obtain q1 where q1: "put_all Q q cs = Inr q1" "ok q1" "mset (entries q1) = mset cs"
    using refill [OF s(2,3)] by blast
  obtain d where d: "get_provider_data cl params = Some d" using assms(2) by auto
  show ?thesis
  proof (cases r)
    case None
    let ?r = "create_connection (cl\<lparr>conn_pool := q1\<rparr>) params"
    have "let c1 = (fst ?r)\<lparr>cn_priority := Some 0, cn_no_release := True\<rparr> in
        c = c1\<lparr>cn_last_used := Some now\<rparr> \<and> conn_pool cl' = conn_pool (snd ?r) \<and>
        api_providers cl' = api_providers (snd ?r) \<and> next_conn_priority cl' = next_conn_priority (snd ?r)"
      using assms(3) d s(1) q1(1) None
      by (cases ?r) (auto simp: acquire_redirect_connection_def Let_def split: if_splits prod.splits option.splits
          dest: arg_cong [where f = snd] wait_for_login_snd)
    then show ?thesis using s(4) q1 None
      by (intro exI [of _ "snd ?r"] exI [of _ "(fst ?r)\<lparr>cn_priority := Some 0, cn_no_release := True\<rparr>"]) (simp add: Let_def)
  next
    case (Some c1)
    let ?cl = "cl\<lparr>conn_pool := q1\<rparr>"
    have "c = c1\<lparr>cn_last_used := Some now\<rparr> \<and> conn_pool cl' = conn_pool ?cl \<and>
        api_providers cl' = api_providers ?cl \<and> next_conn_priority cl' = next_conn_priority ?cl"
      using assms(3) d s(1) q1(1) Some
      by (auto simp: acquire_redirect_connection_def Let_def split: if_splits prod.splits option.splits
          dest: wait_for_login_snd)
    moreover obtain p c0 where "conn_params c1 = params" "c1 = c0\<lparr>cn_priority := Some p\<rparr>"
      "mset (entries (conn_pool cl)) = add_mset (p, c0) (mset (entries q1))" using s(4) Some q1(3) by auto
    ultimately show ?thesis using q1(2)
      by (intro exI [of _ ?cl] exI [of _ c1] conjI disjI2 exI [of _ p] exI [of _ c0] exI [of _ q1]) simp_all
  qed
qed

end

text \<open>The use of the pool: connections are checked out, directly or for a redirect to a known
  provider, and given back in any order and state. The second component lists those checked
  out.\<close>

inductive pool_step :: "('q, conn) pq \<Rightarrow> (conn \<Rightarrow> exn + string option) \<Rightarrow>
    'q client \<times> conn list \<Rightarrow> 'q client \<times> conn list \<Rightarrow> bool"
  for Q login where
  acquire: "acquire_connection Q login cl auto now idle = (Got c, cl') \<Longrightarrow>
    pool_step Q login (cl, out) (cl', c # out)"
| release: "c \<in> set out \<Longrightarrow> release_connection Q cl c bad unavail = Inr cl' \<Longrightarrow>
    pool_step Q login (cl, out) (cl', remove1 c out)"
| redirect: "get_provider_data cl params \<noteq> None \<Longrightarrow>
    acquire_redirect_connection Q login cl params auto now = Inr (c, cl') \<Longrightarrow>
    pool_step Q login (cl, out) (cl', c # out)"

context conn_queue
begin

lemma redirect_ok:
  assumes "pool_ok entries ok cl out" "get_provider_data cl params \<noteq> None"
    "acquire_redirect_connection Q login cl params auto now = Inr (c, cl')"
  shows "pool_ok entries ok cl' (c # out) \<and> stock entries cl' (c # out) = stock entries cl out \<and>
    api_providers cl' = api_providers cl"
proof -
  from redirect_known [OF assms] obtain cl1 c1 where
    c: "c = c1\<lparr>cn_last_used := Some now\<rparr>" "conn_pool cl' = conn_pool cl1"
      "api_providers cl' = api_providers cl1" "next_conn_priority cl' = next_conn_priority cl1"
      "api_providers cl1 = api_providers cl" "next_conn_priority cl1 = next_conn_priority cl"
    and d: "cn_no_release c1 \<and> ok (conn_pool cl1) \<and> mset (entries (conn_pool cl1)) = mset (entries (conn_pool cl)) \<or>
     (\<exists>p c0 q. cl1 = cl\<lparr>conn_pool := q\<rparr> \<and> ok q \<and> c1 = c0\<lparr>cn_priority := Some p\<rparr> \<and>
       mset (entries (conn_pool cl)) = add_mset (p, c0) (mset (entries q)))" by blast
  note same = pool_ok_cong [OF c(2-4)] stock_cong [OF c(2)]
  from d show ?thesis
  proof
    assume n: "cn_no_release c1 \<and> ok (conn_pool cl1) \<and> mset (entries (conn_pool cl1)) = mset (entries (conn_pool cl))"
    then have s: "set (entries (conn_pool cl1)) = set (entries (conn_pool cl))" by (metis set_mset_mset)
    have "mset (map fst (entries (conn_pool cl1)) @ out_prios (c # out)) =
        mset (map fst (entries (conn_pool cl)) @ out_prios out)"
      using n c(1) by (simp add: out_prios_def)
    then have "distinct (map fst (entries (conn_pool cl1)) @ out_prios (c # out))"
      using assms(1) unfolding pool_ok_def by (metis mset_eq_imp_distinct_iff)
    then have "pool_ok entries ok cl1 (c # out)" using assms(1) n s c(1,5,6) by (simp add: pool_ok_def)
    moreover have "stock entries cl1 (c # out) = stock entries cl out" using n c(1) by (simp add: stock_def)
    ultimately show ?thesis using same c(3,5) by simp
  next
    assume "\<exists>p c0 q. cl1 = cl\<lparr>conn_pool := q\<rparr> \<and> ok q \<and> c1 = c0\<lparr>cn_priority := Some p\<rparr> \<and>
       mset (entries (conn_pool cl)) = add_mset (p, c0) (mset (entries q))"
    then obtain p c0 q where q: "cl1 = cl\<lparr>conn_pool := q\<rparr>" "ok q" "c1 = c0\<lparr>cn_priority := Some p\<rparr>"
      "mset (entries (conn_pool cl)) = add_mset (p, c0) (mset (entries q))" by blast
    have "(p, c0) \<in> set (entries (conn_pool cl))" using arg_cong [OF q(4), of set_mset] by simp
    then have nr: "\<not> cn_no_release c" using assms(1) c(1) q(3) by (auto simp: pool_ok_def)
    have "conn_params c = conn_params c0" "cn_priority c = Some p" using c(1) q(3) by simp_all
    from pool_ok_take [OF assms(1) q(4,2) this(1) nr this(2)] show ?thesis using same q(1) c(3,5) by simp
  qed
qed

lemma step_ok:
  assumes "pool_step Q login (cl, out) (cl', out')" "pool_ok entries ok cl out"
  shows "pool_ok entries ok cl' out' \<and> stock entries cl' out' = stock entries cl out \<and>
    api_providers cl' = api_providers cl"
  using assms(1)
proof (cases rule: pool_step.cases)
  case (acquire auto now idle c)
  then show ?thesis using acquire_ok [OF _ assms(2)] by simp
next
  case (release c bad unavail)
  then have m: "mset out = mset (c # remove1 c out)" by simp
  then have "pool_ok entries ok cl (c # remove1 c out)" using assms(2) pool_ok_mset by metis
  from release_ok [OF this, of bad unavail] show ?thesis using release stock_mset [OF m, of entries cl] by auto
next
  case (redirect params auto now c)
  then show ?thesis using redirect_ok [OF assms(2)] by simp
qed

lemma steps_ok:
  assumes "(pool_step Q login)\<^sup>*\<^sup>* s s'" "pool_ok entries ok (fst s) (snd s)"
  shows "pool_ok entries ok (fst s') (snd s') \<and> stock entries (fst s') (snd s') = stock entries (fst s) (snd s) \<and>
    api_providers (fst s') = api_providers (fst s)"
  using assms
proof (induction rule: rtranclp_induct)
  case (step s1 s2)
  then show ?case using step_ok [of login "fst s1" "snd s1" "fst s2" "snd s2"] by simp
qed simp

text \<open>The constructor fills the pool without a tie.\<close>

lemma fill_pool_ok:
  assumes "pool_ok entries ok cl []" "set (map normalize_conn_params ps) \<subseteq> set (api_providers cl)"
  shows "\<exists>cl'. fill_pool Q cl ps = Inr cl' \<and> pool_ok entries ok cl' [] \<and>
    stock entries cl' [] = stock entries cl [] + mset (map normalize_conn_params ps) \<and>
    api_providers cl' = api_providers cl"
  using assms
proof (induction ps arbitrary: cl)
  case (Cons p ps)
  let ?r = "create_connection cl p" and ?n = "next_conn_priority cl"
  have lt: "\<forall>e \<in> set (entries (conn_pool cl)). fst e < ?n" using Cons.prems(1) by (simp add: pool_ok_def)
  have "ok (conn_pool cl)" using Cons.prems(1) by (simp add: pool_ok_def)
  moreover have n: "?n \<notin> fst ` set (entries (conn_pool cl))" using lt by fastforce
  ultimately obtain q where q: "pq_put Q (conn_pool cl) ?n (fst ?r) = Inr q" "ok q"
    "mset (entries q) = add_mset (?n, fst ?r) (mset (entries (conn_pool cl)))"
    using put_mset by blast
  let ?cl = "(snd ?r)\<lparr>conn_pool := q, next_conn_priority := ?n + 1\<rparr>"
  have s: "set (entries q) = insert (?n, fst ?r) (set (entries (conn_pool cl)))"
    using arg_cong [OF q(3), of set_mset] by simp
  have "mset (map fst (entries q)) = mset (?n # map fst (entries (conn_pool cl)))"
    using arg_cong [OF q(3), of "image_mset fst"] by simp
  moreover have "distinct (?n # map fst (entries (conn_pool cl)))"
    using Cons.prems(1) n by (simp add: pool_ok_def)
  ultimately have d: "distinct (map fst (entries q))" by (metis mset_eq_imp_distinct_iff)
  have "pool_ok entries ok ?cl []"
    using Cons.prems q(2) s d lt by (fastforce simp: pool_ok_def out_prios_def)
  moreover have "stock entries ?cl [] = add_mset (normalize_conn_params p) (stock entries cl [])"
    using arg_cong [OF q(3), of "image_mset (\<lambda>e. conn_params (snd e))"] by (simp add: stock_def)
  moreover have "fill_pool Q cl (p # ps) = fill_pool Q ?cl ps" using q(1) by (simp add: split_def Let_def)
  ultimately show ?case using Cons.IH [of ?cl] Cons.prems(2) by auto
qed simp

lemma set_provider_data_fold [simp]:
  "conn_pool (fold (\<lambda>p cl. set_provider_data cl p d) ps cl) = conn_pool cl"
  "api_providers (fold (\<lambda>p cl. set_provider_data cl p d) ps cl) = api_providers cl"
  "next_conn_priority (fold (\<lambda>p cl. set_provider_data cl p d) ps cl) = next_conn_priority cl"
  by (induction ps arbitrary: cl) simp_all

lemma new_client_ok:
  assumes "\<forall>p \<in> set ps. normalize_conn_params p = p"
  shows "\<exists>cl. new_client Q ps n timeout = Inr cl \<and> pool_ok entries ok cl [] \<and>
    stock entries cl [] = mset (concat (replicate n ps))"
proof -
  let ?cl0 = "\<lparr>api_providers = remdups ps, api_provider_data = [],
      concurrent_connections = n, config_gen_raw = None, config_gen_ts = None,
      gen_timeout = timeout, conn_pool = pq_new Q, next_conn_priority = 1, next_conn_id = 0\<rparr>"
  let ?cl = "fold (\<lambda>p cl. set_provider_data cl p (True, None)) (remdups ps) ?cl0"
  have sub: "set (concat (replicate n ps)) \<subseteq> set ps" by (induction n) auto
  then have m: "map normalize_conn_params (concat (replicate n ps)) = concat (replicate n ps)"
    using assms by (intro map_idI) blast
  have "pool_ok entries ok ?cl []" "stock entries ?cl [] = {#}"
    using new_ok by (simp_all add: pool_ok_def stock_def out_prios_def)
  moreover have "set (map normalize_conn_params (concat (replicate n ps))) \<subseteq> set (api_providers ?cl)"
    using sub unfolding m by simp
  ultimately show ?thesis using fill_pool_ok [of ?cl "concat (replicate n ps)"] unfolding m
    by (auto simp: new_client_def Let_def)
qed

lemma acquire_pops:
  assumes "ok (conn_pool cl)" "entries (conn_pool cl) = e # es" "api_providers cl \<noteq> []" "\<forall>c. \<exists>k. login c = Inr k"
  shows "\<exists>c cl'. acquire_connection Q login cl auto now idle = (Got c, cl') \<and> ok (conn_pool cl') \<and>
    entries (conn_pool cl') = es \<and> api_providers cl' = api_providers cl"
proof -
  from get_first [OF assms(1,2)] obtain q where q: "pq_get Q (conn_pool cl) = Some (e, q)" "ok q" "entries q = es"
    by blast
  have w: "r = None \<and> conn_pool cl' = conn_pool cl \<and> api_providers cl' = api_providers cl"
    if "wait_for_login login cl c = (r, cl')" for cl c cl' r
    using spec [OF assms(4), of c] wait_for_login_snd [OF that] that
    by (auto simp: wait_for_login_def split: option.splits if_splits)
  have cr: "conn_pool cl' = conn_pool cl \<and> api_providers cl' = api_providers cl"
    if "create_connection cl p = (c, cl')" for cl cl' :: "'q client" and p c
    using client_frames(1,2) [of cl p] that by simp
  show ?thesis using assms(3) q
    by (cases e) (auto simp: acquire_connection_def Let_def split: prod.splits dest!: w cr)
qed

lemma acquire_succeeds:
  assumes "pool_ok entries ok cl out" "entries (conn_pool cl) \<noteq> []" "\<forall>c. \<exists>k. login c = Inr k"
  shows "\<exists>c cl'. acquire_connection Q login cl auto now idle = (Got c, cl')"
proof -
  have "ok (conn_pool cl)" using assms(1) by (simp add: pool_ok_def)
  moreover obtain e es where es: "entries (conn_pool cl) = e # es" using assms(2) by (cases "entries (conn_pool cl)") auto
  moreover have "api_providers cl \<noteq> []" using assms(1) es by (auto simp: pool_ok_def)
  ultimately show ?thesis using acquire_pops [OF _ _ _ assms(3)] by blast
qed

text \<open>The size of a freshly filled pool, with or without ports.\<close>

lemma fill_pool_length:
  assumes "ok (conn_pool cl)" "\<forall>e \<in> set (entries (conn_pool cl)). fst e < next_conn_priority cl"
  shows "\<exists>cl'. fill_pool Q cl ps = Inr cl' \<and> ok (conn_pool cl') \<and> api_providers cl' = api_providers cl \<and>
    length (entries (conn_pool cl')) = length (entries (conn_pool cl)) + length ps"
  using assms
proof (induction ps arbitrary: cl)
  case (Cons p ps)
  let ?r = "create_connection cl p" and ?n = "next_conn_priority cl"
  have "?n \<notin> fst ` set (entries (conn_pool cl))" using Cons.prems(2) by fastforce
  from put_new [OF Cons.prems(1) this] obtain q where q: "pq_put Q (conn_pool cl) ?n (fst ?r) = Inr q" "ok q"
    "entries q = put_sorted (?n, fst ?r) (entries (conn_pool cl))" by blast
  then have e: "entries q = entries (conn_pool cl) @ [(?n, fst ?r)]"
    using put_sorted_last [of "entries (conn_pool cl)" "(?n, fst ?r)"] Cons.prems(2) by simp
  let ?cl = "(snd ?r)\<lparr>conn_pool := q, next_conn_priority := ?n + 1\<rparr>"
  have "\<forall>e \<in> set (entries (conn_pool ?cl)). fst e < next_conn_priority ?cl" using e Cons.prems(2) by fastforce
  moreover have "fill_pool Q cl (p # ps) = fill_pool Q ?cl ps" using q(1) by (simp add: split_def Let_def)
  ultimately show ?case using Cons.IH [of ?cl] q(2) e by simp
qed simp

end

interpretation conn_list_queue: conn_queue list_pq "\<lambda>q. q" by_prio
  by (intro conn_queue.intro list_pq_queue)

subsection \<open>Properties\<close>

lemma conn_queueI: "prio_queue Q entries ok \<Longrightarrow> conn_queue Q entries ok"
  by (rule conn_queue.intro)

lemma reachable_pool_ok:
  assumes "prio_queue Q entries ok" "\<forall>p \<in> set ps. fst (snd p) \<noteq> None"
    "new_client Q ps n timeout = Inr cl0" "(pool_step Q login)\<^sup>*\<^sup>* (cl0, []) (cl, out)"
  shows "pool_ok entries ok cl out" "stock entries cl out = mset (concat (replicate n ps))"
proof -
  have "\<forall>p \<in> set ps. normalize_conn_params p = p"
  proof
    fix p assume "p \<in> set ps"
    with assms(2) show "normalize_conn_params p = p" by (cases p) auto
  qed
  from conn_queue.new_client_ok [OF conn_queueI [OF assms(1)] this, of n timeout] assms(3)
  have "pool_ok entries ok cl0 []" "stock entries cl0 [] = mset (concat (replicate n ps))" by auto
  with conn_queue.steps_ok [OF conn_queueI [OF assms(1)] assms(4)]
  show "pool_ok entries ok cl out" "stock entries cl out = mset (concat (replicate n ps))" by auto
qed


abbreviation demo_providers :: "conn_params list" where
  "demo_providers \<equiv> [(''a'', Some 443, True), (''b'', Some 443, True)]"

text \<open>A client for the witnesses, with one connection checked out.\<close>

abbreviation demo_login :: "conn \<Rightarrow> exn + string option" where
  "demo_login \<equiv> \<lambda>_. Inr (Some ''cookie'')"

lemma demo_client:
  obtains cl0 c cl where "new_client list_pq demo_providers 2 (-1) = Inr cl0"
    "pool_ok (\<lambda>q. q) by_prio cl0 []"
    "acquire_connection list_pq demo_login cl0 True 0 900 = (Got c, cl)"
    "(pool_step list_pq demo_login)\<^sup>*\<^sup>* (cl0, []) (cl, [c])"
proof -
  obtain cl0 where cl0: "new_client list_pq demo_providers 2 (-1) = Inr cl0"
    "pool_ok (\<lambda>q. q) by_prio cl0 []" "stock (\<lambda>q. q) cl0 [] = mset (concat (replicate 2 demo_providers))"
    using conn_list_queue.new_client_ok [of demo_providers 2 "-1"] by auto
  then have "conn_pool cl0 \<noteq> []" by (auto simp: stock_def numeral_2_eq_2)
  from conn_list_queue.acquire_succeeds [OF cl0(2) this, of demo_login True 0 900] obtain c cl where
    a: "acquire_connection list_pq demo_login cl0 True 0 900 = (Got c, cl)" by auto
  have "(pool_step list_pq demo_login)\<^sup>*\<^sup>* (cl0, []) (cl, [c])"
    using pool_step.acquire [OF a] by (rule r_into_rtranclp)
  with that cl0 a show thesis by blast
qed


text \<open>After a connection is given back because its provider answered 503, every free
  connection to another provider comes before every free connection to that provider, so the
  next connection handed out is one to another provider as long as there is one.\<close>

theorem unavailable_provider_goes_last:
  assumes "prio_queue Q entries ok" "\<forall>p \<in> set ps. fst (snd p) \<noteq> None"
    "new_client Q ps n timeout = Inr cl0" "(pool_step Q login)\<^sup>*\<^sup>* (cl0, []) (cl, out)"
    "c \<in> set out" "\<not> cn_no_release c" "release_connection Q cl c False True = Inr cl'"
    "acquire_connection Q login' cl' auto now idle = (Got c', cl'')"
    "\<exists>e \<in> set (entries (conn_pool cl')). conn_params (snd e) \<noteq> conn_params c"
  shows "conn_params c' \<noteq> conn_params c"
proof -
  note V = conn_queueI [OF assms(1)]
  have "mset out = mset (c # remove1 c out)" using assms(5) by simp
  then have pk: "pool_ok entries ok cl (c # remove1 c out)"
    using reachable_pool_ok(1) [OF assms(1-4)] pool_ok_mset by metis
  let ?P = "conn_params c" and ?n = "next_conn_priority cl"
  from conn_queue.release_unavail [OF V pk assms(6)] assms(7) obtain cs q n' where
    cl': "cl' = cl\<lparr>conn_pool := q, next_conn_priority := n' + 1\<rparr>" "ok q"
      "mset (entries q) = add_mset (n', c) (mset cs)"
      "conn_queue.reprio ?P ?n (entries (conn_pool cl)) cs n'" by auto
  have s: "set (entries q) = insert (n', c) (set cs)" using arg_cong [OF cl'(3), of set_mset] by simp
  have lt: "\<forall>e \<in> set (entries (conn_pool cl)). fst e < ?n" using pk by (simp add: pool_ok_def)
  have n: "?n \<le> n'" and re: "\<And>p x. (p, x) \<in> set cs \<Longrightarrow> if conn_params x = ?P then ?n \<le> p \<and> p < n'
      else (p, x) \<in> set (entries (conn_pool cl))"
    using cl'(4) unfolding conn_queue.reprio_def [OF V] by blast+
  have ord: "conn_params (snd e) = ?P \<longleftrightarrow> ?n \<le> fst e" if "e \<in> set (entries q)" for e
  proof (cases "e \<in> set cs")
    case True
    then show ?thesis using re [of "fst e" "snd e"] bspec [OF lt, of e] by (auto split: if_splits)
  next
    case False
    then show ?thesis using that s n by simp
  qed
  obtain e es where es: "entries q = e # es" using s by (cases "entries q") auto
  from assms(9) cl'(1) obtain x where x: "x \<in> set (entries q)" "conn_params (snd x) \<noteq> ?P" by auto
  have "fst e \<le> fst x"
    using prio_queue.entries_sorted [OF assms(1) cl'(2)] es x(1) by (auto simp: by_prio_def)
  with ord [of x] ord [of e] x es have e: "conn_params (snd e) \<noteq> ?P" by auto
  from conn_queue.acquire_takes_first [OF V assms(8)] cl'(1,2) es have "conn_params c' = conn_params (snd e)" by simp
  with e show ?thesis by simp
qed

theorem unavailable_provider_goes_last_witness:
  "\<exists>cl0 c cl cl'. new_client list_pq demo_providers 2 (-1) = Inr cl0 \<and>
     acquire_connection list_pq demo_login cl0 True 0 900 = (Got c, cl) \<and>
     release_connection list_pq cl c False True = Inr cl' \<and>
     (\<exists>c' cl''. acquire_connection list_pq demo_login cl' True 0 900 = (Got c', cl'') \<and>
        conn_params c' \<noteq> conn_params c)"
proof (rule demo_client)
  fix cl0 c cl
  assume a: "new_client list_pq demo_providers 2 (-1) = Inr cl0" "pool_ok (\<lambda>q. q) by_prio cl0 []"
    "acquire_connection list_pq demo_login cl0 True 0 900 = (Got c, cl)"
    "(pool_step list_pq demo_login)\<^sup>*\<^sup>* (cl0, []) (cl, [c])"
  have p: "\<forall>p \<in> set demo_providers. fst (snd p) \<noteq> None" by simp
  note r = reachable_pool_ok [OF list_pq_queue p a(1,4)]
  have nr: "\<not> cn_no_release c" using conn_list_queue.acquire_ok [OF a(3,2)] by blast
  from conn_list_queue.release_ok [OF r(1), of False True] obtain cl' where
    cl': "release_connection list_pq cl c False True = Inr cl'" "pool_ok (\<lambda>q. q) by_prio cl' []"
      "stock (\<lambda>q. q) cl' [] = stock (\<lambda>q. q) cl [c]" by blast
  have "set_mset (stock (\<lambda>q. q) cl' []) = set demo_providers"
    unfolding cl'(3) r(2) by (auto simp: numeral_2_eq_2)
  then have s: "(\<lambda>e. conn_params (snd e)) ` set (conn_pool cl') = set demo_providers" by (simp add: stock_def)
  have "\<exists>x \<in> set demo_providers. x \<noteq> conn_params c"
    by (cases "conn_params c = hd demo_providers") simp_all
  then obtain x where x: "x \<in> set demo_providers" "x \<noteq> conn_params c" by blast
  with s have ne: "\<exists>e \<in> set (conn_pool cl'). conn_params (snd e) \<noteq> conn_params c"
    by (metis (mono_tags, lifting) imageE)
  then have "conn_pool cl' \<noteq> []" by auto
  from conn_list_queue.acquire_succeeds [OF cl'(2) this, of demo_login True 0 900] obtain c' cl'' where
    b: "acquire_connection list_pq demo_login cl' True 0 900 = (Got c', cl'')" by auto
  have "c \<in> set [c]" by simp
  from unavailable_provider_goes_last [OF list_pq_queue p a(1,4) this nr cl'(1) b ne]
  have "conn_params c' \<noteq> conn_params c" .
  then show ?thesis
    by (intro exI conjI) (rule a(1), rule a(3), rule cl'(1), rule b)
qed

text \<open>Connections checked out and given back one after the other.\<close>

fun use_times :: "('q, conn) pq \<Rightarrow> (conn \<Rightarrow> exn + string option) \<Rightarrow> nat \<Rightarrow> 'q client \<Rightarrow>
    (exn \<times> 'q client) + 'q client" where
  "use_times Q login 0 cl = Inr cl"
| "use_times Q login (Suc k) cl =
     (case acquire_connection Q login cl True 0 900 of
        (Got c, cl') \<Rightarrow> bind_res (release_connection Q cl' c False False) (use_times Q login k)
      | (_, cl') \<Rightarrow> Inr cl')"

context conn_queue
begin

lemma use_times_drains:
  assumes "ok (conn_pool cl)" "api_providers cl \<noteq> []" "\<forall>p \<in> set (api_providers cl). fst (snd p) = None"
    "\<forall>c. \<exists>k. login c = Inr k"
  shows "\<exists>cl'. use_times Q login (length (entries (conn_pool cl))) cl = Inr cl' \<and> ok (conn_pool cl') \<and>
    entries (conn_pool cl') = [] \<and> api_providers cl' \<noteq> []"
  using assms(1-3)
proof (induction "entries (conn_pool cl)" arbitrary: cl)
  case Nil
  then show ?case by simp
next
  case (Cons e es)
  from acquire_pops [OF Cons.prems(1) Cons(2) [symmetric] Cons.prems(2) assms(4)] obtain c cl1 where
    a: "acquire_connection Q login cl True 0 900 = (Got c, cl1)" "ok (conn_pool cl1)"
      "entries (conn_pool cl1) = es" "api_providers cl1 = api_providers cl" by blast
  have "conn_params c \<notin> set (api_providers cl1)" using Cons.prems(3) a(4) by (auto simp: conn_params_def)
  then have "release_connection Q cl1 c False False = Inr cl1" by (simp add: release_connection_def)
  then show ?case using Cons(1) [of cl1] a Cons.prems(2,3) unfolding Cons(2) [symmetric] by simp
qed

end

text \<open>C39: A provider configured without a port is stored without one, while its connections
  carry the default port; a connection given back is then taken for one of no provider and
  dropped. With \<open>n\<close> connections to each of the providers, \<open>n\<close> uses per provider empty the
  pool, and the next request waits for a connection that never comes.\<close>

theorem portless_providers_drain_the_pool:
  assumes "prio_queue Q entries ok" "\<forall>p \<in> set ps. fst (snd p) = None" "ps \<noteq> []"
    "\<forall>c. \<exists>k. login c = Inr k"
  shows "\<exists>cl0 cl. new_client Q ps n timeout = Inr cl0 \<and> use_times Q login (n * length ps) cl0 = Inr cl \<and>
    acquire_connection Q login cl auto now idle = (Blocked, cl)"
proof -
  note V = conn_queueI [OF assms(1)]
  let ?cl0 = "\<lparr>api_providers = remdups ps, api_provider_data = [],
      concurrent_connections = n, config_gen_raw = None, config_gen_ts = None,
      gen_timeout = timeout, conn_pool = pq_new Q, next_conn_priority = 1, next_conn_id = 0\<rparr>"
  let ?cl = "fold (\<lambda>p cl. set_provider_data cl p (True, None)) (remdups ps) ?cl0"
  have "length (concat (replicate n ps)) = n * length ps" by (induction n) auto
  with conn_queue.fill_pool_length [OF V, of ?cl "concat (replicate n ps)"] prio_queue.new_ok [OF assms(1)]
  obtain cl1 where cl1: "new_client Q ps n timeout = Inr cl1" "ok (conn_pool cl1)"
    "length (entries (conn_pool cl1)) = n * length ps" "api_providers cl1 = remdups ps"
    by (auto simp: new_client_def Let_def conn_queue.set_provider_data_fold [OF V])
  with conn_queue.use_times_drains [OF V cl1(2) _ _ assms(4)] assms(2,3) obtain cl where
    cl: "use_times Q login (n * length ps) cl1 = Inr cl" "ok (conn_pool cl)" "entries (conn_pool cl) = []"
      "api_providers cl \<noteq> []" by auto
  have "acquire_connection Q login cl auto now idle = (Blocked, cl)"
    using prio_queue.get_empty [OF assms(1) cl(2,3)] cl(4) by (simp add: acquire_connection_def)
  with cl1(1) cl(1) show ?thesis by blast
qed

theorem portless_providers_drain_the_pool_witness:
  "\<exists>cl0 cl. new_client list_pq [(''a'', None, True)] 3 (-1) = Inr cl0 \<and>
     use_times list_pq demo_login 3 cl0 = Inr cl \<and>
     acquire_connection list_pq demo_login cl True 0 900 = (Blocked, cl)"
  using portless_providers_drain_the_pool [OF list_pq_queue, of "[(''a'', None, True)]" demo_login 3 "-1" True 0 900]
  by simp

text \<open>A redirect to a server that is not a provider yet makes new connections and puts all
  but one of them into the pool with the same priority 0. With three or more connections per
  provider (the default is three) the second of these ties with the first, and the redirect
  raises TypeError.\<close>

theorem redirect_to_new_server_ties:
  assumes "prio_queue Q entries ok" "ok (conn_pool cl)" "\<forall>e \<in> set (entries (conn_pool cl)). 0 < fst e"
    "get_provider_data cl params = None" "3 \<le> concurrent_connections cl"
  shows "\<exists>cl'. acquire_redirect_connection Q login cl params auto now = Inl (Py TypeError, cl')"
proof -
  obtain k where k: "concurrent_connections cl = Suc (Suc (Suc k))"
    using assms(5) by (metis Suc_le_D numeral_3_eq_3 Suc_le_mono)
  let ?cl = "set_provider_data (cl\<lparr>api_providers := List.insert params (api_providers cl)\<rparr>) params (True, None)"
  let ?c = "(fst (create_connection ?cl params))\<lparr>cn_priority := Some 0\<rparr>"
  have "0 \<notin> fst ` set (entries (conn_pool cl))" using assms(3) by force
  from prio_queue.put_new [OF assms(1,2) this, of ?c] obtain q where
    q: "pq_put Q (conn_pool cl) 0 ?c = Inr q" "ok q" "entries q = put_sorted (0, ?c) (entries (conn_pool cl))" by blast
  let ?c2 = "(fst (create_connection (snd (create_connection ?cl params)\<lparr>conn_pool := q\<rparr>) params))\<lparr>cn_priority := Some 0\<rparr>"
  have "entries q = (0, ?c) # entries (conn_pool cl)"
    using q(3) assms(3) by (cases "entries (conn_pool cl)") auto
  from prio_queue.put_tie [OF assms(1) q(2) this, of ?c2] obtain qt where
    tie: "pq_put Q q 0 ?c2 = Inl (TypeError, qt)" by blast
  show ?thesis using assms(4) k q(1) tie
    by (simp add: acquire_redirect_connection_def Let_def split_def)
qed

theorem redirect_to_new_server_ties_witness:
  "\<exists>cl'. acquire_redirect_connection list_pq demo_login
     \<lparr>api_providers = [(''a'', Some 443, True)], api_provider_data = [((''a'', Some 443, True), True, None)],
      concurrent_connections = 3, config_gen_raw = None, config_gen_ts = None, gen_timeout = -1,
      conn_pool = [], next_conn_priority = 4, next_conn_id = 3\<rparr> (''b'', Some 443, True) True 0 = Inl (Py TypeError, cl')"
  by (rule redirect_to_new_server_ties [OF list_pq_queue])
    (simp_all add: by_prio_def get_provider_data_def)

end
