(* ===== verification/ApiRequest.thy ===== *)
theory ApiRequest
  imports ApiClient
begin

text \<open>
  The requests of the NSX API client (\<open>api_client/request.py\<close>, \<open>eventlet_request.py\<close>,
  \<open>client.py\<close>, \<open>exception.py\<close>, \<open>version.py\<close>): one exchange with its redirects, the retries
  around it, and the mapping of a response to a result or an exception. The network, the
  login exchange, the clock, URL parsing and the parsing of integers are the fields of a
  record \<open>env\<close>; the network has a state \<open>'w\<close> of its own, so that every exchange can be
  answered differently. Socket timeouts are left out, as is the timeout of the green thread.
\<close>

subsection \<open>Responses and the environment\<close>

record response =
  rs_status :: nat
  rs_headers :: "(string \<times> string) list"
  rs_body :: string

record url_parts =
  up_scheme :: string
  up_hostname :: "string option"
  up_port :: "py_exc + nat option"
  up_path :: string
  up_query :: string

record api_request =
  rq_url :: string
  rq_method :: string
  rq_body :: string
  rq_headers :: "(string, string) pydict"
  rq_retries :: nat
  rq_redirects :: nat
  rq_client_conn :: "conn option"

text \<open>\<open>send\<close> is the exchange on a connection: method, path, body, headers and the value of the
  X-Nvp-Wait-For-Config-Generation header, if it is set.\<close>

record 'w env =
  send :: "'w \<Rightarrow> conn \<Rightarrow> string \<Rightarrow> string \<Rightarrow> string \<Rightarrow> (string, string) pydict \<Rightarrow> int option \<Rightarrow>
    (exn + response) \<times> 'w"
  login_of :: "'w \<Rightarrow> conn \<Rightarrow> exn + string option"
  urlparse :: "string \<Rightarrow> url_parts"
  to_int :: "string \<Rightarrow> int option"
  clock :: "'w \<Rightarrow> int"
  conn_idle_timeout :: int

abbreviation "OK \<equiv> 200 :: nat"
abbreviation "CREATED \<equiv> 201 :: nat"
abbreviation "NO_CONTENT \<equiv> 204 :: nat"
abbreviation "MOVED_PERMANENTLY \<equiv> 301 :: nat"
abbreviation "TEMPORARY_REDIRECT \<equiv> 307 :: nat"
abbreviation "UNAUTHORIZED \<equiv> 401 :: nat"
abbreviation "FORBIDDEN \<equiv> 403 :: nat"
abbreviation "INTERNAL_SERVER_ERROR \<equiv> 500 :: nat"
abbreviation "NOT_IMPLEMENTED \<equiv> 501 :: nat"
abbreviation "SERVICE_UNAVAILABLE \<equiv> 503 :: nat"

subsection \<open>Headers\<close>

definition lower :: "string \<Rightarrow> string" where
  "lower s = map (\<lambda>c. if 65 \<le> (of_char c :: nat) \<and> (of_char c :: nat) \<le> 90
     then char_of ((of_char c :: nat) + 32) else c) s"

text \<open>\<open>response.getheader\<close>: the values of all headers of the name, joined.\<close>

fun join_with :: "string \<Rightarrow> string list \<Rightarrow> string" where
  "join_with sep [] = []"
| "join_with sep [s] = s"
| "join_with sep (s # t # ss) = s @ sep @ join_with sep (t # ss)"

definition getheader :: "string \<Rightarrow> (string \<times> string) list \<Rightarrow> string option" where
  "getheader name hs =
     (case map snd (filter (\<lambda>h. lower (fst h) = lower name) hs) of
        [] \<Rightarrow> None | vs \<Rightarrow> Some (join_with '', '' vs))"

definition request_headers :: "(string, string) pydict \<Rightarrow> string option \<Rightarrow> (string, string) pydict" where
  "request_headers headers cookie =
     (case cookie of None \<Rightarrow> headers
      | Some k \<Rightarrow> if k = [] then headers else AList.update ''Cookie'' k headers)"

definition wait_for_gen :: "int option \<Rightarrow> int option" where
  "wait_for_gen gen = (if gen = Some 0 then None else gen)"

text \<open>Reading the configuration generation of a response: the client keeps the largest.\<close>

definition read_gen :: "'w env \<Rightarrow> 'q client \<Rightarrow> int \<Rightarrow> response \<Rightarrow> exn + 'q client" where
  "read_gen E cl now r =
     (case getheader ''X-Nvp-Config-Generation'' (rs_headers r) of
        None \<Rightarrow> Inr cl
      | Some new_gen \<Rightarrow>
          if new_gen = [] then Inr cl
          else case to_int E new_gen of
            None \<Rightarrow> Inl (Py ValueError)
          | Some g \<Rightarrow>
              if (case config_gen cl now of None \<Rightarrow> True | Some v \<Rightarrow> v < g)
              then Inr (set_config_gen cl now (Some g)) else Inr cl)"

subsection \<open>One request with its redirects\<close>

definition path_url :: "url_parts \<Rightarrow> string" where
  "path_url r = (if up_query r \<noteq> [] then up_path r @ ''?'' @ up_query r else up_path r)"

definition has_host :: "url_parts \<Rightarrow> bool" where
  "has_host r \<longleftrightarrow> (case up_hostname r of None \<Rightarrow> False | Some h \<Rightarrow> h \<noteq> [])"

definition redirect_params :: "('q, conn) pq \<Rightarrow> 'w env \<Rightarrow> 'q client \<Rightarrow> 'w \<Rightarrow> conn \<Rightarrow> (string \<times> string) list \<Rightarrow>
    bool \<Rightarrow> (exn + conn \<times> string option) \<times> 'q client" where
  "redirect_params Q E cl w c headers allow_release_conn =
     (let url = (case find (\<lambda>h. lower (fst h) = ''location'') headers of None \<Rightarrow> [] | Some h \<Rightarrow> snd h)
      in if url = [] then (Inr (c, None), cl)
         else let r = urlparse E url
           in if up_scheme r = [] \<and> \<not> has_host r \<and> up_path r \<noteq> [] then
                if hd (up_path r) = CHR ''/'' then (Inr (c, Some (path_url r)), cl) else (Inr (c, None), cl)
              else if up_scheme r \<notin> {''http'', ''https''} \<or> \<not> has_host r then (Inr (c, None), cl)
              else case (if allow_release_conn then release_connection Q cl c False False else Inr cl) of
                  Inl (e, cl) \<Rightarrow> (Inl e, cl)
                | Inr cl \<Rightarrow>
                    (case up_port r of
                       Inl e \<Rightarrow> (Inl (Py e), cl)
                     | Inr port \<Rightarrow>
                         (case acquire_redirect_connection Q (login_of E w) cl
                             (the (up_hostname r), port, up_scheme r = ''https'') True (clock E w) of
                            Inl (e, cl) \<Rightarrow> (Inl e, cl)
                          | Inr (c, cl) \<Rightarrow> (Inr (c, Some (path_url r)), cl))))"

text \<open>The loop over the redirects; \<open>rest\<close> counts those that are still allowed. The result holds
  the response or the exception, the connection in use at the end, and whether the server
  answered that it is unavailable.\<close>

fun issue_loop :: "('q, conn) pq \<Rightarrow> 'w env \<Rightarrow> api_request \<Rightarrow> nat \<Rightarrow> 'q client \<Rightarrow> 'w \<Rightarrow> conn \<Rightarrow> string \<Rightarrow> bool \<Rightarrow>
    (exn + response) \<times> conn \<times> bool \<times> 'q client \<times> 'w" where
  "issue_loop Q E rq rest cl w c url unavail =
     (let now = clock E w;
          (answer, w) = send E w c (rq_method rq) url (rq_body rq)
            (request_headers (rq_headers rq) (auth_cookie cl c)) (wait_for_gen (config_gen cl now))
      in case answer of
           Inl e \<Rightarrow> (Inl e, c, unavail, cl, w)
         | Inr r \<Rightarrow>
             (case read_gen E cl (clock E w) r of
                Inl e \<Rightarrow> (Inl e, c, unavail, cl, w)
              | Inr cl \<Rightarrow>
                  let cl = (if rs_status r = UNAUTHORIZED then set_auth_cookie cl c None else cl);
                      unavail = (unavail \<or> rs_status r = SERVICE_UNAVAILABLE)
                  in if rs_status r \<notin> {MOVED_PERMANENTLY, TEMPORARY_REDIRECT} then (Inr r, c, unavail, cl, w)
                     else case rest of
                         0 \<Rightarrow> (Inr r, c, unavail, cl, w)
                       | Suc rest \<Rightarrow>
                           (case redirect_params Q E cl w c (rs_headers r) (rq_client_conn rq = None) of
                              (Inl e, cl) \<Rightarrow> (Inl e, c, unavail, cl, w)
                            | (Inr (c, None), cl) \<Rightarrow>
                                (Inr (r\<lparr>rs_status := INTERNAL_SERVER_ERROR\<rparr>), c, unavail, cl, w)
                            | (Inr (c, Some url), cl) \<Rightarrow> issue_loop Q E rq rest cl w c url unavail)))"

declare issue_loop.simps [simp del]

text \<open>What \<open>_issue_request\<close> does: it returns a response, an exception or None, raises an
  exception, or waits for a connection for ever.\<close>

datatype issued = Response response | Error exn | Nothing | Raise exn | Wait

definition issue_request :: "('q, conn) pq \<Rightarrow> 'w env \<Rightarrow> api_request \<Rightarrow> 'q client \<Rightarrow> 'w \<Rightarrow> issued \<times> 'q client \<times> 'w" where
  "issue_request Q E rq cl w =
     (case (case rq_client_conn rq of
              Some c \<Rightarrow> (Got c, cl)
            | None \<Rightarrow> acquire_connection Q (login_of E w) cl True (clock E w) (conn_idle_timeout E)) of
        (No_providers, cl) \<Rightarrow> (Error (OtherError ''No API connections available''), cl, w)
      | (Blocked, cl) \<Rightarrow> (Wait, cl, w)
      | (Raised e, cl) \<Rightarrow> (Raise e, cl, w)
      | (Got c, cl) \<Rightarrow>
          let (res, c, unavail, cl, w) = issue_loop Q E rq (rq_redirects rq) cl w c (rq_url rq) False;
              res = (case res of
                  Inr r \<Rightarrow> if rs_status r = INTERNAL_SERVER_ERROR \<and> rs_status r > NOT_IMPLEMENTED
                    then Inl (OtherError ''Server error return'') else Inr r
                | Inl e \<Rightarrow> Inl e);
              (ret, is_conn_error, unavail) = (case res of
                  Inr r \<Rightarrow> (Response r, False, unavail)
                | Inl e \<Rightarrow> if e = SocketError then (Nothing, False, True) else (Error e, True, unavail))
          in if rq_client_conn rq = None
             then (case release_connection Q cl c is_conn_error unavail of
                 Inl (e, cl) \<Rightarrow> (Raise e, cl, w)
               | Inr cl \<Rightarrow> (ret, cl, w))
             else (ret, cl, w))"

subsection \<open>Retries\<close>

text \<open>\<open>left\<close> counts the attempts that are left, \<open>attempt\<close> those made. The result is the
  response with the recorded error, or an exception, or an endless wait.\<close>

datatype handled = Finished "response option" "exn option" | Failed exn | Waits

fun handle_loop :: "('q, conn) pq \<Rightarrow> 'w env \<Rightarrow> api_request \<Rightarrow> nat \<Rightarrow> nat \<Rightarrow> exn option \<Rightarrow> 'q client \<Rightarrow> 'w \<Rightarrow>
    handled \<times> nat \<times> 'q client \<times> 'w" where
  "handle_loop Q E rq 0 attempt err cl w = (Finished None err, attempt, cl, w)"
| "handle_loop Q E rq (Suc left) attempt err cl w =
     (case issue_request Q E rq cl w of
        (Response r, cl, w) \<Rightarrow>
          if left \<noteq> 0 \<and> rs_status r \<in> {UNAUTHORIZED, FORBIDDEN, SERVICE_UNAVAILABLE}
          then handle_loop Q E rq left (Suc attempt) err cl w
          else (Finished (Some r) None, Suc attempt, cl, w)
      | (Error e, cl, w) \<Rightarrow> handle_loop Q E rq left (Suc attempt) (Some e) cl w
      | (Nothing, cl, w) \<Rightarrow> handle_loop Q E rq left (Suc attempt) None cl w
      | (Raise e, cl, w) \<Rightarrow> (Failed e, Suc attempt, cl, w)
      | (Wait, cl, w) \<Rightarrow> (Waits, Suc attempt, cl, w))"

definition handle_request :: "('q, conn) pq \<Rightarrow> 'w env \<Rightarrow> api_request \<Rightarrow> 'q client \<Rightarrow> 'w \<Rightarrow>
    handled \<times> nat \<times> 'q client \<times> 'w" where
  "handle_request Q E rq cl w = handle_loop Q E rq (Suc (rq_retries rq)) 0 None cl w"

text \<open>The constructor of a request and the id of the next one.\<close>

abbreviation USER_AGENT :: string where "USER_AGENT \<equiv> ''Neutron eventlet client/2.0''"

definition new_request :: "string \<Rightarrow> string \<Rightarrow> string \<Rightarrow> (string, string) pydict option \<Rightarrow> nat \<Rightarrow> nat \<Rightarrow>
    conn option \<Rightarrow> api_request" where
  "new_request url method body headers retries redirects client_conn =
     (let headers = (case headers of None \<Rightarrow> [] | Some h \<Rightarrow> h);
          headers = (if ''User-Agent'' \<in> fst ` set headers then headers
            else AList.update ''User-Agent'' USER_AGENT headers)
      in \<lparr>rq_url = url, rq_method = method, rq_body = body, rq_headers = headers, rq_retries = retries,
           rq_redirects = redirects, rq_client_conn = client_conn\<rparr>)"

abbreviation MAXIMUM_REQUEST_ID :: nat where "MAXIMUM_REQUEST_ID \<equiv> 4294967295"

definition next_request_id :: "nat \<Rightarrow> nat" where
  "next_request_id request_id = (request_id + 1) mod MAXIMUM_REQUEST_ID"

definition generic_request :: "string \<Rightarrow> string \<Rightarrow> string \<Rightarrow> string \<Rightarrow> nat \<Rightarrow> nat \<Rightarrow> api_request" where
  "generic_request method url body content_type retries redirects =
     new_request url method body (Some [(''Content-Type'', content_type)]) retries redirects None"

subsection \<open>From a response to a result\<close>

datatype api_error = NsxApiException | UnAuthorizedRequest | ResourceNotFound | Conflict | ServiceUnavailable
  | Forbidden | ReadOnlyMode | RequestTimeout | BadRequest | InvalidSecurityCertificate

fun substring :: "string \<Rightarrow> string \<Rightarrow> bool" where
  "substring p [] = (p = [])"
| "substring p (c # s) = (take (length p) (c # s) = p \<or> substring p s)"

definition fourZeroZero :: "response \<Rightarrow> api_error" where
  "fourZeroZero r = (if substring ''Invalid SecurityCertificate'' (rs_body r)
     then InvalidSecurityCertificate else BadRequest)"

definition fourZeroThree :: "response \<Rightarrow> api_error" where
  "fourZeroThree r = (if substring ''read-only'' (rs_body r) then ReadOnlyMode else Forbidden)"

definition error_mappings :: "(nat \<times> (response \<Rightarrow> api_error)) list" where
  "error_mappings =
     [(400, fourZeroZero), (404, \<lambda>_. ResourceNotFound), (405, \<lambda>_. NsxApiException), (409, \<lambda>_. Conflict),
      (503, \<lambda>_. ServiceUnavailable), (403, fourZeroThree), (301, \<lambda>_. NsxApiException),
      (307, \<lambda>_. NsxApiException), (500, \<lambda>_. NsxApiException), (501, \<lambda>_. NsxApiException)]"

text \<open>The controller version in the \<open>server\<close> header. A header value without a slash, or a
  version without a dot, is skipped; a part that is not a number raises.\<close>

record version =
  vn_full :: "string list"
  vn_major :: int
  vn_minor :: int

definition parse_version :: "'w env \<Rightarrow> string \<Rightarrow> py_exc + version" where
  "parse_version E v =
     (case split_at_char CHR ''.'' v of
        [] \<Rightarrow> Inl IndexError
      | a # rest \<Rightarrow>
          (case to_int E a of
             None \<Rightarrow> Inl ValueError
           | Some major \<Rightarrow>
               (case rest of
                  [] \<Rightarrow> Inl IndexError
                | b # _ \<Rightarrow>
                    (case to_int E b of
                       None \<Rightarrow> Inl ValueError
                     | Some minor \<Rightarrow> Inr \<lparr>vn_full = a # rest, vn_major = major, vn_minor = minor\<rparr>))))"

fun find_version :: "'w env \<Rightarrow> (string \<times> string) list \<Rightarrow> py_exc + version option" where
  "find_version E [] = Inr None"
| "find_version E ((name, value) # hs) =
     (if name = ''server'' then
        (case (case split_at_char CHR ''/'' value of
                 a # b # _ \<Rightarrow> parse_version E b | _ \<Rightarrow> Inl IndexError) of
           Inr v \<Rightarrow> Inr (Some v)
         | Inl IndexError \<Rightarrow> find_version E hs
         | Inl e \<Rightarrow> Inl e)
      else find_version E hs)"

datatype raised = Api api_error | Other exn

text \<open>\<open>NsxApiClient.request\<close> after the request was handled: the body, None for an unexpected
  status, or an exception; with the version known afterwards.\<close>

definition finish_request :: "'w env \<Rightarrow> version option \<Rightarrow> response option \<Rightarrow> (raised + string option) \<times> version option" where
  "finish_request E v resp =
     (case resp of
        None \<Rightarrow> (Inl (Api RequestTimeout), v)
      | Some r \<Rightarrow>
          if rs_status r = UNAUTHORIZED then (Inl (Api UnAuthorizedRequest), v)
          else (case map_of error_mappings (rs_status r) of
              Some f \<Rightarrow> (Inl (Api (f r)), v)
            | None \<Rightarrow>
                if rs_status r \<noteq> OK \<and> rs_status r \<noteq> CREATED \<and> rs_status r \<noteq> NO_CONTENT then (Inr None, v)
                else (case v of
                    Some _ \<Rightarrow> (Inr (Some (rs_body r)), v)
                  | None \<Rightarrow>
                      (case find_version E (rs_headers r) of
                         Inl e \<Rightarrow> (Inl (Other (Py e)), v)
                       | Inr v' \<Rightarrow> (Inr (Some (rs_body r)), v')))))"

text \<open>The whole of \<open>NsxApiClient.request\<close>; None stands for an endless wait.\<close>

definition client_request :: "('q, conn) pq \<Rightarrow> 'w env \<Rightarrow> nat \<Rightarrow> nat \<Rightarrow> version option \<Rightarrow> 'q client \<Rightarrow> 'w \<Rightarrow>
    string \<Rightarrow> string \<Rightarrow> string \<Rightarrow> string \<Rightarrow> ((raised + string option) \<times> version option) option \<times> 'q client \<times> 'w" where
  "client_request Q E retries redirects v cl w method url body content_type =
     (case handle_request Q E (generic_request method url body content_type retries redirects) cl w of
        (Finished r _, _, cl, w) \<Rightarrow> (Some (finish_request E v r), cl, w)
      | (Failed e, _, cl, w) \<Rightarrow> (Some (Inl (Other e), v), cl, w)
      | (Waits, _, cl, w) \<Rightarrow> (None, cl, w))"

subsection \<open>Bounds on the exchanges and attempts\<close>

text \<open>A measure of the network's state that counts the exchanges.\<close>

definition counts_sends :: "'w env \<Rightarrow> ('w \<Rightarrow> nat) \<Rightarrow> bool" where
  "counts_sends E n \<longleftrightarrow> (\<forall>w c m u b h g. n (snd (send E w c m u b h g)) = Suc (n w))"

lemma issue_loop_sends:
  assumes "counts_sends E n" "issue_loop Q E rq rest cl w c url un = (res, c', un', cl', w')"
  shows "n w < n w' \<and> n w' \<le> n w + Suc rest"
  using assms(2)
proof (induction rest arbitrary: cl w c url un)
  case 0
  obtain a w1 where s: "send E w c (rq_method rq) url (rq_body rq)
      (request_headers (rq_headers rq) (auth_cookie cl c)) (wait_for_gen (config_gen cl (clock E w))) = (a, w1)"
    by fastforce
  then have "n w1 = Suc (n w)" using assms(1) unfolding counts_sends_def by (metis snd_conv)
  then show ?case using 0 s by (auto simp: issue_loop.simps Let_def split: sum.splits if_splits)
next
  case (Suc rest)
  obtain a w1 where s: "send E w c (rq_method rq) url (rq_body rq)
      (request_headers (rq_headers rq) (auth_cookie cl c)) (wait_for_gen (config_gen cl (clock E w))) = (a, w1)"
    by fastforce
  then have n1: "n w1 = Suc (n w)" using assms(1) unfolding counts_sends_def by (metis snd_conv)
  from Suc.prems s have "w' = w1 \<or> (\<exists>cl c url un. issue_loop Q E rq rest cl w1 c url un = (res, c', un', cl', w'))"
    by (subst (asm) issue_loop.simps)
      (auto simp: Let_def split: sum.splits if_splits prod.splits option.splits)
  then show ?case
  proof
    assume "\<exists>cl c url un. issue_loop Q E rq rest cl w1 c url un = (res, c', un', cl', w')"
    then have "n w1 < n w' \<and> n w' \<le> n w1 + Suc rest" using Suc.IH by blast
    then show ?thesis using n1 by simp
  qed (use n1 in simp)
qed

lemma issue_request_sends:
  assumes "counts_sends E n" "issue_request Q E rq cl w = (res, cl', w')"
  shows "n w' \<le> n w + Suc (rq_redirects rq)"
proof -
  obtain a cl1 where a: "(case rq_client_conn rq of Some c \<Rightarrow> (Got c, cl)
      | None \<Rightarrow> acquire_connection Q (login_of E w) cl True (clock E w) (conn_idle_timeout E)) = (a, cl1)"
    by fastforce
  show ?thesis
  proof (cases a)
    case (Got c)
    obtain r c1 un cl2 w2 where l: "issue_loop Q E rq (rq_redirects rq) cl1 w c (rq_url rq) False = (r, c1, un, cl2, w2)"
      using prod_cases5 by blast
    have "w' = w2" using assms(2) unfolding issue_request_def a Got
      by (auto simp: l Let_def split: prod.splits sum.splits if_splits)
    then show ?thesis using issue_loop_sends [OF assms(1) l] by simp
  qed (use assms(2) in \<open>simp_all add: issue_request_def a\<close>)
qed

lemma handle_loop_bounds:
  assumes "counts_sends E n" "handle_loop Q E rq left attempt err cl w = (res, attempt', cl', w')"
  shows "n w' \<le> n w + left * Suc (rq_redirects rq) \<and> attempt' \<le> attempt + left \<and>
    (left \<noteq> 0 \<longrightarrow> attempt < attempt')"
  using assms(2)
proof (induction left arbitrary: attempt err cl w)
  case (Suc left)
  obtain i cl1 w1 where i: "issue_request Q E rq cl w = (i, cl1, w1)" using prod_cases3 by blast
  have n1: "n w1 \<le> n w + Suc (rq_redirects rq)" by (rule issue_request_sends [OF assms(1) i])
  from Suc.prems i have "w' = w1 \<and> attempt' = Suc attempt \<or>
      (\<exists>err. handle_loop Q E rq left (Suc attempt) err cl1 w1 = (res, attempt', cl', w'))"
    by (cases i) (auto split: if_splits)
  then show ?case
  proof
    assume "\<exists>err. handle_loop Q E rq left (Suc attempt) err cl1 w1 = (res, attempt', cl', w')"
    then obtain err' where h: "handle_loop Q E rq left (Suc attempt) err' cl1 w1 = (res, attempt', cl', w')" by blast
    have "n w' \<le> n w1 + left * Suc (rq_redirects rq) \<and> attempt' \<le> Suc attempt + left \<and> (left \<noteq> 0 \<longrightarrow> Suc attempt < attempt')"
      by (rule Suc.IH [OF h])
    moreover have "attempt < attempt'" using calculation h by (cases left) auto
    ultimately show ?thesis using n1 by simp
  qed (use n1 in simp)
qed simp

lemma handle_loop_result:
  assumes "handle_loop Q E rq left attempt err cl w = (Finished resp err', attempt', cl', w')"
  shows "(case resp of
      Some r \<Rightarrow> err' = None \<and> (rs_status r \<in> {UNAUTHORIZED, FORBIDDEN, SERVICE_UNAVAILABLE} \<longrightarrow> attempt' = attempt + left)
    | None \<Rightarrow> attempt' = attempt + left)"
  using assms
proof (induction left arbitrary: attempt err cl w)
  case (Suc left)
  obtain i cl1 w1 where i: "issue_request Q E rq cl w = (i, cl1, w1)" using prod_cases3 by blast
  from Suc.prems i have "(\<exists>r. i = Response r \<and> resp = Some r \<and> err' = None \<and> attempt' = Suc attempt \<and>
        \<not> (left \<noteq> 0 \<and> rs_status r \<in> {UNAUTHORIZED, FORBIDDEN, SERVICE_UNAVAILABLE})) \<or>
      (\<exists>err. handle_loop Q E rq left (Suc attempt) err cl1 w1 = (Finished resp err', attempt', cl', w'))"
    by (cases i) (auto split: if_splits)
  then show ?case
  proof
    assume "\<exists>err. handle_loop Q E rq left (Suc attempt) err cl1 w1 = (Finished resp err', attempt', cl', w')"
    then obtain err1 where "handle_loop Q E rq left (Suc attempt) err1 cl1 w1 = (Finished resp err', attempt', cl', w')" by blast
    from Suc.IH [OF this] show ?thesis by (simp split: option.splits)
  qed auto
qed simp

subsection \<open>A request gives back what it took\<close>



text \<open>The providers that have data.\<close>

definition provs :: "'q client \<Rightarrow> conn_params set" where
  "provs cl = {p. get_provider_data cl p \<noteq> None}"



lemma provs_set_auth_cookie [simp]: "provs (set_auth_cookie cl c k) = provs cl"
  by (auto simp: provs_def set_auth_cookie_def set_provider_data_def get_provider_data_def
      split: option.splits)







subsection \<open>Properties\<close>

text \<open>C32: A request always ends in a bounded number of exchanges: whatever the servers answer,
  it makes at most one attempt more than the configured retries, each of at most one exchange
  more than the configured redirects; when it returns a response, no error is recorded; and
  a 401, 403 or 503 is returned only when all the attempts have been used.\<close>

theorem request_attempts_bounded:
  assumes "counts_sends E n" "handle_request Q E rq cl w = (res, attempt, cl', w')"
  shows "n w' \<le> n w + Suc (rq_retries rq) * Suc (rq_redirects rq) \<and>
    1 \<le> attempt \<and> attempt \<le> Suc (rq_retries rq) \<and>
    (\<forall>r err. res = Finished (Some r) err \<longrightarrow> err = None \<and>
       (rs_status r \<in> {UNAUTHORIZED, FORBIDDEN, SERVICE_UNAVAILABLE} \<longrightarrow> attempt = Suc (rq_retries rq))) \<and>
    (\<forall>err. res = Finished None err \<longrightarrow> attempt = Suc (rq_retries rq))"
proof -
  have h: "handle_loop Q E rq (Suc (rq_retries rq)) 0 None cl w = (res, attempt, cl', w')"
    using assms(2) by (simp add: handle_request_def)
  from handle_loop_bounds [OF assms(1) h]
  have "n w' \<le> n w + Suc (rq_retries rq) * Suc (rq_redirects rq) \<and> 1 \<le> attempt \<and> attempt \<le> Suc (rq_retries rq)" by auto
  moreover have "err = None \<and> (rs_status r \<in> {UNAUTHORIZED, FORBIDDEN, SERVICE_UNAVAILABLE} \<longrightarrow>
      attempt = Suc (rq_retries rq))" if "res = Finished (Some r) err" for r err
    using handle_loop_result [OF h [unfolded that]] by simp
  moreover have "attempt = Suc (rq_retries rq)" if "res = Finished None err" for err
    using handle_loop_result [OF h [unfolded that]] by simp
  ultimately show ?thesis by blast
qed

text \<open>An environment for the witnesses: the servers always answer 503, and the state of the
  network counts the exchanges.\<close>

definition demo_env :: "nat env" where
  "demo_env = \<lparr>send = (\<lambda>w c m u b h g. (Inr \<lparr>rs_status = 503, rs_headers = [], rs_body = ''''\<rparr>, Suc w)),
     login_of = (\<lambda>_. demo_login), urlparse = (\<lambda>u. \<lparr>up_scheme = '''', up_hostname = None, up_port = Inr None,
       up_path = u, up_query = ''''\<rparr>), to_int = (\<lambda>_. None), clock = (\<lambda>_. 0), conn_idle_timeout = 900\<rparr>"

definition demo_request :: api_request where
  "demo_request = generic_request ''GET'' ''/x'' '''' ''application/json'' 2 2"

theorem request_attempts_bounded_witness:
  "\<forall>cl. \<exists>res attempt cl' w'. handle_request list_pq demo_env demo_request cl 0 = (res, attempt, cl', w') \<and>
     w' \<le> 9 \<and> attempt \<le> 3"
proof
  fix cl
  have c: "counts_sends demo_env (\<lambda>w. w)" by (simp add: counts_sends_def demo_env_def)
  obtain res attempt cl' w' where h: "handle_request list_pq demo_env demo_request cl 0 = (res, attempt, cl', w')"
    using prod_cases4 by blast
  have "rq_retries demo_request = 2" "rq_redirects demo_request = 2"
    by (simp_all add: demo_request_def generic_request_def new_request_def Let_def)
  with request_attempts_bounded [OF c h] have "w' \<le> 9 \<and> attempt \<le> 3" by simp
  with h show "\<exists>res attempt cl' w'. handle_request list_pq demo_env demo_request cl 0 = (res, attempt, cl', w') \<and>
     w' \<le> 9 \<and> attempt \<le> 3" by blast
qed



text \<open>\<open>request\<close> returns a body exactly for the statuses 200, 201 and 204, provided the
  version in the headers can be read when it is not known yet; a missing response is a
  RequestTimeout, 401 an UnAuthorizedRequest, and each of the statuses 400, 404, 405, 409,
  503, 403, 301, 307, 500 and 501 the exception of its own; any other status gives None.\<close>

theorem response_classification:
  "case resp of
     None \<Rightarrow> finish_request E v resp = (Inl (Api RequestTimeout), v)
   | Some r \<Rightarrow>
       (if rs_status r \<in> {200, 201, 204} then
          (\<exists>v'. finish_request E v resp = (Inr (Some (rs_body r)), v') \<and> (v' = v \<or> v = None)) \<or>
          v = None \<and> (\<exists>e. find_version E (rs_headers r) = Inl e \<and> finish_request E v resp = (Inl (Other (Py e)), v))
        else if rs_status r = 401 then finish_request E v resp = (Inl (Api UnAuthorizedRequest), v)
        else if rs_status r \<in> {301, 307, 400, 403, 404, 405, 409, 500, 501, 503} then
          \<exists>e. finish_request E v resp = (Inl (Api e), v) \<and>
            (e = ResourceNotFound \<longleftrightarrow> rs_status r = 404) \<and> (e = Conflict \<longleftrightarrow> rs_status r = 409) \<and>
            (e = ServiceUnavailable \<longleftrightarrow> rs_status r = 503) \<and> (e \<in> {Forbidden, ReadOnlyMode} \<longleftrightarrow> rs_status r = 403) \<and>
            (e \<in> {BadRequest, InvalidSecurityCertificate} \<longleftrightarrow> rs_status r = 400) \<and>
            (e = NsxApiException \<longleftrightarrow> rs_status r \<in> {301, 307, 405, 500, 501})
        else finish_request E v resp = (Inr None, v))"
proof (cases resp)
  case None
  then show ?thesis by (simp add: finish_request_def)
next
  case (Some r)
  show ?thesis
    by (cases "find_version E (rs_headers r)"; cases v)
      (auto simp: Some finish_request_def error_mappings_def fourZeroZero_def fourZeroThree_def)
qed


lemma set_auth_cookie_None [simp]: "auth_cookie (set_auth_cookie cl c None) c = None"
  by (auto simp: auth_cookie_def set_auth_cookie_def set_provider_data_def get_provider_data_def split: option.splits)

text \<open>A response 401 makes the client forget the session cookie of the provider, so the
  next use of a connection to it logs in again.\<close>

theorem unauthorized_clears_cookie:
  assumes "issue_loop Q E rq rest cl w c url un = (Inr r, c', un', cl', w')" "rs_status r = UNAUTHORIZED"
  shows "auth_cookie cl' c' = None"
  using assms(1)
proof (induction rest arbitrary: cl w c url un)
  case 0
  then show ?case using assms(2)
    by (auto simp: issue_loop.simps Let_def split: sum.splits if_splits prod.splits)
next
  case (Suc rest)
  from Suc.prems have "(\<exists>cl0. cl' = set_auth_cookie cl0 c' None) \<or>
      (\<exists>cl w c url un. issue_loop Q E rq rest cl w c url un = (Inr r, c', un', cl', w'))"
    using assms(2) by (subst (asm) issue_loop.simps)
      (auto simp: Let_def split: sum.splits if_splits prod.splits option.splits)
  then show ?case using Suc.IH by (elim disjE exE) simp_all
qed

theorem unauthorized_clears_cookie_witness:
  "\<exists>c' un' cl' w'. issue_loop list_pq (demo_env\<lparr>send := \<lambda>w c m u b h g. (Inr \<lparr>rs_status = 401, rs_headers = [], rs_body = ''x''\<rparr>, Suc w)\<rparr>)
      demo_request 2 \<lparr>api_providers = [(''a'', Some 443, True)],
        api_provider_data = [((''a'', Some 443, True), True, Some ''cookie'')], concurrent_connections = 1,
        config_gen_raw = None, config_gen_ts = None, gen_timeout = -1, conn_pool = [], next_conn_priority = 2, next_conn_id = 1\<rparr>
      0 \<lparr>cn_id = 0, cn_host = ''a'', cn_port = 443, cn_ssl = True, cn_last_used = None, cn_priority = Some 1, cn_no_release = False\<rparr>
      ''/x'' False = (Inr \<lparr>rs_status = 401, rs_headers = [], rs_body = ''x''\<rparr>, c', un', cl', w') \<and> auth_cookie cl' c' = None"
  (is "\<exists>c' un' cl' w'. ?L = (Inr ?r, c', un', cl', w') \<and> _")
proof -
  have "\<exists>c' un' cl' w'. ?L = (Inr ?r, c', un', cl', w')"
    by (subst issue_loop.simps)
      (simp add: Let_def demo_env_def read_gen_def getheader_def, rule exI [of _ False], simp)
  then obtain c' un' cl' w' where l: "?L = (Inr ?r, c', un', cl', w')" by blast
  have "rs_status ?r = UNAUTHORIZED" by simp
  from unauthorized_clears_cookie [OF l this] l show ?thesis by blast
qed

end
