(* ===== verification/Orm.thy ===== *)
theory Orm
  imports Prelude
begin

text \<open>
  The interface to the database. The plugin reaches its tables through SQLAlchemy, which is
  not part of the repository: a table is a value of an unknown type \<open>'t\<close>, and the four
  things the code does with one are the fields of a record that every function on the
  database takes as an argument. The locale states what the code relies on: a query
  returns exactly the rows that satisfy its filter, each once and in an order of the
  database's choosing; adding a row whose primary key is taken raises; assigning to
  the columns of loaded rows and deleting rows change the selected rows only.
\<close>

datatype db_error = DBDuplicateEntry | NoResultFound | MultipleResultsFound
  | NsxPluginException | ZeroDivisionError
  | NsxQosPolicyMappingNotFound | DBReferenceError | DBError

record ('t, 'r) orm =
  q_all :: "'t \<Rightarrow> ('r \<Rightarrow> bool) \<Rightarrow> 'r list"
  q_add :: "'t \<Rightarrow> 'r \<Rightarrow> db_error + 't"
  q_set :: "'t \<Rightarrow> ('r \<Rightarrow> bool) \<Rightarrow> ('r \<Rightarrow> 'r) \<Rightarrow> 't"
  q_del :: "'t \<Rightarrow> ('r \<Rightarrow> bool) \<Rightarrow> 't"

definition rows :: "('t, 'r) orm \<Rightarrow> 't \<Rightarrow> 'r set" where
  "rows D t = set (q_all D t (\<lambda>_. True))"

text \<open>\<open>first()\<close>, \<open>one()\<close>, \<open>one()\<close> with NoResultFound caught, and \<open>delete()\<close>, which
  returns the number of rows it removed.\<close>

definition q_first :: "('t, 'r) orm \<Rightarrow> 't \<Rightarrow> ('r \<Rightarrow> bool) \<Rightarrow> 'r option" where
  "q_first D t P = (case q_all D t P of [] \<Rightarrow> None | r # _ \<Rightarrow> Some r)"

fun only_one :: "'r list \<Rightarrow> db_error + 'r" where
  "only_one [] = Inl NoResultFound"
| "only_one [r] = Inr r"
| "only_one (r # r' # rs) = Inl MultipleResultsFound"

definition q_one :: "('t, 'r) orm \<Rightarrow> 't \<Rightarrow> ('r \<Rightarrow> bool) \<Rightarrow> db_error + 'r" where
  "q_one D t P = only_one (q_all D t P)"

definition one_or_none :: "('t, 'r) orm \<Rightarrow> 't \<Rightarrow> ('r \<Rightarrow> bool) \<Rightarrow> db_error + 'r option" where
  "one_or_none D t P =
     (case q_one D t P of
        Inl NoResultFound \<Rightarrow> Inr None
      | Inl e \<Rightarrow> Inl e
      | Inr r \<Rightarrow> Inr (Some r))"

definition q_delete :: "('t, 'r) orm \<Rightarrow> 't \<Rightarrow> ('r \<Rightarrow> bool) \<Rightarrow> nat \<times> 't" where
  "q_delete D t P = (length (q_all D t P), q_del D t P)"

definition add_row :: "('t, 'r) orm \<Rightarrow> 't \<Rightarrow> 'r \<Rightarrow> db_error + 'r \<times> 't" where
  "add_row D t r = (case q_add D t r of Inl e \<Rightarrow> Inl e | Inr t' \<Rightarrow> Inr (r, t'))"

locale orm_table =
  fixes D :: "('t, 'r) orm" and key :: "'r \<Rightarrow> 'k" and ok :: "'t \<Rightarrow> bool"
  assumes all_rows: "ok t \<Longrightarrow> set (q_all D t P) = {r \<in> rows D t. P r}"
    and all_distinct: "ok t \<Longrightarrow> distinct (q_all D t P)"
    and key_inj: "ok t \<Longrightarrow> inj_on key (rows D t)"
    and add_taken: "ok t \<Longrightarrow> x \<in> rows D t \<Longrightarrow> key x = key r \<Longrightarrow> q_add D t r = Inl DBDuplicateEntry"
    and add_free: "ok t \<Longrightarrow> key r \<notin> key ` rows D t \<Longrightarrow>
      \<exists>t'. q_add D t r = Inr t' \<and> ok t' \<and> rows D t' = insert r (rows D t)"
    and set_ok: "ok t \<Longrightarrow> (\<And>r. key (f r) = key r) \<Longrightarrow> ok (q_set D t P f)"
    and set_rows: "ok t \<Longrightarrow> (\<And>r. key (f r) = key r) \<Longrightarrow>
      rows D (q_set D t P f) = (\<lambda>r. if P r then f r else r) ` rows D t"
    and del_ok: "ok t \<Longrightarrow> ok (q_del D t P)"
    and del_rows: "ok t \<Longrightarrow> rows D (q_del D t P) = {r \<in> rows D t. \<not> P r}"
begin

lemma add_cases [consumes 1, case_names taken free]:
  assumes "ok t"
  obtains x where "x \<in> rows D t" "key x = key r" "q_add D t r = Inl DBDuplicateEntry"
  | t' where "key r \<notin> key ` rows D t" "q_add D t r = Inr t'" "ok t'" "rows D t' = insert r (rows D t)"
proof (cases "key r \<in> key ` rows D t")
  case True
  then obtain x where "x \<in> rows D t" "key x = key r" by auto
  with add_taken [OF assms this] that(1) show thesis by blast
next
  case False
  with add_free [OF assms False] that(2) show thesis by blast
qed

lemma add_rowD:
  assumes "ok t" "add_row D t r = Inr (x, t')"
  shows "x = r" "ok t'" "rows D t' = insert r (rows D t)" "key r \<notin> key ` rows D t"
  using assms by (auto simp: add_row_def elim: add_cases [of t r] split: sum.splits)

lemma add_row_iff:
  assumes "ok t"
  shows "(\<exists>x t'. add_row D t r = Inr (x, t')) \<longleftrightarrow> key r \<notin> key ` rows D t"
  using assms
proof (cases rule: add_cases [where r = r])
  case (taken x)
  then have "key r \<in> key ` rows D t" by (metis imageI)
  with taken show ?thesis by (simp add: add_row_def)
next
  case (free t')
  then show ?thesis by (simp add: add_row_def)
qed

lemma first_None: "ok t \<Longrightarrow> q_first D t P = None \<longleftrightarrow> (\<forall>r \<in> rows D t. \<not> P r)"
  using all_rows [of t P] by (cases "q_all D t P") (auto simp: q_first_def)

lemma first_Some:
  assumes "ok t" "q_first D t P = Some r"
  shows "r \<in> rows D t" "P r"
  using all_rows [OF assms(1), of P] assms(2)
  by (auto simp: q_first_def split: list.splits)

lemma one_Inr:
  assumes "ok t"
  shows "q_one D t P = Inr r \<longleftrightarrow> {x \<in> rows D t. P x} = {r}"
  using all_rows [OF assms, of P] all_distinct [OF assms, of P]
  by (cases "q_all D t P" rule: only_one.cases) (auto simp: q_one_def)

lemma one_none:
  assumes "ok t"
  shows "q_one D t P = Inl NoResultFound \<longleftrightarrow> (\<forall>r \<in> rows D t. \<not> P r)"
  using all_rows [OF assms, of P] by (cases "q_all D t P" rule: only_one.cases) (auto simp: q_one_def)

lemma one_or_none_None:
  assumes "ok t"
  shows "one_or_none D t P = Inr None \<longleftrightarrow> (\<forall>r \<in> rows D t. \<not> P r)"
  using all_rows [OF assms, of P]
  by (cases "q_all D t P" rule: only_one.cases) (auto simp: q_one_def one_or_none_def)

lemma one_or_none_Some:
  assumes "ok t"
  shows "one_or_none D t P = Inr (Some r) \<longleftrightarrow> {x \<in> rows D t. P x} = {r}"
  using all_rows [OF assms, of P] all_distinct [OF assms, of P]
  by (cases "q_all D t P" rule: only_one.cases) (auto simp: q_one_def one_or_none_def)

text \<open>A filter that fixes the primary key selects at most one row.\<close>

lemma one_or_none_key:
  assumes "ok t" and P: "\<And>x y. P x \<Longrightarrow> P y \<Longrightarrow> key x = key y"
  obtains "\<forall>r \<in> rows D t. \<not> P r" "one_or_none D t P = Inr None"
  | r where "r \<in> rows D t" "P r" "one_or_none D t P = Inr (Some r)"
proof (cases "\<forall>r \<in> rows D t. \<not> P r")
  case True
  then show thesis using that(1) one_or_none_None [OF assms(1)] by blast
next
  case False
  then obtain r where r: "r \<in> rows D t" "P r" by blast
  then have "{x \<in> rows D t. P x} = {r}"
    using P key_inj [OF assms(1)] by (auto dest: inj_onD)
  then show thesis using that(2) r one_or_none_Some [OF assms(1)] by blast
qed

lemma one_or_none_at:
  assumes "ok t" "r \<in> rows D t" "P r" "\<And>x. P x \<Longrightarrow> key x = key r"
  shows "one_or_none D t P = Inr (Some r)"
proof -
  have "x = r" if "x \<in> rows D t" "P x" for x
    using inj_onD [OF key_inj [OF assms(1)] assms(4) [OF that(2)] that(1) assms(2)] .
  then have "{x \<in> rows D t. P x} = {r}" using assms(2,3) by blast
  then show ?thesis using one_or_none_Some [OF assms(1)] by simp
qed

lemma set_one_row:
  assumes "ok t" "b \<in> rows D t" and f: "\<And>r. key (f r) = key r"
  shows "rows D (q_set D t (\<lambda>r. key r = key b) f) = insert (f b) (rows D t - {b})"
  using set_rows [OF assms(1) f] key_inj [OF assms(1)] assms(2)
  by (auto dest: inj_onD)

lemma delete_count: "ok t \<Longrightarrow> fst (q_delete D t P) = card {r \<in> rows D t. P r}"
  using distinct_card [OF all_distinct [of t P]] by (simp add: q_delete_def all_rows)

lemma delete_rows: "ok t \<Longrightarrow> rows D (snd (q_delete D t P)) = {r \<in> rows D t. \<not> P r}"
  by (simp add: q_delete_def del_rows)

lemma delete_ok: "ok t \<Longrightarrow> ok (snd (q_delete D t P))"
  by (simp add: q_delete_def del_ok)

end

text \<open>
  A table held as a list of rows with distinct keys meets the contract; the witnesses use
  it, with the keys of the models.
\<close>

definition list_orm :: "('r \<Rightarrow> 'k) \<Rightarrow> ('r list, 'r) orm" where
  "list_orm key =
     \<lparr>q_all = (\<lambda>t P. filter P t),
      q_add = (\<lambda>t r. if key r \<in> key ` set t then Inl DBDuplicateEntry else Inr (t @ [r])),
      q_set = (\<lambda>t P f. map (\<lambda>r. if P r then f r else r) t),
      q_del = (\<lambda>t P. filter (\<lambda>r. \<not> P r) t)\<rparr>"

lemma rows_list_orm [simp]: "rows (list_orm key) t = set t"
  by (simp add: rows_def list_orm_def)

definition keys_distinct :: "('r \<Rightarrow> 'k) \<Rightarrow> 'r list \<Rightarrow> bool" where
  "keys_distinct key t \<longleftrightarrow> distinct (map key t)"

lemma list_orm_table: "orm_table (list_orm key) key (keys_distinct key)"
proof
  fix t :: "'a list" and P f r x
  assume ok: "keys_distinct key t"
  then have d: "distinct t" by (auto simp: keys_distinct_def distinct_map)
  show "set (q_all (list_orm key) t P) = {r \<in> rows (list_orm key) t. P r}"
    "distinct (q_all (list_orm key) t P)" "inj_on key (rows (list_orm key) t)"
    using ok d by (auto simp: list_orm_def rows_def keys_distinct_def distinct_map)
  show "x \<in> rows (list_orm key) t \<Longrightarrow> key x = key r \<Longrightarrow> q_add (list_orm key) t r = Inl DBDuplicateEntry"
    by (simp add: list_orm_def rows_def) (metis imageI)
  show "key r \<notin> key ` rows (list_orm key) t \<Longrightarrow> \<exists>t'. q_add (list_orm key) t r = Inr t' \<and>
      keys_distinct key t' \<and> rows (list_orm key) t' = insert r (rows (list_orm key) t)"
    using ok by (auto simp: list_orm_def rows_def keys_distinct_def)
  show "keys_distinct key (q_del (list_orm key) t P)"
    "rows (list_orm key) (q_del (list_orm key) t P) = {r \<in> rows (list_orm key) t. \<not> P r}"
    using ok by (auto simp: list_orm_def rows_def keys_distinct_def distinct_map_filter)
next
  fix t :: "'a list" and P f
  assume ok: "keys_distinct key t" and f: "\<And>r. key (f r) = key r"
  have "map key (map (\<lambda>r. if P r then f r else r) t) = map key t"
    using f by simp
  then show "keys_distinct key (q_set (list_orm key) t P f)"
    using ok by (simp add: keys_distinct_def list_orm_def del: map_map)
  show "rows (list_orm key) (q_set (list_orm key) t P f) =
      (\<lambda>r. if P r then f r else r) ` rows (list_orm key) t"
    by (simp add: list_orm_def rows_def)
qed

end
