(* ===== verification/NsxvModels.thy ===== *)
theory NsxvModels
  imports Orm
begin

text \<open>
  The tables of the NSX-v plugin (\<open>db/nsxv_models.py\<close>): one record per model class, with a
  prefix on the columns, a nullable column as an option, and the primary key as a
  function of the row. Timestamps, foreign keys and the eager-loading relationships, which no
  modelled function reads, are left out.
\<close>

datatype appliance_size = COMPACT | LARGE | XLARGE | QUADLARGE

datatype edge_type = SERVICE_EDGE | VDR_EDGE

datatype tz_type = Flat | Vlan | Portgroup | Vxlan

record router_binding =
  rb_router_id :: string
  rb_edge_id :: "string option"
  rb_lswitch_id :: "string option"
  rb_status :: string
  rb_status_description :: "string option"
  rb_appliance_size :: appliance_size
  rb_edge_type :: edge_type
  rb_availability_zone :: "string option"

definition rb_key :: "router_binding \<Rightarrow> string" where
  "rb_key r = rb_router_id r"

record edge_vnic_binding =
  vb_edge_id :: string
  vb_vnic_index :: int
  vb_tunnel_index :: int
  vb_network_id :: "string option"

definition vb_key :: "edge_vnic_binding \<Rightarrow> string \<times> int \<times> int" where
  "vb_key r = (vb_edge_id r, vb_vnic_index r, vb_tunnel_index r)"

record edge_dhcp_static_binding =
  sb_edge_id :: string
  sb_mac_address :: string
  sb_binding_id :: string

definition sb_key :: "edge_dhcp_static_binding \<Rightarrow> string \<times> string" where
  "sb_key r = (sb_edge_id r, sb_mac_address r)"

record internal_network =
  inw_network_purpose :: string
  inw_network_id :: "string option"
  inw_availability_zone :: string

definition inw_key :: "internal_network \<Rightarrow> string \<times> string" where
  "inw_key r = (inw_network_purpose r, inw_availability_zone r)"

record internal_edge =
  ie_ext_ip_address :: string
  ie_router_id :: "string option"
  ie_purpose :: string

definition ie_key :: "internal_edge \<Rightarrow> string" where
  "ie_key r = ie_ext_ip_address r"

record section_mapping =
  sm_neutron_id :: string
  sm_ip_section_id :: string

definition sm_key :: "section_mapping \<Rightarrow> string" where
  "sm_key r = sm_neutron_id r"

record rule_mapping =
  rm_neutron_id :: string
  rm_nsx_rule_id :: string

definition rm_key :: "rule_mapping \<Rightarrow> string \<times> string" where
  "rm_key r = (rm_neutron_id r, rm_nsx_rule_id r)"

record port_vnic_mapping =
  pv_neutron_id :: string
  pv_nsx_id :: string

definition pv_key :: "port_vnic_mapping \<Rightarrow> string \<times> string" where
  "pv_key r = (pv_neutron_id r, pv_nsx_id r)"

record tz_network_binding =
  tz_network_id :: string
  tz_binding_type :: tz_type
  tz_phy_uuid :: "string option"
  tz_vlan_id :: "int option"

definition tz_key :: "tz_network_binding \<Rightarrow> string \<times> tz_type \<times> string option \<times> int option" where
  "tz_key r = (tz_network_id r, tz_binding_type r, tz_phy_uuid r, tz_vlan_id r)"

record firewall_rule_binding =
  fr_rule_id :: string
  fr_edge_id :: string
  fr_rule_vse_id :: string

definition fr_key :: "firewall_rule_binding \<Rightarrow> string \<times> string" where
  "fr_key r = (fr_rule_id r, fr_edge_id r)"

record spoofguard_mapping =
  sg_network_id :: string
  sg_policy_id :: string

definition sg_key :: "spoofguard_mapping \<Rightarrow> string" where
  "sg_key r = sg_network_id r"

record lb_binding =
  lb_loadbalancer_id :: string
  lb_edge_id :: string
  lb_edge_fw_rule_id :: string
  lb_vip_address :: string

definition lb_key :: "lb_binding \<Rightarrow> string" where
  "lb_key r = lb_loadbalancer_id r"

record lb_listener_binding =
  ll_loadbalancer_id :: string
  ll_listener_id :: string
  ll_app_profile_id :: string
  ll_vse_id :: string

definition ll_key :: "lb_listener_binding \<Rightarrow> string \<times> string" where
  "ll_key r = (ll_loadbalancer_id r, ll_listener_id r)"

record lb_pool_binding =
  lp_loadbalancer_id :: string
  lp_pool_id :: string
  lp_edge_pool_id :: string

definition lp_key :: "lb_pool_binding \<Rightarrow> string \<times> string" where
  "lp_key r = (lp_loadbalancer_id r, lp_pool_id r)"

record lb_monitor_binding =
  lm_loadbalancer_id :: string
  lm_pool_id :: string
  lm_hm_id :: string
  lm_edge_id :: string
  lm_edge_mon_id :: string

definition lm_key :: "lb_monitor_binding \<Rightarrow> string \<times> string \<times> string \<times> string" where
  "lm_key r = (lm_loadbalancer_id r, lm_pool_id r, lm_hm_id r, lm_edge_id r)"

record lb_certificate_binding =
  lc_cert_id :: string
  lc_edge_id :: string
  lc_edge_cert_id :: string

definition lc_key :: "lb_certificate_binding \<Rightarrow> string \<times> string" where
  "lc_key r = (lc_cert_id r, lc_edge_id r)"

record lb_l7policy_binding =
  lr_policy_id :: string
  lr_edge_id :: string
  lr_edge_app_rule_id :: string

definition lr_key :: "lb_l7policy_binding \<Rightarrow> string" where
  "lr_key r = lr_policy_id r"

record subnet_ext_attributes =
  se_subnet_id :: string
  se_dns_search_domain :: "string option"
  se_dhcp_mtu :: "int option"

definition se_key :: "subnet_ext_attributes \<Rightarrow> string" where
  "se_key r = se_subnet_id r"

record port_ext_attributes =
  pe_port_id :: string
  pe_vnic_type :: string

definition pe_key :: "port_ext_attributes \<Rightarrow> string" where
  "pe_key r = pe_port_id r"

record bgp_speaker_binding =
  bs_edge_id :: string
  bs_bgp_speaker_id :: string
  bs_bgp_identifier :: string

definition bs_key :: "bgp_speaker_binding \<Rightarrow> string" where
  "bs_key r = bs_edge_id r"

record bgp_peer_edge_binding =
  bp_peer_id :: string
  bp_edge_id :: string

definition bp_key :: "bgp_peer_edge_binding \<Rightarrow> string" where
  "bp_key r = bp_peer_id r"

text \<open>Every table kept as a list of rows with distinct keys meets the database contract.\<close>

interpretation rb_tbl: orm_table "list_orm rb_key" rb_key "keys_distinct rb_key"
  by (rule list_orm_table)

interpretation vb_tbl: orm_table "list_orm vb_key" vb_key "keys_distinct vb_key"
  by (rule list_orm_table)

interpretation sb_tbl: orm_table "list_orm sb_key" sb_key "keys_distinct sb_key"
  by (rule list_orm_table)

interpretation inw_tbl: orm_table "list_orm inw_key" inw_key "keys_distinct inw_key"
  by (rule list_orm_table)

interpretation ie_tbl: orm_table "list_orm ie_key" ie_key "keys_distinct ie_key"
  by (rule list_orm_table)

interpretation sm_tbl: orm_table "list_orm sm_key" sm_key "keys_distinct sm_key"
  by (rule list_orm_table)

interpretation rm_tbl: orm_table "list_orm rm_key" rm_key "keys_distinct rm_key"
  by (rule list_orm_table)

interpretation pv_tbl: orm_table "list_orm pv_key" pv_key "keys_distinct pv_key"
  by (rule list_orm_table)

interpretation tz_tbl: orm_table "list_orm tz_key" tz_key "keys_distinct tz_key"
  by (rule list_orm_table)

interpretation fr_tbl: orm_table "list_orm fr_key" fr_key "keys_distinct fr_key"
  by (rule list_orm_table)

interpretation sg_tbl: orm_table "list_orm sg_key" sg_key "keys_distinct sg_key"
  by (rule list_orm_table)

interpretation lb_tbl: orm_table "list_orm lb_key" lb_key "keys_distinct lb_key"
  by (rule list_orm_table)

interpretation ll_tbl: orm_table "list_orm ll_key" ll_key "keys_distinct ll_key"
  by (rule list_orm_table)

interpretation lp_tbl: orm_table "list_orm lp_key" lp_key "keys_distinct lp_key"
  by (rule list_orm_table)

interpretation lm_tbl: orm_table "list_orm lm_key" lm_key "keys_distinct lm_key"
  by (rule list_orm_table)

interpretation lc_tbl: orm_table "list_orm lc_key" lc_key "keys_distinct lc_key"
  by (rule list_orm_table)

interpretation lr_tbl: orm_table "list_orm lr_key" lr_key "keys_distinct lr_key"
  by (rule list_orm_table)

interpretation se_tbl: orm_table "list_orm se_key" se_key "keys_distinct se_key"
  by (rule list_orm_table)

interpretation pe_tbl: orm_table "list_orm pe_key" pe_key "keys_distinct pe_key"
  by (rule list_orm_table)

interpretation bs_tbl: orm_table "list_orm bs_key" bs_key "keys_distinct bs_key"
  by (rule list_orm_table)

interpretation bp_tbl: orm_table "list_orm bp_key" bp_key "keys_distinct bp_key"
  by (rule list_orm_table)

lemmas key_defs =
 rb_key_def vb_key_def sb_key_def inw_key_def ie_key_def sm_key_def
 rm_key_def pv_key_def tz_key_def fr_key_def sg_key_def lb_key_def
 ll_key_def lp_key_def lm_key_def lc_key_def lr_key_def se_key_def
 pe_key_def bs_key_def bp_key_def

end
