(* ===== verification/NsxvDb.thy ===== *)
theory NsxvDb
  imports NsxvModels
begin

text \<open>
  The operations on the plugin's tables (\<open>db/nsxv_db.py\<close>, and the query filters of
  \<open>db/db.py\<close>), one definition per function, in the order of the source. A function takes
  the database \<open>D\<close> and the state \<open>t\<close> of the table it works on; one that writes returns the
  new state with its result, or the exception, whose transaction is rolled back. The first
  half of the theory is the code, the second half its properties: which rows an edge is
  given, what allocating a vnic for a network may take, and what the later operations find.
\<close>

subsection \<open>Shared query forms\<close>

text \<open>A column value or a method argument used as a condition: None and the empty string
  are false.\<close>

fun truthy :: "string option \<Rightarrow> bool" where
  "truthy None = False"
| "truthy (Some s) = (s \<noteq> [])"

definition set_row :: "('t, 'r) orm \<Rightarrow> ('r \<Rightarrow> 'k) \<Rightarrow> 't \<Rightarrow> 'r \<Rightarrow> ('r \<Rightarrow> 'r) \<Rightarrow> 'r \<times> 't" where
  "set_row D key t b f = (f b, q_set D t (\<lambda>r. key r = key b) f)"

text \<open>\<open>query.filter(column.in_(values))\<close> for every key of the first dictionary that names a
  column, and \<open>column.like(term)\<close> for the second; a null column satisfies neither. \<open>like\<close>
  is the database's pattern match.\<close>

definition filter_in :: "(string \<Rightarrow> ('r \<Rightarrow> 'v option) option) \<Rightarrow> (string \<times> 'v list) list \<Rightarrow> 'r \<Rightarrow> bool" where
  "filter_in col filters r \<longleftrightarrow>
     list_all (\<lambda>(key, value). case col key of None \<Rightarrow> True
       | Some column \<Rightarrow> (case column r of None \<Rightarrow> False | Some v \<Rightarrow> v \<in> set value)) filters"

definition filter_like :: "('v \<Rightarrow> 'v \<Rightarrow> bool) \<Rightarrow> (string \<Rightarrow> ('r \<Rightarrow> 'v option) option) \<Rightarrow>
    (string \<times> 'v) list \<Rightarrow> 'r \<Rightarrow> bool" where
  "filter_like like col filters r \<longleftrightarrow>
     list_all (\<lambda>(key, term). case col key of None \<Rightarrow> True
       | Some column \<Rightarrow> (case column r of None \<Rightarrow> False | Some v \<Rightarrow> like v term)) filters"

definition apply_filters_to_query :: "('v \<Rightarrow> 'v \<Rightarrow> bool) \<Rightarrow> (string \<Rightarrow> ('r \<Rightarrow> 'v option) option) \<Rightarrow>
    ('r \<Rightarrow> bool) \<Rightarrow> (string \<times> 'v list) list option \<Rightarrow> (string \<times> 'v) list option \<Rightarrow> 'r \<Rightarrow> bool" where
  "apply_filters_to_query like col query filters like_filters r \<longleftrightarrow>
     query r \<and> filter_in col (case filters of None \<Rightarrow> [] | Some fs \<Rightarrow> fs) r \<and>
     filter_like like col (case like_filters of None \<Rightarrow> [] | Some fs \<Rightarrow> fs) r"

subsection \<open>Router bindings\<close>

fun appliance_size_str :: "appliance_size \<Rightarrow> string" where
  "appliance_size_str COMPACT = ''compact''"
| "appliance_size_str LARGE = ''large''"
| "appliance_size_str XLARGE = ''xlarge''"
| "appliance_size_str QUADLARGE = ''quadlarge''"

fun edge_type_str :: "edge_type \<Rightarrow> string" where
  "edge_type_str SERVICE_EDGE = ''service''"
| "edge_type_str VDR_EDGE = ''vdr''"

definition rb_column :: "string \<Rightarrow> (router_binding \<Rightarrow> string option) option" where
  "rb_column key = map_of
     [(''router_id'', \<lambda>r. Some (rb_router_id r)), (''edge_id'', rb_edge_id),
      (''lswitch_id'', rb_lswitch_id), (''status'', \<lambda>r. Some (rb_status r)),
      (''status_description'', rb_status_description),
      (''appliance_size'', \<lambda>r. Some (appliance_size_str (rb_appliance_size r))),
      (''edge_type'', \<lambda>r. Some (edge_type_str (rb_edge_type r))),
      (''availability_zone'', rb_availability_zone)] key"

definition add_nsxv_router_binding :: "('t, router_binding) orm \<Rightarrow> 't \<Rightarrow> string \<Rightarrow> string option \<Rightarrow>
    string option \<Rightarrow> string \<Rightarrow> appliance_size \<Rightarrow> edge_type \<Rightarrow> string option \<Rightarrow>
    db_error + router_binding \<times> 't" where
  "add_nsxv_router_binding D t router_id vse_id lswitch_id status appliance_size edge_type availability_zone =
     add_row D t \<lparr>rb_router_id = router_id, rb_edge_id = vse_id, rb_lswitch_id = lswitch_id,
       rb_status = status, rb_status_description = None, rb_appliance_size = appliance_size,
       rb_edge_type = edge_type, rb_availability_zone = availability_zone\<rparr>"

text \<open>The bindings that the decorator \<open>warn_on_binding_status_error\<close> logs: those of the
  result in status ERROR. The result itself is passed through.\<close>

definition warn_on_binding_status_error :: "router_binding list \<Rightarrow> router_binding list" where
  "warn_on_binding_status_error bindings = filter (\<lambda>b. rb_status b = ''ERROR'') bindings"

definition get_nsxv_router_binding :: "('t, router_binding) orm \<Rightarrow> 't \<Rightarrow> string \<Rightarrow> router_binding option" where
  "get_nsxv_router_binding D t router_id = q_first D t (\<lambda>r. rb_router_id r = router_id)"

definition get_nsxv_router_binding_by_edge :: "('t, router_binding) orm \<Rightarrow> 't \<Rightarrow> string \<Rightarrow> router_binding option" where
  "get_nsxv_router_binding_by_edge D t edge_id = q_first D t (\<lambda>r. rb_edge_id r = Some edge_id)"

definition get_nsxv_router_bindings_by_edge :: "('t, router_binding) orm \<Rightarrow> 't \<Rightarrow> string \<Rightarrow> router_binding list" where
  "get_nsxv_router_bindings_by_edge D t edge_id = q_all D t (\<lambda>r. rb_edge_id r = Some edge_id)"

definition get_nsxv_router_bindings :: "('t, router_binding) orm \<Rightarrow> (string \<Rightarrow> string \<Rightarrow> bool) \<Rightarrow> 't \<Rightarrow>
    (string \<times> string list) list option \<Rightarrow> (string \<times> string) list option \<Rightarrow> router_binding list" where
  "get_nsxv_router_bindings D like t filters like_filters =
     q_all D t (apply_filters_to_query like rb_column (\<lambda>_. True) filters like_filters)"

text \<open>The keyword arguments of an update, one constructor per column.\<close>

datatype rb_attr = Rb_router_id string | Rb_edge_id "string option" | Rb_lswitch_id "string option"
  | Rb_status string | Rb_status_description "string option" | Rb_appliance_size appliance_size
  | Rb_edge_type edge_type | Rb_availability_zone "string option"

fun rb_set :: "rb_attr \<Rightarrow> router_binding \<Rightarrow> router_binding" where
  "rb_set (Rb_router_id v) b = b\<lparr>rb_router_id := v\<rparr>"
| "rb_set (Rb_edge_id v) b = b\<lparr>rb_edge_id := v\<rparr>"
| "rb_set (Rb_lswitch_id v) b = b\<lparr>rb_lswitch_id := v\<rparr>"
| "rb_set (Rb_status v) b = b\<lparr>rb_status := v\<rparr>"
| "rb_set (Rb_status_description v) b = b\<lparr>rb_status_description := v\<rparr>"
| "rb_set (Rb_appliance_size v) b = b\<lparr>rb_appliance_size := v\<rparr>"
| "rb_set (Rb_edge_type v) b = b\<lparr>rb_edge_type := v\<rparr>"
| "rb_set (Rb_availability_zone v) b = b\<lparr>rb_availability_zone := v\<rparr>"

definition update_nsxv_router_binding :: "('t, router_binding) orm \<Rightarrow> 't \<Rightarrow> string \<Rightarrow> rb_attr list \<Rightarrow>
    db_error + router_binding \<times> 't" where
  "update_nsxv_router_binding D t router_id kwargs =
     bind_res (q_one D t (\<lambda>r. rb_router_id r = router_id))
       (\<lambda>binding. Inr (set_row D rb_key t binding (fold rb_set kwargs)))"

definition delete_nsxv_router_binding :: "('t, router_binding) orm \<Rightarrow> 't \<Rightarrow> string \<Rightarrow> 't" where
  "delete_nsxv_router_binding D t router_id =
     (case q_first D t (\<lambda>r. rb_router_id r = router_id) of
        None \<Rightarrow> t
      | Some binding \<Rightarrow> q_del D t (\<lambda>r. rb_key r = rb_key binding))"

definition get_edge_availability_zone :: "('t, router_binding) orm \<Rightarrow> 't \<Rightarrow> string \<Rightarrow> string option" where
  "get_edge_availability_zone D t edge_id =
     (case get_nsxv_router_binding_by_edge D t edge_id of
        None \<Rightarrow> None | Some binding \<Rightarrow> rb_availability_zone binding)"

definition get_router_availability_zone :: "('t, router_binding) orm \<Rightarrow> 't \<Rightarrow> string \<Rightarrow> string option" where
  "get_router_availability_zone D t router_id =
     (case get_nsxv_router_binding D t router_id of
        None \<Rightarrow> None | Some binding \<Rightarrow> rb_availability_zone binding)"

definition clean_edge_router_binding :: "('t, router_binding) orm \<Rightarrow> 't \<Rightarrow> string \<Rightarrow> 't" where
  "clean_edge_router_binding D t edge_id = snd (q_delete D t (\<lambda>r. rb_edge_id r = Some edge_id))"

subsection \<open>Internal networks\<close>

text \<open>The network serving a purpose in an availability zone; a zone without one of its own
  uses the default zone's.\<close>

abbreviation DEFAULT_NAME :: string where "DEFAULT_NAME \<equiv> ''default''"

definition create_nsxv_internal_network :: "('t, internal_network) orm \<Rightarrow> 't \<Rightarrow> string \<Rightarrow> string \<Rightarrow>
    string option \<Rightarrow> db_error + 't" where
  "create_nsxv_internal_network D t network_purpose availability_zone network_id =
     q_add D t \<lparr>inw_network_purpose = network_purpose, inw_network_id = network_id,
       inw_availability_zone = availability_zone\<rparr>"

definition get_nsxv_internal_network :: "('t, internal_network) orm \<Rightarrow> 't \<Rightarrow> string \<Rightarrow> string \<Rightarrow> bool \<Rightarrow>
    internal_network option" where
  "get_nsxv_internal_network D t network_purpose availability_zone default_fallback =
     (case q_all D t (\<lambda>r. inw_network_purpose r = network_purpose \<and>
         inw_availability_zone r = availability_zone) of
        n # _ \<Rightarrow> Some n
      | [] \<Rightarrow>
          if default_fallback \<and> availability_zone \<noteq> DEFAULT_NAME
          then (case q_all D t (\<lambda>r. inw_network_purpose r = network_purpose \<and>
              inw_availability_zone r = DEFAULT_NAME) of
              n # _ \<Rightarrow> Some n | [] \<Rightarrow> None)
          else None)"

definition get_nsxv_internal_network_for_az :: "('t, internal_network) orm \<Rightarrow> 't \<Rightarrow> string \<Rightarrow> string \<Rightarrow>
    internal_network option" where
  "get_nsxv_internal_network_for_az D t network_purpose availability_zone =
     get_nsxv_internal_network D t network_purpose availability_zone False"

definition get_nsxv_internal_networks :: "('t, internal_network) orm \<Rightarrow> 't \<Rightarrow> string \<Rightarrow> internal_network list" where
  "get_nsxv_internal_networks D t network_purpose = q_all D t (\<lambda>r. inw_network_purpose r = network_purpose)"

definition get_nsxv_internal_network_by_id :: "('t, internal_network) orm \<Rightarrow> 't \<Rightarrow> string \<Rightarrow> internal_network option" where
  "get_nsxv_internal_network_by_id D t network_id = q_first D t (\<lambda>r. inw_network_id r = Some network_id)"

definition delete_nsxv_internal_network :: "('t, internal_network) orm \<Rightarrow> 't \<Rightarrow> string \<Rightarrow> string \<Rightarrow> nat \<times> 't" where
  "delete_nsxv_internal_network D t network_purpose network_id =
     q_delete D t (\<lambda>r. inw_network_purpose r = network_purpose \<and> inw_network_id r = Some network_id)"

subsection \<open>Edge vnic bindings\<close>

text \<open>\<open>MAX_TUNNEL_NUM\<close> is the configured number of tunnels per vnic, or 10 when that is not
  between 1 and 109.\<close>

abbreviation MAX_VNIC_NUM :: nat where "MAX_VNIC_NUM \<equiv> 10"

definition max_tunnel_num :: "int \<Rightarrow> int" where
  "max_tunnel_num maximum_tunnels_per_vnic =
     (if maximum_tunnels_per_vnic < 110 \<and> maximum_tunnels_per_vnic > 0
      then maximum_tunnels_per_vnic else 10)"

abbreviation DHCP_EDGE_PREFIX :: string where "DHCP_EDGE_PREFIX \<equiv> ''dhcp-''"

abbreviation INTER_EDGE_PURPOSE :: string where "INTER_EDGE_PURPOSE \<equiv> ''inter_edge_net''"

definition get_edge_vnic_bindings_with_networks :: "('t, edge_vnic_binding) orm \<Rightarrow> 't \<Rightarrow> edge_vnic_binding list" where
  "get_edge_vnic_bindings_with_networks D t = q_all D t (\<lambda>r. vb_network_id r \<noteq> None)"

definition get_edge_vnic_binding :: "('t, edge_vnic_binding) orm \<Rightarrow> 't \<Rightarrow> string \<Rightarrow> string \<Rightarrow>
    edge_vnic_binding option" where
  "get_edge_vnic_binding D t edge_id network_id =
     q_first D t (\<lambda>r. vb_edge_id r = edge_id \<and> vb_network_id r = Some network_id)"

definition get_edge_vnic_bindings_by_edge :: "('t, edge_vnic_binding) orm \<Rightarrow> 't \<Rightarrow> string \<Rightarrow> edge_vnic_binding list" where
  "get_edge_vnic_bindings_by_edge D t edge_id =
     q_all D t (\<lambda>r. vb_edge_id r = edge_id \<and> vb_network_id r \<noteq> None)"

definition get_edge_vnic_bindings_by_int_lswitch :: "('t, edge_vnic_binding) orm \<Rightarrow> 't \<Rightarrow> string \<Rightarrow>
    edge_vnic_binding list" where
  "get_edge_vnic_bindings_by_int_lswitch D t lswitch_id = q_all D t (\<lambda>r. vb_network_id r = Some lswitch_id)"

definition create_edge_vnic_binding :: "('t, edge_vnic_binding) orm \<Rightarrow> 't \<Rightarrow> string \<Rightarrow> int \<Rightarrow> string \<Rightarrow> int \<Rightarrow>
    db_error + edge_vnic_binding \<times> 't" where
  "create_edge_vnic_binding D t edge_id vnic_index network_id tunnel_index =
     add_row D t \<lparr>vb_edge_id = edge_id, vb_vnic_index = vnic_index, vb_tunnel_index = tunnel_index,
       vb_network_id = Some network_id\<rparr>"

definition delete_edge_vnic_binding_by_network :: "('t, edge_vnic_binding) orm \<Rightarrow> 't \<Rightarrow> string \<Rightarrow> string \<Rightarrow>
    db_error + 't" where
  "delete_edge_vnic_binding_by_network D t edge_id network_id =
     bind_res (q_one D t (\<lambda>r. vb_edge_id r = edge_id \<and> vb_network_id r = Some network_id))
       (\<lambda>binding. Inr (q_del D t (\<lambda>r. vb_key r = vb_key binding)))"

text \<open>The rows of a new edge, and the loops that add them in the order of the source.\<close>

definition free_vnic :: "string \<Rightarrow> int \<Rightarrow> int \<Rightarrow> edge_vnic_binding" where
  "free_vnic edge_id vnic_index tunnel_index =
     \<lparr>vb_edge_id = edge_id, vb_vnic_index = vnic_index, vb_tunnel_index = tunnel_index, vb_network_id = None\<rparr>"

definition vnic_rows :: "int \<Rightarrow> string \<Rightarrow> int \<Rightarrow> edge_vnic_binding list" where
  "vnic_rows MAX_TUNNEL_NUM edge_id vnic_index =
     (let start = (vnic_index - 1) * MAX_TUNNEL_NUM; stop = vnic_index * MAX_TUNNEL_NUM
      in map (\<lambda>tunnel_index. free_vnic edge_id vnic_index (tunnel_index + 1)) [start..stop - 1])"

fun add_rows :: "('t, 'r) orm \<Rightarrow> 't \<Rightarrow> 'r list \<Rightarrow> db_error + 't" where
  "add_rows D t [] = Inr t"
| "add_rows D t (r # rs) = bind_res (q_add D t r) (\<lambda>t'. add_rows D t' rs)"

definition init_edge_vnic_binding :: "('t, edge_vnic_binding) orm \<Rightarrow> int \<Rightarrow> 't \<Rightarrow> string \<Rightarrow> db_error + 't" where
  "init_edge_vnic_binding D MAX_TUNNEL_NUM t edge_id =
     add_rows D t (concat (map (\<lambda>vnic_index. vnic_rows MAX_TUNNEL_NUM edge_id (int vnic_index))
       (tl [0..<MAX_VNIC_NUM])))"

definition clean_edge_vnic_binding :: "('t, edge_vnic_binding) orm \<Rightarrow> 't \<Rightarrow> string \<Rightarrow> 't" where
  "clean_edge_vnic_binding D t edge_id = snd (q_delete D t (\<lambda>r. vb_edge_id r = edge_id))"

text \<open>The first free row whose tunnel index is 1 modulo the number of tunnels per vnic.
  Taking a remainder by zero raises.\<close>

fun allocate_loop :: "int \<Rightarrow> edge_vnic_binding list \<Rightarrow> db_error + edge_vnic_binding" where
  "allocate_loop n [] = Inl NsxPluginException"
| "allocate_loop n (b # bs) =
     (if n = 0 then Inl ZeroDivisionError
      else if vb_tunnel_index b mod n = 1 then Inr b
      else allocate_loop n bs)"

definition allocate_edge_vnic :: "('t, edge_vnic_binding) orm \<Rightarrow> 't \<Rightarrow> string \<Rightarrow> string \<Rightarrow>
    db_error + edge_vnic_binding \<times> 't" where
  "allocate_edge_vnic D t edge_id network_id =
     (let vnic_tunnels_per_index = int (length (q_all D t (\<lambda>r. vb_edge_id r = edge_id \<and> vb_vnic_index r = 1)));
          bindings = q_all D t (\<lambda>r. vb_edge_id r = edge_id \<and> vb_network_id r = None)
      in bind_res (allocate_loop vnic_tunnels_per_index bindings)
           (\<lambda>binding. Inr (set_row D vb_key t binding (\<lambda>r. r\<lparr>vb_network_id := Some network_id\<rparr>))))"

definition allocate_edge_vnic_with_tunnel_index :: "('t, edge_vnic_binding) orm \<Rightarrow> ('n, internal_network) orm \<Rightarrow>
    't \<Rightarrow> 'n \<Rightarrow> string \<Rightarrow> string \<Rightarrow> string \<Rightarrow> db_error + edge_vnic_binding \<times> 't" where
  "allocate_edge_vnic_with_tunnel_index D N t n edge_id network_id availability_zone =
     (let int_net = get_nsxv_internal_network N n INTER_EDGE_PURPOSE availability_zone True;
          metadata_net_id = (case int_net of None \<Rightarrow> None | Some net \<Rightarrow> inw_network_id net);
          query = (\<lambda>r. vb_edge_id r = edge_id \<and> vb_network_id r = None);
          query = (if truthy metadata_net_id
            then (case get_edge_vnic_binding D t edge_id (the metadata_net_id) of
                None \<Rightarrow> query
              | Some vnic_binding \<Rightarrow> (\<lambda>r. query r \<and> vb_vnic_index r \<noteq> vb_vnic_index vnic_binding))
            else query)
      in case q_first D t query of
           None \<Rightarrow> Inl NsxPluginException
         | Some binding \<Rightarrow> Inr (set_row D vb_key t binding (\<lambda>r. r\<lparr>vb_network_id := Some network_id\<rparr>)))"

definition allocate_specific_edge_vnic :: "('t, edge_vnic_binding) orm \<Rightarrow> 't \<Rightarrow> string \<Rightarrow> int \<Rightarrow> int \<Rightarrow> string \<Rightarrow>
    db_error + edge_vnic_binding \<times> 't" where
  "allocate_specific_edge_vnic D t edge_id vnic_index tunnel_index network_id =
     bind_res (q_one D t (\<lambda>r. vb_edge_id r = edge_id \<and> vb_vnic_index r = vnic_index \<and>
         vb_tunnel_index r = tunnel_index))
       (\<lambda>binding. Inr (set_row D vb_key t binding (\<lambda>r. r\<lparr>vb_network_id := Some network_id\<rparr>)))"

definition startswith :: "string \<Rightarrow> string \<Rightarrow> bool" where
  "startswith s p \<longleftrightarrow> take (length p) s = p"

definition get_dhcp_edge_network_binding :: "('t, edge_vnic_binding) orm \<Rightarrow> ('b, router_binding) orm \<Rightarrow>
    't \<Rightarrow> 'b \<Rightarrow> string \<Rightarrow> edge_vnic_binding option" where
  "get_dhcp_edge_network_binding D R t b network_id =
     (let dhcp_router_edges = map rb_edge_id (filter (\<lambda>r. startswith (rb_router_id r) DHCP_EDGE_PREFIX)
            (get_nsxv_router_bindings R (\<lambda>_ _. False) b None None));
          bindings = q_all D t (\<lambda>r. vb_network_id r = Some network_id)
      in find (\<lambda>r. Some (vb_edge_id r) \<in> set dhcp_router_edges) bindings)"

definition free_edge_vnic_by_network :: "('t, edge_vnic_binding) orm \<Rightarrow> 't \<Rightarrow> string \<Rightarrow> string \<Rightarrow>
    db_error + edge_vnic_binding \<times> 't" where
  "free_edge_vnic_by_network D t edge_id network_id =
     bind_res (q_one D t (\<lambda>r. vb_edge_id r = edge_id \<and> vb_network_id r = Some network_id))
       (\<lambda>binding. Inr (set_row D vb_key t binding (\<lambda>r. r\<lparr>vb_network_id := None\<rparr>)))"

subsection \<open>DHCP static bindings\<close>

definition create_edge_dhcp_static_binding_raw :: "('t, edge_dhcp_static_binding) orm \<Rightarrow> 't \<Rightarrow> string \<Rightarrow> string \<Rightarrow>
    string \<Rightarrow> db_error + edge_dhcp_static_binding \<times> 't" where
  "create_edge_dhcp_static_binding_raw D t edge_id mac_address binding_id =
     add_row D t \<lparr>sb_edge_id = edge_id, sb_mac_address = mac_address, sb_binding_id = binding_id\<rparr>"

definition delete_edge_dhcp_static_binding :: "('t, edge_dhcp_static_binding) orm \<Rightarrow> 't \<Rightarrow> string \<Rightarrow> string \<Rightarrow> 't" where
  "delete_edge_dhcp_static_binding D t edge_id mac_address =
     snd (q_delete D t (\<lambda>r. sb_edge_id r = edge_id \<and> sb_mac_address r = mac_address))"

definition create_edge_dhcp_static_binding :: "('t, edge_dhcp_static_binding) orm \<Rightarrow> 't \<Rightarrow> string \<Rightarrow> string \<Rightarrow>
    string \<Rightarrow> db_error + edge_dhcp_static_binding \<times> 't" where
  "create_edge_dhcp_static_binding D t edge_id mac_address binding_id =
     (case create_edge_dhcp_static_binding_raw D t edge_id mac_address binding_id of
        Inl DBDuplicateEntry \<Rightarrow>
          create_edge_dhcp_static_binding_raw D (delete_edge_dhcp_static_binding D t edge_id mac_address)
            edge_id mac_address binding_id
      | res \<Rightarrow> res)"

definition get_edge_dhcp_static_binding :: "('t, edge_dhcp_static_binding) orm \<Rightarrow> 't \<Rightarrow> string \<Rightarrow> string \<Rightarrow>
    edge_dhcp_static_binding option" where
  "get_edge_dhcp_static_binding D t edge_id mac_address =
     q_first D t (\<lambda>r. sb_edge_id r = edge_id \<and> sb_mac_address r = mac_address)"

definition get_dhcp_static_bindings_by_edge :: "('t, edge_dhcp_static_binding) orm \<Rightarrow> 't \<Rightarrow> string \<Rightarrow>
    edge_dhcp_static_binding list" where
  "get_dhcp_static_bindings_by_edge D t edge_id = q_all D t (\<lambda>r. sb_edge_id r = edge_id)"

definition delete_edge_dhcp_static_binding_id :: "('t, edge_dhcp_static_binding) orm \<Rightarrow> 't \<Rightarrow> string \<Rightarrow> string \<Rightarrow> 't" where
  "delete_edge_dhcp_static_binding_id D t edge_id binding_id =
     snd (q_delete D t (\<lambda>r. sb_edge_id r = edge_id \<and> sb_binding_id r = binding_id))"

text \<open>The grouped count: one row per edge that has a binding, in the order the edges first
  appear among the rows.\<close>

definition get_nsxv_dhcp_bindings_count_per_edge :: "('t, edge_dhcp_static_binding) orm \<Rightarrow> 't \<Rightarrow>
    (string \<times> nat) list" where
  "get_nsxv_dhcp_bindings_count_per_edge D t =
     (let bindings = q_all D t (\<lambda>_. True)
      in map (\<lambda>e. (e, length (filter (\<lambda>r. sb_edge_id r = e) bindings)))
           (remdups (map sb_edge_id bindings)))"

definition clean_edge_dhcp_static_bindings_by_edge :: "('t, edge_dhcp_static_binding) orm \<Rightarrow> 't \<Rightarrow> string \<Rightarrow> 't" where
  "clean_edge_dhcp_static_bindings_by_edge D t edge_id = snd (q_delete D t (\<lambda>r. sb_edge_id r = edge_id))"

subsection \<open>Internal edges\<close>

definition create_nsxv_internal_edge :: "('t, internal_edge) orm \<Rightarrow> 't \<Rightarrow> string \<Rightarrow> string \<Rightarrow> string option \<Rightarrow> db_error + 't" where
  "create_nsxv_internal_edge D t ext_ip_address purpose router_id =
     q_add D t \<lparr>ie_ext_ip_address = ext_ip_address, ie_router_id = router_id, ie_purpose = purpose\<rparr>"

definition get_nsxv_internal_edge :: "('t, internal_edge) orm \<Rightarrow> 't \<Rightarrow> string \<Rightarrow> internal_edge list" where
  "get_nsxv_internal_edge D t ext_ip_address =
     q_all D t (\<lambda>r. ie_ext_ip_address r = ext_ip_address)"

definition update_nsxv_internal_edge :: "('t, internal_edge) orm \<Rightarrow> 't \<Rightarrow> string \<Rightarrow> string option \<Rightarrow> 't" where
  "update_nsxv_internal_edge D t ext_ip_address router_id =
     fold (\<lambda>edge t. snd (set_row D ie_key t edge (\<lambda>r. r\<lparr>ie_router_id := router_id\<rparr>)))
       (get_nsxv_internal_edge D t ext_ip_address) t"

definition get_nsxv_internal_edges_by_purpose :: "('t, internal_edge) orm \<Rightarrow> 't \<Rightarrow> string \<Rightarrow> internal_edge list" where
  "get_nsxv_internal_edges_by_purpose D t purpose =
     q_all D t (\<lambda>r. ie_purpose r = purpose)"

definition get_nsxv_internal_edge_by_router :: "('t, internal_edge) orm \<Rightarrow> 't \<Rightarrow> string \<Rightarrow> internal_edge option" where
  "get_nsxv_internal_edge_by_router D t router_id =
     q_first D t (\<lambda>r. ie_router_id r = Some router_id)"

definition delete_nsxv_internal_edge :: "('t, internal_edge) orm \<Rightarrow> 't \<Rightarrow> string \<Rightarrow> nat \<times> 't" where
  "delete_nsxv_internal_edge D t ext_ip_address =
     q_delete D t (\<lambda>r. ie_ext_ip_address r = ext_ip_address)"

subsection \<open>Mappings of security groups, rules, ports and networks to the backend\<close>

definition add_neutron_nsx_section_mapping :: "('t, section_mapping) orm \<Rightarrow> 't \<Rightarrow> string \<Rightarrow> string \<Rightarrow>
    db_error + section_mapping \<times> 't" where
  "add_neutron_nsx_section_mapping D t neutron_id section_id =
     add_row D t \<lparr>sm_neutron_id = neutron_id, sm_ip_section_id = section_id\<rparr>"

definition add_neutron_nsx_rule_mapping :: "('t, rule_mapping) orm \<Rightarrow> 't \<Rightarrow> string \<Rightarrow> string \<Rightarrow>
    db_error + rule_mapping \<times> 't" where
  "add_neutron_nsx_rule_mapping D t neutron_id nsx_rule_id =
     add_row D t \<lparr>rm_neutron_id = neutron_id, rm_nsx_rule_id = nsx_rule_id\<rparr>"

definition add_neutron_nsx_port_vnic_mapping :: "('t, port_vnic_mapping) orm \<Rightarrow> 't \<Rightarrow> string \<Rightarrow> string \<Rightarrow>
    db_error + port_vnic_mapping \<times> 't" where
  "add_neutron_nsx_port_vnic_mapping D t neutron_id nsx_id =
     add_row D t \<lparr>pv_neutron_id = neutron_id, pv_nsx_id = nsx_id\<rparr>"

definition get_nsx_section :: "('t, section_mapping) orm \<Rightarrow> 't \<Rightarrow> string \<Rightarrow>
    db_error + section_mapping option" where
  "get_nsx_section D t neutron_id =
     one_or_none D t (\<lambda>r. sm_neutron_id r = neutron_id)"

definition delete_neutron_nsx_section_mapping :: "('t, section_mapping) orm \<Rightarrow> 't \<Rightarrow> string \<Rightarrow> nat \<times> 't" where
  "delete_neutron_nsx_section_mapping D t neutron_id =
     q_delete D t (\<lambda>r. sm_neutron_id r = neutron_id)"

definition get_nsx_rule_id :: "('t, rule_mapping) orm \<Rightarrow> 't \<Rightarrow> string \<Rightarrow> db_error + string option" where
  "get_nsx_rule_id D t neutron_id =
     bind_res (one_or_none D t (\<lambda>r. rm_neutron_id r = neutron_id))
       (\<lambda>mapping. Inr (map_option rm_nsx_rule_id mapping))"

definition get_nsx_vnic_id :: "('t, port_vnic_mapping) orm \<Rightarrow> 't \<Rightarrow> string \<Rightarrow> db_error + string option" where
  "get_nsx_vnic_id D t neutron_id =
     bind_res (one_or_none D t (\<lambda>r. pv_neutron_id r = neutron_id))
       (\<lambda>mapping. Inr (map_option pv_nsx_id mapping))"

definition get_network_bindings :: "('t, tz_network_binding) orm \<Rightarrow> 't \<Rightarrow> string \<Rightarrow> tz_network_binding list" where
  "get_network_bindings D t network_id =
     q_all D t (\<lambda>r. tz_network_id r = network_id)"

definition get_network_bindings_by_vlanid_and_physical_net :: "('t, tz_network_binding) orm \<Rightarrow> 't \<Rightarrow> int option \<Rightarrow> string option \<Rightarrow> tz_network_binding list" where
  "get_network_bindings_by_vlanid_and_physical_net D t vlan_id phy_uuid =
     q_all D t (\<lambda>r. tz_vlan_id r = vlan_id \<and> tz_phy_uuid r = phy_uuid)"

definition get_network_bindings_by_ids :: "('t, tz_network_binding) orm \<Rightarrow> 't \<Rightarrow> int option \<Rightarrow> string option \<Rightarrow> tz_network_binding list" where
  "get_network_bindings_by_ids D t vlan_id phy_uuid =
     get_network_bindings_by_vlanid_and_physical_net D t vlan_id phy_uuid"

definition get_network_bindings_by_physical_net :: "('t, tz_network_binding) orm \<Rightarrow> 't \<Rightarrow> string option \<Rightarrow> tz_network_binding list" where
  "get_network_bindings_by_physical_net D t phy_uuid =
     q_all D t (\<lambda>r. tz_phy_uuid r = phy_uuid)"

definition get_network_bindings_by_physical_net_and_type :: "('t, tz_network_binding) orm \<Rightarrow> 't \<Rightarrow> string option \<Rightarrow> tz_type \<Rightarrow> tz_network_binding list" where
  "get_network_bindings_by_physical_net_and_type D t phy_uuid binding_type =
     q_all D t (\<lambda>r. tz_phy_uuid r = phy_uuid \<and> tz_binding_type r = binding_type)"

definition delete_network_bindings :: "('t, tz_network_binding) orm \<Rightarrow> 't \<Rightarrow> string \<Rightarrow> nat \<times> 't" where
  "delete_network_bindings D t network_id =
     q_delete D t (\<lambda>r. tz_network_id r = network_id)"

definition add_network_binding :: "('t, tz_network_binding) orm \<Rightarrow> 't \<Rightarrow> string \<Rightarrow> tz_type \<Rightarrow> string option \<Rightarrow> int option \<Rightarrow>
    db_error + tz_network_binding \<times> 't" where
  "add_network_binding D t network_id binding_type phy_uuid vlan_id =
     add_row D t \<lparr>tz_network_id = network_id, tz_binding_type = binding_type, tz_phy_uuid = phy_uuid, tz_vlan_id = vlan_id\<rparr>"

definition get_network_bindings_by_vlanid :: "('t, tz_network_binding) orm \<Rightarrow> 't \<Rightarrow> int option \<Rightarrow> tz_network_binding list" where
  "get_network_bindings_by_vlanid D t vlan_id =
     q_all D t (\<lambda>r. tz_vlan_id r = vlan_id)"

definition update_network_binding_phy_uuid :: "('t, tz_network_binding) orm \<Rightarrow> 't \<Rightarrow> string \<Rightarrow> tz_type \<Rightarrow>
    int option \<Rightarrow> string option \<Rightarrow> 't" where
  "update_network_binding_phy_uuid D t network_id binding_type vlan_id phy_uuid =
     fold (\<lambda>binding t. snd (set_row D tz_key t binding (\<lambda>r. r\<lparr>tz_phy_uuid := phy_uuid\<rparr>)))
       (q_all D t (\<lambda>r. tz_vlan_id r = vlan_id \<and> tz_network_id r = network_id \<and> tz_binding_type r = binding_type)) t"

subsection \<open>Edge firewall rules and spoofguard policies\<close>

record fw_map_info =
  fm_rule_id :: string
  fm_rule_vseid :: string
  fm_edge_id :: string

definition add_nsxv_edge_firewallrule_binding :: "('t, firewall_rule_binding) orm \<Rightarrow> 't \<Rightarrow> fw_map_info \<Rightarrow> db_error + firewall_rule_binding \<times> 't" where
  "add_nsxv_edge_firewallrule_binding D t map_info =
     add_row D t \<lparr>fr_rule_id = fm_rule_id map_info, fr_edge_id = fm_edge_id map_info,
       fr_rule_vse_id = fm_rule_vseid map_info\<rparr>"

definition delete_nsxv_edge_firewallrule_binding :: "('t, firewall_rule_binding) orm \<Rightarrow> 't \<Rightarrow> string \<Rightarrow>
    db_error + 't" where
  "delete_nsxv_edge_firewallrule_binding D t id' =
     (let (n, t') = q_delete D t (\<lambda>r. fr_rule_id r = id')
      in if n = 0 then Inl NsxPluginException else Inr t')"

definition get_nsxv_edge_firewallrule_binding :: "('t, firewall_rule_binding) orm \<Rightarrow> 't \<Rightarrow> string \<Rightarrow> string \<Rightarrow> firewall_rule_binding option" where
  "get_nsxv_edge_firewallrule_binding D t id' edge_id =
     q_first D t (\<lambda>r. fr_rule_id r = id' \<and> fr_edge_id r = edge_id)"

definition get_nsxv_edge_firewallrule_binding_by_vseid :: "('t, firewall_rule_binding) orm \<Rightarrow> 't \<Rightarrow> string \<Rightarrow> string \<Rightarrow>
    db_error + firewall_rule_binding option" where
  "get_nsxv_edge_firewallrule_binding_by_vseid D t edge_id rule_vseid =
     one_or_none D t (\<lambda>r. fr_edge_id r = edge_id \<and> fr_rule_vse_id r = rule_vseid)"

definition cleanup_nsxv_edge_firewallrule_binding :: "('t, firewall_rule_binding) orm \<Rightarrow> 't \<Rightarrow> string \<Rightarrow> 't" where
  "cleanup_nsxv_edge_firewallrule_binding D t edge_id =
     snd (q_delete D t (\<lambda>r. fr_edge_id r = edge_id))"

definition map_spoofguard_policy_for_network :: "('t, spoofguard_mapping) orm \<Rightarrow> 't \<Rightarrow> string \<Rightarrow> string \<Rightarrow>
    db_error + spoofguard_mapping \<times> 't" where
  "map_spoofguard_policy_for_network D t network_id policy_id =
     add_row D t \<lparr>sg_network_id = network_id, sg_policy_id = policy_id\<rparr>"

definition get_spoofguard_policy_id :: "('t, spoofguard_mapping) orm \<Rightarrow> 't \<Rightarrow> string \<Rightarrow> db_error + string option" where
  "get_spoofguard_policy_id D t network_id =
     bind_res (one_or_none D t (\<lambda>r. sg_network_id r = network_id))
       (\<lambda>mapping. Inr (map_option sg_policy_id mapping))"

definition get_spoofguard_policy_network_id :: "('t, spoofguard_mapping) orm \<Rightarrow> 't \<Rightarrow> string \<Rightarrow> db_error + string option" where
  "get_spoofguard_policy_network_id D t policy_id =
     bind_res (one_or_none D t (\<lambda>r. sg_policy_id r = policy_id))
       (\<lambda>mapping. Inr (map_option sg_network_id mapping))"

definition sg_column :: "string \<Rightarrow> (spoofguard_mapping \<Rightarrow> string option) option" where
  "sg_column key = map_of
     [(''network_id'', \<lambda>r. Some (sg_network_id r)), (''policy_id'', \<lambda>r. Some (sg_policy_id r))] key"

definition get_nsxv_spoofguard_policy_network_mappings :: "('t, spoofguard_mapping) orm \<Rightarrow>
    (string \<Rightarrow> string \<Rightarrow> bool) \<Rightarrow> 't \<Rightarrow> (string \<times> string list) list option \<Rightarrow>
    (string \<times> string) list option \<Rightarrow> spoofguard_mapping list" where
  "get_nsxv_spoofguard_policy_network_mappings D like t filters like_filters =
     q_all D t (apply_filters_to_query like sg_column (\<lambda>_. True) filters like_filters)"

definition del_nsxv_spoofguard_binding :: "('t, spoofguard_mapping) orm \<Rightarrow> 't \<Rightarrow> string \<Rightarrow> nat \<times> 't" where
  "del_nsxv_spoofguard_binding D t policy_id =
     q_delete D t (\<lambda>r. sg_policy_id r = policy_id)"

subsection \<open>Load balancer bindings\<close>

definition add_nsxv_lbaas_loadbalancer_binding :: "('t, lb_binding) orm \<Rightarrow> 't \<Rightarrow> string \<Rightarrow> string \<Rightarrow> string \<Rightarrow> string \<Rightarrow>
    db_error + lb_binding \<times> 't" where
  "add_nsxv_lbaas_loadbalancer_binding D t loadbalancer_id edge_id edge_fw_rule_id vip_address =
     add_row D t \<lparr>lb_loadbalancer_id = loadbalancer_id, lb_edge_id = edge_id, lb_edge_fw_rule_id = edge_fw_rule_id, lb_vip_address = vip_address\<rparr>"

definition lb_column :: "string \<Rightarrow> (lb_binding \<Rightarrow> string option) option" where
  "lb_column key = map_of
     [(''loadbalancer_id'', \<lambda>r. Some (lb_loadbalancer_id r)), (''edge_id'', \<lambda>r. Some (lb_edge_id r)),
      (''edge_fw_rule_id'', \<lambda>r. Some (lb_edge_fw_rule_id r)), (''vip_address'', \<lambda>r. Some (lb_vip_address r))] key"

definition get_nsxv_lbaas_loadbalancer_bindings :: "('t, lb_binding) orm \<Rightarrow> (string \<Rightarrow> string \<Rightarrow> bool) \<Rightarrow> 't \<Rightarrow>
    (string \<times> string list) list option \<Rightarrow> (string \<times> string) list option \<Rightarrow> lb_binding list" where
  "get_nsxv_lbaas_loadbalancer_bindings D like t filters like_filters =
     q_all D t (apply_filters_to_query like lb_column (\<lambda>_. True) filters like_filters)"

definition get_nsxv_lbaas_loadbalancer_binding :: "('t, lb_binding) orm \<Rightarrow> 't \<Rightarrow> string \<Rightarrow>
    db_error + lb_binding option" where
  "get_nsxv_lbaas_loadbalancer_binding D t loadbalancer_id =
     one_or_none D t (\<lambda>r. lb_loadbalancer_id r = loadbalancer_id)"

definition get_nsxv_lbaas_loadbalancer_binding_by_edge :: "('t, lb_binding) orm \<Rightarrow> 't \<Rightarrow> string \<Rightarrow> lb_binding list" where
  "get_nsxv_lbaas_loadbalancer_binding_by_edge D t edge_id =
     q_all D t (\<lambda>r. lb_edge_id r = edge_id)"

definition del_nsxv_lbaas_loadbalancer_binding :: "('t, lb_binding) orm \<Rightarrow> 't \<Rightarrow> string \<Rightarrow> nat \<times> 't" where
  "del_nsxv_lbaas_loadbalancer_binding D t loadbalancer_id =
     q_delete D t (\<lambda>r. lb_loadbalancer_id r = loadbalancer_id)"

definition add_nsxv_lbaas_listener_binding :: "('t, lb_listener_binding) orm \<Rightarrow> 't \<Rightarrow> string \<Rightarrow> string \<Rightarrow> string \<Rightarrow> string \<Rightarrow>
    db_error + lb_listener_binding \<times> 't" where
  "add_nsxv_lbaas_listener_binding D t loadbalancer_id listener_id app_profile_id vse_id =
     add_row D t \<lparr>ll_loadbalancer_id = loadbalancer_id, ll_listener_id = listener_id, ll_app_profile_id = app_profile_id, ll_vse_id = vse_id\<rparr>"

definition get_nsxv_lbaas_listener_binding :: "('t, lb_listener_binding) orm \<Rightarrow> 't \<Rightarrow> string \<Rightarrow> string \<Rightarrow>
    db_error + lb_listener_binding option" where
  "get_nsxv_lbaas_listener_binding D t loadbalancer_id listener_id =
     one_or_none D t (\<lambda>r. ll_loadbalancer_id r = loadbalancer_id \<and> ll_listener_id r = listener_id)"

definition del_nsxv_lbaas_listener_binding :: "('t, lb_listener_binding) orm \<Rightarrow> 't \<Rightarrow> string \<Rightarrow> string \<Rightarrow> nat \<times> 't" where
  "del_nsxv_lbaas_listener_binding D t loadbalancer_id listener_id =
     q_delete D t (\<lambda>r. ll_loadbalancer_id r = loadbalancer_id \<and> ll_listener_id r = listener_id)"

definition get_nsxv_lbaas_listener_binding_by_vse :: "('t, lb_listener_binding) orm \<Rightarrow> 't \<Rightarrow> string \<Rightarrow> string \<Rightarrow>
    db_error + lb_listener_binding option" where
  "get_nsxv_lbaas_listener_binding_by_vse D t loadbalancer_id vse_id =
     one_or_none D t (\<lambda>r. ll_loadbalancer_id r = loadbalancer_id \<and> ll_vse_id r = vse_id)"

definition add_nsxv_lbaas_pool_binding :: "('t, lb_pool_binding) orm \<Rightarrow> 't \<Rightarrow> string \<Rightarrow> string \<Rightarrow> string \<Rightarrow>
    db_error + lb_pool_binding \<times> 't" where
  "add_nsxv_lbaas_pool_binding D t loadbalancer_id pool_id edge_pool_id =
     add_row D t \<lparr>lp_loadbalancer_id = loadbalancer_id, lp_pool_id = pool_id, lp_edge_pool_id = edge_pool_id\<rparr>"

definition get_nsxv_lbaas_pool_binding :: "('t, lb_pool_binding) orm \<Rightarrow> 't \<Rightarrow> string \<Rightarrow> string \<Rightarrow>
    db_error + lb_pool_binding option" where
  "get_nsxv_lbaas_pool_binding D t loadbalancer_id pool_id =
     one_or_none D t (\<lambda>r. lp_loadbalancer_id r = loadbalancer_id \<and> lp_pool_id r = pool_id)"

definition del_nsxv_lbaas_pool_binding :: "('t, lb_pool_binding) orm \<Rightarrow> 't \<Rightarrow> string \<Rightarrow> string \<Rightarrow> nat \<times> 't" where
  "del_nsxv_lbaas_pool_binding D t loadbalancer_id pool_id =
     q_delete D t (\<lambda>r. lp_loadbalancer_id r = loadbalancer_id \<and> lp_pool_id r = pool_id)"

definition add_nsxv_lbaas_monitor_binding :: "('t, lb_monitor_binding) orm \<Rightarrow> 't \<Rightarrow> string \<Rightarrow> string \<Rightarrow> string \<Rightarrow> string \<Rightarrow> string \<Rightarrow>
    db_error + lb_monitor_binding \<times> 't" where
  "add_nsxv_lbaas_monitor_binding D t loadbalancer_id pool_id hm_id edge_id edge_mon_id =
     add_row D t \<lparr>lm_loadbalancer_id = loadbalancer_id, lm_pool_id = pool_id, lm_hm_id = hm_id, lm_edge_id = edge_id, lm_edge_mon_id = edge_mon_id\<rparr>"

definition get_nsxv_lbaas_monitor_binding :: "('t, lb_monitor_binding) orm \<Rightarrow> 't \<Rightarrow> string \<Rightarrow> string \<Rightarrow> string \<Rightarrow> string \<Rightarrow>
    db_error + lb_monitor_binding option" where
  "get_nsxv_lbaas_monitor_binding D t loadbalancer_id pool_id hm_id edge_id =
     one_or_none D t (\<lambda>r. lm_loadbalancer_id r = loadbalancer_id \<and> lm_pool_id r = pool_id \<and> lm_hm_id r = hm_id \<and> lm_edge_id r = edge_id)"

definition del_nsxv_lbaas_monitor_binding :: "('t, lb_monitor_binding) orm \<Rightarrow> 't \<Rightarrow> string \<Rightarrow> string \<Rightarrow> string \<Rightarrow> string \<Rightarrow> nat \<times> 't" where
  "del_nsxv_lbaas_monitor_binding D t loadbalancer_id pool_id hm_id edge_id =
     q_delete D t (\<lambda>r. lm_loadbalancer_id r = loadbalancer_id \<and> lm_pool_id r = pool_id \<and> lm_hm_id r = hm_id \<and> lm_edge_id r = edge_id)"

definition add_nsxv_lbaas_certificate_binding :: "('t, lb_certificate_binding) orm \<Rightarrow> 't \<Rightarrow> string \<Rightarrow> string \<Rightarrow> string \<Rightarrow>
    db_error + lb_certificate_binding \<times> 't" where
  "add_nsxv_lbaas_certificate_binding D t cert_id edge_id edge_cert_id =
     add_row D t \<lparr>lc_cert_id = cert_id, lc_edge_id = edge_id, lc_edge_cert_id = edge_cert_id\<rparr>"

definition get_nsxv_lbaas_certificate_binding :: "('t, lb_certificate_binding) orm \<Rightarrow> 't \<Rightarrow> string \<Rightarrow> string \<Rightarrow>
    db_error + lb_certificate_binding option" where
  "get_nsxv_lbaas_certificate_binding D t cert_id edge_id =
     one_or_none D t (\<lambda>r. lc_cert_id r = cert_id \<and> lc_edge_id r = edge_id)"

definition del_nsxv_lbaas_certificate_binding :: "('t, lb_certificate_binding) orm \<Rightarrow> 't \<Rightarrow> string \<Rightarrow> string \<Rightarrow> nat \<times> 't" where
  "del_nsxv_lbaas_certificate_binding D t cert_id edge_id =
     q_delete D t (\<lambda>r. lc_cert_id r = cert_id \<and> lc_edge_id r = edge_id)"

definition add_nsxv_lbaas_l7policy_binding :: "('t, lb_l7policy_binding) orm \<Rightarrow> 't \<Rightarrow> string \<Rightarrow> string \<Rightarrow> string \<Rightarrow>
    db_error + lb_l7policy_binding \<times> 't" where
  "add_nsxv_lbaas_l7policy_binding D t policy_id edge_id edge_app_rule_id =
     add_row D t \<lparr>lr_policy_id = policy_id, lr_edge_id = edge_id, lr_edge_app_rule_id = edge_app_rule_id\<rparr>"

definition get_nsxv_lbaas_l7policy_binding :: "('t, lb_l7policy_binding) orm \<Rightarrow> 't \<Rightarrow> string \<Rightarrow>
    db_error + lb_l7policy_binding option" where
  "get_nsxv_lbaas_l7policy_binding D t policy_id =
     one_or_none D t (\<lambda>r. lr_policy_id r = policy_id)"

definition del_nsxv_lbaas_l7policy_binding :: "('t, lb_l7policy_binding) orm \<Rightarrow> 't \<Rightarrow> string \<Rightarrow> nat \<times> 't" where
  "del_nsxv_lbaas_l7policy_binding D t policy_id =
     q_delete D t (\<lambda>r. lr_policy_id r = policy_id)"

subsection \<open>Subnet and port attributes, BGP\<close>

abbreviation VNIC_NORMAL :: string where "VNIC_NORMAL \<equiv> ''normal''"

definition add_nsxv_subnet_ext_attributes :: "('t, subnet_ext_attributes) orm \<Rightarrow> 't \<Rightarrow> string \<Rightarrow> string option \<Rightarrow> int option \<Rightarrow>
    db_error + subnet_ext_attributes \<times> 't" where
  "add_nsxv_subnet_ext_attributes D t subnet_id dns_search_domain dhcp_mtu =
     add_row D t \<lparr>se_subnet_id = subnet_id, se_dns_search_domain = dns_search_domain, se_dhcp_mtu = dhcp_mtu\<rparr>"

definition get_nsxv_subnet_ext_attributes :: "('t, subnet_ext_attributes) orm \<Rightarrow> 't \<Rightarrow> string \<Rightarrow>
    db_error + subnet_ext_attributes option" where
  "get_nsxv_subnet_ext_attributes D t subnet_id =
     one_or_none D t (\<lambda>r. se_subnet_id r = subnet_id)"

definition update_nsxv_subnet_ext_attributes :: "('t, subnet_ext_attributes) orm \<Rightarrow> 't \<Rightarrow> string \<Rightarrow>
    string option \<Rightarrow> int option \<Rightarrow> db_error + subnet_ext_attributes \<times> 't" where
  "update_nsxv_subnet_ext_attributes D t subnet_id dns_search_domain dhcp_mtu =
     bind_res (q_one D t (\<lambda>r. se_subnet_id r = subnet_id))
       (\<lambda>binding. Inr (set_row D se_key t binding
         (\<lambda>r. r\<lparr>se_dns_search_domain := dns_search_domain, se_dhcp_mtu := dhcp_mtu\<rparr>)))"

definition add_nsxv_port_ext_attributes :: "('t, port_ext_attributes) orm \<Rightarrow> 't \<Rightarrow> string \<Rightarrow> string \<Rightarrow>
    db_error + port_ext_attributes \<times> 't" where
  "add_nsxv_port_ext_attributes D t port_id vnic_type =
     add_row D t \<lparr>pe_port_id = port_id, pe_vnic_type = vnic_type\<rparr>"

definition get_nsxv_ext_attr_port_vnic_type :: "('t, port_ext_attributes) orm \<Rightarrow> 't \<Rightarrow> string \<Rightarrow> db_error + string" where
  "get_nsxv_ext_attr_port_vnic_type D t port_id =
     bind_res (one_or_none D t (\<lambda>r. pe_port_id r = port_id))
       (\<lambda>binding. Inr (case binding of None \<Rightarrow> VNIC_NORMAL | Some b \<Rightarrow> pe_vnic_type b))"

definition update_nsxv_port_ext_attributes :: "('t, port_ext_attributes) orm \<Rightarrow> 't \<Rightarrow> string \<Rightarrow> string \<Rightarrow>
    db_error + port_ext_attributes \<times> 't" where
  "update_nsxv_port_ext_attributes D t port_id vnic_type =
     bind_res (one_or_none D t (\<lambda>r. pe_port_id r = port_id))
       (\<lambda>binding. case binding of
          None \<Rightarrow> add_nsxv_port_ext_attributes D t port_id vnic_type
        | Some b \<Rightarrow> Inr (set_row D pe_key t b (\<lambda>r. r\<lparr>pe_vnic_type := vnic_type\<rparr>)))"

definition add_nsxv_bgp_speaker_binding :: "('t, bgp_speaker_binding) orm \<Rightarrow> 't \<Rightarrow> string \<Rightarrow> string \<Rightarrow> string \<Rightarrow>
    db_error + bgp_speaker_binding \<times> 't" where
  "add_nsxv_bgp_speaker_binding D t edge_id speaker_id bgp_identifier =
     add_row D t \<lparr>bs_edge_id = edge_id, bs_bgp_speaker_id = speaker_id, bs_bgp_identifier = bgp_identifier\<rparr>"

definition get_nsxv_bgp_speaker_binding :: "('t, bgp_speaker_binding) orm \<Rightarrow> 't \<Rightarrow> string \<Rightarrow>
    db_error + bgp_speaker_binding option" where
  "get_nsxv_bgp_speaker_binding D t edge_id =
     one_or_none D t (\<lambda>r. bs_edge_id r = edge_id)"

definition get_nsxv_bgp_speaker_bindings :: "('t, bgp_speaker_binding) orm \<Rightarrow> 't \<Rightarrow> string \<Rightarrow> bgp_speaker_binding list" where
  "get_nsxv_bgp_speaker_bindings D t speaker_id =
     q_all D t (\<lambda>r. bs_bgp_speaker_id r = speaker_id)"

definition delete_nsxv_bgp_speaker_binding :: "('t, bgp_speaker_binding) orm \<Rightarrow> 't \<Rightarrow> string \<Rightarrow> 't" where
  "delete_nsxv_bgp_speaker_binding D t edge_id =
     snd (q_delete D t (\<lambda>r. bs_edge_id r = edge_id))"

definition add_nsxv_bgp_peer_edge_binding :: "('t, bgp_peer_edge_binding) orm \<Rightarrow> 't \<Rightarrow> string \<Rightarrow> string \<Rightarrow>
    db_error + bgp_peer_edge_binding \<times> 't" where
  "add_nsxv_bgp_peer_edge_binding D t peer_id edge_id =
     add_row D t \<lparr>bp_peer_id = peer_id, bp_edge_id = edge_id\<rparr>"

definition get_nsxv_bgp_peer_edge_binding :: "('t, bgp_peer_edge_binding) orm \<Rightarrow> 't \<Rightarrow> string \<Rightarrow>
    db_error + bgp_peer_edge_binding option" where
  "get_nsxv_bgp_peer_edge_binding D t peer_id =
     one_or_none D t (\<lambda>r. bp_peer_id r = peer_id)"

subsection \<open>Rows after an update\<close>

context orm_table
begin

lemma set_row_rows:
  assumes "ok t" "b \<in> rows D t" "\<And>r. key (f r) = key r"
  shows "fst (set_row D key t b f) = f b" "ok (snd (set_row D key t b f))"
    "rows D (snd (set_row D key t b f)) = insert (f b) (rows D t - {b})"
  using set_ok [OF assms(1,3)] set_one_row [OF assms]
  by (simp_all add: set_row_def)

lemma add_rows_new:
  assumes "ok t" "distinct (map key rs)" "\<And>r. r \<in> set rs \<Longrightarrow> key r \<notin> key ` rows D t"
  shows "\<exists>t'. add_rows D t rs = Inr t' \<and> ok t' \<and> rows D t' = rows D t \<union> set rs"
  using assms
proof (induction rs arbitrary: t)
  case Nil
  then show ?case by simp
next
  case (Cons r rs)
  then obtain t1 where t1: "q_add D t r = Inr t1" "ok t1" "rows D t1 = insert r (rows D t)"
    using add_free [of t r] by auto
  have "\<exists>t'. add_rows D t1 rs = Inr t' \<and> ok t' \<and> rows D t' = rows D t1 \<union> set rs"
    using Cons.prems by (intro Cons.IH t1) (auto simp: t1 rev_image_eqI)
  then show ?case using t1 by auto
qed

lemma find_all_None: "ok t \<Longrightarrow> find Q (q_all D t P) = None \<longleftrightarrow> (\<forall>r \<in> rows D t. P r \<longrightarrow> \<not> Q r)"
  by (auto simp: find_None_iff all_rows)

lemma find_all_Some: "ok t \<Longrightarrow> find Q (q_all D t P) = Some r \<Longrightarrow> r \<in> rows D t \<and> P r \<and> Q r"
  using all_rows [of t P] by (fastforce simp: find_Some_iff)

lemma key_eq: "ok t \<Longrightarrow> x \<in> rows D t \<Longrightarrow> y \<in> rows D t \<Longrightarrow> key x = key y \<Longrightarrow> x = y"
  using key_inj by (blast dest: inj_onD)

lemma all_empty: "ok t \<Longrightarrow> q_all D t P = [] \<longleftrightarrow> (\<forall>r \<in> rows D t. \<not> P r)"
  using all_rows [of t P] by (cases "q_all D t P") auto

lemma all_length: "ok t \<Longrightarrow> length (q_all D t P) = card {r \<in> rows D t. P r}"
  using delete_count [of t P] by (simp add: q_delete_def)

lemma finite_rows: "ok t \<Longrightarrow> finite (rows D t)"
  by (simp add: rows_def)

end

subsection \<open>The vnics of an edge\<close>

text \<open>The places of an edge, as initialised: vnics 1 to 9, each with its own \<open>T\<close>
  consecutive tunnels. Every operation on the table keeps them.\<close>

definition vnic_layout :: "int \<Rightarrow> string \<Rightarrow> edge_vnic_binding set \<Rightarrow> bool" where
  "vnic_layout T e S \<longleftrightarrow>
     (\<lambda>r. (vb_vnic_index r, vb_tunnel_index r)) ` {r \<in> S. vb_edge_id r = e} =
     {(v, k). 1 \<le> v \<and> v \<le> 9 \<and> (v - 1) * T < k \<and> k \<le> v * T}"

lemma vnic_rows_set:
  "set (vnic_rows T e v) = {free_vnic e v k | k. (v - 1) * T < k \<and> k \<le> v * T}"
proof -
  have "k \<in> (\<lambda>i. i + 1) ` {(v - 1) * T..v * T - 1}" if "(v - 1) * T < k" "k \<le> v * T" for k
    using that by (intro image_eqI [of _ _ "k - 1"]) auto
  then show ?thesis by (fastforce simp: vnic_rows_def Let_def)
qed

lemma free_vnic_simps [simp]:
  "vb_edge_id (free_vnic e v k) = e" "vb_vnic_index (free_vnic e v k) = v"
  "vb_tunnel_index (free_vnic e v k) = k" "vb_network_id (free_vnic e v k) = None"
  "vb_key (free_vnic e v k) = (e, v, k)"
  by (simp_all add: free_vnic_def vb_key_def)

definition new_rows :: "int \<Rightarrow> string \<Rightarrow> edge_vnic_binding list" where
  "new_rows T e = concat (map (\<lambda>v. vnic_rows T e (int v)) (tl [0..<MAX_VNIC_NUM]))"

lemma new_rows_set:
  "set (new_rows T e) = {free_vnic e v k | v k. 1 \<le> v \<and> v \<le> 9 \<and> (v - 1) * T < k \<and> k \<le> v * T}"
  (is "_ = ?R")
proof -
  have "set (tl [0..<MAX_VNIC_NUM]) = {1..9}" by auto
  then have "set (new_rows T e) = (\<Union>v \<in> {1..9}. set (vnic_rows T e (int v)))"
    by (simp add: new_rows_def)
  also have "\<dots> = ?R"
  proof (intro set_eqI iffI)
    fix r assume "r \<in> ?R"
    then obtain v k where r: "r = free_vnic e v k" "1 \<le> v" "v \<le> 9" "(v - 1) * T < k" "k \<le> v * T" by blast
    then have "nat v \<in> {1..9}" "r \<in> set (vnic_rows T e (int (nat v)))" by (auto simp: vnic_rows_set)
    then show "r \<in> (\<Union>v \<in> {1..9}. set (vnic_rows T e (int v)))" by blast
  next
    fix r assume "r \<in> (\<Union>v \<in> {1..9}. set (vnic_rows T e (int v)))"
    then obtain n k where "1 \<le> n" "n \<le> 9" "r = free_vnic e (int n) k" "(int n - 1) * T < k" "k \<le> int n * T"
      by (auto simp: vnic_rows_set)
    moreover from this have "1 \<le> int n" "int n \<le> 9" by simp_all
    ultimately show "r \<in> ?R" by blast
  qed
  finally show ?thesis .
qed

lemma vnic_rows_keys: "map vb_key (vnic_rows T e v) = map (\<lambda>k. (e, v, k + 1)) [(v - 1) * T..v * T - 1]"
  by (simp add: vnic_rows_def Let_def)

lemma new_rows_distinct: "distinct (map vb_key (new_rows T e))"
proof -
  have d: "distinct (map vb_key (concat (map (\<lambda>v. vnic_rows T e (int v)) vs)))" if "distinct vs" for vs
    using that
  proof (induction vs)
    case (Cons v vs)
    have "distinct (map vb_key (vnic_rows T e (int v)))"
      by (simp add: vnic_rows_keys distinct_map inj_on_def)
    moreover have "set (map vb_key (vnic_rows T e (int v))) \<inter>
        set (map vb_key (concat (map (\<lambda>v. vnic_rows T e (int v)) vs))) = {}"
      using Cons.prems by (auto simp: vnic_rows_set)
    ultimately show ?case using Cons by (simp del: set_map)
  qed simp
  show ?thesis unfolding new_rows_def by (rule d) simp
qed

text \<open>What one allocation or release does to the rows: the chosen row gets the network,
  every other row stays.\<close>

definition taken_by :: "edge_vnic_binding \<Rightarrow> string option \<Rightarrow> edge_vnic_binding set \<Rightarrow> edge_vnic_binding set" where
  "taken_by b n S = insert (b\<lparr>vb_network_id := n\<rparr>) (S - {b})"

lemma vb_key_network [simp]: "vb_key (r\<lparr>vb_network_id := n\<rparr>) = vb_key r"
  by (simp add: vb_key_def)

lemma taken_by_layout [wf_intros]:
  assumes "b \<in> S" "vnic_layout T e S"
  shows "vnic_layout T e (taken_by b n S)"
proof -
  have S: "S = insert b (S - {b})" using assms(1) by blast
  have "{r \<in> insert x A. vb_edge_id r = e} =
      (if vb_edge_id x = e then insert x {r \<in> A. vb_edge_id r = e} else {r \<in> A. vb_edge_id r = e})"
    for x :: edge_vnic_binding and A by auto
  from this [of "b\<lparr>vb_network_id := n\<rparr>" "S - {b}"] this [of b "S - {b}"]
  have "(\<lambda>r. (vb_vnic_index r, vb_tunnel_index r)) ` {r \<in> taken_by b n S. vb_edge_id r = e} =
      (\<lambda>r. (vb_vnic_index r, vb_tunnel_index r)) ` {r \<in> insert b (S - {b}). vb_edge_id r = e}"
    by (simp add: taken_by_def)
  then have "(\<lambda>r. (vb_vnic_index r, vb_tunnel_index r)) ` {r \<in> taken_by b n S. vb_edge_id r = e} =
      (\<lambda>r. (vb_vnic_index r, vb_tunnel_index r)) ` {r \<in> S. vb_edge_id r = e}"
    by (metis S)
  then show ?thesis using assms(2) by (simp add: vnic_layout_def)
qed

locale vnic_table = orm_table D vb_key ok
  for D :: "('t, edge_vnic_binding) orm" and ok :: "'t \<Rightarrow> bool"
begin

lemma take_row:
  assumes "ok t" "b \<in> rows D t" "set_row D vb_key t b (\<lambda>r. r\<lparr>vb_network_id := n\<rparr>) = (b', t')"
  shows "b' = b\<lparr>vb_network_id := n\<rparr>" "ok t'" "rows D t' = taken_by b n (rows D t)"
  using set_row_rows [OF assms(1,2), of "\<lambda>r. r\<lparr>vb_network_id := n\<rparr>"] assms(3)
  by (simp_all add: taken_by_def)

lemma init_rows:
  assumes "ok t" "\<forall>r \<in> rows D t. vb_edge_id r \<noteq> e"
  shows "\<exists>t'. init_edge_vnic_binding D T t e = Inr t' \<and> ok t' \<and> rows D t' = rows D t \<union> set (new_rows T e)"
proof -
  have "vb_key r \<notin> vb_key ` rows D t" if "r \<in> set (new_rows T e)" for r
    using that assms(2) by (auto simp: new_rows_set vb_key_def)
  from add_rows_new [OF assms(1) new_rows_distinct this] show ?thesis
    by (simp add: init_edge_vnic_binding_def new_rows_def)
qed

lemma layout_inj:
  assumes "ok t"
  shows "inj_on (\<lambda>r. (vb_vnic_index r, vb_tunnel_index r)) {r \<in> rows D t. vb_edge_id r = e}"
  using key_inj [OF assms] by (auto simp: inj_on_def vb_key_def)

lemma layout_card:
  assumes "ok t" "vnic_layout T e (rows D t)"
  shows "card {r \<in> rows D t. vb_edge_id r = e \<and> Q (vb_vnic_index r) (vb_tunnel_index r)} =
    card {(v, k). 1 \<le> v \<and> v \<le> 9 \<and> (v - 1) * T < k \<and> k \<le> v * T \<and> Q v k}"
proof -
  let ?p = "\<lambda>r. (vb_vnic_index r, vb_tunnel_index r)"
  let ?A = "{r \<in> rows D t. vb_edge_id r = e \<and> Q (vb_vnic_index r) (vb_tunnel_index r)}"
  have "?p ` ?A = {p \<in> ?p ` {r \<in> rows D t. vb_edge_id r = e}. Q (fst p) (snd p)}" by auto
  also have "\<dots> = {(v, k). 1 \<le> v \<and> v \<le> 9 \<and> (v - 1) * T < k \<and> k \<le> v * T \<and> Q v k}"
    using assms(2) by (auto simp: vnic_layout_def)
  finally have img: "?p ` ?A = {(v, k). 1 \<le> v \<and> v \<le> 9 \<and> (v - 1) * T < k \<and> k \<le> v * T \<and> Q v k}" .
  have "inj_on ?p ?A" using layout_inj [OF assms(1), of e] by (rule inj_on_subset) blast
  from card_image [OF this] show ?thesis unfolding img by simp
qed

lemma tunnels_per_vnic:
  assumes "ok t" "vnic_layout T e (rows D t)" "0 \<le> T"
  shows "int (length (q_all D t (\<lambda>r. vb_edge_id r = e \<and> vb_vnic_index r = 1))) = T"
proof -
  have "{(v::int, k). 1 \<le> v \<and> v \<le> 9 \<and> (v - 1) * T < k \<and> k \<le> v * T \<and> v = 1} = {1} \<times> {1..T}" by auto
  then show ?thesis using layout_card [OF assms(1,2), of "\<lambda>v k. v = 1"] assms(3)
    by (simp add: all_length [OF assms(1)] card_cartesian_product)
qed

end

lemma allocate_loop_find:
  "n \<noteq> 0 \<Longrightarrow> allocate_loop n bs = (case find (\<lambda>b. vb_tunnel_index b mod n = 1) bs of
     None \<Rightarrow> Inl NsxPluginException | Some b \<Rightarrow> Inr b)"
  by (induction bs) auto

text \<open>Of the tunnels of a vnic only the first has an index that is 1 modulo their number.\<close>

lemma first_tunnel:
  fixes T k v :: int
  assumes "2 \<le> T" "(v - 1) * T < k" "k \<le> v * T"
  shows "k mod T = 1 \<longleftrightarrow> k = (v - 1) * T + 1"
proof -
  define j where "j = k - (v - 1) * T"
  have j: "0 < j" "j \<le> T" "k = j + (v - 1) * T" using assms by (auto simp: j_def algebra_simps)
  have "k mod T = j mod T" unfolding j(3) by simp
  then show ?thesis using j assms(1) by (cases "j = T") auto
qed

context vnic_table
begin

definition firsts :: "int \<Rightarrow> string \<Rightarrow> 't \<Rightarrow> edge_vnic_binding set" where
  "firsts T e t = {r \<in> rows D t. vb_edge_id r = e \<and> vb_tunnel_index r mod T = 1}"

lemma firsts_card:
  assumes "ok t" "vnic_layout T e (rows D t)" "2 \<le> T"
  shows "card (firsts T e t) = 9"
proof -
  have "{(v, k). 1 \<le> v \<and> v \<le> 9 \<and> (v - 1) * T < k \<and> k \<le> v * T \<and> k mod T = 1} =
      (\<lambda>v. (v, (v - 1) * T + 1)) ` {1..9}"
    (is "?L = ?R")
  proof (intro set_eqI iffI)
    fix p assume "p \<in> ?L"
    moreover obtain v k where "p = (v, k)" by (cases p)
    ultimately show "p \<in> ?R" using first_tunnel [OF assms(3), of v k] by auto
  next
    fix p assume "p \<in> ?R"
    then obtain v where v: "p = (v, (v - 1) * T + 1)" "1 \<le> v" "v \<le> 9" by auto
    have "(v - 1) * T < (v - 1) * T + 1" "(v - 1) * T + 1 \<le> v * T"
      using assms(3) by (auto simp: algebra_simps)
    with v first_tunnel [OF assms(3) this] show "p \<in> ?L" by auto
  qed
  then show ?thesis using layout_card [OF assms(1,2), of "\<lambda>v k. k mod T = 1"]
    by (simp add: firsts_def card_image inj_on_def)
qed

end

context vnic_table
begin

lemma allocate_cases [consumes 3, case_names full taken]:
  assumes "ok t" "vnic_layout T e (rows D t)" "1 \<le> T"
  obtains "\<And>r. r \<in> firsts T e t \<Longrightarrow> vb_network_id r \<noteq> None" "allocate_edge_vnic D t e n = Inl NsxPluginException"
  | b t' where "b \<in> firsts T e t" "vb_network_id b = None" "ok t'" "rows D t' = taken_by b (Some n) (rows D t)"
      "allocate_edge_vnic D t e n = Inr (b\<lparr>vb_network_id := Some n\<rparr>, t')"
proof -
  let ?free = "\<lambda>r. vb_edge_id r = e \<and> vb_network_id r = None"
  have eq: "allocate_edge_vnic D t e n = bind_res (case find (\<lambda>b. vb_tunnel_index b mod T = 1) (q_all D t ?free) of
      None \<Rightarrow> Inl NsxPluginException | Some b \<Rightarrow> Inr b)
    (\<lambda>binding. Inr (set_row D vb_key t binding (\<lambda>r. r\<lparr>vb_network_id := Some n\<rparr>)))"
    using assms(3) by (simp add: allocate_edge_vnic_def tunnels_per_vnic [OF assms(1,2)] allocate_loop_find)
  show thesis
  proof (cases "find (\<lambda>b. vb_tunnel_index b mod T = 1) (q_all D t ?free)")
    case None
    then have "\<forall>r \<in> rows D t. ?free r \<longrightarrow> vb_tunnel_index r mod T \<noteq> 1"
      using find_all_None [OF assms(1), of "\<lambda>b. vb_tunnel_index b mod T = 1" ?free] by simp
    moreover have "allocate_edge_vnic D t e n = Inl NsxPluginException" unfolding eq None by simp
    ultimately show thesis by (intro that(1)) (auto simp: firsts_def)
  next
    case (Some b)
    from find_all_Some [OF assms(1) this] have b: "b \<in> rows D t" "?free b" "vb_tunnel_index b mod T = 1" by auto
    obtain b' t' where s: "set_row D vb_key t b (\<lambda>r. r\<lparr>vb_network_id := Some n\<rparr>) = (b', t')" by fastforce
    have "allocate_edge_vnic D t e n = Inr (b\<lparr>vb_network_id := Some n\<rparr>, t')"
      unfolding eq Some using s take_row(1) [OF assms(1) b(1) s] by simp
    with b take_row(2,3) [OF assms(1) b(1) s] show thesis by (intro that(2) [of b t']) (simp_all add: firsts_def)
  qed
qed

lemma first_of_vnic:
  assumes "ok t" "vnic_layout T e (rows D t)" "2 \<le> T" "r \<in> firsts T e t"
  shows "vb_tunnel_index r = (vb_vnic_index r - 1) * T + 1" "1 \<le> vb_vnic_index r" "vb_vnic_index r \<le> 9"
proof -
  have "(vb_vnic_index r, vb_tunnel_index r) \<in> {(v, k). 1 \<le> v \<and> v \<le> 9 \<and> (v - 1) * T < k \<and> k \<le> v * T}"
    using assms(2,4) by (auto simp: vnic_layout_def firsts_def)
  with assms(4) first_tunnel [OF assms(3)] show "vb_tunnel_index r = (vb_vnic_index r - 1) * T + 1"
    "1 \<le> vb_vnic_index r" "vb_vnic_index r \<le> 9" by (auto simp: firsts_def)
qed

lemma firsts_vnic_inj:
  assumes "ok t" "vnic_layout T e (rows D t)" "2 \<le> T" "r \<in> firsts T e t" "s \<in> firsts T e t"
    "vb_vnic_index r = vb_vnic_index s"
  shows "r = s"
proof (rule inj_onD [OF key_inj [OF assms(1)]])
  show "vb_key r = vb_key s"
    using first_of_vnic(1) [OF assms(1-4)] first_of_vnic(1) [OF assms(1-3) assms(5)] assms(4-6)
    by (simp add: firsts_def vb_key_def)
qed (use assms(4,5) in \<open>simp_all add: firsts_def\<close>)

lemma firsts_finite: "ok t \<Longrightarrow> finite (firsts T e t)"
  using finite_rows by (simp add: firsts_def)

definition used :: "int \<Rightarrow> string \<Rightarrow> 't \<Rightarrow> edge_vnic_binding set" where
  "used T e t = {r \<in> firsts T e t. vb_network_id r \<noteq> None}"

lemma used_all_iff:
  assumes "ok t" "vnic_layout T e (rows D t)" "2 \<le> T"
  shows "card (used T e t) = 9 \<longleftrightarrow> (\<forall>r \<in> firsts T e t. vb_network_id r \<noteq> None)"
proof
  assume "card (used T e t) = 9"
  then have "used T e t = firsts T e t"
    using card_subset_eq [OF firsts_finite [OF assms(1)], of "used T e t" T e] firsts_card [OF assms]
    by (auto simp: used_def)
  then show "\<forall>r \<in> firsts T e t. vb_network_id r \<noteq> None" by (auto simp: used_def)
next
  assume "\<forall>r \<in> firsts T e t. vb_network_id r \<noteq> None"
  then have "used T e t = firsts T e t" by (auto simp: used_def)
  then show "card (used T e t) = 9" using firsts_card [OF assms] by simp
qed

lemma used_le:
  assumes "ok t" "vnic_layout T e (rows D t)" "2 \<le> T"
  shows "card (used T e t) \<le> 9"
  using card_mono [OF firsts_finite [OF assms(1)], of "used T e t" T e] firsts_card [OF assms]
  by (auto simp: used_def)

lemma used_taken:
  assumes "b \<in> firsts T e t" "vb_network_id b = None" "rows D t' = taken_by b (Some n) (rows D t)"
  shows "used T e t' = insert (b\<lparr>vb_network_id := Some n\<rparr>) (used T e t)"
proof -
  have b: "b \<in> rows D t" "vb_edge_id b = e" "vb_tunnel_index b mod T = 1" using assms(1) by (auto simp: firsts_def)
  have "vb_network_id (b\<lparr>vb_network_id := Some n\<rparr>) \<noteq> vb_network_id b" using assms(2) by simp
  then have ne: "b\<lparr>vb_network_id := Some n\<rparr> \<noteq> b" by metis
  have "r \<in> used T e t' \<longleftrightarrow> r = b\<lparr>vb_network_id := Some n\<rparr> \<or> r \<in> used T e t" for r
    using b assms(2) ne by (cases "r = b\<lparr>vb_network_id := Some n\<rparr>"; cases "r = b")
      (simp_all add: used_def firsts_def assms(3) taken_by_def)
  then show ?thesis by blast
qed

lemma tunnel_cases [consumes 1, case_names full taken]:
  assumes "ok t"
  obtains "allocate_edge_vnic_with_tunnel_index D N t nn e n az = Inl NsxPluginException"
  | b t' where "b \<in> rows D t" "vb_edge_id b = e" "vb_network_id b = None" "ok t'"
      "rows D t' = taken_by b (Some n) (rows D t)"
      "allocate_edge_vnic_with_tunnel_index D N t nn e n az = Inr (b\<lparr>vb_network_id := Some n\<rparr>, t')"
proof (cases "allocate_edge_vnic_with_tunnel_index D N t nn e n az")
  case (Inl x)
  then have "x = NsxPluginException"
    by (auto simp: allocate_edge_vnic_with_tunnel_index_def Let_def split: option.splits)
  with Inl that(1) show thesis by simp
next
  case (Inr p)
  obtain b' t' where p: "p = (b', t')" by fastforce
  from Inr p obtain Q b where b: "q_first D t Q = Some b" "\<And>r. Q r \<Longrightarrow> vb_edge_id r = e \<and> vb_network_id r = None"
    "set_row D vb_key t b (\<lambda>r. r\<lparr>vb_network_id := Some n\<rparr>) = (b', t')"
    by (auto simp: allocate_edge_vnic_with_tunnel_index_def Let_def split: option.splits if_splits)
  from first_Some [OF assms b(1)] have "b \<in> rows D t" "Q b" by auto
  with take_row [OF assms _ b(3)] b(2) [of b] Inr p show thesis by (intro that(2) [of b t']) auto
qed

lemma specificD:
  assumes "ok t" "allocate_specific_edge_vnic D t e v k n = Inr (b', t')"
  obtains b where "b \<in> rows D t" "vb_key b = (e, v, k)" "b' = b\<lparr>vb_network_id := Some n\<rparr>" "ok t'"
    "rows D t' = taken_by b (Some n) (rows D t)"
proof -
  let ?Q = "\<lambda>r. vb_edge_id r = e \<and> vb_vnic_index r = v \<and> vb_tunnel_index r = k"
  from assms(2) obtain b where b: "q_one D t ?Q = Inr b"
    "set_row D vb_key t b (\<lambda>r. r\<lparr>vb_network_id := Some n\<rparr>) = (b', t')"
    by (auto simp: allocate_specific_edge_vnic_def bind_res_Inr_iff)
  then have "b \<in> rows D t" "?Q b" using one_Inr [OF assms(1), of ?Q b] by auto
  with take_row [OF assms(1) _ b(2)] show thesis by (intro that [of b]) (auto simp: vb_key_def)
qed

lemma freeD:
  assumes "ok t" "free_edge_vnic_by_network D t e n = Inr (b', t')"
  obtains b where "b \<in> rows D t" "vb_edge_id b = e" "vb_network_id b = Some n"
    "b' = b\<lparr>vb_network_id := None\<rparr>" "ok t'" "rows D t' = taken_by b None (rows D t)"
proof -
  let ?Q = "\<lambda>r. vb_edge_id r = e \<and> vb_network_id r = Some n"
  from assms(2) obtain b where b: "q_one D t ?Q = Inr b"
    "set_row D vb_key t b (\<lambda>r. r\<lparr>vb_network_id := None\<rparr>) = (b', t')"
    by (auto simp: free_edge_vnic_by_network_def bind_res_Inr_iff)
  then have "b \<in> rows D t" "?Q b" using one_Inr [OF assms(1), of ?Q b] by auto
  with take_row [OF assms(1) _ b(2)] show thesis by (intro that [of b]) auto
qed

end

lemma new_row_free: "r \<in> set (new_rows T e) \<Longrightarrow> vb_edge_id r = e \<and> vb_network_id r = None"
  by (auto simp: new_rows_set)

lemma new_rows_image: "set (new_rows T e) = (\<lambda>(v, k). free_vnic e v k) `
    {(v, k). 1 \<le> v \<and> v \<le> 9 \<and> (v - 1) * T < k \<and> k \<le> v * T}"
  by (fastforce simp: new_rows_set image_iff)

text \<open>A run of allocations on one edge.\<close>

fun allocate_each :: "('t, edge_vnic_binding) orm \<Rightarrow> 't \<Rightarrow> string \<Rightarrow> string list \<Rightarrow>
    db_error + edge_vnic_binding list \<times> 't" where
  "allocate_each D t e [] = Inr ([], t)"
| "allocate_each D t e (n # ns) =
     bind_res (allocate_edge_vnic D t e n)
       (\<lambda>(b, t'). bind_res (allocate_each D t' e ns) (\<lambda>(bs, t''). Inr (b # bs, t'')))"

context vnic_table
begin

lemma allocate_each_full:
  assumes "ok t" "vnic_layout T e (rows D t)" "2 \<le> T" "9 < card (used T e t) + length ns"
  shows "allocate_each D t e ns = Inl NsxPluginException"
  using assms
proof (induction ns arbitrary: t)
  case Nil
  then show ?case using used_le [of t T e] by simp
next
  case (Cons n ns)
  have "1 \<le> T" using Cons.prems(3) by simp
  from Cons.prems(1,2) this show ?case
  proof (cases rule: allocate_cases [where n = n])
    case full
    then show ?thesis by simp
  next
    case (taken b t')
    have fin: "finite (used T e t)" using firsts_finite [OF Cons.prems(1)] by (simp add: used_def)
    have "b\<lparr>vb_network_id := Some n\<rparr> \<notin> used T e t"
    proof
      assume u: "b\<lparr>vb_network_id := Some n\<rparr> \<in> used T e t"
      then have "b\<lparr>vb_network_id := Some n\<rparr> = b"
        using firsts_vnic_inj [OF Cons.prems(1-3), of "b\<lparr>vb_network_id := Some n\<rparr>" b] taken(1)
        by (simp add: used_def)
      then show False using taken(2) by (metis edge_vnic_binding.select_convs(4)
        edge_vnic_binding.surjective edge_vnic_binding.update_convs(4) option.distinct(1))
    qed
    then have "card (used T e t') = Suc (card (used T e t))"
      using used_taken [OF taken(1,2,4)] fin by simp
    moreover have "vnic_layout T e (rows D t')"
      using taken(1) Cons.prems(2) unfolding taken(4) by (intro taken_by_layout) (auto simp: firsts_def)
    ultimately have "allocate_each D t' e ns = Inl NsxPluginException"
      using Cons.prems(3,4) taken(3) by (intro Cons.IH) auto
    then show ?thesis using taken(5) by simp
  qed
qed

lemma allocate_each_ok:
  assumes "ok t" "vnic_layout T e (rows D t)" "2 \<le> T" "card (used T e t) + length ns \<le> 9"
  shows "\<exists>bs t'. allocate_each D t e ns = Inr (bs, t') \<and> map vb_network_id bs = map Some ns \<and>
    distinct (map vb_vnic_index bs) \<and> set (map vb_vnic_index bs) \<subseteq> {1..9} \<and>
    set (map vb_vnic_index bs) \<inter> vb_vnic_index ` used T e t = {}"
  using assms
proof (induction ns arbitrary: t)
  case Nil
  then show ?case by simp
next
  case (Cons n ns)
  have "1 \<le> T" using Cons.prems(3) by simp
  from Cons.prems(1,2) this show ?case
  proof (cases rule: allocate_cases [where n = n])
    case full
    then have "card (used T e t) = 9" using used_all_iff [OF Cons.prems(1-3)] by blast
    then show ?thesis using Cons.prems(4) by simp
  next
    case (taken b t')
    have new: "vb_vnic_index b \<notin> vb_vnic_index ` used T e t"
      using firsts_vnic_inj [OF Cons.prems(1-3) taken(1)] taken(2) by (auto simp: used_def)
    have v: "1 \<le> vb_vnic_index b" "vb_vnic_index b \<le> 9" using first_of_vnic [OF Cons.prems(1-3) taken(1)] by auto
    have fin: "finite (used T e t)" using firsts_finite [OF Cons.prems(1)] by (simp add: used_def)
    have lay: "vnic_layout T e (rows D t')"
      using taken(1) Cons.prems(2) unfolding taken(4) by (intro taken_by_layout) (auto simp: firsts_def)
    have "card (used T e t') + length ns \<le> 9"
      using used_taken [OF taken(1,2,4)] fin Cons.prems(4) by (simp add: card_insert_if)
    from Cons.IH [OF taken(3) lay Cons.prems(3) this] obtain bs t'' where
      bs: "allocate_each D t' e ns = Inr (bs, t'')" "map vb_network_id bs = map Some ns"
        "distinct (map vb_vnic_index bs)" "set (map vb_vnic_index bs) \<subseteq> {1..9}"
        "set (map vb_vnic_index bs) \<inter> vb_vnic_index ` used T e t' = {}" by blast
    then have "vb_vnic_index b \<notin> set (map vb_vnic_index bs)"
      "set (map vb_vnic_index bs) \<inter> vb_vnic_index ` used T e t = {}"
      using used_taken [OF taken(1,2,4)] by auto
    then show ?thesis using bs(1-4) taken(5) v new by simp
  qed
qed

lemma layout_init:
  assumes "\<forall>r \<in> S. vb_edge_id r \<noteq> e"
  shows "vnic_layout T e (S \<union> set (new_rows T e))"
proof -
  have "{r \<in> S \<union> set (new_rows T e). vb_edge_id r = e} = set (new_rows T e)"
    using assms new_row_free by blast
  then show ?thesis by (simp add: vnic_layout_def new_rows_image image_image case_prod_unfold)
qed

end

text \<open>The operations that change the vnics of edges, as steps of the table.\<close>

inductive vnic_step :: "('t, edge_vnic_binding) orm \<Rightarrow> ('n, internal_network) orm \<Rightarrow> int \<Rightarrow> 't \<Rightarrow> 't \<Rightarrow> bool"
  for D N T where
  init: "init_edge_vnic_binding D T t e = Inr t' \<Longrightarrow> vnic_step D N T t t'"
| clean: "vnic_step D N T t (clean_edge_vnic_binding D t e)"
| allocate: "allocate_edge_vnic D t e n = Inr (b, t') \<Longrightarrow> vnic_step D N T t t'"
| tunnel: "allocate_edge_vnic_with_tunnel_index D N t nn e n az = Inr (b, t') \<Longrightarrow> vnic_step D N T t t'"
| specific: "allocate_specific_edge_vnic D t e v k n = Inr (b, t') \<Longrightarrow> vnic_step D N T t t'"
| free: "free_edge_vnic_by_network D t e n = Inr (b, t') \<Longrightarrow> vnic_step D N T t t'"

inductive_cases vnic_stepE: "vnic_step D N T t t'"

definition vnics_ok :: "int \<Rightarrow> edge_vnic_binding set \<Rightarrow> bool" where
  "vnics_ok T S \<longleftrightarrow> (\<forall>e. (\<forall>r \<in> S. vb_edge_id r \<noteq> e) \<or> vnic_layout T e S)"

lemma vnics_ok_taken [wf_intros]:
  assumes "vnics_ok T S" "b \<in> S"
  shows "vnics_ok T (taken_by b n S)"
  unfolding vnics_ok_def
proof (intro allI)
  fix e
  show "(\<forall>r \<in> taken_by b n S. vb_edge_id r \<noteq> e) \<or> vnic_layout T e (taken_by b n S)"
  proof (cases "\<forall>r \<in> S. vb_edge_id r \<noteq> e")
    case True
    with assms(2) show ?thesis by (auto simp: taken_by_def)
  next
    case False
    with assms(1) have "vnic_layout T e S" unfolding vnics_ok_def by blast
    with assms(2) show ?thesis by (blast intro: taken_by_layout)
  qed
qed

lemma vnic_layout_cong:
  "{r \<in> S. vb_edge_id r = e} = {r \<in> S'. vb_edge_id r = e} \<Longrightarrow> vnic_layout T e S = vnic_layout T e S'"
  by (simp add: vnic_layout_def)

lemma vnics_ok_remove [wf_intros]:
  assumes "vnics_ok T S"
  shows "vnics_ok T {r \<in> S. vb_edge_id r \<noteq> e}"
  unfolding vnics_ok_def
proof (intro allI)
  fix e'
  show "(\<forall>r \<in> {r \<in> S. vb_edge_id r \<noteq> e}. vb_edge_id r \<noteq> e') \<or> vnic_layout T e' {r \<in> S. vb_edge_id r \<noteq> e}"
  proof (cases "e' = e")
    case False
    then have "{r \<in> {r \<in> S. vb_edge_id r \<noteq> e}. vb_edge_id r = e'} = {r \<in> S. vb_edge_id r = e'}" by auto
    from vnic_layout_cong [OF this] assms show ?thesis unfolding vnics_ok_def by blast
  qed simp
qed

lemma vnics_ok_new [wf_intros]:
  assumes "vnics_ok T S" "\<forall>r \<in> S. vb_edge_id r \<noteq> e"
    "vnic_layout T e (S \<union> set (new_rows T e))"
  shows "vnics_ok T (S \<union> set (new_rows T e))"
  unfolding vnics_ok_def
proof (intro allI)
  fix e'
  show "(\<forall>r \<in> S \<union> set (new_rows T e). vb_edge_id r \<noteq> e') \<or> vnic_layout T e' (S \<union> set (new_rows T e))"
  proof (cases "e' = e")
    case True
    then show ?thesis using assms(3) by blast
  next
    case False
    then have no: "vb_edge_id r \<noteq> e'" if "r \<in> set (new_rows T e)" for r
      using that new_row_free by blast
    then have "{r \<in> S \<union> set (new_rows T e). vb_edge_id r = e'} = {r \<in> S. vb_edge_id r = e'}" by blast
    from vnic_layout_cong [OF this] no assms(1) show ?thesis unfolding vnics_ok_def by blast
  qed
qed

context vnic_table
begin

lemma init_eq: "init_edge_vnic_binding D T t e = add_rows D t (new_rows T e)"
  by (simp only: init_edge_vnic_binding_def new_rows_def)

lemma init_taken:
  assumes "ok t" "vnic_layout T e (rows D t)" "1 \<le> T"
  shows "init_edge_vnic_binding D T t e = Inl DBDuplicateEntry"
proof -
  have "(1, 1) \<in> {(v, k). 1 \<le> v \<and> v \<le> (9 :: int) \<and> (v - 1) * T < k \<and> k \<le> v * T}" using assms(3) by simp
  then obtain r where r: "r \<in> rows D t" "vb_edge_id r = e" "vb_vnic_index r = 1" "vb_tunnel_index r = 1"
    using assms(2) unfolding vnic_layout_def by (smt (verit) imageE mem_Collect_eq prod.inject)
  have "vnic_rows T e 1 = free_vnic e 1 1 # map (\<lambda>i. free_vnic e 1 (i + 1)) [1..T - 1]"
    using assms(3) by (simp add: vnic_rows_def upto_rec1)
  then obtain rs where "new_rows T e = free_vnic e 1 1 # rs"
    by (simp add: new_rows_def upt_rec)
  moreover have "q_add D t (free_vnic e 1 1) = Inl DBDuplicateEntry"
    using r by (intro add_taken [OF assms(1) r(1)]) (simp add: vb_key_def)
  ultimately show ?thesis by (simp add: init_eq)
qed

lemma step_ok:
  assumes "vnic_step D N T t t'" "ok t" "vnics_ok T (rows D t)" "1 \<le> T"
  shows "ok t' \<and> vnics_ok T (rows D t')"
  using assms(1)
proof (cases rule: vnic_step.cases)
  case (init e)
  have free: "\<forall>r \<in> rows D t. vb_edge_id r \<noteq> e"
    using init_taken [OF assms(2) _ assms(4), of e] init assms(3) unfolding vnics_ok_def by force
  from init_rows [OF assms(2) free, of T] init have "ok t'" "rows D t' = rows D t \<union> set (new_rows T e)" by auto
  then show ?thesis using vnics_ok_new [OF assms(3) free layout_init [OF free]] by simp
next
  case (clean e)
  then show ?thesis using vnics_ok_remove [OF assms(3), of e] delete_ok [OF assms(2)] delete_rows [OF assms(2)]
    by (simp add: clean_edge_vnic_binding_def)
next
  case (allocate e n b)
  show ?thesis
  proof (cases "\<forall>r \<in> rows D t. vb_edge_id r \<noteq> e")
    case True
    then have "q_all D t (\<lambda>r. vb_edge_id r = e \<and> vb_network_id r = None) = []"
      using all_empty [OF assms(2)] by blast
    then show ?thesis using allocate by (simp add: allocate_edge_vnic_def)
  next
    case False
    then have "vnic_layout T e (rows D t)" using assms(3) unfolding vnics_ok_def by blast
    from assms(2) this assms(4) show ?thesis
    proof (cases rule: allocate_cases [where n = n])
      case (taken b' t'')
      then show ?thesis using allocate vnics_ok_taken [OF assms(3), of b'] by (simp add: firsts_def)
    qed (use allocate in simp)
  qed
next
  case (tunnel nn e n az b)
  from assms(2) show ?thesis
  proof (cases rule: tunnel_cases [where e = e and n = n and N = N and nn = nn and az = az])
    case (taken b' t'')
    then show ?thesis using tunnel vnics_ok_taken [OF assms(3), of b'] by simp
  qed (use tunnel in simp)
next
  case (specific e v k n b)
  from specificD [OF assms(2) this] show ?thesis using vnics_ok_taken [OF assms(3)] by metis
next
  case (free e n b)
  from freeD [OF assms(2) this] show ?thesis using vnics_ok_taken [OF assms(3)] by metis
qed

lemma steps_ok:
  assumes "(vnic_step D N T)\<^sup>*\<^sup>* t t'" "ok t" "vnics_ok T (rows D t)" "1 \<le> T"
  shows "ok t' \<and> vnics_ok T (rows D t')"
  using assms by (induction rule: rtranclp_induct) (auto dest: step_ok)

end

interpretation vb_vnics: vnic_table "list_orm vb_key" "keys_distinct vb_key"
  by (intro vnic_table.intro list_orm_table)

subsection \<open>Properties\<close>

lemma vnic_tableI: "orm_table D vb_key ok \<Longrightarrow> vnic_table D ok"
  by (rule vnic_table.intro)

text \<open>C2: A fresh edge is given 9 vnics of \<open>T\<close> tunnels each by \<open>init_edge_vnic_binding\<close>,
  and no row of another edge changes. When \<open>T\<close> is at least 2, \<open>allocate_edge_vnic\<close> then
  serves any 9 networks in turn, with a different vnic between 1 and 9 for each, and a
  run of more than 9 ends in NsxPluginException.\<close>

theorem edge_serves_nine_networks:
  assumes "orm_table D vb_key ok" "ok t" "\<forall>r \<in> rows D t. vb_edge_id r \<noteq> e" "2 \<le> T"
  shows "\<exists>t0. init_edge_vnic_binding D T t e = Inr t0 \<and> ok t0 \<and>
    rows D t0 = rows D t \<union> {free_vnic e v k | v k. 1 \<le> v \<and> v \<le> 9 \<and> (v - 1) * T < k \<and> k \<le> v * T} \<and>
    (length ns \<le> 9 \<longrightarrow> (\<exists>bs t'. allocate_each D t0 e ns = Inr (bs, t') \<and>
       map vb_network_id bs = map Some ns \<and> distinct (map vb_vnic_index bs) \<and>
       set (map vb_vnic_index bs) \<subseteq> {1..9})) \<and>
    (9 < length ns \<longrightarrow> allocate_each D t0 e ns = Inl NsxPluginException)"
proof -
  note V = vnic_tableI [OF assms(1)]
  from vnic_table.init_rows [OF V assms(2,3), of T] obtain t0 where
    t0: "init_edge_vnic_binding D T t e = Inr t0" "ok t0" "rows D t0 = rows D t \<union> set (new_rows T e)" by blast
  have lay: "vnic_layout T e (rows D t0)"
    unfolding t0(3) by (rule vnic_table.layout_init [OF V assms(3)])
  have "vnic_table.used D T e t0 = {}"
    using assms(3) unfolding vnic_table.used_def [OF V] vnic_table.firsts_def [OF V] t0(3)
    by (auto dest: new_row_free)
  then have c: "card (vnic_table.used D T e t0) = 0" by simp
  have ok: "\<exists>bs t'. allocate_each D t0 e ns = Inr (bs, t') \<and> map vb_network_id bs = map Some ns \<and>
      distinct (map vb_vnic_index bs) \<and> set (map vb_vnic_index bs) \<subseteq> {1..9}" if "length ns \<le> 9"
    using vnic_table.allocate_each_ok [OF V t0(2) lay assms(4), of ns] c that by auto
  have full: "allocate_each D t0 e ns = Inl NsxPluginException" if "9 < length ns"
    using vnic_table.allocate_each_full [OF V t0(2) lay assms(4), of ns] c that by simp
  show ?thesis using t0 ok full unfolding new_rows_set by blast
qed

theorem edge_serves_nine_networks_witness:
  "\<exists>t0. init_edge_vnic_binding (list_orm vb_key) 2 [] ''edge-1'' = Inr t0 \<and>
    (\<exists>bs t'. allocate_each (list_orm vb_key) t0 ''edge-1'' [''a'', ''b''] = Inr (bs, t') \<and>
       distinct (map vb_vnic_index bs))"
  using edge_serves_nine_networks [OF list_orm_table, of "[]" "''edge-1''" 2 "[''a'', ''b'']"]
  by (auto simp: keys_distinct_def)



text \<open>With one tunnel per vnic no index is 1 modulo the number of tunnels, so
  \<open>allocate_edge_vnic\<close> fails on every edge, also when all its vnics are free.\<close>

theorem one_tunnel_never_allocates:
  assumes "orm_table D vb_key ok" "ok t" "vnic_layout 1 e (rows D t)"
  shows "allocate_edge_vnic D t e n = Inl NsxPluginException"
proof -
  note V = vnic_tableI [OF assms(1)]
  have no: "vnic_table.firsts D 1 e t = {}" by (simp add: vnic_table.firsts_def [OF V])
  show ?thesis
    by (rule vnic_table.allocate_cases [OF V assms(2,3), of n]) (simp_all add: no)
qed

theorem one_tunnel_never_allocates_witness:
  "\<exists>t. init_edge_vnic_binding (list_orm vb_key) 1 [] ''edge-1'' = Inr t \<and>
     allocate_edge_vnic (list_orm vb_key) t ''edge-1'' ''net'' = Inl NsxPluginException"
proof -
  from vb_vnics.init_rows [of "[]" "''edge-1''" 1] obtain t where
    t: "init_edge_vnic_binding (list_orm vb_key) 1 [] ''edge-1'' = Inr t" "keys_distinct vb_key t"
      "rows (list_orm vb_key) t = {} \<union> set (new_rows 1 ''edge-1'')" by (auto simp: keys_distinct_def)
  have "vnic_layout 1 ''edge-1'' (rows (list_orm vb_key) t)"
    unfolding t(3) by (rule vb_vnics.layout_init) simp
  from one_tunnel_never_allocates [OF list_orm_table t(2) this] t(1) show ?thesis by blast
qed

text \<open>C25: Allocating with a tunnel index takes a free place of the edge, outside the vnic
  that carries the metadata network (the internal network of the zone, or of the default
  zone), gives it to the network and changes no other row; it fails exactly when there is
  no such place.\<close>

theorem tunnel_allocation_avoids_metadata_vnic:
  assumes "orm_table D vb_key ok" "ok t"
    "get_nsxv_internal_network N nn INTER_EDGE_PURPOSE az True = Some net"
    "inw_network_id net = Some m" "m \<noteq> []"
    "{r \<in> rows D t. vb_edge_id r = e \<and> vb_network_id r = Some m} = {x}"
  shows "case allocate_edge_vnic_with_tunnel_index D N t nn e n az of
      Inl ex \<Rightarrow> ex = NsxPluginException \<and>
        (\<forall>r \<in> rows D t. vb_edge_id r = e \<longrightarrow> vb_network_id r = None \<longrightarrow> vb_vnic_index r = vb_vnic_index x)
    | Inr (b', t') \<Rightarrow> ok t' \<and> (\<exists>b \<in> rows D t. vb_edge_id b = e \<and> vb_network_id b = None \<and>
        vb_vnic_index b \<noteq> vb_vnic_index x \<and> b' = b\<lparr>vb_network_id := Some n\<rparr> \<and>
        rows D t' = insert b' (rows D t - {b}))"
proof -
  note V = vnic_tableI [OF assms(1)]
  let ?meta = "\<lambda>r. vb_edge_id r = e \<and> vb_network_id r = Some m"
  let ?Q = "\<lambda>r. (vb_edge_id r = e \<and> vb_network_id r = None) \<and> vb_vnic_index r \<noteq> vb_vnic_index x"
  have "q_all D t ?meta = [x]"
    using orm_table.one_Inr [OF assms(1,2), of ?meta x] assms(6)
    by (cases "q_all D t ?meta" rule: only_one.cases) (auto simp: q_one_def)
  then have "get_edge_vnic_binding D t e m = Some x" by (simp add: get_edge_vnic_binding_def q_first_def)
  then have eq: "allocate_edge_vnic_with_tunnel_index D N t nn e n az =
      (case q_first D t ?Q of None \<Rightarrow> Inl NsxPluginException
       | Some b \<Rightarrow> Inr (set_row D vb_key t b (\<lambda>r. r\<lparr>vb_network_id := Some n\<rparr>)))"
    using assms(3-5) by (simp add: allocate_edge_vnic_with_tunnel_index_def)
  show ?thesis
  proof (cases "q_first D t ?Q")
    case None
    then show ?thesis using eq orm_table.first_None [OF assms(1,2), of ?Q] by auto
  next
    case (Some b)
    from orm_table.first_Some [OF assms(1,2) this] have b: "b \<in> rows D t" "?Q b" by auto
    obtain b' t' where s: "set_row D vb_key t b (\<lambda>r. r\<lparr>vb_network_id := Some n\<rparr>) = (b', t')" by fastforce
    show ?thesis using vnic_table.take_row [OF V assms(2) b(1) s] b Some eq s
      by (auto simp: taken_by_def)
  qed
qed

lemma allocated_vnic_is_freed:
  assumes "orm_table D vb_key ok" "ok t" "vnic_layout T e (rows D t)" "1 \<le> T"
    "\<forall>r \<in> rows D t. vb_edge_id r = e \<longrightarrow> vb_network_id r \<noteq> Some n"
    "allocate_edge_vnic D t e n = Inr (b, t1) \<or> allocate_edge_vnic_with_tunnel_index D N t nn e n az = Inr (b, t1)"
  shows "get_edge_vnic_binding D t1 e n = Some b \<and>
    (\<exists>b' t2. free_edge_vnic_by_network D t1 e n = Inr (b', t2) \<and> ok t2 \<and> rows D t2 = rows D t)"
proof -
  note V = vnic_tableI [OF assms(1)]
  obtain c where c: "c \<in> rows D t" "vb_edge_id c = e" "vb_network_id c = None" "ok t1"
    "rows D t1 = taken_by c (Some n) (rows D t)" "b = c\<lparr>vb_network_id := Some n\<rparr>"
    using assms(6)
  proof
    assume "allocate_edge_vnic D t e n = Inr (b, t1)"
    then show thesis
      by (cases rule: vnic_table.allocate_cases [OF V assms(2-4), of n])
        (auto intro: that simp: vnic_table.firsts_def [OF V])
  next
    assume "allocate_edge_vnic_with_tunnel_index D N t nn e n az = Inr (b, t1)"
    then show thesis
      by (cases rule: vnic_table.tunnel_cases [OF V assms(2), of N nn e n az]) (auto intro: that)
  qed
  let ?Q = "\<lambda>r. vb_edge_id r = e \<and> vb_network_id r = Some n"
  have only: "{r \<in> rows D t1. ?Q r} = {b}" using assms(5) c by (auto simp: taken_by_def)
  then have one: "q_one D t1 ?Q = Inr b" using orm_table.one_Inr [OF assms(1) c(4)] by blast
  then have "q_all D t1 ?Q = [b]"
    by (cases "q_all D t1 ?Q" rule: only_one.cases) (auto simp: q_one_def)
  then have get: "get_edge_vnic_binding D t1 e n = Some b"
    by (simp add: get_edge_vnic_binding_def q_first_def)
  obtain b' t2 where s: "set_row D vb_key t1 b (\<lambda>r. r\<lparr>vb_network_id := None\<rparr>) = (b', t2)" by fastforce
  have "b \<in> rows D t1" using only by blast
  note t2 = vnic_table.take_row [OF V c(4) this s]
  have "b\<lparr>vb_network_id := None\<rparr> = c" using c(3,6) by simp
  moreover have "b \<notin> rows D t" using assms(5) c(2,6) by auto
  ultimately have "rows D t2 = rows D t" using t2(3) c(1,5,6) by (auto simp: taken_by_def)
  then show ?thesis using get one s t2(2) by (simp add: free_edge_vnic_by_network_def)
qed

text \<open>C28: A network allocated on an edge that did not have it is found again by
  \<open>get_edge_vnic_binding\<close>, and releasing it restores the rows as they were.\<close>

theorem allocate_then_free:
  assumes "orm_table D vb_key ok" "ok t" "vnic_layout T e (rows D t)" "1 \<le> T"
    "\<forall>r \<in> rows D t. vb_edge_id r = e \<longrightarrow> vb_network_id r \<noteq> Some n"
    "allocate_edge_vnic D t e n = Inr (b, t1) \<or> allocate_edge_vnic_with_tunnel_index D N t nn e n az = Inr (b, t1)"
  shows "get_edge_vnic_binding D t1 e n = Some b \<and>
    (\<exists>b' t2. free_edge_vnic_by_network D t1 e n = Inr (b', t2) \<and> ok t2 \<and> rows D t2 = rows D t)"
  by (rule allocated_vnic_is_freed [OF assms])

text \<open>A small edge for the witnesses: two vnics of two tunnels, the first of them carrying
  the metadata network.\<close>

abbreviation demo_vnics :: "edge_vnic_binding list" where
  "demo_vnics \<equiv> [(free_vnic ''e'' 1 1)\<lparr>vb_network_id := Some ''meta''\<rparr>, free_vnic ''e'' 1 2,
     free_vnic ''e'' 2 3, free_vnic ''e'' 2 4]"

abbreviation demo_nets :: "internal_network list" where
  "demo_nets \<equiv> [\<lparr>inw_network_purpose = INTER_EDGE_PURPOSE, inw_network_id = Some ''meta'',
     inw_availability_zone = DEFAULT_NAME\<rparr>]"

theorem tunnel_allocation_avoids_metadata_vnic_witness:
  "\<exists>b' t'. allocate_edge_vnic_with_tunnel_index (list_orm vb_key) (list_orm inw_key) demo_vnics
      demo_nets ''e'' ''net'' ''zone'' = Inr (b', t') \<and> vb_vnic_index b' \<noteq> 1"
proof -
  have g: "get_nsxv_internal_network (list_orm inw_key) demo_nets INTER_EDGE_PURPOSE ''zone'' True =
      Some (hd demo_nets)"
    by (simp add: get_nsxv_internal_network_def list_orm_def)
  have x: "{r \<in> rows (list_orm vb_key) demo_vnics. vb_edge_id r = ''e'' \<and> vb_network_id r = Some ''meta''} =
      {hd demo_vnics}" by auto
  have k: "keys_distinct vb_key demo_vnics" by (simp add: keys_distinct_def)
  have f: "allocate_edge_vnic_with_tunnel_index (list_orm vb_key) (list_orm inw_key) demo_vnics
      demo_nets ''e'' ''net'' ''zone'' \<noteq> Inl NsxPluginException"
    using g by (simp add: allocate_edge_vnic_with_tunnel_index_def Let_def get_edge_vnic_binding_def
        q_first_def list_orm_def)
  from tunnel_allocation_avoids_metadata_vnic [OF list_orm_table k g _ _ x, of "''net''"] f
  show ?thesis
    by (cases "allocate_edge_vnic_with_tunnel_index (list_orm vb_key) (list_orm inw_key) demo_vnics
      demo_nets ''e'' ''net'' ''zone''") auto
qed

theorem allocate_then_free_witness:
  "\<exists>t0 b t1. init_edge_vnic_binding (list_orm vb_key) 2 [] ''e'' = Inr t0 \<and>
     allocate_edge_vnic (list_orm vb_key) t0 ''e'' ''net'' = Inr (b, t1) \<and>
     get_edge_vnic_binding (list_orm vb_key) t1 ''e'' ''net'' = Some b"
proof -
  from vb_vnics.init_rows [of "[]" "''e''" 2] obtain t0 where
    t0: "init_edge_vnic_binding (list_orm vb_key) 2 [] ''e'' = Inr t0" "keys_distinct vb_key t0"
      "rows (list_orm vb_key) t0 = {} \<union> set (new_rows 2 ''e'')" by (auto simp: keys_distinct_def)
  have lay: "vnic_layout 2 ''e'' (rows (list_orm vb_key) t0)"
    unfolding t0(3) by (rule vb_vnics.layout_init) simp
  have no: "\<forall>r \<in> rows (list_orm vb_key) t0. vb_edge_id r = ''e'' \<longrightarrow> vb_network_id r \<noteq> Some ''net''"
    unfolding t0(3) by (auto dest: new_row_free)
  have u: "vb_vnics.used 2 ''e'' t0 = {}"
    unfolding vb_vnics.used_def vb_vnics.firsts_def t0(3) by (auto dest: new_row_free)
  from vb_vnics.allocate_each_ok [OF t0(2) lay, of "[''net'']"] u obtain b t1 where
    a: "allocate_edge_vnic (list_orm vb_key) t0 ''e'' ''net'' = Inr (b, t1)"
    by (auto simp: bind_res_Inr_iff)
  from allocate_then_free [OF list_orm_table t0(2) lay _ no disjI1 [OF a]] t0(1) a show ?thesis by auto
qed

text \<open>\<open>create_edge_dhcp_static_binding\<close> never raises: it adds the binding, replacing the
  one that the edge had for the MAC address, and keeps all others; the binding is then what
  \<open>get_edge_dhcp_static_binding\<close> returns, and deleting it leaves none.\<close>

theorem dhcp_static_binding_overwrites:
  assumes "orm_table D sb_key ok" "ok t"
  shows "\<exists>t'. create_edge_dhcp_static_binding D t e mac bid =
      Inr (\<lparr>sb_edge_id = e, sb_mac_address = mac, sb_binding_id = bid\<rparr>, t') \<and> ok t' \<and>
    rows D t' = insert \<lparr>sb_edge_id = e, sb_mac_address = mac, sb_binding_id = bid\<rparr>
      {r \<in> rows D t. (sb_edge_id r, sb_mac_address r) \<noteq> (e, mac)} \<and>
    get_edge_dhcp_static_binding D t' e mac = Some \<lparr>sb_edge_id = e, sb_mac_address = mac, sb_binding_id = bid\<rparr> \<and>
    get_edge_dhcp_static_binding D (delete_edge_dhcp_static_binding D t' e mac) e mac = None"
proof -
  let ?b = "\<lparr>sb_edge_id = e, sb_mac_address = mac, sb_binding_id = bid\<rparr>"
  let ?Q = "\<lambda>r. sb_edge_id r = e \<and> sb_mac_address r = mac"
  note O = assms(1)
  have key: "sb_key r = sb_key ?b \<longleftrightarrow> ?Q r" for r by (simp add: sb_key_def)
  have "\<exists>t'. create_edge_dhcp_static_binding D t e mac bid = Inr (?b, t') \<and> ok t' \<and>
      rows D t' = insert ?b {r \<in> rows D t. \<not> ?Q r}"
  proof (rule orm_table.add_cases [OF O assms(2), of ?b])
    fix x assume taken: "x \<in> rows D t" "sb_key x = sb_key ?b" "q_add D t ?b = Inl DBDuplicateEntry"
    let ?t = "delete_edge_dhcp_static_binding D t e mac"
    have d: "ok ?t" "rows D ?t = {r \<in> rows D t. \<not> ?Q r}"
      using orm_table.delete_ok [OF O assms(2)] orm_table.delete_rows [OF O assms(2)]
      by (simp_all add: delete_edge_dhcp_static_binding_def)
    have "sb_key ?b \<notin> sb_key ` rows D ?t"
    proof
      assume "sb_key ?b \<in> sb_key ` rows D ?t"
      then obtain r where "r \<in> rows D ?t" "sb_key r = sb_key ?b" by (rule imageE) simp
      then show False unfolding d(2) key by simp
    qed
    from orm_table.add_free [OF O d(1) this] obtain t' where
      "q_add D ?t ?b = Inr t'" "ok t'" "rows D t' = insert ?b (rows D ?t)" by blast
    then show ?thesis using taken d
      by (simp add: create_edge_dhcp_static_binding_def create_edge_dhcp_static_binding_raw_def add_row_def)
  next
    fix t' assume free: "sb_key ?b \<notin> sb_key ` rows D t" "q_add D t ?b = Inr t'" "ok t'"
      "rows D t' = insert ?b (rows D t)"
    have "\<not> ?Q r" if "r \<in> rows D t" for r
      using free(1) imageI [OF that, of sb_key] unfolding key [symmetric] by metis
    then have "{r \<in> rows D t. \<not> ?Q r} = rows D t" by blast
    then show ?thesis using free
      by (simp add: create_edge_dhcp_static_binding_def create_edge_dhcp_static_binding_raw_def add_row_def)
  qed
  then obtain t' where t': "create_edge_dhcp_static_binding D t e mac bid = Inr (?b, t')" "ok t'"
    "rows D t' = insert ?b {r \<in> rows D t. \<not> ?Q r}" by blast
  have "get_edge_dhcp_static_binding D t' e mac = Some ?b"
  proof (cases "q_first D t' ?Q")
    case None
    then show ?thesis using orm_table.first_None [OF O t'(2), of ?Q] t'(3) by auto
  next
    case (Some r)
    from orm_table.first_Some [OF O t'(2) this] show ?thesis
      using Some t'(3) by (auto simp: get_edge_dhcp_static_binding_def)
  qed
  moreover have "get_edge_dhcp_static_binding D (delete_edge_dhcp_static_binding D t' e mac) e mac = None"
    using orm_table.delete_ok [OF O t'(2), of ?Q] orm_table.delete_rows [OF O t'(2), of ?Q]
    by (simp add: get_edge_dhcp_static_binding_def delete_edge_dhcp_static_binding_def orm_table.first_None [OF O])
  ultimately show ?thesis using t' by auto
qed

theorem dhcp_static_binding_overwrites_witness:
  "\<exists>t'. create_edge_dhcp_static_binding (list_orm sb_key)
       [\<lparr>sb_edge_id = ''e'', sb_mac_address = ''m'', sb_binding_id = ''old''\<rparr>] ''e'' ''m'' ''new'' =
     Inr (\<lparr>sb_edge_id = ''e'', sb_mac_address = ''m'', sb_binding_id = ''new''\<rparr>, t')"
  using dhcp_static_binding_overwrites [OF list_orm_table,
      of "[\<lparr>sb_edge_id = ''e'', sb_mac_address = ''m'', sb_binding_id = ''old''\<rparr>]" "''e''" "''m''" "''new''"]
  by (auto simp: keys_distinct_def)

text \<open>The internal network of a purpose in a zone is the row of that purpose and zone
  when there is one; otherwise, with the fallback, the row of the default zone; and None
  when neither exists.\<close>

theorem internal_network_lookup:
  assumes "orm_table D inw_key ok" "ok t"
  shows "get_nsxv_internal_network D t p az fb = Some r \<longleftrightarrow>
    r \<in> rows D t \<and> (if (p, az) \<in> inw_key ` rows D t then inw_key r = (p, az)
      else fb \<and> inw_key r = (p, DEFAULT_NAME))"
proof -
  let ?Q = "\<lambda>z r. inw_network_purpose r = p \<and> inw_availability_zone r = z"
  have nil: "q_all D t (?Q z) = [] \<longleftrightarrow> (p, z) \<notin> inw_key ` rows D t" for z
    using orm_table.all_empty [OF assms, of "?Q z"] by (fastforce simp: inw_key_def)
  have cons: "q_all D t (?Q z) = n # ns \<Longrightarrow> n = x \<longleftrightarrow> x \<in> rows D t \<and> inw_key x = (p, z)" for n ns x z
    using orm_table.all_rows [OF assms, of "?Q z"] orm_table.key_inj [OF assms]
    by (fastforce simp: inw_key_def dest: inj_onD)
  show ?thesis
  proof (cases "q_all D t (?Q az)")
    case Nil
    then show ?thesis using nil [of az] nil [of DEFAULT_NAME] cons [of DEFAULT_NAME _ _ r]
      by (cases "q_all D t (?Q DEFAULT_NAME)")
        (auto simp: get_nsxv_internal_network_def image_iff)
  next
    case (Cons n ns)
    then show ?thesis using nil [of az] cons [OF Cons, of r]
      by (simp add: get_nsxv_internal_network_def)
  qed
qed

theorem internal_network_lookup_witness:
  "get_nsxv_internal_network (list_orm inw_key) demo_nets INTER_EDGE_PURPOSE ''zone'' True = Some (hd demo_nets)"
  using internal_network_lookup [OF list_orm_table, of demo_nets INTER_EDGE_PURPOSE "''zone''" True "hd demo_nets"]
  by (simp add: keys_distinct_def inw_key_def)

text \<open>The binding that \<open>get_dhcp_edge_network_binding\<close> returns for a network is a vnic of
  that network on an edge which serves a router binding named \<open>dhcp-...\<close>; it returns None
  exactly when the network is on no such edge.\<close>

theorem dhcp_binding_is_on_dhcp_edge:
  assumes "orm_table D vb_key ok" "ok t" "orm_table R rb_key okr" "okr b"
  shows "case get_dhcp_edge_network_binding D R t b n of
      Some r \<Rightarrow> r \<in> rows D t \<and> vb_network_id r = Some n \<and>
        (\<exists>x \<in> rows R b. rb_edge_id x = Some (vb_edge_id r) \<and> startswith (rb_router_id x) ''dhcp-'')
    | None \<Rightarrow> \<forall>r \<in> rows D t. vb_network_id r = Some n \<longrightarrow>
        (\<forall>x \<in> rows R b. rb_edge_id x = Some (vb_edge_id r) \<longrightarrow> \<not> startswith (rb_router_id x) ''dhcp-'')"
proof -
  let ?P = "\<lambda>r. Some (vb_edge_id r) \<in> rb_edge_id ` {x \<in> rows R b. startswith (rb_router_id x) ''dhcp-''}"
  have "get_nsxv_router_bindings R (\<lambda>_ _. False) b None None = q_all R b (\<lambda>_. True)"
    by (simp add: get_nsxv_router_bindings_def apply_filters_to_query_def [abs_def] filter_in_def filter_like_def)
  moreover have "set (q_all R b (\<lambda>_. True)) = rows R b" by (simp add: rows_def)
  ultimately have eq: "get_dhcp_edge_network_binding D R t b n = find ?P (q_all D t (\<lambda>r. vb_network_id r = Some n))"
    by (simp add: get_dhcp_edge_network_binding_def)
  show ?thesis
  proof (cases "find ?P (q_all D t (\<lambda>r. vb_network_id r = Some n))")
    case None
    then have "\<forall>r \<in> rows D t. vb_network_id r = Some n \<longrightarrow> \<not> ?P r"
      unfolding orm_table.find_all_None [OF assms(1,2)] .
    then have "\<not> startswith (rb_router_id x) ''dhcp-''" if "r \<in> rows D t" "vb_network_id r = Some n"
      "x \<in> rows R b" "rb_edge_id x = Some (vb_edge_id r)" for r x
      using that rev_image_eqI [of x "{x \<in> rows R b. startswith (rb_router_id x) ''dhcp-''}" "Some (vb_edge_id r)" rb_edge_id]
      by auto
    then show ?thesis unfolding eq None option.case by blast
  next
    case (Some r)
    from orm_table.find_all_Some [OF assms(1,2) this] show ?thesis unfolding eq Some by auto
  qed
qed

theorem dhcp_binding_is_on_dhcp_edge_witness:
  "get_dhcp_edge_network_binding (list_orm vb_key) (list_orm rb_key) demo_vnics [] ''meta'' = None"
proof -
  have "keys_distinct vb_key demo_vnics" "keys_distinct rb_key []" by (simp_all add: keys_distinct_def)
  with dhcp_binding_is_on_dhcp_edge [where ok = "keys_distinct vb_key" and okr = "keys_distinct rb_key"
      and D = "list_orm vb_key" and R = "list_orm rb_key" and t = demo_vnics and b = "[]" and n = "''meta''"]
  show ?thesis
    by (cases "get_dhcp_edge_network_binding (list_orm vb_key) (list_orm rb_key) demo_vnics [] ''meta''")
      (simp_all add: list_orm_table)
qed

lemma port_vnic_type_iff:
  assumes "orm_table D pe_key ok" "ok t"
  shows "get_nsxv_ext_attr_port_vnic_type D t p = Inr v \<longleftrightarrow>
    (\<exists>r \<in> rows D t. pe_port_id r = p \<and> pe_vnic_type r = v) \<or>
    (\<forall>r \<in> rows D t. pe_port_id r \<noteq> p) \<and> v = VNIC_NORMAL"
proof (rule orm_table.one_or_none_key [OF assms, of "\<lambda>r. pe_port_id r = p"])
  fix r assume r: "r \<in> rows D t" "pe_port_id r = p" "one_or_none D t (\<lambda>r. pe_port_id r = p) = Inr (Some r)"
  have "r' = r" if "r' \<in> rows D t" "pe_port_id r' = p" for r'
    using orm_table.key_eq [OF assms that(1) r(1)] r(2) that(2) by (simp add: pe_key_def)
  then have "(\<exists>x \<in> rows D t. pe_port_id x = p \<and> pe_vnic_type x = v) \<longleftrightarrow> pe_vnic_type r = v"
    "\<not> (\<forall>x \<in> rows D t. pe_port_id x \<noteq> p)" using r(1,2) by blast+
  then show ?thesis using r(3) by (auto simp: get_nsxv_ext_attr_port_vnic_type_def)
qed (auto simp: pe_key_def get_nsxv_ext_attr_port_vnic_type_def)

lemma port_vnic_type_reads:
  assumes "orm_table D pe_key ok" "ok t"
  shows "\<exists>v. get_nsxv_ext_attr_port_vnic_type D t p = Inr v"
proof (cases "\<exists>r \<in> rows D t. pe_port_id r = p")
  case True
  then obtain r where "r \<in> rows D t" "pe_port_id r = p" by blast
  then show ?thesis using port_vnic_type_iff [OF assms, of p "pe_vnic_type r"] by blast
next
  case False
  then show ?thesis using port_vnic_type_iff [OF assms, of p VNIC_NORMAL] by blast
qed

text \<open>Setting the vnic type of a port never raises, whether or not the port had a row;
  the type is what is read back afterwards, and no other port is affected. A port without a
  row reads as normal.\<close>

theorem port_vnic_type_upsert:
  assumes "orm_table D pe_key ok" "ok t"
  shows "\<exists>t'. update_nsxv_port_ext_attributes D t p v = Inr (\<lparr>pe_port_id = p, pe_vnic_type = v\<rparr>, t') \<and>
    ok t' \<and> get_nsxv_ext_attr_port_vnic_type D t' p = Inr v \<and>
    (\<forall>p'. p' \<noteq> p \<longrightarrow> get_nsxv_ext_attr_port_vnic_type D t' p' = get_nsxv_ext_attr_port_vnic_type D t p')"
proof -
  let ?b = "\<lparr>pe_port_id = p, pe_vnic_type = v\<rparr>"
  note O = assms(1)
  have "\<exists>t'. update_nsxv_port_ext_attributes D t p v = Inr (?b, t') \<and> ok t' \<and>
      rows D t' = insert ?b {r \<in> rows D t. pe_port_id r \<noteq> p}"
  proof (rule orm_table.one_or_none_key [OF assms, of "\<lambda>r. pe_port_id r = p"])
    assume no: "\<forall>r \<in> rows D t. pe_port_id r \<noteq> p" "one_or_none D t (\<lambda>r. pe_port_id r = p) = Inr None"
    then have "pe_key ?b \<notin> pe_key ` rows D t" by (auto simp: pe_key_def)
    from orm_table.add_free [OF assms this] no show ?thesis
      by (auto simp: update_nsxv_port_ext_attributes_def add_nsxv_port_ext_attributes_def add_row_def)
  next
    fix r assume r: "r \<in> rows D t" "pe_port_id r = p" "one_or_none D t (\<lambda>r. pe_port_id r = p) = Inr (Some r)"
    let ?f = "\<lambda>r. r\<lparr>pe_vnic_type := v\<rparr>"
    have f: "pe_key (?f x) = pe_key x" for x by (simp add: pe_key_def)
    have "pe_port_id x \<noteq> p \<longleftrightarrow> x \<noteq> r" if "x \<in> rows D t" for x
      using orm_table.key_eq [OF assms that r(1)] r(2) by (auto simp: pe_key_def)
    then have "{x \<in> rows D t. pe_port_id x \<noteq> p} = rows D t - {r}" by blast
    moreover have "?f r = ?b" using r(2) by simp
    moreover obtain b' t' where "set_row D pe_key t r ?f = (b', t')" by fastforce
    ultimately show ?thesis using r(3) orm_table.set_row_rows [OF assms r(1), of ?f, OF f]
      by (simp add: update_nsxv_port_ext_attributes_def)
  qed (auto simp: pe_key_def)
  then obtain t' where t': "update_nsxv_port_ext_attributes D t p v = Inr (?b, t')" "ok t'"
    "rows D t' = insert ?b {r \<in> rows D t. pe_port_id r \<noteq> p}" by blast
  have rd: "get_nsxv_ext_attr_port_vnic_type D t' p' = Inr w \<longleftrightarrow>
      (if p' = p then w = v else get_nsxv_ext_attr_port_vnic_type D t p' = Inr w)" for p' w
    unfolding port_vnic_type_iff [OF O t'(2)] port_vnic_type_iff [OF O assms(2)] t'(3) by auto
  have "get_nsxv_ext_attr_port_vnic_type D t' p' = get_nsxv_ext_attr_port_vnic_type D t p'"
    if "p' \<noteq> p" for p'
  proof -
    obtain w where "get_nsxv_ext_attr_port_vnic_type D t p' = Inr w"
      using port_vnic_type_reads [OF O assms(2)] by blast
    then show ?thesis using rd [of p' w] that by simp
  qed
  then show ?thesis using t' rd [of p v] by auto
qed

theorem port_vnic_type_upsert_witness:
  "\<exists>b t'. update_nsxv_port_ext_attributes (list_orm pe_key) [] ''port'' ''direct'' = Inr (b, t') \<and>
     get_nsxv_ext_attr_port_vnic_type (list_orm pe_key) t' ''port'' = Inr ''direct'' \<and>
     get_nsxv_ext_attr_port_vnic_type (list_orm pe_key) t' ''other'' =
       get_nsxv_ext_attr_port_vnic_type (list_orm pe_key) [] ''other''"
  using port_vnic_type_upsert [OF list_orm_table, of "[]" "''port''" "''direct''"]
  by (auto simp: keys_distinct_def)

end
