(* ===== verification/Json.thy ===== *)
theory Json
  imports Prelude
begin

text \<open>
  JSON values as Python has them after decoding, and the operations the code uses on them:
  \<open>obj[key]\<close>, \<open>obj.get(key)\<close>, iteration, truth value. An object keeps the order of its keys.
\<close>

datatype json = JNull | JBool bool | JInt int | JStr string | JList "json list" | JObj "(string \<times> json) list"

fun truthy_json :: "json \<Rightarrow> bool" where
  "truthy_json JNull = False"
| "truthy_json (JBool b) = b"
| "truthy_json (JInt i) = (i \<noteq> 0)"
| "truthy_json (JStr s) = (s \<noteq> [])"
| "truthy_json (JList l) = (l \<noteq> [])"
| "truthy_json (JObj al) = (al \<noteq> [])"

fun jfield :: "string \<Rightarrow> json \<Rightarrow> py_exc + json" where
  "jfield k (JObj al) = (case map_of al k of Some v \<Rightarrow> Inr v | None \<Rightarrow> Inl KeyError)"
| "jfield k _ = Inl TypeError"

fun jfield_opt :: "string \<Rightarrow> json \<Rightarrow> py_exc + json" where
  "jfield_opt k (JObj al) = Inr (case map_of al k of Some v \<Rightarrow> v | None \<Rightarrow> JNull)"
| "jfield_opt k _ = Inl AttributeError"

text \<open>\<open>obj.get(key, d)\<close>.\<close>

definition jfield_default :: "string \<Rightarrow> json \<Rightarrow> json \<Rightarrow> py_exc + json" where
  "jfield_default k d j = (case j of JObj al \<Rightarrow> Inr (case map_of al k of Some v \<Rightarrow> v | None \<Rightarrow> d) | _ \<Rightarrow> Inl AttributeError)"

fun as_list :: "json \<Rightarrow> py_exc + json list" where
  "as_list (JList l) = Inr l"
| "as_list _ = Inl TypeError"

fun as_str :: "json \<Rightarrow> py_exc + string" where
  "as_str (JStr s) = Inr s"
| "as_str _ = Inl TypeError"

text \<open>An optional string as a value, and the update of an object's key.\<close>

definition opt_json :: "string option \<Rightarrow> json" where
  "opt_json v = (case v of None \<Rightarrow> JNull | Some s \<Rightarrow> JStr s)"

fun jset :: "string \<Rightarrow> json \<Rightarrow> json \<Rightarrow> json" where
  "jset k v (JObj al) = JObj (AList.update k v al)"
| "jset k v j = j"

text \<open>\<open>x in c\<close>, for the values that a decoded answer can have.\<close>

fun is_infix :: "string \<Rightarrow> string \<Rightarrow> bool" where
  "is_infix s [] = (s = [])"
| "is_infix s (c # cs) = (take (length s) (c # cs) = s \<or> is_infix s cs)"

fun py_in :: "json \<Rightarrow> json \<Rightarrow> py_exc + bool" where
  "py_in x (JList l) = Inr (x \<in> set l)"
| "py_in (JStr s) (JStr t) = Inr (is_infix s t)"
| "py_in (JList _) (JObj _) = Inl TypeError"
| "py_in (JObj _) (JObj _) = Inl TypeError"
| "py_in x (JObj al) = Inr (\<exists>k \<in> set (map fst al). x = JStr k)"
| "py_in x j = Inl TypeError"

text \<open>\<open>int()\<close> of a value.\<close>

fun json_int :: "json \<Rightarrow> py_exc + int" where
  "json_int (JInt i) = Inr i"
| "json_int (JBool b) = Inr (if b then 1 else 0)"
| "json_int (JStr s) = (case py_int s of None \<Rightarrow> Inl ValueError | Some i \<Rightarrow> Inr i)"
| "json_int _ = Inl TypeError"

text \<open>The first and the last item: of a list or a text; a dictionary has no key 0 or -1.\<close>

fun json_hd :: "json \<Rightarrow> py_exc + json" where
  "json_hd (JList l) = (case l of [] \<Rightarrow> Inl IndexError | x # _ \<Rightarrow> Inr x)"
| "json_hd (JStr s) = (case s of [] \<Rightarrow> Inl IndexError | c # _ \<Rightarrow> Inr (JStr [c]))"
| "json_hd (JObj _) = Inl KeyError"
| "json_hd _ = Inl TypeError"

fun json_last :: "json \<Rightarrow> py_exc + json" where
  "json_last (JList l) = (if l = [] then Inl IndexError else Inr (List.last l))"
| "json_last (JStr s) = (if s = [] then Inl IndexError else Inr (JStr [List.last s]))"
| "json_last (JObj _) = Inl KeyError"
| "json_last _ = Inl TypeError"

text \<open>The fields of an object after an update.\<close>

lemma jfield_jset: "jfield k j = Inr v \<Longrightarrow> jfield k (jset k' w j) = (if k = k' then Inr w else Inr v)"
  by (cases j) auto

lemma jfield_opt_jset: "k \<noteq> k' \<Longrightarrow> jfield_opt k (jset k' w j) = jfield_opt k j"
  by (cases j) auto

lemma jfield_is_obj: "jfield k j = Inr v \<Longrightarrow> \<exists>al. j = JObj al"
  by (cases j) auto

end
