(* ===== verification/DhcpConfig.thy ===== *)
theory DhcpConfig
  imports NsxvDb Json
begin

text \<open>
  The part of \<open>EdgeManager\<close> (\<open>vshield/edge_utils.py\<close>) that computes configurations: the static
  DHCP bindings of a port with their options, and the update of the addresses of an interface. A static
  binding is one dictionary that the code changes for every address of the port and appends each time:
  the model threads that dictionary and counts how often it has been appended. What the plugin answers
  about subnets is a parameter.
\<close>

subsection \<open>DHCP options\<close>

datatype dhcp_option = Opt_routes "(string \<times> string) list" | Opt_servers "string list" | Opt_value string | Opt_mtu int
  | Opt_others "(string \<times> string) list"

definition SUPPORTED_DHCP_OPTIONS :: "(string, string) pydict" where
  "SUPPORTED_DHCP_OPTIONS =
     [(''interface-mtu'', ''option26''), (''tftp-server-name'', ''option66''), (''bootfile-name'', ''option67''),
      (''classless-static-route'', ''option121''), (''tftp-server-address'', ''option150''),
      (''tftp-server'', ''option150''), (''server-ip-address'', ''option150'')]"

type_synonym dhcp_options = "(string, dhcp_option) pydict"

text \<open>The options of a binding, once it has any. A server that follows a \<open>server-ip-address\<close> finds a string
  under its key, and a route that is not two parts around a comma does not unpack. The list of the options
  that are not supported is looked for under a key that is never set, so it starts anew with each.\<close>

definition add_route :: "string \<Rightarrow> string \<Rightarrow> dhcp_options \<Rightarrow> py_exc + dhcp_options" where
  "add_route dest nexthop d =
     (case map_of d ''option121'' of
        None \<Rightarrow> Inr (AList.update ''option121'' (Opt_routes [(dest, nexthop)]) d)
      | Some (Opt_routes rs) \<Rightarrow> Inr (AList.update ''option121'' (Opt_routes (rs @ [(dest, nexthop)])) d)
      | Some _ \<Rightarrow> Inl TypeError)"

definition add_server :: "string \<Rightarrow> dhcp_options \<Rightarrow> py_exc + dhcp_options" where
  "add_server srv d =
     (case map_of d ''option150'' of
        None \<Rightarrow> Inr (AList.update ''option150'' (Opt_servers [srv]) d)
      | Some (Opt_servers ss) \<Rightarrow> Inr (AList.update ''option150'' (Opt_servers (ss @ [srv])) d)
      | Some _ \<Rightarrow> Inl TypeError)"

definition add_other :: "string \<Rightarrow> string \<Rightarrow> dhcp_options \<Rightarrow> py_exc + dhcp_options" where
  "add_other name val d =
     (let d = (if map_of d ''other'' = None then AList.update ''others'' (Opt_others []) d else d) in
      case map_of d ''others'' of
        Some (Opt_others os) \<Rightarrow> Inr (AList.update ''others'' (Opt_others (os @ [(name, val)])) d)
      | Some _ \<Rightarrow> Inl TypeError
      | None \<Rightarrow> Inl KeyError)"

definition add_dhcp_option :: "string \<times> string \<Rightarrow> dhcp_options \<Rightarrow> py_exc + dhcp_options" where
  "add_dhcp_option opt d =
     (let (name, val) = opt in
      case map_of SUPPORTED_DHCP_OPTIONS name of
        None \<Rightarrow> add_other name val d
      | Some key \<Rightarrow>
          if name = ''classless-static-route'' then
            (case split_at_char (CHR '','') val of [net, ip] \<Rightarrow> add_route net ip d | _ \<Rightarrow> Inl ValueError)
          else if name = ''tftp-server-address'' \<or> name = ''tftp-server'' then add_server val d
          else Inr (AList.update key (Opt_value val) d))"

fun add_dhcp_options :: "(string \<times> string) list \<Rightarrow> dhcp_options \<Rightarrow> py_exc + dhcp_options" where
  "add_dhcp_options [] d = Inr d"
| "add_dhcp_options (x # xs) d = bind_res (add_dhcp_option x d) (add_dhcp_options xs)"

subsection \<open>Static bindings\<close>

record subnet =
  sn_id :: string
  sn_network_id :: string
  sn_enable_dhcp :: bool
  sn_gateway_ip :: "string option"
  sn_dns_nameservers :: "string list"
  sn_host_routes :: "(string \<times> string) list"

record port =
  po_id :: string
  po_mac_address :: string
  po_device_owner :: string
  po_fixed_ips :: "(string \<times> string) list"
  po_dhcp_opts :: "(string \<times> string) list"

record static_config =
  sc_mac_address :: string
  sc_hostname :: string
  sc_lease_time :: int
  sc_ip_address :: "string option"
  sc_default_gateway :: "string option"
  sc_primary_name_server :: "string option"
  sc_secondary_name_server :: "string option"
  sc_domain_name :: "string option"
  sc_dhcp_options :: "dhcp_options option"

text \<open>What the plugin and the configuration provide: a subnet (None when it is gone), its extended
  attributes, and the address of the DHCP port for the metadata route, if the subnet uses one.\<close>

record subnet_env =
  sv_subnet :: "string \<Rightarrow> subnet option"
  sv_ext :: "string \<Rightarrow> subnet_ext_attributes option"
  sv_is_dhcp_metadata :: "string \<Rightarrow> bool"
  sv_dhcp_ip :: "string \<Rightarrow> string option"
  sv_lease_time :: int
  sv_nameservers :: "string list"
  sv_dns_search_domain :: "string option"

definition options_of :: "static_config \<Rightarrow> dhcp_options" where
  "options_of c = (case sc_dhcp_options c of None \<Rightarrow> [] | Some d \<Rightarrow> d)"

definition on_options :: "(dhcp_options \<Rightarrow> py_exc + dhcp_options) \<Rightarrow> static_config \<Rightarrow> py_exc + static_config" where
  "on_options f c = bind_res (f (options_of c)) (\<lambda>d. Inr (c\<lparr>sc_dhcp_options := Some d\<rparr>))"

definition add_mtu_on_static_binding :: "int \<Rightarrow> static_config \<Rightarrow> static_config" where
  "add_mtu_on_static_binding mtu c = c\<lparr>sc_dhcp_options := Some (AList.update ''option26'' (Opt_mtu mtu) (options_of c))\<rparr>"

fun add_host_routes :: "(string \<times> string) list \<Rightarrow> static_config \<Rightarrow> py_exc + static_config" where
  "add_host_routes [] c = Inr c"
| "add_host_routes ((dest, nexthop) # rs) c = bind_res (on_options (add_route dest nexthop) c) (add_host_routes rs)"

definition handle_meta_static_route :: "subnet_env \<Rightarrow> string \<Rightarrow> static_config \<Rightarrow> py_exc + static_config" where
  "handle_meta_static_route V subnet_id c =
     (if sv_is_dhcp_metadata V subnet_id then
        (case sv_dhcp_ip V subnet_id of
           Some ip \<Rightarrow> if ip = [] then Inr c else add_host_routes [(''169.254.169.254/32'', ip)] c
         | None \<Rightarrow> Inr c)
      else Inr c)"

definition set_name_servers :: "string list \<Rightarrow> static_config \<Rightarrow> static_config" where
  "set_name_servers ns c =
     (case ns of
        [] \<Rightarrow> c
      | [a] \<Rightarrow> c\<lparr>sc_primary_name_server := Some a\<rparr>
      | a # b # _ \<Rightarrow> c\<lparr>sc_primary_name_server := Some a, sc_secondary_name_server := Some b\<rparr>)"

definition search_domain :: "subnet_env \<Rightarrow> string \<Rightarrow> string option" where
  "search_domain V subnet_id =
     (case Option.bind (sv_ext V subnet_id) se_dns_search_domain of
        Some d \<Rightarrow> if d \<noteq> [] then Some d else sv_dns_search_domain V
      | None \<Rightarrow> sv_dns_search_domain V)"

text \<open>The changes for one address of the port.\<close>

definition configure_ip :: "subnet_env \<Rightarrow> port \<Rightarrow> subnet \<Rightarrow> string \<Rightarrow> string \<Rightarrow> static_config \<Rightarrow> py_exc + static_config" where
  "configure_ip V p sn subnet_id ip c =
     (let c = c\<lparr>sc_ip_address := Some ip, sc_default_gateway := sn_gateway_ip sn\<rparr>;
          c = set_name_servers (if sn_dns_nameservers sn = [] then sv_nameservers V else sn_dns_nameservers sn) c;
          c = (case search_domain V subnet_id of None \<Rightarrow> c | Some d \<Rightarrow> if d = [] then c else c\<lparr>sc_domain_name := Some d\<rparr>);
          c = (case Option.bind (sv_ext V subnet_id) se_dhcp_mtu of
                 Some mtu \<Rightarrow> if mtu = 0 then c else add_mtu_on_static_binding mtu c | None \<Rightarrow> c)
      in bind_res (handle_meta_static_route V subnet_id c) (\<lambda>c.
         bind_res (add_host_routes (sn_host_routes sn) c) (\<lambda>c.
           if po_dhcp_opts p = [] then Inr c else on_options (add_dhcp_options (po_dhcp_opts p)) c)))"

fun static_binding_loop :: "subnet_env \<Rightarrow> port \<Rightarrow> (string \<times> string) list \<Rightarrow> static_config \<Rightarrow> nat \<Rightarrow> py_exc + static_config \<times> nat" where
  "static_binding_loop V p [] c n = Inr (c, n)"
| "static_binding_loop V p ((subnet_id, ip) # ips) c n =
     (case sv_subnet V subnet_id of
        None \<Rightarrow> static_binding_loop V p ips c n
      | Some sn \<Rightarrow>
          if \<not> sn_enable_dhcp sn then static_binding_loop V p ips c n
          else bind_res (configure_ip V p sn subnet_id ip c) (\<lambda>c. static_binding_loop V p ips c (Suc n)))"

definition new_static_config :: "subnet_env \<Rightarrow> port \<Rightarrow> static_config" where
  "new_static_config V p = \<lparr>sc_mac_address = po_mac_address p, sc_hostname = po_id p, sc_lease_time = sv_lease_time V,
     sc_ip_address = None, sc_default_gateway = None, sc_primary_name_server = None, sc_secondary_name_server = None,
     sc_domain_name = None, sc_dhcp_options = None\<rparr>"

definition create_static_binding :: "subnet_env \<Rightarrow> port \<Rightarrow> py_exc + static_config list" where
  "create_static_binding V p =
     bind_res (static_binding_loop V p (po_fixed_ips p) (new_static_config V p) 0) (\<lambda>(c, n). Inr (replicate n c))"
text \<open>A binding as it is sent. A key that was not set is not there; the gateway is set with any address.\<close>

definition option_json :: "dhcp_option \<Rightarrow> json" where
  "option_json v =
     (case v of
        Opt_routes rs \<Rightarrow> JObj [(''staticRoutes'', JList (map (\<lambda>(d, n). JObj [(''destinationSubnet'', JStr d), (''router'', JStr n)]) rs))]
      | Opt_servers ss \<Rightarrow> JObj [(''tftpServers'', JList (map JStr ss))]
      | Opt_value s \<Rightarrow> JStr s
      | Opt_mtu i \<Rightarrow> JInt i
      | Opt_others os \<Rightarrow> JList (map (\<lambda>(n, x). JObj [(''code'', JStr n), (''value'', JStr x)]) os))"

definition static_config_json :: "static_config \<Rightarrow> json" where
  "static_config_json c = JObj
     ([(''macAddress'', JStr (sc_mac_address c)), (''hostname'', JStr (sc_hostname c)), (''leaseTime'', JInt (sc_lease_time c))] @
      (case sc_ip_address c of None \<Rightarrow> [] | Some ip \<Rightarrow> [(''ipAddress'', JStr ip), (''defaultGateway'', opt_json (sc_default_gateway c))]) @
      (case sc_primary_name_server c of None \<Rightarrow> [] | Some s \<Rightarrow> [(''primaryNameServer'', JStr s)]) @
      (case sc_secondary_name_server c of None \<Rightarrow> [] | Some s \<Rightarrow> [(''secondaryNameServer'', JStr s)]) @
      (case sc_domain_name c of None \<Rightarrow> [] | Some s \<Rightarrow> [(''domainName'', JStr s)]) @
      (case sc_dhcp_options c of None \<Rightarrow> [] | Some d \<Rightarrow> [(''dhcpOptions'', JObj (map (\<lambda>(k, v). (k, option_json v)) d))]))"

subsection \<open>The addresses of an interface\<close>

text \<open>An address group of an interface: its primary address, its prefix length (a group that the plugin has
  just added has a netmask instead) and its secondary addresses, which may be missing.\<close>

record addr_group =
  ag_primary :: string
  ag_prefix :: "string option"
  ag_mask :: "string option"
  ag_secondary :: "string list option"

text \<open>\<open>in_net\<close> is netaddr's membership of an address in a network.\<close>

fun add_address :: "(string \<Rightarrow> string \<Rightarrow> bool) \<Rightarrow> string \<Rightarrow> string option \<Rightarrow> addr_group list \<Rightarrow> py_exc + addr_group list" where
  "add_address in_net ip nm [] = Inr [\<lparr>ag_primary = ip, ag_prefix = None, ag_mask = nm, ag_secondary = None\<rparr>]"
| "add_address in_net ip nm (g # gs) =
     (case ag_prefix g of
        None \<Rightarrow> Inl KeyError
      | Some len \<Rightarrow>
          if in_net ip (ag_primary g @ ''/'' @ len)
          then Inr (g\<lparr>ag_secondary := Some ((case ag_secondary g of None \<Rightarrow> [] | Some s \<Rightarrow> s) @ [ip])\<rparr> # gs)
          else bind_res (add_address in_net ip nm gs) (\<lambda>gs. Inr (g # gs)))"

text \<open>The first group that has the old address is changed; a primary address that is removed takes its
  group with it. None: the address is in no group.\<close>

fun replace_address :: "string \<Rightarrow> string option \<Rightarrow> addr_group list \<Rightarrow> addr_group list option" where
  "replace_address old_ip new_ip [] = None"
| "replace_address old_ip new_ip (g # gs) =
     (if ag_primary g = old_ip then
        Some (if truthy new_ip then g\<lparr>ag_primary := the new_ip\<rparr> # gs else gs)
      else (case ag_secondary g of
          Some s \<Rightarrow>
            if old_ip \<in> set s then
              Some ((if truthy new_ip then g\<lparr>ag_secondary := Some (remove1 old_ip s @ [the new_ip])\<rparr>
                     else if length s = 1 then g\<lparr>ag_secondary := None\<rparr>
                     else g\<lparr>ag_secondary := Some (remove1 old_ip s)\<rparr>) # gs)
            else map_option (Cons g) (replace_address old_ip new_ip gs)
        | None \<Rightarrow> map_option (Cons g) (replace_address old_ip new_ip gs)))"

text \<open>The call has an address to add, or an old address with the new one or none (an empty new address counts as
  none); its callers never leave both out.\<close>

datatype ip_change = Add_ip string | Change_ip string "string option"

definition update_address_in_dict :: "(string \<Rightarrow> string \<Rightarrow> bool) \<Rightarrow> ip_change \<Rightarrow> string option \<Rightarrow> addr_group list \<Rightarrow>
    py_exc + bool \<times> addr_group list" where
  "update_address_in_dict in_net ch nm gs =
     (case ch of
        Add_ip ip \<Rightarrow> bind_res (add_address in_net ip nm gs) (\<lambda>gs. Inr (True, gs))
      | Change_ip old new_ip \<Rightarrow>
          (case replace_address old new_ip gs of
             None \<Rightarrow> Inr (False, gs)
           | Some gs \<Rightarrow> Inr (True, gs)))"

subsection \<open>Properties\<close>

text \<open>The addresses of a list of groups, with repetitions.\<close>

definition group_addrs :: "addr_group \<Rightarrow> string list" where
  "group_addrs g = ag_primary g # (case ag_secondary g of None \<Rightarrow> [] | Some s \<Rightarrow> s)"

definition addrs :: "addr_group list \<Rightarrow> string list" where
  "addrs gs = concat (map group_addrs gs)"

lemma addrs_simps [simp]: "addrs [] = []" "addrs (g # gs) = group_addrs g @ addrs gs"
  by (simp_all add: addrs_def)

lemma add_address_mset:
  "add_address in_net ip nm gs = Inr gs' \<Longrightarrow> mset (addrs gs') = add_mset ip (mset (addrs gs))"
  by (induction gs arbitrary: gs')
    (auto simp: group_addrs_def bind_res_Inr_iff split: option.splits if_splits)

lemma replace_address_None: "replace_address old new_ip gs = None \<longleftrightarrow> old \<notin> set (addrs gs)"
  by (induction gs) (auto simp: group_addrs_def split: option.splits)

text \<open>The first group that names an address.\<close>

definition first_group :: "string \<Rightarrow> addr_group list \<Rightarrow> addr_group option" where
  "first_group ip gs = find (\<lambda>g. ip \<in> set (group_addrs g)) gs"

lemma replace_address_mset:
  assumes "replace_address old new_ip gs = Some gs'"
  shows "\<exists>g. first_group old gs = Some g \<and>
    mset (addrs gs') + (if truthy new_ip \<or> ag_primary g \<noteq> old then {#old#} else mset (group_addrs g)) =
    mset (addrs gs) + (if truthy new_ip then {#the new_ip#} else {#})"
  using assms
proof (induction gs arbitrary: gs')
  case Nil
  then show ?case by simp
next
  case (Cons g gs)
  show ?case
  proof (cases "old \<in> set (group_addrs g)")
    case True
    then have f: "first_group old (g # gs) = Some g" by (simp add: first_group_def)
    show ?thesis
    proof (cases "ag_primary g = old")
      case True
      with Cons.prems f show ?thesis by (auto simp: group_addrs_def)
    next
      case False
      with True obtain s where s: "ag_secondary g = Some s" "old \<in> set s" by (cases "ag_secondary g") (auto simp: group_addrs_def)
      from s(2) obtain r where m: "mset s = add_mset old r" by (metis multi_member_split set_mset_mset)
      have "length s = size (add_mset old r)" by (simp flip: m)
      then have one: "r = {#}" if "length s = Suc 0" using that by simp
      from Cons.prems False s f show ?thesis
        by (auto simp: group_addrs_def m one split: if_splits)
    qed
  next
    case False
    then have f: "first_group old (g # gs) = first_group old gs" by (simp add: first_group_def)
    from False Cons.prems obtain gs1 where "replace_address old new_ip gs = Some gs1" "gs' = g # gs1"
      by (auto simp: group_addrs_def split: option.splits if_splits)
    with Cons.IH [of gs1] f show ?thesis by auto
  qed
qed

text \<open>C35: Updating an address adds the new address and takes away the old one, and nothing else, except
  that removing a primary address without a replacement takes away the secondary addresses of its group
  with it. The answer is False, with nothing changed, exactly when the old address is nowhere.\<close>

theorem address_update_effect:
  assumes "update_address_in_dict in_net ch nm gs = Inr (found, gs')"
  shows "(case ch of
      Add_ip ip \<Rightarrow> found \<and> mset (addrs gs') = add_mset ip (mset (addrs gs))
    | Change_ip old new_ip \<Rightarrow> (found \<longleftrightarrow> old \<in> set (addrs gs)) \<and> (\<not> found \<longrightarrow> gs' = gs) \<and>
        (found \<longrightarrow> (\<exists>g. first_group old gs = Some g \<and>
          mset (addrs gs') + (if truthy new_ip \<or> ag_primary g \<noteq> old then {#old#} else mset (group_addrs g)) =
          mset (addrs gs) + (if truthy new_ip then {#the new_ip#} else {#}))))"
proof (cases ch)
  case (Add_ip ip)
  with assms show ?thesis by (auto simp: update_address_in_dict_def bind_res_Inr_iff dest: add_address_mset)
next
  case (Change_ip old new_ip)
  show ?thesis
  proof (cases "replace_address old new_ip gs")
    case None
    with Change_ip assms replace_address_None [of old new_ip gs] show ?thesis by (simp add: update_address_in_dict_def)
  next
    case (Some gs1)
    with Change_ip assms replace_address_None [of old new_ip gs] replace_address_mset [OF Some]
    show ?thesis by (simp add: update_address_in_dict_def)
  qed
qed

theorem address_update_effect_witness:
  "\<exists>g. first_group ''10.0.0.1'' [\<lparr>ag_primary = ''10.0.0.1'', ag_prefix = Some ''24'', ag_mask = None,
      ag_secondary = Some [''10.0.0.2'']\<rparr>] = Some g \<and> mset (group_addrs g) = {#''10.0.0.1'', ''10.0.0.2''#}"
proof -
  let ?gs = "[\<lparr>ag_primary = ''10.0.0.1'', ag_prefix = Some ''24'', ag_mask = None, ag_secondary = Some [''10.0.0.2'']\<rparr>]"
  have "update_address_in_dict (\<lambda>_ _. False) (Change_ip ''10.0.0.1'' None) None ?gs = Inr (True, [])"
    by (simp add: update_address_in_dict_def)
  from address_update_effect [OF this] show ?thesis by (auto simp: first_group_def group_addrs_def)
qed

text \<open>The loop appends the one dictionary for every address whose subnet has DHCP; each pass overwrites it.\<close>

definition dhcp_ips :: "subnet_env \<Rightarrow> (string \<times> string) list \<Rightarrow> string list" where
  "dhcp_ips V ips = map snd (filter (\<lambda>(i, _). case sv_subnet V i of None \<Rightarrow> False | Some sn \<Rightarrow> sn_enable_dhcp sn) ips)"

lemma host_routes_ip: "add_host_routes rs c = Inr c' \<Longrightarrow> sc_ip_address c' = sc_ip_address c"
  by (induction rs arbitrary: c) (auto simp: bind_res_Inr_iff on_options_def)

lemma name_servers_ip: "sc_ip_address (set_name_servers ns c) = sc_ip_address c"
  by (auto simp: set_name_servers_def split: list.splits)

lemma mtu_ip: "sc_ip_address (add_mtu_on_static_binding m c) = sc_ip_address c"
  by (simp add: add_mtu_on_static_binding_def)

lemma configure_ip_address:
  assumes "configure_ip V p sn i ip c = Inr c'"
  shows "sc_ip_address c' = Some ip"
proof -
  have meta: "sc_ip_address d' = sc_ip_address d" if "handle_meta_static_route V i d = Inr d'" for d d'
    using that by (auto simp: handle_meta_static_route_def simp del: add_host_routes.simps split: if_splits option.splits dest!: host_routes_ip)
  have opts: "sc_ip_address d' = sc_ip_address d" if "on_options f d = Inr d'" for f d d'
    using that by (auto simp: on_options_def bind_res_Inr_iff)
  show ?thesis
    using assms unfolding configure_ip_def Let_def
    by (auto simp: bind_res_Inr_iff name_servers_ip mtu_ip split: if_splits option.splits dest!: meta opts host_routes_ip)
qed

lemma static_binding_loop_spec:
  assumes "static_binding_loop V p ips c n = Inr (c', n')"
  shows "n' = n + length (dhcp_ips V ips) \<and> (dhcp_ips V ips \<noteq> [] \<longrightarrow> sc_ip_address c' = Some (last (dhcp_ips V ips))) \<and>
    (dhcp_ips V ips = [] \<longrightarrow> c' = c)"
  using assms
proof (induction ips arbitrary: c n)
  case Nil
  then show ?case by (simp add: dhcp_ips_def)
next
  case (Cons x ips)
  obtain i ip where x: "x = (i, ip)" by (cases x)
  show ?case
  proof (cases "case sv_subnet V i of None \<Rightarrow> False | Some sn \<Rightarrow> sn_enable_dhcp sn")
    case False
    then have skip: "dhcp_ips V (x # ips) = dhcp_ips V ips" by (auto simp: dhcp_ips_def x)
    from False Cons.prems have "static_binding_loop V p ips c n = Inr (c', n')"
      by (auto simp: x split: option.splits)
    from Cons.IH [OF this] show ?thesis unfolding skip .
  next
    case True
    then obtain sn where sn: "sv_subnet V i = Some sn" "sn_enable_dhcp sn" by (auto split: option.splits)
    with Cons.prems obtain d where d: "configure_ip V p sn i ip c = Inr d" "static_binding_loop V p ips d (Suc n) = Inr (c', n')"
      by (auto simp: x bind_res_Inr_iff)
    have "dhcp_ips V (x # ips) = ip # dhcp_ips V ips" using sn by (simp add: dhcp_ips_def x)
    with Cons.IH [OF d(2)] configure_ip_address [OF d(1)] show ?thesis by auto
  qed
qed

text \<open>The static bindings of a port are copies of one another: there is one for every address on a subnet
  with DHCP, and all of them have the last of these addresses.\<close>

theorem static_bindings_share_last_address:
  assumes "create_static_binding V p = Inr bs"
  shows "length bs = length (dhcp_ips V (po_fixed_ips p)) \<and>
    (\<forall>b \<in> set bs. \<forall>b' \<in> set bs. b = b') \<and>
    (\<forall>b \<in> set bs. sc_ip_address b = Some (last (dhcp_ips V (po_fixed_ips p))))"
proof -
  from assms obtain c n where run: "static_binding_loop V p (po_fixed_ips p) (new_static_config V p) 0 = Inr (c, n)"
      and bs: "bs = replicate n c"
    by (auto simp: create_static_binding_def bind_res_Inr_iff)
  from static_binding_loop_spec [OF run] bs show ?thesis by auto
qed

definition two_subnets :: subnet_env where
  "two_subnets = \<lparr>sv_subnet = (\<lambda>i. Some \<lparr>sn_id = i, sn_network_id = ''net'', sn_enable_dhcp = True, sn_gateway_ip = Some ''10.0.0.1'',
     sn_dns_nameservers = [], sn_host_routes = []\<rparr>), sv_ext = (\<lambda>_. None), sv_is_dhcp_metadata = (\<lambda>_. False),
     sv_dhcp_ip = (\<lambda>_. None), sv_lease_time = 86400, sv_nameservers = [], sv_dns_search_domain = None\<rparr>"

definition two_ip_port :: port where
  "two_ip_port = \<lparr>po_id = ''port'', po_mac_address = ''fa:16:3e:00:00:01'', po_device_owner = ''compute:nova'',
     po_fixed_ips = [(''s1'', ''10.0.0.5''), (''s2'', ''10.0.1.5'')], po_dhcp_opts = []\<rparr>"

theorem static_bindings_share_last_address_witness:
  "\<exists>b. create_static_binding two_subnets two_ip_port = Inr [b, b] \<and> sc_ip_address b = Some ''10.0.1.5''"
proof -
  have "case create_static_binding two_subnets two_ip_port of Inr bs \<Rightarrow> length bs = 2 | Inl _ \<Rightarrow> False" by code_simp
  then obtain bs where bs: "create_static_binding two_subnets two_ip_port = Inr bs" "length bs = 2" by (auto split: sum.splits)
  then obtain b b' where "bs = [b, b']" by (auto simp: numeral_2_eq_2 length_Suc_conv)
  moreover have "last (dhcp_ips two_subnets (po_fixed_ips two_ip_port)) = ''10.0.1.5''" by code_simp
  moreover have "b \<in> set bs" "b' \<in> set bs" using \<open>bs = [b, b']\<close> by simp_all
  ultimately have "b' = b" "sc_ip_address b = Some ''10.0.1.5''"
    using static_bindings_share_last_address [OF bs(1)] by metis+
  with bs(1) \<open>bs = [b, b']\<close> show ?thesis by blast
qed

text \<open>Which options are not supported, and what becomes of them.\<close>

definition unsupported :: "(string \<times> string) list \<Rightarrow> (string \<times> string) list" where
  "unsupported opts = filter (\<lambda>(n, _). map_of SUPPORTED_DHCP_OPTIONS n = None) opts"

lemma supported_keys:
  "map_of SUPPORTED_DHCP_OPTIONS name = Some key \<Longrightarrow> key \<noteq> ''other'' \<and> key \<noteq> ''others''"
  by (auto simp: SUPPORTED_DHCP_OPTIONS_def split: if_splits)

lemma add_route_updates: "add_route dest n d = Inr d' \<Longrightarrow> \<exists>v. d' = AList.update ''option121'' v d"
  by (auto simp: add_route_def split: option.splits dhcp_option.splits)

lemma add_server_updates: "add_server srv d = Inr d' \<Longrightarrow> \<exists>v. d' = AList.update ''option150'' v d"
  by (auto simp: add_server_def split: option.splits dhcp_option.splits)

lemma add_supported_updates:
  assumes "add_dhcp_option (name, val) d = Inr d'" "map_of SUPPORTED_DHCP_OPTIONS name = Some key"
  obtains k v where "d' = AList.update k v d" "k \<noteq> ''other''" "k \<noteq> ''others''"
proof -
  consider (route) "name = ''classless-static-route''" | (server) "name = ''tftp-server-address'' \<or> name = ''tftp-server''"
      "name \<noteq> ''classless-static-route''"
    | (plain) "name \<notin> {''classless-static-route'', ''tftp-server-address'', ''tftp-server''}" by blast
  then show thesis
  proof cases
    case route
    with assms obtain net ip where "add_route net ip d = Inr d'"
      by (auto simp: add_dhcp_option_def split: list.splits)
    from add_route_updates [OF this] that show thesis by force
  next
    case server
    with assms have "add_server val d = Inr d'" by (simp add: add_dhcp_option_def)
    from add_server_updates [OF this] that show thesis by force
  next
    case plain
    with assms have "d' = AList.update key (Opt_value val) d" by (simp add: add_dhcp_option_def)
    with supported_keys [OF assms(2)] that show thesis by blast
  qed
qed

lemma add_dhcp_option_others:
  assumes "add_dhcp_option (name, val) d = Inr d'" "map_of d ''other'' = None"
  shows "map_of d' ''other'' = None \<and> map_of d' ''others'' =
    (if map_of SUPPORTED_DHCP_OPTIONS name = None then Some (Opt_others [(name, val)]) else map_of d ''others'')"
proof (cases "map_of SUPPORTED_DHCP_OPTIONS name")
  case None
  with assms show ?thesis by (auto simp: add_dhcp_option_def add_other_def)
next
  case (Some key)
  from add_supported_updates [OF assms(1) Some] obtain k v where "d' = AList.update k v d" "k \<noteq> ''other''" "k \<noteq> ''others''" .
  with assms(2) Some show ?thesis by simp
qed

text \<open>Of the options of a port that are not among the supported ones only the last is sent: the list of
  custom options has at most that one, and the supported options do not touch it.\<close>

theorem last_custom_option_wins:
  assumes "add_dhcp_options opts d = Inr d'" "map_of d ''other'' = None" "map_of d ''others'' = None"
  shows "map_of d' ''others'' = (if unsupported opts = [] then None else Some (Opt_others [last (unsupported opts)]))"
proof -
  have "map_of d' ''other'' = None \<and> map_of d' ''others'' =
      (if unsupported opts = [] then map_of d ''others'' else Some (Opt_others [last (unsupported opts)]))"
    using assms(1,2)
  proof (induction opts arbitrary: d)
    case Nil
    then show ?case by (simp add: unsupported_def)
  next
    case (Cons x opts)
    obtain n v where x: "x = (n, v)" by (cases x)
    from Cons.prems obtain d1 where d1: "add_dhcp_option x d = Inr d1" "add_dhcp_options opts d1 = Inr d'"
      by (auto simp: bind_res_Inr_iff)
    from add_dhcp_option_others [OF d1(1) [unfolded x] Cons.prems(2)] Cons.IH [OF d1(2)]
    show ?case by (auto simp: unsupported_def x)
  qed
  then show ?thesis using assms(3) by simp
qed

theorem last_custom_option_wins_witness:
  "\<exists>d'. add_dhcp_options [(''12'', ''a''), (''interface-mtu'', ''1400''), (''15'', ''b'')] [] = Inr d' \<and>
     map_of d' ''others'' = Some (Opt_others [(''15'', ''b'')])"
proof -
  let ?o = "[(''12'', ''a''), (''interface-mtu'', ''1400''), (''15'', ''b'')]"
  have "case add_dhcp_options ?o [] of Inr _ \<Rightarrow> True | Inl _ \<Rightarrow> False" by code_simp
  then obtain d' where d: "add_dhcp_options ?o [] = Inr d'" by (auto split: sum.splits)
  have "unsupported ?o = [(''12'', ''a''), (''15'', ''b'')]" by code_simp
  with last_custom_option_wins [OF d] have "map_of d' ''others'' = Some (Opt_others [(''15'', ''b'')])" by simp
  with d show ?thesis by blast
qed

end
