(* ===== verification/VcnsApi.thy ===== *)
theory VcnsApi
  imports Json "HOL-Library.List_Lexorder" "HOL-Library.Char_ord"
begin

text \<open>
  The client of the NSX-v manager's REST interface (\<open>plugins/nsx_v/vshield/vcns.py\<close> and
  \<open>common/VcnsApiClient.py\<close>). The exchange over HTTP is a parameter: it takes the state \<open>'w\<close>
  of the manager and gives the next one, with a response, a timeout or a lost connection.
  The first part is the client: the classification of failures, and the retries, which are
  decorators that nest. The second part has one definition per method of \<open>Vcns\<close>, in the order
  of the source, that builds the path and body of its request. Methods that parse or build
  XML with ElementTree are left out. \<open>'d\<close> is the type of texts.
\<close>

subsection \<open>The client (\<open>VcnsApiHelper\<close>)\<close>

datatype vcns_kind = VcnsApiException | ResourceRedirect | RequestBad | Forbidden | ResourceNotFound | ServiceConflict
  | MediaTypeUnsupport | ServiceUnavailable | ResourceTimedOut | ResourceConnectionError | AlreadyExists

text \<open>An exception of the manager's interface has the text of the response, if there was one.\<close>

datatype 'd vcns_exc = Vcns vcns_kind "'d option" | VPy py_exc

fun is_kind :: "vcns_kind \<Rightarrow> 'd vcns_exc \<Rightarrow> bool" where
  "is_kind VcnsApiException (Vcns _ _) = True"
| "is_kind k (Vcns k' _) = (k = k')"
| "is_kind _ (VPy _) = False"

type_synonym headers = "(string \<times> string) list"

datatype 'd http_result = Response nat headers 'd | Timeout | ConnectionError

datatype 'd params = NoParams | Encoded json | Raw 'd

datatype 'd content = Parsed json | Text 'd

record ('w, 'd) vcns =
  exchange :: "'w \<Rightarrow> bool \<Rightarrow> string \<Rightarrow> string \<Rightarrow> headers \<Rightarrow> 'd option \<Rightarrow> 'd http_result \<times> 'w"
  v_loads :: "'d \<Rightarrow> json option"
  json_dumps :: "json \<Rightarrow> 'd"
  xml_dumps :: "json \<Rightarrow> 'd"
  xml_errorcode :: "'d \<Rightarrow> int option"
  to_int :: "json \<Rightarrow> int option"
  is_empty :: "'d \<Rightarrow> bool"
  max_retries :: nat

definition helper_errors :: "(nat \<times> vcns_kind) list" where
  "helper_errors = [(303, ResourceRedirect), (400, RequestBad), (403, Forbidden), (404, ResourceNotFound),
     (409, ServiceConflict), (415, MediaTypeUnsupport), (503, ServiceUnavailable)]"

definition nsx_errors :: "(int \<times> vcns_kind) list" where
  "nsx_errors = [(100046, ResourceNotFound), (100029, ResourceNotFound)]"

text \<open>The error code in the text of a failed response; None when there is none. A JSON text that is
  not an object has no \<open>get\<close> and raises AttributeError.\<close>

definition get_nsx_errorcode :: "('w, 'd) vcns \<Rightarrow> bool \<Rightarrow> 'd \<Rightarrow> py_exc + int option" where
  "get_nsx_errorcode V xml content =
     (if xml then Inr (xml_errorcode V content)
      else (case v_loads V content of
          None \<Rightarrow> Inr None
        | Some j \<Rightarrow> bind_res (jfield_opt ''errorCode'' j) (\<lambda>c. Inr (to_int V c))))"

definition error_kind :: "nat \<Rightarrow> int option \<Rightarrow> vcns_kind" where
  "error_kind status code =
     (case Option.bind code (map_of nsx_errors) of
        Some k \<Rightarrow> k
      | None \<Rightarrow> (case map_of helper_errors status of Some k \<Rightarrow> k | None \<Rightarrow> VcnsApiException))"

definition encode_params :: "('w, 'd) vcns \<Rightarrow> bool \<Rightarrow> 'd params \<Rightarrow> 'd option" where
  "encode_params V xml p =
     (case p of
        NoParams \<Rightarrow> None
      | Encoded j \<Rightarrow> if truthy_json j then Some ((if xml then xml_dumps V else json_dumps V) j) else None
      | Raw d \<Rightarrow> if is_empty V d then None else Some d)"

definition helper_request :: "('w, 'd) vcns \<Rightarrow> bool \<Rightarrow> string \<Rightarrow> string \<Rightarrow> 'd params \<Rightarrow> headers \<Rightarrow> 'w \<Rightarrow>
    ('d vcns_exc + headers \<times> 'd) \<times> 'w" where
  "helper_request V xml method uri p hs w =
     (case exchange V w xml method uri hs (encode_params V xml p) of
        (Timeout, w) \<Rightarrow> (Inl (Vcns ResourceTimedOut None), w)
      | (ConnectionError, w) \<Rightarrow> (Inl (Vcns ResourceConnectionError None), w)
      | (Response status rhs text, w) \<Rightarrow>
          (if 200 \<le> status \<and> status < 300 then Inr (rhs, text)
           else (case get_nsx_errorcode V xml text of
               Inl e \<Rightarrow> Inl (VPy e)
             | Inr code \<Rightarrow> Inl (Vcns (error_kind status code) (Some text))), w))"

subsection \<open>Retries and \<open>do_request\<close>\<close>

text \<open>\<open>utils.retry_upon_exception\<close>: a call is repeated while it raises an exception of the class and
  the number of attempts is below the limit; the last exception is raised.\<close>

fun with_retries :: "nat \<Rightarrow> ('e \<Rightarrow> bool) \<Rightarrow> ('w \<Rightarrow> ('e + 'a) \<times> 'w) \<Rightarrow> 'w \<Rightarrow> ('e + 'a) \<times> 'w" where
  "with_retries 0 c m w = m w"
| "with_retries (Suc n) c m w =
     (case m w of
        (Inl e, w') \<Rightarrow> if c e \<and> n > 0 then with_retries n c m w' else (Inl e, w')
      | (Inr x, w') \<Rightarrow> (Inr x, w'))"

definition retry_upon_exception :: "('w, 'd) vcns \<Rightarrow> vcns_kind \<Rightarrow> ('w \<Rightarrow> ('d vcns_exc + 'a) \<times> 'w) \<Rightarrow> 'w \<Rightarrow>
    ('d vcns_exc + 'a) \<times> 'w" where
  "retry_upon_exception V k = with_retries (max_retries V) (is_kind k)"

definition client_request :: "('w, 'd) vcns \<Rightarrow> bool \<Rightarrow> string \<Rightarrow> string \<Rightarrow> 'd params \<Rightarrow> headers \<Rightarrow> 'w \<Rightarrow>
    ('d vcns_exc + headers \<times> 'd) \<times> 'w" where
  "client_request V xml method uri p hs =
     retry_upon_exception V ServiceConflict (retry_upon_exception V ResourceConnectionError
       (helper_request V xml method uri p hs))"

type_synonym ('w, 'd, 'a) vcns_op = "'w \<Rightarrow> ('d vcns_exc + 'a) \<times> 'w"

definition do_request :: "('w, 'd) vcns \<Rightarrow> string \<Rightarrow> string \<Rightarrow> 'd params \<Rightarrow> bool \<Rightarrow> bool \<Rightarrow> headers \<Rightarrow>
    ('w, 'd, headers \<times> 'd content) vcns_op" where
  "do_request V method uri p xml decode hs =
     bind_st (client_request V xml method uri p hs) (\<lambda>(header, content) w.
       if is_empty V content then (Inr (header, Parsed (JObj [])), w)
       else if decode then
         (case v_loads V content of
            None \<Rightarrow> (Inl (VPy ValueError), w)
          | Some j \<Rightarrow> (Inr (header, Parsed j), w))
       else (Inr (header, Text content), w))"

abbreviation "HTTP_GET \<equiv> ''GET''"
abbreviation "HTTP_POST \<equiv> ''POST''"
abbreviation "HTTP_DELETE \<equiv> ''DELETE''"
abbreviation "HTTP_PUT \<equiv> ''PUT''"

text \<open>A request without encoded or extra headers; \<open>json_request\<close> is the form most methods use.\<close>

definition json_request where
  "json_request V method uri p = do_request V method uri p False True []"

text \<open>The body of an answer: the second component, as a value.\<close>

definition body_of :: "headers \<times> 'd content \<Rightarrow> py_exc + json" where
  "body_of r = (case snd r of Parsed j \<Rightarrow> Inr j | Text _ \<Rightarrow> Inl TypeError)"

definition with_body :: "('w, 'd, headers \<times> 'd content) vcns_op \<Rightarrow> (json \<Rightarrow> py_exc + 'a) \<Rightarrow> ('w, 'd, 'a) vcns_op" where
  "with_body m f = bind_st m (\<lambda>r w. (case bind_res (body_of r) f of Inl e \<Rightarrow> Inl (VPy e) | Inr x \<Rightarrow> Inr x, w))"

subsection \<open>The methods of \<open>Vcns\<close>\<close>

definition URI_PREFIX :: string where "URI_PREFIX = ''/api/4.0/edges''"
definition LOADBALANCER_SERVICE :: string where "LOADBALANCER_SERVICE = ''loadbalancer/config''"
definition LOADBALANCER_STATS :: string where "LOADBALANCER_STATS = ''loadbalancer/statistics''"
definition FIREWALL_SERVICE :: string where "FIREWALL_SERVICE = ''firewall/config''"
definition FIREWALL_RULE_RESOURCE :: string where "FIREWALL_RULE_RESOURCE = ''rules''"
definition VIP_RESOURCE :: string where "VIP_RESOURCE = ''virtualservers''"
definition POOL_RESOURCE :: string where "POOL_RESOURCE = ''pools''"
definition MONITOR_RESOURCE :: string where "MONITOR_RESOURCE = ''monitors''"
definition APP_PROFILE_RESOURCE :: string where "APP_PROFILE_RESOURCE = ''applicationprofiles''"
definition APP_RULE_RESOURCE :: string where "APP_RULE_RESOURCE = ''applicationrules''"
definition IPSEC_VPN_SERVICE :: string where "IPSEC_VPN_SERVICE = ''ipsec/config''"
definition DHCP_SERVICE :: string where "DHCP_SERVICE = ''dhcp/config''"
definition DHCP_BINDING_RESOURCE :: string where "DHCP_BINDING_RESOURCE = ''bindings''"
definition SECURITYGROUP_PREFIX :: string where "SECURITYGROUP_PREFIX = ''/api/2.0/services/securitygroup''"
definition BRIDGE :: string where "BRIDGE = ''bridging/config''"
definition FIREWALL_REDIRECT_SEC_TYPE :: string where "FIREWALL_REDIRECT_SEC_TYPE = ''layer3redirectsections''"
definition FIREWALL_PREFIX :: string where "FIREWALL_PREFIX = ''/api/4.0/firewall/globalroot-0/config''"
definition SYSCTL_SERVICE :: string where "SYSCTL_SERVICE = ''systemcontrol/config''"
definition SPOOFGUARD_PREFIX :: string where "SPOOFGUARD_PREFIX = ''/api/4.0/services/spoofguard''"
definition EXCLUDELIST_PREFIX :: string where "EXCLUDELIST_PREFIX = ''/api/2.1/app/excludelist''"
definition SERVICES_PREFIX :: string where "SERVICES_PREFIX = ''/api/2.0/services''"
definition VDN_PREFIX :: string where "VDN_PREFIX = ''/api/2.0/vdn''"
definition TRUSTSTORE_PREFIX :: string where "TRUSTSTORE_PREFIX = SERVICES_PREFIX @ ''/'' @ ''truststore''"
definition CERTIFICATE :: string where "CERTIFICATE = ''certificate''"
definition CSR :: string where "CSR = ''csr''"
definition SERVICE_INSERTION_PROFILE_PREFIX :: string where "SERVICE_INSERTION_PROFILE_PREFIX = ''/api/2.0/si/serviceprofile''"
definition IPAM_POOL_SERVICE :: string where "IPAM_POOL_SERVICE = ''ipam/pools''"
definition IPAM_POOL_SCOPE :: string where "IPAM_POOL_SCOPE = ''scope/globalroot-0''"
definition SECURITY_POLICY_PREFIX :: string where "SECURITY_POLICY_PREFIX = ''/api/2.0/services/policy/securitypolicy''"
definition APPLICATION_PREFIX :: string where "APPLICATION_PREFIX = SERVICES_PREFIX @ ''/'' @ ''application''"
definition ROUTING_CONFIG :: string where "ROUTING_CONFIG = ''routing/config''"
definition BGP_ROUTING_CONFIG :: string where "BGP_ROUTING_CONFIG = ''routing/config/bgp''"
definition TZ_CONNECTIVITY_PREFIX :: string where "TZ_CONNECTIVITY_PREFIX = ''/api/4.0/edges/transportzonenetworks''"
definition CERT_NUMBER_OF_DAYS :: nat where "CERT_NUMBER_OF_DAYS = 3650"

text \<open>\<open>_build_uri_path\<close> with the parameters that the methods give it.\<close>

definition vcns_uri_path :: "string \<Rightarrow> string \<Rightarrow> string option \<Rightarrow> string option \<Rightarrow> string" where
  "vcns_uri_path edge_id service resource resource_id =
     URI_PREFIX @ ''/'' @ edge_id @ ''/'' @ service @
       (case resource of
          None \<Rightarrow> []
        | Some r \<Rightarrow> if r = [] then [] else ''/'' @ r @
            (case resource_id of None \<Rightarrow> [] | Some i \<Rightarrow> if i = [] then [] else ''/'' @ i))"

definition edges_lock_operation :: "('w, 'd) vcns \<Rightarrow> ('w, 'd, headers \<times> 'd content) vcns_op" where
  "edges_lock_operation V =
     do_request V HTTP_POST (URI_PREFIX @ ''?lockUpdatesOnEdge=true'') NoParams False False []"

definition deploy_edge :: "('w, 'd) vcns \<Rightarrow> json \<Rightarrow> ('w, 'd, headers \<times> 'd content) vcns_op" where
  "deploy_edge V request =
     retry_upon_exception V ResourceNotFound (retry_upon_exception V RequestBad (do_request V HTTP_POST (URI_PREFIX) (Encoded request) False False []))"

definition update_edge :: "('w, 'd) vcns \<Rightarrow> string \<Rightarrow> json \<Rightarrow> ('w, 'd, headers \<times> 'd content) vcns_op" where
  "update_edge V edge_id request =
     do_request V HTTP_PUT (URI_PREFIX @ ''/'' @ edge_id) (Encoded request) False False []"

definition get_edge_id :: "('w, 'd) vcns \<Rightarrow> string \<Rightarrow> ('w, 'd, headers \<times> 'd content) vcns_op" where
  "get_edge_id V job_id =
     json_request V HTTP_GET (URI_PREFIX @ ''/jobs/'' @ job_id) NoParams"

definition delete_edge :: "('w, 'd) vcns \<Rightarrow> string \<Rightarrow> ('w, 'd, headers \<times> 'd content) vcns_op" where
  "delete_edge V edge_id =
     json_request V HTTP_DELETE (URI_PREFIX @ ''/'' @ edge_id) NoParams"

definition add_vdr_internal_interface :: "('w, 'd) vcns \<Rightarrow> string \<Rightarrow> json \<Rightarrow> ('w, 'd, headers \<times> 'd content) vcns_op" where
  "add_vdr_internal_interface V edge_id interface =
     json_request V HTTP_POST (URI_PREFIX @ ''/'' @ edge_id @ ''/interfaces?action=patch'') (Encoded interface)"

definition get_vdr_internal_interface :: "('w, 'd) vcns \<Rightarrow> string \<Rightarrow> string \<Rightarrow> ('w, 'd, headers \<times> 'd content) vcns_op" where
  "get_vdr_internal_interface V edge_id interface_index =
     json_request V HTTP_GET (URI_PREFIX @ ''/'' @ edge_id @ ''/interfaces/'' @ interface_index) NoParams"

definition update_vdr_internal_interface :: "('w, 'd) vcns \<Rightarrow> string \<Rightarrow> string \<Rightarrow> json \<Rightarrow> ('w, 'd, headers \<times> 'd content) vcns_op" where
  "update_vdr_internal_interface V edge_id interface_index interface =
     do_request V HTTP_PUT (URI_PREFIX @ ''/'' @ edge_id @ ''/interfaces/'' @ interface_index) (Encoded interface) True True []"

definition delete_vdr_internal_interface :: "('w, 'd) vcns \<Rightarrow> string \<Rightarrow> nat \<Rightarrow> ('w, 'd, headers \<times> 'd content) vcns_op" where
  "delete_vdr_internal_interface V edge_id interface_index =
     retry_upon_exception V RequestBad (json_request V HTTP_DELETE (URI_PREFIX @ ''/'' @ edge_id @ ''/interfaces/'' @ nat_str interface_index) NoParams)"

definition get_interfaces :: "('w, 'd) vcns \<Rightarrow> string \<Rightarrow> ('w, 'd, headers \<times> 'd content) vcns_op" where
  "get_interfaces V edge_id =
     json_request V HTTP_GET (URI_PREFIX @ ''/'' @ edge_id @ ''/vnics'') NoParams"

definition delete_interface :: "('w, 'd) vcns \<Rightarrow> string \<Rightarrow> nat \<Rightarrow> ('w, 'd, headers \<times> 'd content) vcns_op" where
  "delete_interface V edge_id vnic_index =
     json_request V HTTP_DELETE (URI_PREFIX @ ''/'' @ edge_id @ ''/vnics/'' @ nat_str vnic_index) NoParams"

definition get_nat_config :: "('w, 'd) vcns \<Rightarrow> string \<Rightarrow> ('w, 'd, headers \<times> 'd content) vcns_op" where
  "get_nat_config V edge_id =
     json_request V HTTP_GET (URI_PREFIX @ ''/'' @ edge_id @ ''/nat/config'') NoParams"

definition update_nat_config :: "('w, 'd) vcns \<Rightarrow> string \<Rightarrow> json \<Rightarrow> ('w, 'd, headers \<times> 'd content) vcns_op" where
  "update_nat_config V edge_id nat_arg =
     json_request V HTTP_PUT (URI_PREFIX @ ''/'' @ edge_id @ ''/nat/config'') (Encoded nat_arg)"

definition delete_nat_rule :: "('w, 'd) vcns \<Rightarrow> string \<Rightarrow> string \<Rightarrow> ('w, 'd, headers \<times> 'd content) vcns_op" where
  "delete_nat_rule V edge_id rule_id =
     json_request V HTTP_DELETE (URI_PREFIX @ ''/'' @ edge_id @ ''/nat/config/rules/'' @ rule_id) NoParams"

definition get_edge_status :: "('w, 'd) vcns \<Rightarrow> string \<Rightarrow> ('w, 'd, headers \<times> 'd content) vcns_op" where
  "get_edge_status V edge_id =
     json_request V HTTP_GET (URI_PREFIX @ ''/'' @ edge_id @ ''/status?getlatest=false'') NoParams"

definition get_edge :: "('w, 'd) vcns \<Rightarrow> string \<Rightarrow> ('w, 'd, headers \<times> 'd content) vcns_op" where
  "get_edge V edge_id =
     json_request V HTTP_GET (URI_PREFIX @ ''/'' @ edge_id) NoParams"

definition get_edges_page :: "('w, 'd) vcns \<Rightarrow> nat \<Rightarrow> ('w, 'd, headers \<times> 'd content) vcns_op" where
  "get_edges_page V startindex =
     json_request V HTTP_GET (URI_PREFIX @ ''?startIndex='' @ nat_str startindex) NoParams"

definition get_edge_syslog :: "('w, 'd) vcns \<Rightarrow> string \<Rightarrow> ('w, 'd, headers \<times> 'd content) vcns_op" where
  "get_edge_syslog V edge_id =
     json_request V HTTP_GET (URI_PREFIX @ ''/'' @ edge_id @ ''/syslog/config'') NoParams"

definition update_edge_syslog :: "('w, 'd) vcns \<Rightarrow> string \<Rightarrow> json \<Rightarrow> ('w, 'd, headers \<times> 'd content) vcns_op" where
  "update_edge_syslog V edge_id config =
     json_request V HTTP_PUT (URI_PREFIX @ ''/'' @ edge_id @ ''/syslog/config'') (Encoded config)"

definition delete_edge_syslog :: "('w, 'd) vcns \<Rightarrow> string \<Rightarrow> ('w, 'd, headers \<times> 'd content) vcns_op" where
  "delete_edge_syslog V edge_id =
     json_request V HTTP_DELETE (URI_PREFIX @ ''/'' @ edge_id @ ''/syslog/config'') NoParams"

definition get_edge_interfaces :: "('w, 'd) vcns \<Rightarrow> string \<Rightarrow> ('w, 'd, headers \<times> 'd content) vcns_op" where
  "get_edge_interfaces V edge_id =
     json_request V HTTP_GET (URI_PREFIX @ ''/'' @ edge_id @ ''/interfaces'') NoParams"

definition get_routes :: "('w, 'd) vcns \<Rightarrow> string \<Rightarrow> ('w, 'd, headers \<times> 'd content) vcns_op" where
  "get_routes V edge_id =
     json_request V HTTP_GET (URI_PREFIX @ ''/'' @ edge_id @ ''/routing/config/static'') NoParams"

definition update_routes :: "('w, 'd) vcns \<Rightarrow> string \<Rightarrow> json \<Rightarrow> ('w, 'd, headers \<times> 'd content) vcns_op" where
  "update_routes V edge_id routes =
     json_request V HTTP_PUT (URI_PREFIX @ ''/'' @ edge_id @ ''/routing/config/static'') (Encoded routes)"

definition create_lswitch :: "('w, 'd) vcns \<Rightarrow> json \<Rightarrow> ('w, 'd, headers \<times> 'd content) vcns_op" where
  "create_lswitch V lsconfig =
     json_request V HTTP_POST (''/api/ws.v1/lswitch'') (Encoded lsconfig)"

definition delete_lswitch :: "('w, 'd) vcns \<Rightarrow> string \<Rightarrow> ('w, 'd, headers \<times> 'd content) vcns_op" where
  "delete_lswitch V lswitch_id =
     json_request V HTTP_DELETE (''/api/ws.v1/lswitch/'' @ lswitch_id) NoParams"

definition get_loadbalancer_config :: "('w, 'd) vcns \<Rightarrow> string \<Rightarrow> ('w, 'd, headers \<times> 'd content) vcns_op" where
  "get_loadbalancer_config V edge_id =
     json_request V HTTP_GET (vcns_uri_path edge_id LOADBALANCER_SERVICE None None) NoParams"

definition get_loadbalancer_statistics :: "('w, 'd) vcns \<Rightarrow> string \<Rightarrow> ('w, 'd, headers \<times> 'd content) vcns_op" where
  "get_loadbalancer_statistics V edge_id =
     json_request V HTTP_GET (vcns_uri_path edge_id LOADBALANCER_STATS None None) NoParams"

definition enable_service_loadbalancer :: "('w, 'd) vcns \<Rightarrow> string \<Rightarrow> json \<Rightarrow> ('w, 'd, headers \<times> 'd content) vcns_op" where
  "enable_service_loadbalancer V edge_id config =
     json_request V HTTP_PUT (vcns_uri_path edge_id LOADBALANCER_SERVICE None None) (Encoded config)"

definition update_firewall :: "('w, 'd) vcns \<Rightarrow> string \<Rightarrow> json \<Rightarrow> ('w, 'd, headers \<times> 'd content) vcns_op" where
  "update_firewall V edge_id fw_req =
     json_request V HTTP_PUT (vcns_uri_path edge_id FIREWALL_SERVICE None None) (Encoded fw_req)"

definition delete_firewall :: "('w, 'd) vcns \<Rightarrow> string \<Rightarrow> ('w, 'd, headers \<times> 'd content) vcns_op" where
  "delete_firewall V edge_id =
     json_request V HTTP_DELETE (vcns_uri_path edge_id FIREWALL_SERVICE None None) NoParams"

definition update_firewall_rule :: "('w, 'd) vcns \<Rightarrow> string \<Rightarrow> string \<Rightarrow> json \<Rightarrow> ('w, 'd, headers \<times> 'd content) vcns_op" where
  "update_firewall_rule V edge_id vcns_rule_id fwr_req =
     json_request V HTTP_PUT (vcns_uri_path edge_id FIREWALL_SERVICE (Some FIREWALL_RULE_RESOURCE) (Some vcns_rule_id)) (Encoded fwr_req)"

definition delete_firewall_rule :: "('w, 'd) vcns \<Rightarrow> string \<Rightarrow> string \<Rightarrow> ('w, 'd, headers \<times> 'd content) vcns_op" where
  "delete_firewall_rule V edge_id vcns_rule_id =
     json_request V HTTP_DELETE (vcns_uri_path edge_id FIREWALL_SERVICE (Some FIREWALL_RULE_RESOURCE) (Some vcns_rule_id)) NoParams"

definition add_firewall_rule_above :: "('w, 'd) vcns \<Rightarrow> string \<Rightarrow> string \<Rightarrow> json \<Rightarrow> ('w, 'd, headers \<times> 'd content) vcns_op" where
  "add_firewall_rule_above V edge_id ref_vcns_rule_id fwr_req =
     json_request V HTTP_POST ((vcns_uri_path edge_id FIREWALL_SERVICE (Some FIREWALL_RULE_RESOURCE) None) @ ''?aboveRuleId='' @ ref_vcns_rule_id) (Encoded fwr_req)"

definition add_firewall_rule :: "('w, 'd) vcns \<Rightarrow> string \<Rightarrow> json \<Rightarrow> ('w, 'd, headers \<times> 'd content) vcns_op" where
  "add_firewall_rule V edge_id fwr_req =
     json_request V HTTP_POST (vcns_uri_path edge_id FIREWALL_SERVICE (Some FIREWALL_RULE_RESOURCE) None) (Encoded fwr_req)"

definition update_firewall_default_policy :: "('w, 'd) vcns \<Rightarrow> string \<Rightarrow> json \<Rightarrow> ('w, 'd, headers \<times> 'd content) vcns_op" where
  "update_firewall_default_policy V edge_id fw_req =
     json_request V HTTP_PUT (vcns_uri_path edge_id FIREWALL_SERVICE (Some ''defaultpolicy'') None) (Encoded fw_req)"

definition get_firewall :: "('w, 'd) vcns \<Rightarrow> string \<Rightarrow> ('w, 'd, headers \<times> 'd content) vcns_op" where
  "get_firewall V edge_id =
     json_request V HTTP_GET (vcns_uri_path edge_id FIREWALL_SERVICE None None) NoParams"

definition get_firewall_rule :: "('w, 'd) vcns \<Rightarrow> string \<Rightarrow> string \<Rightarrow> ('w, 'd, headers \<times> 'd content) vcns_op" where
  "get_firewall_rule V edge_id vcns_rule_id =
     json_request V HTTP_GET (vcns_uri_path edge_id FIREWALL_SERVICE (Some FIREWALL_RULE_RESOURCE) (Some vcns_rule_id)) NoParams"

definition create_vip :: "('w, 'd) vcns \<Rightarrow> string \<Rightarrow> json \<Rightarrow> ('w, 'd, headers \<times> 'd content) vcns_op" where
  "create_vip V edge_id vip_new =
     json_request V HTTP_POST (vcns_uri_path edge_id LOADBALANCER_SERVICE (Some VIP_RESOURCE) None) (Encoded vip_new)"

definition get_vip :: "('w, 'd) vcns \<Rightarrow> string \<Rightarrow> string \<Rightarrow> ('w, 'd, headers \<times> 'd content) vcns_op" where
  "get_vip V edge_id vip_vseid =
     json_request V HTTP_GET (vcns_uri_path edge_id LOADBALANCER_SERVICE (Some VIP_RESOURCE) (Some vip_vseid)) NoParams"

definition get_vips :: "('w, 'd) vcns \<Rightarrow> string \<Rightarrow> ('w, 'd, headers \<times> 'd content) vcns_op" where
  "get_vips V edge_id =
     json_request V HTTP_GET (vcns_uri_path edge_id LOADBALANCER_SERVICE (Some VIP_RESOURCE) None) NoParams"

definition update_vip :: "('w, 'd) vcns \<Rightarrow> string \<Rightarrow> string \<Rightarrow> json \<Rightarrow> ('w, 'd, headers \<times> 'd content) vcns_op" where
  "update_vip V edge_id vip_vseid vip_new =
     json_request V HTTP_PUT (vcns_uri_path edge_id LOADBALANCER_SERVICE (Some VIP_RESOURCE) (Some vip_vseid)) (Encoded vip_new)"

definition delete_vip :: "('w, 'd) vcns \<Rightarrow> string \<Rightarrow> string \<Rightarrow> ('w, 'd, headers \<times> 'd content) vcns_op" where
  "delete_vip V edge_id vip_vseid =
     json_request V HTTP_DELETE (vcns_uri_path edge_id LOADBALANCER_SERVICE (Some VIP_RESOURCE) (Some vip_vseid)) NoParams"

definition create_pool :: "('w, 'd) vcns \<Rightarrow> string \<Rightarrow> json \<Rightarrow> ('w, 'd, headers \<times> 'd content) vcns_op" where
  "create_pool V edge_id pool_new =
     json_request V HTTP_POST (vcns_uri_path edge_id LOADBALANCER_SERVICE (Some POOL_RESOURCE) None) (Encoded pool_new)"

definition get_pool :: "('w, 'd) vcns \<Rightarrow> string \<Rightarrow> string \<Rightarrow> ('w, 'd, headers \<times> 'd content) vcns_op" where
  "get_pool V edge_id pool_vseid =
     json_request V HTTP_GET (vcns_uri_path edge_id LOADBALANCER_SERVICE (Some POOL_RESOURCE) (Some pool_vseid)) NoParams"

definition update_pool :: "('w, 'd) vcns \<Rightarrow> string \<Rightarrow> string \<Rightarrow> json \<Rightarrow> ('w, 'd, headers \<times> 'd content) vcns_op" where
  "update_pool V edge_id pool_vseid pool_new =
     json_request V HTTP_PUT (vcns_uri_path edge_id LOADBALANCER_SERVICE (Some POOL_RESOURCE) (Some pool_vseid)) (Encoded pool_new)"

definition delete_pool :: "('w, 'd) vcns \<Rightarrow> string \<Rightarrow> string \<Rightarrow> ('w, 'd, headers \<times> 'd content) vcns_op" where
  "delete_pool V edge_id pool_vseid =
     json_request V HTTP_DELETE (vcns_uri_path edge_id LOADBALANCER_SERVICE (Some POOL_RESOURCE) (Some pool_vseid)) NoParams"

definition create_health_monitor :: "('w, 'd) vcns \<Rightarrow> string \<Rightarrow> json \<Rightarrow> ('w, 'd, headers \<times> 'd content) vcns_op" where
  "create_health_monitor V edge_id monitor_new =
     json_request V HTTP_POST (vcns_uri_path edge_id LOADBALANCER_SERVICE (Some MONITOR_RESOURCE) None) (Encoded monitor_new)"

definition get_health_monitor :: "('w, 'd) vcns \<Rightarrow> string \<Rightarrow> string \<Rightarrow> ('w, 'd, headers \<times> 'd content) vcns_op" where
  "get_health_monitor V edge_id monitor_vseid =
     json_request V HTTP_GET (vcns_uri_path edge_id LOADBALANCER_SERVICE (Some MONITOR_RESOURCE) (Some monitor_vseid)) NoParams"

definition update_health_monitor :: "('w, 'd) vcns \<Rightarrow> string \<Rightarrow> string \<Rightarrow> json \<Rightarrow> ('w, 'd, headers \<times> 'd content) vcns_op" where
  "update_health_monitor V edge_id monitor_vseid monitor_new =
     json_request V HTTP_PUT (vcns_uri_path edge_id LOADBALANCER_SERVICE (Some MONITOR_RESOURCE) (Some monitor_vseid)) (Encoded monitor_new)"

definition delete_health_monitor :: "('w, 'd) vcns \<Rightarrow> string \<Rightarrow> string \<Rightarrow> ('w, 'd, headers \<times> 'd content) vcns_op" where
  "delete_health_monitor V edge_id monitor_vseid =
     json_request V HTTP_DELETE (vcns_uri_path edge_id LOADBALANCER_SERVICE (Some MONITOR_RESOURCE) (Some monitor_vseid)) NoParams"

definition create_app_profile :: "('w, 'd) vcns \<Rightarrow> string \<Rightarrow> json \<Rightarrow> ('w, 'd, headers \<times> 'd content) vcns_op" where
  "create_app_profile V edge_id app_profile =
     json_request V HTTP_POST (vcns_uri_path edge_id LOADBALANCER_SERVICE (Some APP_PROFILE_RESOURCE) None) (Encoded app_profile)"

definition update_app_profile :: "('w, 'd) vcns \<Rightarrow> string \<Rightarrow> string \<Rightarrow> json \<Rightarrow> ('w, 'd, headers \<times> 'd content) vcns_op" where
  "update_app_profile V edge_id app_profileid app_profile =
     json_request V HTTP_PUT (vcns_uri_path edge_id LOADBALANCER_SERVICE (Some APP_PROFILE_RESOURCE) (Some app_profileid)) (Encoded app_profile)"

definition delete_app_profile :: "('w, 'd) vcns \<Rightarrow> string \<Rightarrow> string \<Rightarrow> ('w, 'd, headers \<times> 'd content) vcns_op" where
  "delete_app_profile V edge_id app_profileid =
     json_request V HTTP_DELETE (vcns_uri_path edge_id LOADBALANCER_SERVICE (Some APP_PROFILE_RESOURCE) (Some app_profileid)) NoParams"

definition create_app_rule :: "('w, 'd) vcns \<Rightarrow> string \<Rightarrow> json \<Rightarrow> ('w, 'd, headers \<times> 'd content) vcns_op" where
  "create_app_rule V edge_id app_rule =
     json_request V HTTP_POST (vcns_uri_path edge_id LOADBALANCER_SERVICE (Some APP_RULE_RESOURCE) None) (Encoded app_rule)"

definition update_app_rule :: "('w, 'd) vcns \<Rightarrow> string \<Rightarrow> string \<Rightarrow> json \<Rightarrow> ('w, 'd, headers \<times> 'd content) vcns_op" where
  "update_app_rule V edge_id app_ruleid app_rule =
     json_request V HTTP_PUT (vcns_uri_path edge_id LOADBALANCER_SERVICE (Some APP_RULE_RESOURCE) (Some app_ruleid)) (Encoded app_rule)"

definition delete_app_rule :: "('w, 'd) vcns \<Rightarrow> string \<Rightarrow> string \<Rightarrow> ('w, 'd, headers \<times> 'd content) vcns_op" where
  "delete_app_rule V edge_id app_ruleid =
     json_request V HTTP_DELETE (vcns_uri_path edge_id LOADBALANCER_SERVICE (Some APP_RULE_RESOURCE) (Some app_ruleid)) NoParams"

definition update_ipsec_config :: "('w, 'd) vcns \<Rightarrow> string \<Rightarrow> json \<Rightarrow> ('w, 'd, headers \<times> 'd content) vcns_op" where
  "update_ipsec_config V edge_id ipsec_config =
     json_request V HTTP_PUT (vcns_uri_path edge_id IPSEC_VPN_SERVICE None None) (Encoded ipsec_config)"

definition delete_ipsec_config :: "('w, 'd) vcns \<Rightarrow> string \<Rightarrow> ('w, 'd, headers \<times> 'd content) vcns_op" where
  "delete_ipsec_config V edge_id =
     json_request V HTTP_DELETE (vcns_uri_path edge_id IPSEC_VPN_SERVICE None None) NoParams"

definition get_ipsec_config :: "('w, 'd) vcns \<Rightarrow> string \<Rightarrow> ('w, 'd, headers \<times> 'd content) vcns_op" where
  "get_ipsec_config V edge_id =
     json_request V HTTP_GET (vcns_uri_path edge_id IPSEC_VPN_SERVICE None None) NoParams"

definition create_virtual_wire :: "('w, 'd) vcns \<Rightarrow> string \<Rightarrow> json \<Rightarrow> ('w, 'd, headers \<times> 'd content) vcns_op" where
  "create_virtual_wire V vdn_scope_id request =
     retry_upon_exception V RequestBad (do_request V HTTP_POST (''/api/2.0/vdn/scopes/'' @ vdn_scope_id @ ''/virtualwires'') (Encoded request) True False [])"

definition delete_virtual_wire :: "('w, 'd) vcns \<Rightarrow> string \<Rightarrow> ('w, 'd, headers \<times> 'd content) vcns_op" where
  "delete_virtual_wire V virtualwire_id =
     do_request V HTTP_DELETE (''/api/2.0/vdn/virtualwires/'' @ virtualwire_id) NoParams True True []"

definition get_virtual_wires_page :: "('w, 'd) vcns \<Rightarrow> nat \<Rightarrow> ('w, 'd, headers \<times> 'd content) vcns_op" where
  "get_virtual_wires_page V startindex =
     json_request V HTTP_GET ((''/api/2.0/vdn/virtualwires'') @ ''?startIndex='' @ nat_str startindex) NoParams"

definition create_port_group :: "('w, 'd) vcns \<Rightarrow> string \<Rightarrow> json \<Rightarrow> ('w, 'd, headers \<times> 'd content) vcns_op" where
  "create_port_group V dvs_id request =
     do_request V HTTP_POST (''/api/2.0/xvs/switches/'' @ dvs_id @ ''/networks'') (Encoded request) True False []"

definition vcns_delete_port_group :: "('w, 'd) vcns \<Rightarrow> string \<Rightarrow> string \<Rightarrow> ('w, 'd, headers \<times> 'd content) vcns_op" where
  "vcns_delete_port_group V dvs_id portgroup_id =
     do_request V HTTP_DELETE (''/api/2.0/xvs/switches/'' @ dvs_id @ ''/networks/'' @ portgroup_id) NoParams True False []"

definition get_vdn_switch :: "('w, 'd) vcns \<Rightarrow> string \<Rightarrow> ('w, 'd, headers \<times> 'd content) vcns_op" where
  "get_vdn_switch V dvs_id =
     json_request V HTTP_GET (''/api/2.0/vdn/switches/'' @ dvs_id) NoParams"

definition update_vdn_switch :: "('w, 'd) vcns \<Rightarrow> json \<Rightarrow> ('w, 'd, headers \<times> 'd content) vcns_op" where
  "update_vdn_switch V switch =
     json_request V HTTP_PUT (''/api/2.0/vdn/switches'') (Encoded switch)"

definition query_interface :: "('w, 'd) vcns \<Rightarrow> string \<Rightarrow> nat \<Rightarrow> ('w, 'd, headers \<times> 'd content) vcns_op" where
  "query_interface V edge_id vnic_index =
     json_request V HTTP_GET (URI_PREFIX @ ''/'' @ edge_id @ ''/vnics/'' @ nat_str vnic_index) NoParams"

definition reconfigure_dhcp_service :: "('w, 'd) vcns \<Rightarrow> string \<Rightarrow> json \<Rightarrow> ('w, 'd, headers \<times> 'd content) vcns_op" where
  "reconfigure_dhcp_service V edge_id request_config =
     json_request V HTTP_PUT (''/api/4.0/edges/'' @ edge_id @ ''/dhcp/config'') (Encoded request_config)"

definition query_dhcp_configuration :: "('w, 'd) vcns \<Rightarrow> string \<Rightarrow> ('w, 'd, headers \<times> 'd content) vcns_op" where
  "query_dhcp_configuration V edge_id =
     json_request V HTTP_GET (''/api/4.0/edges/'' @ edge_id @ ''/dhcp/config'') NoParams"

definition create_dhcp_binding :: "('w, 'd) vcns \<Rightarrow> string \<Rightarrow> json \<Rightarrow> ('w, 'd, headers \<times> 'd content) vcns_op" where
  "create_dhcp_binding V edge_id request_config =
     do_request V HTTP_POST (vcns_uri_path edge_id DHCP_SERVICE (Some DHCP_BINDING_RESOURCE) None) (Encoded request_config) False False []"

definition delete_dhcp_binding :: "('w, 'd) vcns \<Rightarrow> string \<Rightarrow> string \<Rightarrow> ('w, 'd, headers \<times> 'd content) vcns_op" where
  "delete_dhcp_binding V edge_id binding_id =
     do_request V HTTP_DELETE (vcns_uri_path edge_id DHCP_SERVICE (Some DHCP_BINDING_RESOURCE) (Some binding_id)) NoParams False False []"

definition get_dhcp_binding :: "('w, 'd) vcns \<Rightarrow> string \<Rightarrow> string \<Rightarrow> ('w, 'd, headers \<times> 'd content) vcns_op" where
  "get_dhcp_binding V edge_id binding_id =
     json_request V HTTP_GET (vcns_uri_path edge_id DHCP_SERVICE (Some DHCP_BINDING_RESOURCE) (Some binding_id)) NoParams"

definition create_security_group :: "('w, 'd) vcns \<Rightarrow> json \<Rightarrow> ('w, 'd, headers \<times> 'd content) vcns_op" where
  "create_security_group V request =
     do_request V HTTP_POST (SECURITYGROUP_PREFIX @ ''/globalroot-0'') (Encoded request) True False []"

definition delete_security_group :: "('w, 'd) vcns \<Rightarrow> string \<Rightarrow> ('w, 'd, headers \<times> 'd content) vcns_op" where
  "delete_security_group V securitygroup_id =
     do_request V HTTP_DELETE (SECURITYGROUP_PREFIX @ ''/'' @ securitygroup_id @ ''?force=true'') NoParams True False []"

definition list_security_groups :: "('w, 'd) vcns \<Rightarrow> ('w, 'd, headers \<times> 'd content) vcns_op" where
  "list_security_groups V =
     do_request V HTTP_GET (SECURITYGROUP_PREFIX @ ''/scope/globalroot-0'') NoParams True False []"

definition create_bridge :: "('w, 'd) vcns \<Rightarrow> string \<Rightarrow> json \<Rightarrow> ('w, 'd, headers \<times> 'd content) vcns_op" where
  "create_bridge V edge_id request =
     retry_upon_exception V VcnsApiException (do_request V HTTP_PUT (vcns_uri_path edge_id BRIDGE None None) (Encoded request) True False [])"

definition delete_bridge :: "('w, 'd) vcns \<Rightarrow> string \<Rightarrow> ('w, 'd, headers \<times> 'd content) vcns_op" where
  "delete_bridge V edge_id =
     retry_upon_exception V VcnsApiException (do_request V HTTP_DELETE (vcns_uri_path edge_id BRIDGE None None) NoParams True False [])"

definition create_redirect_section :: "('w, 'd) vcns \<Rightarrow> 'd \<Rightarrow> ('w, 'd, headers \<times> 'd content) vcns_op" where
  "create_redirect_section V request =
     do_request V HTTP_POST ((FIREWALL_PREFIX @ ''/'' @ (FIREWALL_REDIRECT_SEC_TYPE) @ ''?autoSaveDraft=false'') @ ''&operation=insert_before&anchorId=1002'') (Raw request) True False []"

definition delete_section :: "('w, 'd) vcns \<Rightarrow> string \<Rightarrow> ('w, 'd, headers \<times> 'd content) vcns_op" where
  "delete_section V section_uri =
     do_request V HTTP_DELETE (section_uri @ ''?autoSaveDraft=false'') NoParams True False []"

definition get_section :: "('w, 'd) vcns \<Rightarrow> string \<Rightarrow> ('w, 'd, headers \<times> 'd content) vcns_op" where
  "get_section V section_uri =
     do_request V HTTP_GET section_uri NoParams True False []"

definition get_dfw_config :: "('w, 'd) vcns \<Rightarrow> ('w, 'd, headers \<times> 'd content) vcns_op" where
  "get_dfw_config V =
     do_request V HTTP_GET (FIREWALL_PREFIX) NoParams True False []"

definition add_member_to_security_group :: "('w, 'd) vcns \<Rightarrow> string \<Rightarrow> string \<Rightarrow> ('w, 'd, headers \<times> 'd content) vcns_op" where
  "add_member_to_security_group V security_group_id member_id =
     retry_upon_exception V RequestBad (do_request V HTTP_PUT (SECURITYGROUP_PREFIX @ ''/'' @ security_group_id @ ''/members/'' @ member_id @ ''?failIfExists=false'') NoParams True False [])"

definition remove_member_from_security_group :: "('w, 'd) vcns \<Rightarrow> string \<Rightarrow> string \<Rightarrow> ('w, 'd, headers \<times> 'd content) vcns_op" where
  "remove_member_from_security_group V security_group_id member_id =
     do_request V HTTP_DELETE (SECURITYGROUP_PREFIX @ ''/'' @ security_group_id @ ''/members/'' @ member_id @ ''?failIfAbsent=false'') NoParams True False []"

definition delete_spoofguard_policy :: "('w, 'd) vcns \<Rightarrow> string \<Rightarrow> ('w, 'd, headers \<times> 'd content) vcns_op" where
  "delete_spoofguard_policy V policy_id =
     retry_upon_exception V RequestBad (do_request V HTTP_DELETE (SPOOFGUARD_PREFIX @ ''/policies/'' @ policy_id) NoParams False False [])"

definition get_spoofguard_policy :: "('w, 'd) vcns \<Rightarrow> string \<Rightarrow> ('w, 'd, headers \<times> 'd content) vcns_op" where
  "get_spoofguard_policy V policy_id =
     json_request V HTTP_GET (SPOOFGUARD_PREFIX @ ''/policies/'' @ policy_id) NoParams"

definition get_spoofguard_policy_data :: "('w, 'd) vcns \<Rightarrow> string \<Rightarrow> string \<Rightarrow> ('w, 'd, headers \<times> 'd content) vcns_op" where
  "get_spoofguard_policy_data V policy_id list_type =
     json_request V HTTP_GET (SPOOFGUARD_PREFIX @ ''/'' @ policy_id @ ''?list='' @ list_type) NoParams"

definition get_spoofguard_policies :: "('w, 'd) vcns \<Rightarrow> ('w, 'd, headers \<times> 'd content) vcns_op" where
  "get_spoofguard_policies V =
     json_request V HTTP_GET (SPOOFGUARD_PREFIX @ ''/policies/'') NoParams"

definition publish_assigned_addresses :: "('w, 'd) vcns \<Rightarrow> string \<Rightarrow> string \<Rightarrow> ('w, 'd, headers \<times> 'd content) vcns_op" where
  "publish_assigned_addresses V policy_id vnic_id =
     retry_upon_exception V VcnsApiException (do_request V HTTP_POST ((SPOOFGUARD_PREFIX @ ''/'' @ policy_id) @ ''?action=publish&vnicId='' @ vnic_id) NoParams False False [])"

definition add_vm_to_exclude_list :: "('w, 'd) vcns \<Rightarrow> string \<Rightarrow> ('w, 'd, headers \<times> 'd content) vcns_op" where
  "add_vm_to_exclude_list V vm_id =
     json_request V HTTP_PUT (EXCLUDELIST_PREFIX @ ''/'' @ vm_id) NoParams"

definition delete_vm_from_exclude_list :: "('w, 'd) vcns \<Rightarrow> string \<Rightarrow> ('w, 'd, headers \<times> 'd content) vcns_op" where
  "delete_vm_from_exclude_list V vm_id =
     json_request V HTTP_DELETE (EXCLUDELIST_PREFIX @ ''/'' @ vm_id) NoParams"

definition enable_ha :: "('w, 'd) vcns \<Rightarrow> string \<Rightarrow> json \<Rightarrow> ('w, 'd, headers \<times> 'd content) vcns_op" where
  "enable_ha V edge_id request_config =
     json_request V HTTP_PUT (''/api/4.0/edges/'' @ edge_id @ ''/highavailability/config'') (Encoded request_config)"

definition change_edge_appliance_size :: "('w, 'd) vcns \<Rightarrow> string \<Rightarrow> string \<Rightarrow> ('w, 'd, headers \<times> 'd content) vcns_op" where
  "change_edge_appliance_size V edge_id size_arg =
     json_request V HTTP_POST (''/api/4.0/edges/'' @ edge_id @ ''/appliances/?size='' @ size_arg) NoParams"

definition change_edge_appliance :: "('w, 'd) vcns \<Rightarrow> string \<Rightarrow> json \<Rightarrow> ('w, 'd, headers \<times> 'd content) vcns_op" where
  "change_edge_appliance V edge_id request =
     json_request V HTTP_PUT (''/api/4.0/edges/'' @ edge_id @ ''/appliances'') (Encoded request)"

definition get_edge_appliances :: "('w, 'd) vcns \<Rightarrow> string \<Rightarrow> ('w, 'd, headers \<times> 'd content) vcns_op" where
  "get_edge_appliances V edge_id =
     json_request V HTTP_GET (''/api/4.0/edges/'' @ edge_id @ ''/appliances'') NoParams"

definition upload_edge_certificate :: "('w, 'd) vcns \<Rightarrow> string \<Rightarrow> json \<Rightarrow> ('w, 'd, headers \<times> 'd content) vcns_op" where
  "upload_edge_certificate V edge_id request =
     json_request V HTTP_POST (TRUSTSTORE_PREFIX @ ''/'' @ CERTIFICATE @ ''/'' @ edge_id) (Encoded request)"

definition create_csr :: "('w, 'd) vcns \<Rightarrow> string \<Rightarrow> json \<Rightarrow> ('w, 'd, headers \<times> 'd content) vcns_op" where
  "create_csr V edge_id request =
     do_request V HTTP_POST (TRUSTSTORE_PREFIX @ ''/'' @ CSR @ ''/'' @ edge_id) (Encoded request) True False []"

definition create_csr_cert :: "('w, 'd) vcns \<Rightarrow> string \<Rightarrow> ('w, 'd, headers \<times> 'd content) vcns_op" where
  "create_csr_cert V csr_id =
     json_request V HTTP_PUT (TRUSTSTORE_PREFIX @ ''/'' @ CSR @ ''/'' @ csr_id @ ''?noOfDays='' @ nat_str CERT_NUMBER_OF_DAYS) NoParams"

definition get_service_insertion_profile :: "('w, 'd) vcns \<Rightarrow> string \<Rightarrow> ('w, 'd, headers \<times> 'd content) vcns_op" where
  "get_service_insertion_profile V profile_id =
     do_request V HTTP_GET (SERVICE_INSERTION_PROFILE_PREFIX @ ''/'' @ profile_id) NoParams True False []"

definition update_service_insertion_profile_binding :: "('w, 'd) vcns \<Rightarrow> string \<Rightarrow> json \<Rightarrow> ('w, 'd, headers \<times> 'd content) vcns_op" where
  "update_service_insertion_profile_binding V profile_id request =
     do_request V HTTP_POST (SERVICE_INSERTION_PROFILE_PREFIX @ ''/'' @ profile_id @ ''/'' @ ''binding'') (Encoded request) True False []"

definition create_ipam_ip_pool :: "('w, 'd) vcns \<Rightarrow> json \<Rightarrow> ('w, 'd, headers \<times> 'd content) vcns_op" where
  "create_ipam_ip_pool V request =
     do_request V HTTP_POST (SERVICES_PREFIX @ ''/'' @ IPAM_POOL_SERVICE @ ''/'' @ IPAM_POOL_SCOPE) (Encoded request) True False []"

definition delete_ipam_ip_pool :: "('w, 'd) vcns \<Rightarrow> string \<Rightarrow> ('w, 'd, headers \<times> 'd content) vcns_op" where
  "delete_ipam_ip_pool V pool_id =
     json_request V HTTP_DELETE (SERVICES_PREFIX @ ''/'' @ IPAM_POOL_SERVICE @ ''/'' @ pool_id) NoParams"

definition get_ipam_ip_pool :: "('w, 'd) vcns \<Rightarrow> string \<Rightarrow> ('w, 'd, headers \<times> 'd content) vcns_op" where
  "get_ipam_ip_pool V pool_id =
     json_request V HTTP_GET (SERVICES_PREFIX @ ''/'' @ IPAM_POOL_SERVICE @ ''/'' @ pool_id) NoParams"

definition release_ipam_ip_to_pool :: "('w, 'd) vcns \<Rightarrow> string \<Rightarrow> string \<Rightarrow> ('w, 'd, headers \<times> 'd content) vcns_op" where
  "release_ipam_ip_to_pool V pool_id ip_addr =
     json_request V HTTP_DELETE (SERVICES_PREFIX @ ''/'' @ IPAM_POOL_SERVICE @ ''/'' @ pool_id @ ''/'' @ ''ipaddresses'' @ ''/'' @ ip_addr) NoParams"

definition update_security_policy :: "('w, 'd) vcns \<Rightarrow> string \<Rightarrow> json \<Rightarrow> ('w, 'd, headers \<times> 'd content) vcns_op" where
  "update_security_policy V policy_id request =
     do_request V HTTP_PUT (SECURITY_POLICY_PREFIX @ ''/'' @ policy_id) (Encoded request) True False []"

definition get_edge_routing_config :: "('w, 'd) vcns \<Rightarrow> string \<Rightarrow> ('w, 'd, headers \<times> 'd content) vcns_op" where
  "get_edge_routing_config V edge_id =
     json_request V HTTP_GET (vcns_uri_path edge_id ROUTING_CONFIG None None) NoParams"

definition get_bgp_routing_config :: "('w, 'd) vcns \<Rightarrow> string \<Rightarrow> ('w, 'd, headers \<times> 'd content) vcns_op" where
  "get_bgp_routing_config V edge_id =
     json_request V HTTP_GET (vcns_uri_path edge_id BGP_ROUTING_CONFIG None None) NoParams"

definition delete_bgp_routing_config :: "('w, 'd) vcns \<Rightarrow> string \<Rightarrow> ('w, 'd, headers \<times> 'd content) vcns_op" where
  "delete_bgp_routing_config V edge_id =
     json_request V HTTP_DELETE (vcns_uri_path edge_id BGP_ROUTING_CONFIG None None) NoParams"


subsection \<open>Methods with more than one request, or with a body of their own\<close>

definition update_interface :: "('w, 'd) vcns \<Rightarrow> string \<Rightarrow> json \<Rightarrow> ('w, 'd, headers \<times> 'd content) vcns_op" where
  "update_interface V edge_id vnic =
     retry_upon_exception V ResourceTimedOut (retry_upon_exception V RequestBad (\<lambda>w.
       case jfield ''index'' vnic of
         Inl e \<Rightarrow> (Inl (VPy e), w)
       | Inr (JInt i) \<Rightarrow> json_request V HTTP_PUT
           (URI_PREFIX @ ''/'' @ edge_id @ ''/vnics/'' @ int_str i) (Encoded vnic) w
       | Inr _ \<Rightarrow> (Inl (VPy TypeError), w)))"

text \<open>Pages: the first request gives the page size and the total, which fix the number of further
  ones. \<open>int(count / page_size + 1)\<close> divides as a float; the model divides exactly, and the
  manager's counts are not negative.\<close>

definition paging_info :: "string \<Rightarrow> ('w, 'd) vcns \<Rightarrow> json \<Rightarrow> py_exc + json list \<times> nat \<times> nat" where
  "paging_info page V d =
     bind_res (jfield page d) (\<lambda>p. bind_res (bind_res (jfield ''data'' p) as_list) (\<lambda>items.
     bind_res (jfield ''pagingInfo'' p) (\<lambda>info.
     bind_res (jfield ''pageSize'' info) (\<lambda>size. bind_res (jfield ''totalCount'' info) (\<lambda>count.
       case (to_int V size, to_int V count) of
         (Some s, Some c) \<Rightarrow> if s = 0 then Inl PyZeroDivisionError else Inr (items, nat s, nat c)
       | _ \<Rightarrow> Inl ValueError)))))"

definition page_items :: "string \<Rightarrow> json \<Rightarrow> py_exc + json list" where
  "page_items page d = bind_res (jfield page d) (\<lambda>p. bind_res (jfield ''data'' p) as_list)"

fun get_pages :: "(nat \<Rightarrow> ('w, 'd, headers \<times> 'd content) vcns_op) \<Rightarrow> string \<Rightarrow> nat list \<Rightarrow> json list \<Rightarrow> ('w, 'd, json list) vcns_op" where
  "get_pages get page [] acc w = (Inr acc, w)"
| "get_pages get page (i # is) acc w =
     (case with_body (get i) (page_items page) w of
        (Inl e, w) \<Rightarrow> (Inl e, w)
      | (Inr items, w) \<Rightarrow> get_pages get page is (acc @ items) w)"

definition all_pages :: "(nat \<Rightarrow> ('w, 'd, headers \<times> 'd content) vcns_op) \<Rightarrow> string \<Rightarrow> ('w, 'd) vcns \<Rightarrow> ('w, 'd, json list) vcns_op" where
  "all_pages get page V =
     bind_st (with_body (get 0) (paging_info page V)) (\<lambda>(items, page_size, count).
       get_pages get page (map (\<lambda>i. page_size * i) [1 ..< count div page_size + 1]) items)"

definition get_edges :: "('w, 'd) vcns \<Rightarrow> ('w, 'd, json list) vcns_op" where
  "get_edges V = all_pages (get_edges_page V) ''edgePage'' V"

definition get_virtual_wires :: "('w, 'd) vcns \<Rightarrow> ('w, 'd, json list) vcns_op" where
  "get_virtual_wires V = all_pages (get_virtual_wires_page V) ''dataPage'' V"

text \<open>The modifier changes the configuration and says whether to send it back.\<close>

definition update_edge_config_with_modifier :: "('w, 'd) vcns \<Rightarrow> string \<Rightarrow> string \<Rightarrow> (json \<Rightarrow> bool \<times> json) \<Rightarrow>
    ('w, 'd, (headers \<times> 'd content) option) vcns_op" where
  "update_edge_config_with_modifier V edge_id module modifier =
     (let uri = URI_PREFIX @ ''/'' @ edge_id @ ''/'' @ module @ ''/config'' in
      bind_st (with_body (json_request V HTTP_GET uri NoParams) Inr) (\<lambda>config.
        case modifier config of
          (True, config) \<Rightarrow> bind_st (json_request V HTTP_PUT uri (Encoded config)) (\<lambda>r. return_st (Some r))
        | (False, _) \<Rightarrow> return_st None))"

fun sync_firewall :: "('w, 'd) vcns \<Rightarrow> string list \<Rightarrow> ('w, 'd, unit) vcns_op" where
  "sync_firewall V [] w = (Inr (), w)"
| "sync_firewall V (c # cs) w =
     (case json_request V HTTP_POST (''/api/4.0/firewall/forceSync/'' @ c) NoParams w of
        (Inl e, w) \<Rightarrow> (Inl e, w)
      | (Inr _, w) \<Rightarrow> sync_firewall V cs w)"

abbreviation "NSX_ERROR_ALREADY_EXISTS \<equiv> 210 :: int"
abbreviation "NSX_ERROR_ALREADY_HAS_SG_POLICY \<equiv> 120508 :: int"

definition section_type :: "string \<Rightarrow> string" where
  "section_type ty = (if ty = ''ip'' then ''layer3sections'' else ''layer2sections'')"

definition create_section :: "('w, 'd) vcns \<Rightarrow> string \<Rightarrow> 'd \<Rightarrow> bool \<Rightarrow> string option \<Rightarrow>
    ('w, 'd, headers \<times> 'd content) vcns_op" where
  "create_section V ty request insert_top insert_before =
     do_request V HTTP_POST
       (FIREWALL_PREFIX @ ''/'' @ section_type ty @ ''?autoSaveDraft=false'' @
         (if insert_top then ''&operation=insert_top''
          else (case insert_before of
              Some b \<Rightarrow> if b = [] then ''&operation=insert_before&anchorId=1003'' else ''&operation=insert_before&anchorId='' @ b
            | None \<Rightarrow> ''&operation=insert_before&anchorId=1003'')))
       (Raw request) True False []"

text \<open>The precondition header of an update: the entity tag of a response without its quotes. \<open>h\<close> is
  the response's headers, if the caller has them.\<close>

definition get_section_header :: "('w, 'd) vcns \<Rightarrow> string \<Rightarrow> headers option \<Rightarrow> ('w, 'd, headers) vcns_op" where
  "get_section_header V section_uri h =
     bind_st (case h of
         Some hs \<Rightarrow> return_st hs
       | None \<Rightarrow> bind_st (do_request V HTTP_GET section_uri NoParams True False []) (\<lambda>(hs, _). return_st hs))
       (\<lambda>hs. case map_of hs ''etag'' of
          None \<Rightarrow> raise_st (VPy KeyError)
        | Some etag \<Rightarrow> return_st [(''If-Match'', filter (\<lambda>c. c \<noteq> CHR 0x22) etag)])"

definition update_section :: "('w, 'd) vcns \<Rightarrow> string \<Rightarrow> 'd \<Rightarrow> headers option \<Rightarrow> ('w, 'd, headers \<times> 'd content) vcns_op" where
  "update_section V section_uri request h =
     bind_st (get_section_header V section_uri h) (\<lambda>hs.
       do_request V HTTP_PUT (section_uri @ ''?autoSaveDraft=false'') (Raw request) True False hs)"

text \<open>\<open>update_dfw_config\<close> has no path to ask for a header, so without \<open>h\<close> it fails.\<close>

definition update_dfw_config :: "('w, 'd) vcns \<Rightarrow> 'd \<Rightarrow> headers \<Rightarrow> ('w, 'd, headers \<times> 'd content) vcns_op" where
  "update_dfw_config V request h =
     bind_st (get_section_header V [] (Some h)) (\<lambda>hs. do_request V HTTP_PUT FIREWALL_PREFIX (Raw request) True False hs)"

definition update_section_by_id :: "('w, 'd) vcns \<Rightarrow> string \<Rightarrow> string \<Rightarrow> 'd \<Rightarrow> ('w, 'd, unit) vcns_op" where
  "update_section_by_id V section_id ty request =
     bind_st (update_section V (FIREWALL_PREFIX @ ''/'' @ section_type ty @ ''/'' @ section_id) request None) (\<lambda>_. return_st ())"

definition remove_rule_from_section :: "('w, 'd) vcns \<Rightarrow> string \<Rightarrow> string \<Rightarrow> ('w, 'd, headers \<times> 'd content) vcns_op" where
  "remove_rule_from_section V section_uri rule_id =
     bind_st (get_section_header V section_uri None) (\<lambda>hs.
       do_request V HTTP_DELETE (section_uri @ ''/rules/'' @ rule_id @ ''?autoSaveDraft=false'') NoParams True True hs)"

definition get_section_rules :: "('w, 'd) vcns \<Rightarrow> string \<Rightarrow> ('w, 'd, json) vcns_op" where
  "get_section_rules V section_uri =
     bind_st (get_section_header V section_uri None) (\<lambda>hs.
       with_body (do_request V HTTP_GET section_uri NoParams False True hs) (jfield ''rules''))"

definition set_system_control :: "('w, 'd) vcns \<Rightarrow> string \<Rightarrow> json \<Rightarrow> ('w, 'd, headers \<times> 'd content) vcns_op" where
  "set_system_control V edge_id prop =
     json_request V HTTP_PUT (vcns_uri_path edge_id SYSCTL_SERVICE None None)
       (Encoded (JObj [(''featureType'', JStr ''systemcontrol''), (''property'', prop)]))"


text \<open>Spoofguard policies. \<open>enforcement_point.split('-')[0]\<close> is the text before the first dash.\<close>

definition get_enforcement_point_body :: "string list \<Rightarrow> (string \<times> json) list" where
  "get_enforcement_point_body points =
     [(''__enforcementPoints'', JList (map (\<lambda>p. JObj [(''enforcementPoint'',
        JObj [(''id'', JStr p), (''type'', JStr (takeWhile (\<lambda>c. c \<noteq> CHR ''-'') p))])]) points))]"

definition spoofguard_body :: "(string \<times> json) list \<Rightarrow> string list \<Rightarrow> string \<Rightarrow> bool \<Rightarrow> json" where
  "spoofguard_body ident points name enable =
     JObj [(''spoofguardPolicy'', JObj (ident @ [(''name'', JStr name),
        (''operationMode'', JStr (if enable then ''MANUAL'' else ''DISABLE'')), (''allowLocalIPs'', JStr ''true'')] @
        get_enforcement_point_body points))]"

text \<open>\<open>code\<close> reads the error code of a bad request's XML; only one that is not in the list is retried.\<close>

definition retry_exclude :: "('w, 'd) vcns \<Rightarrow> vcns_kind \<Rightarrow> int list \<Rightarrow> ('w, 'd, 'a) vcns_op \<Rightarrow> ('w, 'd, 'a) vcns_op" where
  "retry_exclude V k excluded =
     with_retries (max_retries V) (\<lambda>e. is_kind k e \<and>
       (case e of Vcns _ (Some text) \<Rightarrow>
            (case xml_errorcode V text of Some c \<Rightarrow> c \<noteq> 0 \<and> c \<notin> set excluded | None \<Rightarrow> False)
        | _ \<Rightarrow> False))"

definition create_spoofguard_policy :: "('w, 'd) vcns \<Rightarrow> string list \<Rightarrow> string \<Rightarrow> bool \<Rightarrow>
    ('w, 'd, headers \<times> 'd content) vcns_op" where
  "create_spoofguard_policy V points name enable =
     retry_exclude V RequestBad [NSX_ERROR_ALREADY_HAS_SG_POLICY]
       (do_request V HTTP_POST (SPOOFGUARD_PREFIX @ ''/policies/'') (Encoded (spoofguard_body [] points name enable)) True False [])"

definition update_spoofguard_policy :: "('w, 'd) vcns \<Rightarrow> string \<Rightarrow> string list \<Rightarrow> string \<Rightarrow> bool \<Rightarrow>
    ('w, 'd, headers \<times> 'd content) vcns_op" where
  "update_spoofguard_policy V policy_id points name enable =
     retry_upon_exception V RequestBad
       (bind_st (do_request V HTTP_PUT (SPOOFGUARD_PREFIX @ ''/policies/'' @ policy_id)
           (Encoded (spoofguard_body [(''policyId'', JStr policy_id)] points name enable)) True False []) (\<lambda>_.
        do_request V HTTP_POST (SPOOFGUARD_PREFIX @ ''/'' @ policy_id @ ''?action=publish'') NoParams False False []))"

definition approve_once :: "('w, 'd) vcns \<Rightarrow> string \<Rightarrow> string \<Rightarrow> string \<Rightarrow> string list \<Rightarrow>
    ('w, 'd, headers \<times> 'd content) vcns_op" where
  "approve_once V policy_id vnic_id mac_addr addresses =
     (let ips = JList (map (\<lambda>ip. JObj [(''ipAddress'', JStr ip)]) addresses);
          body = JObj [(''spoofguardList'', JObj [(''spoofguard'', JObj [(''id'', JStr vnic_id), (''vnicUuid'', JStr vnic_id),
            (''approvedIpAddress'', ips), (''approvedMacAddress'', JStr mac_addr), (''publishedIpAddress'', ips),
            (''publishedMacAddress'', JStr mac_addr)])])]
      in catch_st (do_request V HTTP_POST (SPOOFGUARD_PREFIX @ ''/'' @ policy_id @ ''?action=approve'') (Encoded body) True False [])
           (\<lambda>e. case e of
              Vcns k (Some text) \<Rightarrow>
                if xml_errorcode V text = Some NSX_ERROR_ALREADY_EXISTS then raise_st (Vcns AlreadyExists None) else raise_st e
            | _ \<Rightarrow> raise_st e))"

definition approve_assigned_addresses where
  "approve_assigned_addresses V policy_id vnic_id mac_addr addresses =
     retry_upon_exception V RequestBad (approve_once V policy_id vnic_id mac_addr addresses)"

definition inactivate_vnic_assigned_addresses :: "('w, 'd) vcns \<Rightarrow> string \<Rightarrow> string \<Rightarrow>
    ('w, 'd, (headers \<times> 'd content) option) vcns_op" where
  "inactivate_vnic_assigned_addresses V policy_id vnic_id w =
     (case approve_once V policy_id vnic_id [] [] w of
        (Inl e, w) \<Rightarrow> (if is_kind RequestBad e then Inr None else Inl e, w)
      | (Inr _, w) \<Rightarrow> bind_st (publish_assigned_addresses V policy_id vnic_id) (\<lambda>r. return_st (Some r)) w)"

text \<open>The inventory, the version of the manager, which is asked for until it was once received, and
  the remaining readers.\<close>

definition validate_inventory :: "('w, 'd) vcns \<Rightarrow> string \<Rightarrow> ('w, 'd, bool) vcns_op" where
  "validate_inventory V object_id =
     catch_st (bind_st (do_request V HTTP_GET (SERVICES_PREFIX @ ''/inventory/'' @ object_id @ ''/basicinfo'') NoParams False False [])
         (\<lambda>_. return_st True))
       (\<lambda>e. if is_kind ResourceNotFound e then return_st False else raise_st e)"

definition get_inventory_name :: "('w, 'd) vcns \<Rightarrow> string \<Rightarrow> ('w, 'd, json) vcns_op" where
  "get_inventory_name V object_id =
     with_body (json_request V HTTP_GET (SERVICES_PREFIX @ ''/inventory/'' @ object_id @ ''/basicinfo'') NoParams) (jfield ''name'')"

definition fetch_version :: "('w, 'd) vcns \<Rightarrow> ('w, 'd, json) vcns_op" where
  "fetch_version V = with_body (json_request V HTTP_GET ''/api/2.0/services/vsmconfig'' NoParams) (jfield ''version'')"

definition get_version :: "('w, 'd) vcns \<Rightarrow> json option \<Rightarrow> 'w \<Rightarrow> (json \<times> json option) \<times> 'w" where
  "get_version V nsx_version w =
     (case nsx_version of
        Some v \<Rightarrow> ((v, Some v), w)
      | None \<Rightarrow>
          (case fetch_version V w of
             (Inr v, w) \<Rightarrow> ((v, if v = JNull then None else Some v), w)
           | (Inl _, w) \<Rightarrow> ((JStr ''6.1'', None), w)))"

definition get_tuning_configuration :: "('w, 'd) vcns \<Rightarrow> ('w, 'd, json) vcns_op" where
  "get_tuning_configuration V = with_body (json_request V HTTP_GET ''/api/4.0/edgePublish/tuningConfiguration'' NoParams) Inr"

definition allocate_ipam_ip_from_pool :: "('w, 'd) vcns \<Rightarrow> string \<Rightarrow> string option \<Rightarrow> ('w, 'd, headers \<times> 'd content) vcns_op" where
  "allocate_ipam_ip_from_pool V pool_id ip_addr =
     do_request V HTTP_POST (SERVICES_PREFIX @ ''/'' @ IPAM_POOL_SERVICE @ ''/'' @ pool_id @ ''/'' @ ''ipaddresses'')
       (Encoded (JObj [(''ipAddressRequest'', JObj
          (if ip_addr = None \<or> ip_addr = Some [] then [(''allocationMode'', JStr ''ALLOCATE'')]
           else [(''allocationMode'', JStr ''RESERVE''), (''ipAddress'', opt_json ip_addr)]))])) True False []"

definition get_security_policy :: "('w, 'd) vcns \<Rightarrow> string \<Rightarrow> bool \<Rightarrow> ('w, 'd, 'd content) vcns_op" where
  "get_security_policy V policy_id return_xml =
     bind_st (do_request V HTTP_GET (SECURITY_POLICY_PREFIX @ ''/'' @ policy_id) NoParams return_xml (\<not> return_xml) [])
       (\<lambda>(_, policy). return_st policy)"

definition get_security_policies :: "('w, 'd) vcns \<Rightarrow> ('w, 'd, json) vcns_op" where
  "get_security_policies V = with_body (json_request V HTTP_GET (SECURITY_POLICY_PREFIX @ ''/all'') NoParams) Inr"

definition list_applications :: "('w, 'd) vcns \<Rightarrow> ('w, 'd, json) vcns_op" where
  "list_applications V = with_body (json_request V HTTP_GET (APPLICATION_PREFIX @ ''/scope/globalroot-0'') NoParams) Inr"

definition update_edge_routing_config :: "('w, 'd) vcns \<Rightarrow> string \<Rightarrow> json \<Rightarrow> ('w, 'd, headers \<times> 'd content) vcns_op" where
  "update_edge_routing_config V edge_id request_config =
     do_request V HTTP_PUT (vcns_uri_path edge_id ROUTING_CONFIG None None) (Raw (xml_dumps V request_config)) True True []"

definition update_bgp_dynamic_routing :: "('w, 'd) vcns \<Rightarrow> string \<Rightarrow> json \<Rightarrow> ('w, 'd, headers \<times> 'd content) vcns_op" where
  "update_bgp_dynamic_routing V edge_id bgp_request =
     do_request V HTTP_PUT (vcns_uri_path edge_id BGP_ROUTING_CONFIG None None) (Raw (xml_dumps V bgp_request)) True True []"

definition get_tz_connectivity_info :: "('w, 'd) vcns \<Rightarrow> string \<Rightarrow> ('w, 'd, json) vcns_op" where
  "get_tz_connectivity_info V vdn_scope_id =
     with_body (json_request V HTTP_GET (TZ_CONNECTIVITY_PREFIX @ ''/'' @ vdn_scope_id) NoParams) Inr"


subsection \<open>How often a request is sent\<close>

lemma is_kind_self: "is_kind k (Vcns k t)"
  by (cases k) simp_all

text \<open>A measure of the manager's state that counts the exchanges.\<close>

definition counts :: "('w, 'd) vcns \<Rightarrow> ('w \<Rightarrow> nat) \<Rightarrow> bool" where
  "counts V sent \<longleftrightarrow> (\<forall>w xml m u h p. sent (snd (exchange V w xml m u h p)) = Suc (sent w))"

definition sends :: "('w \<Rightarrow> nat) \<Rightarrow> nat \<Rightarrow> nat \<Rightarrow> ('w \<Rightarrow> ('e + 'a) \<times> 'w) \<Rightarrow> bool" where
  "sends sent lo hi m \<longleftrightarrow> (\<forall>w. sent w + lo \<le> sent (snd (m w)) \<and> sent (snd (m w)) \<le> sent w + hi)"

lemma sends_retries:
  assumes "sends sent lo hi m"
  shows "sends sent lo (max 1 n * hi) (with_retries n c m)"
  unfolding sends_def
proof
  fix w
  show "sent w + lo \<le> sent (snd (with_retries n c m w)) \<and> sent (snd (with_retries n c m w)) \<le> sent w + max 1 n * hi"
  proof (induction n arbitrary: w)
    case 0
    then show ?case using assms by (simp add: sends_def)
  next
    case (Suc n)
    obtain r w' where r: "m w = (r, w')" by (cases "m w")
    have m: "sent w + lo \<le> sent w'" "sent w' \<le> sent w + hi" using assms r unfolding sends_def by (metis snd_conv)+
    show ?case
    proof (cases "\<exists>e. r = Inl e \<and> c e \<and> n > 0")
      case True
      then have "with_retries (Suc n) c m w = with_retries n c m w'" "max 1 n = n" "max 1 (Suc n) = Suc n"
        using r by auto
      then show ?thesis using Suc.IH [of w'] m by simp
    next
      case False
      then have "snd (with_retries (Suc n) c m w) = w'" using r by (auto split: sum.splits)
      then show ?thesis using m by simp
    qed
  qed
qed

text \<open>An exception of a retried class comes out only when every attempt raised one.\<close>

lemma retries_exhausted:
  assumes "\<And>w. sent w < sent (snd (m w))" "fst (with_retries n c m w) = Inl e" "c e"
  shows "sent w + n \<le> sent (snd (with_retries n c m w))"
  using assms(2)
proof (induction n arbitrary: w)
  case 0
  then show ?case using assms(1) [of w] by simp
next
  case (Suc n)
  obtain r w' where r: "m w = (r, w')" by (cases "m w")
  have step: "sent w < sent w'" using assms(1) [of w] r by simp
  show ?case
  proof (cases "\<exists>e. r = Inl e \<and> c e \<and> n > 0")
    case True
    then have "with_retries (Suc n) c m w = with_retries n c m w'" using r by auto
    then show ?thesis using Suc step by fastforce
  next
    case False
    with Suc.prems r assms(3) have "n = 0" by (auto split: sum.splits if_splits)
    then show ?thesis using False r step by (auto split: sum.splits)
  qed
qed

lemma sends_helper: "counts V sent \<Longrightarrow> sends sent 1 1 (helper_request V xml method uri p hs)"
  unfolding sends_def
proof
  fix w
  assume c: "counts V sent"
  obtain r w' where e: "exchange V w xml method uri hs (encode_params V xml p) = (r, w')" by fastforce
  then have "sent w' = Suc (sent w)" using c unfolding counts_def by (metis snd_conv)
  moreover have "snd (helper_request V xml method uri p hs w) = w'"
    using e by (cases r) (simp_all add: helper_request_def)
  ultimately show "sent w + 1 \<le> sent (snd (helper_request V xml method uri p hs w)) \<and>
      sent (snd (helper_request V xml method uri p hs w)) \<le> sent w + 1" by simp
qed

lemma sends_client:
  assumes "counts V sent"
  shows "sends sent 1 ((max 1 (max_retries V))\<^sup>2) (client_request V xml method uri p hs)"
  using sends_retries [OF sends_retries [OF sends_helper [OF assms]]]
  by (fastforce simp: client_request_def retry_upon_exception_def power2_eq_square)

lemma sends_do_request:
  assumes "counts V sent"
  shows "sends sent 1 ((max 1 (max_retries V))\<^sup>2) (do_request V method uri p xml decode hs)"
proof -
  have "snd (do_request V method uri p xml decode hs w) = snd (client_request V xml method uri p hs w)" for w
    by (simp add: do_request_def bind_st_def split: prod.splits sum.splits option.splits)
  then show ?thesis using sends_client [OF assms] by (simp add: sends_def)
qed

text \<open>C34: The decorators bound the exchanges of a call. With \<open>n\<close> attempts configured (at least one is
  made) a request is sent between 1 and \<open>n\<^sup>2\<close> times, because the two retries of the client nest,
  and \<open>deploy_edge\<close>, which has two more, can send its request \<open>n\<^sup>4\<close> times. A conflict is reported
  only after \<open>n\<close> exchanges.\<close>

theorem request_retries_bounded:
  assumes "counts V sent" "n = max 1 (max_retries V)"
  shows "sent w + 1 \<le> sent (snd (do_request V method uri p xml decode hs w)) \<and>
    sent (snd (do_request V method uri p xml decode hs w)) \<le> sent w + n\<^sup>2 \<and>
    sent (snd (deploy_edge V request w)) \<le> sent w + n ^ 4 \<and>
    (\<forall>t. fst (client_request V xml method uri p hs w) = Inl (Vcns ServiceConflict t) \<longrightarrow>
      sent w + max_retries V \<le> sent (snd (client_request V xml method uri p hs w)))"
proof (intro conjI allI impI)
  note d = sends_do_request [OF assms(1), folded assms(2)]
  show "sent w + 1 \<le> sent (snd (do_request V method uri p xml decode hs w))"
    "sent (snd (do_request V method uri p xml decode hs w)) \<le> sent w + n\<^sup>2"
    using d by (simp_all add: sends_def)
  have "sends sent 1 (n * (n * n\<^sup>2)) (deploy_edge V request)"
    unfolding deploy_edge_def retry_upon_exception_def assms(2)
    by (intro sends_retries d [unfolded assms(2)])
  then show "sent (snd (deploy_edge V request w)) \<le> sent w + n ^ 4"
    by (simp add: sends_def power2_eq_square power4_eq_xxxx mult.assoc)
  fix t assume "fst (client_request V xml method uri p hs w) = Inl (Vcns ServiceConflict t)"
  moreover have "sent w < sent (snd (retry_upon_exception V ResourceConnectionError (helper_request V xml method uri p hs) w))" for w
  proof -
    have "sends sent 1 (max 1 (max_retries V) * 1)
        (retry_upon_exception V ResourceConnectionError (helper_request V xml method uri p hs))"
      unfolding retry_upon_exception_def by (rule sends_retries [OF sends_helper [OF assms(1)]])
    then have "sent w + 1 \<le> sent (snd (retry_upon_exception V ResourceConnectionError (helper_request V xml method uri p hs) w))"
      unfolding sends_def by blast
    then show ?thesis by simp
  qed
  ultimately show "sent w + max_retries V \<le> sent (snd (client_request V xml method uri p hs w))"
    unfolding client_request_def retry_upon_exception_def [of V ServiceConflict]
    by (intro retries_exhausted [where sent = sent and e = "Vcns ServiceConflict t"]) (blast, blast, rule is_kind_self)
qed

text \<open>A manager that answers every request with one status, and counts.\<close>

definition status_vcns :: "nat \<Rightarrow> nat \<Rightarrow> (nat, json) vcns" where
  "status_vcns status n = \<lparr>exchange = (\<lambda>w _ _ _ _ _. (Response status [] (JObj []), Suc w)), v_loads = Some, json_dumps = id,
     xml_dumps = id, xml_errorcode = (\<lambda>_. None), to_int = (\<lambda>j. case j of JInt i \<Rightarrow> Some i | _ \<Rightarrow> None),
     is_empty = (\<lambda>_. False), max_retries = n\<rparr>"

theorem request_retries_bounded_witness:
  "counts (status_vcns 409 3) id \<and> snd (deploy_edge (status_vcns 409 3) JNull 0) \<le> 81"
proof
  show c: "counts (status_vcns 409 3) id" by (simp add: counts_def status_vcns_def)
  have "(3::nat) = max 1 (max_retries (status_vcns 409 3))" by (simp add: status_vcns_def)
  from request_retries_bounded [OF c this, of 0 "''GET''" "[]" NoParams False True "[]" JNull]
  show "snd (deploy_edge (status_vcns 409 3) JNull 0) \<le> 81" by simp
qed


end
