(* ===== verification/EdgeAppliance.thy ===== *)
theory EdgeAppliance
  imports VcnsApi NsxvDb
begin

text \<open>
  The driver of the edge appliances (\<open>vshield/edge_appliance_driver.py\<close>) and the callbacks it
  makes when an edge has been deployed or updated (\<open>NsxVCallbacks\<close> in \<open>vshield/edge_utils.py\<close>).
  A state holds the manager, the tables of router bindings and edge vnics, the status that
  Neutron keeps for each router, the work handed to green threads and a counter for fresh
  identifiers. What the callbacks call outside these files is a parameter: the metadata
  proxy, the placement of the appliances on host groups, and the choice between two data stores.
\<close>

subsection \<open>State and environment\<close>

datatype 'd edge_exc = EVcns "'d vcns_exc" | EDb db_error | EPlugin string | EInvalid string | EBadRequest string | EPy py_exc

text \<open>Work for a green thread: deploying or deleting an edge; and the tasks that delete a virtual wire or
  a port group.\<close>

datatype job = Deploy_job string appliance_size edge_type string | Delete_job string "string option" bool | Delete_wire_job string
  | Delete_group_job string string

record ('w, 't, 'v) edge_state =
  es_world :: 'w
  es_rbs :: 't
  es_vnics :: 'v
  es_routers :: "(string, string) pydict"
  es_jobs :: "job list"
  es_next :: nat

record az =
  az_name :: string
  az_datacenter_moid :: "string option"
  az_resource_pool :: "string option"
  az_datastore_id :: "string option"
  az_ha_datastore_id :: "string option"
  az_ha_placement_random :: bool
  az_edge_ha :: bool
  az_external_network :: "string option"
  az_edge_host_groups :: "string list"
  az_backup_edge_pool :: "string list"
  az_dvs_id :: "string option"
  az_vdn_scope_id :: "string option"
  az_bind_floatingip_to_all_interfaces :: bool
  az_exclusive_dhcp_edge :: bool

record ('w, 'd, 't, 'v) edge_env =
  ee_vcns :: "('w, 'd) vcns"
  ee_rb :: "('t, router_binding) orm"
  ee_vb :: "('v, edge_vnic_binding) orm"
  ee_like :: "string \<Rightarrow> string \<Rightarrow> bool"
  ee_tunnels :: int
  ee_uuid :: "nat \<Rightarrow> string"
  ee_swap_datastores :: "'w \<Rightarrow> bool"
  ee_container_id :: "string option"
  ee_edge_user :: "string option"
  ee_edge_password :: "string option"
  ee_plr_address :: string
  ee_netmask :: string
  ee_metadata_handler :: "string \<Rightarrow> bool"
  ee_configure_metadata :: "string \<Rightarrow> 'w \<Rightarrow> ('d edge_exc + unit) \<times> 'w"
  ee_use_dvs :: bool
  ee_host_groups :: "string option \<Rightarrow> 'w \<Rightarrow> ('d edge_exc + unit) \<times> 'w"

type_synonym ('w, 'd, 't, 'v, 'a) edge_op = "('w, 't, 'v) edge_state \<Rightarrow> ('d edge_exc + 'a) \<times> ('w, 't, 'v) edge_state"

definition on_world :: "('w \<Rightarrow> ('d edge_exc + 'a) \<times> 'w) \<Rightarrow> ('w, 'd, 't, 'v, 'a) edge_op" where
  "on_world f s = (case f (es_world s) of (r, w) \<Rightarrow> (r, s\<lparr>es_world := w\<rparr>))"

definition call :: "('w, 'd, 'a) vcns_op \<Rightarrow> ('w, 'd, 't, 'v, 'a) edge_op" where
  "call f s = (case f (es_world s) of
     (Inl e, w) \<Rightarrow> (Inl (EVcns e), s\<lparr>es_world := w\<rparr>)
   | (Inr x, w) \<Rightarrow> (Inr x, s\<lparr>es_world := w\<rparr>))"

text \<open>\<open>except VcnsApiException\<close>.\<close>

fun is_api :: "'d edge_exc \<Rightarrow> bool" where
  "is_api (EVcns (Vcns _ _)) = True"
| "is_api _ = False"

definition update_rb :: "('w, 'd, 't, 'v) edge_env \<Rightarrow> string \<Rightarrow> rb_attr list \<Rightarrow> ('w, 'd, 't, 'v, unit) edge_op" where
  "update_rb E router_id attrs s =
     (case update_nsxv_router_binding (ee_rb E) (es_rbs s) router_id attrs of
        Inl e \<Rightarrow> (Inl (EDb e), s)
      | Inr (_, t) \<Rightarrow> (Inr (), s\<lparr>es_rbs := t\<rparr>))"

definition delete_rb :: "('w, 'd, 't, 'v) edge_env \<Rightarrow> string \<Rightarrow> ('w, 't, 'v) edge_state \<Rightarrow> ('w, 't, 'v) edge_state" where
  "delete_rb E router_id s = s\<lparr>es_rbs := delete_nsxv_router_binding (ee_rb E) (es_rbs s) router_id\<rparr>"

definition clean_vnics :: "('w, 'd, 't, 'v) edge_env \<Rightarrow> string \<Rightarrow> ('w, 't, 'v) edge_state \<Rightarrow> ('w, 't, 'v) edge_state" where
  "clean_vnics E edge_id s = s\<lparr>es_vnics := clean_edge_vnic_binding (ee_vb E) (es_vnics s) edge_id\<rparr>"

definition init_vnics :: "('w, 'd, 't, 'v) edge_env \<Rightarrow> string \<Rightarrow> ('w, 'd, 't, 'v, unit) edge_op" where
  "init_vnics E edge_id s =
     (case init_edge_vnic_binding (ee_vb E) (ee_tunnels E) (es_vnics s) edge_id of
        Inl e \<Rightarrow> (Inl (EDb e), s)
      | Inr t \<Rightarrow> (Inr (), s\<lparr>es_vnics := t\<rparr>))"

abbreviation "ST_ACTIVE \<equiv> ''ACTIVE''"
abbreviation "ST_ERROR \<equiv> ''ERROR''"
abbreviation "ST_PENDING_CREATE \<equiv> ''PENDING_CREATE''"
abbreviation "ST_PENDING_UPDATE \<equiv> ''PENDING_UPDATE''"
abbreviation "ST_PENDING_DELETE \<equiv> ''PENDING_DELETE''"

subsection \<open>The description of an edge\<close>

definition EXTERNAL_VNIC_INDEX :: int where "EXTERNAL_VNIC_INDEX = 0"
definition INTERNAL_VNIC_INDEX :: int where "INTERNAL_VNIC_INDEX = 1"
definition EXTERNAL_VNIC_NAME :: string where "EXTERNAL_VNIC_NAME = ''external''"
definition INTERNAL_VNIC_NAME :: string where "INTERNAL_VNIC_NAME = ''internal''"

definition given :: "string option \<Rightarrow> bool" where
  "given v \<longleftrightarrow> v \<noteq> None \<and> v \<noteq> Some []"

definition when_given :: "string \<Rightarrow> string option \<Rightarrow> (string \<times> json) list" where
  "when_given k v = (if given v then [(k, opt_json v)] else [])"

definition feature :: "string \<Rightarrow> json" where
  "feature ty = JObj [(''featureType'', JStr ty), (''enabled'', JBool True)]"

text \<open>The features are the only nested list the code appends to; the description keeps them apart
  until it is sent.\<close>

record edge_desc =
  ed_name :: string
  ed_size :: string
  ed_dist :: bool
  ed_features :: "json list"
  ed_remote_access :: bool
  ed_credentials :: "(string \<times> json) list"
  ed_container :: "string option"
  ed_datacenter :: "string option"
  ed_appliances :: "json list"
  ed_vnics :: "json list"
  ed_mgmt :: "json option"
  ed_id :: "string option"

definition assemble_edge :: "string \<Rightarrow> appliance_size \<Rightarrow> string option \<Rightarrow> string option \<Rightarrow> bool \<Rightarrow> bool \<Rightarrow> bool \<Rightarrow> edge_desc" where
  "assemble_edge name appliance_size container datacenter dist remote_access edge_ha =
     \<lparr>ed_name = name, ed_size = appliance_size_str appliance_size, ed_dist = dist,
      ed_features = JObj [(''featureType'', JStr ''firewall_4.0''),
          (''globalConfig'', JObj [(''tcpTimeoutEstablished'', JInt 7200)])] #
        (if \<not> dist \<and> edge_ha then [feature ''highavailability_4.0''] else []),
      ed_remote_access = remote_access, ed_credentials = [], ed_container = container, ed_datacenter = datacenter,
      ed_appliances = [], ed_vnics = [], ed_mgmt = None, ed_id = None\<rparr>"

definition edge_json :: "edge_desc \<Rightarrow> json" where
  "edge_json e = JObj
     ([(''name'', JStr (ed_name e)), (''fqdn'', JNull), (''enableAesni'', JBool True), (''enableFips'', JBool False),
       (''featureConfigs'', JObj [(''features'', JList (ed_features e))]),
       (''cliSettings'', JObj ((''remoteAccess'', JBool (ed_remote_access e)) # ed_credentials e)),
       (''autoConfiguration'', JObj [(''enabled'', JBool False), (''rulePriority'', JStr ''high'')]),
       (''appliances'', JObj ((''applianceSize'', JStr (ed_size e)) # when_given ''deploymentContainerId'' (ed_container e) @
          (if ed_appliances e = [] then [] else [(''appliances'', JList (ed_appliances e))])))] @
      (if ed_dist e then [(''type'', JStr ''distributedRouter''), (''interfaces'', JObj [(''interfaces'', JList [])])]
       else [(''type'', JStr ''gatewayServices''), (''vnics'', JObj [(''vnics'', JList (ed_vnics e))])]) @
      when_given ''datacenterMoid'' (ed_datacenter e) @
      (case ed_id e of None \<Rightarrow> [] | Some i \<Rightarrow> [(''id'', JStr i)]) @
      (case ed_mgmt e of None \<Rightarrow> [] | Some m \<Rightarrow> [(''mgmtInterface'', m)]))"

definition select_datastores :: "('w, 'd, 't, 'v) edge_env \<Rightarrow> az \<Rightarrow> 'w \<Rightarrow> string option \<times> string option" where
  "select_datastores E z w =
     (if az_ha_placement_random z \<and> ee_swap_datastores E w then (az_ha_datastore_id z, az_datastore_id z)
      else (az_datastore_id z, az_ha_datastore_id z))"

definition assemble_edge_appliance :: "string option \<Rightarrow> string option \<Rightarrow> json" where
  "assemble_edge_appliance resource_pool datastore =
     JObj (when_given ''resourcePoolId'' resource_pool @ when_given ''datastoreId'' datastore)"

definition assemble_edge_appliances :: "('w, 'd, 't, 'v) edge_env \<Rightarrow> az \<Rightarrow> 'w \<Rightarrow> json list" where
  "assemble_edge_appliances E z w =
     (if given (az_ha_datastore_id z) \<and> az_edge_ha z then
        (case select_datastores E z w of (primary, secondary) \<Rightarrow>
           [assemble_edge_appliance (az_resource_pool z) primary, assemble_edge_appliance (az_resource_pool z) secondary])
      else if given (az_datastore_id z) then [assemble_edge_appliance (az_resource_pool z) (az_datastore_id z)]
      else [])"

definition address_groups :: "json list \<Rightarrow> json" where
  "address_groups gs = JObj [(''addressGroups'', JList gs)]"

definition address_group :: "string \<Rightarrow> string \<Rightarrow> string list \<Rightarrow> json" where
  "address_group primary netmask secondary =
     JObj ([(''primaryAddress'', JStr primary), (''subnetMask'', JStr netmask)] @
       (if secondary = [] then [] else [(''secondaryAddresses'',
          JObj [(''ipAddress'', JList (map JStr secondary)), (''type'', JStr ''secondary_addresses'')])]))"

definition assemble_edge_vnic :: "string \<Rightarrow> int \<Rightarrow> string option \<Rightarrow> int \<Rightarrow> string option \<Rightarrow> string option \<Rightarrow> string list \<Rightarrow>
    string \<Rightarrow> bool \<Rightarrow> json list \<Rightarrow> json" where
  "assemble_edge_vnic name index portgroup_id tunnel_index primary netmask secondary ty is_connected groups =
     JObj ([(''index'', JInt index), (''name'', JStr name), (''type'', JStr ty), (''portgroupId'', opt_json portgroup_id),
        (''mtu'', JInt 1500), (''enableProxyArp'', JBool False), (''enableSendRedirects'', JBool True),
        (''isConnected'', JBool is_connected)] @
       (if groups = [] then
          (if given primary \<and> given netmask
           then [(''addressGroups'', address_groups [address_group (the primary) (the netmask) secondary])]
           else [(''subInterfaces'', JObj [(''subInterfaces'', JList groups)])])
        else if tunnel_index < 0 then [(''addressGroups'', address_groups groups)]
        else [(''subInterfaces'', JObj [(''subInterfaces'', JList groups)])]))"

definition assemble_vdr_interface :: "string option \<Rightarrow> string option \<Rightarrow> string option \<Rightarrow> string list \<Rightarrow> string \<Rightarrow> bool \<Rightarrow>
    json list \<Rightarrow> json" where
  "assemble_vdr_interface portgroup_id primary netmask secondary ty is_connected groups =
     JObj [(''interfaces'', JList [JObj ([(''type'', JStr ty), (''connectedToId'', opt_json portgroup_id), (''mtu'', JInt 1500),
        (''isConnected'', JBool is_connected)] @
       (if groups = [] then
          (if given primary \<and> given netmask
           then [(''addressGroups'', address_groups [address_group (the primary) (the netmask) secondary])] else [])
        else [(''addressGroups'', address_groups groups)]))])]"

text \<open>How \<open>deploy_edge\<close> and \<open>update_edge\<close> complete the description. The internal vnic is given the
  address as its tunnel index and the netmask as its address, so it gets no address group;
  a distributed edge has no list of vnics to append it to.\<close>

definition complete_desc :: "('w, 'd, 't, 'v) edge_env \<Rightarrow> az \<Rightarrow> string option \<Rightarrow> 'w \<Rightarrow> edge_desc \<Rightarrow> py_exc + edge_desc" where
  "complete_desc E z internal_network w e =
     (let e = e\<lparr>ed_appliances := assemble_edge_appliances E z w\<rparr>;
          e = (if ed_dist e
            then e\<lparr>ed_mgmt := Some (JObj [(''connectedToId'', opt_json (az_external_network z)), (''name'', JStr ''mgmtInterface'')])\<rparr>
            else e\<lparr>ed_vnics := [assemble_edge_vnic EXTERNAL_VNIC_NAME EXTERNAL_VNIC_INDEX (az_external_network z)
              (-1) None None [] ''uplink'' True []]\<rparr>)
      in if given internal_network
         then (if ed_dist e then Inl KeyError
           else Inr (e\<lparr>ed_vnics := ed_vnics e @ [assemble_edge_vnic INTERNAL_VNIC_NAME INTERNAL_VNIC_INDEX internal_network
             0 (Some (ee_netmask E)) None [] ''internal'' True []]\<rparr>))
         else Inr e)"

definition add_feature :: "string \<Rightarrow> edge_desc \<Rightarrow> edge_desc" where
  "add_feature ty e = e\<lparr>ed_features := ed_features e @ [feature ty]\<rparr>"

subsection \<open>Callbacks (\<open>NsxVCallbacks\<close>)\<close>

definition set_router_status :: "string \<Rightarrow> string \<Rightarrow> ('w, 't, 'v) edge_state \<Rightarrow> ('w, 't, 'v) edge_state" where
  "set_router_status router_id status s = s\<lparr>es_routers := AList.update router_id status (es_routers s)\<rparr>"

text \<open>The router of an edge is looked up only when its identifier is a UUID, which the identifiers of
  backup and DHCP edges are not; a router that is gone is None.\<close>

definition router_db :: "(string \<Rightarrow> bool) \<Rightarrow> string \<Rightarrow> ('w, 't, 'v) edge_state \<Rightarrow> string option" where
  "router_db is_uuid router_id s = (if is_uuid router_id then map_of (es_routers s) router_id else None)"

definition complete_edge_creation :: "('w, 'd, 't, 'v) edge_env \<Rightarrow> (string \<Rightarrow> bool) \<Rightarrow> string option \<Rightarrow> string \<Rightarrow> bool \<Rightarrow>
    bool \<Rightarrow> az \<Rightarrow> bool \<Rightarrow> ('w, 'd, 't, 'v, unit) edge_op" where
  "complete_edge_creation E is_uuid edge_id router_id dist deploy_successful z deploy_metadata s =
     (let router = router_db is_uuid router_id s in
      if deploy_successful then
        bind_st (if deploy_metadata \<and> ee_metadata_handler E (az_name z)
            then on_world (ee_configure_metadata E router_id) else return_st ()) (\<lambda>_ s.
        bind_st (update_rb E router_id [Rb_status ST_ACTIVE]) (\<lambda>_.
          if \<not> dist \<and> ee_use_dvs E \<and> az_edge_ha z \<and> az_edge_host_groups z \<noteq> []
          then on_world (ee_host_groups E edge_id) else return_st ())
          (if router = Some ST_PENDING_CREATE then set_router_status router_id ST_ACTIVE s else s)) s
      else
        bind_st (update_rb E router_id [Rb_status ST_ERROR]) (\<lambda>_ s.
          (Inr (), if \<not> dist \<and> given edge_id then clean_vnics E (the edge_id) s else s))
          (if router \<noteq> None then set_router_status router_id ST_ERROR s else s))"

definition complete_edge_update :: "('w, 'd, 't, 'v) edge_env \<Rightarrow> string \<Rightarrow> bool \<Rightarrow> bool \<Rightarrow> bool \<Rightarrow>
    ('w, 'd, 't, 'v, unit) edge_op" where
  "complete_edge_update E router_id successful set_errors has_context s =
     (if successful then (Inr (), s)
      else bind_st (if get_nsxv_router_binding (ee_rb E) (es_rbs s) router_id \<noteq> None
            then update_rb E router_id [Rb_status ST_ERROR] else return_st ()) (\<lambda>_ s.
          (Inr (), if set_errors \<and> has_context \<and> map_of (es_routers s) router_id \<noteq> None
             then set_router_status router_id ST_ERROR s else s)) s)"

subsection \<open>Operations on edges\<close>

datatype router_status = STATUS_ACTIVE | STATUS_DOWN | STATUS_PENDING_CREATE | STATUS_PENDING_DELETE | STATUS_ERROR

definition edge_status_to_level :: "json \<Rightarrow> router_status" where
  "edge_status_to_level status =
     (if status = JStr ''GREEN'' then STATUS_ACTIVE
      else if status = JStr ''GREY'' \<or> status = JStr ''YELLOW'' then STATUS_DOWN
      else STATUS_ERROR)"

text \<open>After an error the response's code tells an edge that is not running from a broken one; a text
  that is not JSON leaves the error, and one that is not an object raises.\<close>

definition driver_get_edge_status :: "('w, 'd, 't, 'v) edge_env \<Rightarrow> string \<Rightarrow> ('w, 'd, 't, 'v, router_status) edge_op" where
  "driver_get_edge_status E edge_id s =
     (case call (get_edge_status (ee_vcns E) edge_id) s of
        (Inr r, s) \<Rightarrow>
          (case bind_res (body_of r) (jfield ''edgeStatus'') of
             Inl e \<Rightarrow> (Inl (EPy e), s)
           | Inr status \<Rightarrow> (Inr (edge_status_to_level status), s))
      | (Inl (EVcns (Vcns k response)), s) \<Rightarrow>
          (case response of
             None \<Rightarrow> (Inl (EPy TypeError), s)
           | Some text \<Rightarrow>
               (case v_loads (ee_vcns E) text of
                  None \<Rightarrow> (Inr STATUS_ERROR, s)
                | Some j \<Rightarrow>
                    (case jfield_opt ''errorCode'' j of
                       Inl e \<Rightarrow> (Inl (EPy e), s)
                     | Inr code \<Rightarrow> (Inr (if code = JInt 10013 then STATUS_DOWN else STATUS_ERROR), s))))
      | (Inl e, s) \<Rightarrow> (Inl e, s))"

definition driver_get_interface :: "('w, 'd, 't, 'v) edge_env \<Rightarrow> string \<Rightarrow> nat \<Rightarrow> ('w, 'd, 't, 'v, headers \<times> 'd content) edge_op" where
  "driver_get_interface E edge_id vnic_index = call (query_interface (ee_vcns E) edge_id vnic_index)"

definition driver_update_interface :: "('w, 'd, 't, 'v) edge_env \<Rightarrow> string \<Rightarrow> int \<Rightarrow> string option \<Rightarrow> int \<Rightarrow> string option \<Rightarrow>
    string option \<Rightarrow> string list \<Rightarrow> bool \<Rightarrow> json list \<Rightarrow> ('w, 'd, 't, 'v, unit) edge_op" where
  "driver_update_interface E edge_id index network tunnel_index address netmask secondary is_connected groups =
     (let (name, intf_type) = (if index = EXTERNAL_VNIC_INDEX then (EXTERNAL_VNIC_NAME, ''uplink'')
          else (INTERNAL_VNIC_NAME @ int_str index, if tunnel_index < 0 then ''internal'' else ''trunk''))
      in bind_st (call (update_interface (ee_vcns E) edge_id
           (assemble_edge_vnic name index network tunnel_index address netmask secondary intf_type is_connected groups)))
           (\<lambda>_. return_st ()))"

text \<open>The index of the interface on the network, if the answer lists one.\<close>

fun find_interface :: "('w, 'd) vcns \<Rightarrow> json \<Rightarrow> json list \<Rightarrow> py_exc + int option" where
  "find_interface V network [] = Inr None"
| "find_interface V network (i # is) =
     bind_res (jfield ''connectedToId'' i) (\<lambda>n.
       if n = network then bind_res (jfield ''index'' i) (\<lambda>x. case to_int V x of None \<Rightarrow> Inl ValueError | Some k \<Rightarrow> Inr (Some k))
       else find_interface V network is)"

definition driver_add_vdr_internal_interface :: "('w, 'd, 't, 'v) edge_env \<Rightarrow> string \<Rightarrow> string option \<Rightarrow> string option \<Rightarrow>
    string option \<Rightarrow> string list \<Rightarrow> json list \<Rightarrow> string \<Rightarrow> bool \<Rightarrow> ('w, 'd, 't, 'v, int option) edge_op" where
  "driver_add_vdr_internal_interface E edge_id network address netmask secondary groups ty is_connected =
     bind_st (call (add_vdr_internal_interface (ee_vcns E) edge_id
         (assemble_vdr_interface network address netmask secondary ty is_connected groups))) (\<lambda>_.
     call (with_body (get_edge_interfaces (ee_vcns E) edge_id) (\<lambda>j.
         bind_res (bind_res (jfield ''interfaces'' j) as_list) (find_interface (ee_vcns E) (opt_json network)))))"

definition driver_update_vdr_internal_interface :: "('w, 'd, 't, 'v) edge_env \<Rightarrow> string \<Rightarrow> string \<Rightarrow> string option \<Rightarrow> json list \<Rightarrow>
    bool \<Rightarrow> ('w, 'd, 't, 'v, unit) edge_op" where
  "driver_update_vdr_internal_interface E edge_id index network groups is_connected =
     bind_st (call (update_vdr_internal_interface (ee_vcns E) edge_id index
       (JObj [(''interface'', JObj [(''type'', JStr ''internal''), (''connectedToId'', opt_json network), (''mtu'', JInt 1500),
          (''isConnected'', JBool is_connected), (''addressGroups'', JObj [(''addressGroup'', JList groups)])])])))
       (\<lambda>_. return_st ())"

definition driver_delete_vdr_internal_interface :: "('w, 'd, 't, 'v) edge_env \<Rightarrow> string \<Rightarrow> nat \<Rightarrow> ('w, 'd, 't, 'v, unit) edge_op" where
  "driver_delete_vdr_internal_interface E edge_id index =
     bind_st (call (delete_vdr_internal_interface (ee_vcns E) edge_id index)) (\<lambda>_. return_st ())"

definition driver_delete_interface :: "('w, 'd, 't, 'v) edge_env \<Rightarrow> string \<Rightarrow> nat \<Rightarrow> ('w, 'd, 't, 'v, unit) edge_op" where
  "driver_delete_interface E edge_id index =
     catch_st (bind_st (call (delete_interface (ee_vcns E) edge_id index)) (\<lambda>_. return_st ()))
       (\<lambda>e. case e of EVcns (Vcns ResourceNotFound _) \<Rightarrow> return_st () | _ \<Rightarrow> raise_st e)"

text \<open>\<open>deploy_edge\<close>: the new edge's identifier is the last part of the location header. A failure of the
  manager marks the binding, and an answer without a location does so before it raises.\<close>

definition location_id :: "headers \<Rightarrow> string" where
  "location_id hs = rev (takeWhile (\<lambda>c. c \<noteq> CHR ''/'') (rev (case map_of hs ''location'' of Some l \<Rightarrow> l | None \<Rightarrow> ''/'')))"

definition deploy_body :: "('w, 'd, 't, 'v) edge_env \<Rightarrow> string \<Rightarrow> string option \<Rightarrow> bool \<Rightarrow> bool \<Rightarrow> appliance_size \<Rightarrow> az \<Rightarrow> 'w \<Rightarrow>
    py_exc + json" where
  "deploy_body E name internal_network dist lb size_arg z w =
     bind_res (complete_desc E z internal_network w
         (assemble_edge name size_arg (ee_container_id E) (az_datacenter_moid z) dist False (az_edge_ha z))) (\<lambda>e.
       let e = (if given (ee_edge_user E) \<and> given (ee_edge_password E)
             then e\<lparr>ed_credentials := [(''userName'', opt_json (ee_edge_user E)), (''password'', opt_json (ee_edge_password E))]\<rparr> else e);
           e = (if \<not> dist \<and> lb then add_feature ''loadbalancer_4.0'' e else e)
       in Inr (edge_json e))"

definition driver_deploy_edge :: "('w, 'd, 't, 'v) edge_env \<Rightarrow> (string \<Rightarrow> bool) \<Rightarrow> string \<Rightarrow> string \<Rightarrow> string option \<Rightarrow> bool \<Rightarrow> bool \<Rightarrow>
    appliance_size \<Rightarrow> az \<Rightarrow> bool \<Rightarrow> ('w, 'd, 't, 'v, string) edge_op" where
  "driver_deploy_edge E is_uuid router_id name internal_network dist lb size_arg z deploy_metadata s =
     (case deploy_body E name internal_network dist lb size_arg z (es_world s) of
        Inl e \<Rightarrow> (Inl (EPy e), s)
      | Inr edge \<Rightarrow>
          (case call (deploy_edge (ee_vcns E) edge) s of
             (Inl e, s) \<Rightarrow>
               if is_api e
               then bind_st (complete_edge_creation E is_uuid None router_id dist False z False) (\<lambda>_. raise_st e) s
               else (Inl e, s)
           | (Inr (header, _), s) \<Rightarrow>
               let edge_id = location_id header in
               if edge_id = [] then
                 bind_st (if router_id \<noteq> [] then update_rb E router_id [Rb_status ST_ERROR] else return_st ())
                   (\<lambda>_. raise_st (EPlugin ''Failed to deploy edge'')) s
               else
                 bind_st (update_rb E router_id [Rb_edge_id (Some edge_id)]) (\<lambda>_.
                 bind_st (if dist then return_st () else init_vnics E edge_id) (\<lambda>_ s.
                 (case complete_edge_creation E is_uuid (Some edge_id) router_id dist True z deploy_metadata s of
                    (Inr _, s) \<Rightarrow> (Inr edge_id, s)
                  | (Inl e, s) \<Rightarrow>
                      if is_api e
                      then bind_st (complete_edge_creation E is_uuid (Some edge_id) router_id dist False z False) (\<lambda>_. raise_st e) s
                      else (Inl e, s)))) s))"

definition driver_update_edge :: "('w, 'd, 't, 'v) edge_env \<Rightarrow> string \<Rightarrow> string \<Rightarrow> string \<Rightarrow> string option \<Rightarrow> bool \<Rightarrow> bool \<Rightarrow>
    appliance_size \<Rightarrow> bool \<Rightarrow> az \<Rightarrow> bool \<Rightarrow> ('w, 'd, 't, 'v, bool) edge_op" where
  "driver_update_edge E router_id edge_id name internal_network dist lb size_arg set_errors z has_context s =
     (case complete_desc E z internal_network (es_world s)
         (assemble_edge name size_arg (ee_container_id E) (az_datacenter_moid z) dist False (az_edge_ha z)) of
        Inl e \<Rightarrow> (Inl (EPy e), s)
      | Inr e \<Rightarrow>
          let e = (if \<not> dist \<and> lb then add_feature ''loadbalancer_4.0'' e else e)\<lparr>ed_id := Some edge_id\<rparr> in
          (case call (update_edge (ee_vcns E) edge_id (edge_json e)) s of
             (Inr _, s) \<Rightarrow> bind_st (complete_edge_update E router_id True set_errors has_context) (\<lambda>_. return_st True) s
           | (Inl x, s) \<Rightarrow>
               if is_api x then bind_st (complete_edge_update E router_id False set_errors has_context) (\<lambda>_. return_st False) s
               else (Inl x, s)))"

text \<open>Renaming and resizing send the manager's own description back with one key changed; failures of
  the manager are logged only.\<close>

definition irrelevant_keys :: "string list" where
  "irrelevant_keys = [''status'', ''datacenterMoid'', ''fqdn'', ''version'', ''tenant'', ''datacenterName'',
     ''hypervisorAssist'', ''universal'', ''enableFips'']"

fun remove_irrelevant_keys_from_edge_request :: "json \<Rightarrow> json" where
  "remove_irrelevant_keys_from_edge_request (JObj al) = JObj (filter (\<lambda>(k, _). k \<notin> set irrelevant_keys) al)"
| "remove_irrelevant_keys_from_edge_request j = j"

definition logged :: "('w, 'd, 't, 'v, unit) edge_op \<Rightarrow> ('w, 'd, 't, 'v, unit) edge_op" where
  "logged m = catch_st m (\<lambda>e. if is_api e then return_st () else raise_st e)"

definition driver_rename_edge :: "('w, 'd, 't, 'v) edge_env \<Rightarrow> string \<Rightarrow> string \<Rightarrow> ('w, 'd, 't, 'v, unit) edge_op" where
  "driver_rename_edge E edge_id name =
     logged (bind_st (call (with_body (get_edge (ee_vcns E) edge_id) (\<lambda>edge.
         bind_res (jfield ''name'' edge) (\<lambda>old. Inr (old, edge))))) (\<lambda>(old, edge).
       if old = JStr name then return_st ()
       else bind_st (call (update_edge (ee_vcns E) edge_id
             (jset ''name'' (JStr name) (remove_irrelevant_keys_from_edge_request edge)))) (\<lambda>_. return_st ())))"

definition driver_resize_edge :: "('w, 'd, 't, 'v) edge_env \<Rightarrow> (json \<Rightarrow> bool) \<Rightarrow> json option \<Rightarrow> string \<Rightarrow> string \<Rightarrow>
    ('w, 'd, 't, 'v, unit) edge_op" where
  "driver_resize_edge E before_6_2_3 nsx_version edge_id new_size =
     logged (bind_st (call (with_body (get_edge (ee_vcns E) edge_id) (\<lambda>edge.
         bind_res (jfield_opt ''appliances'' edge) (\<lambda>a.
           if truthy_json a then bind_res (jfield ''applianceSize'' a) (\<lambda>z. Inr (z = JStr new_size, edge))
           else Inr (False, edge))))) (\<lambda>(same, edge) s.
       if same then (Inr (), s)
       else (case get_version (ee_vcns E) nsx_version (es_world s) of
           ((v, _), w) \<Rightarrow>
             let s = s\<lparr>es_world := w\<rparr>; edge = (if before_6_2_3 v then remove_irrelevant_keys_from_edge_request edge else edge) in
             (case jfield ''appliances'' edge of
                Inl e \<Rightarrow> (Inl (EPy e), s)
              | Inr (JObj al) \<Rightarrow> bind_st (call (update_edge (ee_vcns E) edge_id
                    (jset ''appliances'' (jset ''applianceSize'' (JStr new_size) (JObj al)) edge))) (\<lambda>_. return_st ()) s
              | Inr _ \<Rightarrow> (Inl (EPy TypeError), s)))))"

text \<open>\<open>delete_edge\<close> forgets the binding and the vnics first. Its result is None for an empty edge
  identifier; every failure of the manager, whatever its class, is False.\<close>

definition driver_delete_edge :: "('w, 'd, 't, 'v) edge_env \<Rightarrow> string \<Rightarrow> string option \<Rightarrow> bool \<Rightarrow>
    ('w, 't, 'v) edge_state \<Rightarrow> bool option \<times> ('w, 't, 'v) edge_state" where
  "driver_delete_edge E router_id edge_id dist s =
     (let s = delete_rb E router_id s;
          s = (if dist then s else (case edge_id of None \<Rightarrow> s | Some i \<Rightarrow> clean_vnics E i s))
      in if \<not> given edge_id then (None, s)
         else (case delete_edge (ee_vcns E) (the edge_id) (es_world s) of
             (Inr _, w) \<Rightarrow> (Some True, s\<lparr>es_world := w\<rparr>)
           | (Inl (Vcns ResourceNotFound _), w) \<Rightarrow> (Some True, s\<lparr>es_world := w\<rparr>)
           | (Inl _, w) \<Rightarrow> (Some False, s\<lparr>es_world := w\<rparr>)))"


subsection \<open>Services of an edge\<close>

text \<open>A NAT rule of the plugin, with the vnic it names, if any: a destination rule becomes one rule in
  each direction. Index 0 is false, so such a rule is repeated for the given indices too.\<close>

record nat_rule =
  nr_match :: string
  nr_translated :: string
  nr_vnic :: "int option"

definition assemble_nat_rule :: "string \<Rightarrow> string \<Rightarrow> string \<Rightarrow> int option \<Rightarrow> json" where
  "assemble_nat_rule action original translated vnic_index =
     JObj ([(''action'', JStr action)] @
       (case vnic_index of None \<Rightarrow> [] | Some i \<Rightarrow> [(''vnic'', JInt i)]) @
       [(''originalAddress'', JStr original), (''translatedAddress'', JStr translated), (''enabled'', JBool True),
        (''protocol'', JStr ''any''), (''originalPort'', JStr ''any''), (''translatedPort'', JStr ''any'')])"

definition rule_vnics :: "int list \<Rightarrow> nat_rule \<Rightarrow> int option list" where
  "rule_vnics indices r =
     (if nr_vnic r \<noteq> None \<and> nr_vnic r \<noteq> Some 0 \<or> indices = [] then [nr_vnic r] else map Some indices)"

definition nat_rules :: "nat_rule list \<Rightarrow> nat_rule list \<Rightarrow> int list \<Rightarrow> json list" where
  "nat_rules snats dnats indices =
     concat (map (\<lambda>d. concat (map (\<lambda>v.
         [assemble_nat_rule ''dnat'' (nr_match d) (nr_translated d) v,
          assemble_nat_rule ''snat'' (nr_translated d) (nr_match d) v]) (rule_vnics indices d))) dnats) @
     concat (map (\<lambda>r. map (assemble_nat_rule ''snat'' (nr_match r) (nr_translated r)) (rule_vnics indices r)) snats)"

definition accepted :: "('w, 'd, 't, 'v, 'a) edge_op \<Rightarrow> ('w, 'd, 't, 'v, bool) edge_op" where
  "accepted m = catch_st (bind_st m (\<lambda>_. return_st True)) (\<lambda>e. if is_api e then return_st False else raise_st e)"

definition driver_get_nat_config :: "('w, 'd, 't, 'v) edge_env \<Rightarrow> string \<Rightarrow> ('w, 'd, 't, 'v, json) edge_op" where
  "driver_get_nat_config E edge_id = call (with_body (get_nat_config (ee_vcns E) edge_id) Inr)"

definition driver_update_nat_rules :: "('w, 'd, 't, 'v) edge_env \<Rightarrow> string \<Rightarrow> nat_rule list \<Rightarrow> nat_rule list \<Rightarrow> int list \<Rightarrow>
    ('w, 'd, 't, 'v, bool) edge_op" where
  "driver_update_nat_rules E edge_id snats dnats indices =
     accepted (call (update_nat_config (ee_vcns E) edge_id
       (JObj [(''featureType'', JStr ''nat''), (''rules'', JObj [(''natRulesDtos'', JList (nat_rules snats dnats indices))])])))"

record edge_route =
  er_cidr :: string
  er_nexthop :: string
  er_vnic :: "int option"

definition routes_request :: "string option \<Rightarrow> edge_route list \<Rightarrow> json" where
  "routes_request gateway routes =
     (let gw = map_option (takeWhile (\<lambda>c. c \<noteq> CHR ''/'')) gateway in
      JObj ([(''staticRoutes'', JObj [(''staticRoutes'', JList (map (\<lambda>r. JObj [(''description'', JStr []),
          (''vnic'', JInt (case er_vnic r of None \<Rightarrow> INTERNAL_VNIC_INDEX | Some i \<Rightarrow> i)),
          (''network'', JStr (er_cidr r)), (''nextHop'', JStr (er_nexthop r))]) routes))])] @
        (if given gw then [(''defaultRoute'', JObj [(''description'', JStr ''default-gateway''), (''gatewayAddress'', opt_json gw)])]
         else [])))"

definition driver_update_routes :: "('w, 'd, 't, 'v) edge_env \<Rightarrow> string \<Rightarrow> string option \<Rightarrow> edge_route list \<Rightarrow>
    ('w, 'd, 't, 'v, bool) edge_op" where
  "driver_update_routes E edge_id gateway routes =
     accepted (call (update_routes (ee_vcns E) edge_id (routes_request gateway routes)))"

text \<open>\<open>port_isolation is bool\<close> compares with the type itself and never holds.\<close>

definition driver_create_lswitch :: "('w, 'd, 't, 'v) edge_env \<Rightarrow> string \<Rightarrow> json \<Rightarrow> json list \<Rightarrow> string \<Rightarrow>
    ('w, 'd, 't, 'v, json) edge_op" where
  "driver_create_lswitch E display_name tz_config tags replication_mode =
     call (with_body (create_lswitch (ee_vcns E) (JObj ([(''display_name'', JStr display_name), (''tags'', JList tags),
         (''type'', JStr ''LogicalSwitchConfig''), (''_schema'', JStr ''/ws.v1/schema/LogicalSwitchConfig''),
         (''transport_zones'', tz_config)] @
         (if replication_mode = [] then [] else [(''replication_mode'', JStr replication_mode)])))) Inr)"

definition driver_delete_lswitch :: "('w, 'd, 't, 'v) edge_env \<Rightarrow> string \<Rightarrow> ('w, 'd, 't, 'v, unit) edge_op" where
  "driver_delete_lswitch E lswitch_id = bind_st (call (delete_lswitch (ee_vcns E) lswitch_id)) (\<lambda>_. return_st ())"

definition driver_get_loadbalancer_config :: "('w, 'd, 't, 'v) edge_env \<Rightarrow> string \<Rightarrow> ('w, 'd, 't, 'v, json) edge_op" where
  "driver_get_loadbalancer_config E edge_id = call (with_body (get_loadbalancer_config (ee_vcns E) edge_id) Inr)"

definition driver_enable_service_loadbalancer :: "('w, 'd, 't, 'v) edge_env \<Rightarrow> string \<Rightarrow> ('w, 'd, 't, 'v, unit) edge_op" where
  "driver_enable_service_loadbalancer E edge_id =
     bind_st (driver_get_loadbalancer_config E edge_id) (\<lambda>config s.
       case jfield ''enabled'' config of
         Inl e \<Rightarrow> (Inl (EPy e), s)
       | Inr on \<Rightarrow>
           bind_st (call (enable_service_loadbalancer (ee_vcns E) edge_id
             (if truthy_json on then config else jset ''enabled'' (JBool True) config))) (\<lambda>_. return_st ()) s)"

text \<open>One run of a retried task: the status it reports and the number of the next attempt; the last
  failure is raised.\<close>

datatype retry_outcome = Retry_completed | Retry_pending nat | Retry_raises

definition retry_task :: "nat \<Rightarrow> nat \<Rightarrow> bool \<Rightarrow> retry_outcome" where
  "retry_task retries retry_number succeeds =
     (if succeeds then Retry_completed
      else if retry_number + 1 > max retries 1 then Retry_raises else Retry_pending (retry_number + 1))"

definition driver_create_bridge :: "('w, 'd, 't, 'v) edge_env \<Rightarrow> string \<Rightarrow> json \<Rightarrow> ('w, 'd, 't, 'v, unit) edge_op" where
  "driver_create_bridge E device_name bridge =
     bind_st (call (create_bridge (ee_vcns E) device_name bridge)) (\<lambda>_. return_st ())"

definition driver_delete_bridge :: "('w, 'd, 't, 'v) edge_env \<Rightarrow> string \<Rightarrow> ('w, 'd, 't, 'v, unit) edge_op" where
  "driver_delete_bridge E device_name =
     logged (bind_st (call (delete_bridge (ee_vcns E) device_name)) (\<lambda>_. return_st ()))"

definition driver_update_edge_ha :: "('w, 'd, 't, 'v) edge_env \<Rightarrow> string \<Rightarrow> ('w, 'd, 't, 'v, unit) edge_op" where
  "driver_update_edge_ha E edge_id =
     bind_st (call (enable_ha (ee_vcns E) edge_id (feature ''highavailability_4.0''))) (\<lambda>_. return_st ())"

subsection \<open>Log levels\<close>

definition SUPPORTED_EDGE_LOG_MODULES :: "string list" where
  "SUPPORTED_EDGE_LOG_MODULES = [''routing'', ''highavailability'', ''dhcp'', ''loadbalancer'', ''dns'']"

definition SUPPORTED_EDGE_LOG_LEVELS :: "string list" where
  "SUPPORTED_EDGE_LOG_LEVELS = [''none'', ''debug'', ''info'', ''warning'', ''error'']"

text \<open>A modifier returns whether it changed the configuration, and the configuration. A section that is
  there is an object.\<close>

definition default_loglevel_modifier :: "string \<Rightarrow> json \<Rightarrow> bool \<times> json" where
  "default_loglevel_modifier level config =
     (case jfield ''logging'' config of
        Inl _ \<Rightarrow> (False, config)
      | Inr sec \<Rightarrow>
          (True, jset ''logging'' (jset ''logLevel'' (JStr (if level = ''none'' then ''info'' else level))
             (jset ''enable'' (JBool (level \<noteq> ''none'')) sec)) config))"

definition routing_loglevel_modifier :: "string \<Rightarrow> json \<Rightarrow> bool \<times> json" where
  "routing_loglevel_modifier level config =
     (case jfield ''routingGlobalConfig'' config of
        Inl _ \<Rightarrow> (False, config)
      | Inr sec \<Rightarrow> (case default_loglevel_modifier level sec of (c, sec) \<Rightarrow> (c, jset ''routingGlobalConfig'' sec config)))"

definition get_loglevel_modifier :: "string \<Rightarrow> string \<Rightarrow> json \<Rightarrow> bool \<times> json" where
  "get_loglevel_modifier module level =
     (if module = ''routing'' then routing_loglevel_modifier level else default_loglevel_modifier level)"

definition update_edge_loglevel :: "('w, 'd, 't, 'v) edge_env \<Rightarrow> string \<Rightarrow> string \<Rightarrow> string \<Rightarrow> ('w, 'd, 't, 'v, unit) edge_op" where
  "update_edge_loglevel E edge_id module level =
     (if module \<notin> set SUPPORTED_EDGE_LOG_MODULES \<or> level \<notin> set SUPPORTED_EDGE_LOG_LEVELS then return_st ()
      else bind_st (call (update_edge_config_with_modifier (ee_vcns E) edge_id module (get_loglevel_modifier module level)))
        (\<lambda>_. return_st ()))"

text \<open>The remote log of an edge, with at most two servers.\<close>

definition syslog_request :: "(string \<times> string) list \<Rightarrow> string \<Rightarrow> json" where
  "syslog_request cfg server_ip =
     JObj [(''featureType'', JStr ''syslog''),
       (''protocol'', JStr (case map_of cfg ''protocol'' of Some p \<Rightarrow> p | None \<Rightarrow> ''tcp'')),
       (''serverAddresses'', JObj [(''ipAddress'', JList (JStr server_ip #
          (case map_of cfg ''server2_ip'' of Some i \<Rightarrow> [JStr i] | None \<Rightarrow> []))), (''type'', JStr ''IpAddressesDto'')])]"

definition driver_update_edge_syslog :: "('w, 'd, 't, 'v) edge_env \<Rightarrow> string \<Rightarrow> (string \<times> string) list \<Rightarrow>
    ('w, 'd, 't, 'v, unit) edge_op" where
  "driver_update_edge_syslog E edge_id cfg =
     (let loglevel = (case map_of cfg ''log_level'' of Some l \<Rightarrow> l | None \<Rightarrow> []) in
      case map_of cfg ''server_ip'' of
        None \<Rightarrow> return_st ()
      | Some server_ip \<Rightarrow>
          if (case map_of cfg ''protocol'' of Some p \<Rightarrow> p | None \<Rightarrow> ''tcp'') \<notin> {''tcp'', ''udp''} then return_st ()
          else if loglevel \<noteq> [] \<and> loglevel \<notin> set SUPPORTED_EDGE_LOG_LEVELS then return_st ()
          else bind_st (call (update_edge_syslog (ee_vcns E) edge_id (syslog_request cfg server_ip))) (\<lambda>_.
            if loglevel = [] then return_st () else update_edge_loglevel E edge_id ''routing'' loglevel))"


end
