(* ===== verification/EdgePool.thy ===== *)
theory EdgePool
  imports EdgeAppliance
begin

text \<open>
  The pool of backup edges kept by \<open>EdgeManager\<close> (\<open>vshield/edge_utils.py\<close>): the parsing of its
  options, the periodic check that brings the pool of each kind of edge between its bounds,
  the allocation of an edge from the pool, and its return. A pooled edge is a router binding
  whose router identifier starts with \<open>backup-\<close>. The locks that serialise the operations are not
  modelled: an operation runs to its end. The random choice of an edge and the age of a row are
  parameters, as is the range of addresses of a network (netaddr).
\<close>

subsection \<open>Options\<close>

definition BACKUP_ROUTER_PREFIX :: string where "BACKUP_ROUTER_PREFIX = ''backup-''"

definition EDGE_NAME_LEN :: nat where "EDGE_NAME_LEN = 20"

definition ALLOWED_EDGE_SIZES :: "appliance_size list" where
  "ALLOWED_EDGE_SIZES = [COMPACT, LARGE, XLARGE, QUADLARGE]"

definition ALLOWED_EDGE_TYPES :: "edge_type list" where
  "ALLOWED_EDGE_TYPES = [SERVICE_EDGE, VDR_EDGE]"

definition SERVICE_SIZE_MAPPING :: "(string, string) pydict" where
  "SERVICE_SIZE_MAPPING = map (\<lambda>p. (p, appliance_size_str COMPACT)) [''router'', ''dhcp'', ''lb'']"

definition RESERVED_IPS :: "string list" where
  "RESERVED_IPS = [''169.254.128.0/17'', ''169.254.1.0/24'', ''169.254.64.192/26'']"

definition size_of_str :: "string \<Rightarrow> appliance_size option" where
  "size_of_str s = find (\<lambda>z. appliance_size_str z = s) ALLOWED_EDGE_SIZES"

definition type_of_str :: "string \<Rightarrow> edge_type option" where
  "type_of_str s = find (\<lambda>t. edge_type_str t = s) ALLOWED_EDGE_TYPES"

fun parse_service_edge_size :: "string list \<Rightarrow> py_exc + (string, string) pydict" where
  "parse_service_edge_size [] = Inr []"
| "parse_service_edge_size (d # ds) =
     (case split_at_char (CHR '':'') d of
        [p, s] \<Rightarrow> bind_res (parse_service_edge_size ds)
          (\<lambda>r. Inr (if map_of r p = None then (p, s) # r else r))
      | _ \<Rightarrow> Inl ValueError)"

text \<open>\<open>get\<close> with a default that is itself looked up first.\<close>

definition get_service_edge_size :: "(string, string) pydict \<Rightarrow> string \<Rightarrow> py_exc + string" where
  "get_service_edge_size size_dict purpose =
     (case map_of SERVICE_SIZE_MAPPING purpose of
        None \<Rightarrow> Inl KeyError
      | Some d \<Rightarrow> Inr (case map_of size_dict purpose of None \<Rightarrow> d | Some s \<Rightarrow> s))"

text \<open>A network is its first and last address; None when netaddr rejects it. A network of more than
  \<open>sys.maxsize\<close> addresses has no \<open>len\<close>.\<close>

fun overlaps_any :: "(string \<Rightarrow> (int \<times> int) option) \<Rightarrow> int \<Rightarrow> int \<Rightarrow> string list \<Rightarrow> py_exc + bool" where
  "overlaps_any net lo hi [] = Inr False"
| "overlaps_any net lo hi (r # rs) =
     (case net r of
        None \<Rightarrow> Inl ValueError
      | Some (rfirst, rlast) \<Rightarrow>
          if lo \<le> rlast \<and> rfirst \<le> hi then Inr True else overlaps_any net lo hi rs)"

definition is_overlapping_reserved_subnets :: "(string \<Rightarrow> (int \<times> int) option) \<Rightarrow> string \<Rightarrow> string list \<Rightarrow> py_exc + bool" where
  "is_overlapping_reserved_subnets net cidr reserved =
     (case net cidr of
        None \<Rightarrow> Inl ValueError
      | Some (lo, hi) \<Rightarrow> overlaps_any net lo hi reserved)"

datatype opt_error = Opt_invalid string | Opt_py py_exc

definition SYS_MAXSIZE :: int where "SYS_MAXSIZE = 2 ^ 63 - 1"

definition validate_vdr_transit_network :: "(string \<Rightarrow> (int \<times> int) option) \<Rightarrow> string \<Rightarrow> opt_error + unit" where
  "validate_vdr_transit_network net transit =
     (case net transit of
        None \<Rightarrow> Inl (Opt_invalid ''Invalid VDR transit network'')
      | Some (lo, hi) \<Rightarrow>
          if hi - lo + 1 > SYS_MAXSIZE then Inl (Opt_py IndexError)
          else if hi - lo + 1 < 4 then Inl (Opt_invalid ''VDR transit address range too small'')
          else (case is_overlapping_reserved_subnets net transit RESERVED_IPS of
              Inl e \<Rightarrow> Inl (Opt_py e)
            | Inr True \<Rightarrow> Inl (Opt_invalid ''VDR transit network overlaps reserved subnet'')
            | Inr False \<Rightarrow> Inr ()))"

text \<open>The pool options of a zone, \<open>type:size:minimum:maximum\<close> each: a dictionary of ranges for every
  type, by size. The bounds are converted with \<open>int\<close>, whose ValueError is not caught.\<close>

record pool_range =
  minimum_pooled_edges :: int
  maximum_pooled_edges :: int

type_synonym az_pools = "(edge_type, (appliance_size, pool_range) pydict) pydict"

definition parse_pool_def :: "string \<Rightarrow> string \<Rightarrow> opt_error + edge_type \<times> appliance_size \<times> pool_range" where
  "parse_pool_def zone edge_pool_def =
     (case split_at_char (CHR '':'') edge_pool_def of
        edge_type # edge_size # minimum # maximum # _ \<Rightarrow>
          (case type_of_str edge_type of
             None \<Rightarrow> Inl (Opt_invalid (''edge type is not allowed: '' @ zone))
           | Some t \<Rightarrow>
               (case size_of_str (if edge_size = [] then appliance_size_str COMPACT else edge_size) of
                  None \<Rightarrow> Inl (Opt_invalid (''edge size is not allowed: '' @ zone))
                | Some z \<Rightarrow>
                    (case (py_int minimum, py_int maximum) of
                       (Some a, Some b) \<Rightarrow> Inr (t, z, \<lparr>minimum_pooled_edges = a, maximum_pooled_edges = b\<rparr>)
                     | _ \<Rightarrow> Inl (Opt_py ValueError))))
      | _ \<Rightarrow> Inl (Opt_invalid (''Invalid edge pool format for availability zone '' @ zone)))"

definition the_pool :: "az_pools \<Rightarrow> edge_type \<Rightarrow> (appliance_size, pool_range) pydict" where
  "the_pool pools t = (case map_of pools t of Some p \<Rightarrow> p | None \<Rightarrow> [])"

fun insert_pools :: "string \<Rightarrow> (edge_type \<times> appliance_size \<times> pool_range) list \<Rightarrow> az_pools \<Rightarrow> opt_error + az_pools" where
  "insert_pools zone [] pools = Inr pools"
| "insert_pools zone ((t, z, r) # rs) pools =
     (if map_of (the_pool pools t) z \<noteq> None
      then Inl (Opt_invalid (''Duplicate edge pool configuration for availability zone '' @ zone))
      else insert_pools zone rs (AList.update t (the_pool pools t @ [(z, r)]) pools))"

definition parse_backup_edge_pool_opt_per_az :: "az \<Rightarrow> opt_error + az_pools" where
  "parse_backup_edge_pool_opt_per_az z =
     bind_res (map_res (parse_pool_def (az_name z)) (az_backup_edge_pool z)) (\<lambda>res.
       insert_pools (az_name z) res (map (\<lambda>t. (t, [])) ALLOWED_EDGE_TYPES))"

definition parse_backup_edge_pool_opt :: "az list \<Rightarrow> opt_error + (string, az_pools) pydict" where
  "parse_backup_edge_pool_opt zones =
     bind_res (map_res (\<lambda>z. bind_res (parse_backup_edge_pool_opt_per_az z) (\<lambda>p. Inr (az_name z, p))) zones) (\<lambda>res.
       Inr (fold (\<lambda>(n, p) al. AList.update n p al) res []))"

subsection \<open>The manager and its primitive steps\<close>

text \<open>The manager has its zones, its parsed options, the read-only flag of the housekeeper, the service
  sizes and what it is given: \<open>random.choice\<close>, the two tests on the age of a row (created too long
  ago or without a date; updated too long ago) and the cleaning of the metadata ports.\<close>

record ('w, 'd, 't, 'v) pool_mgr =
  pm_env :: "('w, 'd, 't, 'v) edge_env"
  pm_uuid_like :: "string \<Rightarrow> bool"
  pm_zones :: "az list"
  pm_default_zone :: az
  pm_pools :: "(string, az_pools) pydict"
  pm_readonly :: bool
  pm_sizes :: "(string, string) pydict"
  pm_choice :: "router_binding list \<Rightarrow> 'w \<Rightarrow> router_binding"
  pm_create_overdue :: "router_binding \<Rightarrow> 'w \<Rightarrow> bool"
  pm_update_overdue :: "router_binding \<Rightarrow> 'w \<Rightarrow> bool"
  pm_cleanup_metadata :: "string option \<Rightarrow> string \<Rightarrow> 'w \<Rightarrow> ('d edge_exc + unit) \<times> 'w"

definition get_az_pool :: "('w, 'd, 't, 'v) pool_mgr \<Rightarrow> string option \<Rightarrow> ('w, 'd, 't, 'v, az_pools) edge_op" where
  "get_az_pool M name =
     (case Option.bind name (map_of (pm_pools M)) of None \<Rightarrow> raise_st (EPy KeyError) | Some p \<Rightarrow> return_st p)"

definition add_rb :: "('w, 'd, 't, 'v) edge_env \<Rightarrow> string \<Rightarrow> string option \<Rightarrow> string \<Rightarrow> appliance_size \<Rightarrow> edge_type \<Rightarrow>
    string option \<Rightarrow> ('w, 'd, 't, 'v, unit) edge_op" where
  "add_rb E router_id edge_id status z t zone s =
     (case add_nsxv_router_binding (ee_rb E) (es_rbs s) router_id edge_id None status z t zone of
        Inl e \<Rightarrow> (Inl (EDb e), s)
      | Inr (_, b) \<Rightarrow> (Inr (), s\<lparr>es_rbs := b\<rparr>))"

definition spawn_job :: "job \<Rightarrow> ('w, 't, 'v) edge_state \<Rightarrow> ('w, 't, 'v) edge_state" where
  "spawn_job j s = s\<lparr>es_jobs := es_jobs s @ [j]\<rparr>"

definition backup_name :: "('w, 'd, 't, 'v) edge_env \<Rightarrow> nat \<Rightarrow> string" where
  "backup_name E n = take EDGE_NAME_LEN (BACKUP_ROUTER_PREFIX @ ee_uuid E n)"
text \<open>A binding's edge is deleted in a green thread.\<close>

definition delete_job :: "router_binding \<Rightarrow> job" where
  "delete_job b = Delete_job (rb_router_id b) (rb_edge_id b) (rb_edge_type b = VDR_EDGE)"

fun mark_each_error :: "('w, 'd, 't, 'v) edge_env \<Rightarrow> router_binding list \<Rightarrow> ('w, 'd, 't, 'v, unit) edge_op" where
  "mark_each_error E [] = return_st ()"
| "mark_each_error E (b # bs) =
     bind_st (if rb_status b = ST_ERROR then return_st () else update_rb E (rb_router_id b) [Rb_status ST_ERROR])
       (\<lambda>_. mark_each_error E bs)"

definition mark_router_bindings_status_error :: "('w, 'd, 't, 'v) edge_env \<Rightarrow> string \<Rightarrow> ('w, 'd, 't, 'v, unit) edge_op" where
  "mark_router_bindings_status_error E edge_id s =
     mark_each_error E (get_nsxv_router_bindings_by_edge (ee_rb E) (es_rbs s) edge_id) s"

definition manager_deploy_edge :: "('w, 'd, 't, 'v) pool_mgr \<Rightarrow> string \<Rightarrow> string \<Rightarrow> appliance_size \<Rightarrow> edge_type \<Rightarrow> az \<Rightarrow> bool \<Rightarrow>
    ('w, 'd, 't, 'v, string) edge_op" where
  "manager_deploy_edge M router_id name z t zone deploy_metadata =
     driver_deploy_edge (pm_env M) (pm_uuid_like M) router_id name None (t = VDR_EDGE) True z zone deploy_metadata"

definition deploy_backup_edges_on_db :: "('w, 'd, 't, 'v) edge_env \<Rightarrow> int \<Rightarrow> appliance_size \<Rightarrow> edge_type \<Rightarrow> az \<Rightarrow>
    ('w, 'd, 't, 'v, string list) edge_op" where
  "deploy_backup_edges_on_db E num z t zone s =
     (let router_ids = map (backup_name E) [es_next s..<es_next s + nat num] in
      bind_st (each_st (\<lambda>router_id. add_rb E router_id None ST_PENDING_CREATE z t (Some (az_name zone))) router_ids)
        (\<lambda>_. return_st router_ids) (s\<lparr>es_next := es_next s + nat num\<rparr>))"

definition deploy_backup_edges_at_backend :: "string list \<Rightarrow> appliance_size \<Rightarrow> edge_type \<Rightarrow> az \<Rightarrow>
    ('w, 't, 'v) edge_state \<Rightarrow> ('w, 't, 'v) edge_state" where
  "deploy_backup_edges_at_backend router_ids z t zone s =
     fold (\<lambda>router_id. spawn_job (Deploy_job router_id z t (az_name zone))) router_ids s"

text \<open>\<open>_delete_edge\<close>, and the two steps of deleting pooled edges: a binding that is gone is skipped in
  the first, the second deletes its edge all the same.\<close>

definition pool_delete_edge :: "('w, 'd, 't, 'v) edge_env \<Rightarrow> router_binding \<Rightarrow> ('w, 'd, 't, 'v, unit) edge_op" where
  "pool_delete_edge E b =
     bind_st (update_rb E (rb_router_id b) [Rb_status ST_PENDING_DELETE]) (\<lambda>_ s. (Inr (), spawn_job (delete_job b) s))"

definition skip_missing :: "('w, 'd, 't, 'v, unit) edge_op \<Rightarrow> ('w, 'd, 't, 'v, unit) edge_op" where
  "skip_missing m = catch_st m (\<lambda>e. if e = EDb NoResultFound then return_st () else raise_st e)"

definition delete_backup_edges_on_db :: "('w, 'd, 't, 'v) edge_env \<Rightarrow> router_binding list \<Rightarrow> ('w, 'd, 't, 'v, unit) edge_op" where
  "delete_backup_edges_on_db E =
     each_st (\<lambda>b. skip_missing (update_rb E (rb_router_id b) [Rb_status ST_PENDING_DELETE]))"

definition delete_backup_edges_at_backend :: "router_binding list \<Rightarrow> ('w, 't, 'v) edge_state \<Rightarrow> ('w, 't, 'v) edge_state" where
  "delete_backup_edges_at_backend bs s = fold (\<lambda>b. spawn_job (delete_job b)) bs s"

text \<open>The pooled edges in error (only when the housekeeper is read-only; it deletes them itself
  otherwise) or pending for too long.\<close>

definition pool_like :: "(string \<times> string) list" where
  "pool_like = [(''router_id'', BACKUP_ROUTER_PREFIX @ ''%'')]"

definition erroneous :: "('w, 'd, 't, 'v) pool_mgr \<Rightarrow> 'w \<Rightarrow> router_binding \<Rightarrow> bool" where
  "erroneous M w b =
     (if rb_status b = ST_ERROR then True
      else if rb_status b = ST_PENDING_CREATE then pm_create_overdue M b w
      else if rb_status b = ST_PENDING_UPDATE \<or> rb_status b = ST_PENDING_DELETE then pm_update_overdue M b w
      else False)"

definition clean_all_error_edge_bindings :: "('w, 'd, 't, 'v) pool_mgr \<Rightarrow> az \<Rightarrow> ('w, 'd, 't, 'v, unit) edge_op" where
  "clean_all_error_edge_bindings M zone s =
     (let E = pm_env M;
          statuses = [ST_PENDING_CREATE, ST_PENDING_UPDATE, ST_PENDING_DELETE] @ (if pm_readonly M then [ST_ERROR] else []);
          bindings = get_nsxv_router_bindings (ee_rb E) (ee_like E) (es_rbs s)
            (Some [(''status'', statuses), (''availability_zone'', [az_name zone])]) (Some pool_like);
          error_bindings = filter (erroneous M (es_world s)) bindings
      in bind_st (delete_backup_edges_on_db E error_bindings)
           (\<lambda>_ s. (Inr (), delete_backup_edges_at_backend error_bindings s)) s)"

definition get_backup_edge_bindings :: "('w, 'd, 't, 'v) edge_env \<Rightarrow> appliance_size \<Rightarrow> edge_type \<Rightarrow> az \<Rightarrow>
    ('w, 't, 'v) edge_state \<Rightarrow> router_binding list" where
  "get_backup_edge_bindings E z t zone s =
     get_nsxv_router_bindings (ee_rb E) (ee_like E) (es_rbs s)
       (Some [(''appliance_size'', [appliance_size_str z]), (''edge_type'', [edge_type_str t]),
              (''availability_zone'', [az_name zone]),
              (''status'', [ST_PENDING_CREATE, ST_PENDING_UPDATE, ST_ACTIVE])]) (Some pool_like)"

subsection \<open>The check of the pool\<close>

text \<open>The loop that adds bindings until a new count reaches the minimum ends only if each new binding
  is counted: its result is None when it does not return.\<close>

partial_function (option) grow_pool :: "('w, 'd, 't, 'v) edge_env \<Rightarrow> appliance_size \<Rightarrow> edge_type \<Rightarrow> az \<Rightarrow> int \<Rightarrow> string list \<Rightarrow>
    int \<Rightarrow> ('w, 't, 'v) edge_state \<Rightarrow> (('d edge_exc + string list) \<times> ('w, 't, 'v) edge_state) option" where
  "grow_pool E z t zone minimum router_ids new_backup_num s =
     (if new_backup_num < minimum then
        (case deploy_backup_edges_on_db E 1 z t zone s of
           (Inl e, s') \<Rightarrow> Some (Inl e, s')
         | (Inr ids, s') \<Rightarrow> grow_pool E z t zone minimum (router_ids @ ids)
             (int (length (get_backup_edge_bindings E z t zone s'))) s')
      else Some (Inr router_ids, s))"

definition check_backup_edge_pool :: "('w, 'd, 't, 'v) edge_env \<Rightarrow> int \<Rightarrow> int \<Rightarrow> appliance_size \<Rightarrow> edge_type \<Rightarrow> az \<Rightarrow>
    ('w, 't, 'v) edge_state \<Rightarrow> (('d edge_exc + unit) \<times> ('w, 't, 'v) edge_state) option" where
  "check_backup_edge_pool E minimum maximum z t zone s =
     (let bindings = get_backup_edge_bindings E z t zone s; backup_num = int (length bindings) in
      if backup_num > maximum then
        (let excess = take (nat (backup_num - maximum)) bindings in
         Some (bind_st (delete_backup_edges_on_db E excess)
           (\<lambda>_ s. (Inr (), delete_backup_edges_at_backend excess s)) s))
      else if backup_num < minimum then
        (case grow_pool E z t zone minimum [] backup_num s of
           None \<Rightarrow> None
         | Some (Inl e, s) \<Rightarrow> Some (Inl e, s)
         | Some (Inr router_ids, s) \<Rightarrow> Some (Inr (), deploy_backup_edges_at_backend router_ids z t zone s))
      else Some (Inr (), s))"

definition bind_run :: "('s \<Rightarrow> (('e + 'a) \<times> 's) option) \<Rightarrow> ('a \<Rightarrow> 's \<Rightarrow> (('e + 'b) \<times> 's) option) \<Rightarrow> 's \<Rightarrow>
    (('e + 'b) \<times> 's) option" where
  "bind_run m f s = (case m s of None \<Rightarrow> None | Some (Inl e, s) \<Rightarrow> Some (Inl e, s) | Some (Inr x, s) \<Rightarrow> f x s)"

fun each_run :: "('a \<Rightarrow> 's \<Rightarrow> (('e + unit) \<times> 's) option) \<Rightarrow> 'a list \<Rightarrow> 's \<Rightarrow> (('e + unit) \<times> 's) option" where
  "each_run f [] s = Some (Inr (), s)"
| "each_run f (x # xs) s = bind_run (f x) (\<lambda>_. each_run f xs) s"

text \<open>The ranges that are checked in a zone, in the order of the loops; a size without a range is
  checked against 0 and 0.\<close>

definition ranges :: "az_pools \<Rightarrow> (edge_type \<times> appliance_size \<times> pool_range) list" where
  "ranges pools = concat (map (\<lambda>(t, v). map (\<lambda>z. (t, z, case map_of v z of
       Some r \<Rightarrow> r | None \<Rightarrow> \<lparr>minimum_pooled_edges = 0, maximum_pooled_edges = 0\<rparr>)) ALLOWED_EDGE_SIZES) pools)"

definition check_zone :: "('w, 'd, 't, 'v) pool_mgr \<Rightarrow> az \<Rightarrow> ('w, 't, 'v) edge_state \<Rightarrow>
    (('d edge_exc + unit) \<times> ('w, 't, 'v) edge_state) option" where
  "check_zone M zone =
     bind_run (\<lambda>s. Some (clean_all_error_edge_bindings M zone s)) (\<lambda>_.
     bind_run (\<lambda>s. Some (get_az_pool M (Some (az_name zone)) s)) (\<lambda>pools.
     each_run (\<lambda>(t, z, r). check_backup_edge_pool (pm_env M) (minimum_pooled_edges r) (maximum_pooled_edges r) z t zone)
       (ranges pools)))"

definition check_backup_edge_pools :: "('w, 'd, 't, 'v) pool_mgr \<Rightarrow> ('w, 't, 'v) edge_state \<Rightarrow>
    (('d edge_exc + unit) \<times> ('w, 't, 'v) edge_state) option" where
  "check_backup_edge_pools M = each_run (check_zone M) (pm_zones M)"

subsection \<open>Allocation\<close>

text \<open>An edge's identifier in a request: None is formatted.\<close>

definition edge_ref :: "string option \<Rightarrow> string" where
  "edge_ref edge_id = (case edge_id of Some i \<Rightarrow> i | None \<Rightarrow> ''None'')"

definition check_edge_active_at_backend :: "('w, 'd, 't, 'v) edge_env \<Rightarrow> string option \<Rightarrow> ('w, 't, 'v) edge_state \<Rightarrow>
    bool \<times> ('w, 't, 'v) edge_state" where
  "check_edge_active_at_backend E edge_id s =
     (case driver_get_edge_status E (edge_ref edge_id) s of
        (Inr status, s) \<Rightarrow> (status = STATUS_ACTIVE, s)
      | (Inl _, s) \<Rightarrow> (False, s))"

text \<open>An edge is drawn until one is active here and at the manager; one that only seems active is
  deleted. A choice that is not in the list is none of \<open>random.choice\<close>'s, and its removal raises.\<close>

function pick_binding :: "('w, 'd, 't, 'v) pool_mgr \<Rightarrow> router_binding list \<Rightarrow> ('w, 'd, 't, 'v, router_binding option) edge_op" where
  "pick_binding M bs s =
     (if bs = [] then (Inr None, s)
      else
        let b = pm_choice M bs (es_world s) in
        if b \<notin> set bs then (Inl (EPy ValueError), s)
        else if rb_status b = ST_ACTIVE then
          (case check_edge_active_at_backend (pm_env M) (rb_edge_id b) s of
             (True, s) \<Rightarrow> (Inr (Some b), s)
           | (False, s) \<Rightarrow> bind_st (pool_delete_edge (pm_env M) b) (\<lambda>_. pick_binding M (remove1 b bs)) s)
        else pick_binding M (remove1 b bs) s)"
  by pat_completeness auto
termination
  by (relation "measure (\<lambda>(_, bs, _). length bs)") (auto simp: length_remove1 intro: diff_less)

declare pick_binding.simps [simp del]

definition get_available_router_binding :: "('w, 'd, 't, 'v) pool_mgr \<Rightarrow> appliance_size \<Rightarrow> edge_type \<Rightarrow> az \<Rightarrow>
    ('w, 'd, 't, 'v, router_binding option) edge_op" where
  "get_available_router_binding M z t zone s =
     pick_binding M (get_backup_edge_bindings (pm_env M) z t zone s) s"

text \<open>\<open>_allocate_edge_appliance\<close>. Its four parts: deploy an edge when there is no pool of that size, take
  an available edge out of the pool, use it, or deploy one, and refill the pool to its minimum.\<close>

definition deploy_for :: "('w, 'd, 't, 'v) pool_mgr \<Rightarrow> string \<Rightarrow> string \<Rightarrow> appliance_size \<Rightarrow> edge_type \<Rightarrow> az \<Rightarrow> bool \<Rightarrow>
    ('w, 'd, 't, 'v, string option) edge_op" where
  "deploy_for M resource_id name z t zone deploy_metadata =
     bind_st (add_rb (pm_env M) resource_id None ST_PENDING_CREATE z t (Some (az_name zone))) (\<lambda>_.
     bind_st (manager_deploy_edge M resource_id name z t zone deploy_metadata) (\<lambda>edge_id.
     return_st (Some edge_id)))"

definition take_available :: "('w, 'd, 't, 'v) pool_mgr \<Rightarrow> appliance_size \<Rightarrow> edge_type \<Rightarrow> az \<Rightarrow>
    ('w, 'd, 't, 'v, router_binding option) edge_op" where
  "take_available M z t zone =
     bind_st (clean_all_error_edge_bindings M zone) (\<lambda>_.
     bind_st (get_available_router_binding M z t zone) (\<lambda>available.
       case available of
         None \<Rightarrow> return_st None
       | Some b \<Rightarrow> bind_st (update_rb (pm_env M) (rb_router_id b) [Rb_status ST_PENDING_UPDATE])
           (\<lambda>_. return_st (Some b))))"

definition use_binding :: "('w, 'd, 't, 'v) pool_mgr \<Rightarrow> router_binding \<Rightarrow> string \<Rightarrow> string \<Rightarrow> appliance_size \<Rightarrow> edge_type \<Rightarrow> az \<Rightarrow>
    bool \<Rightarrow> bool \<Rightarrow> ('w, 'd, 't, 'v, string option) edge_op" where
  "use_binding M b resource_id name z t zone dist deploy_metadata s =
     (let E = pm_env M in
      bind_st (add_rb E resource_id (rb_edge_id b) ST_PENDING_CREATE z t (Some (az_name zone))) (\<lambda>_.
      bind_st (complete_edge_creation E (pm_uuid_like M) (rb_edge_id b) resource_id dist True zone deploy_metadata) (\<lambda>_.
      bind_st (catch_st (driver_rename_edge E (edge_ref (rb_edge_id b)) name) (\<lambda>e.
          if is_api e then complete_edge_update E resource_id False True True else raise_st e)) (\<lambda>_.
      return_st (rb_edge_id b)))) (delete_rb E (rb_router_id b) s))"

definition refill_pool :: "('w, 'd, 't, 'v) edge_env \<Rightarrow> pool_range \<Rightarrow> appliance_size \<Rightarrow> edge_type \<Rightarrow> az \<Rightarrow>
    ('w, 'd, 't, 'v, unit) edge_op" where
  "refill_pool E r z t zone s =
     bind_st (deploy_backup_edges_on_db E
         (minimum_pooled_edges r - int (length (get_backup_edge_bindings E z t zone s))) z t zone)
       (\<lambda>router_ids s. (Inr (), deploy_backup_edges_at_backend router_ids z t zone s)) s"

text \<open>A size that is not one of the four has no pool, and no binding can be added for it.\<close>

definition allocate_edge_appliance :: "('w, 'd, 't, 'v) pool_mgr \<Rightarrow> string \<Rightarrow> string \<Rightarrow> string \<Rightarrow> bool \<Rightarrow> az \<Rightarrow> bool \<Rightarrow>
    ('w, 'd, 't, 'v, string option) edge_op" where
  "allocate_edge_appliance M resource_id name size_arg dist zone deploy_metadata =
     bind_st (get_az_pool M (Some (az_name zone))) (\<lambda>pools.
       let t = (if dist then VDR_EDGE else SERVICE_EDGE) in
       case map_of pools t of
         None \<Rightarrow> raise_st (EPy KeyError)
       | Some sizes \<Rightarrow>
           (case size_of_str size_arg of
              None \<Rightarrow> raise_st (EDb DBError)
            | Some z \<Rightarrow>
                (case map_of sizes z of
                   None \<Rightarrow> deploy_for M resource_id name z t zone deploy_metadata
                 | Some r \<Rightarrow>
                     bind_st (take_available M z t zone) (\<lambda>available.
                     bind_st (case available of
                         None \<Rightarrow> deploy_for M resource_id name z t zone deploy_metadata
                       | Some b \<Rightarrow> use_binding M b resource_id name z t zone dist deploy_metadata) (\<lambda>edge_id.
                     bind_st (refill_pool (pm_env M) r z t zone) (\<lambda>_. return_st edge_id))))))"

subsection \<open>Return\<close>

text \<open>The zone of an edge is that of the first binding with the same edge identifier, null included.\<close>

definition edge_zone :: "('t, router_binding) orm \<Rightarrow> 't \<Rightarrow> string option \<Rightarrow> string option" where
  "edge_zone D b edge_id =
     (case edge_id of
        Some i \<Rightarrow> get_edge_availability_zone D b i
      | None \<Rightarrow> (case q_first D b (\<lambda>r. rb_edge_id r = None) of None \<Rightarrow> None | Some r \<Rightarrow> rb_availability_zone r))"

text \<open>A returned edge that is not wanted is marked and deleted in a green thread.\<close>

definition discard_edge :: "('w, 'd, 't, 'v) edge_env \<Rightarrow> string \<Rightarrow> string option \<Rightarrow> bool \<Rightarrow> ('w, 'd, 't, 'v, unit) edge_op" where
  "discard_edge E router_id edge_id dist =
     bind_st (update_rb E router_id [Rb_status ST_PENDING_DELETE]) (\<lambda>_ s.
       (Inr (), spawn_job (Delete_job router_id edge_id dist) s))"

text \<open>An edge is collected under its new name: its vnics are cleaned and, for an edge that is not
  distributed, added again.\<close>

definition collect_edge :: "('w, 'd, 't, 'v) edge_env \<Rightarrow> string \<Rightarrow> router_binding \<Rightarrow> az \<Rightarrow> ('w, 'd, 't, 'v, unit) edge_op" where
  "collect_edge E backup_id b zone =
     (let dist = (rb_edge_type b = VDR_EDGE); edge_id = rb_edge_id b in
      bind_st (driver_update_edge E backup_id (edge_ref edge_id) backup_id None dist True (rb_appliance_size b) False zone True)
        (\<lambda>updated s.
      bind_st (if \<not> dist \<and> given edge_id then init_vnics E (the edge_id) else return_st ()) (\<lambda>_.
        if updated then update_rb E backup_id [Rb_status ST_ACTIVE] else return_st ())
        (case edge_id of None \<Rightarrow> s | Some i \<Rightarrow> clean_vnics E i s)))"

definition get_availability_zone :: "('w, 'd, 't, 'v) pool_mgr \<Rightarrow> string option \<Rightarrow> az" where
  "get_availability_zone M name =
     (case find (\<lambda>z. Some (az_name z) = name) (pm_zones M) of Some z \<Rightarrow> z | None \<Rightarrow> pm_default_zone M)"

definition return_edge :: "('w, 'd, 't, 'v) pool_mgr \<Rightarrow> router_binding \<Rightarrow> string option \<Rightarrow> string \<Rightarrow> pool_range option \<Rightarrow>
    ('w, 'd, 't, 'v, unit) edge_op" where
  "return_edge M b zone_name backup_id pool s =
     (let E = pm_env M; dist = (rb_edge_type b = VDR_EDGE); discard = discard_edge E backup_id (rb_edge_id b) dist in
      if rb_status b = ST_ERROR then discard s
      else (case check_edge_active_at_backend E (rb_edge_id b) s of
          (False, s) \<Rightarrow> discard s
        | (True, s) \<Rightarrow>
            (case pool of
               None \<Rightarrow> discard s
             | Some r \<Rightarrow>
                 let zone = get_availability_zone M zone_name in
                 bind_st (clean_all_error_edge_bindings M zone) (\<lambda>_ s.
                   if int (length (get_backup_edge_bindings E (rb_appliance_size b) (rb_edge_type b) zone s)) < maximum_pooled_edges r
                   then collect_edge E backup_id b zone s else discard s) s)))"

definition free_edge_appliance :: "('w, 'd, 't, 'v) pool_mgr \<Rightarrow> string \<Rightarrow> ('w, 'd, 't, 'v, unit) edge_op" where
  "free_edge_appliance M router_id s =
     (let E = pm_env M in
      case get_nsxv_router_binding (ee_rb E) (es_rbs s) router_id of
        None \<Rightarrow> (Inr (), s)
      | Some b \<Rightarrow>
          let zone_name = edge_zone (ee_rb E) (es_rbs s) (rb_edge_id b) in
          bind_st (get_az_pool M zone_name) (\<lambda>pools s.
            case map_of pools (rb_edge_type b) of
              None \<Rightarrow> (Inl (EPy KeyError), s)
            | Some sizes \<Rightarrow>
                let backup_id = backup_name E (es_next s); s = delete_rb E router_id s in
                bind_st (add_rb E backup_id (rb_edge_id b) ST_PENDING_UPDATE (rb_appliance_size b) (rb_edge_type b) zone_name)
                  (\<lambda>_. return_edge M b zone_name backup_id (map_of sizes (rb_appliance_size b)))
                  (s\<lparr>es_next := Suc (es_next s)\<rparr>)) s)"

subsection \<open>The clients of the pool\<close>

definition allocate_dhcp_edge_appliance :: "('w, 'd, 't, 'v) pool_mgr \<Rightarrow> string \<Rightarrow> az \<Rightarrow> ('w, 'd, 't, 'v, unit) edge_op" where
  "allocate_dhcp_edge_appliance M resource_id zone s =
     (let name = take EDGE_NAME_LEN (DHCP_EDGE_PREFIX @ ee_uuid (pm_env M) (es_next s));
          s = s\<lparr>es_next := Suc (es_next s)\<rparr>
      in case get_service_edge_size (pm_sizes M) ''dhcp'' of
           Inl e \<Rightarrow> (Inl (EPy e), s)
         | Inr z \<Rightarrow> bind_st (allocate_edge_appliance M resource_id name z False zone True) (\<lambda>_. return_st ()) s)"

definition allocate_lb_edge_appliance :: "('w, 'd, 't, 'v) pool_mgr \<Rightarrow> string \<Rightarrow> az \<Rightarrow> string option \<Rightarrow>
    ('w, 'd, 't, 'v, string option) edge_op" where
  "allocate_lb_edge_appliance M resource_id zone size_arg =
     (case (if given size_arg then Inr (the size_arg) else get_service_edge_size (pm_sizes M) ''lb'') of
        Inl e \<Rightarrow> raise_st (EPy e)
      | Inr z \<Rightarrow> allocate_edge_appliance M resource_id resource_id z False zone False)"

text \<open>The metadata ports of a DHCP edge are cleaned first, when the plugin has a handler for them.\<close>

definition dhcp_resource_id :: "string \<Rightarrow> string" where
  "dhcp_resource_id network_id = take 36 (DHCP_EDGE_PREFIX @ network_id)"

definition free_dhcp_edge_appliance :: "('w, 'd, 't, 'v) pool_mgr \<Rightarrow> string \<Rightarrow> string option \<Rightarrow> ('w, 'd, 't, 'v, unit) edge_op" where
  "free_dhcp_edge_appliance M network_id zone_name =
     bind_st (on_world (pm_cleanup_metadata M zone_name (dhcp_resource_id network_id)))
       (\<lambda>_. free_edge_appliance M (dhcp_resource_id network_id))"

text \<open>A DHCP edge that serves other networks only loses the binding.\<close>

definition delete_dhcp_router_binding :: "('w, 'd, 't, 'v) pool_mgr \<Rightarrow> string \<Rightarrow> string option \<Rightarrow> ('w, 'd, 't, 'v, unit) edge_op" where
  "delete_dhcp_router_binding M network_id edge_id s =
     (let bindings = (case edge_id of
            Some i \<Rightarrow> get_nsxv_router_bindings_by_edge (ee_rb (pm_env M)) (es_rbs s) i
          | None \<Rightarrow> q_all (ee_rb (pm_env M)) (es_rbs s) (\<lambda>b. rb_edge_id b = None));
          dhcp = filter (\<lambda>r. startswith r DHCP_EDGE_PREFIX) (map rb_router_id bindings)
      in if \<exists>r \<in> set dhcp. r \<noteq> dhcp_resource_id network_id
         then (Inr (), delete_rb (pm_env M) (dhcp_resource_id network_id) s)
         else free_dhcp_edge_appliance M network_id
           (case bindings of [] \<Rightarrow> Some [] | b # _ \<Rightarrow> rb_availability_zone b) s)"

definition ROUTER_NAME_LENGTH :: nat where "ROUTER_NAME_LENGTH = 77"

definition build_lrouter_name :: "string \<Rightarrow> string \<Rightarrow> string" where
  "build_lrouter_name router_id router_name =
     take (if length router_id \<le> ROUTER_NAME_LENGTH then ROUTER_NAME_LENGTH - length router_id
       else length router_name - (length router_id - ROUTER_NAME_LENGTH)) router_name @ ''-'' @ router_id"

text \<open>The syslog configuration is the one of the router's flavor, empty when it has none. The database
  refuses a size that is not one of the four.\<close>

definition create_lrouter :: "('w, 'd, 't, 'v) pool_mgr \<Rightarrow> string \<Rightarrow> string \<Rightarrow> (string \<times> string) list \<Rightarrow> bool \<Rightarrow> string option \<Rightarrow> az \<Rightarrow>
    ('w, 'd, 't, 'v, string option) edge_op" where
  "create_lrouter M router_id name syslog_config dist size_arg zone =
     (case (if given size_arg then Inr (the size_arg) else get_service_edge_size (pm_sizes M) ''router'') of
        Inl e \<Rightarrow> raise_st (EPy e)
      | Inr z \<Rightarrow>
          bind_st (allocate_edge_appliance M router_id (build_lrouter_name router_id name) z dist zone False) (\<lambda>edge_id.
          bind_st (if syslog_config = [] then return_st ()
            else driver_update_edge_syslog (pm_env M) (edge_ref edge_id) syslog_config) (\<lambda>_. return_st edge_id)))"

definition rename_lrouter :: "('w, 'd, 't, 'v) pool_mgr \<Rightarrow> string \<Rightarrow> string \<Rightarrow> ('w, 'd, 't, 'v, unit) edge_op" where
  "rename_lrouter M router_id new_name s =
     (case get_nsxv_router_binding (ee_rb (pm_env M)) (es_rbs s) router_id of
        None \<Rightarrow> (Inr (), s)
      | Some b \<Rightarrow> if \<not> given (rb_edge_id b) then (Inr (), s)
          else driver_rename_edge (pm_env M) (the (rb_edge_id b)) (build_lrouter_name router_id new_name) s)"

definition resize_lrouter :: "('w, 'd, 't, 'v) pool_mgr \<Rightarrow> (json \<Rightarrow> bool) \<Rightarrow> json option \<Rightarrow> string \<Rightarrow> string \<Rightarrow>
    ('w, 'd, 't, 'v, unit) edge_op" where
  "resize_lrouter M before_6_2_3 nsx_version router_id new_size s =
     (case get_nsxv_router_binding (ee_rb (pm_env M)) (es_rbs s) router_id of
        None \<Rightarrow> (Inr (), s)
      | Some b \<Rightarrow> if \<not> given (rb_edge_id b) then (Inr (), s)
          else bind_st (driver_resize_edge (pm_env M) before_6_2_3 nsx_version (the (rb_edge_id b)) new_size) (\<lambda>_.
            case size_of_str new_size of
              None \<Rightarrow> raise_st (EDb DBError)
            | Some z \<Rightarrow> update_rb (pm_env M) router_id [Rb_appliance_size z]) s)"

text \<open>One step of a green thread, or of the task manager: the first job that waits; its exceptions are
  lost. A task that deletes a wire or a port group runs again after a failure, up to the number of retries.\<close>

definition run_job :: "('w, 'd, 't, 'v) pool_mgr \<Rightarrow> job \<Rightarrow> ('w, 't, 'v) edge_state \<Rightarrow> ('w, 't, 'v) edge_state" where
  "run_job M j s =
     (case j of
        Deploy_job router_id z t zone_name \<Rightarrow>
          snd (manager_deploy_edge M router_id router_id z t (get_availability_zone M (Some zone_name)) False s)
      | Delete_job router_id edge_id dist \<Rightarrow> snd (driver_delete_edge (pm_env M) router_id edge_id dist s)
      | Delete_wire_job wire \<Rightarrow>
          let V = ee_vcns (pm_env M) in
          s\<lparr>es_world := snd (with_retries (max 1 (max_retries V)) (\<lambda>_. True) (delete_virtual_wire V wire) (es_world s))\<rparr>
      | Delete_group_job dvs_id port_group_id \<Rightarrow>
          let V = ee_vcns (pm_env M) in
          s\<lparr>es_world := snd (with_retries (max 1 (max_retries V)) (\<lambda>_. True) (vcns_delete_port_group V dvs_id port_group_id)
            (es_world s))\<rparr>)"

definition run_first_job :: "('w, 'd, 't, 'v) pool_mgr \<Rightarrow> ('w, 't, 'v) edge_state \<Rightarrow> ('w, 't, 'v) edge_state" where
  "run_first_job M s = (case es_jobs s of [] \<Rightarrow> s | j # js \<Rightarrow> run_job M j (s\<lparr>es_jobs := js\<rparr>))"

subsection \<open>Properties of the options\<close>

lemma size_of_str_iff [simp]: "size_of_str s = Some z \<longleftrightarrow> s = appliance_size_str z"
  by (cases z) (auto simp: size_of_str_def ALLOWED_EDGE_SIZES_def split: if_splits)

lemma type_of_str_iff [simp]: "type_of_str s = Some t \<longleftrightarrow> s = edge_type_str t"
  by (cases t) (auto simp: type_of_str_def ALLOWED_EDGE_TYPES_def split: if_splits)

lemma appliance_size_str_inj [simp]: "appliance_size_str y = appliance_size_str z \<longleftrightarrow> y = z"
  by (cases y; cases z) simp_all

lemma edge_type_str_inj [simp]: "edge_type_str y = edge_type_str z \<longleftrightarrow> y = z"
  by (cases y; cases z) simp_all

definition pools_wf :: "az_pools \<Rightarrow> bool" where
  "pools_wf pools \<longleftrightarrow> map fst pools = ALLOWED_EDGE_TYPES \<and> (\<forall>p \<in> set pools. distinct (map fst (snd p)))"

lemma pools_wf_types: "pools_wf pools \<Longrightarrow> \<exists>sizes. map_of pools t = Some sizes"
  by (cases t) (auto simp: pools_wf_def ALLOWED_EDGE_TYPES_def map_eq_Cons_conv)

lemma pools_wf_update [wf_intros]:
  assumes "pools_wf pools" "map_of (the_pool pools t) z = None"
  shows "pools_wf (AList.update t (the_pool pools t @ [(z, r)]) pools)"
  using assms
  by (cases t) (auto simp: pools_wf_def ALLOWED_EDGE_TYPES_def the_pool_def map_eq_Cons_conv map_of_eq_None_iff)

lemma the_pool_update: "the_pool (AList.update t p pools) t' = (if t' = t then p else the_pool pools t')"
  by (simp add: the_pool_def)

definition opt_keys :: "(edge_type \<times> appliance_size \<times> pool_range) list \<Rightarrow> (edge_type \<times> appliance_size) list" where
  "opt_keys rs = map (\<lambda>(t, z, _). (t, z)) rs"

text \<open>Inserting the options succeeds exactly when no pair of type and size comes twice.\<close>

lemma insert_pools_iff:
  assumes "pools_wf pools"
  shows "(\<exists>pools'. insert_pools zone rs pools = Inr pools') \<longleftrightarrow>
    distinct (opt_keys rs) \<and> (\<forall>p \<in> set (opt_keys rs). map_of (the_pool pools (fst p)) (snd p) = None)"
  using assms
proof (induction rs arbitrary: pools)
  case Nil
  then show ?case by (simp add: opt_keys_def)
next
  case (Cons x rs)
  obtain t z r where x: "x = (t, z, r)" by (cases x) auto
  show ?case
  proof (cases "map_of (the_pool pools t) z = None")
    case True
    let ?pools = "AList.update t (the_pool pools t @ [(z, r)]) pools"
    have iff: "(\<forall>p \<in> set (opt_keys rs). map_of (the_pool ?pools (fst p)) (snd p) = None) \<longleftrightarrow>
        (t, z) \<notin> set (opt_keys rs) \<and> (\<forall>p \<in> set (opt_keys rs). map_of (the_pool pools (fst p)) (snd p) = None)"
      using True by (auto simp: the_pool_update map_add_def split: option.splits if_splits)
    show ?thesis
      using Cons.IH [OF pools_wf_update [OF Cons.prems True]] True
      by (simp add: x iff) (auto simp: opt_keys_def)
  next
    case False
    then show ?thesis by (auto simp: x opt_keys_def)
  qed
qed

lemma insert_pools_lookup:
  assumes "pools_wf pools" "insert_pools zone rs pools = Inr pools'"
  shows "pools_wf pools' \<and> (map_of (the_pool pools' t) z = Some r \<longleftrightarrow>
    map_of (the_pool pools t) z = Some r \<or> (t, z, r) \<in> set rs)"
  using assms
proof (induction rs arbitrary: pools)
  case Nil
  then show ?case by simp
next
  case (Cons x rs)
  obtain t1 z1 r1 where x: "x = (t1, z1, r1)" by (cases x) auto
  with Cons.prems have new: "map_of (the_pool pools t1) z1 = None"
    by (auto split: if_splits)
  with Cons.prems show ?case
    using Cons.IH [OF pools_wf_update [OF Cons.prems(1) new, of r1]]
    by (auto simp: x the_pool_update map_add_Some_iff split: if_splits)
qed

lemma no_pools_wf: "pools_wf (map (\<lambda>t. (t, [])) ALLOWED_EDGE_TYPES)"
  by (simp add: pools_wf_def ALLOWED_EDGE_TYPES_def)

lemma no_pools_empty: "the_pool (map (\<lambda>t. (t, [])) ALLOWED_EDGE_TYPES) t = []"
  by (cases t) (simp_all add: the_pool_def ALLOWED_EDGE_TYPES_def)

lemma map_res_Inr_set: "map_res f xs = Inr ys \<Longrightarrow> (y \<in> set ys \<longleftrightarrow> (\<exists>x \<in> set xs. f x = Inr y))"
  by (induction xs arbitrary: ys) (auto simp: bind_res_Inr_iff)

text \<open>The options of a zone are parsed into a dictionary that has an entry for each of the two
  types of edges, whose sizes are distinct, and that maps a type and a size to a range exactly when an
  option says so; and parsing succeeds exactly when each option parses alone and no two options are for
  the same type and size.\<close>

theorem parsed_pools_are_the_options:
  "(\<forall>pools. parse_backup_edge_pool_opt_per_az z = Inr pools \<longrightarrow> pools_wf pools \<and>
     (\<forall>t y r. map_of (the_pool pools t) y = Some r \<longleftrightarrow>
        (\<exists>d \<in> set (az_backup_edge_pool z). parse_pool_def (az_name z) d = Inr (t, y, r)))) \<and>
   ((\<exists>pools. parse_backup_edge_pool_opt_per_az z = Inr pools) \<longleftrightarrow>
     (\<exists>res. map_res (parse_pool_def (az_name z)) (az_backup_edge_pool z) = Inr res \<and> distinct (opt_keys res)))"
proof (cases "map_res (parse_pool_def (az_name z)) (az_backup_edge_pool z)")
  case (Inl e)
  then show ?thesis by (simp add: parse_backup_edge_pool_opt_per_az_def)
next
  case (Inr res)
  let ?init = "map (\<lambda>t. (t, [])) ALLOWED_EDGE_TYPES"
  have parse: "parse_backup_edge_pool_opt_per_az z = insert_pools (az_name z) res ?init"
    by (simp add: parse_backup_edge_pool_opt_per_az_def Inr)
  have "pools_wf pools \<and> (map_of (the_pool pools t) y = Some r \<longleftrightarrow>
      (\<exists>d \<in> set (az_backup_edge_pool z). parse_pool_def (az_name z) d = Inr (t, y, r)))"
    if "insert_pools (az_name z) res ?init = Inr pools" for pools t y r
    using insert_pools_lookup [OF no_pools_wf that, of t y r] map_res_Inr_set [OF Inr, of "(t, y, r)"]
    by (simp add: no_pools_empty)
  then show ?thesis
    using insert_pools_iff [OF no_pools_wf, of "az_name z" res] by (simp add: parse Inr no_pools_empty split_beta)
qed

theorem parsed_pools_are_the_options_witness:
  "\<exists>pools. parse_backup_edge_pool_opt_per_az \<lparr>az_name = ''default'', az_datacenter_moid = None, az_resource_pool = None,
      az_datastore_id = None, az_ha_datastore_id = None, az_ha_placement_random = False, az_edge_ha = False,
      az_external_network = None, az_edge_host_groups = [],
      az_backup_edge_pool = [''service:large:1:3'', ''service::4:10'', ''vdr:large:1:3''],
      az_dvs_id = None, az_vdn_scope_id = None, az_bind_floatingip_to_all_interfaces = False, az_exclusive_dhcp_edge = False\<rparr> = Inr pools \<and>
    pools_wf pools \<and> map_of (the_pool pools SERVICE_EDGE) COMPACT = Some \<lparr>minimum_pooled_edges = 4, maximum_pooled_edges = 10\<rparr>"
  (is "\<exists>pools. parse_backup_edge_pool_opt_per_az ?z = Inr pools \<and> _ \<and> ?look pools")
proof -
  have "case parse_backup_edge_pool_opt_per_az ?z of Inr pools \<Rightarrow> ?look pools | Inl _ \<Rightarrow> False"
    by code_simp
  then obtain pools where "parse_backup_edge_pool_opt_per_az ?z = Inr pools" "?look pools" by (auto split: sum.splits)
  then show ?thesis using parsed_pools_are_the_options [of ?z] by blast
qed

lemma overlaps_any_iff:
  assumes "\<And>c a b. net c = Some (a, b) \<Longrightarrow> a \<le> b" "lo \<le> hi" "overlaps_any net lo hi rs = Inr v"
  shows "v \<longleftrightarrow> (\<exists>r \<in> set rs. \<exists>a b. net r = Some (a, b) \<and> {lo..hi} \<inter> {a..b} \<noteq> {})"
  using assms(3)
proof (induction rs)
  case Nil
  then show ?case by simp
next
  case (Cons r rs)
  then obtain a b where r: "net r = Some (a, b)" by (auto split: option.splits)
  with assms(1) have "a \<le> b" by blast
  then have "{lo..hi} \<inter> {a..b} \<noteq> {} \<longleftrightarrow> lo \<le> b \<and> a \<le> hi"
    using assms(2) by auto
  then show ?case using Cons r by (auto split: if_splits)
qed

text \<open>A transit network is accepted only with at least four addresses, none of which is in a reserved
  network; it is refused for overlapping only when it shares an address with one.\<close>

theorem transit_network_avoids_reserved:
  assumes "\<And>c a b. net c = Some (a, b) \<Longrightarrow> a \<le> b"
  shows "(validate_vdr_transit_network net transit = Inr () \<longrightarrow>
      (\<exists>lo hi. net transit = Some (lo, hi) \<and> 4 \<le> card {lo..hi} \<and>
        (\<forall>r \<in> set RESERVED_IPS. \<exists>a b. net r = Some (a, b) \<and> {lo..hi} \<inter> {a..b} = {}))) \<and>
    (validate_vdr_transit_network net transit = Inl (Opt_invalid ''VDR transit network overlaps reserved subnet'') \<longrightarrow>
      (\<exists>lo hi. net transit = Some (lo, hi) \<and>
        (\<exists>r \<in> set RESERVED_IPS. \<exists>a b. net r = Some (a, b) \<and> {lo..hi} \<inter> {a..b} \<noteq> {})))"
proof -
  have all: "\<exists>a b. net r = Some (a, b)" if "overlaps_any net lo hi rs = Inr False" "r \<in> set rs" for lo hi rs r
    using that by (induction rs) (auto split: option.splits if_splits)
  have iff: "v \<longleftrightarrow> (\<exists>r \<in> set RESERVED_IPS. \<exists>a b. net r = Some (a, b) \<and> {lo..hi} \<inter> {a..b} \<noteq> {})"
    if "overlaps_any net lo hi RESERVED_IPS = Inr v" "net transit = Some (lo, hi)" for lo hi v
    by (rule overlaps_any_iff [OF _ assms [OF that(2)] that(1)]) (rule assms)
  have no: "\<forall>r \<in> set RESERVED_IPS. \<exists>a b. net r = Some (a, b) \<and> {lo..hi} \<inter> {a..b} = {}"
    if "overlaps_any net lo hi RESERVED_IPS = Inr False" "net transit = Some (lo, hi)" for lo hi
    using iff [OF that] all [OF that(1)] by fast
  show ?thesis
    using no iff [where v = True]
    by (auto simp: validate_vdr_transit_network_def is_overlapping_reserved_subnets_def
        split: option.splits if_splits sum.splits bool.splits)
qed

text \<open>Addresses as numbers: three reserved networks and the default transit network.\<close>

definition sample_nets :: "string \<Rightarrow> (int \<times> int) option" where
  "sample_nets = map_of
     [(''169.254.128.0/17'', (2852028416, 2852061183)), (''169.254.1.0/24'', (2851995904, 2851996159)),
      (''169.254.64.192/26'', (2852012224, 2852012287)), (''169.254.2.0/28'', (2851996160, 2851996175)),
      (''169.254.0.0/16'', (2851995648, 2852061183))]"

theorem transit_network_avoids_reserved_witness:
  "(\<exists>lo hi. sample_nets ''169.254.2.0/28'' = Some (lo, hi) \<and> 4 \<le> card {lo..hi} \<and>
      (\<forall>r \<in> set RESERVED_IPS. \<exists>a b. sample_nets r = Some (a, b) \<and> {lo..hi} \<inter> {a..b} = {})) \<and>
   (\<exists>lo hi. sample_nets ''169.254.0.0/16'' = Some (lo, hi) \<and>
      (\<exists>r \<in> set RESERVED_IPS. \<exists>a b. sample_nets r = Some (a, b) \<and> {lo..hi} \<inter> {a..b} \<noteq> {}))"
proof -
  have ok: "a \<le> b" if "sample_nets c = Some (a, b)" for c a b
    using that by (auto simp: sample_nets_def split: if_splits)
  have accepted: "validate_vdr_transit_network sample_nets ''169.254.2.0/28'' = Inr ()"
    and refused: "validate_vdr_transit_network sample_nets ''169.254.0.0/16'' =
      Inl (Opt_invalid ''VDR transit network overlaps reserved subnet'')"
    by code_simp+
  show ?thesis
    by (intro conjI
      mp [OF conjunct1 [OF transit_network_avoids_reserved [where net = sample_nets, OF ok]] accepted]
      mp [OF conjunct2 [OF transit_network_avoids_reserved [where net = sample_nets, OF ok]] refused])
qed

subsection \<open>The pool as a set of rows\<close>

definition in_pool :: "appliance_size \<Rightarrow> edge_type \<Rightarrow> az \<Rightarrow> router_binding \<Rightarrow> bool" where
  "in_pool z t zone b \<longleftrightarrow> rb_appliance_size b = z \<and> rb_edge_type b = t \<and> rb_availability_zone b = Some (az_name zone) \<and>
     rb_status b \<in> {ST_PENDING_CREATE, ST_PENDING_UPDATE, ST_ACTIVE} \<and> startswith (rb_router_id b) BACKUP_ROUTER_PREFIX"

text \<open>The contract of the database for this table: \<open>like\<close> with a percent sign at the end of the pattern is
  a test of the prefix.\<close>

locale rb_table =
  fixes E :: "('w, 'd, 't, 'v) edge_env" and ok :: "'t \<Rightarrow> bool"
  assumes table: "orm_table (ee_rb E) rb_key ok"
    and like_prefix: "\<And>r. ee_like E r (BACKUP_ROUTER_PREFIX @ ''%'') \<longleftrightarrow> startswith r BACKUP_ROUTER_PREFIX"
begin

abbreviation "rbs s \<equiv> rows (ee_rb E) (es_rbs s)"

definition pool :: "appliance_size \<Rightarrow> edge_type \<Rightarrow> az \<Rightarrow> ('w, 't, 'v) edge_state \<Rightarrow> router_binding set" where
  "pool z t zone s = {b \<in> rbs s. in_pool z t zone b}"

lemmas all_rows = orm_table.all_rows [OF table]
lemmas all_distinct = orm_table.all_distinct [OF table]
lemmas all_length = orm_table.all_length [OF table]
lemmas key_eq = orm_table.key_eq [OF table, unfolded rb_key_def]
lemmas finite_rows = orm_table.finite_rows [OF table]

lemma backup_filter:
  "apply_filters_to_query (ee_like E) rb_column (\<lambda>_. True)
     (Some [(''appliance_size'', [appliance_size_str z]), (''edge_type'', [edge_type_str t]),
            (''availability_zone'', [az_name zone]),
            (''status'', [ST_PENDING_CREATE, ST_PENDING_UPDATE, ST_ACTIVE])]) (Some pool_like) =
   in_pool z t zone"
proof
  fix b
  have col: "rb_column ''appliance_size'' = Some (\<lambda>r. Some (appliance_size_str (rb_appliance_size r)))"
    "rb_column ''edge_type'' = Some (\<lambda>r. Some (edge_type_str (rb_edge_type r)))"
    "rb_column ''availability_zone'' = Some rb_availability_zone"
    "rb_column ''status'' = Some (\<lambda>r. Some (rb_status r))"
    "rb_column ''router_id'' = Some (\<lambda>r. Some (rb_router_id r))"
    by (simp_all add: rb_column_def)
  show "apply_filters_to_query (ee_like E) rb_column (\<lambda>_. True)
     (Some [(''appliance_size'', [appliance_size_str z]), (''edge_type'', [edge_type_str t]),
            (''availability_zone'', [az_name zone]),
            (''status'', [ST_PENDING_CREATE, ST_PENDING_UPDATE, ST_ACTIVE])]) (Some pool_like) b =
     in_pool z t zone b"
    by (auto simp: apply_filters_to_query_def filter_in_def filter_like_def col pool_like_def like_prefix in_pool_def
        split: option.splits)
qed

lemma backup_bindings:
  assumes "ok (es_rbs s)"
  shows "set (get_backup_edge_bindings E z t zone s) = pool z t zone s"
    "distinct (get_backup_edge_bindings E z t zone s)"
    "length (get_backup_edge_bindings E z t zone s) = card (pool z t zone s)"
  unfolding get_backup_edge_bindings_def get_nsxv_router_bindings_def backup_filter pool_def
  using all_rows [OF assms] all_distinct [OF assms] all_length [OF assms] by simp_all

lemma pool_finite: "ok (es_rbs s) \<Longrightarrow> finite (pool z t zone s)"
  using finite_rows by (simp add: pool_def)

text \<open>The update of the status of a row that is there, or is not.\<close>

lemma update_status:
  assumes "ok (es_rbs s)" "b \<in> rbs s" "rb_router_id b = router_id"
  obtains s' where "update_rb E router_id [Rb_status v] s = (Inr (), s')" "ok (es_rbs s')"
    "rbs s' = insert (b\<lparr>rb_status := v\<rparr>) (rbs s - {b})" "s' = s\<lparr>es_rbs := es_rbs s'\<rparr>"
proof -
  let ?P = "\<lambda>r. rb_router_id r = router_id"
  have "{x \<in> rbs s. ?P x} = {b}"
    using assms key_eq [OF assms(1)] by blast
  then have one: "q_one (ee_rb E) (es_rbs s) ?P = Inr b"
    using orm_table.one_Inr [OF table assms(1)] by blast
  note set = orm_table.set_row_rows [OF table assms(1,2), of "fold rb_set [Rb_status v]"]
  show thesis
    by (rule that [of "s\<lparr>es_rbs := snd (set_row (ee_rb E) rb_key (es_rbs s) b (fold rb_set [Rb_status v]))\<rparr>"])
      (use set in \<open>simp_all add: update_rb_def update_nsxv_router_binding_def one rb_key_def set_row_def\<close>)
qed

lemma update_missing:
  assumes "ok (es_rbs s)" "\<forall>b \<in> rbs s. rb_router_id b \<noteq> router_id"
  shows "update_rb E router_id vs s = (Inl (EDb NoResultFound), s)"
  using orm_table.one_none [OF table assms(1), of "\<lambda>r. rb_router_id r = router_id"] assms(2)
  by (simp add: update_rb_def update_nsxv_router_binding_def)

text \<open>A new row.\<close>

lemma add_new:
  assumes "ok (es_rbs s)" "router_id \<notin> rb_router_id ` rbs s"
  obtains s' where "add_rb E router_id edge_id v z t zone_name s = (Inr (), s')" "ok (es_rbs s')"
    "rbs s' = insert \<lparr>rb_router_id = router_id, rb_edge_id = edge_id, rb_lswitch_id = None, rb_status = v,
       rb_status_description = None, rb_appliance_size = z, rb_edge_type = t, rb_availability_zone = zone_name\<rparr> (rbs s)"
    "s' = s\<lparr>es_rbs := es_rbs s'\<rparr>"
proof -
  let ?r = "\<lparr>rb_router_id = router_id, rb_edge_id = edge_id, rb_lswitch_id = None, rb_status = v,
       rb_status_description = None, rb_appliance_size = z, rb_edge_type = t, rb_availability_zone = zone_name\<rparr>"
  have "rb_key ?r \<notin> rb_key ` rbs s"
    using assms(2) by (simp add: rb_key_def [abs_def])
  from orm_table.add_free [OF table assms(1) this] obtain t'
    where t': "q_add (ee_rb E) (es_rbs s) ?r = Inr t'" "ok t'" "rows (ee_rb E) t' = insert ?r (rbs s)" by blast
  show thesis
    by (rule that [of "s\<lparr>es_rbs := t'\<rparr>"])
      (use t' in \<open>simp_all add: add_rb_def add_nsxv_router_binding_def add_row_def\<close>)
qed

end

subsection \<open>The check keeps the pool between its bounds\<close>

lemma status_update_same [simp]: "b\<lparr>rb_status := v\<rparr> = b \<longleftrightarrow> rb_status b = v"
  and status_update_same' [simp]: "b = b\<lparr>rb_status := v\<rparr> \<longleftrightarrow> rb_status b = v"
  by (cases b; auto)+

text \<open>The names of the next edges are new.\<close>

definition fresh_names :: "('w, 'd, 't, 'v) edge_env \<Rightarrow> nat \<Rightarrow> ('w, 't, 'v) edge_state \<Rightarrow> bool" where
  "fresh_names E k s \<longleftrightarrow> inj_on (backup_name E) {es_next s..<es_next s + k} \<and>
     (\<forall>n \<in> {es_next s..<es_next s + k}. backup_name E n \<notin> rb_router_id ` rows (ee_rb E) (es_rbs s))"

context rb_table
begin

lemma not_pooled_pending_delete: "\<not> in_pool z t zone (b\<lparr>rb_status := ST_PENDING_DELETE\<rparr>)"
  by (simp add: in_pool_def)

text \<open>Marking pooled rows for deletion takes exactly them out of every pool.\<close>

lemma delete_on_db:
  assumes "ok (es_rbs s)" "set bs \<subseteq> rbs s" "distinct bs"
  obtains s' where "delete_backup_edges_on_db E bs s = (Inr (), s')" "ok (es_rbs s')"
    "\<forall>z t zone. pool z t zone s' = pool z t zone s - set bs" "s' = s\<lparr>es_rbs := es_rbs s'\<rparr>"
  using assms
proof (induction bs arbitrary: s thesis)
  case Nil
  then show ?case by (simp add: delete_backup_edges_on_db_def return_st_def)
next
  case (Cons b bs)
  from Cons.prems(3) have "b \<in> rbs s" by simp
  from update_status [OF Cons.prems(2) this refl, of ST_PENDING_DELETE] obtain s1
    where s1: "update_rb E (rb_router_id b) [Rb_status ST_PENDING_DELETE] s = (Inr (), s1)" "ok (es_rbs s1)"
      "rbs s1 = insert (b\<lparr>rb_status := ST_PENDING_DELETE\<rparr>) (rbs s - {b})" "s1 = s\<lparr>es_rbs := es_rbs s1\<rparr>" by blast
  have "set bs \<subseteq> rbs s1" using Cons.prems(3,4) by (auto simp: s1(3))
  with Cons.IH [OF _ s1(2)] Cons.prems(4) obtain s'
    where s': "delete_backup_edges_on_db E bs s1 = (Inr (), s')" "ok (es_rbs s')"
      "\<forall>z t zone. pool z t zone s' = pool z t zone s1 - set bs" "s' = s1\<lparr>es_rbs := es_rbs s'\<rparr>" by auto
  have "pool z t zone s1 = pool z t zone s - {b}" for z t zone
    by (auto simp: pool_def s1(3) not_pooled_pending_delete in_pool_def)
  then have p: "\<forall>z t zone. pool z t zone s' = pool z t zone s - set (b # bs)"
    by (auto simp: s'(3))
  have run: "delete_backup_edges_on_db E (b # bs) s = (Inr (), s')"
    using s'(1) by (simp add: delete_backup_edges_on_db_def bind_st_def skip_missing_def catch_st_def s1(1))
  have "s' = s\<lparr>es_rbs := es_rbs s'\<rparr>"
  proof -
    have "s' = (s\<lparr>es_rbs := es_rbs s1\<rparr>)\<lparr>es_rbs := es_rbs s'\<rparr>" using s'(4) s1(4) by metis
    then show ?thesis by simp
  qed
  from Cons.prems(1) [OF run s'(2) p this] show ?case .
qed

lemma backup_name_prefix: "startswith (backup_name E n) BACKUP_ROUTER_PREFIX"
  by (simp add: backup_name_def startswith_def BACKUP_ROUTER_PREFIX_def EDGE_NAME_LEN_def)

lemma deploy_one:
  assumes "ok (es_rbs s)" "fresh_names E (Suc k) s"
  obtains s' x where "deploy_backup_edges_on_db E 1 z t zone s = (Inr [backup_name E (es_next s)], s')" "ok (es_rbs s')"
    "fresh_names E k s'" "pool z t zone s' = insert x (pool z t zone s)" "x \<notin> pool z t zone s" "es_jobs s' = es_jobs s"
proof -
  let ?n = "backup_name E (es_next s)" and ?s = "s\<lparr>es_next := Suc (es_next s)\<rparr>"
  let ?x = "\<lparr>rb_router_id = ?n, rb_edge_id = None, rb_lswitch_id = None, rb_status = ST_PENDING_CREATE,
       rb_status_description = None, rb_appliance_size = z, rb_edge_type = t, rb_availability_zone = Some (az_name zone)\<rparr>"
  have new: "?n \<notin> rb_router_id ` rbs s" using assms(2) by (simp add: fresh_names_def)
  obtain s' where s': "add_rb E ?n None ST_PENDING_CREATE z t (Some (az_name zone)) ?s = (Inr (), s')" "ok (es_rbs s')"
      "rbs s' = insert ?x (rbs s)" "s' = ?s\<lparr>es_rbs := es_rbs s'\<rparr>"
    by (rule add_new [where s = "s\<lparr>es_next := Suc (es_next s)\<rparr>"]) (use assms(1) new in simp_all)
  from s'(4) have eq: "es_next s' = Suc (es_next s)" "es_jobs s' = es_jobs s"
    by (metis edge_state.select_convs(5,6) edge_state.surjective edge_state.update_convs(2,6))+
  have split: "{es_next s..<es_next s + Suc k} = insert (es_next s) {Suc (es_next s)..<Suc (es_next s) + k}"
    by auto
  have "fresh_names E k s'"
    using assms(2) unfolding fresh_names_def eq s'(3) split by (auto simp: inj_on_def)
  moreover have "pool z t zone s' = insert ?x (pool z t zone s)"
    using backup_name_prefix by (auto simp: pool_def s'(3) in_pool_def)
  moreover have "?x \<notin> pool z t zone s" using new by (auto simp: pool_def rev_image_eqI)
  moreover have "deploy_backup_edges_on_db E 1 z t zone s = (Inr [?n], s')"
    using s'(1) by (simp add: deploy_backup_edges_on_db_def bind_st_def return_st_def)
  ultimately show thesis using that s'(2) eq(2) by blast
qed

lemma grow_pool_ends:
  assumes "ok (es_rbs s)" "fresh_names E (nat (minimum - int (card (pool z t zone s)))) s"
  shows "\<exists>ids' s'. grow_pool E z t zone minimum ids (int (card (pool z t zone s))) s = Some (Inr (ids @ ids'), s') \<and>
    ok (es_rbs s') \<and> int (card (pool z t zone s')) = max minimum (int (card (pool z t zone s))) \<and>
    length ids' = nat (minimum - int (card (pool z t zone s))) \<and> es_jobs s' = es_jobs s"
  using assms
proof (induction "nat (minimum - int (card (pool z t zone s)))" arbitrary: s ids)
  case 0
  then show ?case by (subst grow_pool.simps) auto
next
  case (Suc k)
  then have less: "int (card (pool z t zone s)) < minimum" by simp
  from Suc have "fresh_names E (Suc k) s" by simp
  from deploy_one [OF Suc.prems(1) this] obtain s1 x where s1:
    "deploy_backup_edges_on_db E 1 z t zone s = (Inr [backup_name E (es_next s)], s1)" "ok (es_rbs s1)"
    "fresh_names E k s1" "pool z t zone s1 = insert x (pool z t zone s)" "x \<notin> pool z t zone s" "es_jobs s1 = es_jobs s"
    by metis
  have card: "card (pool z t zone s1) = Suc (card (pool z t zone s))"
    using s1(4,5) pool_finite [OF Suc.prems(1)] by simp
  with Suc.hyps(2) have k: "k = nat (minimum - int (card (pool z t zone s1)))" by simp
  from Suc.hyps(1) [OF k s1(2)] s1(3) k obtain ids' s' where
    rest: "grow_pool E z t zone minimum (ids @ [backup_name E (es_next s)]) (int (card (pool z t zone s1))) s1 =
      Some (Inr ((ids @ [backup_name E (es_next s)]) @ ids'), s')" "ok (es_rbs s')"
      "int (card (pool z t zone s')) = max minimum (int (card (pool z t zone s1)))"
      "length ids' = nat (minimum - int (card (pool z t zone s1)))" "es_jobs s' = es_jobs s1" by metis
  have "grow_pool E z t zone minimum ids (int (card (pool z t zone s))) s =
      Some (Inr (ids @ backup_name E (es_next s) # ids'), s')"
    using less rest(1) backup_bindings(3) [OF s1(2)] by (subst grow_pool.simps) (simp add: s1(1))
  then show ?case using rest less card s1(6) Suc.hyps(2) k by fastforce
qed

lemma jobs_spawned: "es_jobs (fold (\<lambda>x. spawn_job (f x)) xs s) = es_jobs s @ map f xs"
  "es_rbs (fold (\<lambda>x. spawn_job (f x)) xs s) = es_rbs s"
  by (induction xs arbitrary: s) (simp_all add: spawn_job_def)

lemma pool_jobs [simp]: "pool z t zone (fold (\<lambda>x. spawn_job (f x)) xs s) = pool z t zone s"
  by (simp add: pool_def jobs_spawned)

lemma check_pool:
  assumes "ok (es_rbs s)" "fresh_names E (nat (minimum - int (card (pool z t zone s)))) s" "0 \<le> maximum"
  defines "n \<equiv> int (card (pool z t zone s))"
  defines "n' \<equiv> (if n > maximum then maximum else max minimum n)"
  shows "\<exists>s'. check_backup_edge_pool E minimum maximum z t zone s = Some (Inr (), s') \<and> ok (es_rbs s') \<and>
    int (card (pool z t zone s')) = n' \<and> length (es_jobs s') = length (es_jobs s) + nat \<bar>n' - n\<bar>"
proof -
  let ?bs = "get_backup_edge_bindings E z t zone s"
  note bs = backup_bindings [OF assms(1), of z t zone]
  consider (shrink) "n > maximum" | (grow) "n \<le> maximum" "n < minimum" | (keep) "n \<le> maximum" "minimum \<le> n" by linarith
  then show ?thesis
  proof cases
    case shrink
    let ?ex = "take (nat (n - maximum)) ?bs"
    have sub: "set ?ex \<subseteq> pool z t zone s" by (rule subset_trans [OF set_take_subset]) (simp add: bs(1))
    have rows: "set ?ex \<subseteq> rbs s" by (rule subset_trans [OF sub]) (simp add: pool_def)
    obtain s1 where
      s1: "delete_backup_edges_on_db E ?ex s = (Inr (), s1)" "ok (es_rbs s1)"
        "\<forall>z t zone. pool z t zone s1 = pool z t zone s - set ?ex" "s1 = s\<lparr>es_rbs := es_rbs s1\<rparr>"
      using delete_on_db [OF assms(1) rows distinct_take [OF bs(2)]] by metis
    have len: "length ?ex = nat (n - maximum)" using shrink assms(3) bs(3) by (simp add: n_def)
    then have "card (set ?ex) = nat (n - maximum)" by (metis distinct_card distinct_take bs(2))
    then have "int (card (pool z t zone s1)) = maximum"
      using shrink assms(3) card_Diff_subset [OF _ sub] by (simp add: s1(3) n_def)
    moreover have "es_jobs s1 = es_jobs s" using s1(4) by (metis edge_state.select_convs(5) edge_state.surjective edge_state.update_convs(2))
    ultimately show ?thesis
      using shrink len s1 bs(3)
      by (simp add: check_backup_edge_pool_def Let_def bind_st_def delete_backup_edges_at_backend_def jobs_spawned n'_def flip: n_def)
  next
    case grow
    from grow_pool_ends [OF assms(1,2), of "[]"] obtain ids s1 where
      s1: "grow_pool E z t zone minimum [] n s = Some (Inr ids, s1)" "ok (es_rbs s1)"
        "int (card (pool z t zone s1)) = max minimum n" "length ids = nat (minimum - n)" "es_jobs s1 = es_jobs s"
      by (auto simp: n_def)
    then show ?thesis
      using grow bs(3)
      by (simp add: check_backup_edge_pool_def Let_def deploy_backup_edges_at_backend_def jobs_spawned n'_def flip: n_def)
  next
    case keep
    then show ?thesis
      using assms(1) bs(3) by (auto simp: check_backup_edge_pool_def Let_def n'_def n_def)
  qed
qed

lemma check_pool_bounds:
  assumes "ok (es_rbs s)" "0 \<le> maximum"
    and "n = int (length (get_backup_edge_bindings E z t zone s))" "fresh_names E (nat (minimum - n)) s"
  shows "\<exists>s'. check_backup_edge_pool E minimum maximum z t zone s = Some (Inr (), s') \<and>
    int (length (get_backup_edge_bindings E z t zone s')) = (if n > maximum then maximum else max minimum n) \<and>
    int (length (es_jobs s')) = int (length (es_jobs s)) + \<bar>int (length (get_backup_edge_bindings E z t zone s')) - n\<bar>"
proof -
  have n: "n = int (card (pool z t zone s))" using assms(3) backup_bindings(3) [OF assms(1)] by simp
  show ?thesis
    using check_pool [OF assms(1) _ assms(2), of minimum z t zone] assms(4) backup_bindings(3) by (fastforce simp: n)
qed

end

subsection \<open>The check and the drawing of an edge\<close>

text \<open>C8: Checking a pool whose count is \<open>n\<close> returns, for any bounds: an edge more than the maximum is
  marked and its deletion started, an edge missing to the minimum is added and its deployment started,
  and afterwards the count is the maximum, or else the larger of \<open>n\<close> and the minimum; as many jobs are
  started as the count has changed by. The names drawn for new edges are assumed not to be taken.\<close>

theorem pool_check_restores_bounds:
  assumes "rb_table E ok" "ok (es_rbs s)" "0 \<le> maximum"
    and "n = int (length (get_backup_edge_bindings E z t zone s))" "fresh_names E (nat (minimum - n)) s"
  shows "\<exists>s'. check_backup_edge_pool E minimum maximum z t zone s = Some (Inr (), s') \<and>
    int (length (get_backup_edge_bindings E z t zone s')) = (if n > maximum then maximum else max minimum n) \<and>
    int (length (es_jobs s')) = int (length (es_jobs s)) + \<bar>int (length (get_backup_edge_bindings E z t zone s')) - n\<bar>"
  by (rule rb_table.check_pool_bounds [OF assms])

text \<open>A database of lists, a manager that says that every edge is up, and names that count.\<close>

definition green_vcns :: "(unit, json) vcns" where
  "green_vcns = \<lparr>exchange = (\<lambda>w _ _ _ _ _. (Response 200 [] (JObj [(''edgeStatus'', JStr ''GREEN'')]), w)), v_loads = Some,
     json_dumps = id, xml_dumps = id, xml_errorcode = (\<lambda>_. None),
     to_int = (\<lambda>j. case j of JInt i \<Rightarrow> Some i | _ \<Rightarrow> None), is_empty = (\<lambda>_. False), max_retries = 3\<rparr>"

definition sample_env :: "(unit, json, router_binding list, edge_vnic_binding list) edge_env" where
  "sample_env = \<lparr>ee_vcns = green_vcns, ee_rb = list_orm rb_key, ee_vb = list_orm vb_key,
     ee_like = (\<lambda>r pattern. startswith r (butlast pattern)), ee_tunnels = 20, ee_uuid = nat_str,
     ee_swap_datastores = (\<lambda>_. False), ee_container_id = None, ee_edge_user = None, ee_edge_password = None,
     ee_plr_address = ''169.254.2.3'', ee_netmask = ''255.255.255.240'', ee_metadata_handler = (\<lambda>_. False),
     ee_configure_metadata = (\<lambda>_ w. (Inr (), w)), ee_use_dvs = False, ee_host_groups = (\<lambda>_ w. (Inr (), w))\<rparr>"

lemma rb_table_sample: "rb_table sample_env (keys_distinct rb_key)"
  by (rule rb_table.intro) (simp_all add: sample_env_def list_orm_table)

interpretation sample_rows: rb_table sample_env "keys_distinct rb_key"
  by (rule rb_table_sample)

definition sample_zone :: "string list \<Rightarrow> az" where
  "sample_zone pool_options = \<lparr>az_name = ''default'', az_datacenter_moid = None, az_resource_pool = None,
     az_datastore_id = None, az_ha_datastore_id = None, az_ha_placement_random = False, az_edge_ha = False,
     az_external_network = None, az_edge_host_groups = [], az_backup_edge_pool = pool_options,
     az_dvs_id = None, az_vdn_scope_id = None, az_bind_floatingip_to_all_interfaces = False, az_exclusive_dhcp_edge = False\<rparr>"

definition sample_row :: "string \<Rightarrow> string \<Rightarrow> string option \<Rightarrow> router_binding" where
  "sample_row router_id status edge_id = \<lparr>rb_router_id = router_id, rb_edge_id = edge_id, rb_lswitch_id = None,
     rb_status = status, rb_status_description = None, rb_appliance_size = COMPACT, rb_edge_type = SERVICE_EDGE,
     rb_availability_zone = Some ''default''\<rparr>"

definition sample_state :: "router_binding list \<Rightarrow> (unit, router_binding list, edge_vnic_binding list) edge_state" where
  "sample_state bs = \<lparr>es_world = (), es_rbs = bs, es_vnics = [], es_routers = [], es_jobs = [], es_next = 7\<rparr>"

lemma sample_names: "backup_name sample_env n = take EDGE_NAME_LEN (BACKUP_ROUTER_PREFIX @ nat_str n)"
  by (simp add: backup_name_def sample_env_def)

theorem pool_check_restores_bounds_witness:
  "\<exists>s'. check_backup_edge_pool sample_env 2 3 COMPACT SERVICE_EDGE (sample_zone [])
       (sample_state [sample_row ''backup-1'' ST_ACTIVE (Some ''edge-1'')]) = Some (Inr (), s') \<and>
     length (get_backup_edge_bindings sample_env COMPACT SERVICE_EDGE (sample_zone []) s') = 2 \<and> length (es_jobs s') = 1"
proof -
  let ?s = "sample_state [sample_row ''backup-1'' ST_ACTIVE (Some ''edge-1'')]"
  have ok: "keys_distinct rb_key (es_rbs ?s)" by (simp add: keys_distinct_def sample_state_def)
  have n: "(1::int) = int (length (get_backup_edge_bindings sample_env COMPACT SERVICE_EDGE (sample_zone []) ?s))"
    by code_simp
  have "backup_name sample_env 7 \<noteq> ''backup-1''"
    by code_simp
  moreover have "rows (ee_rb sample_env) (es_rbs ?s) = {sample_row ''backup-1'' ST_ACTIVE (Some ''edge-1'')}"
    "es_next ?s = 7" by (simp_all add: sample_env_def sample_state_def)
  moreover have "{7..<7 + nat (2 - 1)} = {7}" by auto
  ultimately have fresh: "fresh_names sample_env (nat (2 - 1)) ?s"
    by (simp add: fresh_names_def sample_row_def)
  from pool_check_restores_bounds [OF rb_table_sample ok _ n fresh, of 3]
  show ?thesis by (auto simp: sample_state_def)
qed

text \<open>A call to the manager changes nothing but the manager's state.\<close>

definition same_db :: "('w, 't, 'v) edge_state \<Rightarrow> ('w, 't, 'v) edge_state \<Rightarrow> bool" where
  "same_db s s' \<longleftrightarrow> s' = s\<lparr>es_world := es_world s'\<rparr>"

lemma same_dbD: "same_db s s' \<Longrightarrow> es_rbs s' = es_rbs s \<and> es_jobs s' = es_jobs s \<and> es_next s' = es_next s \<and> es_vnics s' = es_vnics s"
  unfolding same_db_def by (metis edge_state.select_convs(2,3,5,6) edge_state.surjective edge_state.update_convs(1))

lemma same_db_refl [simp]: "same_db s s"
  by (simp add: same_db_def)

lemma same_db_world [simp]: "same_db s (s\<lparr>es_world := w\<rparr>)"
  by (simp add: same_db_def)

lemma call_same_db: "same_db s (snd (call f s))"
  by (auto simp: call_def split: prod.splits sum.splits)

lemma get_edge_status_same_db: "same_db s (snd (driver_get_edge_status E edge_id s))"
  using call_same_db [of s "get_edge_status (ee_vcns E) edge_id"]
  by (auto simp: driver_get_edge_status_def split: prod.splits sum.splits edge_exc.splits vcns_exc.splits option.splits)

lemma active_same_db: "check_edge_active_at_backend E edge_id s = (r, s') \<Longrightarrow> same_db s s'"
  using get_edge_status_same_db [of s E "edge_ref edge_id"]
  by (auto simp: check_edge_active_at_backend_def split: prod.splits sum.splits)

context rb_table
begin

lemma pool_delete:
  assumes "ok (es_rbs s)" "b \<in> rbs s"
  obtains s' where "pool_delete_edge E b s = (Inr (), s')" "ok (es_rbs s')"
    "rbs s' = insert (b\<lparr>rb_status := ST_PENDING_DELETE\<rparr>) (rbs s - {b})" "es_jobs s' = es_jobs s @ [delete_job b]"
proof -
  from update_status [OF assms refl, of ST_PENDING_DELETE] obtain s'
    where s': "update_rb E (rb_router_id b) [Rb_status ST_PENDING_DELETE] s = (Inr (), s')" "ok (es_rbs s')"
      "rbs s' = insert (b\<lparr>rb_status := ST_PENDING_DELETE\<rparr>) (rbs s - {b})" "s' = s\<lparr>es_rbs := es_rbs s'\<rparr>" by blast
  have "es_jobs s' = es_jobs s" using s'(4) by (metis edge_state.select_convs(5) edge_state.surjective edge_state.update_convs(2))
  then show thesis
    by (intro that [of "spawn_job (delete_job b) s'"])
      (use s' in \<open>simp_all add: pool_delete_edge_def bind_st_def spawn_job_def\<close>)
qed

text \<open>Drawing from the rows of a pool.\<close>

lemma pick_binding_spec:
  assumes env: "pm_env M = E" and choice: "\<And>bs w. bs \<noteq> [] \<Longrightarrow> pm_choice M bs w \<in> set bs"
    and "ok (es_rbs s)" "distinct bs" "set bs \<subseteq> rbs s"
    and "\<forall>b \<in> pool z t zone s. rb_status b = ST_ACTIVE \<longrightarrow> b \<in> set bs"
  shows "\<exists>r s'. pick_binding M bs s = (Inr r, s') \<and> ok (es_rbs s') \<and>
    (case r of
       None \<Rightarrow> \<forall>b \<in> pool z t zone s'. rb_status b \<noteq> ST_ACTIVE
     | Some b \<Rightarrow> b \<in> set bs \<and> b \<in> rbs s' \<and> rb_status b = ST_ACTIVE \<and>
         (\<exists>s1. check_edge_active_at_backend E (rb_edge_id b) s1 = (True, s')))"
  using assms(3-)
proof (induction "length bs" arbitrary: bs s)
  case 0
  then show ?case by (simp add: pick_binding.simps)
next
  case (Suc k)
  let ?b = "pm_choice M bs (es_world s)"
  have nonempty: "bs \<noteq> []" using Suc.hyps(2) by auto
  note b = choice [OF nonempty] nonempty
  have len: "k = length (remove1 ?b bs)" using b Suc.hyps(2) by (simp add: length_remove1)
  have d: "distinct (remove1 ?b bs)" "set (remove1 ?b bs) = set bs - {?b}"
    using Suc.prems(2) by (simp_all add: set_remove1_eq)
  have row: "?b \<in> rbs s" using b(1) Suc.prems(3) by blast
  show ?case
  proof (cases "rb_status ?b = ST_ACTIVE")
    case False
    have act: "\<forall>b \<in> pool z t zone s. rb_status b = ST_ACTIVE \<longrightarrow> b \<in> set (remove1 ?b bs)"
      using Suc.prems(4) False d(2) by auto
    have sub: "set (remove1 ?b bs) \<subseteq> rbs s" using Suc.prems(3) d(2) by auto
    from Suc.hyps(1) [OF len Suc.prems(1) d(1) sub act] obtain r s' where
      r: "pick_binding M (remove1 ?b bs) s = (Inr r, s')" "ok (es_rbs s')"
      "case r of None \<Rightarrow> \<forall>b \<in> pool z t zone s'. rb_status b \<noteq> ST_ACTIVE
       | Some b \<Rightarrow> b \<in> set (remove1 ?b bs) \<and> b \<in> rbs s' \<and> rb_status b = ST_ACTIVE \<and>
           (\<exists>s1. check_edge_active_at_backend E (rb_edge_id b) s1 = (True, s'))" by blast
    then show ?thesis
      using False b d(2) by (subst pick_binding.simps) (auto simp: Let_def split: option.splits)
  next
    case True
    obtain up s1 where chk: "check_edge_active_at_backend E (rb_edge_id ?b) s = (up, s1)" by fastforce
    note same = same_dbD [OF active_same_db [OF chk]]
    show ?thesis
    proof (cases up)
      case True
      with chk show ?thesis
        using \<open>rb_status ?b = ST_ACTIVE\<close> b row same Suc.prems(1)
        by (subst pick_binding.simps) (auto simp: Let_def env)
    next
      case False
      from pool_delete [of s1 ?b] Suc.prems(1) row same obtain s2 where
        s2: "pool_delete_edge E ?b s1 = (Inr (), s2)" "ok (es_rbs s2)"
          "rbs s2 = insert (?b\<lparr>rb_status := ST_PENDING_DELETE\<rparr>) (rbs s - {?b})" by metis
      have sub: "set (remove1 ?b bs) \<subseteq> rbs s2" using Suc.prems(3) d(2) s2(3) by auto
      have act: "\<forall>b \<in> pool z t zone s2. rb_status b = ST_ACTIVE \<longrightarrow> b \<in> set (remove1 ?b bs)"
        using Suc.prems(4) d(2) by (auto simp: pool_def s2(3))
      from Suc.hyps(1) [OF len s2(2) d(1) sub act] obtain r s' where
        r: "pick_binding M (remove1 ?b bs) s2 = (Inr r, s')" "ok (es_rbs s')"
        "case r of None \<Rightarrow> \<forall>b \<in> pool z t zone s'. rb_status b \<noteq> ST_ACTIVE
         | Some b \<Rightarrow> b \<in> set (remove1 ?b bs) \<and> b \<in> rbs s' \<and> rb_status b = ST_ACTIVE \<and>
             (\<exists>s1. check_edge_active_at_backend E (rb_edge_id b) s1 = (True, s'))" by blast
      then show ?thesis
        using \<open>rb_status ?b = ST_ACTIVE\<close> b d(2) chk False s2(1)
        by (subst pick_binding.simps) (auto simp: Let_def env bind_st_def split: option.splits)
    qed
  qed
qed

lemma available_binding:
  assumes env: "pm_env M = E" and choice: "\<And>bs w. bs \<noteq> [] \<Longrightarrow> pm_choice M bs w \<in> set bs"
    and "ok (es_rbs s)"
  shows "\<exists>r s'. get_available_router_binding M z t zone s = (Inr r, s') \<and>
    (case r of
       None \<Rightarrow> \<forall>b \<in> set (get_backup_edge_bindings E z t zone s'). rb_status b \<noteq> ST_ACTIVE
     | Some b \<Rightarrow> b \<in> set (get_backup_edge_bindings E z t zone s) \<and> b \<in> set (get_backup_edge_bindings E z t zone s') \<and>
         rb_status b = ST_ACTIVE \<and> (\<exists>s1. check_edge_active_at_backend E (rb_edge_id b) s1 = (True, s')))"
proof -
  let ?bs = "get_backup_edge_bindings E z t zone s"
  note bs = backup_bindings [OF assms(3), of z t zone]
  have "\<forall>b \<in> pool z t zone s. rb_status b = ST_ACTIVE \<longrightarrow> b \<in> set ?bs" "set ?bs \<subseteq> rbs s"
    by (simp_all add: bs(1)) (simp add: pool_def)
  from pick_binding_spec [OF env choice assms(3) bs(2) this(2,1)] obtain r s' where
    r: "pick_binding M ?bs s = (Inr r, s')" "ok (es_rbs s')"
    "case r of
       None \<Rightarrow> \<forall>b \<in> pool z t zone s'. rb_status b \<noteq> ST_ACTIVE
     | Some b \<Rightarrow> b \<in> set ?bs \<and> b \<in> rbs s' \<and> rb_status b = ST_ACTIVE \<and>
         (\<exists>s1. check_edge_active_at_backend E (rb_edge_id b) s1 = (True, s'))" by blast
  have "\<And>b. b \<in> pool z t zone s \<Longrightarrow> b \<in> rbs s' \<Longrightarrow> b \<in> pool z t zone s'"
    by (simp add: pool_def)
  then show ?thesis
    using r backup_bindings(1) [OF r(2)] bs(1)
    by (auto simp: get_available_router_binding_def env split: option.splits)
qed

end

text \<open>C13: Drawing an edge from the pool never raises. An edge that is drawn was in the pool and still is,
  is ACTIVE in the table, and the last thing asked of the manager is whether it is up, which it is. If
  none is drawn, no ACTIVE edge is left in the pool: those that were not up have been marked for
  deletion.\<close>

theorem drawn_edge_is_active:
  assumes "rb_table (pm_env M) ok" "\<And>bs w. bs \<noteq> [] \<Longrightarrow> pm_choice M bs w \<in> set bs" "ok (es_rbs s)"
  shows "\<exists>r s'. get_available_router_binding M z t zone s = (Inr r, s') \<and>
    (case r of
       None \<Rightarrow> \<forall>b \<in> set (get_backup_edge_bindings (pm_env M) z t zone s'). rb_status b \<noteq> ST_ACTIVE
     | Some b \<Rightarrow> b \<in> set (get_backup_edge_bindings (pm_env M) z t zone s) \<and>
         b \<in> set (get_backup_edge_bindings (pm_env M) z t zone s') \<and> rb_status b = ST_ACTIVE \<and>
         (\<exists>s1. check_edge_active_at_backend (pm_env M) (rb_edge_id b) s1 = (True, s')))"
  by (rule rb_table.available_binding [OF assms(1) refl assms(2,3)])

definition sample_mgr :: "string list \<Rightarrow> (unit, json, router_binding list, edge_vnic_binding list) pool_mgr" where
  "sample_mgr pool_options = \<lparr>pm_env = sample_env, pm_uuid_like = (\<lambda>_. False), pm_zones = [sample_zone pool_options],
     pm_default_zone = sample_zone pool_options,
     pm_pools = (case parse_backup_edge_pool_opt [sample_zone pool_options] of Inr p \<Rightarrow> p | Inl _ \<Rightarrow> []),
     pm_readonly = False, pm_sizes = [], pm_choice = (\<lambda>bs _. hd bs), pm_create_overdue = (\<lambda>_ _. False),
     pm_update_overdue = (\<lambda>_ _. False), pm_cleanup_metadata = (\<lambda>_ _ w. (Inr (), w))\<rparr>"

theorem drawn_edge_is_active_witness:
  "\<exists>r s'. get_available_router_binding (sample_mgr []) COMPACT SERVICE_EDGE (sample_zone [])
      (sample_state [sample_row ''backup-1'' ST_PENDING_CREATE None, sample_row ''backup-2'' ST_ACTIVE (Some ''edge-2'')]) =
      (Inr r, s') \<and> r = Some (sample_row ''backup-2'' ST_ACTIVE (Some ''edge-2'')) \<and>
    (case r of None \<Rightarrow> False | Some b \<Rightarrow> \<exists>s1. check_edge_active_at_backend sample_env (rb_edge_id b) s1 = (True, s'))"
proof -
  let ?s = "sample_state [sample_row ''backup-1'' ST_PENDING_CREATE None, sample_row ''backup-2'' ST_ACTIVE (Some ''edge-2'')]"
  have env: "pm_env (sample_mgr []) = sample_env" by (simp add: sample_mgr_def)
  have ok: "keys_distinct rb_key (es_rbs ?s)"
    by (simp add: keys_distinct_def sample_state_def rb_key_def sample_row_def)
  have choice: "\<And>bs w. bs \<noteq> [] \<Longrightarrow> pm_choice (sample_mgr []) bs w \<in> set bs" by (simp add: sample_mgr_def)
  have run: "fst (get_available_router_binding (sample_mgr []) COMPACT SERVICE_EDGE (sample_zone []) ?s) =
      Inr (Some (sample_row ''backup-2'' ST_ACTIVE (Some ''edge-2'')))"
    by code_simp
  from drawn_edge_is_active [of "sample_mgr []", unfolded env, OF rb_table_sample choice ok, of COMPACT SERVICE_EDGE "sample_zone []"]
  show ?thesis using run by auto
qed

subsection \<open>The return of an edge\<close>

text \<open>An assertion that looks neither at the manager, nor at the vnics, nor at the status of a router.\<close>

definition stable :: "(('w, 't, 'v) edge_state \<Rightarrow> bool) \<Rightarrow> bool" where
  "stable I \<longleftrightarrow> (\<forall>s w v r. I s \<longrightarrow> I (s\<lparr>es_world := w\<rparr>) \<and> I (s\<lparr>es_vnics := v\<rparr>) \<and> I (s\<lparr>es_routers := r\<rparr>))"

lemma keeps_stD: "keeps_st I m \<Longrightarrow> I s \<Longrightarrow> I (snd (m s))"
  by (simp add: keeps_st_def)

lemma keeps_call: "stable I \<Longrightarrow> keeps_st I (call f)"
  by (auto simp: stable_def keeps_st_def call_def split: prod.splits sum.splits)

lemma keeps_init_vnics: "stable I \<Longrightarrow> keeps_st I (init_vnics E i)"
  by (auto simp: stable_def keeps_st_def init_vnics_def split: sum.splits)

lemma keeps_edge_update:
  assumes "stable I" "\<And>v. keeps_st I (update_rb E i [Rb_status v])"
  shows "keeps_st I (complete_edge_update E i ok se hc)"
  unfolding complete_edge_update_def keeps_st_def
  using assms by (auto simp: stable_def keeps_st_def bind_st_def return_st_def set_router_status_def split: prod.splits sum.splits)
     (metis snd_conv)+

lemma keeps_update_edge:
  fixes E :: "('w, 'd, 't, 'v) edge_env"
  assumes "stable I" "\<And>v. keeps_st I (update_rb E i [Rb_status v])"
  shows "keeps_st I (driver_update_edge E i e nm net dist lb z se zone hc)"
proof -
  have run: "I (snd (bind_st (complete_edge_update E i ok se hc) (\<lambda>_. return_st r) s))" if "I s" for ok r s
    by (rule keeps_stD [OF keeps_bind [OF keeps_edge_update [OF assms] keeps_return] that])
  show ?thesis
    unfolding keeps_st_def
  proof (intro allI impI)
    fix s assume s: "I s"
    have "I (snd (case call f s of
        (Inr _, s) \<Rightarrow> bind_st (complete_edge_update E i True se hc) (\<lambda>_. return_st True) s
      | (Inl x, s) \<Rightarrow> if is_api x then bind_st (complete_edge_update E i False se hc) (\<lambda>_. return_st False) s else (Inl x, s)))"
      for f :: "('w, 'd, headers \<times> 'd content) vcns_op"
    proof -
      obtain r s1 where c: "call f s = (r, s1)" by fastforce
      then have "I s1" using keeps_stD [OF keeps_call [OF assms(1)] s, of f] by simp
      then show ?thesis using run [of s1] by (cases r) (auto simp: c)
    qed
    with s show "I (snd (driver_update_edge E i e nm net dist lb z se zone hc s))"
      unfolding driver_update_edge_def Let_def by (simp split: sum.split)
  qed
qed

lemma keeps_collect:
  assumes "stable I" "\<And>i v. keeps_st I (update_rb E i [Rb_status v])"
  shows "keeps_st I (collect_edge E i b zone)"
proof -
  have rest: "I (snd (bind_st (if c then init_vnics E e else return_st ())
      (\<lambda>_. if u then update_rb E i [Rb_status v] else return_st ()) s))" if "I s" for c e u v s
  proof -
    have "keeps_st I (bind_st (if c then init_vnics E e else return_st ())
        (\<lambda>_. if u then update_rb E i [Rb_status v] else return_st ()))"
      by (intro st_intros keeps_init_vnics assms)
    with that show ?thesis unfolding keeps_st_def by blast
  qed
  have clean: "I (case rb_edge_id b of None \<Rightarrow> s | Some i \<Rightarrow> clean_vnics E i s)" if "I s" for s
    using assms(1) that by (auto simp: stable_def clean_vnics_def split: option.splits)
  have "keeps_st I (\<lambda>s. bind_st (if c then init_vnics E e else return_st ())
      (\<lambda>_. if u then update_rb E i [Rb_status v] else return_st ())
      (case rb_edge_id b of None \<Rightarrow> s | Some i \<Rightarrow> clean_vnics E i s))" for c e u v
    using rest clean unfolding keeps_st_def by blast
  then show ?thesis
    unfolding collect_edge_def Let_def
    by (intro keeps_bind keeps_update_edge assms) 
qed

lemma stable_jobs: "stable (\<lambda>s. es_jobs s = js)"
  by (simp add: stable_def)

lemma update_rb_jobs: "keeps_st (\<lambda>s. es_jobs s = js) (update_rb E i vs)"
  by (auto simp: keeps_st_def update_rb_def split: sum.splits)

context rb_table
begin

definition edges_are :: "string option set \<Rightarrow> ('w, 't, 'v) edge_state \<Rightarrow> bool" where
  "edges_are X s \<longleftrightarrow> ok (es_rbs s) \<and> rb_edge_id ` rbs s = X"

lemma stable_edges: "stable (edges_are X)"
  by (simp add: stable_def edges_are_def)

lemma keeps_update_status: "keeps_st (edges_are X) (update_rb E i [Rb_status v])"
  unfolding keeps_st_def
proof (intro allI impI)
  fix s assume s: "edges_are X s"
  show "edges_are X (snd (update_rb E i [Rb_status v] s))"
  proof (cases "\<exists>b \<in> rbs s. rb_router_id b = i")
    case True
    then obtain b where b: "b \<in> rbs s" "rb_router_id b = i" by blast
    from update_status [OF _ b, of v] s obtain s' where
      "update_rb E i [Rb_status v] s = (Inr (), s')" "ok (es_rbs s')"
      "rbs s' = insert (b\<lparr>rb_status := v\<rparr>) (rbs s - {b})" unfolding edges_are_def by blast
    moreover have "insert (rb_edge_id b) (rb_edge_id ` (rbs s - {b})) = rb_edge_id ` rbs s" using b(1) by blast
    ultimately show ?thesis using s by (simp add: edges_are_def)
  next
    case False
    then show ?thesis using update_missing s by (simp add: edges_are_def)
  qed
qed

lemma keeps_delete_on_db: "keeps_st (edges_are X) (delete_backup_edges_on_db E bs)"
  unfolding delete_backup_edges_on_db_def skip_missing_def
  by (intro keeps_each keeps_catch keeps_update_status keeps_if keeps_return keeps_raise)

lemma keeps_spawned: "edges_are X s \<Longrightarrow> edges_are X (fold (\<lambda>x. spawn_job (f x)) xs s)"
  by (simp add: edges_are_def jobs_spawned)

lemma keeps_spawn: "keeps_st (edges_are X) (\<lambda>s. (Inr (), spawn_job j s))"
  by (simp add: keeps_st_def edges_are_def spawn_job_def)

lemma keeps_clean_errors:
  assumes "pm_env M = E"
  shows "keeps_st (edges_are X) (clean_all_error_edge_bindings M zone)"
proof -
  have "keeps_st (edges_are X) (bind_st (delete_backup_edges_on_db E bs)
      (\<lambda>_ s. (Inr (), delete_backup_edges_at_backend bs s)))" for bs
    by (intro keeps_bind keeps_delete_on_db)
      (simp add: keeps_st_def delete_backup_edges_at_backend_def keeps_spawned)
  then show ?thesis
    unfolding keeps_st_def clean_all_error_edge_bindings_def Let_def assms by blast
qed

lemma keeps_discard: "keeps_st (edges_are X) (discard_edge E i e d)"
  unfolding discard_edge_def by (intro keeps_bind keeps_update_status keeps_spawn)

lemma keeps_return_edge:
  assumes "pm_env M = E"
  shows "keeps_st (edges_are X) (return_edge M b zn i p)"
  unfolding keeps_st_def
proof (intro allI impI)
  fix s assume s: "edges_are X s"
  have d: "edges_are X (snd (discard_edge E i e d s1))" if "edges_are X s1" for e d s1
    using keeps_discard that unfolding keeps_st_def by blast
  obtain up s1 where chk: "check_edge_active_at_backend E (rb_edge_id b) s = (up, s1)" by fastforce
  have s1: "edges_are X s1"
    using same_dbD [OF active_same_db [OF chk]] s by (simp add: edges_are_def)
  have "keeps_st (edges_are X) (bind_st (clean_all_error_edge_bindings M zone) (\<lambda>_ s.
      if int (length (get_backup_edge_bindings E (rb_appliance_size b) (rb_edge_type b) zone s)) < m
      then collect_edge E i b zone s else discard_edge E i (rb_edge_id b) dist s))" for m zone dist
    using keeps_collect [OF stable_edges keeps_update_status] keeps_discard
    by (intro keeps_bind keeps_clean_errors assms) (simp add: keeps_st_def)
  with s1 have "edges_are X (snd (bind_st (clean_all_error_edge_bindings M zone) (\<lambda>_ s.
      if int (length (get_backup_edge_bindings E (rb_appliance_size b) (rb_edge_type b) zone s)) < m
      then collect_edge E i b zone s else discard_edge E i (rb_edge_id b) dist s) s1))" for m zone dist
    unfolding keeps_st_def by blast
  then show "edges_are X (snd (return_edge M b zn i p s))"
    using d s s1 by (auto simp: return_edge_def Let_def assms chk split: bool.splits option.splits)
qed

lemma delete_one:
  assumes "ok (es_rbs s)" "b \<in> rbs s"
  shows "ok (es_rbs (delete_rb E (rb_router_id b) s))" "rbs (delete_rb E (rb_router_id b) s) = rbs s - {b}"
    "es_next (delete_rb E i s) = es_next s" "es_jobs (delete_rb E i s) = es_jobs s" "es_world (delete_rb E i s) = es_world s"
proof -
  obtain c where c: "q_first (ee_rb E) (es_rbs s) (\<lambda>r. rb_router_id r = rb_router_id b) = Some c"
    using orm_table.first_None [OF table assms(1), of "\<lambda>r. rb_router_id r = rb_router_id b"] assms(2) by fastforce
  note cs = orm_table.first_Some [OF table assms(1) c]
  then have [simp]: "c = b" using key_eq [OF assms(1)] assms(2) by blast
  have del: "delete_rb E (rb_router_id b) s = s\<lparr>es_rbs := q_del (ee_rb E) (es_rbs s) (\<lambda>r. rb_key r = rb_key b)\<rparr>"
    by (simp add: delete_rb_def delete_nsxv_router_binding_def c)
  show "ok (es_rbs (delete_rb E (rb_router_id b) s))"
    by (simp add: del orm_table.del_ok [OF table assms(1)])
  show "rbs (delete_rb E (rb_router_id b) s) = rbs s - {b}"
    using key_eq [OF assms(1)] assms(2) by (auto simp: del orm_table.del_rows [OF table assms(1)] rb_key_def)
qed (simp_all add: delete_rb_def)

end

context rb_table
begin

text \<open>What the return does when it finds the binding and its options: the row is replaced by a row of the
  pool for the same edge, and then it is decided what becomes of the edge.\<close>

definition returned :: "nat \<Rightarrow> router_binding \<Rightarrow> string option \<Rightarrow> router_binding" where
  "returned n b zn = \<lparr>rb_router_id = backup_name E n, rb_edge_id = rb_edge_id b, rb_lswitch_id = None,
     rb_status = ST_PENDING_UPDATE, rb_status_description = None, rb_appliance_size = rb_appliance_size b,
     rb_edge_type = rb_edge_type b, rb_availability_zone = zn\<rparr>"

lemma free_step:
  assumes env: "pm_env M = E" and "ok (es_rbs s)" "fresh_names E 1 s"
    and b: "get_nsxv_router_binding (ee_rb E) (es_rbs s) router_id = Some b"
    and zn: "edge_zone (ee_rb E) (es_rbs s) (rb_edge_id b) = Some zn"
    and pools: "map_of (pm_pools M) zn = Some pools" "map_of pools (rb_edge_type b) = Some sizes"
  obtains s1 where "ok (es_rbs s1)" "b \<in> rbs s" "rb_router_id b = router_id"
    "rbs s1 = insert (returned (es_next s) b (Some zn)) (rbs s - {b})" "es_jobs s1 = es_jobs s" "es_world s1 = es_world s"
    "free_edge_appliance M router_id s =
       return_edge M b (Some zn) (backup_name E (es_next s)) (map_of sizes (rb_appliance_size b)) s1"
proof -
  from orm_table.first_Some [OF table assms(2)] b have row: "b \<in> rbs s" "rb_router_id b = router_id"
    by (auto simp: get_nsxv_router_binding_def)
  let ?s = "(delete_rb E router_id s)\<lparr>es_next := Suc (es_next s)\<rparr>"
  note del = delete_one [OF assms(2) row(1), unfolded row(2)]
  have ok: "ok (es_rbs ?s)" and new: "backup_name E (es_next s) \<notin> rb_router_id ` rbs ?s"
    using del assms(3) by (auto simp: fresh_names_def)
  from add_new [OF ok new, of "rb_edge_id b" ST_PENDING_UPDATE "rb_appliance_size b" "rb_edge_type b" "Some zn"]
  obtain s1 where s1: "add_rb E (backup_name E (es_next s)) (rb_edge_id b) ST_PENDING_UPDATE (rb_appliance_size b)
      (rb_edge_type b) (Some zn) ?s = (Inr (), s1)" "ok (es_rbs s1)"
    "rbs s1 = insert (returned (es_next s) b (Some zn)) (rbs ?s)" "s1 = ?s\<lparr>es_rbs := es_rbs s1\<rparr>"
    unfolding returned_def by blast
  from s1(4) have "es_jobs s1 = es_jobs s" "es_world s1 = es_world s"
    using del(4,5) by (metis edge_state.select_convs(1,5) edge_state.surjective edge_state.update_convs(2,6))+
  moreover have "free_edge_appliance M router_id s =
       return_edge M b (Some zn) (backup_name E (es_next s)) (map_of sizes (rb_appliance_size b)) s1"
    using s1(1) del(3)
    by (simp add: free_edge_appliance_def Let_def env b zn get_az_pool_def pools bind_st_def return_st_def)
  ultimately show thesis using that [OF s1(2) row] s1(3) del(2) by simp
qed

lemma free_edges_are:
  assumes env: "pm_env M = E" and "ok (es_rbs s)" "fresh_names E 1 s"
  shows "ok (es_rbs (snd (free_edge_appliance M router_id s)))"
    "rb_edge_id ` rbs (snd (free_edge_appliance M router_id s)) = rb_edge_id ` rbs s"
proof -
  have same: "edges_are (rb_edge_id ` rbs s) s" using assms(2) by (simp add: edges_are_def)
  have "edges_are (rb_edge_id ` rbs s) (snd (free_edge_appliance M router_id s))"
  proof (cases "get_nsxv_router_binding (ee_rb E) (es_rbs s) router_id")
    case None
    with same show ?thesis by (simp add: free_edge_appliance_def env)
  next
    case (Some b)
    let ?zn = "edge_zone (ee_rb E) (es_rbs s) (rb_edge_id b)"
    show ?thesis
    proof (cases "\<exists>zn pools sizes. ?zn = Some zn \<and> map_of (pm_pools M) zn = Some pools \<and>
        map_of pools (rb_edge_type b) = Some sizes")
      case True
      then obtain zn pools sizes where "?zn = Some zn" "map_of (pm_pools M) zn = Some pools"
        "map_of pools (rb_edge_type b) = Some sizes" by blast
      from free_step [OF assms Some this] obtain s1 where s1: "ok (es_rbs s1)" "b \<in> rbs s"
        "rbs s1 = insert (returned (es_next s) b (Some zn)) (rbs s - {b})"
        "free_edge_appliance M router_id s =
          return_edge M b (Some zn) (backup_name E (es_next s)) (map_of sizes (rb_appliance_size b)) s1" by metis
      have "insert (rb_edge_id b) (rb_edge_id ` (rbs s - {b})) = rb_edge_id ` rbs s" using s1(2) by blast
      then have "edges_are (rb_edge_id ` rbs s) s1"
        using s1(1) by (simp add: edges_are_def s1(3)) (simp add: returned_def)
      then show ?thesis unfolding s1(4) by (rule keeps_stD [OF keeps_return_edge [OF env]])
    next
      case False
      then have "snd (free_edge_appliance M router_id s) = s"
        by (auto simp: free_edge_appliance_def Let_def env Some get_az_pool_def bind_st_def return_st_def raise_st_def
            split: option.splits Option.bind_splits)
      with same show ?thesis by simp
    qed
  qed
  then show "ok (es_rbs (snd (free_edge_appliance M router_id s)))"
    "rb_edge_id ` rbs (snd (free_edge_appliance M router_id s)) = rb_edge_id ` rbs s"
    by (simp_all add: edges_are_def)
qed

end

text \<open>Nothing is overdue, and edges in error are left to the housekeeper: nothing is cleaned.\<close>

definition quiet :: "('w, 'd, 't, 'v) pool_mgr \<Rightarrow> bool" where
  "quiet M \<longleftrightarrow> \<not> pm_readonly M \<and> (\<forall>b w. \<not> pm_create_overdue M b w \<and> \<not> pm_update_overdue M b w)"

context rb_table
begin

lemma quiet_clean:
  assumes env: "pm_env M = E" and "quiet M" "ok (es_rbs s)"
  shows "clean_all_error_edge_bindings M zone s = (Inr (), s)"
proof -
  let ?f = "Some [(''status'', [ST_PENDING_CREATE, ST_PENDING_UPDATE, ST_PENDING_DELETE]), (''availability_zone'', [az_name zone])]"
  let ?bs = "get_nsxv_router_bindings (ee_rb E) (ee_like E) (es_rbs s) ?f (Some pool_like)"
  have "rb_status b \<noteq> ST_ERROR" if "b \<in> set ?bs" for b
  proof -
    have col: "rb_column ''status'' = Some (\<lambda>r. Some (rb_status r))" by (simp add: rb_column_def)
    have "apply_filters_to_query (ee_like E) rb_column (\<lambda>_. True) ?f (Some pool_like) b"
      using that unfolding get_nsxv_router_bindings_def all_rows [OF assms(3)] by simp
    then show ?thesis by (auto simp: apply_filters_to_query_def filter_in_def col)
  qed
  then have "filter (erroneous M (es_world s)) ?bs = []"
    using assms(2) by (auto simp: filter_empty_conv erroneous_def quiet_def)
  then show ?thesis
    using assms(2) by (simp add: clean_all_error_edge_bindings_def Let_def env quiet_def
        delete_backup_edges_on_db_def delete_backup_edges_at_backend_def bind_st_def return_st_def)
qed

lemma discard_jobs:
  assumes "ok (es_rbs s)" "b \<in> rbs s" "rb_router_id b = i"
  shows "fst (discard_edge E i e d s) = Inr ()" "es_jobs (snd (discard_edge E i e d s)) = es_jobs s @ [Delete_job i e d]"
proof -
  from update_status [OF assms] obtain s' where
    s': "update_rb E i [Rb_status ST_PENDING_DELETE] s = (Inr (), s')" by metis
  then have "es_jobs s' = es_jobs s"
    using keeps_stD [OF update_rb_jobs, of s "es_jobs s" E i "[Rb_status ST_PENDING_DELETE]"] by simp
  then show "fst (discard_edge E i e d s) = Inr ()" "es_jobs (snd (discard_edge E i e d s)) = es_jobs s @ [Delete_job i e d]"
    by (simp_all add: discard_edge_def bind_st_def s' spawn_job_def)
qed

lemma free_jobs:
  assumes env: "pm_env M = E" and "ok (es_rbs s)" "fresh_names E 1 s" "quiet M"
    and b: "get_nsxv_router_binding (ee_rb E) (es_rbs s) router_id = Some b" "rb_status b \<noteq> ST_ERROR"
      "\<not> startswith router_id BACKUP_ROUTER_PREFIX"
    and zn: "edge_zone (ee_rb E) (es_rbs s) (rb_edge_id b) = Some (az_name zone)"
      "get_availability_zone M (Some (az_name zone)) = zone"
    and pools: "map_of (pm_pools M) (az_name zone) = Some pools" "map_of pools (rb_edge_type b) = Some sizes"
      "map_of sizes (rb_appliance_size b) = Some r"
    and up: "\<And>s'. es_world s' = es_world s \<Longrightarrow> fst (check_edge_active_at_backend E (rb_edge_id b) s')"
    and n: "n = length (get_backup_edge_bindings E (rb_appliance_size b) (rb_edge_type b) zone s)"
  shows "es_jobs (snd (free_edge_appliance M router_id s)) = es_jobs s @
    (if int n + 1 < maximum_pooled_edges r then []
     else [Delete_job (backup_name E (es_next s)) (rb_edge_id b) (rb_edge_type b = VDR_EDGE)])"
proof -
  let ?new = "returned (es_next s) b (Some (az_name zone))" and ?i = "backup_name E (es_next s)"
  let ?pool = "pool (rb_appliance_size b) (rb_edge_type b) zone"
  from free_step [OF assms(1-3) b(1) zn(1) pools(1,2)] obtain s1 where s1: "ok (es_rbs s1)" "b \<in> rbs s" "rb_router_id b = router_id"
    "rbs s1 = insert ?new (rbs s - {b})" "es_jobs s1 = es_jobs s" "es_world s1 = es_world s"
    "free_edge_appliance M router_id s =
       return_edge M b (Some (az_name zone)) ?i (map_of sizes (rb_appliance_size b)) s1" by metis
  obtain s2 where chk: "check_edge_active_at_backend E (rb_edge_id b) s1 = (True, s2)"
    using up [OF s1(6)] by (cases "check_edge_active_at_backend E (rb_edge_id b) s1") auto
  note same = same_dbD [OF active_same_db [OF chk]]
  have ok2: "ok (es_rbs s2)" using same s1(1) by simp
  have row: "?new \<in> rbs s2" "rb_router_id ?new = ?i" using same s1(4) by (simp_all add: returned_def)
  have "?pool s2 = insert ?new (?pool s)"
    using same s1(3,4) b(3) backup_name_prefix by (auto simp: pool_def in_pool_def returned_def)
  moreover have "?new \<notin> ?pool s"
    using assms(3) by (auto simp: pool_def fresh_names_def returned_def rev_image_eqI)
  ultimately have "card (?pool s2) = Suc (card (?pool s))" using pool_finite [OF assms(2)] by simp
  then have count: "length (get_backup_edge_bindings E (rb_appliance_size b) (rb_edge_type b) zone s2) = Suc n"
    using backup_bindings(3) [OF ok2] backup_bindings(3) [OF assms(2)] n by simp
  have "es_jobs (snd (collect_edge E ?i b zone s2)) = es_jobs s"
    using keeps_stD [OF keeps_collect [OF stable_jobs update_rb_jobs], of s2 "es_jobs s"] same s1(5) by simp
  moreover have "es_jobs (snd (discard_edge E ?i (rb_edge_id b) (rb_edge_type b = VDR_EDGE) s2)) =
      es_jobs s @ [Delete_job ?i (rb_edge_id b) (rb_edge_type b = VDR_EDGE)]"
    using discard_jobs(2) [OF ok2 row] same s1(5) by simp
  moreover have "free_edge_appliance M router_id s =
     (if int (Suc n) < maximum_pooled_edges r then collect_edge E ?i b zone s2
      else discard_edge E ?i (rb_edge_id b) (rb_edge_type b = VDR_EDGE) s2)"
    using b(2) quiet_clean [OF env assms(4) ok2]
    by (simp add: s1(7) return_edge_def Let_def env chk pools(3) zn(2) bind_st_def count)
  ultimately show ?thesis by simp
qed

end

text \<open>C20: Returning an edge to the pool loses no edge: whatever its result, exceptions included, the edges
  named by the table of bindings are those named before. The only thing assumed is that the name drawn
  for the edge is not taken.\<close>

theorem returned_edge_is_not_lost:
  assumes "rb_table (pm_env M) ok" "ok (es_rbs s)" "fresh_names (pm_env M) 1 s"
  shows "rb_edge_id ` rows (ee_rb (pm_env M)) (es_rbs (snd (free_edge_appliance M router_id s))) =
    rb_edge_id ` rows (ee_rb (pm_env M)) (es_rbs s)"
  by (rule rb_table.free_edges_are(2) [OF assms(1) refl assms(2,3)])

text \<open>An edge that is up and is returned to a pool of \<open>n\<close> other edges is collected only when \<open>n + 1\<close> is
  below the maximum, because it has been given its name in the pool before the count: a pool that lacks
  exactly one edge has the returned edge deleted.\<close>

theorem returned_edge_counts_itself:
  assumes "rb_table (pm_env M) ok" "ok (es_rbs s)" "fresh_names (pm_env M) 1 s" "quiet M"
    and "get_nsxv_router_binding (ee_rb (pm_env M)) (es_rbs s) router_id = Some b" "rb_status b \<noteq> ST_ERROR"
      "\<not> startswith router_id BACKUP_ROUTER_PREFIX"
    and "edge_zone (ee_rb (pm_env M)) (es_rbs s) (rb_edge_id b) = Some (az_name zone)"
      "get_availability_zone M (Some (az_name zone)) = zone"
    and "map_of (pm_pools M) (az_name zone) = Some pools" "map_of pools (rb_edge_type b) = Some sizes"
      "map_of sizes (rb_appliance_size b) = Some r"
    and "\<And>s'. es_world s' = es_world s \<Longrightarrow> fst (check_edge_active_at_backend (pm_env M) (rb_edge_id b) s')"
    and "n = length (get_backup_edge_bindings (pm_env M) (rb_appliance_size b) (rb_edge_type b) zone s)"
  shows "es_jobs (snd (free_edge_appliance M router_id s)) = es_jobs s @
    (if int n + 1 < maximum_pooled_edges r then []
     else [Delete_job (backup_name (pm_env M) (es_next s)) (rb_edge_id b) (rb_edge_type b = VDR_EDGE)])"
  by (rule rb_table.free_jobs [OF assms(1) refl assms(2-)])

lemma sample_fresh:
  assumes "\<And>b. b \<in> set bs \<Longrightarrow> rb_router_id b \<noteq> ''backup-7''"
  shows "fresh_names (pm_env (sample_mgr po)) 1 (sample_state bs)"
proof -
  have "backup_name sample_env 7 = ''backup-7''" by code_simp
  moreover have "pm_env (sample_mgr po) = sample_env" by (simp add: sample_mgr_def)
  moreover have "rows (ee_rb sample_env) (es_rbs (sample_state bs)) = set bs" "es_next (sample_state bs) = 7"
    by (simp_all add: sample_env_def sample_state_def)
  moreover have "{7..<7 + 1} = {7::nat}" by auto
  ultimately show ?thesis using assms by (force simp: fresh_names_def)
qed

lemma sample_ok: "distinct (map rb_router_id bs) \<Longrightarrow> keys_distinct rb_key (es_rbs (sample_state bs))"
  by (simp add: keys_distinct_def sample_state_def rb_key_def [abs_def])

theorem returned_edge_is_not_lost_witness:
  "Some ''edge-1'' \<in> rb_edge_id ` rows (ee_rb sample_env) (es_rbs (snd (free_edge_appliance (sample_mgr [])
    ''router'' (sample_state [sample_row ''router'' ST_ACTIVE (Some ''edge-1'')]))))"
proof -
  let ?bs = "[sample_row ''router'' ST_ACTIVE (Some ''edge-1'')]"
  have env: "pm_env (sample_mgr []) = sample_env" by (simp add: sample_mgr_def)
  have fresh: "fresh_names (pm_env (sample_mgr [])) 1 (sample_state ?bs)"
    by (rule sample_fresh) (simp add: sample_row_def)
  have "rows (ee_rb sample_env) (es_rbs (sample_state ?bs)) = set ?bs"
    by (simp add: sample_env_def sample_state_def)
  then show ?thesis
    using returned_edge_is_not_lost [of "sample_mgr []", unfolded env, OF rb_table_sample sample_ok fresh [unfolded env], of "''router''"]
    by (simp add: sample_row_def)
qed

lemma green_active: "fst (check_edge_active_at_backend sample_env (Some i) s)"
  by (simp add: check_edge_active_at_backend_def driver_get_edge_status_def call_def get_edge_status_def json_request_def
      do_request_def client_request_def retry_upon_exception_def helper_request_def sample_env_def green_vcns_def
      encode_params_def bind_st_def body_of_def edge_status_to_level_def numeral_3_eq_3)

theorem returned_edge_counts_itself_witness:
  "es_jobs (snd (free_edge_appliance (sample_mgr [''service:compact:0:1'']) ''router''
     (sample_state [sample_row ''router'' ST_ACTIVE (Some ''edge-1'')]))) = [Delete_job ''backup-7'' (Some ''edge-1'') False]"
proof -
  let ?M = "sample_mgr [''service:compact:0:1'']" and ?zone = "sample_zone [''service:compact:0:1'']"
  let ?b = "sample_row ''router'' ST_ACTIVE (Some ''edge-1'')"
  let ?s = "sample_state [?b]" and ?r = "\<lparr>minimum_pooled_edges = 0, maximum_pooled_edges = 1\<rparr>"
  have env: "pm_env ?M = sample_env" by (simp add: sample_mgr_def)
  have fresh: "fresh_names (pm_env ?M) 1 ?s"
    by (rule sample_fresh) (simp add: sample_row_def)
  have q: "quiet ?M" by (simp add: quiet_def sample_mgr_def)
  have name: "backup_name sample_env 7 = ''backup-7''" by code_simp
  have facts: "get_nsxv_router_binding (ee_rb sample_env) (es_rbs ?s) ''router'' = Some ?b"
    "edge_zone (ee_rb sample_env) (es_rbs ?s) (rb_edge_id ?b) = Some (az_name ?zone)"
    "map_of (pm_pools ?M) (az_name ?zone) = Some [(SERVICE_EDGE, [(COMPACT, ?r)]), (VDR_EDGE, [])]"
    "0 = length (get_backup_edge_bindings sample_env COMPACT SERVICE_EDGE ?zone ?s)"
    by code_simp+
  have zone: "get_availability_zone ?M (Some (az_name ?zone)) = ?zone"
    by (simp add: get_availability_zone_def sample_mgr_def)
  have up: "fst (check_edge_active_at_backend sample_env (rb_edge_id ?b) s')" for s'
    using green_active [of "''edge-1''" s'] by (simp add: sample_row_def)
  have row: "rb_status ?b \<noteq> ST_ERROR" "\<not> startswith ''router'' BACKUP_ROUTER_PREFIX"
    "map_of [(SERVICE_EDGE, [(COMPACT, ?r)]), (VDR_EDGE, [])] (rb_edge_type ?b) = Some [(COMPACT, ?r)]"
    "map_of [(COMPACT, ?r)] (rb_appliance_size ?b) = Some ?r" "rb_appliance_size ?b = COMPACT" "rb_edge_type ?b = SERVICE_EDGE"
    "rb_edge_id ?b = Some ''edge-1''"
    by (simp_all add: sample_row_def startswith_def BACKUP_ROUTER_PREFIX_def)
  have n: "0 = length (get_backup_edge_bindings sample_env (rb_appliance_size ?b) (rb_edge_type ?b) ?zone ?s)"
    using facts(4) by (simp add: row)
  have ok: "keys_distinct rb_key (es_rbs ?s)" by (rule sample_ok) simp
  have "es_jobs (snd (free_edge_appliance ?M ''router'' ?s)) = es_jobs ?s @ (if int 0 + 1 < maximum_pooled_edges ?r then []
      else [Delete_job (backup_name sample_env (es_next ?s)) (rb_edge_id ?b) (rb_edge_type ?b = VDR_EDGE)])"
    by (rule returned_edge_counts_itself [of ?M, unfolded env, OF rb_table_sample ok fresh [unfolded env] q facts(1) row(1,2)
      facts(2) zone facts(3) row(3,4) up n])
  moreover have "es_next ?s = 7" "es_jobs ?s = []" by (simp_all add: sample_state_def)
  ultimately show ?thesis by (simp add: row name)
qed

end
