(* ===== verification/NsxModels.thy ===== *)
theory NsxModels
  imports Orm
begin

text \<open>
  The tables that the NSX-v3 and NSX-mh plugins share (\<open>db/nsx_models.py\<close>): one record per
  model class, with a prefix on the columns, a nullable column as an option, and the primary
  key as a function of the row. Timestamps, foreign keys and relationships are left out, as
  are the classes that no function of \<open>db/db.py\<close> or \<open>db/lsn_db.py\<close> uses. The port table of the
  logical service nodes has two more columns with unique values, the subnet and the MAC
  address.
\<close>

datatype nsx_tz_type = TzFlat | TzVlan | TzStt | TzGre | TzL3Ext | TzGeneve | TzPortgroup | TzNsxNet

datatype plugin_type = Dvs | NsxV | NsxT

record nsx_tz_binding =
  nb_network_id :: string
  nb_binding_type :: nsx_tz_type
  nb_phy_uuid :: string
  nb_vlan_id :: int

definition nb_key :: "nsx_tz_binding \<Rightarrow> string \<times> nsx_tz_type \<times> string \<times> int" where
  "nb_key r = (nb_network_id r, nb_binding_type r, nb_phy_uuid r, nb_vlan_id r)"

record network_mapping =
  nm_neutron_id :: string
  nm_nsx_id :: string
  nm_dvs_id :: "string option"

definition nm_key :: "network_mapping \<Rightarrow> string \<times> string" where
  "nm_key r = (nm_neutron_id r, nm_nsx_id r)"

record sg_mapping =
  gm_neutron_id :: string
  gm_nsx_id :: string

definition gm_key :: "sg_mapping \<Rightarrow> string \<times> string" where
  "gm_key r = (gm_neutron_id r, gm_nsx_id r)"

record fw_section_mapping =
  xs_neutron_id :: string
  xs_nsx_id :: string

definition xs_key :: "fw_section_mapping \<Rightarrow> string" where
  "xs_key r = xs_neutron_id r"

record sg_rule_mapping =
  xr_neutron_id :: string
  xr_nsx_id :: string

definition xr_key :: "sg_rule_mapping \<Rightarrow> string" where
  "xr_key r = xr_neutron_id r"

record port_mapping =
  pm_neutron_id :: string
  pm_nsx_switch_id :: "string option"
  pm_nsx_port_id :: string

definition pm_key :: "port_mapping \<Rightarrow> string" where
  "pm_key r = pm_neutron_id r"

record router_mapping =
  rt_neutron_id :: string
  rt_nsx_id :: "string option"

definition rt_key :: "router_mapping \<Rightarrow> string" where
  "rt_key r = rt_neutron_id r"

record service_binding =
  sv_network_id :: string
  sv_port_id :: "string option"
  sv_nsx_service_type :: string
  sv_nsx_service_id :: string

definition sv_key :: "service_binding \<Rightarrow> string \<times> string" where
  "sv_key r = (sv_network_id r, sv_nsx_service_type r)"

record dhcp_binding =
  dh_port_id :: string
  dh_subnet_id :: string
  dh_ip_address :: string
  dh_nsx_service_id :: string
  dh_nsx_binding_id :: string

definition dh_key :: "dhcp_binding \<Rightarrow> string \<times> string" where
  "dh_key r = (dh_port_id r, dh_nsx_binding_id r)"

record multi_provider =
  mp_network_id :: string

definition mp_key :: "multi_provider \<Rightarrow> string" where
  "mp_key r = mp_network_id r"

record l2gw_mapping =
  lg_connection_id :: string
  lg_port_id :: string
  lg_bridge_endpoint_id :: string

definition lg_key :: "l2gw_mapping \<Rightarrow> string" where
  "lg_key r = lg_connection_id r"

record qos_mapping =
  qp_qos_policy_id :: string
  qp_switch_profile_id :: string

definition qp_key :: "qos_mapping \<Rightarrow> string" where
  "qp_key r = qp_qos_policy_id r"

record subnet_ipam =
  ip_subnet_id :: string
  ip_nsx_pool_id :: string

definition ip_key :: "subnet_ipam \<Rightarrow> string \<times> string" where
  "ip_key r = (ip_subnet_id r, ip_nsx_pool_id r)"

record certificate =
  ct_purpose :: string
  ct_certificate :: string
  ct_private_key :: string

definition ct_key :: "certificate \<Rightarrow> string" where
  "ct_key r = ct_purpose r"

record v3_loadbalancer =
  nl_loadbalancer_id :: string
  nl_lb_router_id :: string
  nl_lb_service_id :: string
  nl_vip_address :: string

definition nl_key :: "v3_loadbalancer \<Rightarrow> string" where
  "nl_key r = nl_loadbalancer_id r"

record v3_listener =
  ns_loadbalancer_id :: string
  ns_listener_id :: string
  ns_app_profile_id :: string
  ns_lb_vs_id :: string

definition ns_key :: "v3_listener \<Rightarrow> string \<times> string" where
  "ns_key r = (ns_loadbalancer_id r, ns_listener_id r)"

record v3_pool =
  np_loadbalancer_id :: string
  np_pool_id :: string
  np_lb_pool_id :: string
  np_lb_vs_id :: "string option"

definition np_key :: "v3_pool \<Rightarrow> string \<times> string" where
  "np_key r = (np_loadbalancer_id r, np_pool_id r)"

record v3_monitor =
  no_loadbalancer_id :: string
  no_pool_id :: string
  no_hm_id :: string
  no_lb_monitor_id :: string
  no_lb_pool_id :: string

definition no_key :: "v3_monitor \<Rightarrow> string \<times> string \<times> string" where
  "no_key r = (no_loadbalancer_id r, no_pool_id r, no_hm_id r)"

record v3_l7policy =
  n7_l7policy_id :: string
  n7_lb_rule_id :: string
  n7_lb_vs_id :: string

definition n7_key :: "v3_l7policy \<Rightarrow> string" where
  "n7_key r = n7_l7policy_id r"

record project_mapping =
  pp_project :: string
  pp_plugin :: plugin_type

definition pp_key :: "project_mapping \<Rightarrow> string" where
  "pp_key r = pp_project r"

record vpn_mapping =
  vc_neutron_id :: string
  vc_session_id :: string
  vc_dpd_profile_id :: string
  vc_ike_profile_id :: string
  vc_ipsec_profile_id :: string
  vc_peer_ep_id :: string

definition vc_key :: "vpn_mapping \<Rightarrow> string" where
  "vc_key r = vc_neutron_id r"

record lsn_row =
  ls_net_id :: string
  ls_lsn_id :: string

definition ls_key :: "lsn_row \<Rightarrow> string" where
  "ls_key r = ls_lsn_id r"

record lsn_port_row =
  lt_lsn_port_id :: string
  lt_lsn_id :: string
  lt_sub_id :: string
  lt_mac_addr :: string

definition lt_key :: "lsn_port_row \<Rightarrow> string" where
  "lt_key r = lt_lsn_port_id r"

text \<open>Every table kept as a list of rows with distinct keys meets the database contract.\<close>

interpretation nb_tbl: orm_table "list_orm nb_key" nb_key "keys_distinct nb_key"
  by (rule list_orm_table)

interpretation nm_tbl: orm_table "list_orm nm_key" nm_key "keys_distinct nm_key"
  by (rule list_orm_table)

interpretation gm_tbl: orm_table "list_orm gm_key" gm_key "keys_distinct gm_key"
  by (rule list_orm_table)

interpretation xs_tbl: orm_table "list_orm xs_key" xs_key "keys_distinct xs_key"
  by (rule list_orm_table)

interpretation xr_tbl: orm_table "list_orm xr_key" xr_key "keys_distinct xr_key"
  by (rule list_orm_table)

interpretation pm_tbl: orm_table "list_orm pm_key" pm_key "keys_distinct pm_key"
  by (rule list_orm_table)

interpretation rt_tbl: orm_table "list_orm rt_key" rt_key "keys_distinct rt_key"
  by (rule list_orm_table)

interpretation sv_tbl: orm_table "list_orm sv_key" sv_key "keys_distinct sv_key"
  by (rule list_orm_table)

interpretation dh_tbl: orm_table "list_orm dh_key" dh_key "keys_distinct dh_key"
  by (rule list_orm_table)

interpretation mp_tbl: orm_table "list_orm mp_key" mp_key "keys_distinct mp_key"
  by (rule list_orm_table)

interpretation lg_tbl: orm_table "list_orm lg_key" lg_key "keys_distinct lg_key"
  by (rule list_orm_table)

interpretation qp_tbl: orm_table "list_orm qp_key" qp_key "keys_distinct qp_key"
  by (rule list_orm_table)

interpretation ip_tbl: orm_table "list_orm ip_key" ip_key "keys_distinct ip_key"
  by (rule list_orm_table)

interpretation ct_tbl: orm_table "list_orm ct_key" ct_key "keys_distinct ct_key"
  by (rule list_orm_table)

interpretation nl_tbl: orm_table "list_orm nl_key" nl_key "keys_distinct nl_key"
  by (rule list_orm_table)

interpretation ns_tbl: orm_table "list_orm ns_key" ns_key "keys_distinct ns_key"
  by (rule list_orm_table)

interpretation np_tbl: orm_table "list_orm np_key" np_key "keys_distinct np_key"
  by (rule list_orm_table)

interpretation no_tbl: orm_table "list_orm no_key" no_key "keys_distinct no_key"
  by (rule list_orm_table)

interpretation n7_tbl: orm_table "list_orm n7_key" n7_key "keys_distinct n7_key"
  by (rule list_orm_table)

interpretation pp_tbl: orm_table "list_orm pp_key" pp_key "keys_distinct pp_key"
  by (rule list_orm_table)

interpretation vc_tbl: orm_table "list_orm vc_key" vc_key "keys_distinct vc_key"
  by (rule list_orm_table)

interpretation ls_tbl: orm_table "list_orm ls_key" ls_key "keys_distinct ls_key"
  by (rule list_orm_table)

interpretation lt_tbl: orm_table "list_orm lt_key" lt_key "keys_distinct lt_key"
  by (rule list_orm_table)

lemmas nsx_key_defs =
 nb_key_def nm_key_def gm_key_def xs_key_def xr_key_def pm_key_def
 rt_key_def sv_key_def dh_key_def mp_key_def lg_key_def qp_key_def
 ip_key_def ct_key_def nl_key_def ns_key_def np_key_def no_key_def
 n7_key_def pp_key_def vc_key_def ls_key_def lt_key_def

end
