(* ===== verification/NsxDb.thy ===== *)
theory NsxDb
  imports NsxModels NsxvDb
begin

text \<open>
  The operations on the tables of the NSX-v3 and NSX-mh plugins (\<open>db/db.py\<close>), one definition
  per function in the order of the source, over the database parameter of theory Orm. The
  functions whose name also occurs in \<open>db/nsxv_db.py\<close> have the prefix \<open>nsx_\<close>. Whether a
  string looks like a UUID is the parameter \<open>is_uuid_like\<close> (oslo_utils).
\<close>

subsection \<open>Networks, ports and routers\<close>

definition nsx_get_network_bindings :: "('t, nsx_tz_binding) orm \<Rightarrow> 't \<Rightarrow> string \<Rightarrow> nsx_tz_binding list" where
  "nsx_get_network_bindings D t network_id =
     q_all D t (\<lambda>r. nb_network_id r = network_id)"

definition get_network_bindings_by_phy_uuid :: "('t, nsx_tz_binding) orm \<Rightarrow> 't \<Rightarrow> string \<Rightarrow> nsx_tz_binding list" where
  "get_network_bindings_by_phy_uuid D t phy_uuid =
     q_all D t (\<lambda>r. nb_phy_uuid r = phy_uuid)"

definition nsx_get_network_bindings_by_vlanid :: "('t, nsx_tz_binding) orm \<Rightarrow> 't \<Rightarrow> int \<Rightarrow> string \<Rightarrow> nsx_tz_binding list" where
  "nsx_get_network_bindings_by_vlanid D t vlan_id phy_uuid =
     q_all D t (\<lambda>r. nb_vlan_id r = vlan_id \<and> nb_phy_uuid r = phy_uuid)"

definition nsx_delete_network_bindings :: "('t, nsx_tz_binding) orm \<Rightarrow> 't \<Rightarrow> string \<Rightarrow> nat \<times> 't" where
  "nsx_delete_network_bindings D t network_id =
     q_delete D t (\<lambda>r. nb_network_id r = network_id)"

definition nsx_add_network_binding :: "('t, nsx_tz_binding) orm \<Rightarrow> 't \<Rightarrow> string \<Rightarrow> nsx_tz_type \<Rightarrow> string \<Rightarrow> int \<Rightarrow>
    db_error + nsx_tz_binding \<times> 't" where
  "nsx_add_network_binding D t network_id binding_type phy_uuid vlan_id =
     add_row D t \<lparr>nb_network_id = network_id, nb_binding_type = binding_type, nb_phy_uuid = phy_uuid, nb_vlan_id = vlan_id\<rparr>"

definition add_neutron_nsx_network_mapping :: "('t, network_mapping) orm \<Rightarrow> 't \<Rightarrow> string \<Rightarrow> string \<Rightarrow> string option \<Rightarrow>
    db_error + network_mapping \<times> 't" where
  "add_neutron_nsx_network_mapping D t neutron_id nsx_switch_id dvs_id =
     add_row D t \<lparr>nm_neutron_id = neutron_id, nm_nsx_id = nsx_switch_id, nm_dvs_id = dvs_id\<rparr>"

definition delete_neutron_nsx_network_mapping :: "('t, network_mapping) orm \<Rightarrow> 't \<Rightarrow> string \<Rightarrow> nat \<times> 't" where
  "delete_neutron_nsx_network_mapping D t neutron_id =
     q_delete D t (\<lambda>r. nm_neutron_id r = neutron_id)"

definition get_nsx_switch_and_port_id :: "('t, port_mapping) orm \<Rightarrow> 't \<Rightarrow> string \<Rightarrow> db_error + string option \<times> string option" where
  "get_nsx_switch_and_port_id D t neutron_id =
     bind_res (one_or_none D t (\<lambda>r. pm_neutron_id r = neutron_id))
       (\<lambda>mapping. Inr (case mapping of None \<Rightarrow> (None, None)
          | Some m \<Rightarrow> (pm_nsx_switch_id m, Some (pm_nsx_port_id m))))"

text \<open>Adding a port mapping that is already there is accepted when it is to the same backend
  port; the mapping returned is the new object in either case.\<close>

definition add_neutron_nsx_port_mapping :: "('t, port_mapping) orm \<Rightarrow> 't \<Rightarrow> string \<Rightarrow> string option \<Rightarrow> string \<Rightarrow> db_error + port_mapping \<times> 't" where
  "add_neutron_nsx_port_mapping D t neutron_id nsx_switch_id nsx_port_id =
     (let mapping = \<lparr>pm_neutron_id = neutron_id, pm_nsx_switch_id = nsx_switch_id, pm_nsx_port_id = nsx_port_id\<rparr>
      in case add_row D t mapping of
           Inl DBDuplicateEntry \<Rightarrow>
             bind_res (get_nsx_switch_and_port_id D t neutron_id)
               (\<lambda>current. if snd current = Some nsx_port_id then Inr (mapping, t) else Inl DBDuplicateEntry)
         | res \<Rightarrow> res)"

definition add_neutron_nsx_router_mapping :: "('t, router_mapping) orm \<Rightarrow> 't \<Rightarrow> string \<Rightarrow> string option \<Rightarrow>
    db_error + router_mapping \<times> 't" where
  "add_neutron_nsx_router_mapping D t neutron_id nsx_router_id =
     add_row D t \<lparr>rt_neutron_id = neutron_id, rt_nsx_id = nsx_router_id\<rparr>"

definition add_neutron_nsx_security_group_mapping :: "('t, sg_mapping) orm \<Rightarrow> 't \<Rightarrow> string \<Rightarrow> string \<Rightarrow>
    db_error + sg_mapping \<times> 't" where
  "add_neutron_nsx_security_group_mapping D t neutron_id nsx_id =
     add_row D t \<lparr>gm_neutron_id = neutron_id, gm_nsx_id = nsx_id\<rparr>"

subsection \<open>Services and DHCP bindings\<close>

definition get_nsx_service_binding :: "('t, service_binding) orm \<Rightarrow> 't \<Rightarrow> string \<Rightarrow> string \<Rightarrow> db_error + service_binding option" where
  "get_nsx_service_binding D t network_id service_type =
     one_or_none D t (\<lambda>r. sv_network_id r = network_id \<and> sv_nsx_service_type r = service_type)"

definition add_neutron_nsx_service_binding :: "('t, service_binding) orm \<Rightarrow> 't \<Rightarrow> string \<Rightarrow> string option \<Rightarrow> string \<Rightarrow> string \<Rightarrow>
    db_error + service_binding \<times> 't" where
  "add_neutron_nsx_service_binding D t network_id port_id service_type service_id =
     add_row D t \<lparr>sv_network_id = network_id, sv_port_id = port_id, sv_nsx_service_type = service_type, sv_nsx_service_id = service_id\<rparr>"

definition delete_neutron_nsx_service_binding :: "('t, service_binding) orm \<Rightarrow> 't \<Rightarrow> string \<Rightarrow> string \<Rightarrow> nat \<times> 't" where
  "delete_neutron_nsx_service_binding D t network_id service_type =
     q_delete D t (\<lambda>r. sv_network_id r = network_id \<and> sv_nsx_service_type r = service_type)"

definition update_nsx_dhcp_bindings :: "('t, dhcp_binding) orm \<Rightarrow> 't \<Rightarrow> string \<Rightarrow> string \<Rightarrow> string \<Rightarrow> db_error + 't" where
  "update_nsx_dhcp_bindings D t port_id org_ip new_ip =
     bind_res (one_or_none D t (\<lambda>r. dh_port_id r = port_id \<and> dh_ip_address r = org_ip))
       (\<lambda>binding. Inr (case binding of None \<Rightarrow> t
          | Some b \<Rightarrow> snd (set_row D dh_key t b (\<lambda>r. r\<lparr>dh_ip_address := new_ip\<rparr>))))"

definition get_nsx_dhcp_bindings :: "('t, dhcp_binding) orm \<Rightarrow> 't \<Rightarrow> string \<Rightarrow> dhcp_binding list" where
  "get_nsx_dhcp_bindings D t port_id =
     q_all D t (\<lambda>r. dh_port_id r = port_id)"

definition get_nsx_dhcp_bindings_by_service :: "('t, dhcp_binding) orm \<Rightarrow> 't \<Rightarrow> string \<Rightarrow> dhcp_binding list" where
  "get_nsx_dhcp_bindings_by_service D t service_id =
     q_all D t (\<lambda>r. dh_nsx_service_id r = service_id)"

definition add_neutron_nsx_dhcp_binding :: "('t, dhcp_binding) orm \<Rightarrow> 't \<Rightarrow> string \<Rightarrow> string \<Rightarrow> string \<Rightarrow> string \<Rightarrow> string \<Rightarrow>
    db_error + dhcp_binding \<times> 't" where
  "add_neutron_nsx_dhcp_binding D t port_id subnet_id ip_address service_id binding_id =
     add_row D t \<lparr>dh_port_id = port_id, dh_subnet_id = subnet_id, dh_ip_address = ip_address, dh_nsx_service_id = service_id, dh_nsx_binding_id = binding_id\<rparr>"

definition delete_neutron_nsx_dhcp_binding :: "('t, dhcp_binding) orm \<Rightarrow> 't \<Rightarrow> string \<Rightarrow> string \<Rightarrow> nat \<times> 't" where
  "delete_neutron_nsx_dhcp_binding D t port_id binding_id =
     q_delete D t (\<lambda>r. dh_port_id r = port_id \<and> dh_nsx_binding_id r = binding_id)"

definition delete_neutron_nsx_dhcp_bindings_by_service_id :: "('t, dhcp_binding) orm \<Rightarrow> 't \<Rightarrow> string \<Rightarrow> nat \<times> 't" where
  "delete_neutron_nsx_dhcp_bindings_by_service_id D t service_id =
     q_delete D t (\<lambda>r. dh_nsx_service_id r = service_id)"

subsection \<open>Lookups from Neutron to the backend and back\<close>

definition get_nsx_switch_ids :: "('t, network_mapping) orm \<Rightarrow> 't \<Rightarrow> string \<Rightarrow> string list" where
  "get_nsx_switch_ids D t neutron_id =
     map nm_nsx_id (q_all D t (\<lambda>r. nm_neutron_id r = neutron_id))"

definition get_nsx_network_mappings :: "('t, network_mapping) orm \<Rightarrow> 't \<Rightarrow> string \<Rightarrow> network_mapping list" where
  "get_nsx_network_mappings D t neutron_id =
     q_all D t (\<lambda>r. nm_neutron_id r = neutron_id)"

definition get_nsx_switch_id_for_dvs :: "('t, network_mapping) orm \<Rightarrow> 't \<Rightarrow> string \<Rightarrow> string \<Rightarrow> db_error + string option" where
  "get_nsx_switch_id_for_dvs D t neutron_id dvs_id =
     bind_res (one_or_none D t (\<lambda>r. nm_neutron_id r = neutron_id \<and> nm_dvs_id r = Some dvs_id))
       (\<lambda>mapping. Inr (map_option nm_nsx_id mapping))"

definition get_nsx_network_mapping_for_nsx_id :: "('t, network_mapping) orm \<Rightarrow> 't \<Rightarrow> string \<Rightarrow> network_mapping list" where
  "get_nsx_network_mapping_for_nsx_id D t nsx_id =
     q_all D t (\<lambda>r. nm_nsx_id r = nsx_id)"

definition get_net_ids :: "('t, network_mapping) orm \<Rightarrow> 't \<Rightarrow> string \<Rightarrow> string list" where
  "get_net_ids D t nsx_id =
     map nm_neutron_id (get_nsx_network_mapping_for_nsx_id D t nsx_id)"

definition get_nsx_networks_mapping :: "('t, network_mapping) orm \<Rightarrow> 't \<Rightarrow> network_mapping list" where
  "get_nsx_networks_mapping D t =
     q_all D t (\<lambda>_. True)"

definition get_nsx_router_id :: "('t, router_mapping) orm \<Rightarrow> 't \<Rightarrow> string \<Rightarrow> db_error + string option" where
  "get_nsx_router_id D t neutron_id =
     bind_res (one_or_none D t (\<lambda>r. rt_neutron_id r = neutron_id))
       (\<lambda>mapping. Inr (case mapping of None \<Rightarrow> None | Some m \<Rightarrow> rt_nsx_id m))"

definition get_neutron_from_nsx_router_id :: "('t, router_mapping) orm \<Rightarrow> 't \<Rightarrow> string \<Rightarrow> db_error + string option" where
  "get_neutron_from_nsx_router_id D t nsx_router_id =
     bind_res (one_or_none D t (\<lambda>r. rt_nsx_id r = Some nsx_router_id))
       (\<lambda>mapping. Inr (map_option rt_neutron_id mapping))"

text \<open>The first mapping of a group whose backend id is a managed object reference, or a UUID,
  as asked for.\<close>

fun pick_id :: "(string \<Rightarrow> bool) \<Rightarrow> bool \<Rightarrow> string list \<Rightarrow> string option" where
  "pick_id is_uuid_like moref [] = None"
| "pick_id is_uuid_like moref (i # is) =
     (if moref \<and> \<not> is_uuid_like i then Some i
      else if \<not> moref \<and> is_uuid_like i then Some i
      else pick_id is_uuid_like moref is)"

definition get_nsx_security_group_id :: "(string \<Rightarrow> bool) \<Rightarrow> ('t, sg_mapping) orm \<Rightarrow> 't \<Rightarrow> string \<Rightarrow> bool \<Rightarrow> string option" where
  "get_nsx_security_group_id is_uuid_like D t neutron_id moref =
     pick_id is_uuid_like moref (map gm_nsx_id (q_all D t (\<lambda>r. gm_neutron_id r = neutron_id)))"

definition delete_by_neutron_id :: "('t, 'r) orm \<Rightarrow> ('r \<Rightarrow> string) \<Rightarrow> 't \<Rightarrow> string \<Rightarrow> nat \<times> 't" where
  "delete_by_neutron_id D id_of t neutron_id =
     q_delete D t (\<lambda>r. id_of r = neutron_id)"

definition delete_neutron_nsx_port_mapping :: "('t, port_mapping) orm \<Rightarrow> 't \<Rightarrow> string \<Rightarrow> nat \<times> 't" where
  "delete_neutron_nsx_port_mapping D t neutron_id =
     delete_by_neutron_id D pm_neutron_id t neutron_id"

definition delete_neutron_nsx_router_mapping :: "('t, router_mapping) orm \<Rightarrow> 't \<Rightarrow> string \<Rightarrow> nat \<times> 't" where
  "delete_neutron_nsx_router_mapping D t neutron_id =
     delete_by_neutron_id D rt_neutron_id t neutron_id"

definition set_multiprovider_network :: "('t, multi_provider) orm \<Rightarrow> 't \<Rightarrow> string \<Rightarrow>
    db_error + multi_provider \<times> 't" where
  "set_multiprovider_network D t network_id =
     add_row D t \<lparr>mp_network_id = network_id\<rparr>"

definition is_multiprovider_network :: "('t, multi_provider) orm \<Rightarrow> 't \<Rightarrow> string \<Rightarrow> bool" where
  "is_multiprovider_network D t network_id =
     (q_first D t (\<lambda>r. mp_network_id r = network_id) \<noteq> None)"

subsection \<open>L2 gateway, QoS and security groups\<close>

definition add_l2gw_connection_mapping :: "('t, l2gw_mapping) orm \<Rightarrow> 't \<Rightarrow> string \<Rightarrow> string \<Rightarrow> string \<Rightarrow>
    db_error + l2gw_mapping \<times> 't" where
  "add_l2gw_connection_mapping D t connection_id bridge_endpoint_id port_id =
     add_row D t \<lparr>lg_connection_id = connection_id, lg_port_id = port_id, lg_bridge_endpoint_id = bridge_endpoint_id\<rparr>"

definition get_l2gw_connection_mapping :: "('t, l2gw_mapping) orm \<Rightarrow> 't \<Rightarrow> string \<Rightarrow> db_error + l2gw_mapping option" where
  "get_l2gw_connection_mapping D t connection_id =
     one_or_none D t (\<lambda>r. lg_connection_id r = connection_id)"

definition add_qos_policy_profile_mapping :: "('t, qos_mapping) orm \<Rightarrow> 't \<Rightarrow> string \<Rightarrow> string \<Rightarrow>
    db_error + qos_mapping \<times> 't" where
  "add_qos_policy_profile_mapping D t qos_policy_id switch_profile_id =
     add_row D t \<lparr>qp_qos_policy_id = qos_policy_id, qp_switch_profile_id = switch_profile_id\<rparr>"

definition get_switch_profile_by_qos_policy :: "('t, qos_mapping) orm \<Rightarrow> 't \<Rightarrow> string \<Rightarrow> db_error + string" where
  "get_switch_profile_by_qos_policy D t qos_policy_id =
     bind_res (one_or_none D t (\<lambda>r. qp_qos_policy_id r = qos_policy_id))
       (\<lambda>entry. case entry of None \<Rightarrow> Inl NsxQosPolicyMappingNotFound | Some e \<Rightarrow> Inr (qp_switch_profile_id e))"

definition delete_qos_policy_profile_mapping :: "('t, qos_mapping) orm \<Rightarrow> 't \<Rightarrow> string \<Rightarrow> nat \<times> 't" where
  "delete_qos_policy_profile_mapping D t qos_policy_id =
     q_delete D t (\<lambda>r. qp_qos_policy_id r = qos_policy_id)"

definition save_sg_mappings :: "('t, fw_section_mapping) orm \<Rightarrow> ('g, sg_mapping) orm \<Rightarrow> 't \<Rightarrow> 'g \<Rightarrow> string \<Rightarrow> string \<Rightarrow> string \<Rightarrow> db_error + 't \<times> 'g" where
  "save_sg_mappings X G t g sg_id nsgroup_id section_id =
     bind_res (q_add X t \<lparr>xs_neutron_id = sg_id, xs_nsx_id = section_id\<rparr>)
       (\<lambda>t. bind_res (q_add G g \<lparr>gm_neutron_id = sg_id, gm_nsx_id = nsgroup_id\<rparr>) (\<lambda>g. Inr (t, g)))"

definition delete_sg_mappings :: "('t, fw_section_mapping) orm \<Rightarrow> ('g, sg_mapping) orm \<Rightarrow> 't \<Rightarrow> 'g \<Rightarrow> string \<Rightarrow> string \<Rightarrow> string \<Rightarrow> 't \<times> 'g" where
  "delete_sg_mappings X G t g sg_id nsgroup_id section_id =
     (snd (q_delete X t (\<lambda>r. xs_neutron_id r = sg_id \<and> xs_nsx_id r = section_id)),
      snd (q_delete G g (\<lambda>r. gm_neutron_id r = sg_id \<and> gm_nsx_id r = nsgroup_id)))"

definition get_sg_mappings :: "(string \<Rightarrow> bool) \<Rightarrow> ('t, fw_section_mapping) orm \<Rightarrow> ('g, sg_mapping) orm \<Rightarrow> 't \<Rightarrow> 'g \<Rightarrow> string \<Rightarrow> bool \<Rightarrow> string option \<times> string option" where
  "get_sg_mappings is_uuid_like X G t g sg_id moref =
     (pick_id is_uuid_like moref (map gm_nsx_id (q_all G g (\<lambda>r. gm_neutron_id r = sg_id))),
      pick_id is_uuid_like moref (map xs_nsx_id (q_all X t (\<lambda>r. xs_neutron_id r = sg_id))))"

definition get_sg_rule_mapping :: "('t, sg_rule_mapping) orm \<Rightarrow> 't \<Rightarrow> string \<Rightarrow> db_error + string" where
  "get_sg_rule_mapping D t rule_id =
     bind_res (q_one D t (\<lambda>r. xr_neutron_id r = rule_id)) (\<lambda>m. Inr (xr_nsx_id m))"

definition save_sg_rule_mappings :: "('t, sg_rule_mapping) orm \<Rightarrow> 't \<Rightarrow> (string \<times> string) list \<Rightarrow> db_error + 't" where
  "save_sg_rule_mappings D t rules =
     add_rows D t (map (\<lambda>(neutron_id, nsx_id). \<lparr>xr_neutron_id = neutron_id, xr_nsx_id = nsx_id\<rparr>) rules)"

subsection \<open>IPAM pools and certificates\<close>

definition add_nsx_ipam_subnet_pool :: "('t, subnet_ipam) orm \<Rightarrow> 't \<Rightarrow> string \<Rightarrow> string \<Rightarrow>
    db_error + subnet_ipam \<times> 't" where
  "add_nsx_ipam_subnet_pool D t subnet_id nsx_pool_id =
     add_row D t \<lparr>ip_subnet_id = subnet_id, ip_nsx_pool_id = nsx_pool_id\<rparr>"

definition get_nsx_ipam_pool_for_subnet :: "('t, subnet_ipam) orm \<Rightarrow> 't \<Rightarrow> string \<Rightarrow> db_error + string option" where
  "get_nsx_ipam_pool_for_subnet D t subnet_id =
     bind_res (one_or_none D t (\<lambda>r. ip_subnet_id r = subnet_id))
       (\<lambda>mapping. Inr (map_option ip_nsx_pool_id mapping))"

definition del_nsx_ipam_subnet_pool :: "('t, subnet_ipam) orm \<Rightarrow> 't \<Rightarrow> string \<Rightarrow> string \<Rightarrow> nat \<times> 't" where
  "del_nsx_ipam_subnet_pool D t subnet_id nsx_pool_id =
     q_delete D t (\<lambda>r. ip_subnet_id r = subnet_id \<and> ip_nsx_pool_id r = nsx_pool_id)"

definition get_certificate :: "('t, certificate) orm \<Rightarrow> 't \<Rightarrow> string \<Rightarrow> db_error + string option \<times> string option" where
  "get_certificate D t purpose =
     bind_res (one_or_none D t (\<lambda>r. ct_purpose r = purpose))
       (\<lambda>entry. Inr (case entry of None \<Rightarrow> (None, None)
          | Some e \<Rightarrow> (Some (ct_certificate e), Some (ct_private_key e))))"

definition save_certificate :: "('t, certificate) orm \<Rightarrow> 't \<Rightarrow> string \<Rightarrow> string \<Rightarrow> string \<Rightarrow> db_error + 't" where
  "save_certificate D t purpose cert pk =
     q_add D t \<lparr>ct_purpose = purpose, ct_certificate = cert, ct_private_key = pk\<rparr>"

definition delete_certificate :: "('t, certificate) orm \<Rightarrow> 't \<Rightarrow> string \<Rightarrow> nat \<times> 't" where
  "delete_certificate D t purpose =
     q_delete D t (\<lambda>r. ct_purpose r = purpose)"

subsection \<open>Load balancers\<close>

definition add_nsx_lbaas_loadbalancer_binding :: "('t, v3_loadbalancer) orm \<Rightarrow> 't \<Rightarrow> string \<Rightarrow> string \<Rightarrow> string \<Rightarrow> string \<Rightarrow>
    db_error + v3_loadbalancer \<times> 't" where
  "add_nsx_lbaas_loadbalancer_binding D t loadbalancer_id lb_service_id lb_router_id vip_address =
     add_row D t \<lparr>nl_loadbalancer_id = loadbalancer_id, nl_lb_router_id = lb_router_id, nl_lb_service_id = lb_service_id, nl_vip_address = vip_address\<rparr>"

definition get_nsx_lbaas_loadbalancer_binding :: "('t, v3_loadbalancer) orm \<Rightarrow> 't \<Rightarrow> string \<Rightarrow> db_error + v3_loadbalancer option" where
  "get_nsx_lbaas_loadbalancer_binding D t loadbalancer_id =
     one_or_none D t (\<lambda>r. nl_loadbalancer_id r = loadbalancer_id)"

definition update_nsx_lbaas_loadbalancer_binding :: "('t, v3_loadbalancer) orm \<Rightarrow> 't \<Rightarrow> string \<Rightarrow> string \<Rightarrow> db_error + 't" where
  "update_nsx_lbaas_loadbalancer_binding D t loadbalancer_id lb_router_id =
     bind_res (q_one D t (\<lambda>r. nl_loadbalancer_id r = loadbalancer_id))
       (\<lambda>binding. Inr (snd (set_row D nl_key t binding (\<lambda>r. r\<lparr>nl_lb_router_id := lb_router_id\<rparr>))))"

definition get_nsx_lbaas_loadbalancer_bindings :: "('t, v3_loadbalancer) orm \<Rightarrow> 't \<Rightarrow> v3_loadbalancer list" where
  "get_nsx_lbaas_loadbalancer_bindings D t =
     q_all D t (\<lambda>_. True)"

definition get_nsx_lbaas_loadbalancer_binding_by_service :: "('t, v3_loadbalancer) orm \<Rightarrow> 't \<Rightarrow> string \<Rightarrow> v3_loadbalancer list" where
  "get_nsx_lbaas_loadbalancer_binding_by_service D t lb_service_id =
     q_all D t (\<lambda>r. nl_lb_service_id r = lb_service_id)"

definition has_nsx_lbaas_loadbalancer_binding_by_router :: "('t, v3_loadbalancer) orm \<Rightarrow> 't \<Rightarrow> string \<Rightarrow> bool" where
  "has_nsx_lbaas_loadbalancer_binding_by_router D t nsx_router_id =
     (length (q_all D t (\<lambda>r. nl_lb_router_id r = nsx_router_id)) > 0)"

definition delete_nsx_lbaas_loadbalancer_binding :: "('t, v3_loadbalancer) orm \<Rightarrow> 't \<Rightarrow> string \<Rightarrow> nat \<times> 't" where
  "delete_nsx_lbaas_loadbalancer_binding D t loadbalancer_id =
     q_delete D t (\<lambda>r. nl_loadbalancer_id r = loadbalancer_id)"

definition add_nsx_lbaas_listener_binding :: "('t, v3_listener) orm \<Rightarrow> 't \<Rightarrow> string \<Rightarrow> string \<Rightarrow> string \<Rightarrow> string \<Rightarrow>
    db_error + v3_listener \<times> 't" where
  "add_nsx_lbaas_listener_binding D t loadbalancer_id listener_id app_profile_id lb_vs_id =
     add_row D t \<lparr>ns_loadbalancer_id = loadbalancer_id, ns_listener_id = listener_id, ns_app_profile_id = app_profile_id, ns_lb_vs_id = lb_vs_id\<rparr>"

definition get_nsx_lbaas_listener_binding :: "('t, v3_listener) orm \<Rightarrow> 't \<Rightarrow> string \<Rightarrow> string \<Rightarrow> db_error + v3_listener option" where
  "get_nsx_lbaas_listener_binding D t loadbalancer_id listener_id =
     one_or_none D t (\<lambda>r. ns_loadbalancer_id r = loadbalancer_id \<and> ns_listener_id r = listener_id)"

definition get_nsx_lbaas_listener_binding_by_lb_and_vs :: "('t, v3_listener) orm \<Rightarrow> 't \<Rightarrow> string \<Rightarrow> string \<Rightarrow> db_error + v3_listener option" where
  "get_nsx_lbaas_listener_binding_by_lb_and_vs D t loadbalancer_id lb_vs_id =
     one_or_none D t (\<lambda>r. ns_loadbalancer_id r = loadbalancer_id \<and> ns_lb_vs_id r = lb_vs_id)"

definition get_nsx_lbaas_listener_binding_by_vs_id :: "('t, v3_listener) orm \<Rightarrow> 't \<Rightarrow> string \<Rightarrow> db_error + v3_listener option" where
  "get_nsx_lbaas_listener_binding_by_vs_id D t lb_vs_id =
     one_or_none D t (\<lambda>r. ns_lb_vs_id r = lb_vs_id)"

definition delete_nsx_lbaas_listener_binding :: "('t, v3_listener) orm \<Rightarrow> 't \<Rightarrow> string \<Rightarrow> string \<Rightarrow> nat \<times> 't" where
  "delete_nsx_lbaas_listener_binding D t loadbalancer_id listener_id =
     q_delete D t (\<lambda>r. ns_loadbalancer_id r = loadbalancer_id \<and> ns_listener_id r = listener_id)"

definition add_nsx_lbaas_pool_binding :: "('t, v3_pool) orm \<Rightarrow> 't \<Rightarrow> string \<Rightarrow> string \<Rightarrow> string \<Rightarrow> string option \<Rightarrow>
    db_error + v3_pool \<times> 't" where
  "add_nsx_lbaas_pool_binding D t loadbalancer_id pool_id lb_pool_id lb_vs_id =
     add_row D t \<lparr>np_loadbalancer_id = loadbalancer_id, np_pool_id = pool_id, np_lb_pool_id = lb_pool_id, np_lb_vs_id = lb_vs_id\<rparr>"

definition get_nsx_lbaas_pool_binding :: "('t, v3_pool) orm \<Rightarrow> 't \<Rightarrow> string \<Rightarrow> string \<Rightarrow> db_error + v3_pool option" where
  "get_nsx_lbaas_pool_binding D t loadbalancer_id pool_id =
     one_or_none D t (\<lambda>r. np_loadbalancer_id r = loadbalancer_id \<and> np_pool_id r = pool_id)"

definition get_nsx_lbaas_pool_binding_by_lb_pool :: "('t, v3_pool) orm \<Rightarrow> 't \<Rightarrow> string \<Rightarrow> string \<Rightarrow> db_error + v3_pool option" where
  "get_nsx_lbaas_pool_binding_by_lb_pool D t loadbalancer_id lb_pool_id =
     one_or_none D t (\<lambda>r. np_loadbalancer_id r = loadbalancer_id \<and> np_lb_pool_id r = lb_pool_id)"

definition update_nsx_lbaas_pool_binding :: "('t, v3_pool) orm \<Rightarrow> 't \<Rightarrow> string \<Rightarrow> string \<Rightarrow> string option \<Rightarrow> db_error + 't" where
  "update_nsx_lbaas_pool_binding D t loadbalancer_id pool_id lb_vs_id =
     bind_res (one_or_none D t (\<lambda>r. np_loadbalancer_id r = loadbalancer_id \<and> np_pool_id r = pool_id))
       (\<lambda>binding. Inr (case binding of None \<Rightarrow> t
          | Some b \<Rightarrow> snd (set_row D np_key t b (\<lambda>r. r\<lparr>np_lb_vs_id := lb_vs_id\<rparr>))))"

definition delete_nsx_lbaas_pool_binding :: "('t, v3_pool) orm \<Rightarrow> 't \<Rightarrow> string \<Rightarrow> string \<Rightarrow> nat \<times> 't" where
  "delete_nsx_lbaas_pool_binding D t loadbalancer_id pool_id =
     q_delete D t (\<lambda>r. np_loadbalancer_id r = loadbalancer_id \<and> np_pool_id r = pool_id)"

definition add_nsx_lbaas_monitor_binding :: "('t, v3_monitor) orm \<Rightarrow> 't \<Rightarrow> string \<Rightarrow> string \<Rightarrow> string \<Rightarrow> string \<Rightarrow> string \<Rightarrow>
    db_error + v3_monitor \<times> 't" where
  "add_nsx_lbaas_monitor_binding D t loadbalancer_id pool_id hm_id lb_monitor_id lb_pool_id =
     add_row D t \<lparr>no_loadbalancer_id = loadbalancer_id, no_pool_id = pool_id, no_hm_id = hm_id, no_lb_monitor_id = lb_monitor_id, no_lb_pool_id = lb_pool_id\<rparr>"

definition get_nsx_lbaas_monitor_binding :: "('t, v3_monitor) orm \<Rightarrow> 't \<Rightarrow> string \<Rightarrow> string \<Rightarrow> string \<Rightarrow> db_error + v3_monitor option" where
  "get_nsx_lbaas_monitor_binding D t loadbalancer_id pool_id hm_id =
     one_or_none D t (\<lambda>r. no_loadbalancer_id r = loadbalancer_id \<and> no_pool_id r = pool_id \<and> no_hm_id r = hm_id)"

definition delete_nsx_lbaas_monitor_binding :: "('t, v3_monitor) orm \<Rightarrow> 't \<Rightarrow> string \<Rightarrow> string \<Rightarrow> string \<Rightarrow> nat \<times> 't" where
  "delete_nsx_lbaas_monitor_binding D t loadbalancer_id pool_id hm_id =
     q_delete D t (\<lambda>r. no_loadbalancer_id r = loadbalancer_id \<and> no_pool_id r = pool_id \<and> no_hm_id r = hm_id)"

definition add_nsx_lbaas_l7policy_binding :: "('t, v3_l7policy) orm \<Rightarrow> 't \<Rightarrow> string \<Rightarrow> string \<Rightarrow> string \<Rightarrow>
    db_error + v3_l7policy \<times> 't" where
  "add_nsx_lbaas_l7policy_binding D t l7policy_id lb_rule_id lb_vs_id =
     add_row D t \<lparr>n7_l7policy_id = l7policy_id, n7_lb_rule_id = lb_rule_id, n7_lb_vs_id = lb_vs_id\<rparr>"

definition get_nsx_lbaas_l7policy_binding :: "('t, v3_l7policy) orm \<Rightarrow> 't \<Rightarrow> string \<Rightarrow> db_error + v3_l7policy option" where
  "get_nsx_lbaas_l7policy_binding D t l7policy_id =
     one_or_none D t (\<lambda>r. n7_l7policy_id r = l7policy_id)"

definition delete_nsx_lbaas_l7policy_binding :: "('t, v3_l7policy) orm \<Rightarrow> 't \<Rightarrow> string \<Rightarrow> nat \<times> 't" where
  "delete_nsx_lbaas_l7policy_binding D t l7policy_id =
     q_delete D t (\<lambda>r. n7_l7policy_id r = l7policy_id)"

subsection \<open>Projects and VPN connections\<close>

definition add_project_plugin_mapping :: "('t, project_mapping) orm \<Rightarrow> 't \<Rightarrow> string \<Rightarrow> plugin_type \<Rightarrow>
    db_error + project_mapping \<times> 't" where
  "add_project_plugin_mapping D t project plugin =
     add_row D t \<lparr>pp_project = project, pp_plugin = plugin\<rparr>"

definition get_project_plugin_mapping :: "('t, project_mapping) orm \<Rightarrow> 't \<Rightarrow> string \<Rightarrow> db_error + project_mapping option" where
  "get_project_plugin_mapping D t project =
     one_or_none D t (\<lambda>r. pp_project r = project)"

definition get_project_plugin_mappings :: "('t, project_mapping) orm \<Rightarrow> 't \<Rightarrow> project_mapping list" where
  "get_project_plugin_mappings D t =
     q_all D t (\<lambda>_. True)"

definition get_project_plugin_mappings_by_plugin :: "('t, project_mapping) orm \<Rightarrow> 't \<Rightarrow> plugin_type \<Rightarrow> project_mapping list" where
  "get_project_plugin_mappings_by_plugin D t plugin =
     q_all D t (\<lambda>r. pp_plugin r = plugin)"

definition update_project_plugin_mapping :: "('t, project_mapping) orm \<Rightarrow> 't \<Rightarrow> string \<Rightarrow> plugin_type \<Rightarrow> db_error + 't" where
  "update_project_plugin_mapping D t project plugin =
     bind_res (q_one D t (\<lambda>r. pp_project r = project))
       (\<lambda>binding. Inr (snd (set_row D pp_key t binding (\<lambda>r. r\<lparr>pp_plugin := plugin\<rparr>))))"

definition add_nsx_vpn_connection_mapping :: "('t, vpn_mapping) orm \<Rightarrow> 't \<Rightarrow> string \<Rightarrow> string \<Rightarrow> string \<Rightarrow> string \<Rightarrow> string \<Rightarrow> string \<Rightarrow>
    db_error + vpn_mapping \<times> 't" where
  "add_nsx_vpn_connection_mapping D t neutron_id session_id dpd_profile_id ike_profile_id ipsec_profile_id peer_ep_id =
     add_row D t \<lparr>vc_neutron_id = neutron_id, vc_session_id = session_id, vc_dpd_profile_id = dpd_profile_id, vc_ike_profile_id = ike_profile_id, vc_ipsec_profile_id = ipsec_profile_id, vc_peer_ep_id = peer_ep_id\<rparr>"

definition get_nsx_vpn_connection_mapping :: "('t, vpn_mapping) orm \<Rightarrow> 't \<Rightarrow> string \<Rightarrow> db_error + vpn_mapping option" where
  "get_nsx_vpn_connection_mapping D t neutron_id =
     one_or_none D t (\<lambda>r. vc_neutron_id r = neutron_id)"

definition delete_nsx_vpn_connection_mapping :: "('t, vpn_mapping) orm \<Rightarrow> 't \<Rightarrow> string \<Rightarrow> nat \<times> 't" where
  "delete_nsx_vpn_connection_mapping D t neutron_id =
     q_delete D t (\<lambda>r. vc_neutron_id r = neutron_id)"

subsection \<open>Properties\<close>

text \<open>\<open>add_neutron_nsx_port_mapping\<close> on a port without a mapping adds it and nothing else;
  on a port that is mapped to the same backend port it succeeds and changes nothing; on a
  port that is mapped to another backend port it raises DBDuplicateEntry. In the first two
  cases the mapping is what \<open>get_nsx_switch_and_port_id\<close> then finds for the backend port.\<close>

theorem port_mapping_idempotent:
  assumes "orm_table D pm_key ok" "ok t"
  shows "case add_neutron_nsx_port_mapping D t n sw p of
      Inr (m, t') \<Rightarrow> m = \<lparr>pm_neutron_id = n, pm_nsx_switch_id = sw, pm_nsx_port_id = p\<rparr> \<and> ok t' \<and>
        (if \<exists>r \<in> rows D t. pm_neutron_id r = n then t' = t \<and> (\<exists>r \<in> rows D t. pm_neutron_id r = n \<and> pm_nsx_port_id r = p)
         else rows D t' = insert m (rows D t)) \<and>
        (\<exists>sw'. get_nsx_switch_and_port_id D t' n = Inr (sw', Some p))
    | Inl e \<Rightarrow> e = DBDuplicateEntry \<and> (\<exists>r \<in> rows D t. pm_neutron_id r = n \<and> pm_nsx_port_id r \<noteq> p)"
proof -
  note O = assms(1)
  let ?m = "\<lparr>pm_neutron_id = n, pm_nsx_switch_id = sw, pm_nsx_port_id = p\<rparr>"
  let ?P = "\<lambda>r. pm_neutron_id r = n"
  have get: "get_nsx_switch_and_port_id D t' n = Inr (pm_nsx_switch_id r, Some (pm_nsx_port_id r))"
    if "ok t'" "r \<in> rows D t'" "pm_neutron_id r = n" for t' r
  proof -
    have "one_or_none D t' ?P = Inr (Some r)"
      by (rule orm_table.one_or_none_at [OF O that(1,2)]) (simp_all add: that(3) pm_key_def)
    then show ?thesis by (simp add: get_nsx_switch_and_port_id_def)
  qed
  show ?thesis
  proof (rule orm_table.add_cases [OF O assms(2), of ?m])
    fix r assume r: "r \<in> rows D t" "pm_key r = pm_key ?m" "q_add D t ?m = Inl DBDuplicateEntry"
    then have n: "pm_neutron_id r = n" by (simp add: pm_key_def)
    have "add_neutron_nsx_port_mapping D t n sw p =
        (if pm_nsx_port_id r = p then Inr (?m, t) else Inl DBDuplicateEntry)"
      using r(3) get [OF assms(2) r(1) n]
      by (simp add: add_neutron_nsx_port_mapping_def Let_def add_row_def)
    then show ?thesis using r(1) n get [OF assms(2) r(1) n] assms(2) by auto
  next
    fix t' assume a: "pm_key ?m \<notin> pm_key ` rows D t" "q_add D t ?m = Inr t'" "ok t'" "rows D t' = insert ?m (rows D t)"
    then have "add_neutron_nsx_port_mapping D t n sw p = Inr (?m, t')"
      by (simp add: add_neutron_nsx_port_mapping_def Let_def add_row_def)
    moreover have "pm_neutron_id r \<noteq> n" if "r \<in> rows D t" for r
      using a(1) imageI [OF that, of pm_key] by (auto simp: pm_key_def)
    moreover have "?m \<in> rows D t'" "pm_neutron_id ?m = n" using a(4) by auto
    ultimately show ?thesis using a(3,4) get [OF a(3), of ?m] by auto
  qed
qed

theorem port_mapping_idempotent_witness:
  "\<exists>m t. add_neutron_nsx_port_mapping (list_orm pm_key) [] ''port'' None ''lp'' = Inr (m, t) \<and>
     get_nsx_switch_and_port_id (list_orm pm_key) t ''port'' = Inr (None, Some ''lp'')"
proof -
  have "keys_distinct pm_key []" by (simp add: keys_distinct_def)
  note P = port_mapping_idempotent [OF list_orm_table this, of "''port''" "''lp''" None]
  have a: "add_neutron_nsx_port_mapping (list_orm pm_key) [] ''port'' None ''lp'' =
      Inr (\<lparr>pm_neutron_id = ''port'', pm_nsx_switch_id = None, pm_nsx_port_id = ''lp''\<rparr>,
        [\<lparr>pm_neutron_id = ''port'', pm_nsx_switch_id = None, pm_nsx_port_id = ''lp''\<rparr>])"
    by (simp add: add_neutron_nsx_port_mapping_def Let_def add_row_def list_orm_def)
  from P [unfolded a sum.case prod.case] have "\<exists>sw'. get_nsx_switch_and_port_id (list_orm pm_key)
      [\<lparr>pm_neutron_id = ''port'', pm_nsx_switch_id = None, pm_nsx_port_id = ''lp''\<rparr>] ''port'' = Inr (sw', Some ''lp'')"
    by blast
  then show ?thesis unfolding a
    by (simp add: get_nsx_switch_and_port_id_def one_or_none_def q_one_def list_orm_def)
qed

lemma pick_id_Some:
  "pick_id u moref is = Some i \<Longrightarrow> i \<in> set is \<and> (u i \<longleftrightarrow> \<not> moref)"
  by (induction "is") (auto split: if_splits)

lemma pick_id_None: "pick_id u moref is = None \<longleftrightarrow> (\<forall>i \<in> set is. u i \<longleftrightarrow> moref)"
  by (induction "is") auto

lemma pick_id_unique:
  assumes "i \<in> set is" "u i \<longleftrightarrow> \<not> moref" "\<And>j. j \<in> set is \<Longrightarrow> u j \<longleftrightarrow> \<not> moref \<Longrightarrow> j = i"
  shows "pick_id u moref is = Some i"
proof (cases "pick_id u moref is")
  case None
  with assms(1,2) show ?thesis by (auto simp: pick_id_None)
next
  case (Some j)
  with pick_id_Some [OF Some] assms(3) show ?thesis by simp
qed

lemma pick_id_const: "set is = {i} \<Longrightarrow> u i \<longleftrightarrow> \<not> moref \<Longrightarrow> pick_id u moref is = Some i"
  by (rule pick_id_unique) simp_all

text \<open>C37: The mappings of a security group survive a round trip through the database: after
  \<open>save_sg_mappings\<close> for a group without mappings, \<open>get_sg_mappings\<close> returns the group id and
  the section id that look as asked for, and the first of them agrees with
  \<open>get_nsx_security_group_id\<close>; \<open>delete_sg_mappings\<close> then restores both tables.\<close>

theorem sg_mappings_roundtrip:
  assumes "orm_table X xs_key okx" "okx t" "orm_table G gm_key okg" "okg g"
    "\<forall>r \<in> rows X t. xs_neutron_id r \<noteq> sg" "\<forall>r \<in> rows G g. gm_neutron_id r \<noteq> sg"
    "u grp \<longleftrightarrow> \<not> moref" "u sec \<longleftrightarrow> \<not> moref"
  shows "\<exists>t' g'. save_sg_mappings X G t g sg grp sec = Inr (t', g') \<and> okx t' \<and> okg g' \<and>
    get_sg_mappings u X G t' g' sg moref = (Some grp, Some sec) \<and>
    get_nsx_security_group_id u G g' sg moref = Some grp \<and>
    rows X (fst (delete_sg_mappings X G t' g' sg grp sec)) = rows X t \<and>
    rows G (snd (delete_sg_mappings X G t' g' sg grp sec)) = rows G g"
proof -
  let ?x = "\<lparr>xs_neutron_id = sg, xs_nsx_id = sec\<rparr>" and ?g = "\<lparr>gm_neutron_id = sg, gm_nsx_id = grp\<rparr>"
  have "xs_key ?x \<notin> xs_key ` rows X t" using assms(5) by (auto simp: xs_key_def)
  from orm_table.add_free [OF assms(1,2) this] obtain t' where
    t': "q_add X t ?x = Inr t'" "okx t'" "rows X t' = insert ?x (rows X t)" by blast
  have "gm_key ?g \<notin> gm_key ` rows G g" using assms(6) by (auto simp: gm_key_def)
  from orm_table.add_free [OF assms(3,4) this] obtain g' where
    g': "q_add G g ?g = Inr g'" "okg g'" "rows G g' = insert ?g (rows G g)" by blast
  have "set (q_all X t' (\<lambda>r. xs_neutron_id r = sg)) = {?x}" "set (q_all G g' (\<lambda>r. gm_neutron_id r = sg)) = {?g}"
    unfolding orm_table.all_rows [OF assms(1) t'(2)] orm_table.all_rows [OF assms(3) g'(2)] t'(3) g'(3)
    using select_new [OF assms(5), of ?x] select_new [OF assms(6), of ?g] by simp_all
  then have "set (map gm_nsx_id (q_all G g' (\<lambda>r. gm_neutron_id r = sg))) = {grp}"
    "set (map xs_nsx_id (q_all X t' (\<lambda>r. xs_neutron_id r = sg))) = {sec}" by simp_all
  note pick_id_const [of _ _ u, OF this(1) assms(7)] pick_id_const [of _ _ u, OF this(2) assms(8)]
  moreover have "save_sg_mappings X G t g sg grp sec = Inr (t', g')" using t'(1) g'(1) by (simp add: save_sg_mappings_def)
  moreover have "rows X (fst (delete_sg_mappings X G t' g' sg grp sec)) = rows X t"
    "rows G (snd (delete_sg_mappings X G t' g' sg grp sec)) = rows G g"
    unfolding delete_sg_mappings_def fst_conv snd_conv
      orm_table.delete_rows [OF assms(1) t'(2)] orm_table.delete_rows [OF assms(3) g'(2)] t'(3) g'(3)
    using unselect_new [of "rows X t" "\<lambda>r. xs_neutron_id r = sg \<and> xs_nsx_id r = sec" ?x]
      unselect_new [of "rows G g" "\<lambda>r. gm_neutron_id r = sg \<and> gm_nsx_id r = grp" ?g] assms(5,6) by simp_all
  ultimately show ?thesis using t'(2) g'(2) by (simp add: get_sg_mappings_def get_nsx_security_group_id_def)
qed

theorem sg_mappings_roundtrip_witness:
  "\<exists>t' g'. save_sg_mappings (list_orm xs_key) (list_orm gm_key) [] [] ''sg'' ''grp'' ''sec'' = Inr (t', g') \<and>
     get_sg_mappings (\<lambda>_. True) (list_orm xs_key) (list_orm gm_key) t' g' ''sg'' False = (Some ''grp'', Some ''sec'')"
proof -
  have k: "keys_distinct xs_key []" "keys_distinct gm_key []" by (simp_all add: keys_distinct_def)
  have "\<forall>r \<in> rows (list_orm xs_key) []. xs_neutron_id r \<noteq> ''sg''"
    "\<forall>r \<in> rows (list_orm gm_key) []. gm_neutron_id r \<noteq> ''sg''" by simp_all
  from sg_mappings_roundtrip [where u = "\<lambda>_. True" and moref = False and grp = "''grp''" and sec = "''sec''",
      OF list_orm_table k(1) list_orm_table k(2) this]
  show ?thesis by auto
qed

text \<open>\<open>update_nsx_dhcp_bindings\<close> gives the new address to the binding of the port that had
  the old one and changes no other row; without such a binding it changes nothing; when a
  port has several bindings with the address it raises MultipleResultsFound.\<close>

theorem dhcp_binding_update:
  assumes "orm_table D dh_key ok" "ok t"
  shows "case update_nsx_dhcp_bindings D t port old new of
      Inr t' \<Rightarrow> ok t' \<and> rows D t' = (\<lambda>r. if dh_port_id r = port \<and> dh_ip_address r = old
          then r\<lparr>dh_ip_address := new\<rparr> else r) ` rows D t
    | Inl e \<Rightarrow> e = MultipleResultsFound \<and>
        (\<exists>r \<in> rows D t. \<exists>s \<in> rows D t. r \<noteq> s \<and> {r, s} \<subseteq> {r. dh_port_id r = port \<and> dh_ip_address r = old})"
proof -
  note O = assms(1)
  let ?P = "\<lambda>r. dh_port_id r = port \<and> dh_ip_address r = old" and ?f = "\<lambda>r. r\<lparr>dh_ip_address := new\<rparr>"
  have f: "dh_key (?f r) = dh_key r" for r by (simp add: dh_key_def)
  consider "q_all D t ?P = []" | b where "q_all D t ?P = [b]" | r s rs where "q_all D t ?P = r # s # rs"
    by (cases "q_all D t ?P" rule: only_one.cases) auto
  then show ?thesis
  proof cases
    case 1
    then have "\<forall>r \<in> rows D t. \<not> ?P r" using orm_table.all_empty [OF assms, of ?P] by simp
    then have "(\<lambda>r. if ?P r then ?f r else r) ` rows D t = rows D t" by (rule image_if_none)
    moreover have "update_nsx_dhcp_bindings D t port old new = Inr t"
      using 1 by (simp add: update_nsx_dhcp_bindings_def one_or_none_def q_one_def)
    ultimately show ?thesis using assms(2) by simp
  next
    case 2
    have b: "{r \<in> rows D t. ?P r} = {b}" using orm_table.all_rows [OF assms, of ?P] 2 by simp
    have "b \<in> {r \<in> rows D t. ?P r}" unfolding b by simp
    then have br: "b \<in> rows D t" by simp
    have "update_nsx_dhcp_bindings D t port old new = Inr (snd (set_row D dh_key t b ?f))"
      using 2 by (simp add: update_nsx_dhcp_bindings_def one_or_none_def q_one_def)
    moreover have "ok (snd (set_row D dh_key t b ?f))"
      "rows D (snd (set_row D dh_key t b ?f)) = (\<lambda>r. if ?P r then ?f r else r) ` rows D t"
      unfolding image_if_one [OF b, of ?f] using orm_table.set_row_rows [OF assms br, of ?f, OF f] by simp_all
    ultimately show ?thesis by simp
  next
    case 3
    have "distinct (q_all D t ?P)" "set (q_all D t ?P) = {r \<in> rows D t. ?P r}"
      using orm_table.all_distinct [OF assms] orm_table.all_rows [OF assms] by auto
    then have "r \<noteq> s" "r \<in> rows D t" "s \<in> rows D t" "?P r" "?P s" unfolding 3 by auto
    moreover have "update_nsx_dhcp_bindings D t port old new = Inl MultipleResultsFound"
      using 3 by (simp add: update_nsx_dhcp_bindings_def one_or_none_def q_one_def)
    ultimately show ?thesis by auto
  qed
qed

theorem dhcp_binding_update_witness:
  "\<exists>t'. update_nsx_dhcp_bindings (list_orm dh_key)
      [\<lparr>dh_port_id = ''p'', dh_subnet_id = ''s'', dh_ip_address = ''old'', dh_nsx_service_id = ''v'', dh_nsx_binding_id = ''b''\<rparr>]
      ''p'' ''old'' ''new'' = Inr t' \<and>
    set t' = {\<lparr>dh_port_id = ''p'', dh_subnet_id = ''s'', dh_ip_address = ''new'', dh_nsx_service_id = ''v'', dh_nsx_binding_id = ''b''\<rparr>}"
  using dhcp_binding_update [OF list_orm_table, of
      "[\<lparr>dh_port_id = ''p'', dh_subnet_id = ''s'', dh_ip_address = ''old'', dh_nsx_service_id = ''v'', dh_nsx_binding_id = ''b''\<rparr>]"
      "''p''" "''old''" "''new''"]
  by (auto simp: keys_distinct_def split: sum.splits)

end
