(* ===== verification/EdgeRouting.thy ===== *)
theory EdgeRouting
  imports EdgePool NsxDb
begin

unbundle bit_operations_syntax

text \<open>
  Routers on edges (\<open>vshield/edge_utils.py\<close>): the binding of shared routers to edges by
  \<open>EdgeManager\<close>, the pair of edges of a distributed router (the distributed edge, TLR, and the service
  edge in front of it, PLR), and the functions of the module that configure the interfaces, routes
  and NAT rules of a router's edge. They work on the state of the pool (\<open>EdgePool\<close>). The tables that
  they only read (the bindings of networks to transport zones, the switches of networks) and the
  functions of netaddr are parameters; so are the order in which Python iterates over a set and
  the plugin's \<open>get_routers\<close>.
\<close>

subsection \<open>Environment\<close>

text \<open>A network of netaddr: its mask, its first address and its last.\<close>

record ip_net =
  in_mask :: int
  in_network :: int
  in_last :: int
  in_prefixlen :: nat

record ('w, 'd, 't, 'v, 'b, 'm) route_env =
  re_mgr :: "('w, 'd, 't, 'v) pool_mgr"
  re_tz :: "('b, tz_network_binding) orm"
  re_tz_rows :: 'b
  re_sw :: "('m, network_mapping) orm"
  re_sw_rows :: 'm
  re_order :: "string option list \<Rightarrow> string option list"
  re_get_routers :: "string list \<Rightarrow> (string, string) pydict \<Rightarrow> string list"
  re_ip :: "string \<Rightarrow> int option"
  re_net :: "string \<Rightarrow> ip_net option"
  re_shared_size :: string
  re_exclusive_size :: string
  re_tlr_address :: string
  re_before_6_2_4 :: "json \<Rightarrow> bool"

abbreviation re_env :: "('w, 'd, 't, 'v, 'b, 'm) route_env \<Rightarrow> ('w, 'd, 't, 'v) edge_env" where
  "re_env R \<equiv> pm_env (re_mgr R)"

definition rb_of :: "('w, 'd, 't, 'v) edge_env \<Rightarrow> string \<Rightarrow> ('w, 't, 'v) edge_state \<Rightarrow> router_binding option" where
  "rb_of E router_id s = get_nsxv_router_binding (ee_rb E) (es_rbs s) router_id"

text \<open>Queries on the vnics of an edge whose identifier may be null; a null identifier has none, and
  its vnics cannot be allocated or added.\<close>

definition vnics_of :: "('w, 'd, 't, 'v) edge_env \<Rightarrow> string option \<Rightarrow> ('w, 't, 'v) edge_state \<Rightarrow> edge_vnic_binding list" where
  "vnics_of E edge_id s =
     (case edge_id of None \<Rightarrow> [] | Some i \<Rightarrow> get_edge_vnic_bindings_by_edge (ee_vb E) (es_vnics s) i)"

definition vnic_of :: "('w, 'd, 't, 'v) edge_env \<Rightarrow> string option \<Rightarrow> string \<Rightarrow> ('w, 't, 'v) edge_state \<Rightarrow>
    edge_vnic_binding option" where
  "vnic_of E edge_id network_id s =
     (case edge_id of None \<Rightarrow> None | Some i \<Rightarrow> get_edge_vnic_binding (ee_vb E) (es_vnics s) i network_id)"

definition alloc_vnic :: "('w, 'd, 't, 'v) edge_env \<Rightarrow> string option \<Rightarrow> string \<Rightarrow> ('w, 'd, 't, 'v, edge_vnic_binding) edge_op" where
  "alloc_vnic E edge_id network_id s =
     (case edge_id of
        None \<Rightarrow> (Inl (EDb NsxPluginException), s)
      | Some i \<Rightarrow>
          (case allocate_edge_vnic (ee_vb E) (es_vnics s) i network_id of
             Inl e \<Rightarrow> (Inl (EDb e), s)
           | Inr (b, t) \<Rightarrow> (Inr b, s\<lparr>es_vnics := t\<rparr>)))"

definition create_vnic :: "('w, 'd, 't, 'v) edge_env \<Rightarrow> string option \<Rightarrow> int option \<Rightarrow> string \<Rightarrow> ('w, 'd, 't, 'v, unit) edge_op" where
  "create_vnic E edge_id vnic_index network_id s =
     (case (edge_id, vnic_index) of
        (Some i, Some k) \<Rightarrow>
          (case create_edge_vnic_binding (ee_vb E) (es_vnics s) i k network_id (-1) of
             Inl e \<Rightarrow> (Inl (EDb e), s)
           | Inr (_, t) \<Rightarrow> (Inr (), s\<lparr>es_vnics := t\<rparr>))
      | _ \<Rightarrow> (Inl (EDb DBError), s))"

definition free_vnic_by_network :: "('w, 'd, 't, 'v) edge_env \<Rightarrow> string option \<Rightarrow> string \<Rightarrow> ('w, 'd, 't, 'v, unit) edge_op" where
  "free_vnic_by_network E edge_id network_id s =
     (case edge_id of
        None \<Rightarrow> (Inl (EDb NoResultFound), s)
      | Some i \<Rightarrow>
          (case free_edge_vnic_by_network (ee_vb E) (es_vnics s) i network_id of
             Inl e \<Rightarrow> (Inl (EDb e), s)
           | Inr (_, t) \<Rightarrow> (Inr (), s\<lparr>es_vnics := t\<rparr>)))"

definition delete_vnic_by_network :: "('w, 'd, 't, 'v) edge_env \<Rightarrow> string option \<Rightarrow> string \<Rightarrow> ('w, 'd, 't, 'v, unit) edge_op" where
  "delete_vnic_by_network E edge_id network_id s =
     (case edge_id of
        None \<Rightarrow> (Inl (EDb NoResultFound), s)
      | Some i \<Rightarrow>
          (case delete_edge_vnic_binding_by_network (ee_vb E) (es_vnics s) i network_id of
             Inl e \<Rightarrow> (Inl (EDb e), s)
           | Inr t \<Rightarrow> (Inr (), s\<lparr>es_vnics := t\<rparr>)))"

subsection \<open>Shared routers\<close>

definition get_routers_on_edge :: "('w, 'd, 't, 'v, 'b, 'm) route_env \<Rightarrow> string option \<Rightarrow> ('w, 't, 'v) edge_state \<Rightarrow> string list" where
  "get_routers_on_edge R edge_id s =
     (let router_ids = (if given edge_id
          then map rb_router_id (get_nsxv_router_bindings_by_edge (ee_rb (re_env R)) (es_rbs s) (the edge_id)) else [])
      in if router_ids \<noteq> [] then re_get_routers R router_ids (es_routers s) else [])"

definition get_routers_on_same_edge :: "('w, 'd, 't, 'v, 'b, 'm) route_env \<Rightarrow> string \<Rightarrow> ('w, 't, 'v) edge_state \<Rightarrow> string list" where
  "get_routers_on_same_edge R router_id s =
     (case rb_of (re_env R) router_id s of None \<Rightarrow> [] | Some b \<Rightarrow> get_routers_on_edge R (rb_edge_id b) s)"

text \<open>The edges that may serve the router, each once, in the order of the routers; those that may not; and
  the choice among them. One vnic gives external access, so an edge has room for the vnics that are
  neither that one nor in use. An edge without an identifier has room like any other.\<close>

fun optional_edges :: "('w, 'd, 't, 'v) edge_env \<Rightarrow> az \<Rightarrow> ('w, 't, 'v) edge_state \<Rightarrow> string list \<Rightarrow> string option list \<Rightarrow>
    string option list" where
  "optional_edges E zone s [] edge_ids = edge_ids"
| "optional_edges E zone s (r # rs) edge_ids =
     optional_edges E zone s rs
       (case rb_of E r s of
          None \<Rightarrow> edge_ids
        | Some b \<Rightarrow>
            if rb_status b = ST_ACTIVE \<and> rb_availability_zone b = Some (az_name zone) \<and> rb_edge_id b \<notin> set edge_ids
            then edge_ids @ [rb_edge_id b] else edge_ids)"

fun conflict_edges :: "('w, 'd, 't, 'v) edge_env \<Rightarrow> ('w, 't, 'v) edge_state \<Rightarrow> string list \<Rightarrow> string option list \<Rightarrow>
    string option list" where
  "conflict_edges E s [] edge_ids = edge_ids"
| "conflict_edges E s (r # rs) edge_ids =
     conflict_edges E s rs
       (case rb_of E r s of
          None \<Rightarrow> edge_ids
        | Some b \<Rightarrow> if rb_edge_id b \<notin> set edge_ids then edge_ids @ [rb_edge_id b] else edge_ids)"

definition room :: "('w, 'd, 't, 'v) edge_env \<Rightarrow> ('w, 't, 'v) edge_state \<Rightarrow> string option \<Rightarrow> int" where
  "room E s edge_id = int MAX_VNIC_NUM - int (length (vnics_of E edge_id s)) - 1"

definition edge_networks :: "('w, 'd, 't, 'v) edge_env \<Rightarrow> ('w, 't, 'v) edge_state \<Rightarrow> string option \<Rightarrow> string option list" where
  "edge_networks E s edge_id = map vb_network_id (vnics_of E edge_id s)"

fun choose_edge :: "('w, 'd, 't, 'v) edge_env \<Rightarrow> ('w, 't, 'v) edge_state \<Rightarrow> string list \<Rightarrow> int \<Rightarrow> string option list \<Rightarrow>
    int \<Rightarrow> string option \<Rightarrow> string option" where
  "choose_edge E s conflict_network_ids network_number [] max_net_number available = available"
| "choose_edge E s conflict_network_ids network_number (e # es) max_net_number available =
     (if room E s e > max_net_number \<and> room E s e \<ge> network_number \<and>
         (\<forall>n \<in> set conflict_network_ids. Some n \<notin> set (edge_networks E s e))
      then choose_edge E s conflict_network_ids network_number es (room E s e) e
      else choose_edge E s conflict_network_ids network_number es max_net_number available)"

definition find_edge :: "('w, 'd, 't, 'v, 'b, 'm) route_env \<Rightarrow> string list \<Rightarrow> string list \<Rightarrow> string list \<Rightarrow> int \<Rightarrow> az \<Rightarrow>
    ('w, 't, 'v) edge_state \<Rightarrow> string option" where
  "find_edge R optional_router_ids conflict_router_ids conflict_network_ids network_number zone s =
     (let E = re_env R;
          optional_edge_ids = optional_edges E zone s optional_router_ids [];
          conflict_edge_ids = conflict_edges E s conflict_router_ids []
      in choose_edge E s conflict_network_ids network_number
           (re_order R (filter (\<lambda>e. e \<notin> set conflict_edge_ids) optional_edge_ids)) 0 None)"

definition bind_router_on_available_edge :: "('w, 'd, 't, 'v, 'b, 'm) route_env \<Rightarrow> string \<Rightarrow> string list \<Rightarrow> string list \<Rightarrow>
    string list \<Rightarrow> int \<Rightarrow> az \<Rightarrow> ('w, 'd, 't, 'v, bool) edge_op" where
  "bind_router_on_available_edge R target_router_id optional_router_ids conflict_router_ids conflict_network_ids
       network_number zone s =
     (let E = re_env R;
          available_edge_id = find_edge R optional_router_ids conflict_router_ids conflict_network_ids network_number zone s
      in if given available_edge_id then
           (case get_nsxv_router_bindings_by_edge (ee_rb E) (es_rbs s) (the available_edge_id) of
              [] \<Rightarrow> (Inl (EPy IndexError), s)
            | b # _ \<Rightarrow>
                bind_st (add_rb E target_router_id (rb_edge_id b) (rb_status b) (rb_appliance_size b) (rb_edge_type b)
                    (Some (az_name zone))) (\<lambda>_. return_st False) s)
         else
           bind_st (allocate_edge_appliance (re_mgr R) target_router_id
               (take EDGE_NAME_LEN (''shared-'' @ ee_uuid E (es_next s))) (re_shared_size R) False zone False)
             (\<lambda>_. return_st True) (s\<lparr>es_next := Suc (es_next s)\<rparr>))"

definition unbind_router_on_edge :: "('w, 'd, 't, 'v, 'b, 'm) route_env \<Rightarrow> string \<Rightarrow> ('w, 'd, 't, 'v, bool) edge_op" where
  "unbind_router_on_edge R router_id s =
     (if get_routers_on_same_edge R router_id s = [router_id]
      then bind_st (free_edge_appliance (re_mgr R) router_id) (\<lambda>_. return_st True) s
      else (Inr False, delete_rb (re_env R) router_id s))"

definition is_router_conflict_on_edge :: "('w, 'd, 't, 'v, 'b, 'm) route_env \<Rightarrow> string \<Rightarrow> string list \<Rightarrow> string list \<Rightarrow> int \<Rightarrow>
    ('w, 't, 'v) edge_state \<Rightarrow> py_exc + bool" where
  "is_router_conflict_on_edge R router_id conflict_router_ids conflict_network_ids intf_num s =
     (if \<exists>r \<in> set (get_routers_on_same_edge R router_id s). r \<in> set conflict_router_ids then Inr True
      else (case rb_of (re_env R) router_id s of
          None \<Rightarrow> Inl AttributeError
        | Some b \<Rightarrow>
            Inr (room (re_env R) s (rb_edge_id b) < intf_num \<or>
              (\<exists>n \<in> set (edge_networks (re_env R) s (rb_edge_id b)). n \<in> Some ` set conflict_network_ids))))"

subsection \<open>The two edges of a distributed router\<close>

definition PLR_EDGE_PREFIX :: string where "PLR_EDGE_PREFIX = ''plr-''"

text \<open>The first router found on an edge that shares the transit switch and that is not the router itself;
  an edge without a binding raises.\<close>

fun plr_on_edges :: "('w, 'd, 't, 'v) edge_env \<Rightarrow> ('w, 't, 'v) edge_state \<Rightarrow> string \<Rightarrow> edge_vnic_binding list \<Rightarrow>
    py_exc + string option" where
  "plr_on_edges E s router_id [] = Inr None"
| "plr_on_edges E s router_id (v # vs) =
     (case get_nsxv_router_bindings_by_edge (ee_rb E) (es_rbs s) (vb_edge_id v) of
        [] \<Rightarrow> Inl IndexError
      | b # _ \<Rightarrow> if rb_router_id b \<noteq> router_id then Inr (Some (rb_router_id b)) else plr_on_edges E s router_id vs)"

definition get_plr_by_tlr_id :: "('w, 'd, 't, 'v) edge_env \<Rightarrow> string \<Rightarrow> ('w, 't, 'v) edge_state \<Rightarrow> py_exc + string option" where
  "get_plr_by_tlr_id E router_id s =
     (case Option.bind (rb_of E router_id s) rb_lswitch_id of
        None \<Rightarrow> Inr None
      | Some lswitch_id \<Rightarrow>
          if lswitch_id = [] then Inr None
          else plr_on_edges E s router_id (get_edge_vnic_bindings_by_int_lswitch (ee_vb E) (es_vnics s) lswitch_id))"

definition virtual_wire_request :: "string \<Rightarrow> string \<Rightarrow> json" where
  "virtual_wire_request router_name router_id =
     JObj [(''virtualWireCreateSpec'', JObj [(''name'', JStr (take 36 (''int-'' @ router_name @ router_id))),
       (''tenantId'', JStr ''virtual wire tenant'')])]"

text \<open>The answer to the creation of a virtual wire is its identifier, a text.\<close>

definition new_wire :: "('w, 'd, 't, 'v) edge_env \<Rightarrow> ('d \<Rightarrow> string) \<Rightarrow> az \<Rightarrow> string \<Rightarrow> string \<Rightarrow> ('w, 'd, 't, 'v, string) edge_op" where
  "new_wire E as_id zone router_name router_id =
     bind_st (call (create_virtual_wire (ee_vcns E)
         (case az_vdn_scope_id zone of Some i \<Rightarrow> i | None \<Rightarrow> ''None'') (virtual_wire_request router_name router_id)))
       (\<lambda>r. case snd r of Text d \<Rightarrow> return_st (as_id d) | Parsed (JStr i) \<Rightarrow> return_st i | Parsed _ \<Rightarrow> raise_st (EPy TypeError))"

definition connect_tlr :: "('w, 'd, 't, 'v, 'b, 'm) route_env \<Rightarrow> string \<Rightarrow> string option \<Rightarrow> string \<Rightarrow> ('w, 'd, 't, 'v, unit) edge_op" where
  "connect_tlr R router_id tlr_edge_id lswitch_id =
     (let E = re_env R in
      bind_st (driver_add_vdr_internal_interface E (edge_ref tlr_edge_id) (Some lswitch_id) (Some (re_tlr_address R))
          (Some (ee_netmask E)) [] [] ''uplink'' True) (\<lambda>tlr_vnic_index.
      bind_st (create_vnic E tlr_edge_id tlr_vnic_index lswitch_id) (\<lambda>_.
      update_rb E router_id [Rb_lswitch_id (Some lswitch_id)])))"

definition connect_plr :: "('w, 'd, 't, 'v, 'b, 'm) route_env \<Rightarrow> string \<Rightarrow> string \<Rightarrow> ('w, 'd, 't, 'v, unit) edge_op" where
  "connect_plr R plr_id lswitch_id s =
     (let E = re_env R in
      case rb_of E plr_id s of
        None \<Rightarrow> (Inl (EPy TypeError), s)
      | Some b \<Rightarrow>
          bind_st (alloc_vnic E (rb_edge_id b) lswitch_id) (\<lambda>v.
            driver_update_interface E (edge_ref (rb_edge_id b)) (vb_vnic_index v) (Some lswitch_id) (-1)
              (Some (ee_plr_address E)) (Some (ee_netmask E)) [] True []) s)"

definition create_plr_with_tlr_id :: "('w, 'd, 't, 'v, 'b, 'm) route_env \<Rightarrow> ('d \<Rightarrow> string) \<Rightarrow> string \<Rightarrow> string \<Rightarrow> az \<Rightarrow>
    ('w, 'd, 't, 'v, string) edge_op" where
  "create_plr_with_tlr_id R as_id router_id router_name zone s =
     (let E = re_env R in
      case rb_of E router_id s of
        None \<Rightarrow> (Inl (EPy AttributeError), s)
      | Some tlr \<Rightarrow>
          bind_st (new_wire E as_id zone router_name router_id) (\<lambda>lswitch_id.
          bind_st (connect_tlr R router_id (rb_edge_id tlr) lswitch_id) (\<lambda>_ s.
            let plr_id = take 36 (PLR_EDGE_PREFIX @ ee_uuid E (es_next s)) in
            bind_st (create_lrouter (re_mgr R) plr_id router_name [] False (Some (re_exclusive_size R)) zone) (\<lambda>_.
            bind_st (connect_plr R plr_id lswitch_id) (\<lambda>_.
            return_st plr_id)) (s\<lparr>es_next := Suc (es_next s)\<rparr>))) s)"

text \<open>The deletion of the pair: the PLR's interface, the PLR itself, the TLR's routes and interface, and a
  task for the virtual wire. A TLR without a switch has a null identifier, which no row matches; the
  task then has no wire to name.\<close>

definition vnic_on_switch :: "('w, 'd, 't, 'v) edge_env \<Rightarrow> string option \<Rightarrow> string option \<Rightarrow> ('w, 't, 'v) edge_state \<Rightarrow>
    edge_vnic_binding option" where
  "vnic_on_switch E edge_id lswitch_id s =
     (case lswitch_id of
        Some l \<Rightarrow> vnic_of E edge_id l s
      | None \<Rightarrow> (case edge_id of None \<Rightarrow> None
          | Some i \<Rightarrow> q_first (ee_vb E) (es_vnics s) (\<lambda>r. vb_edge_id r = i \<and> vb_network_id r = None)))"

definition free_vnic_on_switch :: "('w, 'd, 't, 'v) edge_env \<Rightarrow> string option \<Rightarrow> string option \<Rightarrow> ('w, 'd, 't, 'v, unit) edge_op" where
  "free_vnic_on_switch E edge_id lswitch_id s =
     (case (edge_id, lswitch_id) of
        (Some i, None) \<Rightarrow>
          (case q_one (ee_vb E) (es_vnics s) (\<lambda>r. vb_edge_id r = i \<and> vb_network_id r = None) of
             Inl e \<Rightarrow> (Inl (EDb e), s)
           | Inr b \<Rightarrow> (Inr (), s\<lparr>es_vnics := snd (set_row (ee_vb E) vb_key (es_vnics s) b (\<lambda>r. r\<lparr>vb_network_id := None\<rparr>))\<rparr>))
      | (_, Some l) \<Rightarrow> free_vnic_by_network E edge_id l s
      | (None, None) \<Rightarrow> (Inl (EDb NoResultFound), s))"

definition delete_vnic_on_switch :: "('w, 'd, 't, 'v) edge_env \<Rightarrow> string option \<Rightarrow> string option \<Rightarrow> ('w, 'd, 't, 'v, unit) edge_op" where
  "delete_vnic_on_switch E edge_id lswitch_id s =
     (case (edge_id, lswitch_id) of
        (Some i, None) \<Rightarrow>
          (case q_one (ee_vb E) (es_vnics s) (\<lambda>r. vb_edge_id r = i \<and> vb_network_id r = None) of
             Inl e \<Rightarrow> (Inl (EDb e), s)
           | Inr b \<Rightarrow> (Inr (), s\<lparr>es_vnics := q_del (ee_vb E) (es_vnics s) (\<lambda>r. vb_key r = vb_key b)\<rparr>))
      | (_, Some l) \<Rightarrow> delete_vnic_by_network E edge_id l s
      | (None, None) \<Rightarrow> (Inl (EDb NoResultFound), s))"

definition disconnect_plr :: "('w, 'd, 't, 'v) edge_env \<Rightarrow> string \<Rightarrow> string option \<Rightarrow> ('w, 'd, 't, 'v, unit) edge_op" where
  "disconnect_plr E plr_id lswitch_id s =
     (case rb_of E plr_id s of
        None \<Rightarrow> (Inr (), s)
      | Some b \<Rightarrow>
          (case vnic_on_switch E (rb_edge_id b) lswitch_id s of
             None \<Rightarrow> (Inr (), s)
           | Some v \<Rightarrow>
               bind_st (driver_update_routes E (edge_ref (rb_edge_id b)) None []) (\<lambda>_.
               bind_st (driver_delete_interface E (edge_ref (rb_edge_id b)) (nat (vb_vnic_index v))) (\<lambda>_.
               free_vnic_on_switch E (rb_edge_id b) lswitch_id)) s))"

definition disconnect_tlr :: "('w, 'd, 't, 'v) edge_env \<Rightarrow> string option \<Rightarrow> string option \<Rightarrow> ('w, 'd, 't, 'v, unit) edge_op" where
  "disconnect_tlr E tlr_edge_id lswitch_id s =
     (case vnic_on_switch E tlr_edge_id lswitch_id s of
        None \<Rightarrow> (Inr (), s)
      | Some v \<Rightarrow>
          bind_st (driver_delete_vdr_internal_interface E (edge_ref tlr_edge_id) (nat (vb_vnic_index v))) (\<lambda>_.
          delete_vnic_on_switch E tlr_edge_id lswitch_id) s)"

definition delete_plr_by_tlr_id :: "('w, 'd, 't, 'v, 'b, 'm) route_env \<Rightarrow> string \<Rightarrow> string \<Rightarrow> ('w, 'd, 't, 'v, unit) edge_op" where
  "delete_plr_by_tlr_id R plr_id router_id s =
     (let E = re_env R in
      case rb_of E router_id s of
        None \<Rightarrow> (Inl (EPy AttributeError), s)
      | Some tlr \<Rightarrow>
          let lswitch_id = rb_lswitch_id tlr; tlr_edge_id = rb_edge_id tlr in
          bind_st (disconnect_plr E plr_id lswitch_id) (\<lambda>_.
          bind_st (free_edge_appliance (re_mgr R) plr_id) (\<lambda>_.
          bind_st (driver_update_routes E (edge_ref tlr_edge_id) None []) (\<lambda>_.
          bind_st (disconnect_tlr E tlr_edge_id lswitch_id) (\<lambda>_ s.
          (Inr (), spawn_job (Delete_wire_job (edge_ref lswitch_id)) s))))) s)"

subsection \<open>Interfaces of a router's edge\<close>

definition retrieve_nsx_switch_id :: "('w, 'd, 't, 'v, 'b, 'm) route_env \<Rightarrow> string \<Rightarrow> string option \<Rightarrow>
    ('w, 'd, 't, 'v, string option) edge_op" where
  "retrieve_nsx_switch_id R network_id az_name_arg =
     (let any_switch = (case get_nsx_switch_ids (re_sw R) (re_sw_rows R) network_id of
            i # _ \<Rightarrow> return_st (Some i) | [] \<Rightarrow> raise_st (EPlugin ''Network not found at the backend''));
          on_dvs = (\<lambda>dvs_id. case one_or_none (re_sw R) (re_sw_rows R)
              (\<lambda>r. nm_neutron_id r = network_id \<and> nm_dvs_id r = dvs_id) of
            Inl e \<Rightarrow> raise_st (EDb e) | Inr m \<Rightarrow> return_st (map_option nm_nsx_id m))
      in case get_network_bindings (re_tz R) (re_tz_rows R) network_id of
           [] \<Rightarrow> any_switch
         | b # _ \<Rightarrow>
             if tz_binding_type b = Vlan \<and> tz_phy_uuid b \<noteq> Some [] then
               (case tz_phy_uuid b of
                  None \<Rightarrow> raise_st (EPy TypeError)
                | Some p \<Rightarrow>
                    if CHR '','' \<notin> set p then on_dvs (Some p)
                    else on_dvs (az_dvs_id (get_availability_zone (re_mgr R) az_name_arg)))
             else any_switch)"

text \<open>The functions of the module that read the router's binding and the network's switch first; a
  missing binding raises, as None has no items.\<close>

definition with_switch :: "('w, 'd, 't, 'v, 'b, 'm) route_env \<Rightarrow> string \<Rightarrow> string \<Rightarrow>
    (string option \<Rightarrow> string option \<Rightarrow> ('w, 'd, 't, 'v, 'a) edge_op) \<Rightarrow> ('w, 'd, 't, 'v, 'a) edge_op" where
  "with_switch R router_id network_id f s =
     (case rb_of (re_env R) router_id s of
        None \<Rightarrow> (Inl (EPy TypeError), s)
      | Some b \<Rightarrow> bind_st (retrieve_nsx_switch_id R network_id (rb_availability_zone b)) (f (rb_edge_id b)) s)"

definition update_internal_interface :: "('w, 'd, 't, 'v, 'b, 'm) route_env \<Rightarrow> string \<Rightarrow> string \<Rightarrow> json list \<Rightarrow> bool \<Rightarrow>
    ('w, 'd, 't, 'v, unit) edge_op" where
  "update_internal_interface R router_id int_net_id groups is_connected =
     with_switch R router_id int_net_id (\<lambda>edge_id switch_id s.
       bind_st (case vnic_of (re_env R) edge_id int_net_id s of
           None \<Rightarrow> alloc_vnic (re_env R) edge_id int_net_id | Some v \<Rightarrow> return_st v) (\<lambda>v.
         driver_update_interface (re_env R) (edge_ref edge_id) (vb_vnic_index v) switch_id (-1) None None [] is_connected groups) s)"

definition add_vdr_internal_interface_of :: "('w, 'd, 't, 'v, 'b, 'm) route_env \<Rightarrow> string \<Rightarrow> string \<Rightarrow> json list \<Rightarrow> bool \<Rightarrow>
    ('w, 'd, 't, 'v, unit) edge_op" where
  "add_vdr_internal_interface_of R router_id int_net_id groups is_connected =
     with_switch R router_id int_net_id (\<lambda>edge_id switch_id s.
       case vnic_of (re_env R) edge_id int_net_id s of
         None \<Rightarrow>
           bind_st (driver_add_vdr_internal_interface (re_env R) (edge_ref edge_id) switch_id None None [] groups ''internal'' is_connected)
             (\<lambda>vnic_index. create_vnic (re_env R) edge_id vnic_index int_net_id) s
       | Some _ \<Rightarrow> (Inl (EBadRequest ''vdr''), s))"

definition update_vdr_internal_interface_of :: "('w, 'd, 't, 'v, 'b, 'm) route_env \<Rightarrow> string \<Rightarrow> string \<Rightarrow> json list \<Rightarrow> bool \<Rightarrow>
    ('w, 'd, 't, 'v, unit) edge_op" where
  "update_vdr_internal_interface_of R router_id int_net_id groups is_connected =
     with_switch R router_id int_net_id (\<lambda>edge_id switch_id s.
       case vnic_of (re_env R) edge_id int_net_id s of
         None \<Rightarrow> (Inl (EPy AttributeError), s)
       | Some v \<Rightarrow> driver_update_vdr_internal_interface (re_env R) (edge_ref edge_id) (int_str (vb_vnic_index v)) switch_id groups
           is_connected s)"

definition delete_interface_of :: "('w, 'd, 't, 'v, 'b, 'm) route_env \<Rightarrow> string \<Rightarrow> string \<Rightarrow> bool \<Rightarrow> ('w, 'd, 't, 'v, unit) edge_op" where
  "delete_interface_of R router_id network_id dist s =
     (let E = re_env R in
      if rb_of E router_id s = None then (Inr (), s)
      else with_switch R router_id network_id (\<lambda>edge_id switch_id s.
        case vnic_of E edge_id network_id s of
          None \<Rightarrow> (Inr (), s)
        | Some v \<Rightarrow>
            (if dist
             then bind_st (driver_delete_vdr_internal_interface E (edge_ref edge_id) (nat (vb_vnic_index v)))
                 (\<lambda>_. delete_vnic_by_network E edge_id network_id)
             else bind_st (driver_delete_interface E (edge_ref edge_id) (nat (vb_vnic_index v)))
                 (\<lambda>_. free_vnic_by_network E edge_id network_id)) s) s)"

text \<open>The external interface. For each network the addresses that are in it and that were not taken for an
  earlier one are grouped: the primary address first, then the secondary ones in order. A text that
  netaddr rejects raises, as ValueError here.\<close>

definition check_ipnet_ip :: "ip_net \<Rightarrow> int \<Rightarrow> bool" where
  "check_ipnet_ip net ip \<longleftrightarrow> ip \<noteq> in_mask net \<and> ip \<noteq> in_last net \<and> in_mask net AND ip = in_network net"

fun take_addresses :: "('w, 'd, 't, 'v, 'b, 'm) route_env \<Rightarrow> ip_net \<Rightarrow> string list \<Rightarrow> string list \<Rightarrow> string list \<Rightarrow>
    py_exc + string list \<times> string list" where
  "take_addresses R net [] addr_list grp = Inr (addr_list, grp)"
| "take_addresses R net (a # as) addr_list grp =
     (if a \<in> set addr_list then take_addresses R net as addr_list grp
      else (case re_ip R a of
          None \<Rightarrow> Inl ValueError
        | Some ip \<Rightarrow>
            if check_ipnet_ip net ip then take_addresses R net as (addr_list @ [a]) (grp @ [a])
            else take_addresses R net as addr_list grp))"

text \<open>The groups of a list of networks: of each, its prefix length and its addresses, if it has any.\<close>

fun external_groups :: "('w, 'd, 't, 'v, 'b, 'm) route_env \<Rightarrow> string list \<Rightarrow> string list \<Rightarrow> string list \<Rightarrow>
    py_exc + (nat \<times> string list) list" where
  "external_groups R ips [] addr_list = Inr []"
| "external_groups R ips (c # cs) addr_list =
     (case re_net R c of
        None \<Rightarrow> Inl ValueError
      | Some net \<Rightarrow>
          bind_res (take_addresses R net ips addr_list []) (\<lambda>(addr_list, grp).
          bind_res (external_groups R ips cs addr_list) (\<lambda>groups.
          Inr (if grp = [] then groups else (in_prefixlen net, grp) # groups))))"

definition external_group_json :: "nat \<times> string list \<Rightarrow> json" where
  "external_group_json g =
     (case g of (prefixlen, addresses) \<Rightarrow>
        JObj ([(''primaryAddress'', JStr (hd addresses)), (''subnetPrefixLength'', JStr (nat_str prefixlen))] @
          (if tl addresses = [] then [] else [(''secondaryAddresses'',
             JObj [(''ipAddress'', JList (map JStr (tl addresses))), (''type'', JStr ''secondary_addresses'')])])))"

text \<open>The caller gives the networks of the external interface in \<open>netmask\<close>, or nothing, and then no address.\<close>

definition update_external_interface :: "('w, 'd, 't, 'v, 'b, 'm) route_env \<Rightarrow> string \<Rightarrow> string \<Rightarrow> string \<Rightarrow> string list \<Rightarrow>
    string list \<Rightarrow> ('w, 'd, 't, 'v, unit) edge_op" where
  "update_external_interface R router_id ext_net_id ipaddr netmask secondary s =
     (let E = re_env R in
      case rb_of E router_id s of
        None \<Rightarrow> (Inr (), s)
      | Some b \<Rightarrow>
          let vcns_network_id = (case get_network_bindings (re_tz R) (re_tz_rows R) ext_net_id of
                [] \<Rightarrow> az_external_network (get_availability_zone (re_mgr R) (rb_availability_zone b))
              | n # _ \<Rightarrow> tz_phy_uuid n);
            update = driver_update_interface E (edge_ref (rb_edge_id b)) EXTERNAL_VNIC_INDEX vcns_network_id (-1)
          in if netmask \<noteq> [] then
               (case external_groups R (ipaddr # secondary) netmask [] of
                  Inl e \<Rightarrow> (Inl (EPy e), s)
                | Inr groups \<Rightarrow> update None None [] True (map external_group_json groups) s)
             else update (Some ipaddr) None secondary True [] s)"

subsection \<open>Routes, NAT and the rest\<close>

definition get_router_edge_id :: "('w, 'd, 't, 'v) edge_env \<Rightarrow> string \<Rightarrow> ('w, 't, 'v) edge_state \<Rightarrow> string option" where
  "get_router_edge_id E router_id s = Option.bind (rb_of E router_id s) rb_edge_id"

definition update_gateway :: "('w, 'd, 't, 'v) edge_env \<Rightarrow> string \<Rightarrow> string option \<Rightarrow> edge_route list \<Rightarrow> ('w, 'd, 't, 'v, unit) edge_op" where
  "update_gateway E router_id nexthop routes s =
     (case rb_of E router_id s of
        None \<Rightarrow> (Inl (EPy TypeError), s)
      | Some b \<Rightarrow> bind_st (driver_update_routes E (edge_ref (rb_edge_id b)) nexthop routes) (\<lambda>_. return_st ()) s)"

definition clear_gateway :: "('w, 'd, 't, 'v) edge_env \<Rightarrow> string \<Rightarrow> ('w, 'd, 't, 'v, unit) edge_op" where
  "clear_gateway E router_id = update_gateway E router_id None []"

text \<open>A route of the plugin. Reading the routes of an edge gives back, for each route on a vnic that serves
  a network, that network; routes on other vnics are left out.\<close>

record plugin_route =
  pr_network :: "string option"
  pr_external :: bool
  pr_destination :: string
  pr_nexthop :: string




text \<open>Whether netaddr finds the next hop in the destination; both must parse.\<close>

definition nexthop_inside :: "('w, 'd, 't, 'v, 'b, 'm) route_env \<Rightarrow> plugin_route \<Rightarrow> py_exc + bool" where
  "nexthop_inside R r =
     (case (re_ip R (pr_nexthop r), re_net R (pr_destination r)) of
        (Some ip, Some net) \<Rightarrow> Inr (in_network net \<le> ip \<and> ip \<le> in_last net)
      | _ \<Rightarrow> Inl ValueError)"

definition edge_route_of :: "('w, 'd, 't, 'v, 'b, 'm) route_env \<Rightarrow> string option \<Rightarrow> ('w, 't, 'v) edge_state \<Rightarrow> plugin_route \<Rightarrow>
    py_exc + edge_route list" where
  "edge_route_of R edge_id s r =
     (let route = (\<lambda>i. [\<lparr>er_cidr = pr_destination r, er_nexthop = pr_nexthop r, er_vnic = Some i\<rparr>]) in
      if \<not> given (pr_network r) then Inr []
      else if pr_external r then Inr (route EXTERNAL_VNIC_INDEX)
      else bind_res (nexthop_inside R r) (\<lambda>inside.
        Inr (if inside then []
          else (case vnic_of (re_env R) edge_id (the (pr_network r)) s of
              None \<Rightarrow> [] | Some v \<Rightarrow> if vb_vnic_index v \<noteq> 0 then route (vb_vnic_index v) else []))))"

definition edge_routes_of :: "('w, 'd, 't, 'v, 'b, 'm) route_env \<Rightarrow> string option \<Rightarrow> ('w, 't, 'v) edge_state \<Rightarrow>
    plugin_route list \<Rightarrow> py_exc + edge_route list" where
  "edge_routes_of R edge_id s routes =
     bind_res (map_res (edge_route_of R edge_id s) routes) (\<lambda>rs. Inr (concat rs))"

definition update_routes_of :: "('w, 'd, 't, 'v, 'b, 'm) route_env \<Rightarrow> string \<Rightarrow> plugin_route list \<Rightarrow> string option \<Rightarrow>
    ('w, 'd, 't, 'v, unit) edge_op" where
  "update_routes_of R router_id routes nexthop s =
     (case rb_of (re_env R) router_id s of
        None \<Rightarrow> (Inr (), s)
      | Some b \<Rightarrow>
          (case edge_routes_of R (rb_edge_id b) s routes of
             Inl e \<Rightarrow> (Inl (EPy e), s)
           | Inr rs \<Rightarrow> bind_st (driver_update_routes (re_env R) (edge_ref (rb_edge_id b)) nexthop rs) (\<lambda>_. return_st ()) s))"

definition get_internal_lswitch_id_of_plr_tlr :: "('w, 'd, 't, 'v) edge_env \<Rightarrow> string \<Rightarrow> ('w, 't, 'v) edge_state \<Rightarrow>
    py_exc + string option" where
  "get_internal_lswitch_id_of_plr_tlr E router_id s =
     (case rb_of E router_id s of None \<Rightarrow> Inl AttributeError | Some b \<Rightarrow> Inr (rb_lswitch_id b))"

definition get_internal_vnic_index_of_plr_tlr :: "('w, 'd, 't, 'v) edge_env \<Rightarrow> string \<Rightarrow> ('w, 't, 'v) edge_state \<Rightarrow> py_exc + int" where
  "get_internal_vnic_index_of_plr_tlr E router_id s =
     (case rb_of E router_id s of
        None \<Rightarrow> Inl AttributeError
      | Some b \<Rightarrow>
          (case vnic_on_switch E (rb_edge_id b) (rb_lswitch_id b) s of
             None \<Rightarrow> Inl AttributeError | Some v \<Rightarrow> Inr (vb_vnic_index v)))"

text \<open>The vnics that NAT rules are bound to: before version 6.2.4 each one that is in use and the external
  one, later none to say all of them, or only the external one.\<close>

definition update_nat_rules_of :: "('w, 'd, 't, 'v, 'b, 'm) route_env \<Rightarrow> json option \<Rightarrow> string \<Rightarrow> nat_rule list \<Rightarrow>
    nat_rule list \<Rightarrow> az option \<Rightarrow> ('w, 'd, 't, 'v, unit) edge_op" where
  "update_nat_rules_of R nsx_version router_id snat dnat zone_arg s =
     (let E = re_env R in
      case rb_of E router_id s of
        None \<Rightarrow> (Inr (), s)
      | Some b \<Rightarrow>
          let zone = (case zone_arg of Some z \<Rightarrow> z | None \<Rightarrow> get_availability_zone (re_mgr R) (rb_availability_zone b));
              send = (\<lambda>indices. bind_st (driver_update_nat_rules E (edge_ref (rb_edge_id b)) snat dnat indices) (\<lambda>_. return_st ()))
          in if az_bind_floatingip_to_all_interfaces zone then
               (case get_version (ee_vcns E) nsx_version (es_world s) of
                  ((ver, _), w) \<Rightarrow>
                    let s = s\<lparr>es_world := w\<rparr> in
                    send (if re_before_6_2_4 R ver
                      then map vb_vnic_index (vnics_of E (rb_edge_id b) s) @ [EXTERNAL_VNIC_INDEX] else []) s)
             else send [EXTERNAL_VNIC_INDEX] s)"

definition clear_nat_rules :: "('w, 'd, 't, 'v, 'b, 'm) route_env \<Rightarrow> json option \<Rightarrow> string \<Rightarrow> ('w, 'd, 't, 'v, unit) edge_op" where
  "clear_nat_rules R nsx_version router_id = update_nat_rules_of R nsx_version router_id [] [] None"

text \<open>The module's own pair of functions for a router with an edge of its own. The size is a constant of the
  configuration; the database refuses one that is not of the four.\<close>

definition module_create_lrouter :: "('w, 'd, 't, 'v, 'b, 'm) route_env \<Rightarrow> string \<Rightarrow> string \<Rightarrow> bool \<Rightarrow> az \<Rightarrow>
    ('w, 'd, 't, 'v, unit) edge_op" where
  "module_create_lrouter R router_id name dist zone =
     (case get_service_edge_size (pm_sizes (re_mgr R)) ''router'' of
        Inl e \<Rightarrow> raise_st (EPy e)
      | Inr size_arg \<Rightarrow>
          (case size_of_str size_arg of
             None \<Rightarrow> raise_st (EDb DBError)
           | Some z \<Rightarrow>
               bind_st (add_rb (re_env R) router_id None ST_PENDING_CREATE z SERVICE_EDGE (Some (az_name zone))) (\<lambda>_.
               bind_st (driver_deploy_edge (re_env R) (pm_uuid_like (re_mgr R)) router_id (name @ ''-'' @ router_id) None dist False z
                 zone False) (\<lambda>_. return_st ()))))"

definition module_delete_lrouter :: "('w, 'd, 't, 'v) edge_env \<Rightarrow> string \<Rightarrow> bool \<Rightarrow> ('w, 'd, 't, 'v, unit) edge_op" where
  "module_delete_lrouter E router_id dist s =
     (case rb_of E router_id s of
        None \<Rightarrow> (Inr (), s)
      | Some b \<Rightarrow>
          bind_st (update_rb E router_id [Rb_status ST_PENDING_DELETE]) (\<lambda>_ s.
            (Inr (), snd (driver_delete_edge E router_id (rb_edge_id b) dist s))) s)"

text \<open>The wait for a network that is in use: the number of times the vnics are looked up. The table may
  change while the code sleeps: the n-th lookup is a parameter.\<close>

fun wait_unused :: "(nat \<Rightarrow> edge_vnic_binding list) \<Rightarrow> nat \<Rightarrow> nat \<Rightarrow> nat" where
  "wait_unused lookup attempt 0 = attempt"
| "wait_unused lookup attempt (Suc n) = (if lookup attempt = [] then Suc attempt else wait_unused lookup (Suc attempt) n)"

definition check_network_in_use_at_backend :: "nat \<Rightarrow> (nat \<Rightarrow> edge_vnic_binding list) \<Rightarrow> nat" where
  "check_network_in_use_at_backend retries lookup = wait_unused lookup 0 (max retries 1)"

text \<open>The host groups of an edge. What the DVS object (\<open>dvs/dvs.py\<close>, over vSphere) does to the world, and
  the virtual machines it has configured, are parameters, and so is the shuffle.\<close>

record ('w, 'd) dvs_obj =
  dv_configured_vms :: "string option \<Rightarrow> string list \<Rightarrow> 'w \<Rightarrow> json list"
  dv_update_failover :: "string option \<Rightarrow> json list \<Rightarrow> string list \<Rightarrow> 'w \<Rightarrow> ('d edge_exc + unit) \<times> 'w"
  dv_cleanup :: "string option \<Rightarrow> string list \<Rightarrow> 'w \<Rightarrow> ('d edge_exc + unit) \<times> 'w"
  dv_shuffle :: "json list \<Rightarrow> 'w \<Rightarrow> json list"

definition swallow :: "('w, 'd, 't, 'v, unit) edge_op \<Rightarrow> ('w, 'd, 't, 'v, unit) edge_op" where
  "swallow m = catch_st m (\<lambda>_. return_st ())"

definition edge_vms :: "json \<Rightarrow> py_exc + json list" where
  "edge_vms body = bind_res (bind_res (jfield ''appliances'' body) as_list) (map_res (jfield ''vmId''))"

definition update_edge_host_groups :: "('w, 'd, 't, 'v) edge_env \<Rightarrow> ('w, 'd) dvs_obj \<Rightarrow> string \<Rightarrow> az \<Rightarrow> bool \<Rightarrow>
    ('w, 'd, 't, 'v, unit) edge_op" where
  "update_edge_host_groups E D edge_id zone validate =
     bind_st (call (with_body (get_edge_appliances (ee_vcns E) edge_id) edge_vms)) (\<lambda>vms s.
       let groups = az_edge_host_groups zone; pool = az_resource_pool zone in
       if validate \<and> (\<exists>vm \<in> set vms. vm \<in> set (dv_configured_vms D pool groups (es_world s))) then (Inr (), s)
       else
         let vms = (if az_ha_placement_random zone
               then dv_shuffle D (vms @ replicate (length groups - length vms) JNull) (es_world s) else vms)
         in swallow (on_world (dv_update_failover D pool vms groups)) s)"

definition clean_host_groups :: "('w, 'd) dvs_obj \<Rightarrow> az \<Rightarrow> ('w, 'd, 't, 'v, unit) edge_op" where
  "clean_host_groups D zone = swallow (on_world (dv_cleanup D (az_resource_pool zone) (az_edge_host_groups zone)))"

subsection \<open>The choice of an edge for a shared router\<close>

definition suits :: "('w, 'd, 't, 'v) edge_env \<Rightarrow> ('w, 't, 'v) edge_state \<Rightarrow> string list \<Rightarrow> int \<Rightarrow> string option \<Rightarrow> bool" where
  "suits E s nets n e \<longleftrightarrow> room E s e \<ge> max 1 n \<and> (\<forall>x \<in> set nets. Some x \<notin> set (edge_networks E s e))"

text \<open>The reference: the first edge that suits and that no other one beats.\<close>

definition roomiest :: "('w, 'd, 't, 'v) edge_env \<Rightarrow> ('w, 't, 'v) edge_state \<Rightarrow> string list \<Rightarrow> int \<Rightarrow> string option list \<Rightarrow>
    string option option" where
  "roomiest E s nets n es =
     find (\<lambda>e. suits E s nets n e \<and> (\<forall>e' \<in> set es. suits E s nets n e' \<longrightarrow> room E s e' \<le> room E s e)) es"

lemma best_exists:
  fixes f :: "'a \<Rightarrow> int"
  assumes "x \<in> set xs" "P x"
  shows "\<exists>y \<in> set xs. P y \<and> (\<forall>z \<in> set xs. P z \<longrightarrow> f z \<le> f y)"
proof -
  let ?S = "{y \<in> set xs. P y}"
  have "finite (f ` ?S)" "f ` ?S \<noteq> {}" using assms by auto
  from Max_in [OF this] obtain y where "y \<in> ?S" "f y = Max (f ` ?S)" by auto
  with \<open>finite (f ` ?S)\<close> show ?thesis by (metis (mono_tags, lifting) Max_ge image_eqI mem_Collect_eq)
qed

text \<open>The loop with a bound \<open>m\<close> that is not below 0: the first edge that suits, has more room than
  \<open>m\<close> and is not beaten.\<close>

lemma choose_edge_find:
  assumes "0 \<le> m"
  shows "choose_edge E s nets n es m a =
    (case find (\<lambda>e. suits E s nets n e \<and> m < room E s e \<and>
        (\<forall>e' \<in> set es. suits E s nets n e' \<longrightarrow> room E s e' \<le> room E s e)) es of None \<Rightarrow> a | Some e \<Rightarrow> e)"
  using assms
proof (induction es arbitrary: m a)
  case Nil
  then show ?case by simp
next
  case (Cons e es)
  let ?better = "\<lambda>m es x. suits E s nets n x \<and> m < room E s x \<and>
    (\<forall>e' \<in> set es. suits E s nets n e' \<longrightarrow> room E s e' \<le> room E s x)"
  show ?case
  proof (cases "suits E s nets n e \<and> m < room E s e")
    case True
    then have step: "choose_edge E s nets n (e # es) m a = choose_edge E s nets n es (room E s e) e"
      by (simp add: suits_def)
    have m: "0 \<le> room E s e" using True Cons.prems by linarith
    show ?thesis
    proof (cases "\<exists>x \<in> set es. suits E s nets n x \<and> room E s e < room E s x")
      case True': True
      then have "\<not> ?better m (e # es) e" by (meson leD list.set_intros(2))
      moreover have "find (?better m (e # es)) es = find (?better (room E s e) es) es"
      proof (rule find_cong [OF refl])
        fix x assume x: "x \<in> set es"
        show "?better m (e # es) x \<longleftrightarrow> ?better (room E s e) es x"
        proof
          assume L: "?better m (e # es) x"
          from True' obtain y where y: "y \<in> set es" "suits E s nets n y" "room E s e < room E s y" by blast
          with L have "room E s y \<le> room E s x" by simp
          with y L show "?better (room E s e) es x" by force
        next
          assume "?better (room E s e) es x"
          with True show "?better m (e # es) x" by force
        qed
      qed
      moreover have "find (?better (room E s e) es) es \<noteq> None"
      proof -
        obtain y where "y \<in> set es" "suits E s nets n y" "\<forall>z \<in> set es. suits E s nets n z \<longrightarrow> room E s z \<le> room E s y"
          using True' best_exists [of _ es "suits E s nets n" "room E s"] by metis
        with True' have "?better (room E s e) es y" by force
        with \<open>y \<in> set es\<close> show ?thesis by (auto simp: find_None_iff)
      qed
      ultimately show ?thesis unfolding step Cons.IH [OF m] by (auto split: option.splits)
    next
      case False
      then have best: "?better m (e # es) e" using True by force
      have "find (?better m (e # es)) (e # es) = Some e"
        by (subst find.simps(2)) (rule if_P [OF best])
      moreover have "find (?better (room E s e) es) es = None"
        using False by (auto simp: find_None_iff)
      ultimately show ?thesis unfolding step Cons.IH [OF m] by (simp only: option.case)
    qed
  next
    case False
    have "\<not> (room E s e > m \<and> room E s e \<ge> n \<and> (\<forall>x \<in> set nets. Some x \<notin> set (edge_networks E s e)))"
      using False Cons.prems by (auto simp: suits_def)
    then have step: "choose_edge E s nets n (e # es) m a = choose_edge E s nets n es m a" by auto
    have worse: "\<not> ?better m (e # es) e" using False by blast
    have "find (?better m (e # es)) (e # es) = find (?better m (e # es)) es"
      by (subst find.simps(2)) (rule if_not_P [OF worse])
    also have "\<dots> = find (?better m es) es"
      by (rule find_cong [OF refl]) (use False in force)
    finally show ?thesis unfolding step Cons.IH [OF Cons.prems] by (simp only:)
  qed
qed

lemma optional_edges_set:
  "set (optional_edges E zone s rs es) = set es \<union>
     {rb_edge_id b | b r. r \<in> set rs \<and> rb_of E r s = Some b \<and> rb_status b = ST_ACTIVE \<and>
        rb_availability_zone b = Some (az_name zone)}"
proof (induction rs arbitrary: es)
  case Nil
  then show ?case by simp
next
  case (Cons r rs)
  show ?case
    unfolding optional_edges.simps Cons.IH by (cases "rb_of E r s") auto
qed

lemma conflict_edges_set:
  "set (conflict_edges E s rs es) = set es \<union> {rb_edge_id b | b r. r \<in> set rs \<and> rb_of E r s = Some b}"
proof (induction rs arbitrary: es)
  case Nil
  then show ?case by simp
next
  case (Cons r rs)
  show ?case
    unfolding conflict_edges.simps Cons.IH by (cases "rb_of E r s") auto
qed

text \<open>An edge that may take the router: a router that may share it is bound to it, in the zone and
  active, none that conflicts is, and it suits.\<close>

definition eligible :: "('w, 'd, 't, 'v) edge_env \<Rightarrow> ('w, 't, 'v) edge_state \<Rightarrow> string list \<Rightarrow> string list \<Rightarrow> string list \<Rightarrow>
    int \<Rightarrow> az \<Rightarrow> string option \<Rightarrow> bool" where
  "eligible E s optional conflicts nets n zone e \<longleftrightarrow>
     (\<exists>r \<in> set optional. \<exists>b. rb_of E r s = Some b \<and> rb_status b = ST_ACTIVE \<and>
        rb_availability_zone b = Some (az_name zone) \<and> rb_edge_id b = e) \<and>
     (\<forall>r \<in> set conflicts. \<forall>b. rb_of E r s = Some b \<longrightarrow> rb_edge_id b \<noteq> e) \<and> suits E s nets n e"

definition candidates :: "('w, 'd, 't, 'v) edge_env \<Rightarrow> ('w, 't, 'v) edge_state \<Rightarrow> string list \<Rightarrow> string list \<Rightarrow> az \<Rightarrow>
    string option list" where
  "candidates E s optional conflicts zone =
     filter (\<lambda>e. e \<notin> set (conflict_edges E s conflicts [])) (optional_edges E zone s optional [])"

lemma eligible_iff:
  "eligible E s optional conflicts nets n zone e \<longleftrightarrow>
     e \<in> set (candidates E s optional conflicts zone) \<and> suits E s nets n e"
  by (auto simp: eligible_def candidates_def optional_edges_set conflict_edges_set)

lemma find_edge_roomiest:
  "find_edge R optional conflicts nets n zone s =
     (case roomiest (re_env R) s nets n (re_order R (candidates (re_env R) s optional conflicts zone)) of
        None \<Rightarrow> None | Some e \<Rightarrow> e)"
  unfolding find_edge_def Let_def candidates_def [symmetric] roomiest_def
  by (subst choose_edge_find) (auto simp: suits_def intro!: arg_cong [where f = "case_option None id"] find_cong
    cong: option.case_cong conj_cong)

lemma roomiest_cases:
  assumes "\<And>xs. set (re_order R xs) = set xs"
  defines "E \<equiv> re_env R"
  obtains "\<forall>e. \<not> eligible E s optional conflicts nets n zone e"
      "roomiest E s nets n (re_order R (candidates E s optional conflicts zone)) = None"
  | e where "eligible E s optional conflicts nets n zone e"
      "\<forall>e'. eligible E s optional conflicts nets n zone e' \<longrightarrow> room E s e' \<le> room E s e"
      "roomiest E s nets n (re_order R (candidates E s optional conflicts zone)) = Some e"
proof (cases "roomiest E s nets n (re_order R (candidates E s optional conflicts zone))")
  case None
  then have no: "\<not> (\<exists>e \<in> set (candidates E s optional conflicts zone). suits E s nets n e \<and>
      (\<forall>e' \<in> set (candidates E s optional conflicts zone). suits E s nets n e' \<longrightarrow> room E s e' \<le> room E s e))"
    unfolding roomiest_def find_None_iff assms(1) by blast
  have "\<forall>e. \<not> eligible E s optional conflicts nets n zone e"
    unfolding eligible_iff using no best_exists [where P = "suits E s nets n" and f = "room E s"] by metis
  then show thesis using None by (rule that(1))
next
  case (Some e)
  then have "e \<in> set (candidates E s optional conflicts zone) \<and> suits E s nets n e \<and>
      (\<forall>e' \<in> set (candidates E s optional conflicts zone). suits E s nets n e' \<longrightarrow> room E s e' \<le> room E s e)"
    unfolding roomiest_def find_Some_iff assms(1) using assms(1) nth_mem by metis
  then show thesis using that(2) [OF _ _ Some] unfolding eligible_iff by blast
qed


text \<open>C22: The loop that chooses an edge for a shared router, with its running maximum, computes the
  reference: the first of the candidates, in the order in which Python iterates over the set, that suits the
  router and has at least as much room as every other candidate that suits.\<close>

theorem edge_choice_is_roomiest:
  "find_edge R optional conflicts nets n zone s =
     (case roomiest (re_env R) s nets n (re_order R (candidates (re_env R) s optional conflicts zone)) of
        None \<Rightarrow> None | Some e \<Rightarrow> e)"
  by (rule find_edge_roomiest)

context rb_table
begin

lemma rb_of_Some: "ok (es_rbs s) \<Longrightarrow> rb_of E r s = Some b \<Longrightarrow> b \<in> rbs s \<and> rb_router_id b = r"
  using orm_table.first_Some [OF table, of "es_rbs s" "\<lambda>b. rb_router_id b = r" b]
  by (simp add: rb_of_def get_nsxv_router_binding_def)

lemma rb_of_None: "ok (es_rbs s) \<Longrightarrow> rb_of E r s = None \<longleftrightarrow> r \<notin> rb_router_id ` rbs s"
  using orm_table.first_None [OF table, of "es_rbs s" "\<lambda>b. rb_router_id b = r"]
  by (auto simp: rb_of_def get_nsxv_router_binding_def)

lemma rb_of_row:
  assumes ok: "ok (es_rbs s)" and b: "b \<in> rbs s"
  shows "rb_of E (rb_router_id b) s = Some b"
proof -
  from b obtain c where c: "rb_of E (rb_router_id b) s = Some c"
    using rb_of_None [OF ok, of "rb_router_id b"] by (cases "rb_of E (rb_router_id b) s") simp_all
  from rb_of_Some [OF ok c] key_eq [OF ok _ b, of c] show ?thesis using c by simp
qed

lemma by_edge:
  assumes "ok (es_rbs s)"
  shows "set (get_nsxv_router_bindings_by_edge (ee_rb E) (es_rbs s) i) = {b \<in> rbs s. rb_edge_id b = Some i}"
  unfolding get_nsxv_router_bindings_by_edge_def by (rule all_rows [OF assms])

end

lemma only_rbs:
  assumes "s' = s\<lparr>es_rbs := t\<rparr>"
  shows "es_world s' = es_world s" "es_vnics s' = es_vnics s" "es_routers s' = es_routers s" "es_jobs s' = es_jobs s"
    "es_next s' = es_next s"
  unfolding assms by simp_all

lemma bind_to_edge:
  assumes T: "rb_table (re_env R) ok" and ok: "ok (es_rbs s)"
    and new: "target \<notin> rb_router_id ` rows (ee_rb (re_env R)) (es_rbs s)"
    and found: "find_edge R optional conflicts nets n zone s = Some i" "i \<noteq> []"
    and row: "b0 \<in> rows (ee_rb (re_env R)) (es_rbs s)" "rb_edge_id b0 = Some i"
  shows "\<exists>b s'. bind_router_on_available_edge R target optional conflicts nets n zone s = (Inr False, s') \<and>
    s' = s\<lparr>es_rbs := es_rbs s'\<rparr> \<and> b \<in> rows (ee_rb (re_env R)) (es_rbs s) \<and> rb_edge_id b = Some i \<and>
    rows (ee_rb (re_env R)) (es_rbs s') = insert (b\<lparr>rb_router_id := target, rb_lswitch_id := None,
      rb_status_description := None, rb_availability_zone := Some (az_name zone)\<rparr>) (rows (ee_rb (re_env R)) (es_rbs s))"
proof -
  let ?E = "re_env R"
  obtain b bs where bs: "get_nsxv_router_bindings_by_edge (ee_rb ?E) (es_rbs s) i = b # bs"
    using rb_table.by_edge [OF T ok, of i] row
    by (cases "get_nsxv_router_bindings_by_edge (ee_rb ?E) (es_rbs s) i") auto
  then have b: "b \<in> rows (ee_rb ?E) (es_rbs s)" "rb_edge_id b = Some i"
    using rb_table.by_edge [OF T ok, of i] by auto
  obtain s' where s': "add_rb ?E target (rb_edge_id b) (rb_status b) (rb_appliance_size b) (rb_edge_type b)
      (Some (az_name zone)) s = (Inr (), s')" "s' = s\<lparr>es_rbs := es_rbs s'\<rparr>"
    "rows (ee_rb ?E) (es_rbs s') = insert \<lparr>rb_router_id = target, rb_edge_id = rb_edge_id b, rb_lswitch_id = None,
       rb_status = rb_status b, rb_status_description = None, rb_appliance_size = rb_appliance_size b,
       rb_edge_type = rb_edge_type b, rb_availability_zone = Some (az_name zone)\<rparr> (rows (ee_rb ?E) (es_rbs s))"
    by (rule rb_table.add_new [OF T ok new]) blast
  have "bind_router_on_available_edge R target optional conflicts nets n zone s = (Inr False, s')"
    using s'(1) by (simp add: bind_router_on_available_edge_def found given_def bs bind_st_def return_st_def)
  then show ?thesis using b s'(2,3) by (intro exI [of _ b] exI [of _ s']) (cases b, simp)
qed

text \<open>C15: A shared router is bound to an edge exactly when some edge is eligible: active for another router
  that may share it, in the zone, not used by a conflicting router, with no conflicting network and with
  enough free vnics, at least one. It is then one of those with most room; only the row of the router is
  added, with the status, size and type of a row of that edge, and nothing is asked of the manager. When no
  edge is eligible an edge is allocated from the pool.\<close>

theorem shared_router_gets_roomiest_edge:
  assumes "rb_table (re_env R) ok" "ok (es_rbs s)" "\<And>xs. set (re_order R xs) = set xs"
    "target \<notin> rb_router_id ` rows (ee_rb (re_env R)) (es_rbs s)"
    "\<forall>b \<in> rows (ee_rb (re_env R)) (es_rbs s). rb_status b = ST_ACTIVE \<longrightarrow> given (rb_edge_id b)"
  shows "((\<exists>e. eligible (re_env R) s optional conflicts nets n zone e) \<longrightarrow>
      (\<exists>i b s'. eligible (re_env R) s optional conflicts nets n zone (Some i) \<and>
        (\<forall>e. eligible (re_env R) s optional conflicts nets n zone e \<longrightarrow> room (re_env R) s e \<le> room (re_env R) s (Some i)) \<and>
        bind_router_on_available_edge R target optional conflicts nets n zone s = (Inr False, s') \<and>
        s' = s\<lparr>es_rbs := es_rbs s'\<rparr> \<and> b \<in> rows (ee_rb (re_env R)) (es_rbs s) \<and> rb_edge_id b = Some i \<and>
        rows (ee_rb (re_env R)) (es_rbs s') = insert (b\<lparr>rb_router_id := target, rb_lswitch_id := None,
          rb_status_description := None, rb_availability_zone := Some (az_name zone)\<rparr>) (rows (ee_rb (re_env R)) (es_rbs s)))) \<and>
    ((\<forall>e. \<not> eligible (re_env R) s optional conflicts nets n zone e) \<longrightarrow>
      bind_router_on_available_edge R target optional conflicts nets n zone s =
        bind_st (allocate_edge_appliance (re_mgr R) target (take EDGE_NAME_LEN (''shared-'' @ ee_uuid (re_env R) (es_next s)))
          (re_shared_size R) False zone False) (\<lambda>_. return_st True) (s\<lparr>es_next := Suc (es_next s)\<rparr>))"
proof (cases rule: roomiest_cases [OF assms(3), of s optional conflicts nets n zone, case_names none some])
  case none
  then have "find_edge R optional conflicts nets n zone s = None" by (simp add: find_edge_roomiest)
  with none(1) show ?thesis by (simp add: bind_router_on_available_edge_def given_def Let_def)
next
  case (some e)
  from some(1) obtain r b0 where b0: "rb_of (re_env R) r s = Some b0" "rb_status b0 = ST_ACTIVE" "rb_edge_id b0 = e"
    by (auto simp: eligible_def)
  from rb_table.rb_of_Some [OF assms(1,2) b0(1)] have row: "b0 \<in> rows (ee_rb (re_env R)) (es_rbs s)" ..
  with assms(5) b0 obtain i where i: "e = Some i" "i \<noteq> []" by (auto simp: given_def)
  have found: "find_edge R optional conflicts nets n zone s = Some i"
    using some(3) by (simp add: find_edge_roomiest i)
  have edge: "rb_edge_id b0 = Some i" using b0(3) i(1) by simp
  note bound = bind_to_edge [OF assms(1,2,4) found i(2) row edge]
  note best = some(1,2) [unfolded i(1)]
  show ?thesis
  proof (intro conjI impI)
    show "\<exists>i b s'. eligible (re_env R) s optional conflicts nets n zone (Some i) \<and>
        (\<forall>e. eligible (re_env R) s optional conflicts nets n zone e \<longrightarrow> room (re_env R) s e \<le> room (re_env R) s (Some i)) \<and>
        bind_router_on_available_edge R target optional conflicts nets n zone s = (Inr False, s') \<and>
        s' = s\<lparr>es_rbs := es_rbs s'\<rparr> \<and> b \<in> rows (ee_rb (re_env R)) (es_rbs s) \<and> rb_edge_id b = Some i \<and>
        rows (ee_rb (re_env R)) (es_rbs s') = insert (b\<lparr>rb_router_id := target, rb_lswitch_id := None,
          rb_status_description := None, rb_availability_zone := Some (az_name zone)\<rparr>) (rows (ee_rb (re_env R)) (es_rbs s))"
      using bound best by (intro exI [of _ i]) blast
  qed (use best in blast)
qed

text \<open>Two edges that may be shared, one with two networks and one with one, for the witnesses.\<close>

definition sample_routes :: "(unit, json, router_binding list, edge_vnic_binding list, tz_network_binding list,
    network_mapping list) route_env" where
  "sample_routes = \<lparr>re_mgr = sample_mgr [], re_tz = list_orm tz_key, re_tz_rows = [], re_sw = list_orm nm_key,
     re_sw_rows = [], re_order = id, re_get_routers = (\<lambda>ids rs. filter (\<lambda>i. map_of rs i \<noteq> None) ids),
     re_ip = map_of [(''10.0.0.1'', 167772161), (''10.0.0.2'', 167772162), (''10.1.0.1'', 167837697), (''10.9.0.1'', 168361985)],
     re_net = map_of [(''10.0.0.0/24'', \<lparr>in_mask = 4294967040, in_network = 167772160, in_last = 167772415, in_prefixlen = 24\<rparr>),
       (''10.1.0.0/24'', \<lparr>in_mask = 4294967040, in_network = 167837696, in_last = 167837951, in_prefixlen = 24\<rparr>)],
     re_shared_size = ''compact'', re_exclusive_size = ''compact'', re_tlr_address = ''169.254.2.1'',
     re_before_6_2_4 = (\<lambda>_. False)\<rparr>"


definition sample_vnic :: "string \<Rightarrow> int \<Rightarrow> string \<Rightarrow> edge_vnic_binding" where
  "sample_vnic edge_id i network_id = (free_vnic edge_id i i)\<lparr>vb_network_id := Some network_id\<rparr>"

definition shared_state :: "(unit, router_binding list, edge_vnic_binding list) edge_state" where
  "shared_state = (sample_state [sample_row ''r1'' ST_ACTIVE (Some ''edge-1''), sample_row ''r2'' ST_ACTIVE (Some ''edge-2''),
       sample_row ''r3'' ST_ACTIVE (Some ''edge-3'')])
     \<lparr>es_vnics := [sample_vnic ''edge-1'' 1 ''n1'', sample_vnic ''edge-1'' 2 ''n2'', sample_vnic ''edge-2'' 1 ''n3'',
        free_vnic ''edge-2'' 2 2], es_routers := [(''r1'', ST_ACTIVE), (''r2'', ST_ACTIVE), (''r3'', ST_ACTIVE)]\<rparr>"

lemma shared_state_ok:
  "rb_table (re_env sample_routes) (keys_distinct rb_key)" "keys_distinct rb_key (es_rbs shared_state)"
  "rows (ee_rb (re_env sample_routes)) (es_rbs shared_state) = {sample_row ''r1'' ST_ACTIVE (Some ''edge-1''),
     sample_row ''r2'' ST_ACTIVE (Some ''edge-2''), sample_row ''r3'' ST_ACTIVE (Some ''edge-3'')}"
  using rb_table_sample
  by (simp_all add: sample_routes_def sample_mgr_def shared_state_def sample_state_def keys_distinct_def rb_key_def
      sample_row_def sample_env_def)

theorem shared_router_gets_roomiest_edge_witness:
  "\<exists>s'. bind_router_on_available_edge sample_routes ''new'' [''r1'', ''r2'', ''r3''] [''r3''] [''n9''] 2 (sample_zone [])
       shared_state = (Inr False, s') \<and> es_jobs s' = es_jobs shared_state"
proof -
  let ?el = "eligible (re_env sample_routes) shared_state [''r1'', ''r2'', ''r3''] [''r3''] [''n9''] 2 (sample_zone [])"
  have "Some ''edge-2'' \<in> set (candidates (re_env sample_routes) shared_state [''r1'', ''r2'', ''r3''] [''r3''] (sample_zone [])) \<and>
      suits (re_env sample_routes) shared_state [''n9''] 2 (Some ''edge-2'')"
    by code_simp
  then have el: "\<exists>e. ?el e" unfolding eligible_iff by blast
  have "set (re_order sample_routes xs) = set xs" for xs by (simp add: sample_routes_def)
  note bound = shared_router_gets_roomiest_edge [OF shared_state_ok(1,2) this,
      of "''new''" "[''r1'', ''r2'', ''r3'']" "[''r3'']" "[''n9'']" 2 "sample_zone []"]
  have "''new'' \<notin> rb_router_id ` rows (ee_rb (re_env sample_routes)) (es_rbs shared_state)"
    "\<forall>b \<in> rows (ee_rb (re_env sample_routes)) (es_rbs shared_state). rb_status b = ST_ACTIVE \<longrightarrow> given (rb_edge_id b)"
    unfolding shared_state_ok(3) by (simp_all add: sample_row_def given_def)
  from conjunct1 [OF bound [OF this], THEN mp, OF el] obtain s' where
    s': "bind_router_on_available_edge sample_routes ''new'' [''r1'', ''r2'', ''r3''] [''r3''] [''n9''] 2 (sample_zone [])
       shared_state = (Inr False, s')" "s' = shared_state\<lparr>es_rbs := es_rbs s'\<rparr>" by (elim exE conjE)
  from s'(1) only_rbs(4) [OF s'(2)] show ?thesis by (intro exI [of _ s'] conjI)
qed


subsection \<open>Unbinding a router\<close>

lemma single_list:
  assumes "distinct xs"
  shows "xs = [x] \<longleftrightarrow> set xs = {x}"
proof
  assume "set xs = {x}"
  then have "length xs = 1" using distinct_card [OF assms] by simp
  with \<open>set xs = {x}\<close> show "xs = [x]" by (cases xs) auto
qed simp

lemma image_only:
  assumes "\<And>x. x \<in> C \<Longrightarrow> f x = f b \<Longrightarrow> x = b"
  shows "f ` C = {f b} \<longleftrightarrow> C = {b}"
proof
  assume img: "f ` C = {f b}"
  show "C = {b}"
  proof (rule set_eqI)
    fix x
    have "x = b" if "x \<in> C" using that assms [of x] imageI [OF that, of f] img by simp
    moreover have "C \<noteq> {}" using img by auto
    ultimately show "x \<in> C \<longleftrightarrow> x \<in> {b}" using assms img by (metis (no_types, lifting) imageE singletonD singletonI)
  qed
qed simp

context rb_table
begin

lemma delete_row:
  assumes ok: "ok (es_rbs s)" and b: "b \<in> rbs s"
  shows "ok (es_rbs (delete_rb E (rb_router_id b) s))" "rbs (delete_rb E (rb_router_id b) s) = rbs s - {b}"
proof -
  have "q_first (ee_rb E) (es_rbs s) (\<lambda>r. rb_router_id r = rb_router_id b) = Some b"
    using rb_of_row [OF ok b] by (simp add: rb_of_def get_nsxv_router_binding_def)
  then have del: "es_rbs (delete_rb E (rb_router_id b) s) = q_del (ee_rb E) (es_rbs s) (\<lambda>r. rb_router_id r = rb_router_id b)"
    by (simp add: delete_rb_def delete_nsxv_router_binding_def rb_key_def)
  show "ok (es_rbs (delete_rb E (rb_router_id b) s))"
    unfolding del by (rule orm_table.del_ok [OF table ok])
  have "r = b" if "r \<in> rbs s" "rb_router_id r = rb_router_id b" for r
    by (rule key_eq [OF ok that(1) b that(2)])
  then show "rbs (delete_rb E (rb_router_id b) s) = rbs s - {b}"
    unfolding del orm_table.del_rows [OF table ok] by blast
qed

end

text \<open>The contract of the plugin's \<open>get_routers\<close>: the routers of Neutron among those asked for, each once.\<close>

definition routers_known :: "('w, 'd, 't, 'v, 'b, 'm) route_env \<Rightarrow> bool" where
  "routers_known R \<longleftrightarrow> (\<forall>ids rs. distinct ids \<longrightarrow>
     distinct (re_get_routers R ids rs) \<and> set (re_get_routers R ids rs) = set ids \<inter> fst ` set rs)"

lemma routers_on_edge:
  assumes T: "rb_table (re_env R) ok" and ok: "ok (es_rbs s)" and known: "routers_known R" and i: "i \<noteq> []"
  shows "distinct (get_routers_on_edge R (Some i) s) \<and> set (get_routers_on_edge R (Some i) s) =
    rb_router_id ` {b \<in> rows (ee_rb (re_env R)) (es_rbs s). rb_edge_id b = Some i} \<inter> fst ` set (es_routers s)"
proof -
  let ?bs = "get_nsxv_router_bindings_by_edge (ee_rb (re_env R)) (es_rbs s) i"
  note bs = rb_table.by_edge [OF T ok, of i]
  have "distinct ?bs" unfolding get_nsxv_router_bindings_by_edge_def by (rule rb_table.all_distinct [OF T ok])
  moreover have "inj_on rb_router_id (set ?bs)"
    unfolding bs by (rule inj_onI) (use rb_table.key_eq [OF T ok] in blast)
  ultimately have d: "distinct (map rb_router_id ?bs)" by (simp add: distinct_map)
  have ids: "set (map rb_router_id ?bs) = rb_router_id ` {b \<in> rows (ee_rb (re_env R)) (es_rbs s). rb_edge_id b = Some i}"
    unfolding set_map bs ..
  have eq: "get_routers_on_edge R (Some i) s =
      (if map rb_router_id ?bs \<noteq> [] then re_get_routers R (map rb_router_id ?bs) (es_routers s) else [])"
    using i by (simp add: get_routers_on_edge_def given_def)
  show ?thesis
  proof (cases "map rb_router_id ?bs = []")
    case True
    then show ?thesis unfolding eq ids [symmetric] by simp
  next
    case False
    have k: "distinct (re_get_routers R (map rb_router_id ?bs) (es_routers s)) \<and>
        set (re_get_routers R (map rb_router_id ?bs) (es_routers s)) = set (map rb_router_id ?bs) \<inter> fst ` set (es_routers s)"
      using known [unfolded routers_known_def, rule_format, OF d] .
    show ?thesis unfolding eq ids [symmetric] if_P [OF False] by (rule k)
  qed
qed

text \<open>C23: An edge is given back by a router that is unbound from it exactly when that router is the only
  router of Neutron bound to it. Otherwise nothing but the router's own row goes: the rows of the other
  routers of the edge, its vnics, the manager and the jobs are as before. This is so too when the router is no
  longer in Neutron: the row then goes although no other router may be left on the edge.\<close>

theorem unbinding_keeps_shared_edge:
  assumes "rb_table (re_env R) ok" "ok (es_rbs s)" "routers_known R"
    "b \<in> rows (ee_rb (re_env R)) (es_rbs s)" "rb_edge_id b = Some i" "i \<noteq> []"
  shows "if {c \<in> rows (ee_rb (re_env R)) (es_rbs s). rb_edge_id c = Some i \<and> rb_router_id c \<in> fst ` set (es_routers s)} = {b}
    then unbind_router_on_edge R (rb_router_id b) s =
      bind_st (free_edge_appliance (re_mgr R) (rb_router_id b)) (\<lambda>_. return_st True) s
    else \<exists>s'. unbind_router_on_edge R (rb_router_id b) s = (Inr False, s') \<and> s' = s\<lparr>es_rbs := es_rbs s'\<rparr> \<and>
      rows (ee_rb (re_env R)) (es_rbs s') = rows (ee_rb (re_env R)) (es_rbs s) - {b}"
proof -
  let ?rows = "rows (ee_rb (re_env R)) (es_rbs s)" and ?L = "get_routers_on_edge R (Some i) s"
  let ?C = "{c \<in> ?rows. rb_edge_id c = Some i \<and> rb_router_id c \<in> fst ` set (es_routers s)}"
  note L = routers_on_edge [OF assms(1,2,3,6)]
  have same: "get_routers_on_same_edge R (rb_router_id b) s = ?L"
    using rb_table.rb_of_row [OF assms(1,2,4)] assms(5) by (simp add: get_routers_on_same_edge_def)
  have inj: "c = b" if "c \<in> ?rows" "rb_router_id c = rb_router_id b" for c
    by (rule rb_table.key_eq [OF assms(1,2) that(1) assms(4) that(2)])
  have "rb_router_id ` ?C = rb_router_id ` {b \<in> ?rows. rb_edge_id b = Some i} \<inter> fst ` set (es_routers s)" by blast
  then have set_L: "set ?L = rb_router_id ` ?C" using L by simp
  have only: "?L = [rb_router_id b] \<longleftrightarrow> ?C = {b}"
  proof -
    have "rb_router_id ` ?C = {rb_router_id b} \<longleftrightarrow> ?C = {b}"
      by (rule image_only) (rule inj, simp)
    then show ?thesis unfolding single_list [OF conjunct1 [OF L]] set_L .
  qed
  show ?thesis
  proof (cases "?C = {b}")
    case True
    then show ?thesis using only same by (simp add: unbind_router_on_edge_def)
  next
    case False
    then have "unbind_router_on_edge R (rb_router_id b) s = (Inr False, delete_rb (re_env R) (rb_router_id b) s)"
      using only same by (simp add: unbind_router_on_edge_def)
    moreover have "delete_rb (re_env R) (rb_router_id b) s = s\<lparr>es_rbs := es_rbs (delete_rb (re_env R) (rb_router_id b) s)\<rparr>"
      by (simp add: delete_rb_def)
    ultimately show ?thesis
      using False rb_table.delete_row [OF assms(1,2,4)] by (subst if_not_P) blast+
  qed
qed

lemma sample_routers_known: "routers_known sample_routes"
  by (auto simp: routers_known_def sample_routes_def map_of_eq_None_iff)

definition two_on_edge :: "(unit, router_binding list, edge_vnic_binding list) edge_state" where
  "two_on_edge = shared_state\<lparr>es_rbs := [sample_row ''r1'' ST_ACTIVE (Some ''edge-1''), sample_row ''r2'' ST_ACTIVE (Some ''edge-1'')]\<rparr>"

theorem unbinding_keeps_shared_edge_witness:
  "\<exists>s'. unbind_router_on_edge sample_routes ''r1'' two_on_edge = (Inr False, s') \<and>
     rows (ee_rb (re_env sample_routes)) (es_rbs s') = {sample_row ''r2'' ST_ACTIVE (Some ''edge-1'')}"
proof -
  let ?b1 = "sample_row ''r1'' ST_ACTIVE (Some ''edge-1'')" and ?b2 = "sample_row ''r2'' ST_ACTIVE (Some ''edge-1'')"
  have k: "keys_distinct rb_key (es_rbs two_on_edge)"
    by (simp add: two_on_edge_def keys_distinct_def rb_key_def sample_row_def)
  have rows: "rows (ee_rb (re_env sample_routes)) (es_rbs two_on_edge) = {?b1, ?b2}"
    by (simp add: two_on_edge_def sample_routes_def sample_mgr_def sample_env_def)
  have ids: "rb_router_id ?b1 = ''r1''" "rb_router_id ?b2 = ''r2''" "rb_edge_id ?b1 = Some ''edge-1''"
    "rb_edge_id ?b2 = Some ''edge-1''"
    by (simp_all add: sample_row_def)
  have ne: "?b2 \<noteq> ?b1" using ids(1,2) by force
  have "?b2 \<in> {c \<in> {?b1, ?b2}. rb_edge_id c = Some ''edge-1'' \<and> rb_router_id c \<in> fst ` set (es_routers two_on_edge)}"
    using ids by (simp add: two_on_edge_def shared_state_def)
  then have two: "{c \<in> {?b1, ?b2}. rb_edge_id c = Some ''edge-1'' \<and> rb_router_id c \<in> fst ` set (es_routers two_on_edge)} \<noteq> {?b1}"
    using ne by (metis (no_types, lifting) singletonD)
  have mem: "?b1 \<in> rows (ee_rb (re_env sample_routes)) (es_rbs two_on_edge)" unfolding rows by simp
  from unbinding_keeps_shared_edge [OF shared_state_ok(1) k sample_routers_known mem ids(3)]
  obtain s' where "unbind_router_on_edge sample_routes (rb_router_id ?b1) two_on_edge = (Inr False, s')"
      "rows (ee_rb (re_env sample_routes)) (es_rbs s') = {?b1, ?b2} - {?b1}"
    unfolding rows if_not_P [OF two] by auto
  then show ?thesis unfolding ids(1) using ne by (intro exI [of _ s']) auto
qed


subsection \<open>Routes\<close>













text \<open>A manager that answers every request with the value it holds, and an edge with two networks.\<close>

definition echo_vcns :: "(json, json) vcns" where
  "echo_vcns = \<lparr>exchange = (\<lambda>w _ _ _ _ _. (Response 200 [] w, w)), v_loads = Some,
     json_dumps = id, xml_dumps = id, xml_errorcode = (\<lambda>_. None),
     to_int = (\<lambda>j. case j of JInt i \<Rightarrow> Some i | _ \<Rightarrow> None), is_empty = (\<lambda>_. False), max_retries = 3\<rparr>"

definition echo_env :: "(json, json, router_binding list, edge_vnic_binding list) edge_env" where
  "echo_env = \<lparr>ee_vcns = echo_vcns, ee_rb = list_orm rb_key, ee_vb = list_orm vb_key,
     ee_like = (\<lambda>r pattern. startswith r (butlast pattern)), ee_tunnels = 20, ee_uuid = nat_str,
     ee_swap_datastores = (\<lambda>_. False), ee_container_id = None, ee_edge_user = None, ee_edge_password = None,
     ee_plr_address = ''169.254.2.3'', ee_netmask = ''255.255.255.240'', ee_metadata_handler = (\<lambda>_. False),
     ee_configure_metadata = (\<lambda>_ w. (Inr (), w)), ee_use_dvs = False, ee_host_groups = (\<lambda>_ w. (Inr (), w))\<rparr>"

definition echo_routes :: "(json, json, router_binding list, edge_vnic_binding list, tz_network_binding list,
    network_mapping list) route_env" where
  "echo_routes = \<lparr>re_mgr = \<lparr>pm_env = echo_env, pm_uuid_like = (\<lambda>_. False), pm_zones = [sample_zone []],
       pm_default_zone = sample_zone [], pm_pools = [], pm_readonly = False, pm_sizes = [], pm_choice = (\<lambda>bs _. hd bs),
       pm_create_overdue = (\<lambda>_ _. False), pm_update_overdue = (\<lambda>_ _. False), pm_cleanup_metadata = (\<lambda>_ _ w. (Inr (), w))\<rparr>,
     re_tz = list_orm tz_key, re_tz_rows = [], re_sw = list_orm nm_key,
     re_sw_rows = [\<lparr>nm_neutron_id = ''n5'', nm_nsx_id = ''virtualwire-5'', nm_dvs_id = None\<rparr>],
     re_order = id, re_get_routers = (\<lambda>ids rs. filter (\<lambda>i. map_of rs i \<noteq> None) ids),
     re_ip = re_ip sample_routes, re_net = re_net sample_routes, re_shared_size = ''compact'',
     re_exclusive_size = ''compact'', re_tlr_address = ''169.254.2.1'', re_before_6_2_4 = (\<lambda>_. False)\<rparr>"

definition echo_state :: "(json, router_binding list, edge_vnic_binding list) edge_state" where
  "echo_state = \<lparr>es_world = JNull, es_rbs = [sample_row ''r1'' ST_ACTIVE (Some ''edge-1'')],
     es_vnics = [sample_vnic ''edge-1'' 1 ''n1'', sample_vnic ''edge-1'' 2 ''n2''], es_routers = [], es_jobs = [], es_next = 0\<rparr>"

abbreviation "via_n2 \<equiv> \<lparr>pr_network = Some ''n2'', pr_external = False, pr_destination = ''10.1.0.0/24'', pr_nexthop = ''10.0.0.1''\<rparr>"


subsection \<open>The external interface\<close>

definition in_some_net :: "('w, 'd, 't, 'v, 'b, 'm) route_env \<Rightarrow> string list \<Rightarrow> string \<Rightarrow> bool" where
  "in_some_net R cidrs a \<longleftrightarrow> (\<exists>c \<in> set cidrs. \<exists>net ip. re_net R c = Some net \<and> re_ip R a = Some ip \<and> check_ipnet_ip net ip)"

lemma take_addresses_Inr:
  assumes "take_addresses R net ips al grp = Inr (al', grp')" "re_net R c = Some net"
  shows "\<exists>new. al' = al @ new \<and> grp' = grp @ new \<and> distinct new \<and> set new \<inter> set al = {} \<and>
    set new = {a \<in> set ips. a \<notin> set al \<and> in_some_net R [c] a}"
  using assms(1)
proof (induction ips arbitrary: al grp)
  case Nil
  then show ?case by simp
next
  case (Cons a ips)
  show ?case
  proof (cases "a \<notin> set al \<and> in_some_net R [c] a")
    case True
    then obtain ip where ip: "re_ip R a = Some ip" "check_ipnet_ip net ip" using assms(2) by (auto simp: in_some_net_def)
    with True Cons.prems have "take_addresses R net ips (al @ [a]) (grp @ [a]) = Inr (al', grp')" by simp
    from Cons.IH [OF this] obtain new where new: "al' = (al @ [a]) @ new" "grp' = (grp @ [a]) @ new" "distinct new"
        "set new \<inter> set (al @ [a]) = {}" "set new = {x \<in> set ips. x \<notin> set (al @ [a]) \<and> in_some_net R [c] x}"
      by (elim exE conjE)
    have "set (a # new) = {x \<in> set (a # ips). x \<notin> set al \<and> in_some_net R [c] x}"
      using new(5) True by auto
    moreover have "set (a # new) \<inter> set al = {}" using new(4) True by auto
    moreover have "distinct (a # new)" using new(3,4) by auto
    ultimately show ?thesis using new(1,2) by (intro exI [of _ "a # new"] conjI) (simp_all only: append_assoc append.simps)
  next
    case False
    then have "take_addresses R net ips al grp = Inr (al', grp')"
      using Cons.prems assms(2) by (auto simp: in_some_net_def split: option.splits if_splits)
    moreover have "{x \<in> set (a # ips). x \<notin> set al \<and> in_some_net R [c] x} = {x \<in> set ips. x \<notin> set al \<and> in_some_net R [c] x}"
      using False by auto
    ultimately show ?thesis using Cons.IH by simp
  qed
qed

lemma external_groups_Inr:
  assumes "external_groups R ips cidrs al = Inr groups"
  shows "distinct (concat (map snd groups)) \<and>
    set (concat (map snd groups)) = {a \<in> set ips. a \<notin> set al \<and> in_some_net R cidrs a} \<and>
    (\<forall>g \<in> set groups. snd g \<noteq> [])"
  using assms
proof (induction cidrs arbitrary: al groups)
  case Nil
  then show ?case by (simp add: in_some_net_def)
next
  case (Cons c cidrs)
  from Cons.prems obtain net al' grp gs where step: "re_net R c = Some net" "take_addresses R net ips al [] = Inr (al', grp)"
      "external_groups R ips cidrs al' = Inr gs" "groups = (if grp = [] then gs else (in_prefixlen net, grp) # gs)"
    by (auto simp: bind_res_Inr_iff split: option.splits if_splits)
  from take_addresses_Inr [OF step(2,1)] obtain new where new: "al' = al @ new" "grp = new" "distinct new"
      "set new \<inter> set al = {}" "set new = {a \<in> set ips. a \<notin> set al \<and> in_some_net R [c] a}" by auto
  note IH = Cons.IH [OF step(3)]
  have cat: "concat (map snd groups) = grp @ concat (map snd gs)" by (simp add: step(4))
  have net: "in_some_net R (c # cidrs) a \<longleftrightarrow> in_some_net R [c] a \<or> in_some_net R cidrs a" for a
    by (auto simp: in_some_net_def)
  have rest: "set (concat (map snd gs)) = {a \<in> set ips. a \<notin> set al \<and> a \<notin> set new \<and> in_some_net R cidrs a}"
    using IH new(1) by simp
  have "distinct (grp @ concat (map snd gs))" using new(2,3) IH rest by auto
  moreover have "set (grp @ concat (map snd gs)) = {a \<in> set ips. a \<notin> set al \<and> in_some_net R (c # cidrs) a}"
    unfolding set_append rest new(2) net using new(5) by blast
  moreover have "\<forall>g \<in> set groups. snd g \<noteq> []" using IH by (simp add: step(4))
  ultimately show ?case unfolding cat by blast
qed

text \<open>The address groups of an external interface hold each of the router's addresses that is usable
  in one of the networks exactly once, however often it is given and in however many networks it is, and
  nothing else; every group has a primary address.\<close>

theorem external_addresses_grouped_once:
  assumes "external_groups R (ipaddr # secondary) cidrs [] = Inr groups"
  shows "distinct (concat (map snd groups)) \<and>
    set (concat (map snd groups)) = {a \<in> set (ipaddr # secondary). in_some_net R cidrs a} \<and>
    (\<forall>g \<in> set groups. \<exists>l. external_group_json g =
       JObj ([(''primaryAddress'', JStr (hd (snd g))), (''subnetPrefixLength'', JStr (nat_str (fst g)))] @ l)) \<and>
    (\<forall>g \<in> set groups. snd g \<noteq> [])"
  using external_groups_Inr [OF assms] by (auto simp: external_group_json_def split_beta)

theorem external_addresses_grouped_once_witness:
  "let groups = [(24, [''10.0.0.1'', ''10.0.0.2'']), (24, [''10.1.0.1''])] in
   external_groups sample_routes [''10.0.0.1'', ''10.0.0.2'', ''10.0.0.1'', ''10.1.0.1'', ''10.9.0.1'']
     [''10.0.0.0/24'', ''10.1.0.0/24''] [] = Inr groups \<and> distinct (concat (map snd groups)) \<and>
   \<not> in_some_net sample_routes [''10.0.0.0/24'', ''10.1.0.0/24''] ''10.9.0.1''"
proof -
  have run: "external_groups sample_routes [''10.0.0.1'', ''10.0.0.2'', ''10.0.0.1'', ''10.1.0.1'', ''10.9.0.1'']
     [''10.0.0.0/24'', ''10.1.0.0/24''] [] = Inr [(24, [''10.0.0.1'', ''10.0.0.2'']), (24, [''10.1.0.1''])]"
    by code_simp
  from external_addresses_grouped_once [OF run]
  have "distinct (concat (map snd [(24 :: nat, [''10.0.0.1'', ''10.0.0.2'']), (24, [''10.1.0.1''])]))"
    "set (concat (map snd [(24 :: nat, [''10.0.0.1'', ''10.0.0.2'']), (24, [''10.1.0.1''])])) =
      {a \<in> set [''10.0.0.1'', ''10.0.0.2'', ''10.0.0.1'', ''10.1.0.1'', ''10.9.0.1''].
        in_some_net sample_routes [''10.0.0.0/24'', ''10.1.0.0/24''] a}" by blast+
  moreover have "''10.9.0.1'' \<notin> set (concat (map snd [(24 :: nat, [''10.0.0.1'', ''10.0.0.2'']), (24, [''10.1.0.1''])]))"
    by simp
  ultimately show ?thesis unfolding Let_def using run by (metis (no_types, lifting) list.set_intros mem_Collect_eq)
qed


subsection \<open>Internal interfaces\<close>

lemma retrieve_same: "snd (retrieve_nsx_switch_id R n z s) = s"
  by (auto simp: retrieve_nsx_switch_id_def Let_def return_st_def raise_st_def split: list.splits option.splits sum.splits)

lemma with_switch_Inr:
  assumes "with_switch R r n f s = (Inr x, s')" "rb_of (re_env R) r s = Some b" "rb_edge_id b = e"
  shows "\<exists>sw. f e sw s = (Inr x, s')"
proof -
  obtain y t where y: "retrieve_nsx_switch_id R n (rb_availability_zone b) s = (y, t)" by fastforce
  then have "t = s" using retrieve_same [of R n "rb_availability_zone b" s] by simp
  with assms y show ?thesis by (cases y) (auto simp: with_switch_def bind_st_def)
qed

lemma update_interface_same_db: "same_db s (snd (driver_update_interface E e i n k a m sec c g s))"
  using call_same_db [of s "update_interface (ee_vcns E) e
    (assemble_edge_vnic (fst (if i = EXTERNAL_VNIC_INDEX then (EXTERNAL_VNIC_NAME, ''uplink'')
      else (INTERNAL_VNIC_NAME @ int_str i, if k < 0 then ''internal'' else ''trunk''))) i n k a m sec
      (snd (if i = EXTERNAL_VNIC_INDEX then (EXTERNAL_VNIC_NAME, ''uplink'')
      else (INTERNAL_VNIC_NAME @ int_str i, if k < 0 then ''internal'' else ''trunk''))) c g)"]
  by (auto simp: driver_update_interface_def Let_def split_beta bind_st_def return_st_def split: prod.splits sum.splits)

lemma delete_interface_same_db: "same_db s (snd (driver_delete_interface E e i s))"
  using call_same_db [of s "delete_interface (ee_vcns E) e i"]
  by (auto simp: driver_delete_interface_def catch_st_def bind_st_def return_st_def raise_st_def
      split: prod.splits sum.splits edge_exc.splits vcns_exc.splits vcns_kind.splits)

lemma update_internal_Inr:
  assumes "update_internal_interface R r n groups c s = (Inr (), s')"
    "rb_of (re_env R) r s = Some b" "rb_edge_id b = Some i"
  shows "(case get_edge_vnic_binding (ee_vb (re_env R)) (es_vnics s) i n of
       Some v \<Rightarrow> es_vnics s' = es_vnics s
     | None \<Rightarrow> \<exists>v. allocate_edge_vnic (ee_vb (re_env R)) (es_vnics s) i n = Inr (v, es_vnics s')) \<and> es_rbs s' = es_rbs s"
proof -
  let ?E = "re_env R"
  from with_switch_Inr [OF assms(1) [unfolded update_internal_interface_def] assms(2,3)] obtain sw where
    run: "bind_st (case vnic_of ?E (Some i) n s of None \<Rightarrow> alloc_vnic ?E (Some i) n | Some v \<Rightarrow> return_st v) (\<lambda>v.
         driver_update_interface ?E (edge_ref (Some i)) (vb_vnic_index v) sw (-1) None None [] c groups) s = (Inr (), s')"
    by blast
  have sent: "es_vnics s2 = es_vnics s1 \<and> es_rbs s2 = es_rbs s1"
    if "driver_update_interface ?E (edge_ref (Some i)) (vb_vnic_index v) sw (-1) None None [] c groups s1 = (Inr (), s2)" for v s1 s2
    using same_dbD [OF update_interface_same_db [of s1 ?E "edge_ref (Some i)" "vb_vnic_index v" sw "-1" None None "[]" c groups]] that
    by simp
  show ?thesis
  proof (cases "get_edge_vnic_binding (ee_vb ?E) (es_vnics s) i n")
    case (Some v)
    with run have "driver_update_interface ?E (edge_ref (Some i)) (vb_vnic_index v) sw (-1) None None [] c groups s = (Inr (), s')"
      by (simp add: vnic_of_def bind_st_def return_st_def)
    from sent [OF this] Some show ?thesis by simp
  next
    case None
    with run obtain v t where a: "allocate_edge_vnic (ee_vb ?E) (es_vnics s) i n = Inr (v, t)"
        "driver_update_interface ?E (edge_ref (Some i)) (vb_vnic_index v) sw (-1) None None [] c groups (s\<lparr>es_vnics := t\<rparr>) = (Inr (), s')"
      by (auto simp: vnic_of_def bind_st_def alloc_vnic_def split: sum.splits)
    from sent [OF a(2)] a(1) None show ?thesis by auto
  qed
qed

lemma delete_interface_Inr:
  assumes "delete_interface_of R r n False s = (Inr (), s')"
    "rb_of (re_env R) r s = Some b" "rb_edge_id b = Some i"
    "get_edge_vnic_binding (ee_vb (re_env R)) (es_vnics s) i n = Some v"
    "free_edge_vnic_by_network (ee_vb (re_env R)) (es_vnics s) i n = Inr (v', t)"
  shows "es_vnics s' = t"
proof -
  let ?E = "re_env R"
  have run0: "with_switch R r n (\<lambda>edge_id switch_id s. case vnic_of ?E edge_id n s of None \<Rightarrow> (Inr (), s)
      | Some v \<Rightarrow> (if False then bind_st (driver_delete_vdr_internal_interface ?E (edge_ref edge_id) (nat (vb_vnic_index v)))
             (\<lambda>_. delete_vnic_by_network ?E edge_id n)
         else bind_st (driver_delete_interface ?E (edge_ref edge_id) (nat (vb_vnic_index v)))
             (\<lambda>_. free_vnic_by_network ?E edge_id n)) s) s = (Inr (), s')"
    using assms(1,2) unfolding delete_interface_of_def Let_def by simp
  from with_switch_Inr [OF run0 assms(2,3)] assms(4) have
    run: "bind_st (driver_delete_interface ?E (edge_ref (Some i)) (nat (vb_vnic_index v))) (\<lambda>_. free_vnic_by_network ?E (Some i) n) s
      = (Inr (), s')"
    by (simp add: vnic_of_def)
  obtain x s1 where x: "driver_delete_interface ?E (edge_ref (Some i)) (nat (vb_vnic_index v)) s = (x, s1)" by fastforce
  then have "es_vnics s1 = es_vnics s"
    using same_dbD [OF delete_interface_same_db [of s ?E "edge_ref (Some i)" "nat (vb_vnic_index v)"]] by simp
  with run x show ?thesis
    by (cases x) (auto simp: bind_st_def free_vnic_by_network_def assms(5))
qed

lemma allocated_row:
  assumes T: "orm_table D vb_key ok" and ok: "ok t" and lay: "vnic_layout T i (rows D t)" "1 \<le> T"
    and a: "allocate_edge_vnic D t i n = Inr (b, t1)"
  shows "\<exists>v \<in> rows D t. vb_edge_id v = i \<and> vb_network_id v = None \<and>
    rows D t1 = insert (v\<lparr>vb_network_id := Some n\<rparr>) (rows D t - {v})"
proof -
  note V = vnic_tableI [OF T]
  show ?thesis
  proof (cases rule: vnic_table.allocate_cases [OF V ok lay, of n])
    case 1
    then show ?thesis using a by simp
  next
    case (2 c t')
    then have "c \<in> rows D t" "vb_edge_id c = i" "t' = t1" using a by (auto simp: vnic_table.firsts_def [OF V])
    with 2 show ?thesis by (intro bexI [of _ c]) (simp_all add: taken_by_def)
  qed
qed

text \<open>C16: Connecting a router to a network for the first time takes a vnic of its edge for the network;
  updating the interface again takes no other; and deleting the interface gives the vnic back, so that
  the vnics of all edges are as they were before.\<close>

theorem interface_takes_and_frees_one_vnic:
  assumes "orm_table (ee_vb (re_env R)) vb_key ok" "ok (es_vnics s)"
    "vnic_layout T i (rows (ee_vb (re_env R)) (es_vnics s))" "1 \<le> T"
    "\<forall>v \<in> rows (ee_vb (re_env R)) (es_vnics s). vb_edge_id v = i \<longrightarrow> vb_network_id v \<noteq> Some n"
    "rb_of (re_env R) r s = Some b" "rb_edge_id b = Some i"
    "update_internal_interface R r n groups c s = (Inr (), s1)"
  shows "(\<exists>v \<in> rows (ee_vb (re_env R)) (es_vnics s). vb_edge_id v = i \<and> vb_network_id v = None \<and>
      rows (ee_vb (re_env R)) (es_vnics s1) =
        insert (v\<lparr>vb_network_id := Some n\<rparr>) (rows (ee_vb (re_env R)) (es_vnics s) - {v})) \<and>
    (\<forall>groups' c' s2. update_internal_interface R r n groups' c' s1 = (Inr (), s2) \<longrightarrow> es_vnics s2 = es_vnics s1) \<and>
    (\<forall>s2. delete_interface_of R r n False s1 = (Inr (), s2) \<longrightarrow>
      rows (ee_vb (re_env R)) (es_vnics s2) = rows (ee_vb (re_env R)) (es_vnics s))"
proof -
  let ?D = "ee_vb (re_env R)"
  have "\<forall>v \<in> rows ?D (es_vnics s). \<not> (vb_edge_id v = i \<and> vb_network_id v = Some n)" using assms(5) by blast
  then have "get_edge_vnic_binding ?D (es_vnics s) i n = None"
    unfolding get_edge_vnic_binding_def using orm_table.first_None [OF assms(1,2)] by simp
  with update_internal_Inr [OF assms(8,6,7)] obtain v where
    a: "allocate_edge_vnic ?D (es_vnics s) i n = Inr (v, es_vnics s1)" and rbs: "es_rbs s1 = es_rbs s" by auto
  have b1: "rb_of (re_env R) r s1 = Some b" using assms(6) rbs by (simp add: rb_of_def)
  from allocated_vnic_is_freed [OF assms(1-5) disjI1 [OF a]] obtain v' t where
    got: "get_edge_vnic_binding ?D (es_vnics s1) i n = Some v" and
    freed: "free_edge_vnic_by_network ?D (es_vnics s1) i n = Inr (v', t)" "rows ?D t = rows ?D (es_vnics s)" by blast
  have one: "\<exists>v \<in> rows ?D (es_vnics s). vb_edge_id v = i \<and> vb_network_id v = None \<and>
      rows ?D (es_vnics s1) = insert (v\<lparr>vb_network_id := Some n\<rparr>) (rows ?D (es_vnics s) - {v})"
    by (rule allocated_row [OF assms(1-4) a])
  have "es_vnics s2 = es_vnics s1" if "update_internal_interface R r n groups' c' s1 = (Inr (), s2)" for groups' c' s2
    using update_internal_Inr [OF that b1 assms(7)] got by simp
  moreover have "rows ?D (es_vnics s2) = rows ?D (es_vnics s)" if "delete_interface_of R r n False s1 = (Inr (), s2)" for s2
    using delete_interface_Inr [OF that b1 assms(7) got freed(1)] freed(2) by simp
  ultimately show ?thesis using one by blast
qed

definition fresh_vnics :: "edge_vnic_binding list" where
  "fresh_vnics = (case init_edge_vnic_binding (list_orm vb_key) 2 [] ''edge-1'' of Inr t \<Rightarrow> t | Inl _ \<Rightarrow> [])"

theorem interface_takes_and_frees_one_vnic_witness:
  "\<exists>s1. update_internal_interface echo_routes ''r1'' ''n5'' [] True (echo_state\<lparr>es_vnics := fresh_vnics\<rparr>) = (Inr (), s1) \<and>
     (\<forall>s2. delete_interface_of echo_routes ''r1'' ''n5'' False s1 = (Inr (), s2) \<longrightarrow> set (es_vnics s2) = set fresh_vnics)"
proof -
  let ?s = "echo_state\<lparr>es_vnics := fresh_vnics\<rparr>"
  have env: "re_env echo_routes = echo_env" by (simp add: echo_routes_def)
  have ok0: "keys_distinct vb_key []" by (simp add: keys_distinct_def)
  have none: "\<forall>r \<in> rows (list_orm vb_key) []. vb_edge_id r \<noteq> ''edge-1''" by simp
  obtain t where t: "init_edge_vnic_binding (list_orm vb_key) 2 [] ''edge-1'' = Inr t" "keys_distinct vb_key t"
      "rows (list_orm vb_key) t = rows (list_orm vb_key) [] \<union> set (new_rows 2 ''edge-1'')"
    using vb_vnics.init_rows [OF ok0 none, of 2] by (elim exE conjE)
  have "t = fresh_vnics" unfolding fresh_vnics_def t(1) by simp
  note t0 = t(2,3) [unfolded this rows_list_orm list.set(1)]
  have rows: "rows (ee_vb (re_env echo_routes)) (es_vnics ?s) = rows (list_orm vb_key) fresh_vnics"
    by (simp add: env echo_env_def)
  have table: "orm_table (ee_vb (re_env echo_routes)) vb_key (keys_distinct vb_key)"
    by (simp add: env echo_env_def list_orm_table)
  have ok: "keys_distinct vb_key (es_vnics ?s)" using t0(1) by simp
  have lay: "vnic_layout 2 ''edge-1'' (rows (ee_vb (re_env echo_routes)) (es_vnics ?s))"
    unfolding rows rows_list_orm t0(2) by (rule vb_vnics.layout_init) simp
  have no: "\<forall>v \<in> rows (ee_vb (re_env echo_routes)) (es_vnics ?s). vb_edge_id v = ''edge-1'' \<longrightarrow> vb_network_id v \<noteq> Some ''n5''"
    unfolding rows rows_list_orm t0(2) by (auto dest: new_row_free)
  have b: "rb_of (re_env echo_routes) ''r1'' ?s = Some (sample_row ''r1'' ST_ACTIVE (Some ''edge-1''))"
    by code_simp
  have id: "rb_edge_id (sample_row ''r1'' ST_ACTIVE (Some ''edge-1'')) = Some ''edge-1''" by (simp add: sample_row_def)
  have "fst (update_internal_interface echo_routes ''r1'' ''n5'' [] True ?s) = Inr ()"
    by code_simp
  then obtain s1 where run: "update_internal_interface echo_routes ''r1'' ''n5'' [] True ?s = (Inr (), s1)"
    by (cases "update_internal_interface echo_routes ''r1'' ''n5'' [] True ?s") simp
  have rows': "rows (ee_vb (re_env echo_routes)) t = set t" for t by (simp add: env echo_env_def)
  from interface_takes_and_frees_one_vnic [OF table ok lay _ no b id run] run show ?thesis unfolding rows' by auto
qed


end
