(* ===== verification/EdgeDhcp.thy ===== *)
theory EdgeDhcp
  imports EdgeRouting DhcpConfig
begin

text \<open>
  DHCP on edges (\<open>EdgeManager\<close> in \<open>vshield/edge_utils.py\<close>): which edge serves a network, the sub-interface
  that connects the network to it, and the static bindings of the ports, which the manager keeps and
  a table records. The state is that of the edges with that table and the metadata ports. What the
  code asks of Neutron (subnets, ports, the zone of a network, the networks that overlap with a subnet), of
  netaddr and of the DVS is a parameter, as are \<open>random.choice\<close> and the order of a set.
\<close>

subsection \<open>State and environment\<close>

text \<open>A port of the metadata network: its identifier, its device and its network.\<close>

record ('w, 't, 'v, 's) dhcp_state =
  ds_edge :: "('w, 't, 'v) edge_state"
  ds_static :: 's
  ds_ports :: "(string \<times> string \<times> string) list"

record ('w, 'd, 't, 'v, 'b, 'm, 'n, 's) dhcp_env =
  dh_routes :: "('w, 'd, 't, 'v, 'b, 'm) route_env"
  dh_nets :: "('n, internal_network) orm"
  dh_net_rows :: 'n
  dh_static :: "('s, edge_dhcp_static_binding) orm"
  dh_zone_of :: "string \<Rightarrow> az"
  dh_conflicting :: "subnet \<Rightarrow> string list option"
  dh_subnets :: "string list \<Rightarrow> subnet list"
  dh_ports_on :: "string \<Rightarrow> string option \<Rightarrow> port list"
  dh_port_exists :: "string \<Rightarrow> bool"
  dh_subnet_env :: subnet_env
  dh_teaming :: "string option \<Rightarrow> string \<Rightarrow> 'w \<Rightarrow> ('d edge_exc + unit) \<times> 'w"
  dh_text :: "'d \<Rightarrow> string"
  dh_overlap :: "string list \<Rightarrow> string list \<Rightarrow> py_exc + bool"
  dh_choice :: "string option list \<Rightarrow> 'w \<Rightarrow> string option"
  dh_has_metadata :: bool
  dh_binding_supported :: "json \<Rightarrow> bool"

type_synonym ('w, 'd, 't, 'v, 's, 'a) dhcp_op =
  "('w, 't, 'v, 's) dhcp_state \<Rightarrow> ('d edge_exc + 'a) \<times> ('w, 't, 'v, 's) dhcp_state"

abbreviation dh_mgr :: "('w, 'd, 't, 'v, 'b, 'm, 'n, 's) dhcp_env \<Rightarrow> ('w, 'd, 't, 'v) pool_mgr" where
  "dh_mgr H \<equiv> re_mgr (dh_routes H)"

abbreviation dh_env :: "('w, 'd, 't, 'v, 'b, 'm, 'n, 's) dhcp_env \<Rightarrow> ('w, 'd, 't, 'v) edge_env" where
  "dh_env H \<equiv> pm_env (dh_mgr H)"

definition on_edge :: "('w, 'd, 't, 'v, 'a) edge_op \<Rightarrow> ('w, 'd, 't, 'v, 's, 'a) dhcp_op" where
  "on_edge f s = (case f (ds_edge s) of (r, e) \<Rightarrow> (r, s\<lparr>ds_edge := e\<rparr>))"

definition vcns_call :: "('w, 'd, 'a) vcns_op \<Rightarrow> ('w, 'd, 't, 'v, 's, 'a) dhcp_op" where
  "vcns_call f = on_edge (call f)"

definition lift_res :: "py_exc + 'a \<Rightarrow> ('w, 'd, 't, 'v, 's, 'a) dhcp_op" where
  "lift_res r s = (case r of Inl e \<Rightarrow> Inl (EPy e) | Inr x \<Rightarrow> Inr x, s)"

definition binding_of :: "('w, 'd, 't, 'v, 'b, 'm, 'n, 's) dhcp_env \<Rightarrow> string \<Rightarrow> ('w, 't, 'v, 's) dhcp_state \<Rightarrow> router_binding option" where
  "binding_of H router_id s = rb_of (dh_env H) router_id (ds_edge s)"

text \<open>A new static binding in the table; the code's create never raises (\<open>NsxvDb\<close>).\<close>

definition record_binding :: "('w, 'd, 't, 'v, 'b, 'm, 'n, 's) dhcp_env \<Rightarrow> string \<Rightarrow> string \<Rightarrow> string \<Rightarrow> ('w, 'd, 't, 'v, 's, unit) dhcp_op" where
  "record_binding H edge_id mac binding_id s =
     (case create_edge_dhcp_static_binding (dh_static H) (ds_static s) edge_id mac binding_id of
        Inl e \<Rightarrow> (Inl (EDb e), s)
      | Inr (_, t) \<Rightarrow> (Inr (), s\<lparr>ds_static := t\<rparr>))"

definition alloc_tunnel :: "('w, 'd, 't, 'v, 'b, 'm, 'n, 's) dhcp_env \<Rightarrow> string option \<Rightarrow> string \<Rightarrow> az \<Rightarrow> ('w, 'd, 't, 'v, 's, unit) dhcp_op" where
  "alloc_tunnel H edge_id network_id zone s =
     (case edge_id of
        None \<Rightarrow> (Inl (EDb NsxPluginException), s)
      | Some i \<Rightarrow>
          (case allocate_edge_vnic_with_tunnel_index (ee_vb (dh_env H)) (dh_nets H) (es_vnics (ds_edge s)) (dh_net_rows H) i
              network_id (az_name zone) of
             Inl e \<Rightarrow> (Inl (EDb e), s)
           | Inr (_, t) \<Rightarrow> (Inr (), s\<lparr>ds_edge := (ds_edge s)\<lparr>es_vnics := t\<rparr>\<rparr>)))"

subsection \<open>The choice of a DHCP edge\<close>

text \<open>The active DHCP edges of a zone, a dictionary from the resource of a network to its edge; the first
  result of the code's pair are the edges in conflict, the second those that can be used. An edge needs more
  free tunnels than one vnic has.\<close>

definition all_dhcp_edges :: "('w, 'd, 't, 'v) edge_env \<Rightarrow> az \<Rightarrow> ('w, 't, 'v) edge_state \<Rightarrow> (string, string option) pydict" where
  "all_dhcp_edges E zone s =
     map (\<lambda>b. (rb_router_id b, rb_edge_id b)) (filter (\<lambda>b. startswith (rb_router_id b) DHCP_EDGE_PREFIX \<and> rb_status b = ST_ACTIVE)
       (get_nsxv_router_bindings (ee_rb E) (ee_like E) (es_rbs s) (Some [(''availability_zone'', [az_name zone])]) None))"

definition free_tunnels :: "('w, 'd, 't, 'v) edge_env \<Rightarrow> ('w, 't, 'v) edge_state \<Rightarrow> string option \<Rightarrow> int" where
  "free_tunnels E s edge_id = (int MAX_VNIC_NUM - 1) * ee_tunnels E - int (length (vnics_of E edge_id s))"

definition full_edges :: "('w, 'd, 't, 'v) edge_env \<Rightarrow> az \<Rightarrow> ('w, 't, 'v) edge_state \<Rightarrow> string option list \<Rightarrow> string option list" where
  "full_edges E zone s edge_ids =
     filter (\<lambda>e. free_tunnels E s e \<le> ee_tunnels E - 1 \<or> az_exclusive_dhcp_edge zone) edge_ids"

fun add_conflicts :: "(string, string option) pydict \<Rightarrow> string list \<Rightarrow> string option list \<Rightarrow> string option list" where
  "add_conflicts edges [] conflict = conflict"
| "add_conflicts edges (n # ns) conflict =
     add_conflicts edges ns
       (case map_of edges (dhcp_resource_id n) of
          None \<Rightarrow> conflict
        | Some e \<Rightarrow> if given e \<and> e \<notin> set conflict then conflict @ [e] else conflict)"

fun add_available :: "string option list \<Rightarrow> string option list \<Rightarrow> string option list \<Rightarrow> string option list" where
  "add_available conflict [] available = available"
| "add_available conflict (e # es) available =
     add_available conflict es (if e \<notin> set conflict \<and> e \<notin> set available then available @ [e] else available)"

definition get_available_edges :: "('w, 'd, 't, 'v, 'b, 'm, 'n, 's) dhcp_env \<Rightarrow> string \<Rightarrow> string list option \<Rightarrow> az \<Rightarrow>
    ('w, 't, 'v) edge_state \<Rightarrow> string option list \<times> string option list" where
  "get_available_edges H network_id conflicting_nets zone s =
     (let E = dh_env H; edges = all_dhcp_edges E zone s;
          nets = (case conflicting_nets of None \<Rightarrow> [] | Some ns \<Rightarrow> ns);
          own = (case map_of edges (dhcp_resource_id network_id) of None \<Rightarrow> None | Some e \<Rightarrow> e)
      in if az_exclusive_dhcp_edge zone \<and> given own then ([], [own])
         else
           let conflict = add_conflicts edges nets (full_edges E zone s (re_order (dh_routes H) (remdups (map snd edges))))
           in if edges = [] then ([], []) else (conflict, add_available conflict (map snd edges) []))"

definition get_used_edges :: "('w, 'd, 't, 'v, 'b, 'm, 'n, 's) dhcp_env \<Rightarrow> subnet \<Rightarrow> az \<Rightarrow> ('w, 't, 'v) edge_state \<Rightarrow>
    string option list \<times> string option list" where
  "get_used_edges H sn zone s = get_available_edges H (sn_network_id sn) (dh_conflicting H sn) zone s"

function pick_edge :: "('w, 'd, 't, 'v, 'b, 'm, 'n, 's) dhcp_env \<Rightarrow> string option list \<Rightarrow> ('w, 'd, 't, 'v, string option) edge_op" where
  "pick_edge H es s =
     (if es = [] then (Inr None, s)
      else
        let e = dh_choice H es (es_world s) in
        if e \<notin> set es then (Inl (EPy ValueError), s)
        else (case check_edge_active_at_backend (dh_env H) e s of
            (True, s) \<Rightarrow> (Inr e, s)
          | (False, s) \<Rightarrow> pick_edge H (remove1 e es) s))"
  by pat_completeness auto
termination
  by (relation "measure (\<lambda>(_, es, _). length es)") (auto simp: length_remove1 intro: diff_less)

declare pick_edge.simps [simp del]

subsection \<open>The interface of a network\<close>

definition physical_provider_network :: "('w, 'd, 't, 'v, 'b, 'm, 'n, 's) dhcp_env \<Rightarrow> string \<Rightarrow> string option \<Rightarrow>
    py_exc + string option \<times> tz_type option" where
  "physical_provider_network H network_id az_dvs =
     (case get_network_bindings (re_tz (dh_routes H)) (re_tz_rows (dh_routes H)) network_id of
        [] \<Rightarrow> Inr (az_dvs, None)
      | b # _ \<Rightarrow>
          let ty = tz_binding_type b; phy = tz_phy_uuid b in
          if ty = Vlan \<and> phy \<noteq> Some [] then
            (case phy of None \<Rightarrow> Inl TypeError | Some p \<Rightarrow> Inr (if CHR '','' \<notin> set p then phy else az_dvs, Some ty))
          else if ty \<noteq> Vxlan \<and> phy \<noteq> Some [] then
            (case phy of None \<Rightarrow> Inl AttributeError | Some p \<Rightarrow> Inr (if startswith p ''dvs'' then phy else az_dvs, Some ty))
          else Inr (az_dvs, Some ty))"

definition port_group_request :: "string \<Rightarrow> json" where
  "port_group_request network_name =
     JObj [(''networkSpec'', JObj [(''vlanId'', JInt 0), (''networkName'', JStr network_name),
       (''networkBindingType'', JStr ''Static''), (''networkType'', JStr ''Isolation'')])]"

definition text_of :: "('w, 'd, 't, 'v, 'b, 'm, 'n, 's) dhcp_env \<Rightarrow> headers \<times> 'd content \<Rightarrow> py_exc + string" where
  "text_of H r = (case snd r of Text d \<Rightarrow> Inr (dh_text H d) | Parsed j \<Rightarrow> as_str j)"

definition new_port_group :: "('w, 'd, 't, 'v, 'b, 'm, 'n, 's) dhcp_env \<Rightarrow> string \<Rightarrow> string \<Rightarrow> ('w, 'd, 't, 'v, 's, string) dhcp_op" where
  "new_port_group H network_id network_name =
     bind_st (lift_res (physical_provider_network H network_id (az_dvs_id (dh_zone_of H network_id)))) (\<lambda>(dvs_id, _).
     bind_st (vcns_call (create_port_group (ee_vcns (dh_env H)) (edge_ref dvs_id) (port_group_request network_name))) (\<lambda>r.
     bind_st (lift_res (text_of H r)) (\<lambda>port_group_id.
     bind_st (on_edge (on_world (dh_teaming H dvs_id port_group_id))) (\<lambda>_. return_st port_group_id))))"

definition fresh_uuid :: "('w, 'd, 't, 'v, 'b, 'm, 'n, 's) dhcp_env \<Rightarrow> ('w, 'd, 't, 'v, 's, string) dhcp_op" where
  "fresh_uuid H s =
     (Inr (ee_uuid (dh_env H) (es_next (ds_edge s))), s\<lparr>ds_edge := (ds_edge s)\<lparr>es_next := Suc (es_next (ds_edge s))\<rparr>\<rparr>)"

definition sub_interface :: "string \<Rightarrow> int \<Rightarrow> string option \<Rightarrow> json list \<Rightarrow> json" where
  "sub_interface name tunnel_index switch_id groups =
     JObj [(''name'', JStr name), (''tunnelId'', JInt tunnel_index), (''logicalSwitchId'', opt_json switch_id),
       (''isConnected'', JBool True), (''addressGroups'', address_groups groups)]"

definition create_sub_interface :: "('w, 'd, 't, 'v, 'b, 'm, 'n, 's) dhcp_env \<Rightarrow> string \<Rightarrow> string \<Rightarrow> int \<Rightarrow> json list \<Rightarrow> string option \<Rightarrow>
    ('w, 'd, 't, 'v, 's, string option \<times> json) dhcp_op" where
  "create_sub_interface H network_id network_name tunnel_index groups port_group_id =
     bind_st (on_edge (retrieve_nsx_switch_id (dh_routes H) network_id (Some (az_name (dh_zone_of H network_id))))) (\<lambda>switch_id.
     bind_st (case port_group_id of None \<Rightarrow> new_port_group H network_id network_name | Some p \<Rightarrow> return_st p) (\<lambda>p.
     bind_st (fresh_uuid H) (\<lambda>name. return_st (Some p, sub_interface name tunnel_index switch_id groups))))"

text \<open>The deletion: the first sub-interface with the tunnel goes; a vnic without sub-interfaces is deleted
  with its port group. A failure of the manager marks the edge's bindings; the router binding goes in any case.\<close>

fun without_tunnel :: "int \<Rightarrow> json list \<Rightarrow> py_exc + json list" where
  "without_tunnel tunnel_index [] = Inr []"
| "without_tunnel tunnel_index (i # is) =
     bind_res (jfield ''tunnelId'' i) (\<lambda>t.
       if t = JInt tunnel_index then Inr is else bind_res (without_tunnel tunnel_index is) (\<lambda>is. Inr (i # is)))"

definition sub_interfaces :: "json \<Rightarrow> py_exc + json list" where
  "sub_interfaces vnic_config =
     (case vnic_config of
        JObj al \<Rightarrow> (case map_of al ''subInterfaces'' of
            None \<Rightarrow> Inr [] | Some d \<Rightarrow> bind_res (jfield ''subInterfaces'' d) as_list)
      | _ \<Rightarrow> Inl TypeError)"

definition set_sub_interfaces :: "json list \<Rightarrow> json \<Rightarrow> json" where
  "set_sub_interfaces is vnic_config =
     (case jfield ''subInterfaces'' vnic_config of
        Inl _ \<Rightarrow> vnic_config | Inr d \<Rightarrow> jset ''subInterfaces'' (jset ''subInterfaces'' (JList is) d) vnic_config)"

definition json_opt :: "json \<Rightarrow> string option" where
  "json_opt j = (case j of JStr i \<Rightarrow> Some i | _ \<Rightarrow> None)"

definition vnic_port_group :: "json \<Rightarrow> py_exc + string option" where
  "vnic_port_group vnic_config = bind_res (jfield_opt ''portgroupId'' vnic_config) (\<lambda>p. Inr (json_opt p))"

definition delete_vnic :: "('w, 'd, 't, 'v, 'b, 'm, 'n, 's) dhcp_env \<Rightarrow> string \<Rightarrow> int \<Rightarrow> string \<Rightarrow> string option \<Rightarrow> ('w, 'd, 't, 'v, 's, unit) dhcp_op" where
  "delete_vnic H edge_id vnic_index network_id port_group_id =
     bind_st (vcns_call (delete_interface (ee_vcns (dh_env H)) edge_id (nat vnic_index))) (\<lambda>_.
       if \<not> given port_group_id then return_st ()
       else bind_st (lift_res (physical_provider_network H network_id (az_dvs_id (dh_zone_of H network_id)))) (\<lambda>(dvs_id, _) s.
         (Inr (), s\<lparr>ds_edge := spawn_job (Delete_group_job (edge_ref dvs_id) (the port_group_id)) (ds_edge s)\<rparr>)))"

definition cut_sub_interface :: "('w, 'd, 't, 'v, 'b, 'm, 'n, 's) dhcp_env \<Rightarrow> string \<Rightarrow> int \<Rightarrow> int \<Rightarrow> string \<Rightarrow> ('w, 'd, 't, 'v, 's, unit) dhcp_op" where
  "cut_sub_interface H edge_id vnic_index tunnel_index network_id =
     bind_st (vcns_call (with_body (query_interface (ee_vcns (dh_env H)) edge_id (nat vnic_index)) (\<lambda>vnic_config.
         bind_res (sub_interfaces vnic_config) (\<lambda>is. bind_res (vnic_port_group vnic_config) (\<lambda>p.
         bind_res (without_tunnel tunnel_index is) (\<lambda>is. Inr (vnic_config, p, is))))))) (\<lambda>(vnic_config, p, is).
       if is = [] then delete_vnic H edge_id vnic_index network_id p
       else bind_st (vcns_call (update_interface (ee_vcns (dh_env H)) edge_id (set_sub_interfaces is vnic_config))) (\<lambda>_. return_st ()))"

definition mark_error :: "('w, 'd, 't, 'v, 'b, 'm, 'n, 's) dhcp_env \<Rightarrow> string \<Rightarrow> ('w, 'd, 't, 'v, 's, unit) dhcp_op" where
  "mark_error H edge_id = on_edge (mark_router_bindings_status_error (dh_env H) edge_id)"

definition delete_dhcp_internal_interface :: "('w, 'd, 't, 'v, 'b, 'm, 'n, 's) dhcp_env \<Rightarrow> string \<Rightarrow> int \<Rightarrow> int \<Rightarrow> string \<Rightarrow>
    ('w, 'd, 't, 'v, 's, unit) dhcp_op" where
  "delete_dhcp_internal_interface H edge_id vnic_index tunnel_index network_id =
     bind_st (catch_st (cut_sub_interface H edge_id vnic_index tunnel_index network_id) (\<lambda>e.
         if is_api e then mark_error H edge_id else raise_st e)) (\<lambda>_.
       on_edge (delete_dhcp_router_binding (dh_mgr H) network_id (Some edge_id)))"

text \<open>The update: the sub-interface of the tunnel gets the address groups, or a new one is added. Another
  sub-interface that overlaps with them is an error if its switch serves a known network, and is left
  out otherwise.\<close>

definition group_cidr :: "json \<Rightarrow> py_exc + string" where
  "group_cidr g = bind_res (bind_res (jfield ''primaryAddress'' g) as_str) (\<lambda>a.
     bind_res (bind_res (jfield ''subnetPrefixLength'' g) as_str) (\<lambda>l. Inr (a @ ''/'' @ l)))"

definition group_cidrs :: "json list \<Rightarrow> py_exc + string list" where
  "group_cidrs = map_res group_cidr"

definition sub_groups :: "json \<Rightarrow> py_exc + json list" where
  "sub_groups sb = bind_res (bind_res (jfield ''addressGroups'' sb) (jfield ''addressGroups'')) as_list"

datatype sub_outcome = Sub_mine json | Sub_other json

definition check_sub :: "('w, 'd, 't, 'v, 'b, 'm, 'n, 's) dhcp_env \<Rightarrow> int \<Rightarrow> json list \<Rightarrow> string list \<Rightarrow> json \<Rightarrow>
    'd edge_exc + sub_outcome" where
  "check_sub H tunnel_index groups cidrs sb =
     (case jfield ''tunnelId'' sb of
        Inl e \<Rightarrow> Inl (EPy e)
      | Inr t \<Rightarrow>
          if t = JInt tunnel_index then
            (case jfield ''addressGroups'' sb of
               Inr (JObj al) \<Rightarrow> Inr (Sub_mine (jset ''addressGroups'' (jset ''addressGroups'' (JList groups) (JObj al)) sb))
             | Inr _ \<Rightarrow> Inl (EPy TypeError)
             | Inl e \<Rightarrow> Inl (EPy e))
          else
            (case bind_res (bind_res (sub_groups sb) group_cidrs) (dh_overlap H cidrs) of
               Inl e \<Rightarrow> Inl (EPy e)
             | Inr False \<Rightarrow> Inr (Sub_other sb)
             | Inr True \<Rightarrow>
                 (case bind_res (jfield ''logicalSwitchId'' sb) as_str of
                    Inl e \<Rightarrow> Inl (EPy e)
                  | Inr ls_id \<Rightarrow>
                      if get_net_ids (re_sw (dh_routes H)) (re_sw_rows (dh_routes H)) ls_id \<noteq> []
                      then Inl (EPlugin ''update dhcp interface failed'')
                      else Inr (Sub_other (jset ''is_overlapped'' (JBool True) sb)))))"

fun outcome_json :: "sub_outcome \<Rightarrow> json" where
  "outcome_json (Sub_mine j) = j"
| "outcome_json (Sub_other j) = j"

definition kept_sub :: "json \<Rightarrow> bool" where
  "kept_sub sb = (case jfield_opt ''is_overlapped'' sb of Inr v \<Rightarrow> \<not> truthy_json v | Inl _ \<Rightarrow> True)"

text \<open>The interfaces to keep and whether the tunnel is new.\<close>

fun is_mine :: "sub_outcome \<Rightarrow> bool" where
  "is_mine (Sub_mine _) = True" |
  "is_mine (Sub_other _) = False"

definition check_subs :: "('w, 'd, 't, 'v, 'b, 'm, 'n, 's) dhcp_env \<Rightarrow> int \<Rightarrow> json list \<Rightarrow> json \<Rightarrow> 'd edge_exc + json list \<times> bool" where
  "check_subs H tunnel_index groups sub_iface_dict =
     (if \<not> truthy_json sub_iface_dict then Inr ([], True)
      else (case bind_res (bind_res (jfield_opt ''subInterfaces'' sub_iface_dict) as_list) (\<lambda>is.
            bind_res (group_cidrs groups) (\<lambda>cidrs. Inr (is, cidrs))) of
          Inl e \<Rightarrow> Inl (EPy e)
        | Inr (is, cidrs) \<Rightarrow>
            bind_res (map_res (check_sub H tunnel_index groups cidrs) is) (\<lambda>os.
              Inr (filter kept_sub (map outcome_json os), \<not> list_ex is_mine os))))"

definition dhcp_network_name :: "string \<Rightarrow> int \<Rightarrow> int \<Rightarrow> string \<Rightarrow> string" where
  "dhcp_network_name edge_id vnic_index tunnel_index uuid =
     take 36 (edge_id @ ''-'' @ int_str vnic_index @ ''-'' @ int_str tunnel_index @ uuid)"

definition update_dhcp_internal_interface :: "('w, 'd, 't, 'v, 'b, 'm, 'n, 's) dhcp_env \<Rightarrow> string \<Rightarrow> int \<Rightarrow> int \<Rightarrow> string \<Rightarrow> json list \<Rightarrow>
    ('w, 'd, 't, 'v, 's, unit) dhcp_op" where
  "update_dhcp_internal_interface H edge_id vnic_index tunnel_index network_id groups =
     bind_st (vcns_call (with_body (query_interface (ee_vcns (dh_env H)) edge_id (nat vnic_index)) (\<lambda>vnic_config.
         bind_res (jfield_opt ''subInterfaces'' vnic_config) (\<lambda>d. bind_res (vnic_port_group vnic_config) (\<lambda>p. Inr (d, p)))))) (\<lambda>(d, p).
     bind_st (\<lambda>s. (check_subs H tunnel_index groups d, s)) (\<lambda>(iface_list, new_tunnel).
     bind_st (if \<not> new_tunnel then return_st (p, iface_list)
         else bind_st (fresh_uuid H) (\<lambda>uuid.
              bind_st (create_sub_interface H network_id (dhcp_network_name edge_id vnic_index tunnel_index uuid) tunnel_index groups p)
                (\<lambda>(p, iface). return_st (p, iface_list @ [iface])))) (\<lambda>(p, iface_list).
     on_edge (driver_update_interface (dh_env H) edge_id vnic_index p tunnel_index None None [] True iface_list))))"

subsection \<open>The DHCP service\<close>

definition py_lower :: "string \<Rightarrow> string" where
  "py_lower = map (\<lambda>c. if CHR ''A'' \<le> c \<and> c \<le> CHR ''Z'' then char_of (of_char c + 32 :: nat) else c)"

definition bindings_of_config :: "json \<Rightarrow> py_exc + json list" where
  "bindings_of_config dhcp_config =
     (if truthy_json dhcp_config
      then bind_res (bind_res (jfield ''staticBindings'' dhcp_config) (jfield ''staticBindings'')) as_list else Inr [])"

definition query_dhcp_service_config :: "('w, 'd, 't, 'v, 'b, 'm, 'n, 's) dhcp_env \<Rightarrow> string \<Rightarrow> ('w, 'd, 't, 'v, 's, json list) dhcp_op" where
  "query_dhcp_service_config H edge_id =
     vcns_call (with_body (query_dhcp_configuration (ee_vcns (dh_env H)) edge_id) bindings_of_config)"

text \<open>The mappings from a field of the bindings of an edge to their identifiers; the address of the port is
  in lower case.\<close>

definition mapping_entry :: "string \<Rightarrow> json \<Rightarrow> py_exc + string \<times> string" where
  "mapping_entry field b =
     bind_res (bind_res (jfield field b) as_str) (\<lambda>k. bind_res (bind_res (jfield ''bindingId'' b) as_str) (\<lambda>i.
       Inr (if field = ''macAddress'' then py_lower k else k, i)))"

definition binding_mappings :: "string \<Rightarrow> json list \<Rightarrow> py_exc + (string, string) pydict" where
  "binding_mappings field bs =
     bind_res (map_res (mapping_entry field) bs) (\<lambda>kvs. Inr (fold (\<lambda>(k, i). AList.update k i) kvs []))"

definition get_dhcp_binding_mappings :: "('w, 'd, 't, 'v, 'b, 'm, 'n, 's) dhcp_env \<Rightarrow> string \<Rightarrow> string \<Rightarrow>
    ('w, 'd, 't, 'v, 's, (string, string) pydict) dhcp_op" where
  "get_dhcp_binding_mappings H field edge_id =
     bind_st (query_dhcp_service_config H edge_id) (\<lambda>bs. lift_res (binding_mappings field bs))"

fun find_binding :: "string \<Rightarrow> json list \<Rightarrow> py_exc + json option" where
  "find_binding binding_id [] = Inr None"
| "find_binding binding_id (b # bs) =
     bind_res (jfield ''bindingId'' b) (\<lambda>i. if i = JStr binding_id then Inr (Some b) else find_binding binding_id bs)"

definition get_dhcp_binding_for_binding_id :: "('w, 'd, 't, 'v, 'b, 'm, 'n, 's) dhcp_env \<Rightarrow> json option \<Rightarrow> string \<Rightarrow> string \<Rightarrow>
    ('w, 'd, 't, 'v, 's, json option) dhcp_op" where
  "get_dhcp_binding_for_binding_id H nsx_version edge_id binding_id s =
     (case get_version (ee_vcns (dh_env H)) nsx_version (es_world (ds_edge s)) of
        ((ver, _), w) \<Rightarrow>
          (if dh_binding_supported H ver
           then catch_st (bind_st (vcns_call (with_body (get_dhcp_binding (ee_vcns (dh_env H)) edge_id binding_id) Inr))
               (\<lambda>b. return_st (Some b))) (\<lambda>_. return_st None)
           else bind_st (query_dhcp_service_config H edge_id) (\<lambda>bs. lift_res (find_binding binding_id bs)))
          (s\<lparr>ds_edge := (ds_edge s)\<lparr>es_world := w\<rparr>\<rparr>))"

text \<open>The whole service of an edge: the static bindings of the instances on its networks. The bindings
  that the manager then has replace those in the table.\<close>

definition static_bindings_of :: "('w, 'd, 't, 'v, 'b, 'm, 'n, 's) dhcp_env \<Rightarrow> string list \<Rightarrow> py_exc + static_config list" where
  "static_bindings_of H networks =
     bind_res (map_res (\<lambda>sn. bind_res (map_res (create_static_binding (dh_subnet_env H))
           (filter (\<lambda>p. startswith (po_device_owner p) ''compute'') (dh_ports_on H (sn_network_id sn) (Some (sn_id sn)))))
         (\<lambda>css. Inr (concat css))) (dh_subnets H networks)) (\<lambda>css. Inr (concat css))"

definition dhcp_request :: "static_config list \<Rightarrow> json" where
  "dhcp_request cs = JObj [(''featureType'', JStr ''dhcp_4.0''), (''enabled'', JBool True),
     (''staticBindings'', JObj [(''staticBindings'', JList (map static_config_json cs))])]"

definition update_dhcp_service_config :: "('w, 'd, 't, 'v, 'b, 'm, 'n, 's) dhcp_env \<Rightarrow> string option \<Rightarrow> ('w, 'd, 't, 'v, 's, unit) dhcp_op" where
  "update_dhcp_service_config H edge_id s =
     (let networks = map the (filter (\<lambda>n. n \<noteq> None) (edge_networks (dh_env H) (ds_edge s) edge_id)); i = edge_ref edge_id in
      bind_st (lift_res (static_bindings_of H networks)) (\<lambda>cs.
      bind_st (vcns_call (reconfigure_dhcp_service (ee_vcns (dh_env H)) i (dhcp_request cs))) (\<lambda>_.
      bind_st (get_dhcp_binding_mappings H ''macAddress'' i) (\<lambda>bindings s.
      each_st (\<lambda>(mac, binding_id). case edge_id of None \<Rightarrow> raise_st (EDb DBError)
          | Some i \<Rightarrow> record_binding H i mac binding_id) bindings
        (case edge_id of None \<Rightarrow> s
         | Some i \<Rightarrow> s\<lparr>ds_static := clean_edge_dhcp_static_bindings_by_edge (dh_static H) (ds_static s) i\<rparr>)))) s)"

definition update_dhcp_edge_bindings :: "('w, 'd, 't, 'v, 'b, 'm, 'n, 's) dhcp_env \<Rightarrow> string \<Rightarrow> ('w, 'd, 't, 'v, 's, unit) dhcp_op" where
  "update_dhcp_edge_bindings H network_id s =
     (case binding_of H (dhcp_resource_id network_id) s of
        None \<Rightarrow> (Inr (), s)
      | Some b \<Rightarrow> update_dhcp_service_config H (rb_edge_id b) s)"

subsection \<open>Networks on DHCP edges\<close>

text \<open>The metadata ports that name a router that leaves its edge are given to another router of the edge. The
  internal network of a null zone is that of the default zone.\<close>

definition metadata_ports :: "string \<Rightarrow> string option \<Rightarrow> ('w, 't, 'v, 's) dhcp_state \<Rightarrow> (string \<times> string \<times> string) list" where
  "metadata_ports device_id network_id s =
     filter (\<lambda>(_, d, n). d = device_id \<and> Some n = network_id) (ds_ports s)"

definition move_ports :: "(string \<times> string \<times> string) list \<Rightarrow> string \<Rightarrow> ('w, 't, 'v, 's) dhcp_state \<Rightarrow> ('w, 't, 'v, 's) dhcp_state" where
  "move_ports ports device_id s =
     s\<lparr>ds_ports := map (\<lambda>(i, d, n). (i, if i \<in> fst ` set ports then device_id else d, n)) (ds_ports s)\<rparr>"

definition reconfigure_shared_edge_metadata_port :: "('w, 'd, 't, 'v, 'b, 'm, 'n, 's) dhcp_env \<Rightarrow> string \<Rightarrow>
    ('w, 't, 'v, 's) dhcp_state \<Rightarrow> ('w, 't, 'v, 's) dhcp_state" where
  "reconfigure_shared_edge_metadata_port H org_router_id s =
     (let E = dh_env H in
      if \<not> dh_has_metadata H then s
      else (case binding_of H org_router_id s of
          None \<Rightarrow> s
        | Some b \<Rightarrow>
            (case get_nsxv_internal_network (dh_nets H) (dh_net_rows H) INTER_EDGE_PURPOSE
                (case rb_availability_zone b of Some z \<Rightarrow> z | None \<Rightarrow> DEFAULT_NAME) True of
               None \<Rightarrow> s
             | Some net \<Rightarrow>
                 let ports = metadata_ports org_router_id (inw_network_id net) s;
                     others = filter (\<lambda>r. r \<noteq> org_router_id) (map rb_router_id
                       (case rb_edge_id b of None \<Rightarrow> [] | Some i \<Rightarrow>
                          get_nsxv_router_bindings (ee_rb E) (ee_like E) (es_rbs (ds_edge s)) (Some [(''edge_id'', [i])]) None))
                 in if ports = [] then s else (case others of [] \<Rightarrow> s | r # _ \<Rightarrow> move_ports ports r s))))"

text \<open>A network leaves its edge: a failure to update the service is only noted, and marks the edge when it is the
  manager's.\<close>

definition free_tunnel :: "('w, 'd, 't, 'v, 'b, 'm, 'n, 's) dhcp_env \<Rightarrow> string \<Rightarrow> string \<Rightarrow> ('w, 'd, 't, 'v, 's, unit) dhcp_op" where
  "free_tunnel H edge_id network_id = on_edge (free_vnic_by_network (dh_env H) (Some edge_id) network_id)"

definition remove_network_from_dhcp_edge :: "('w, 'd, 't, 'v, 'b, 'm, 'n, 's) dhcp_env \<Rightarrow> string \<Rightarrow> string option \<Rightarrow>
    ('w, 'd, 't, 'v, 's, unit) dhcp_op" where
  "remove_network_from_dhcp_edge H network_id edge_id s =
     (let s = reconfigure_shared_edge_metadata_port H (dhcp_resource_id network_id) s in
      case vnic_of (dh_env H) edge_id network_id (ds_edge s) of
        None \<Rightarrow> on_edge (delete_dhcp_router_binding (dh_mgr H) network_id edge_id) s
      | Some v \<Rightarrow>
          bind_st (free_tunnel H (vb_edge_id v) network_id) (\<lambda>_.
          bind_st (catch_st (update_dhcp_service_config H edge_id) (\<lambda>e.
              if is_api e then mark_error H (vb_edge_id v) else return_st ())) (\<lambda>_.
          delete_dhcp_internal_interface H (vb_edge_id v) (vb_vnic_index v) (vb_tunnel_index v) network_id)) s)"

definition reuse_existing_dhcp_edge :: "('w, 'd, 't, 'v, 'b, 'm, 'n, 's) dhcp_env \<Rightarrow> string \<Rightarrow> string \<Rightarrow> string \<Rightarrow> az \<Rightarrow>
    ('w, 'd, 't, 'v, 's, unit) dhcp_op" where
  "reuse_existing_dhcp_edge H edge_id resource_id network_id zone =
     bind_st (lift_res (get_service_edge_size (pm_sizes (dh_mgr H)) ''dhcp'')) (\<lambda>app_size.
       case size_of_str app_size of
         None \<Rightarrow> raise_st (EDb DBError)
       | Some z \<Rightarrow>
           bind_st (on_edge (add_rb (dh_env H) resource_id (Some edge_id) ST_ACTIVE z SERVICE_EDGE (Some (az_name zone)))) (\<lambda>_.
           alloc_tunnel H (Some edge_id) network_id zone))"

definition allocate_new_dhcp_edge :: "('w, 'd, 't, 'v, 'b, 'm, 'n, 's) dhcp_env \<Rightarrow> string \<Rightarrow> string \<Rightarrow> az \<Rightarrow>
    ('w, 'd, 't, 'v, 's, string option) dhcp_op" where
  "allocate_new_dhcp_edge H network_id resource_id zone =
     bind_st (on_edge (allocate_dhcp_edge_appliance (dh_mgr H) resource_id zone)) (\<lambda>_ s.
       case binding_of H resource_id s of
         None \<Rightarrow> (Inl (EPy TypeError), s)
       | Some b \<Rightarrow> bind_st (alloc_tunnel H (rb_edge_id b) network_id zone) (\<lambda>_. return_st (rb_edge_id b)) s)"

text \<open>The service of a network. The network leaves an edge that is in conflict or in error; without an edge it
  goes to one that can be used, or to a new one. The result is the resource when an edge was allocated.\<close>

definition leave_edge :: "('w, 'd, 't, 'v, 'b, 'm, 'n, 's) dhcp_env \<Rightarrow> string \<Rightarrow> string option list \<Rightarrow> router_binding option \<Rightarrow>
    ('w, 'd, 't, 'v, 's, string option) dhcp_op" where
  "leave_edge H network_id conflict binding =
     (case binding of
        None \<Rightarrow> return_st None
      | Some b \<Rightarrow>
          if rb_edge_id b \<in> set conflict \<or> rb_status b = ST_ERROR
          then bind_st (remove_network_from_dhcp_edge H network_id (rb_edge_id b)) (\<lambda>_. return_st None)
          else return_st (rb_edge_id b))"

definition attach_to_edge :: "('w, 'd, 't, 'v, 'b, 'm, 'n, 's) dhcp_env \<Rightarrow> string \<Rightarrow> string option list \<Rightarrow> az \<Rightarrow>
    ('w, 'd, 't, 'v, 's, string option) dhcp_op" where
  "attach_to_edge H network_id available zone =
     (let resource_id = dhcp_resource_id network_id in
      bind_st (if available = [] then return_st None else on_edge (pick_edge H available)) (\<lambda>new_id.
        if given new_id
        then bind_st (reuse_existing_dhcp_edge H (the new_id) resource_id network_id zone) (\<lambda>_. return_st None)
        else bind_st (allocate_new_dhcp_edge H network_id resource_id zone) (\<lambda>_. return_st (Some resource_id))))"

definition create_dhcp_edge_service :: "('w, 'd, 't, 'v, 'b, 'm, 'n, 's) dhcp_env \<Rightarrow> string \<Rightarrow> subnet \<Rightarrow>
    ('w, 'd, 't, 'v, 's, string option) dhcp_op" where
  "create_dhcp_edge_service H network_id sn s =
     (let zone = dh_zone_of H network_id;
          binding = binding_of H (dhcp_resource_id network_id) s;
          (conflict, available) = get_used_edges H sn zone (ds_edge s)
      in bind_st (leave_edge H network_id conflict binding) (\<lambda>edge_id.
           if given edge_id then return_st None else attach_to_edge H network_id available zone) s)"

definition update_dhcp_edge_service :: "('w, 'd, 't, 'v, 'b, 'm, 'n, 's) dhcp_env \<Rightarrow> string \<Rightarrow> json list \<Rightarrow> ('w, 'd, 't, 'v, 's, unit) dhcp_op" where
  "update_dhcp_edge_service H network_id groups s =
     (case binding_of H (dhcp_resource_id network_id) s of
        None \<Rightarrow> (Inr (), s)
      | Some b \<Rightarrow>
          (case vnic_of (dh_env H) (rb_edge_id b) network_id (ds_edge s) of
             None \<Rightarrow> (Inr (), s)
           | Some v \<Rightarrow>
               let edge_id = vb_edge_id v in
               catch_st
                 (bind_st (update_dhcp_internal_interface H edge_id (vb_vnic_index v) (vb_tunnel_index v) network_id groups) (\<lambda>_.
                    if filter (\<lambda>p. startswith (po_device_owner p) ''compute'') (dh_ports_on H network_id None) \<noteq> []
                    then update_dhcp_service_config H (Some edge_id) else return_st ()))
                 (\<lambda>e. bind_st (if is_api e then mark_error H edge_id else return_st ()) (\<lambda>_. raise_st e)) s))"

definition delete_dhcp_edge_service :: "('w, 'd, 't, 'v, 'b, 'm, 'n, 's) dhcp_env \<Rightarrow> string \<Rightarrow> ('w, 'd, 't, 'v, 's, unit) dhcp_op" where
  "delete_dhcp_edge_service H network_id s =
     (case binding_of H (dhcp_resource_id network_id) s of
        None \<Rightarrow> (Inr (), s)
      | Some b \<Rightarrow>
          (case vnic_of (dh_env H) (rb_edge_id b) network_id (ds_edge s) of
             None \<Rightarrow> (Inr (), s)
           | Some v \<Rightarrow>
               bind_st (free_tunnel H (vb_edge_id v) network_id) (\<lambda>_.
               delete_dhcp_internal_interface H (vb_edge_id v) (vb_vnic_index v) (vb_tunnel_index v) network_id) s))"

subsection \<open>Static bindings one by one\<close>

definition get_dhcp_edge_id :: "('w, 'd, 't, 'v, 'b, 'm, 'n, 's) dhcp_env \<Rightarrow> string \<Rightarrow> ('w, 't, 'v, 's) dhcp_state \<Rightarrow> string option" where
  "get_dhcp_edge_id H network_id s = Option.bind (binding_of H (dhcp_resource_id network_id) s) rb_edge_id"

text \<open>The binding is deleted at the manager only when it still is the port's: its host name is the port.\<close>

definition delete_port_binding :: "('w, 'd, 't, 'v, 'b, 'm, 'n, 's) dhcp_env \<Rightarrow> json option \<Rightarrow> string \<Rightarrow> string \<Rightarrow> string \<Rightarrow>
    ('w, 'd, 't, 'v, 's, unit) dhcp_op" where
  "delete_port_binding H nsx_version port_id network_id mac_address s =
     (case get_dhcp_edge_id H network_id s of
        None \<Rightarrow> (Inr (), s)
      | Some edge_id \<Rightarrow>
          if edge_id = [] then (Inr (), s)
          else (case get_edge_dhcp_static_binding (dh_static H) (ds_static s) edge_id mac_address of
              None \<Rightarrow> (Inr (), s)
            | Some sb \<Rightarrow>
                bind_st (get_dhcp_binding_for_binding_id H nsx_version edge_id (sb_binding_id sb)) (\<lambda>binding.
                bind_st (lift_res (case binding of
                    Some b \<Rightarrow> if truthy_json b then bind_res (jfield ''hostname'' b) (\<lambda>h. Inr (h = JStr port_id)) else Inr False
                  | None \<Rightarrow> Inr False)) (\<lambda>mine.
                bind_st (if mine then bind_st (vcns_call (delete_dhcp_binding (ee_vcns (dh_env H)) edge_id (sb_binding_id sb)))
                    (\<lambda>_. return_st ()) else return_st ()) (\<lambda>_ s.
                (Inr (), s\<lparr>ds_static := delete_edge_dhcp_static_binding (dh_static H) (ds_static s) edge_id mac_address\<rparr>)))) s))"

definition NSX_ERROR_DHCP_OVERLAPPING_IP :: int where "NSX_ERROR_DHCP_OVERLAPPING_IP = 12501"
definition NSX_ERROR_DHCP_DUPLICATE_HOSTNAME :: int where "NSX_ERROR_DHCP_DUPLICATE_HOSTNAME = 12504"
definition NSX_ERROR_DHCP_DUPLICATE_MAC :: int where "NSX_ERROR_DHCP_DUPLICATE_MAC = 12518"

text \<open>The field of the bindings that an error code names, and the value the new binding has there.\<close>

definition clash :: "int \<Rightarrow> static_config \<Rightarrow> (string \<times> (py_exc + string)) option" where
  "clash code c =
     (if code = NSX_ERROR_DHCP_DUPLICATE_MAC then Some (''macAddress'', Inr (py_lower (sc_mac_address c)))
      else if code = NSX_ERROR_DHCP_OVERLAPPING_IP then
        Some (''ipAddress'', case sc_ip_address c of None \<Rightarrow> Inl KeyError | Some ip \<Rightarrow> Inr ip)
      else if code = NSX_ERROR_DHCP_DUPLICATE_HOSTNAME then Some (''hostname'', Inr (sc_hostname c))
      else None)"

definition find_clash :: "('w, 'd, 't, 'v, 'b, 'm, 'n, 's) dhcp_env \<Rightarrow> string \<Rightarrow> static_config \<Rightarrow> 'd option \<Rightarrow>
    ('w, 'd, 't, 'v, 's, string option) dhcp_op" where
  "find_clash H edge_id c response =
     (case response of
        None \<Rightarrow> return_st None
      | Some text \<Rightarrow>
          if is_empty (ee_vcns (dh_env H)) text then return_st None
          else (case v_loads (ee_vcns (dh_env H)) text of
              None \<Rightarrow> raise_st (EPy ValueError)
            | Some desc \<Rightarrow>
                bind_st (lift_res (jfield_opt ''errorCode'' desc)) (\<lambda>code.
                  case Option.bind (case code of JInt k \<Rightarrow> Some k | _ \<Rightarrow> None) (\<lambda>k. clash k c) of
                    None \<Rightarrow> return_st None
                  | Some (field, v) \<Rightarrow>
                      bind_st (get_dhcp_binding_mappings H field edge_id) (\<lambda>bindings.
                      bind_st (lift_res v) (\<lambda>v. return_st (map_of bindings v))))))"

definition drop_binding :: "('w, 'd, 't, 'v, 'b, 'm, 'n, 's) dhcp_env \<Rightarrow> string \<Rightarrow> string \<Rightarrow> ('w, 'd, 't, 'v, 's, unit) dhcp_op" where
  "drop_binding H edge_id binding_id =
     bind_st (vcns_call (delete_dhcp_binding (ee_vcns (dh_env H)) edge_id binding_id)) (\<lambda>_ s.
       (Inr (), s\<lparr>ds_static := delete_edge_dhcp_static_binding_id (dh_static H) (ds_static s) edge_id binding_id\<rparr>))"

definition try_create_binding :: "('w, 'd, 't, 'v, 'b, 'm, 'n, 's) dhcp_env \<Rightarrow> string \<Rightarrow> static_config \<Rightarrow> ('w, 'd, 't, 'v, 's, string) dhcp_op" where
  "try_create_binding H edge_id c =
     catch_st
       (bind_st (vcns_call (create_dhcp_binding (ee_vcns (dh_env H)) edge_id (static_config_json c))) (\<lambda>(h, _).
          case map_of h ''location'' of
            None \<Rightarrow> raise_st (EPy KeyError)
          | Some _ \<Rightarrow> bind_st (record_binding H edge_id (sc_mac_address c) (location_id h)) (\<lambda>_. return_st (location_id h))))
       (\<lambda>e. case e of
          EVcns (Vcns k response) \<Rightarrow>
            bind_st (find_clash H edge_id c response) (\<lambda>binding_id.
            bind_st (if given binding_id then drop_binding H edge_id (the binding_id) else return_st ()) (\<lambda>_. raise_st e))
        | _ \<Rightarrow> raise_st e)"

definition create_dhcp_binding_of :: "('w, 'd, 't, 'v, 'b, 'm, 'n, 's) dhcp_env \<Rightarrow> string \<Rightarrow> static_config \<Rightarrow> ('w, 'd, 't, 'v, 's, string) dhcp_op" where
  "create_dhcp_binding_of H edge_id c =
     with_retries (max_retries (ee_vcns (dh_env H))) is_api (try_create_binding H edge_id c)"

text \<open>The bindings of a port, one after the other: the first failure of the manager takes back those that were
  made before.\<close>

fun configure_bindings :: "('w, 'd, 't, 'v, 'b, 'm, 'n, 's) dhcp_env \<Rightarrow> string \<Rightarrow> static_config list \<Rightarrow> (string \<times> string) list \<Rightarrow>
    ('w, 't, 'v, 's) dhcp_state \<Rightarrow> ('d edge_exc option \<times> (string \<times> string) list) \<times> ('w, 't, 'v, 's) dhcp_state" where
  "configure_bindings H edge_id [] configured s = ((None, configured), s)"
| "configure_bindings H edge_id (c # cs) configured s =
     (case create_dhcp_binding_of H edge_id c s of
        (Inl e, s) \<Rightarrow> ((Some e, configured), s)
      | (Inr binding_id, s) \<Rightarrow> configure_bindings H edge_id cs (configured @ [(binding_id, sc_mac_address c)]) s)"

definition take_back :: "('w, 'd, 't, 'v, 'b, 'm, 'n, 's) dhcp_env \<Rightarrow> string \<Rightarrow> (string \<times> string) list \<Rightarrow> ('w, 'd, 't, 'v, 's, unit) dhcp_op" where
  "take_back H edge_id = each_st (\<lambda>(binding_id, mac_address).
     bind_st (vcns_call (delete_dhcp_binding (ee_vcns (dh_env H)) edge_id binding_id)) (\<lambda>_ s.
       (Inr (), s\<lparr>ds_static := delete_edge_dhcp_static_binding (dh_static H) (ds_static s) edge_id mac_address\<rparr>)))"

definition create_dhcp_bindings :: "('w, 'd, 't, 'v, 'b, 'm, 'n, 's) dhcp_env \<Rightarrow> string \<Rightarrow> string \<Rightarrow> static_config list \<Rightarrow>
    ('w, 'd, 't, 'v, 's, unit) dhcp_op" where
  "create_dhcp_bindings H port_id network_id bindings s =
     (case get_dhcp_edge_id H network_id s of
        None \<Rightarrow> (Inr (), s)
      | Some edge_id \<Rightarrow>
          if edge_id = [] \<or> \<not> dh_port_exists H port_id then (Inr (), s)
          else (case configure_bindings H edge_id bindings [] s of
              ((None, _), s) \<Rightarrow> (Inr (), s)
            | ((Some e, configured), s) \<Rightarrow>
                if is_api e then bind_st (take_back H edge_id configured) (\<lambda>_. raise_st e) s else (Inl e, s)))"

subsection \<open>The edges a network can use\<close>

lemma full_edges_set:
  "set (full_edges E zone s es) = {e \<in> set es. free_tunnels E s e \<le> ee_tunnels E - 1 \<or> az_exclusive_dhcp_edge zone}"
  by (auto simp: full_edges_def)

lemma add_conflicts_set:
  "set (add_conflicts edges ns c) =
     set c \<union> {e. given e \<and> (\<exists>n \<in> set ns. map_of edges (dhcp_resource_id n) = Some e)}"
proof (induction ns arbitrary: c)
  case Nil
  then show ?case by simp
next
  case (Cons n ns)
  show ?case unfolding add_conflicts.simps Cons.IH by (auto split: option.splits)
qed

lemma add_available_set: "set (add_available c es a) = set a \<union> {e \<in> set es. e \<notin> set c}"
proof (induction es arbitrary: a)
  case Nil
  then show ?case by simp
next
  case (Cons e es)
  show ?case unfolding add_available.simps Cons.IH by auto
qed

text \<open>An active DHCP binding of the zone.\<close>

definition dhcp_row :: "az \<Rightarrow> router_binding \<Rightarrow> bool" where
  "dhcp_row zone b \<longleftrightarrow> startswith (rb_router_id b) DHCP_EDGE_PREFIX \<and> rb_status b = ST_ACTIVE \<and>
     rb_availability_zone b = Some (az_name zone)"

context rb_table
begin

lemma dhcp_edges:
  assumes "ok (es_rbs s)"
  shows "set (all_dhcp_edges E zone s) = (\<lambda>b. (rb_router_id b, rb_edge_id b)) ` {b \<in> rbs s. dhcp_row zone b}"
    "distinct (map fst (all_dhcp_edges E zone s))"
proof -
  let ?bs = "filter (\<lambda>b. startswith (rb_router_id b) DHCP_EDGE_PREFIX \<and> rb_status b = ST_ACTIVE)
    (get_nsxv_router_bindings (ee_rb E) (ee_like E) (es_rbs s) (Some [(''availability_zone'', [az_name zone])]) None)"
  have col: "rb_column ''availability_zone'' = Some rb_availability_zone" by (simp add: rb_column_def)
  have filter: "apply_filters_to_query (ee_like E) rb_column (\<lambda>_. True) (Some [(''availability_zone'', [az_name zone])]) None =
      (\<lambda>b. rb_availability_zone b = Some (az_name zone))"
    by (rule ext) (auto simp: apply_filters_to_query_def filter_in_def filter_like_def col split: option.splits)
  have bs: "set ?bs = {b \<in> rbs s. dhcp_row zone b}"
    unfolding get_nsxv_router_bindings_def filter set_filter all_rows [OF assms] dhcp_row_def by blast
  show "set (all_dhcp_edges E zone s) = (\<lambda>b. (rb_router_id b, rb_edge_id b)) ` {b \<in> rbs s. dhcp_row zone b}"
    unfolding all_dhcp_edges_def set_map bs ..
  have "distinct ?bs" unfolding get_nsxv_router_bindings_def by (rule distinct_filter) (rule all_distinct [OF assms])
  moreover have "inj_on rb_router_id (set ?bs)"
    unfolding bs by (rule inj_onI) (use key_eq [OF assms] in blast)
  ultimately have "distinct (map rb_router_id ?bs)" by (simp only: distinct_map)
  then show "distinct (map fst (all_dhcp_edges E zone s))" by (simp add: all_dhcp_edges_def comp_def)
qed

lemma dhcp_edge_of:
  assumes "ok (es_rbs s)"
  shows "map_of (all_dhcp_edges E zone s) r = Some e \<longleftrightarrow>
    (\<exists>b \<in> rbs s. dhcp_row zone b \<and> rb_router_id b = r \<and> rb_edge_id b = e)"
  unfolding map_of_eq_Some_iff [OF dhcp_edges(2) [OF assms]] dhcp_edges(1) [OF assms] by auto

end


lemma available_edges:
  assumes T: "rb_table (dh_env H) ok" and ok: "ok (es_rbs s)" and order: "\<And>xs. set (re_order (dh_routes H) xs) = set xs"
    and run: "get_available_edges H n nets zone s = (conflict, available)" and shared: "\<not> az_exclusive_dhcp_edge zone"
  shows "set available = {e. (\<exists>b \<in> rows (ee_rb (dh_env H)) (es_rbs s). dhcp_row zone b \<and> rb_edge_id b = e) \<and>
      ee_tunnels (dh_env H) \<le> free_tunnels (dh_env H) s e \<and>
      \<not> (given e \<and> (\<exists>m \<in> set (case nets of None \<Rightarrow> [] | Some ns \<Rightarrow> ns). \<exists>b \<in> rows (ee_rb (dh_env H)) (es_rbs s).
        dhcp_row zone b \<and> rb_router_id b = dhcp_resource_id m \<and> rb_edge_id b = e))}"
    and "set conflict \<inter> set available = {}"
proof -
  let ?E = "dh_env H" and ?ns = "case nets of None \<Rightarrow> [] | Some ns \<Rightarrow> ns"
  let ?edges = "all_dhcp_edges ?E zone s"
  let ?full = "full_edges ?E zone s (re_order (dh_routes H) (remdups (map snd ?edges)))"
  let ?conflict = "add_conflicts ?edges ?ns ?full"
  note E = rb_table.dhcp_edges(1) [OF T ok, of zone]
  have result: "(conflict, available) =
      (if ?edges = [] then ([], []) else (?conflict, add_available ?conflict (map snd ?edges) []))"
    unfolding run [symmetric] get_available_edges_def Let_def using shared by simp
  have snds: "set (map snd ?edges) = rb_edge_id ` {b \<in> rows (ee_rb ?E) (es_rbs s). dhcp_row zone b}"
    unfolding set_map E image_image by simp
  have available: "set available = {e \<in> set (map snd ?edges). e \<notin> set ?conflict}"
    using result by (cases "?edges = []") (auto simp: add_available_set)
  have full: "set ?full = {e \<in> set (map snd ?edges). free_tunnels ?E s e \<le> ee_tunnels ?E - 1}"
    unfolding full_edges_set order set_remdups using shared by simp
  have conflict: "set ?conflict = set ?full \<union> {e. given e \<and> (\<exists>m \<in> set ?ns. \<exists>b \<in> rows (ee_rb ?E) (es_rbs s).
        dhcp_row zone b \<and> rb_router_id b = dhcp_resource_id m \<and> rb_edge_id b = e)}"
    unfolding add_conflicts_set rb_table.dhcp_edge_of [OF T ok] ..
  show "set available = {e. (\<exists>b \<in> rows (ee_rb ?E) (es_rbs s). dhcp_row zone b \<and> rb_edge_id b = e) \<and>
      ee_tunnels ?E \<le> free_tunnels ?E s e \<and>
      \<not> (given e \<and> (\<exists>m \<in> set ?ns. \<exists>b \<in> rows (ee_rb ?E) (es_rbs s).
        dhcp_row zone b \<and> rb_router_id b = dhcp_resource_id m \<and> rb_edge_id b = e))}"
    unfolding available conflict full snds by force
  show "set conflict \<inter> set available = {}"
    using result available by (cases "?edges = []") auto
qed


text \<open>A conflicting network is not seen while its binding is in error: an edge that it shares with a
  network whose binding is active is offered all the same.\<close>

theorem conflict_in_error_is_missed:
  assumes "rb_table (dh_env H) ok" "ok (es_rbs s)" "\<And>xs. set (re_order (dh_routes H) xs) = set xs"
    "get_available_edges H n (Some [m]) zone s = (conflict, available)" "\<not> az_exclusive_dhcp_edge zone"
    "b \<in> rows (ee_rb (dh_env H)) (es_rbs s)" "rb_router_id b = dhcp_resource_id m" "rb_status b = ST_ERROR"
      "rb_edge_id b = Some i"
    "c \<in> rows (ee_rb (dh_env H)) (es_rbs s)" "dhcp_row zone c" "rb_edge_id c = Some i"
    "ee_tunnels (dh_env H) \<le> free_tunnels (dh_env H) s (Some i)"
  shows "Some i \<in> set available"
proof -
  have "x = b" if "x \<in> rows (ee_rb (dh_env H)) (es_rbs s)" "rb_router_id x = dhcp_resource_id m" for x
    using rb_table.key_eq [OF assms(1,2) that(1) assms(6)] that(2) assms(7) by simp
  then have "\<not> dhcp_row zone x" if "x \<in> rows (ee_rb (dh_env H)) (es_rbs s)" "rb_router_id x = dhcp_resource_id m" for x
    using that assms(8) by (auto simp: dhcp_row_def)
  then show ?thesis using assms(10-13) unfolding available_edges(1) [OF assms(1-5)] by auto
qed

subsection \<open>The sub-interfaces of a vnic\<close>

definition overlapping :: "('w, 'd, 't, 'v, 'b, 'm, 'n, 's) dhcp_env \<Rightarrow> string list \<Rightarrow> json \<Rightarrow> py_exc + bool" where
  "overlapping H cidrs sb = bind_res (bind_res (sub_groups sb) group_cidrs) (dh_overlap H cidrs)"

lemma check_sub_mine:
  assumes "check_sub H t groups cidrs sb = Inr (Sub_mine j)"
  shows "jfield ''tunnelId'' j = Inr (JInt t)" "sub_groups j = Inr groups" "jfield ''tunnelId'' sb = Inr (JInt t)"
proof -
  from assms have tunnel: "jfield ''tunnelId'' sb = Inr (JInt t)"
    by (auto simp: check_sub_def split: sum.splits if_splits bool.splits)
  then obtain al where sb: "sb = JObj al" by (cases sb) simp_all
  from assms tunnel obtain bl where bl: "jfield ''addressGroups'' sb = Inr (JObj bl)"
      "j = jset ''addressGroups'' (jset ''addressGroups'' (JList groups) (JObj bl)) sb"
    by (auto simp: check_sub_def split: sum.splits json.splits)
  show "jfield ''tunnelId'' j = Inr (JInt t)" using tunnel by (simp add: bl(2) sb)
  show "sub_groups j = Inr groups" by (simp add: sub_groups_def bl(2) sb bind_res_def)
  show "jfield ''tunnelId'' sb = Inr (JInt t)" by (rule tunnel)
qed

lemma check_sub_other:
  assumes "check_sub H t groups cidrs sb = Inr (Sub_other j)"
  shows "jfield ''tunnelId'' sb \<noteq> Inr (JInt t)"
    "overlapping H cidrs sb = Inr False \<and> j = sb \<or> overlapping H cidrs sb = Inr True \<and> \<not> kept_sub j"
proof -
  from assms show "jfield ''tunnelId'' sb \<noteq> Inr (JInt t)"
    by (auto simp: check_sub_def split: sum.splits json.splits if_splits)
  with assms obtain al where sb: "sb = JObj al"
    by (cases sb) (auto simp: check_sub_def)
  from assms \<open>jfield ''tunnelId'' sb \<noteq> Inr (JInt t)\<close>
  show "overlapping H cidrs sb = Inr False \<and> j = sb \<or> overlapping H cidrs sb = Inr True \<and> \<not> kept_sub j"
    by (auto simp: check_sub_def overlapping_def kept_sub_def sb split: sum.splits if_splits bool.splits json.splits)
qed

lemma map_res_Inr_total: "map_res f xs = Inr ys \<Longrightarrow> x \<in> set xs \<Longrightarrow> \<exists>y \<in> set ys. f x = Inr y"
  by (induction xs arbitrary: ys) (auto simp: bind_res_Inr_iff)

lemma is_mine_iff: "list_ex is_mine os \<longleftrightarrow> (\<exists>j. Sub_mine j \<in> set os)"
proof (induction os)
  case (Cons o1 os)
  then show ?case by (cases o1) auto
qed simp

text \<open>C21: The sub-interfaces that are sent for a vnic: the one of the tunnel, if it was there, has the new
  address groups, and no other one overlaps with them. Every other sub-interface that does not overlap is
  kept as it was. The tunnel is new exactly when no sub-interface had it.\<close>

theorem sent_sub_interfaces_do_not_overlap:
  assumes "check_subs H t groups d = Inr (l, new)" "truthy_json d"
    "bind_res (jfield_opt ''subInterfaces'' d) as_list = Inr is" "group_cidrs groups = Inr cidrs"
  shows "(\<forall>j \<in> set l. jfield ''tunnelId'' j = Inr (JInt t) \<and> sub_groups j = Inr groups \<and> \<not> new \<or>
      j \<in> set is \<and> jfield ''tunnelId'' j \<noteq> Inr (JInt t) \<and> overlapping H cidrs j = Inr False) \<and>
    (\<forall>sb \<in> set is. jfield ''tunnelId'' sb \<noteq> Inr (JInt t) \<and> overlapping H cidrs sb = Inr False \<and> kept_sub sb \<longrightarrow> sb \<in> set l) \<and>
    (new \<longleftrightarrow> (\<forall>sb \<in> set is. jfield ''tunnelId'' sb \<noteq> Inr (JInt t)))"
proof -
  have "bind_res (bind_res (jfield_opt ''subInterfaces'' d) as_list) (\<lambda>is.
      bind_res (group_cidrs groups) (\<lambda>cidrs. Inr (is, cidrs))) = Inr (is, cidrs)"
    by (simp only: assms(3,4)) (simp add: bind_res_def)
  with assms(1,2) obtain os where os: "map_res (check_sub H t groups cidrs) is = Inr os"
      "l = filter kept_sub (map outcome_json os)" "new \<longleftrightarrow> \<not> (\<exists>j. Sub_mine j \<in> set os)"
    by (auto simp: check_subs_def bind_res_Inr_iff is_mine_iff)
  note in_os = map_res_Inr_set [OF os(1)] and total = map_res_Inr_total [OF os(1)]
  have kept: "jfield ''tunnelId'' j = Inr (JInt t) \<and> sub_groups j = Inr groups \<and> \<not> new \<or>
      j \<in> set is \<and> jfield ''tunnelId'' j \<noteq> Inr (JInt t) \<and> overlapping H cidrs j = Inr False" if "j \<in> set l" for j
  proof -
    from that obtain r where r: "r \<in> set os" "j = outcome_json r" "kept_sub j" by (auto simp: os(2))
    from r(1) obtain sb where sb: "sb \<in> set is" "check_sub H t groups cidrs sb = Inr r" unfolding in_os by blast
    show ?thesis
    proof (cases r)
      case (Sub_mine j')
      with sb(2) check_sub_mine [of H t groups cidrs sb j'] r show ?thesis using os(3) by auto
    next
      case (Sub_other j')
      with sb check_sub_other [of H t groups cidrs sb j'] r show ?thesis by auto
    qed
  qed
  moreover have "sb \<in> set l"
    if "sb \<in> set is" "jfield ''tunnelId'' sb \<noteq> Inr (JInt t)" "overlapping H cidrs sb = Inr False" "kept_sub sb" for sb
  proof -
    from total [OF that(1)] obtain r where r: "r \<in> set os" "check_sub H t groups cidrs sb = Inr r" by blast
    with that(2) obtain j where "r = Sub_other j" by (cases r) (auto dest: check_sub_mine(3))
    with r that(3) check_sub_other(2) [of H t groups cidrs sb j] have "r = Sub_other sb" by auto
    then have "outcome_json r = sb" by simp
    with r(1) that(4) show ?thesis by (force simp: os(2))
  qed
  moreover have "new \<longleftrightarrow> (\<forall>sb \<in> set is. jfield ''tunnelId'' sb \<noteq> Inr (JInt t))"
  proof
    assume new: new
    show "\<forall>sb \<in> set is. jfield ''tunnelId'' sb \<noteq> Inr (JInt t)"
    proof
      fix sb assume "sb \<in> set is"
      from total [OF this] obtain r where r: "r \<in> set os" "check_sub H t groups cidrs sb = Inr r" by blast
      with new os(3) obtain j where "r = Sub_other j" by (cases r) auto
      with r(2) check_sub_other(1) show "jfield ''tunnelId'' sb \<noteq> Inr (JInt t)" by blast
    qed
  next
    assume no: "\<forall>sb \<in> set is. jfield ''tunnelId'' sb \<noteq> Inr (JInt t)"
    show new
      unfolding os(3)
    proof
      assume "\<exists>j. Sub_mine j \<in> set os"
      then obtain sb j where "sb \<in> set is" "check_sub H t groups cidrs sb = Inr (Sub_mine j)" using in_os by blast
      with no check_sub_mine(3) show False by blast
    qed
  qed
  ultimately show ?thesis by blast
qed


subsection \<open>A network joins an edge\<close>

lemma same_db_trans: "same_db s t \<Longrightarrow> same_db t u \<Longrightarrow> same_db s u"
  unfolding same_db_def by (cases s, cases t, cases u) simp

lemma pick_edge_some:
  "pick_edge H es s = (Inr e, s') \<Longrightarrow> given e \<Longrightarrow> e \<in> set es \<and> same_db s s'"
proof (induction H es s rule: pick_edge.induct)
  case (1 H es s)
  let ?e = "dh_choice H es (es_world s)"
  have ne: "es \<noteq> []"
  proof
    assume "es = []"
    then have "pick_edge H es s = (Inr None, s)" by (simp add: pick_edge.simps)
    with 1(2,3) show False by (simp add: given_def)
  qed
  have mem: "?e \<in> set es"
  proof (rule ccontr)
    assume "?e \<notin> set es"
    with ne have "pick_edge H es s = (Inl (EPy ValueError), s)" by (subst pick_edge.simps) simp
    with 1(2) show False by simp
  qed
  obtain r s1 where c: "check_edge_active_at_backend (dh_env H) ?e s = (r, s1)" by fastforce
  note same = active_same_db [OF c]
  show ?case
  proof (cases r)
    case True
    with c ne mem have "pick_edge H es s = (Inr ?e, s1)" by (subst pick_edge.simps) (simp add: Let_def)
    with 1(2) mem same show ?thesis by simp
  next
    case False
    with c ne mem have step: "pick_edge H es s = pick_edge H (remove1 ?e es) s1"
      by (subst pick_edge.simps) (simp add: Let_def)
    have "e \<in> set (remove1 ?e es) \<and> same_db s1 s'"
      by (rule 1(1) [OF ne refl _ c [symmetric, THEN trans] ]) (use mem False step 1(2,3) in simp_all)
    then show ?thesis using same set_remove1_subset [of ?e es] by (blast intro: same_db_trans)
  qed
qed


lemma alloc_tunnel_Inr:
  assumes T: "orm_table (ee_vb (dh_env H)) vb_key ok" and ok: "ok (es_vnics (ds_edge s))"
    and run: "alloc_tunnel H (Some i) n zone s = (Inr (), s')"
  shows "\<exists>v \<in> rows (ee_vb (dh_env H)) (es_vnics (ds_edge s)). vb_edge_id v = i \<and> vb_network_id v = None \<and>
    rows (ee_vb (dh_env H)) (es_vnics (ds_edge s')) =
      insert (v\<lparr>vb_network_id := Some n\<rparr>) (rows (ee_vb (dh_env H)) (es_vnics (ds_edge s)) - {v}) \<and>
    s' = s\<lparr>ds_edge := (ds_edge s)\<lparr>es_vnics := es_vnics (ds_edge s')\<rparr>\<rparr>"
proof -
  note V = vnic_tableI [OF T]
  let ?alloc = "allocate_edge_vnic_with_tunnel_index (ee_vb (dh_env H)) (dh_nets H) (es_vnics (ds_edge s)) (dh_net_rows H) i
    n (az_name zone)"
  obtain c t where a: "?alloc = Inr (c, t)" "s' = s\<lparr>ds_edge := (ds_edge s)\<lparr>es_vnics := t\<rparr>\<rparr>"
    using run by (auto simp: alloc_tunnel_def split: sum.splits)
  show ?thesis
  proof (cases rule: vnic_table.tunnel_cases [OF V ok, of "dh_nets H" "dh_net_rows H" i n "az_name zone"])
    case 1
    then show ?thesis using a by simp
  next
    case (2 b t')
    with a have "t' = t" by simp
    with 2 a(2) show ?thesis by (intro bexI [of _ b]) (simp_all add: taken_by_def)
  qed
qed

lemma reuse_Inr:
  assumes "reuse_existing_dhcp_edge H i resource n zone s = (Inr (), s')"
  shows "\<exists>z e. add_rb (dh_env H) resource (Some i) ST_ACTIVE z SERVICE_EDGE (Some (az_name zone)) (ds_edge s) = (Inr (), e) \<and>
    alloc_tunnel H (Some i) n zone (s\<lparr>ds_edge := e\<rparr>) = (Inr (), s')"
  using assms
  by (auto simp: reuse_existing_dhcp_edge_def bind_st_def lift_res_def on_edge_def raise_st_def split: sum.splits prod.splits option.splits)

lemma attach_Inr_None:
  assumes "attach_to_edge H n available zone s = (Inr None, s')"
  shows "\<exists>i e. available \<noteq> [] \<and> pick_edge H available (ds_edge s) = (Inr (Some i), e) \<and> i \<noteq> [] \<and>
    reuse_existing_dhcp_edge H i (dhcp_resource_id n) n zone (s\<lparr>ds_edge := e\<rparr>) = (Inr (), s')"
proof -
  have no_new: "bind_st (allocate_new_dhcp_edge H n r zone) (\<lambda>_. return_st (Some r)) t \<noteq> (Inr None, s')" for r t
    by (auto simp: bind_st_def return_st_def split: sum.splits prod.splits)
  show ?thesis
  proof (cases "available = []")
    case True
    with assms no_new [of "dhcp_resource_id n" s] show ?thesis
      by (simp add: attach_to_edge_def Let_def bind_st_def return_st_def given_def)
  next
    case False
    obtain x e where p: "pick_edge H available (ds_edge s) = (x, e)" by fastforce
    with False assms obtain new_id where x: "x = Inr new_id"
      by (cases x) (auto simp: attach_to_edge_def Let_def bind_st_def on_edge_def)
    have run: "(if given new_id then bind_st (reuse_existing_dhcp_edge H (the new_id) (dhcp_resource_id n) n zone) (\<lambda>_. return_st None)
        else bind_st (allocate_new_dhcp_edge H n (dhcp_resource_id n) zone) (\<lambda>_. return_st (Some (dhcp_resource_id n))))
        (s\<lparr>ds_edge := e\<rparr>) = (Inr None, s')"
      using assms False p x by (simp add: attach_to_edge_def Let_def bind_st_def on_edge_def)
    then have "given new_id" using no_new by (auto split: if_splits)
    then obtain i where i: "new_id = Some i" "i \<noteq> []" by (auto simp: given_def)
    with run \<open>given new_id\<close> have "reuse_existing_dhcp_edge H i (dhcp_resource_id n) n zone (s\<lparr>ds_edge := e\<rparr>) = (Inr (), s')"
      by (auto simp: bind_st_def return_st_def split: sum.splits prod.splits)
    with False p x i show ?thesis by blast
  qed
qed

text \<open>C17: When a network without an edge is given the service of an existing edge, that edge is one of those
  it can use; the network's binding to it is added as active, one of the edge's free tunnels is taken for the
  network, and nothing else in the tables changes.\<close>

theorem network_joins_available_edge:
  assumes "rb_table (dh_env H) ok" "ok (es_rbs (ds_edge s))"
    "orm_table (ee_vb (dh_env H)) vb_key okv" "okv (es_vnics (ds_edge s))"
    "binding_of H (dhcp_resource_id n) s = None" "create_dhcp_edge_service H n sn s = (Inr None, s')"
  shows "\<exists>i b v. Some i \<in> set (snd (get_used_edges H sn (dh_zone_of H n) (ds_edge s))) \<and>
    rows (ee_rb (dh_env H)) (es_rbs (ds_edge s')) = insert b (rows (ee_rb (dh_env H)) (es_rbs (ds_edge s))) \<and>
    rb_router_id b = dhcp_resource_id n \<and> rb_edge_id b = Some i \<and> rb_status b = ST_ACTIVE \<and>
    v \<in> rows (ee_vb (dh_env H)) (es_vnics (ds_edge s)) \<and> vb_edge_id v = i \<and> vb_network_id v = None \<and>
    rows (ee_vb (dh_env H)) (es_vnics (ds_edge s')) =
      insert (v\<lparr>vb_network_id := Some n\<rparr>) (rows (ee_vb (dh_env H)) (es_vnics (ds_edge s)) - {v}) \<and>
    ds_static s' = ds_static s \<and> ds_ports s' = ds_ports s \<and> es_jobs (ds_edge s') = es_jobs (ds_edge s)"
proof -
  let ?E = "dh_env H" and ?zone = "dh_zone_of H n"
  have "attach_to_edge H n (snd (get_used_edges H sn ?zone (ds_edge s))) ?zone s = (Inr None, s')"
    using assms(5,6) by (simp add: create_dhcp_edge_service_def leave_edge_def bind_st_def return_st_def given_def Let_def split_beta)
  from attach_Inr_None [OF this] obtain i e where i: "i \<noteq> []"
      "pick_edge H (snd (get_used_edges H sn ?zone (ds_edge s))) (ds_edge s) = (Inr (Some i), e)"
      "reuse_existing_dhcp_edge H i (dhcp_resource_id n) n ?zone (s\<lparr>ds_edge := e\<rparr>) = (Inr (), s')" by blast
  have "given (Some i)" using i(1) by (simp add: given_def)
  from pick_edge_some [OF i(2) this] have mem: "Some i \<in> set (snd (get_used_edges H sn ?zone (ds_edge s)))"
    and same: "same_db (ds_edge s) e" by blast+
  note same = same_dbD [OF same]
  from reuse_Inr [OF i(3)] obtain z e1 where added: "add_rb ?E (dhcp_resource_id n) (Some i) ST_ACTIVE z SERVICE_EDGE
      (Some (az_name ?zone)) e = (Inr (), e1)" and taken: "alloc_tunnel H (Some i) n ?zone (s\<lparr>ds_edge := e1\<rparr>) = (Inr (), s')"
    by auto
  have ok: "ok (es_rbs e)" and new: "dhcp_resource_id n \<notin> rb_router_id ` rows (ee_rb ?E) (es_rbs e)"
    using assms(2,5) rb_table.rb_of_None [OF assms(1,2), of "dhcp_resource_id n"] same by (simp_all add: binding_of_def)
  obtain e2 where e2: "add_rb ?E (dhcp_resource_id n) (Some i) ST_ACTIVE z SERVICE_EDGE (Some (az_name ?zone)) e = (Inr (), e2)"
      "rows (ee_rb ?E) (es_rbs e2) = insert \<lparr>rb_router_id = dhcp_resource_id n, rb_edge_id = Some i, rb_lswitch_id = None,
         rb_status = ST_ACTIVE, rb_status_description = None, rb_appliance_size = z, rb_edge_type = SERVICE_EDGE,
         rb_availability_zone = Some (az_name ?zone)\<rparr> (rows (ee_rb ?E) (es_rbs e))" "e2 = e\<lparr>es_rbs := es_rbs e2\<rparr>"
    by (rule rb_table.add_new [OF assms(1) ok new]) blast
  have "e2 = e1" using e2(1) added by simp
  note e1 = e2(2,3) [unfolded this]
  have vn: "es_vnics e1 = es_vnics (ds_edge s)" "es_jobs e1 = es_jobs (ds_edge s)"
    using only_rbs(2,4) [OF e1(2)] same by simp_all
  have okv: "okv (es_vnics (ds_edge (s\<lparr>ds_edge := e1\<rparr>)))" using assms(4) vn by simp
  from alloc_tunnel_Inr [OF assms(3) okv taken] obtain v where v: "v \<in> rows (ee_vb ?E) (es_vnics e1)" "vb_edge_id v = i"
      "vb_network_id v = None" "rows (ee_vb ?E) (es_vnics (ds_edge s')) = insert (v\<lparr>vb_network_id := Some n\<rparr>) (rows (ee_vb ?E) (es_vnics e1) - {v})"
      "s' = s\<lparr>ds_edge := e1\<lparr>es_vnics := es_vnics (ds_edge s')\<rparr>\<rparr>" by auto
  have fields: "es_rbs (ds_edge s') = es_rbs e1" "es_jobs (ds_edge s') = es_jobs e1" "ds_static s' = ds_static s" "ds_ports s' = ds_ports s"
    by (subst v(5), simp)+
  let ?b = "\<lparr>rb_router_id = dhcp_resource_id n, rb_edge_id = Some i, rb_lswitch_id = None,
         rb_status = ST_ACTIVE, rb_status_description = None, rb_appliance_size = z, rb_edge_type = SERVICE_EDGE,
         rb_availability_zone = Some (az_name ?zone)\<rparr>"
  have "rows (ee_rb ?E) (es_rbs (ds_edge s')) = insert ?b (rows (ee_rb ?E) (es_rbs (ds_edge s)))"
    unfolding fields(1) e1(1) using same by simp
  moreover have "rb_router_id ?b = dhcp_resource_id n" "rb_edge_id ?b = Some i" "rb_status ?b = ST_ACTIVE" by simp_all
  moreover have "v \<in> rows (ee_vb ?E) (es_vnics (ds_edge s))" using v(1) unfolding vn(1) .
  moreover have "rows (ee_vb ?E) (es_vnics (ds_edge s')) =
      insert (v\<lparr>vb_network_id := Some n\<rparr>) (rows (ee_vb ?E) (es_vnics (ds_edge s)) - {v})"
    using v(4) unfolding vn(1) .
  moreover have "es_jobs (ds_edge s') = es_jobs (ds_edge s)" unfolding fields(2) vn(2) ..
  ultimately show ?thesis using mem v(2,3) fields(3,4) by blast
qed


text \<open>A DHCP edge with a free tunnel, for the witnesses: it serves the network 2, and the network 3 too, whose
  binding is in error. The subnets and addresses of the environment are not used by the choice of an edge.\<close>

definition sample_subnet_env :: subnet_env where
  "sample_subnet_env = \<lparr>sv_subnet = (\<lambda>_. None), sv_ext = (\<lambda>_. None), sv_is_dhcp_metadata = (\<lambda>_. False), sv_dhcp_ip = (\<lambda>_. None),
     sv_lease_time = 86400, sv_nameservers = [], sv_dns_search_domain = None\<rparr>"

definition sample_overlap :: "string list \<Rightarrow> string list \<Rightarrow> py_exc + bool" where
  "sample_overlap xs ys = Inr (\<exists>x \<in> set xs. x \<in> set ys)"

definition sample_dhcp :: "(unit, json, router_binding list, edge_vnic_binding list, tz_network_binding list, network_mapping list,
    internal_network list, edge_dhcp_static_binding list) dhcp_env" where
  "sample_dhcp = \<lparr>dh_routes = sample_routes, dh_nets = list_orm inw_key, dh_net_rows = [], dh_static = list_orm sb_key,
     dh_zone_of = (\<lambda>_. sample_zone []), dh_conflicting = (\<lambda>_. Some [''3'']), dh_subnets = (\<lambda>_. []), dh_ports_on = (\<lambda>_ _. []),
     dh_port_exists = (\<lambda>_. True), dh_subnet_env = sample_subnet_env, dh_teaming = (\<lambda>_ _ w. (Inr (), w)), dh_text = (\<lambda>_. []),
     dh_overlap = sample_overlap, dh_choice = (\<lambda>es _. hd es), dh_has_metadata = False, dh_binding_supported = (\<lambda>_. True)\<rparr>"

definition sample_dhcp_state :: "(unit, router_binding list, edge_vnic_binding list, edge_dhcp_static_binding list) dhcp_state" where
  "sample_dhcp_state = \<lparr>ds_edge = (sample_state [sample_row ''dhcp-2'' ST_ACTIVE (Some ''edge-1''),
        sample_row ''dhcp-3'' ST_ERROR (Some ''edge-1'')])\<lparr>es_vnics := [sample_vnic ''edge-1'' 1 ''2'', free_vnic ''edge-1'' 1 2]\<rparr>,
     ds_static = [], ds_ports = []\<rparr>"

definition sample_subnet :: subnet where
  "sample_subnet = \<lparr>sn_id = ''s'', sn_network_id = ''1'', sn_enable_dhcp = True, sn_gateway_ip = None, sn_dns_nameservers = [],
     sn_host_routes = []\<rparr>"

lemma sample_dhcp_ok:
  "rb_table (dh_env sample_dhcp) (keys_distinct rb_key)" "keys_distinct rb_key (es_rbs (ds_edge sample_dhcp_state))"
  "orm_table (ee_vb (dh_env sample_dhcp)) vb_key (keys_distinct vb_key)"
  "keys_distinct vb_key (es_vnics (ds_edge sample_dhcp_state))"
  "rows (ee_rb (dh_env sample_dhcp)) (es_rbs (ds_edge sample_dhcp_state)) =
     {sample_row ''dhcp-2'' ST_ACTIVE (Some ''edge-1''), sample_row ''dhcp-3'' ST_ERROR (Some ''edge-1'')}"
  "set (re_order (dh_routes sample_dhcp) xs) = set xs"
  "\<not> az_exclusive_dhcp_edge (sample_zone [])"
  using rb_table_sample
  by (simp_all add: sample_dhcp_def sample_routes_def sample_mgr_def sample_dhcp_state_def sample_state_def keys_distinct_def
      rb_key_def sample_row_def sample_env_def list_orm_table sample_vnic_def free_vnic_def vb_key_def sample_zone_def)


theorem conflict_in_error_is_missed_witness:
  "Some ''edge-1'' \<in> set (snd (get_available_edges sample_dhcp ''1'' (Some [''3'']) (sample_zone []) (ds_edge sample_dhcp_state))) \<and>
   rb_of (dh_env sample_dhcp) (dhcp_resource_id ''3'') (ds_edge sample_dhcp_state) = Some (sample_row ''dhcp-3'' ST_ERROR (Some ''edge-1''))"
proof -
  let ?s = "ds_edge sample_dhcp_state"
  let ?b = "sample_row ''dhcp-3'' ST_ERROR (Some ''edge-1'')" and ?c = "sample_row ''dhcp-2'' ST_ACTIVE (Some ''edge-1'')"
  obtain c a where run: "get_available_edges sample_dhcp ''1'' (Some [''3'']) (sample_zone []) ?s = (c, a)" by fastforce
  have free: "ee_tunnels (dh_env sample_dhcp) \<le> free_tunnels (dh_env sample_dhcp) ?s (Some ''edge-1'')"
    and b: "rb_of (dh_env sample_dhcp) (dhcp_resource_id ''3'') ?s = Some ?b" and id: "dhcp_resource_id ''3'' = ''dhcp-3''"
    by code_simp+
  have rows: "?b \<in> rows (ee_rb (dh_env sample_dhcp)) (es_rbs ?s)" "?c \<in> rows (ee_rb (dh_env sample_dhcp)) (es_rbs ?s)"
    unfolding sample_dhcp_ok(5) by (rule insertI2, rule insertI1, rule insertI1)
  have fields: "rb_router_id ?b = dhcp_resource_id ''3''" "rb_status ?b = ST_ERROR" "rb_edge_id ?b = Some ''edge-1''"
    "dhcp_row (sample_zone []) ?c" "rb_edge_id ?c = Some ''edge-1''"
    unfolding id by (simp_all add: dhcp_row_def sample_row_def startswith_def sample_zone_def)
  from conflict_in_error_is_missed [OF sample_dhcp_ok(1,2,6) run sample_dhcp_ok(7) rows(1) fields(1-3) rows(2) fields(4,5) free] b
  show ?thesis by (simp add: run)
qed

theorem network_joins_available_edge_witness:
  "\<exists>s'. create_dhcp_edge_service sample_dhcp ''1'' sample_subnet sample_dhcp_state = (Inr None, s') \<and>
     (\<exists>b \<in> rows (ee_rb (dh_env sample_dhcp)) (es_rbs (ds_edge s')). rb_router_id b = ''dhcp-1'' \<and> rb_status b = ST_ACTIVE) \<and>
     es_jobs (ds_edge s') = []"
proof -
  have run: "fst (create_dhcp_edge_service sample_dhcp ''1'' sample_subnet sample_dhcp_state) = Inr None"
    and none: "binding_of sample_dhcp (dhcp_resource_id ''1'') sample_dhcp_state = None" and id: "dhcp_resource_id ''1'' = ''dhcp-1''"
    and jobs: "es_jobs (ds_edge sample_dhcp_state) = []"
    by code_simp+
  obtain s' where s': "create_dhcp_edge_service sample_dhcp ''1'' sample_subnet sample_dhcp_state = (Inr None, s')"
    using run by (cases "create_dhcp_edge_service sample_dhcp ''1'' sample_subnet sample_dhcp_state") simp
  from network_joins_available_edge [OF sample_dhcp_ok(1-4) none s'] obtain b where
    "rows (ee_rb (dh_env sample_dhcp)) (es_rbs (ds_edge s')) =
       insert b (rows (ee_rb (dh_env sample_dhcp)) (es_rbs (ds_edge sample_dhcp_state)))"
    "rb_router_id b = dhcp_resource_id ''1''" "rb_status b = ST_ACTIVE" "es_jobs (ds_edge s') = []"
    unfolding jobs by (elim exE conjE)
  with s' show ?thesis unfolding id by (intro exI [of _ s'] conjI bexI [of _ b]) simp_all
qed

definition sample_sub :: "int \<Rightarrow> string \<Rightarrow> string \<Rightarrow> json" where
  "sample_sub t a switch = sub_interface ''if'' t (Some switch) [JObj [(''primaryAddress'', JStr a), (''subnetPrefixLength'', JStr ''24'')]]"

theorem sent_sub_interfaces_do_not_overlap_witness:
  "\<exists>l. check_subs sample_dhcp 2 [JObj [(''primaryAddress'', JStr ''10.0.0.1''), (''subnetPrefixLength'', JStr ''24'')]]
      (JObj [(''subInterfaces'', JList [sample_sub 1 ''10.0.0.1'' ''gone'', sample_sub 3 ''10.1.0.1'' ''vw-3''])]) =
        Inr (l, True) \<and>
      sample_sub 3 ''10.1.0.1'' ''vw-3'' \<in> set l \<and> sample_sub 1 ''10.0.0.1'' ''gone'' \<notin> set l"
proof -
  let ?groups = "[JObj [(''primaryAddress'', JStr ''10.0.0.1''), (''subnetPrefixLength'', JStr ''24'')]]"
  let ?is = "[sample_sub 1 ''10.0.0.1'' ''gone'', sample_sub 3 ''10.1.0.1'' ''vw-3'']"
  let ?d = "JObj [(''subInterfaces'', JList ?is)]"
  have d: "truthy_json ?d" "bind_res (jfield_opt ''subInterfaces'' ?d) as_list = Inr ?is"
    by (simp_all add: bind_res_def)
  have c: "group_cidrs ?groups = Inr [''10.0.0.1/24'']" by code_simp
  have run: "check_subs sample_dhcp 2 ?groups ?d = Inr ([sample_sub 3 ''10.1.0.1'' ''vw-3''], True)"
    by code_simp
  from sent_sub_interfaces_do_not_overlap [OF run d c] have "\<forall>j \<in> set [sample_sub 3 ''10.1.0.1'' ''vw-3''].
      j \<in> set ?is \<and> jfield ''tunnelId'' j \<noteq> Inr (JInt 2) \<and> overlapping sample_dhcp [''10.0.0.1/24''] j = Inr False"
    by auto
  moreover have "sample_sub 1 ''10.0.0.1'' ''gone'' \<noteq> sample_sub 3 ''10.1.0.1'' ''vw-3''" by code_simp
  ultimately show ?thesis using run by (intro exI [of _ "[sample_sub 3 ''10.1.0.1'' ''vw-3'']"]) simp
qed


end
