(* ===== verification/EdgeFirewall.thy ===== *)
theory EdgeFirewall
  imports VcnsApi NsxvDb
begin

text \<open>
  The firewall of an edge (\<open>vshield/edge_firewall_driver.py\<close>): the rules of the plugin and those of the manager, both
  dictionaries, the conversion between them, and the operations that keep the table of the rules' identifiers. The text
  of a list or a dictionary, which only a malformed answer makes the code ask for, is a parameter.
\<close>

subsection \<open>State and errors\<close>

datatype 'd fw_exc = Fw_manager "'d vcns_exc" | Fw_db db_error | Fw_bad_request | Fw_not_found | Fw_no_resource string

record ('w, 'd, 't) fw_env =
  fe_vcns :: "('w, 'd) vcns"
  fe_rows :: "('t, firewall_rule_binding) orm"
  fe_text :: "json \<Rightarrow> string"

record ('w, 't) fw_state =
  fs_world :: 'w
  fs_rows :: 't
  fs_icmp_echo :: "json list option"
  fs_icmpv6_multicast :: "json list option"

type_synonym ('w, 'd, 't, 'a) fw_op = "('w, 't) fw_state \<Rightarrow> ('d fw_exc + 'a) \<times> ('w, 't) fw_state"

definition fw_raise :: "py_exc + 'a \<Rightarrow> ('w, 'd, 't, 'a) fw_op" where
  "fw_raise r s = (case r of Inl e \<Rightarrow> Inl (Fw_manager (VPy e)) | Inr x \<Rightarrow> Inr x, s)"

definition fw_pure :: "'d fw_exc + 'a \<Rightarrow> ('w, 'd, 't, 'a) fw_op" where
  "fw_pure r s = (r, s)"

definition on_manager :: "('w, 'd, 'a) vcns_op \<Rightarrow> ('w, 'd, 't, 'a) fw_op" where
  "on_manager m s =
     (case m (fs_world s) of (r, w) \<Rightarrow> (case r of Inl e \<Rightarrow> Inl (Fw_manager e) | Inr x \<Rightarrow> Inr x, s\<lparr>fs_world := w\<rparr>))"

definition py :: "py_exc + 'a \<Rightarrow> 'd fw_exc + 'a" where
  "py r = (case r of Inl e \<Rightarrow> Inl (Fw_manager (VPy e)) | Inr x \<Rightarrow> Inr x)"

definition db :: "db_error + 'a \<Rightarrow> 'd fw_exc + 'a" where
  "db r = (case r of Inl e \<Rightarrow> Inl (Fw_db e) | Inr x \<Rightarrow> Inr x)"

text \<open>The value of a text column.\<close>

fun column_text :: "json \<Rightarrow> db_error + string" where
  "column_text (JStr s) = Inr s"
| "column_text (JInt i) = Inr (int_str i)"
| "column_text _ = Inl DBError"

fun py_text :: "(json \<Rightarrow> string) \<Rightarrow> json \<Rightarrow> string" where
  "py_text f JNull = ''None''"
| "py_text f (JBool b) = (if b then ''True'' else ''False'')"
| "py_text f (JInt i) = int_str i"
| "py_text f (JStr s) = s"
| "py_text f j = f j"

subsection \<open>Actions and ports\<close>

definition convert_firewall_action :: "json \<Rightarrow> 'd fw_exc + json" where
  "convert_firewall_action action =
     (if action = JStr ''allow'' then Inr (JStr ''accept'') else if action = JStr ''deny'' then Inr (JStr ''deny'')
      else if action = JStr ''reject'' then Inr (JStr ''reject'') else Inl Fw_bad_request)"

definition restore_firewall_action :: "json \<Rightarrow> 'd fw_exc + json" where
  "restore_firewall_action action =
     (if action = JStr ''accept'' then Inr (JStr ''allow'') else if action = JStr ''deny'' then Inr (JStr ''deny'')
      else if action = JStr ''reject'' then Inr (JStr ''reject'') else Inl Fw_bad_request)"

text \<open>\<open>%d\<close> takes numbers only.\<close>

definition percent_d :: "json \<Rightarrow> py_exc + string" where
  "percent_d j = (case j of JInt i \<Rightarrow> Inr (int_str i) | JBool b \<Rightarrow> Inr (if b then ''1'' else ''0'') | _ \<Rightarrow> Inl TypeError)"

definition get_port_range :: "(json \<Rightarrow> string) \<Rightarrow> json \<Rightarrow> json \<Rightarrow> py_exc + json" where
  "get_port_range f min_port max_port =
     (if \<not> truthy_json min_port \<or> min_port = JStr ''any'' then Inr JNull
      else if min_port = max_port then Inr (JStr (py_text f min_port))
      else bind_res (percent_d min_port) (\<lambda>a. bind_res (percent_d max_port) (\<lambda>b. Inr (JStr (a @ '':'' @ b)))))"

definition int_or_error :: "string \<Rightarrow> py_exc + int" where
  "int_or_error s = (case py_int s of None \<Rightarrow> Inl ValueError | Some i \<Rightarrow> Inr i)"

definition is_digits :: "string \<Rightarrow> bool" where
  "is_digits s \<longleftrightarrow> s \<noteq> [] \<and> (\<forall>c \<in> set s. 48 \<le> (of_char c :: nat) \<and> (of_char c :: nat) \<le> 57)"

definition numbers_in :: "string list \<Rightarrow> int list" where
  "numbers_in parts = map (\<lambda>p. the (py_int p)) (filter is_digits (map py_strip parts))"

fun ports_of_text :: "string \<Rightarrow> py_exc + json list" where
  "ports_of_text s =
     (if s = ''any'' then Inr []
      else if CHR '':'' \<in> set s then
        bind_res (int_or_error (takeWhile (\<lambda>c. c \<noteq> CHR '':'') s)) (\<lambda>a.
        bind_res (int_or_error (tl (dropWhile (\<lambda>c. c \<noteq> CHR '':'') s))) (\<lambda>b. Inr [JStr (int_str a @ ''-'' @ int_str b)]))
      else if CHR '','' \<in> set s then Inr (map JInt (sort (remdups (numbers_in (split_at_char (CHR '','') s)))))
      else bind_res (int_or_error s) (\<lambda>i. Inr [JInt i]))"

text \<open>A value that is not a text: \<open>in\<close> raises for a number, and a list has no \<open>partition\<close>, \<open>split\<close> or \<open>strip\<close>.\<close>

definition get_ports_list_from_string :: "json \<Rightarrow> py_exc + json list" where
  "get_ports_list_from_string port_str =
     (if \<not> truthy_json port_str then Inr []
      else (case port_str of JStr s \<Rightarrow> ports_of_text s | JList _ \<Rightarrow> Inl AttributeError | JObj _ \<Rightarrow> Inl AttributeError | _ \<Rightarrow> Inl TypeError))"

subsection \<open>Conversion of rules\<close>

text \<open>One field that is written when another is set.\<close>

definition when_set :: "string \<Rightarrow> json \<Rightarrow> (json \<Rightarrow> py_exc + json) \<Rightarrow> string \<Rightarrow> json \<Rightarrow> py_exc + json" where
  "when_set k rule f k' out =
     bind_res (jfield_opt k rule) (\<lambda>v. if truthy_json v then bind_res (f v) (\<lambda>x. Inr (jset k' x out)) else Inr out)"

definition ports_value :: "json \<Rightarrow> py_exc + json" where
  "ports_value v = bind_res (get_ports_list_from_string v) (\<lambda>l. Inr (JList l))"

definition convert_service :: "json \<Rightarrow> py_exc + json" where
  "convert_service rule =
     bind_res (when_set ''source_port'' rule ports_value ''sourcePort'' (JObj [])) (\<lambda>service.
     bind_res (when_set ''destination_port'' rule ports_value ''port'' service) (\<lambda>service.
     bind_res (jfield_opt ''protocol'' rule) (\<lambda>p.
       if \<not> truthy_json p then Inr service
       else
         let service = jset ''protocol'' p service in
         if p \<noteq> JStr ''icmp'' then Inr service
         else bind_res (jfield_opt ''icmp_type'' rule) (\<lambda>t. Inr (jset ''icmpType'' (if truthy_json t then t else JStr ''any'') service)))))"

definition convert_rule_fields :: "json \<Rightarrow> json \<Rightarrow> json \<Rightarrow> py_exc + json" where
  "convert_rule_fields rule index r =
     bind_res (when_set ''name'' rule Inr ''name'' r) (\<lambda>r.
     bind_res (when_set ''description'' rule Inr ''description'' r) (\<lambda>r.
     bind_res (when_set ''source_ip_address'' rule (\<lambda>v. Inr (JObj [(''ipAddress'', v)])) ''source'' r) (\<lambda>r.
     bind_res (when_set ''source_vnic_groups'' rule (\<lambda>v. Inr (JObj [(''vnicGroupId'', v)])) ''source'' r) (\<lambda>r.
     bind_res (when_set ''destination_ip_address'' rule (\<lambda>v. Inr (JObj [(''ipAddress'', v)])) ''destination'' r) (\<lambda>r.
     bind_res (when_set ''destination_vnic_groups'' rule (\<lambda>v. Inr (JObj [(''vnicGroupId'', v)])) ''destination'' r) (\<lambda>r.
     bind_res (when_set ''application'' rule Inr ''application'' r) (\<lambda>r.
     bind_res (convert_service rule) (\<lambda>service.
     bind_res (when_set ''ruleId'' rule Inr ''ruleId'' r) (\<lambda>r.
       let r = (if truthy_json service then jset ''application'' (JObj [(''service'', JList [service])]) r else r) in
     bind_res (when_set ''logged'' rule Inr ''loggingEnabled'' r) (\<lambda>r.
       Inr (if truthy_json index then jset ''ruleTag'' index r else r)))))))))))"

definition convert_firewall_rule :: "json \<Rightarrow> json \<Rightarrow> 'd fw_exc + json" where
  "convert_firewall_rule rule index =
     bind_res (py (jfield ''action'' rule)) (\<lambda>a. bind_res (convert_firewall_action a) (\<lambda>action.
     bind_res (py (jfield_default ''enabled'' (JBool True) rule)) (\<lambda>enabled.
       py (convert_rule_fields rule index (JObj [(''action'', action), (''enabled'', enabled)])))))"






subsection \<open>Rules that the manager reports\<close>

definition rule_of_vse :: "('w, 'd, 't) fw_env \<Rightarrow> 't \<Rightarrow> string \<Rightarrow> json \<Rightarrow> 'd fw_exc + firewall_rule_binding option" where
  "rule_of_vse E t edge_id rule_id =
     bind_res (db (column_text rule_id)) (\<lambda>v. db (get_nsxv_edge_firewallrule_binding_by_vseid (fe_rows E) t edge_id v))"

text \<open>The addresses and groups of one end of a rule.\<close>

definition restore_end :: "string \<Rightarrow> json \<Rightarrow> json \<Rightarrow> py_exc + json" where
  "restore_end k rule r =
     bind_res (jfield_opt k rule) (\<lambda>d.
       if \<not> truthy_json d then Inr r
       else bind_res (jfield ''ipAddress'' d) (\<lambda>a. bind_res (jfield ''vnicGroupId'' d) (\<lambda>g.
            Inr (jset (k @ ''_vnic_groups'') g (jset (k @ ''_ip_address'') a r)))))"

definition restore_ports :: "(json \<Rightarrow> string) \<Rightarrow> string \<Rightarrow> string \<Rightarrow> string \<Rightarrow> json \<Rightarrow> json \<Rightarrow> py_exc + json" where
  "restore_ports f test k k' service r =
     bind_res (jfield_opt test service) (\<lambda>v.
       if \<not> truthy_json v then Inr r
       else bind_res (jfield k service) (\<lambda>l. bind_res (json_hd l) (\<lambda>a. bind_res (json_last l) (\<lambda>b.
            bind_res (get_port_range f a b) (\<lambda>p. Inr (jset k' p r))))))"

text \<open>The destination ports are only read if the service has the field \<open>destination_port\<close>, which is the plugin's name
  of them, not the manager's.\<close>

definition restore_service :: "(json \<Rightarrow> string) \<Rightarrow> json \<Rightarrow> json \<Rightarrow> py_exc + json" where
  "restore_service f rule r =
     bind_res (py_in (JStr ''application'') rule) (\<lambda>has. if \<not> has then Inr r else
     bind_res (jfield ''application'' rule) (\<lambda>app. bind_res (py_in (JStr ''service'') app) (\<lambda>has. if \<not> has then Inr r else
     bind_res (jfield ''service'' app) (\<lambda>l. bind_res (json_hd l) (\<lambda>service. bind_res (jfield ''protocol'' service) (\<lambda>p.
     bind_res (restore_ports f ''sourcePort'' ''sourcePort'' ''source_port'' service (jset ''protocol'' p r)) (\<lambda>r.
     restore_ports f ''destination_port'' ''port'' ''destination_port'' service r)))))))"

definition restore_firewall_rule :: "('w, 'd, 't) fw_env \<Rightarrow> 't \<Rightarrow> string \<Rightarrow> json \<Rightarrow> 'd fw_exc + json" where
  "restore_firewall_rule E t edge_id rule =
     bind_res (py (jfield ''ruleId'' rule)) (\<lambda>rule_id. bind_res (rule_of_vse E t edge_id rule_id) (\<lambda>b.
       let r = JObj ((case b of None \<Rightarrow> [] | Some b \<Rightarrow> [(''id'', JStr (fr_rule_id b))]) @ [(''ruleId'', rule_id)]) in
     bind_res (py (restore_end ''source'' rule r)) (\<lambda>r.
     bind_res (py (restore_end ''destination'' rule r)) (\<lambda>r.
     bind_res (py (restore_service (fe_text E) rule r)) (\<lambda>r.
     bind_res (py (jfield ''action'' rule)) (\<lambda>a. bind_res (restore_firewall_action a) (\<lambda>action.
     bind_res (py (jfield ''enabled'' rule)) (\<lambda>enabled.
       let r = jset ''enabled'' enabled (jset ''action'' action r) in
     bind_res (py (when_set ''name'' rule Inr ''name'' r)) (\<lambda>r.
     bind_res (py (when_set ''description'' rule Inr ''description'' r)) (\<lambda>r.
     py (when_set ''loggingEnabled'' rule Inr ''logged'' r)))))))))))"

definition reported_rules :: "json \<Rightarrow> py_exc + json list" where
  "reported_rules response = bind_res (jfield ''firewallRules'' response) (\<lambda>j. bind_res (jfield ''firewallRules'' j) as_list)"

fun restore_rules :: "('w, 'd, 't) fw_env \<Rightarrow> 't \<Rightarrow> string \<Rightarrow> json list \<Rightarrow> 'd fw_exc + json list" where
  "restore_rules E t edge_id [] = Inr []"
| "restore_rules E t edge_id (rule # rules) =
     bind_res (py (jfield_opt ''ruleType'' rule)) (\<lambda>k.
       if k = JStr ''default_policy'' then restore_rules E t edge_id rules
       else bind_res (restore_firewall_rule E t edge_id rule) (\<lambda>r. bind_res (restore_rules E t edge_id rules) (\<lambda>rs.
            Inr (JObj [(''firewall_rule'', r)] # rs))))"

definition restore_firewall :: "('w, 'd, 't) fw_env \<Rightarrow> 't \<Rightarrow> string \<Rightarrow> json \<Rightarrow> 'd fw_exc + json" where
  "restore_firewall E t edge_id response =
     bind_res (py (reported_rules response)) (\<lambda>rules. bind_res (restore_rules E t edge_id rules) (\<lambda>rs.
       Inr (JObj [(''firewall_rule_list'', JList rs)])))"

subsection \<open>Operations\<close>

definition read_firewall :: "('w, 'd, 't) fw_env \<Rightarrow> string \<Rightarrow> ('w, 'd, 't, json) fw_op" where
  "read_firewall E edge_id = on_manager (with_body (VcnsApi.get_firewall (fe_vcns E) edge_id) Inr)"

text \<open>The rule after the one with an identifier; also none if no rule has it.\<close>

fun rule_after :: "(json \<Rightarrow> string) \<Rightarrow> string \<Rightarrow> json list \<Rightarrow> py_exc + json option" where
  "rule_after f vse [] = Inr None"
| "rule_after f vse (r # rs) =
     bind_res (jfield ''ruleId'' r) (\<lambda>i. if py_text f i = vse then Inr (case rs of [] \<Rightarrow> None | next # _ \<Rightarrow> Some next) else rule_after f vse rs)"

definition get_firewall_rule_next :: "('w, 'd, 't) fw_env \<Rightarrow> string \<Rightarrow> string \<Rightarrow> ('w, 'd, 't, json option) fw_op" where
  "get_firewall_rule_next E edge_id vse =
     bind_st (read_firewall E edge_id) (\<lambda>j. fw_raise (bind_res (reported_rules j) (rule_after (fe_text E) vse)))"

definition binding_of :: "('w, 'd, 't) fw_env \<Rightarrow> string \<Rightarrow> string \<Rightarrow> ('w, 't) fw_state \<Rightarrow> firewall_rule_binding option" where
  "binding_of E rule edge_id s = get_nsxv_edge_firewallrule_binding (fe_rows E) (fs_rows s) rule edge_id"

text \<open>\<open>rule_map.rule_vseid\<close>: the column is called \<open>rule_vse_id\<close>, and the model of the table has no other name for it. So neither
  a binding nor a missing one has this attribute.\<close>

definition rule_vseid :: "firewall_rule_binding option \<Rightarrow> py_exc + string" where
  "rule_vseid b = Inl AttributeError"

definition fw_get_rule :: "('w, 'd, 't) fw_env \<Rightarrow> string \<Rightarrow> string \<Rightarrow> ('w, 'd, 't, json) fw_op" where
  "fw_get_rule E rule edge_id s =
     (case binding_of E rule edge_id s of
        None \<Rightarrow> (Inl Fw_not_found, s)
      | Some b \<Rightarrow>
          bind_st (fw_raise (rule_vseid (Some b))) (\<lambda>vse.
          bind_st (on_manager (with_body (VcnsApi.get_firewall_rule (fe_vcns E) edge_id vse) Inr)) (\<lambda>j s.
            fw_pure (restore_firewall_rule E (fs_rows s) edge_id j) s)) s)"

definition fw_get :: "('w, 'd, 't) fw_env \<Rightarrow> string \<Rightarrow> ('w, 'd, 't, json) fw_op" where
  "fw_get E edge_id = bind_st (read_firewall E edge_id) (\<lambda>j s. fw_pure (restore_firewall E (fs_rows s) edge_id j) s)"

definition forget_rules :: "('w, 'd, 't) fw_env \<Rightarrow> string \<Rightarrow> ('w, 'd, 't, unit) fw_op" where
  "forget_rules E edge_id s = (Inr (), s\<lparr>fs_rows := cleanup_nsxv_edge_firewallrule_binding (fe_rows E) (fs_rows s) edge_id\<rparr>)"

definition fw_delete :: "('w, 'd, 't) fw_env \<Rightarrow> string \<Rightarrow> ('w, 'd, 't, unit) fw_op" where
  "fw_delete E edge_id = bind_st (on_manager (VcnsApi.delete_firewall (fe_vcns E) edge_id)) (\<lambda>_. forget_rules E edge_id)"

definition vse_of :: "('w, 'd, 't) fw_env \<Rightarrow> string \<Rightarrow> string \<Rightarrow> ('w, 'd, 't, string) fw_op" where
  "vse_of E rule edge_id s = fw_raise (rule_vseid (binding_of E rule edge_id s)) s"

definition fw_update_rule :: "('w, 'd, 't) fw_env \<Rightarrow> string \<Rightarrow> string \<Rightarrow> json \<Rightarrow> ('w, 'd, 't, unit) fw_op" where
  "fw_update_rule E rule edge_id firewall_rule =
     bind_st (vse_of E rule edge_id) (\<lambda>vse. bind_st (fw_pure (convert_firewall_rule firewall_rule JNull)) (\<lambda>req.
     bind_st (on_manager (VcnsApi.update_firewall_rule (fe_vcns E) edge_id vse req)) (\<lambda>_. return_st ())))"

definition fw_delete_rule :: "('w, 'd, 't) fw_env \<Rightarrow> string \<Rightarrow> string \<Rightarrow> ('w, 'd, 't, unit) fw_op" where
  "fw_delete_rule E rule edge_id =
     bind_st (vse_of E rule edge_id) (\<lambda>vse.
     bind_st (on_manager (VcnsApi.delete_firewall_rule (fe_vcns E) edge_id vse)) (\<lambda>_ s.
       case delete_nsxv_edge_firewallrule_binding (fe_rows E) (fs_rows s) rule of
         Inl e \<Rightarrow> (Inl (Fw_db e), s) | Inr t \<Rightarrow> (Inr (), s\<lparr>fs_rows := t\<rparr>)))"

definition bind_rule :: "('w, 'd, 't) fw_env \<Rightarrow> string \<Rightarrow> json \<Rightarrow> json \<Rightarrow> ('w, 'd, 't, unit) fw_op" where
  "bind_rule E edge_id rule vse s =
     (case bind_res (column_text rule) (\<lambda>i. bind_res (column_text vse) (\<lambda>v.
        add_nsxv_edge_firewallrule_binding (fe_rows E) (fs_rows s) \<lparr>fm_rule_id = i, fm_rule_vseid = v, fm_edge_id = edge_id\<rparr>)) of
        Inl e \<Rightarrow> (Inl (Fw_db e), s)
      | Inr (_, t) \<Rightarrow> (Inr (), s\<lparr>fs_rows := t\<rparr>))"

definition bind_added :: "('w, 'd, 't) fw_env \<Rightarrow> string \<Rightarrow> json \<Rightarrow> headers \<times> 'd content \<Rightarrow> ('w, 'd, 't, unit) fw_op" where
  "bind_added E edge_id firewall_rule r =
     bind_st (fw_raise (case map_of (fst r) ''location'' of None \<Rightarrow> Inl KeyError | Some l \<Rightarrow> Inr l)) (\<lambda>l.
     bind_st (fw_raise (jfield ''id'' firewall_rule)) (\<lambda>i.
       bind_rule E edge_id i (JStr (rev (takeWhile (\<lambda>c. c \<noteq> CHR ''/'') (rev l))))))"

definition add_rule_above :: "('w, 'd, 't) fw_env \<Rightarrow> string \<Rightarrow> string \<Rightarrow> json \<Rightarrow> ('w, 'd, 't, unit) fw_op" where
  "add_rule_above E ref_rule edge_id firewall_rule =
     bind_st (vse_of E ref_rule edge_id) (\<lambda>vse. bind_st (fw_pure (convert_firewall_rule firewall_rule JNull)) (\<lambda>req.
     bind_st (on_manager (add_firewall_rule_above (fe_vcns E) edge_id vse req)) (bind_added E edge_id firewall_rule)))"

text \<open>\<open>add_firewall_rule_above\<close> appends the identifier to the text of the address, which a number does not allow.\<close>

definition add_above_number :: "('w, 'd, 't) fw_env \<Rightarrow> string \<Rightarrow> int \<Rightarrow> json \<Rightarrow> ('w, 'd, 't, headers \<times> 'd content) fw_op" where
  "add_above_number E edge_id ref_rule req = fw_raise (Inl TypeError)"

definition add_rule_below :: "('w, 'd, 't) fw_env \<Rightarrow> string \<Rightarrow> string \<Rightarrow> json \<Rightarrow> ('w, 'd, 't, unit) fw_op" where
  "add_rule_below E ref_rule edge_id firewall_rule =
     bind_st (vse_of E ref_rule edge_id) (\<lambda>vse. bind_st (get_firewall_rule_next E edge_id vse) (\<lambda>next.
     bind_st (fw_pure (convert_firewall_rule firewall_rule JNull)) (\<lambda>req.
     bind_st
       (case next of
          Some j \<Rightarrow>
            if truthy_json j then bind_st (fw_raise (bind_res (jfield ''ruleId'' j) json_int)) (\<lambda>i. add_above_number E edge_id i req)
            else on_manager (add_firewall_rule (fe_vcns E) edge_id req)
        | None \<Rightarrow> on_manager (add_firewall_rule (fe_vcns E) edge_id req))
       (bind_added E edge_id firewall_rule))))"

definition insert_rule :: "('w, 'd, 't) fw_env \<Rightarrow> json \<Rightarrow> string \<Rightarrow> json \<Rightarrow> ('w, 'd, 't, unit) fw_op" where
  "insert_rule E rule_info edge_id fwr =
     bind_st (fw_raise (jfield_opt ''insert_before'' rule_info)) (\<lambda>before.
       if truthy_json before then bind_st (fw_pure (db (column_text before))) (\<lambda>r. add_rule_above E r edge_id fwr)
       else bind_st (fw_raise (jfield_opt ''insert_after'' rule_info)) (\<lambda>after.
         if truthy_json after then bind_st (fw_pure (db (column_text after))) (\<lambda>r. add_rule_below E r edge_id fwr)
         else fw_pure (Inl Fw_bad_request)))"






subsection \<open>Applications\<close>

fun application_ids :: "string list \<Rightarrow> json list \<Rightarrow> py_exc + json list" where
  "application_ids names [] = Inr []"
| "application_ids names (r # rs) =
     bind_res (map_res (\<lambda>n. bind_res (jfield ''name'' r) (\<lambda>m.
         if m = JStr n then bind_res (jfield ''objectId'' r) (\<lambda>i. Inr [i]) else Inr [])) names) (\<lambda>found.
     bind_res (application_ids names rs) (\<lambda>rest. Inr (concat found @ rest)))"

definition get_application_ids :: "('w, 'd, 't) fw_env \<Rightarrow> string list \<Rightarrow> ('w, 'd, 't, json list) fw_op" where
  "get_application_ids E names =
     bind_st (on_manager (list_applications (fe_vcns E))) (\<lambda>j. fw_raise (bind_res (as_list j) (application_ids names)))"

text \<open>Asked for once: a list that was found is kept.\<close>

definition cached_ids :: "('w, 'd, 't) fw_env \<Rightarrow> (('w, 't) fw_state \<Rightarrow> json list option) \<Rightarrow>
    (json list \<Rightarrow> ('w, 't) fw_state \<Rightarrow> ('w, 't) fw_state) \<Rightarrow> string list \<Rightarrow> string \<Rightarrow> ('w, 'd, 't, json list) fw_op" where
  "cached_ids E get put names res_name s =
     (case get s of
        Some (i # is) \<Rightarrow> (Inr (i # is), s)
      | _ \<Rightarrow> bind_st (get_application_ids E names) (\<lambda>ids s.
               if ids = [] then (Inl (Fw_no_resource res_name), put ids s) else (Inr ids, put ids s)) s)"

definition get_icmp_echo_application_ids :: "('w, 'd, 't) fw_env \<Rightarrow> ('w, 'd, 't, json list) fw_op" where
  "get_icmp_echo_application_ids E =
     cached_ids E fs_icmp_echo (\<lambda>ids s. s\<lparr>fs_icmp_echo := Some ids\<rparr>) [''ICMP Echo'', ''IPv6-ICMP Echo''] ''ICMP Echo''"

definition get_icmpv6_multicast_application_ids :: "('w, 'd, 't) fw_env \<Rightarrow> ('w, 'd, 't, json list) fw_op" where
  "get_icmpv6_multicast_application_ids E =
     cached_ids E fs_icmpv6_multicast (\<lambda>ids s. s\<lparr>fs_icmpv6_multicast := Some ids\<rparr>)
       [''IPv6-ICMP Version 2 Multicast Listener'', ''IPv6-ICMP Multicast Listener Query''] ''ICMPv6 Multicast''"

subsection \<open>Operations on one rule\<close>

lemma no_vse: "vse_of E rule edge_id s = (Inl (Fw_manager (VPy AttributeError)), s)"
  by (simp add: vse_of_def rule_vseid_def fw_raise_def)

text \<open>the operations on one rule read an attribute that a binding does not have: each raises an \<open>AttributeError\<close> before it
  has sent anything or changed the table, whatever the rule and the table are; reading a rule does so if it has a binding.\<close>

theorem single_rule_operations_fail:
  assumes "truthy_json ref"
  shows "fw_update_rule E rule edge_id j s = (Inl (Fw_manager (VPy AttributeError)), s) \<and>
    fw_delete_rule E rule edge_id s = (Inl (Fw_manager (VPy AttributeError)), s) \<and>
    fw_get_rule E rule edge_id s =
      (Inl (if binding_of E rule edge_id s = None then Fw_not_found else Fw_manager (VPy AttributeError)), s) \<and>
    (\<forall>place \<in> {''insert_before'', ''insert_after''}. insert_rule E (JObj [(place, ref)]) edge_id j s =
      (Inl (case column_text ref of Inl e \<Rightarrow> Fw_db e | Inr _ \<Rightarrow> Fw_manager (VPy AttributeError)), s))"
  using assms
  by (simp add: fw_update_rule_def fw_delete_rule_def fw_get_rule_def insert_rule_def add_rule_above_def add_rule_below_def
      bind_st_def no_vse fw_raise_def rule_vseid_def fw_pure_def db_def split: option.split sum.split)

subsection \<open>Ports\<close>



















subsection \<open>The tags that are sent\<close>



lemma py_Inr [simp]: "py r = Inr x \<longleftrightarrow> r = Inr x"
  by (auto simp: py_def split: sum.splits)




subsection \<open>The identifiers that are kept\<close>









text \<open>A manager that keeps the rules it is sent and numbers them.\<close>

fun with_ids :: "nat \<Rightarrow> json list \<Rightarrow> json list" where
  "with_ids n [] = []"
| "with_ids n (r # rs) = jset ''ruleId'' (JStr (''v'' @ nat_str n)) r # with_ids (Suc n) rs"

definition firewall_vcns :: "(json, json) vcns" where
  "firewall_vcns = \<lparr>exchange = (\<lambda>w _ _ _ _ b. case b of
         Some c \<Rightarrow> (Response 200 [] (JObj []), JObj [(''firewallRules'', JObj [(''firewallRules'',
           JList (case reported_rules c of Inr rs \<Rightarrow> with_ids 131 rs | Inl _ \<Rightarrow> []))])])
       | None \<Rightarrow> (Response 200 [] w, w)),
     v_loads = Some, json_dumps = id, xml_dumps = id, xml_errorcode = (\<lambda>_. None),
     to_int = (\<lambda>j. case j of JInt i \<Rightarrow> Some i | _ \<Rightarrow> None), is_empty = (\<lambda>_. False), max_retries = 3\<rparr>"

definition sample_fw_env :: "(json, json, firewall_rule_binding list) fw_env" where
  "sample_fw_env = \<lparr>fe_vcns = firewall_vcns, fe_rows = list_orm fr_key, fe_text = (\<lambda>_. [])\<rparr>"

definition sample_fw_state :: "(json, firewall_rule_binding list) fw_state" where
  "sample_fw_state = \<lparr>fs_world = JNull, fs_rows = [\<lparr>fr_rule_id = ''r1'', fr_edge_id = ''edge-1'', fr_rule_vse_id = ''old''\<rparr>,
     \<lparr>fr_rule_id = ''r1'', fr_edge_id = ''edge-2'', fr_rule_vse_id = ''v9''\<rparr>], fs_icmp_echo = None, fs_icmpv6_multicast = None\<rparr>"









theorem single_rule_operations_fail_witness:
  "insert_rule sample_fw_env (JObj [(''insert_before'', JStr ''r1'')]) ''edge-2'' (JObj []) sample_fw_state =
    (Inl (Fw_manager (VPy AttributeError)), sample_fw_state)"
  using single_rule_operations_fail [of "JStr ''r1''" sample_fw_env _ "''edge-2''" "JObj []" sample_fw_state] by simp

end
