(* ===== verification/Housekeeper.thy ===== *)
theory Housekeeper
  imports EdgeDhcp
begin

text \<open>
  The housekeeper (\<open>plugins/common/housekeeper/\<close>) and its two jobs for edges
  (\<open>plugins/nsx_v/housekeeper/\<close>): \<open>error_backup_edge\<close> redeploys or deletes the pooled edges in error, and
  \<open>error_dhcp_edge\<close> brings the tables and the sub-interfaces of the DHCP edges in error in line. The values that
  the manager reports are changed in place, also while the code iterates over them: a loop over such a list goes by
  position, as Python's does, and the loop that appends to the list it is going over is a partial function.
  Notification by mail, and the locks, are left out.
\<close>

subsection \<open>The housekeeper\<close>

text \<open>A result of a job, and the text that grows by a line for each message.\<close>

record hk_result =
  hk_error_count :: nat
  hk_fixed_count :: nat
  hk_error_info :: string

definition newline :: string where "newline = [char_of (10 :: nat)]"

definition housekeeper_warning :: "string \<Rightarrow> string \<Rightarrow> string" where
  "housekeeper_warning info msg = (if info \<noteq> [] then info @ newline @ msg else msg)"

record ('e, 's) hk_job =
  job_name :: string
  job_description :: string
  job_run :: "bool \<Rightarrow> 's \<Rightarrow> (('e + hk_result) \<times> 's) option"

datatype 'e hk_exc = ObjectNotFound string | AdminRequired | JobFailed 'e

record ('e, 's) housekeeper =
  hk_readonly :: bool
  hk_readonly_jobs :: "string list"
  hk_loaded :: "('e, 's) hk_job list"
  hk_jobs :: "(string, ('e, 's) hk_job) pydict"
  hk_results :: "(string, hk_result) pydict"

definition ALL_DUMMY_JOB_NAME :: string where "ALL_DUMMY_JOB_NAME = ''all''"
definition ALL_DUMMY_DESCRIPTION :: string where "ALL_DUMMY_DESCRIPTION = ''Execute all housekeepers''"

definition new_housekeeper :: "('e, 's) hk_job list \<Rightarrow> string list \<Rightarrow> bool \<Rightarrow> string list \<Rightarrow> ('e, 's) housekeeper" where
  "new_housekeeper loaded names readonly readonly_jobs =
     \<lparr>hk_readonly = readonly, hk_readonly_jobs = readonly_jobs, hk_loaded = loaded,
      hk_jobs = fold (\<lambda>j. AList.update (job_name j) j) (filter (\<lambda>j. job_name j \<in> set names) loaded) [], hk_results = []\<rparr>"

text \<open>What is known of a job: name, description, whether it is enabled, and its last counts and text.\<close>

record hk_view =
  view_name :: string
  view_description :: string
  view_enabled :: bool
  view_errors :: nat
  view_fixed :: nat
  view_info :: string

definition view_of :: "('e, 's) housekeeper \<Rightarrow> string \<Rightarrow> string \<Rightarrow> hk_view" where
  "view_of K name description =
     (let r = map_of (hk_results K) name in
      \<lparr>view_name = name, view_description = description, view_enabled = (map_of (hk_jobs K) name \<noteq> None),
       view_errors = (case r of None \<Rightarrow> 0 | Some r \<Rightarrow> hk_error_count r),
       view_fixed = (case r of None \<Rightarrow> 0 | Some r \<Rightarrow> hk_fixed_count r),
       view_info = (case r of None \<Rightarrow> [] | Some r \<Rightarrow> hk_error_info r)\<rparr>)"

definition hk_get :: "('e, 's) housekeeper \<Rightarrow> string \<Rightarrow> 'e hk_exc + hk_view" where
  "hk_get K name =
     (if name = ALL_DUMMY_JOB_NAME then Inr (view_of K name ALL_DUMMY_DESCRIPTION)
      else (case find (\<lambda>j. job_name j = name) (hk_loaded K) of
          Some j \<Rightarrow> Inr (view_of K name (job_description j))
        | None \<Rightarrow> Inl (ObjectNotFound name)))"

definition hk_list :: "('e, 's) housekeeper \<Rightarrow> hk_view list" where
  "hk_list K = view_of K ALL_DUMMY_JOB_NAME ALL_DUMMY_DESCRIPTION #
     map (\<lambda>j. view_of K (job_name j) (job_description j)) (hk_loaded K)"

definition readwrite_allowed :: "('e, 's) housekeeper \<Rightarrow> string \<Rightarrow> bool" where
  "readwrite_allowed K name =
     (if hk_readonly K then False
      else if name = ALL_DUMMY_JOB_NAME then filter (\<lambda>n. n \<notin> set (hk_readonly_jobs K)) (map fst (hk_jobs K)) \<noteq> []
      else name \<notin> set (hk_readonly_jobs K))"

text \<open>All the jobs: a job that may not write is skipped unless the run only reads; the counts add up.\<close>

fun run_jobs :: "('e, 's) housekeeper \<Rightarrow> bool \<Rightarrow> ('e, 's) hk_job list \<Rightarrow> hk_result \<Rightarrow> 's \<Rightarrow> (('e + hk_result) \<times> 's) option" where
  "run_jobs K readonly [] r s = Some (Inr r, s)"
| "run_jobs K readonly (j # js) r s =
     (if \<not> readonly \<and> \<not> readwrite_allowed K (job_name j) then run_jobs K readonly js r s
      else (case job_run j readonly s of
          None \<Rightarrow> None
        | Some (Inl e, s) \<Rightarrow> Some (Inl e, s)
        | Some (Inr q, s) \<Rightarrow>
            run_jobs K readonly js \<lparr>hk_error_count = hk_error_count r + hk_error_count q,
              hk_fixed_count = hk_fixed_count r + hk_fixed_count q,
              hk_error_info = hk_error_info r @ hk_error_info q @ newline\<rparr> s))"

definition hk_run :: "('e, 's) housekeeper \<Rightarrow> bool \<Rightarrow> string \<Rightarrow> bool \<Rightarrow> 's \<Rightarrow>
    (('e hk_exc + unit) \<times> ('e, 's) housekeeper \<times> 's) option" where
  "hk_run K is_admin name readonly s =
     (let K = K\<lparr>hk_results := []\<rparr> in
      if \<not> is_admin then Some (Inl AdminRequired, K, s)
      else if name = ALL_DUMMY_JOB_NAME then
        (if \<not> readonly \<and> \<not> readwrite_allowed K name then Some (Inl (ObjectNotFound name), K, s)
         else (case run_jobs K readonly (map snd (hk_jobs K)) \<lparr>hk_error_count = 0, hk_fixed_count = 0, hk_error_info = []\<rparr> s of
             None \<Rightarrow> None
           | Some (Inl e, s) \<Rightarrow> Some (Inl (JobFailed e), K, s)
           | Some (Inr r, s) \<Rightarrow> Some (Inr (), K\<lparr>hk_results := [(name, r)]\<rparr>, s)))
      else (case map_of (hk_jobs K) name of
          None \<Rightarrow> Some (Inl (ObjectNotFound name), K, s)
        | Some j \<Rightarrow>
            if \<not> readonly \<and> \<not> readwrite_allowed K name then Some (Inl (ObjectNotFound name), K, s)
            else (case job_run j readonly s of
                None \<Rightarrow> None
              | Some (Inl e, s) \<Rightarrow> Some (Inl (JobFailed e), K, s)
              | Some (Inr r, s) \<Rightarrow> Some (Inr (), K\<lparr>hk_results := [(job_name j, r)]\<rparr>, s))))"

subsection \<open>Pooled edges in error\<close>

definition mark_pending_delete :: "('w, 'd, 't, 'v) edge_env \<Rightarrow> string \<Rightarrow> ('w, 'd, 't, 'v, unit) edge_op" where
  "mark_pending_delete E router_id =
     catch_st (update_rb E router_id [Rb_status ST_PENDING_DELETE])
       (\<lambda>e. case e of EDb NoResultFound \<Rightarrow> return_st () | _ \<Rightarrow> raise_st e)"

text \<open>The driver's delete does not raise: it gives False for a failure, which is not looked at.\<close>

definition job_delete_edge :: "('w, 'd, 't, 'v) edge_env \<Rightarrow> router_binding \<Rightarrow> bool \<Rightarrow> ('w, 'd, 't, 'v, bool) edge_op" where
  "job_delete_edge E b dist =
     bind_st (mark_pending_delete E (rb_router_id b)) (\<lambda>_ s.
       case driver_delete_edge E (rb_router_id b) (rb_edge_id b) dist s of (_, s) \<Rightarrow> (Inr True, s))"

definition recover_edge :: "('w, 'd, 't, 'v) pool_mgr \<Rightarrow> router_binding \<Rightarrow> bool \<Rightarrow> ('w, 'd, 't, 'v, bool) edge_op" where
  "recover_edge M b dist =
     (let E = pm_env M in
      catch_st
        (bind_st (driver_update_edge E (rb_router_id b) (edge_ref (rb_edge_id b)) (rb_router_id b) None dist True
             (rb_appliance_size b) False (get_availability_zone M (rb_availability_zone b)) True) (\<lambda>ok.
           if ok then bind_st (update_rb E (rb_router_id b) [Rb_status ST_ACTIVE]) (\<lambda>_. return_st True)
           else return_st False))
        (\<lambda>_. return_st False))"

definition handle_backup_edge :: "('w, 'd, 't, 'v) pool_mgr \<Rightarrow> router_binding \<Rightarrow> ('w, 'd, 't, 'v, bool) edge_op" where
  "handle_backup_edge M b =
     (let dist = (rb_edge_type b = VDR_EDGE) in
      bind_st (recover_edge M b dist) (\<lambda>ok. if ok then return_st True else job_delete_edge (pm_env M) b dist))"

fun handle_backup_edges :: "('w, 'd, 't, 'v) pool_mgr \<Rightarrow> bool \<Rightarrow> router_binding list \<Rightarrow> hk_result \<Rightarrow> ('w, 'd, 't, 'v, hk_result) edge_op" where
  "handle_backup_edges M readonly [] r = return_st r"
| "handle_backup_edges M readonly (b # bs) r =
     (let r = r\<lparr>hk_error_count := hk_error_count r + 1, hk_error_info := housekeeper_warning (hk_error_info r)
                (''Backup Edge appliance '' @ edge_ref (rb_edge_id b) @ '' is in ERROR state'')\<rparr> in
      if readonly then handle_backup_edges M readonly bs r
      else bind_st (handle_backup_edge M b) (\<lambda>fixed.
        handle_backup_edges M readonly bs (if fixed then r\<lparr>hk_fixed_count := hk_fixed_count r + 1\<rparr> else r)))"

definition error_backup_bindings :: "('w, 'd, 't, 'v) edge_env \<Rightarrow> ('w, 't, 'v) edge_state \<Rightarrow> router_binding list" where
  "error_backup_bindings E s =
     get_nsxv_router_bindings (ee_rb E) (ee_like E) (es_rbs s) (Some [(''status'', [ST_ERROR])]) (Some pool_like)"

definition run_error_backup_edge :: "('w, 'd, 't, 'v) pool_mgr \<Rightarrow> bool \<Rightarrow> ('w, 'd, 't, 'v, hk_result) edge_op" where
  "run_error_backup_edge M readonly s =
     (case error_backup_bindings (pm_env M) s of
        [] \<Rightarrow> (Inr \<lparr>hk_error_count = 0, hk_fixed_count = 0, hk_error_info = ''No backup edges in ERROR state detected''\<rparr>, s)
      | bs \<Rightarrow> handle_backup_edges M readonly bs \<lparr>hk_error_count = 0, hk_fixed_count = 0, hk_error_info = []\<rparr> s)"

subsection \<open>DHCP edges in error: the tables\<close>

text \<open>The job counts in attributes, which an exception leaves as they are. The networks are those of Neutron;
  the text of an exception and of a JSON value is a parameter.\<close>

record ('w, 't, 'v, 's) hk_state =
  hs_dhcp :: "('w, 't, 'v, 's) dhcp_state"
  hs_errors :: nat
  hs_fixed :: nat
  hs_fixed_sub :: nat
  hs_info :: string

record ('w, 'd, 't, 'v, 'b, 'm, 'n, 's) hk_env =
  he_dhcp :: "('w, 'd, 't, 'v, 'b, 'm, 'n, 's) dhcp_env"
  he_networks :: "string list"
  he_address_groups :: "string \<Rightarrow> json list"
  he_show_exc :: "'d edge_exc \<Rightarrow> string"
  he_show :: "json \<Rightarrow> string"

type_synonym ('w, 'd, 't, 'v, 's, 'a) hk_op = "('w, 't, 'v, 's) hk_state \<Rightarrow> ('d edge_exc + 'a) \<times> ('w, 't, 'v, 's) hk_state"

abbreviation he_env :: "('w, 'd, 't, 'v, 'b, 'm, 'n, 's) hk_env \<Rightarrow> ('w, 'd, 't, 'v) edge_env" where
  "he_env K \<equiv> dh_env (he_dhcp K)"

definition on_dhcp :: "('w, 'd, 't, 'v, 's, 'a) dhcp_op \<Rightarrow> ('w, 'd, 't, 'v, 's, 'a) hk_op" where
  "on_dhcp f s = (case f (hs_dhcp s) of (r, d) \<Rightarrow> (r, s\<lparr>hs_dhcp := d\<rparr>))"

definition hk_raise :: "py_exc + 'a \<Rightarrow> ('w, 'd, 't, 'v, 's, 'a) hk_op" where
  "hk_raise r s = (case r of Inl e \<Rightarrow> Inl (EPy e) | Inr x \<Rightarrow> Inr x, s)"

definition count_error :: "('w, 't, 'v, 's) hk_state \<Rightarrow> ('w, 't, 'v, 's) hk_state" where
  "count_error s = s\<lparr>hs_errors := hs_errors s + 1\<rparr>"

definition count_fixed :: "('w, 't, 'v, 's) hk_state \<Rightarrow> ('w, 't, 'v, 's) hk_state" where
  "count_fixed s = s\<lparr>hs_fixed := hs_fixed s + 1\<rparr>"

definition warn :: "string \<Rightarrow> ('w, 't, 'v, 's) hk_state \<Rightarrow> ('w, 't, 'v, 's) hk_state" where
  "warn msg s = s\<lparr>hs_info := housekeeper_warning (hs_info s) msg\<rparr>"

definition hk_vnics :: "('w, 'd, 't, 'v, 'b, 'm, 'n, 's) hk_env \<Rightarrow> string option \<Rightarrow> ('w, 't, 'v, 's) hk_state \<Rightarrow> edge_vnic_binding list" where
  "hk_vnics K edge_id s = vnics_of (he_env K) edge_id (ds_edge (hs_dhcp s))"

text \<open>The network whose identifier, cut to fit, follows the prefix of a resource: the last one, as in a dictionary.\<close>

definition network_of_prefix :: "string list \<Rightarrow> string \<Rightarrow> string option" where
  "network_of_prefix networks pfx = find (\<lambda>n. take (36 - length DHCP_EDGE_PREFIX) n = pfx) (rev networks)"

definition alloc_tunnel_in :: "('w, 'd, 't, 'v, 'b, 'm, 'n, 's) dhcp_env \<Rightarrow> string option \<Rightarrow> string \<Rightarrow> string \<Rightarrow>
    ('w, 'd, 't, 'v, 's, unit) dhcp_op" where
  "alloc_tunnel_in H edge_id network_id zone_name =
     alloc_tunnel H edge_id network_id ((pm_default_zone (dh_mgr H))\<lparr>az_name := zone_name\<rparr>)"

text \<open>Step A: a binding of a network that is gone is deleted; one without a vnic is given one. Step B: the
  vnics of networks that are gone are freed.\<close>

definition fix_binding :: "('w, 'd, 't, 'v, 'b, 'm, 'n, 's) hk_env \<Rightarrow> bool \<Rightarrow> string option \<Rightarrow> string \<Rightarrow> string option list \<Rightarrow>
    router_binding \<Rightarrow> ('w, 'd, 't, 'v, 's, unit) hk_op" where
  "fix_binding K readonly edge_id zone_name on_nets b s =
     (case network_of_prefix (he_networks K) (drop (length DHCP_EDGE_PREFIX) (rb_router_id b)) of
        None \<Rightarrow>
          let s = warn (''router binding '' @ rb_router_id b @ '' for edge '' @ edge_ref edge_id @ '' has no matching neutron network'')
                (count_error s)
          in if readonly then (Inr (), s)
             else (Inr (), count_fixed (s\<lparr>hs_dhcp := (hs_dhcp s)\<lparr>ds_edge := delete_rb (he_env K) (rb_router_id b) (ds_edge (hs_dhcp s))\<rparr>\<rparr>))
      | Some net \<Rightarrow>
          if Some net \<in> set on_nets then (Inr (), s)
          else
            let s = warn (''edge '' @ edge_ref edge_id @ '' vnic binding missing for network '' @ net) (count_error s)
            in if readonly then (Inr (), s)
               else bind_st (on_dhcp (alloc_tunnel_in (he_dhcp K) edge_id net zone_name)) (\<lambda>_ s. (Inr (), count_fixed s)) s)"

definition fix_vnic :: "('w, 'd, 't, 'v, 'b, 'm, 'n, 's) hk_env \<Rightarrow> bool \<Rightarrow> string option \<Rightarrow> edge_vnic_binding \<Rightarrow>
    ('w, 'd, 't, 'v, 's, unit) hk_op" where
  "fix_vnic K readonly edge_id v s =
     (let net = edge_ref (vb_network_id v) in
      if net \<in> set (he_networks K) then (Inr (), s)
      else
        let s = warn (''edge vnic binding for edge '' @ edge_ref edge_id @ '' is for invalid network id '' @ net) (count_error s)
        in if readonly then (Inr (), s)
           else bind_st (on_dhcp (on_edge (free_vnic_by_network (he_env K) edge_id net))) (\<lambda>_ s. (Inr (), count_fixed s)) s)"

subsection \<open>DHCP edges in error: the sub-interfaces at the manager\<close>

definition vnic_for :: "edge_vnic_binding list \<Rightarrow> string \<Rightarrow> edge_vnic_binding option" where
  "vnic_for vs network_id = find (\<lambda>v. vb_network_id v = Some network_id) (rev vs)"

text \<open>Whether a sub-interface is the one that the tables have for the network it is named after.\<close>

definition registered :: "edge_vnic_binding list \<Rightarrow> json \<Rightarrow> json \<Rightarrow> py_exc + bool" where
  "registered vs index sub =
     bind_res (jfield ''logicalSwitchName'' sub) (\<lambda>n.
       case (case n of JStr i \<Rightarrow> vnic_for vs i | _ \<Rightarrow> None) of
         None \<Rightarrow> Inr False
       | Some v \<Rightarrow> if JInt (vb_vnic_index v) \<noteq> index then Inr False
                   else bind_res (jfield ''tunnelId'' sub) (\<lambda>t. Inr (t = JInt (vb_tunnel_index v))))"

definition stray_message :: "('w, 'd, 't, 'v, 'b, 'm, 'n, 's) hk_env \<Rightarrow> string option \<Rightarrow> json \<Rightarrow> json \<Rightarrow> string" where
  "stray_message K edge_id index tunnel =
     ''subinterface '' @ he_show K tunnel @ '' for vnic '' @ he_show K index @ '' on edge '' @ edge_ref edge_id @
     '' is not defined in nsxv_edge_vnic_bindings''"

text \<open>The loop removes from the list it goes over: the element after a removed one takes its place and is skipped.\<close>

function sweep_subs :: "('w, 'd, 't, 'v, 'b, 'm, 'n, 's) hk_env \<Rightarrow> string option \<Rightarrow> edge_vnic_binding list \<Rightarrow> json \<Rightarrow> nat \<Rightarrow>
    json list \<Rightarrow> bool \<Rightarrow> ('w, 'd, 't, 'v, 's, json list \<times> bool) hk_op" where
  "sweep_subs K edge_id vs index i subs changed s =
     (if i \<ge> length subs then (Inr (subs, changed), s)
      else (case registered vs index (subs ! i) of
          Inl e \<Rightarrow> (Inl (EPy e), s)
        | Inr True \<Rightarrow> sweep_subs K edge_id vs index (Suc i) subs changed s
        | Inr False \<Rightarrow>
            (case jfield ''tunnelId'' (subs ! i) of
               Inl e \<Rightarrow> (Inl (EPy e), count_error s)
             | Inr t \<Rightarrow>
                 let s = warn (stray_message K edge_id index t) (count_error s) in
                 sweep_subs K edge_id vs index (Suc i) (remove1 (subs ! i) subs) True (s\<lparr>hs_fixed_sub := hs_fixed_sub s + 1\<rparr>))))"
  by pat_completeness auto
termination
  by (relation "measure (\<lambda>(K, e, vs, n, i, subs, c, s). length subs - i)") (auto simp: length_remove1)

declare sweep_subs.simps [simp del]

text \<open>Whether the sub-interfaces of a vnic are looked at, and those of \<open>vnic['subInterfaces']['subInterfaces']\<close>.\<close>

definition is_trunk :: "json \<Rightarrow> py_exc + bool" where
  "is_trunk vnic =
     bind_res (jfield ''isConnected'' vnic) (\<lambda>c. if \<not> truthy_json c then Inr False else
     bind_res (jfield ''type'' vnic) (\<lambda>t. if t \<noteq> JStr ''trunk'' then Inr False else
     bind_res (jfield ''subInterfaces'' vnic) (\<lambda>d. Inr (truthy_json d))))"

definition inner_subs :: "json \<Rightarrow> py_exc + json list" where
  "inner_subs vnic = bind_res (bind_res (jfield ''subInterfaces'' vnic) (jfield ''subInterfaces'')) as_list"

definition sweep_vnic :: "('w, 'd, 't, 'v, 'b, 'm, 'n, 's) hk_env \<Rightarrow> string option \<Rightarrow> edge_vnic_binding list \<Rightarrow> json \<Rightarrow>
    ('w, 'd, 't, 'v, 's, json \<times> json \<times> bool) hk_op" where
  "sweep_vnic K edge_id vs vnic =
     bind_st (hk_raise (jfield ''index'' vnic)) (\<lambda>index.
     bind_st (hk_raise (is_trunk vnic)) (\<lambda>trunk.
     if \<not> trunk then return_st (vnic, index, False)
     else bind_st (hk_raise (inner_subs vnic)) (\<lambda>subs.
          bind_st (sweep_subs K edge_id vs index 0 subs False) (\<lambda>(subs, changed).
          return_st (set_sub_interfaces subs vnic, index, changed)))))"

fun sweep_vnics :: "('w, 'd, 't, 'v, 'b, 'm, 'n, 's) hk_env \<Rightarrow> string option \<Rightarrow> edge_vnic_binding list \<Rightarrow> json list \<Rightarrow>
    (json, bool) pydict \<Rightarrow> ('w, 'd, 't, 'v, 's, json list \<times> (json, bool) pydict) hk_op" where
  "sweep_vnics K edge_id vs [] if_changed = return_st ([], if_changed)"
| "sweep_vnics K edge_id vs (vnic # vnics) if_changed =
     bind_st (sweep_vnic K edge_id vs vnic) (\<lambda>(vnic, index, changed).
     bind_st (sweep_vnics K edge_id vs vnics (AList.update index changed if_changed)) (\<lambda>(vnics, if_changed).
     return_st (vnic # vnics, if_changed)))"

text \<open>A sub-interface is made anew and appended; a vnic that is not a trunk is set up as one.\<close>

definition add_sub :: "json \<Rightarrow> json \<Rightarrow> py_exc + json" where
  "add_sub iface vnic =
     bind_res (jfield_opt ''subInterfaces'' vnic) (\<lambda>d.
       if \<not> truthy_json d then Inr (jset ''subInterfaces'' (JObj [(''subInterfaces'', JList [iface])]) vnic)
       else bind_res (inner_subs vnic) (\<lambda>subs. Inr (set_sub_interfaces (subs @ [iface]) vnic)))"

definition as_trunk :: "('w, 'd, 't, 'v, 'b, 'm, 'n, 's) hk_env \<Rightarrow> json \<Rightarrow> string option \<Rightarrow> json \<Rightarrow> py_exc + json" where
  "as_trunk K index port_group_id vnic =
     bind_res (jfield ''type'' vnic) (\<lambda>t. Inr (
       if t = JStr ''trunk'' then vnic
       else fold (\<lambda>(k, v). jset k v) [(''name'', JStr (INTERNAL_VNIC_NAME @ he_show K index)), (''type'', JStr ''trunk''),
         (''portgroupId'', opt_json port_group_id), (''mtu'', JInt 1500), (''enableProxyArp'', JBool False),
         (''enableSendRedirects'', JBool True), (''isConnected'', JBool True)] vnic))"

definition recreate_vnic_subinterface :: "('w, 'd, 't, 'v, 'b, 'm, 'n, 's) hk_env \<Rightarrow> string \<Rightarrow> string option \<Rightarrow> json \<Rightarrow> int \<Rightarrow>
    ('w, 'd, 't, 'v, 's, json) hk_op" where
  "recreate_vnic_subinterface K network_id edge_id vnic tunnel_index =
     bind_st (hk_raise (jfield ''index'' vnic)) (\<lambda>index.
     bind_st (on_dhcp (fresh_uuid (he_dhcp K))) (\<lambda>uuid.
     bind_st (hk_raise (vnic_port_group vnic)) (\<lambda>p.
     bind_st (on_dhcp (create_sub_interface (he_dhcp K) network_id
         (take 36 (edge_ref edge_id @ ''-'' @ he_show K index @ ''-'' @ int_str tunnel_index @ uuid)) tunnel_index
         (he_address_groups K network_id) p)) (\<lambda>(p, iface).
     bind_st (hk_raise (add_sub iface vnic)) (\<lambda>vnic. hk_raise (as_trunk K index p vnic))))))"

definition loop_subs :: "json \<Rightarrow> py_exc + json list" where
  "loop_subs vnic =
     (case vnic of
        JObj al \<Rightarrow> (case map_of al ''subInterfaces'' of
            None \<Rightarrow> Inr []
          | Some (JObj bl) \<Rightarrow> (case map_of bl ''subInterfaces'' of None \<Rightarrow> Inr [] | Some l \<Rightarrow> as_list l)
          | Some _ \<Rightarrow> Inl AttributeError)
      | _ \<Rightarrow> Inl AttributeError)"

definition rename_sub :: "nat \<Rightarrow> string \<Rightarrow> json \<Rightarrow> py_exc + json" where
  "rename_sub i network_id vnic =
     bind_res (inner_subs vnic) (\<lambda>subs. Inr (set_sub_interfaces (subs[i := jset ''name'' (JStr network_id) (subs ! i)]) vnic))"

definition misplaced_message :: "('w, 'd, 't, 'v, 'b, 'm, 'n, 's) hk_env \<Rightarrow> string option \<Rightarrow> json \<Rightarrow> int \<Rightarrow> string \<Rightarrow> string" where
  "misplaced_message K edge_id index tunnel network_id =
     ''subinterface '' @ int_str tunnel @ '' on vnic '' @ he_show K index @ '' on edge '' @ edge_ref edge_id @
     '' should be connected to network '' @ network_id"

definition mend_sub :: "('w, 'd, 't, 'v, 'b, 'm, 'n, 's) hk_env \<Rightarrow> bool \<Rightarrow> string option \<Rightarrow> string \<Rightarrow> int \<Rightarrow> nat \<Rightarrow> json \<Rightarrow>
    ('w, 'd, 't, 'v, 's, json) hk_op" where
  "mend_sub K readonly edge_id network_id tunnel i vnic s =
     bind_st (hk_raise (jfield ''index'' vnic)) (\<lambda>index s.
       bind_st (if readonly then return_st vnic
           else bind_st (recreate_vnic_subinterface K network_id edge_id vnic tunnel) (\<lambda>vnic s. (Inr vnic, count_fixed s)))
         (\<lambda>vnic. hk_raise (rename_sub i network_id vnic))
         (warn (misplaced_message K edge_id index tunnel network_id) s)) (count_error s)"

text \<open>The loop over the sub-interfaces of a vnic: those with the tunnel of a binding must have the name of its network.
  The list grows at its end while the loop goes over it.\<close>

partial_function (option) mend_subs :: "('w, 'd, 't, 'v, 'b, 'm, 'n, 's) hk_env \<Rightarrow> bool \<Rightarrow> string option \<Rightarrow> string \<Rightarrow> int \<Rightarrow> nat \<Rightarrow>
    json \<Rightarrow> bool \<Rightarrow> bool \<Rightarrow> ('w, 't, 'v, 's) hk_state \<Rightarrow>
    (('d edge_exc + json \<times> bool \<times> bool) \<times> ('w, 't, 'v, 's) hk_state) option" where
  "mend_subs K readonly edge_id network_id tunnel i vnic found changed s =
     (case loop_subs vnic of
        Inl e \<Rightarrow> Some (Inl (EPy e), s)
      | Inr subs \<Rightarrow>
          if i \<ge> length subs then Some (Inr (vnic, found, changed), s)
          else (case jfield ''tunnelId'' (subs ! i) of
              Inl e \<Rightarrow> Some (Inl (EPy e), s)
            | Inr t \<Rightarrow>
                if t \<noteq> JInt tunnel then mend_subs K readonly edge_id network_id tunnel (Suc i) vnic found changed s
                else if jfield_opt ''logicalSwitchName'' (subs ! i) = Inr (JStr network_id)
                then mend_subs K readonly edge_id network_id tunnel (Suc i) vnic True changed s
                else (case mend_sub K readonly edge_id network_id tunnel i vnic s of
                    (Inl e, s) \<Rightarrow> Some (Inl e, s)
                  | (Inr vnic, s) \<Rightarrow> mend_subs K readonly edge_id network_id tunnel (Suc i) vnic True True s)))"

definition add_missing_sub :: "('w, 'd, 't, 'v, 'b, 'm, 'n, 's) hk_env \<Rightarrow> bool \<Rightarrow> string option \<Rightarrow> string \<Rightarrow> int \<Rightarrow> json \<Rightarrow>
    ('w, 'd, 't, 'v, 's, json) hk_op" where
  "add_missing_sub K readonly edge_id network_id tunnel vnic s =
     bind_st (hk_raise (jfield ''index'' vnic)) (\<lambda>index s.
       (if readonly then return_st vnic
        else bind_st (recreate_vnic_subinterface K network_id edge_id vnic tunnel) (\<lambda>vnic s.
          (Inr vnic, s\<lparr>hs_fixed_sub := hs_fixed_sub s + 1\<rparr>)))
         (warn (misplaced_message K edge_id index tunnel network_id @ '' but is missing'') s)) (count_error s)"

definition mend_vnic :: "('w, 'd, 't, 'v, 'b, 'm, 'n, 's) hk_env \<Rightarrow> bool \<Rightarrow> string option \<Rightarrow> string \<Rightarrow> int \<Rightarrow> json \<Rightarrow>
    ('w, 't, 'v, 's) hk_state \<Rightarrow> (('d edge_exc + json \<times> bool) \<times> ('w, 't, 'v, 's) hk_state) option" where
  "mend_vnic K readonly edge_id network_id tunnel vnic s =
     Option.bind (mend_subs K readonly edge_id network_id tunnel 0 vnic False False s) (\<lambda>(r, s).
       case r of
         Inl e \<Rightarrow> Some (Inl e, s)
       | Inr (vnic, found, changed) \<Rightarrow>
           Some (if found then (Inr (vnic, changed), s)
                 else bind_st (add_missing_sub K readonly edge_id network_id tunnel vnic) (\<lambda>vnic. return_st (vnic, True)) s))"

text \<open>One binding against every vnic with its index, and all bindings but those of the metadata networks.\<close>

fun mend_vnics :: "('w, 'd, 't, 'v, 'b, 'm, 'n, 's) hk_env \<Rightarrow> bool \<Rightarrow> string option \<Rightarrow> edge_vnic_binding \<Rightarrow> json list \<Rightarrow>
    (json, bool) pydict \<Rightarrow> ('w, 't, 'v, 's) hk_state \<Rightarrow>
    (('d edge_exc + json list \<times> (json, bool) pydict) \<times> ('w, 't, 'v, 's) hk_state) option" where
  "mend_vnics K readonly edge_id v [] if_changed s = Some (Inr ([], if_changed), s)"
| "mend_vnics K readonly edge_id v (vnic # vnics) if_changed s =
     (case jfield ''index'' vnic of
        Inl e \<Rightarrow> Some (Inl (EPy e), s)
      | Inr index \<Rightarrow>
          Option.bind (if index = JInt (vb_vnic_index v)
              then mend_vnic K readonly edge_id (edge_ref (vb_network_id v)) (vb_tunnel_index v) vnic s
              else Some (Inr (vnic, False), s)) (\<lambda>(r, s).
            case r of
              Inl e \<Rightarrow> Some (Inl e, s)
            | Inr (vnic, changed) \<Rightarrow>
                Option.bind (mend_vnics K readonly edge_id v vnics
                    (if changed then AList.update index True if_changed else if_changed) s) (\<lambda>(r, s).
                  case r of Inl e \<Rightarrow> Some (Inl e, s) | Inr (vnics, if_changed) \<Rightarrow> Some (Inr (vnic # vnics, if_changed), s))))"

fun add_missing_subinterfaces :: "('w, 'd, 't, 'v, 'b, 'm, 'n, 's) hk_env \<Rightarrow> bool \<Rightarrow> string option \<Rightarrow> edge_vnic_binding list \<Rightarrow>
    json list \<Rightarrow> (json, bool) pydict \<Rightarrow> ('w, 't, 'v, 's) hk_state \<Rightarrow>
    (('d edge_exc + json list \<times> (json, bool) pydict) \<times> ('w, 't, 'v, 's) hk_state) option" where
  "add_missing_subinterfaces K readonly edge_id [] vnics if_changed s = Some (Inr (vnics, if_changed), s)"
| "add_missing_subinterfaces K readonly edge_id (v # vs) vnics if_changed s =
     (if vb_network_id v \<in> inw_network_id ` set (get_nsxv_internal_networks (dh_nets (he_dhcp K)) (dh_net_rows (he_dhcp K)) INTER_EDGE_PURPOSE)
      then add_missing_subinterfaces K readonly edge_id vs vnics if_changed s
      else Option.bind (mend_vnics K readonly edge_id v vnics if_changed s) (\<lambda>(r, s).
        case r of
          Inl e \<Rightarrow> Some (Inl e, s)
        | Inr (vnics, if_changed) \<Rightarrow> add_missing_subinterfaces K readonly edge_id vs vnics if_changed s))"

subsection \<open>DHCP edges in error: the job\<close>

definition activate_bindings :: "('w, 'd, 't, 'v, 'b, 'm, 'n, 's) hk_env \<Rightarrow> string option \<Rightarrow> ('w, 'd, 't, 'v, 's, unit) hk_op" where
  "activate_bindings K edge_id s =
     each_st (\<lambda>b. on_dhcp (on_edge (update_rb (he_env K) (rb_router_id b) [Rb_status ST_ACTIVE])))
       (q_all (ee_rb (he_env K)) (es_rbs (ds_edge (hs_dhcp s))) (\<lambda>b. rb_edge_id b = edge_id)) s"

text \<open>The bindings of the edge are updated in the loop over the vnics.\<close>

definition send_vnic :: "('w, 'd, 't, 'v, 'b, 'm, 'n, 's) hk_env \<Rightarrow> string option \<Rightarrow> (json, bool) pydict \<Rightarrow> json \<Rightarrow>
    ('w, 'd, 't, 'v, 's, unit) hk_op" where
  "send_vnic K edge_id if_changed vnic =
     bind_st (hk_raise (jfield ''index'' vnic)) (\<lambda>index.
     bind_st (case map_of if_changed index of
         None \<Rightarrow> raise_st (EPy KeyError)
       | Some False \<Rightarrow> return_st ()
       | Some True \<Rightarrow> bind_st (on_dhcp (vcns_call (update_interface (ee_vcns (he_env K)) (edge_ref edge_id) vnic))) (\<lambda>_. return_st ())) (\<lambda>_.
     activate_bindings K edge_id))"

definition edge_zone_name :: "('w, 'd, 't, 'v, 'b, 'm, 'n, 's) hk_env \<Rightarrow> string option \<Rightarrow> ('w, 't, 'v, 's) hk_state \<Rightarrow> string" where
  "edge_zone_name K edge_id s =
     (let z = edge_zone (ee_rb (he_env K)) (es_rbs (ds_edge (hs_dhcp s))) edge_id in if given z then the z else DEFAULT_NAME)"

definition fix_tables :: "('w, 'd, 't, 'v, 'b, 'm, 'n, 's) hk_env \<Rightarrow> bool \<Rightarrow> string option \<Rightarrow> router_binding list \<Rightarrow>
    ('w, 'd, 't, 'v, 's, unit) hk_op" where
  "fix_tables K readonly edge_id bs s =
     bind_st (each_st (fix_binding K readonly edge_id (edge_zone_name K edge_id s) (map vb_network_id (hk_vnics K edge_id s))) bs) (\<lambda>_ s.
       each_st (fix_vnic K readonly edge_id) (hk_vnics K edge_id s) s) s"

definition read_vnics :: "('w, 'd, 't, 'v, 'b, 'm, 'n, 's) hk_env \<Rightarrow> string option \<Rightarrow> ('w, 'd, 't, 'v, 's, json list) hk_op" where
  "read_vnics K edge_id =
     on_dhcp (vcns_call (with_body (get_interfaces (ee_vcns (he_env K)) (edge_ref edge_id)) (\<lambda>j.
       case j of JObj al \<Rightarrow> (case map_of al ''vnics'' of None \<Rightarrow> Inr [] | Some l \<Rightarrow> as_list l) | _ \<Rightarrow> Inl AttributeError)))"

definition validate_dhcp_edge :: "('w, 'd, 't, 'v, 'b, 'm, 'n, 's) hk_env \<Rightarrow> bool \<Rightarrow> string option \<Rightarrow> router_binding list \<Rightarrow>
    ('w, 't, 'v, 's) hk_state \<Rightarrow> (('d edge_exc + unit) \<times> ('w, 't, 'v, 's) hk_state) option" where
  "validate_dhcp_edge K readonly edge_id bs s =
     (case bind_st (fix_tables K readonly edge_id bs) (\<lambda>_ s.
          let vs = hk_vnics K edge_id s in
          bind_st (read_vnics K edge_id) (\<lambda>vnics. bind_st (sweep_vnics K edge_id vs vnics []) (\<lambda>(vnics, if_changed).
          return_st (vs, vnics, if_changed))) s) s of
        (Inl e, s) \<Rightarrow> Some (Inl e, s)
      | (Inr (vs, vnics, if_changed), s) \<Rightarrow>
          Option.bind (add_missing_subinterfaces K readonly edge_id vs vnics if_changed s) (\<lambda>(r, s).
            case r of
              Inl e \<Rightarrow> Some (Inl e, s)
            | Inr (vnics, if_changed) \<Rightarrow>
                Some (if readonly then (Inr (), s)
                      else bind_st (each_st (send_vnic K edge_id if_changed) vnics) (\<lambda>_ s.
                        (Inr (), s\<lparr>hs_fixed := hs_fixed s + hs_fixed_sub s\<rparr>)) s)))"

fun group_by_edge :: "router_binding list \<Rightarrow> (string option, router_binding list) pydict \<Rightarrow> (string option, router_binding list) pydict" where
  "group_by_edge [] d = d"
| "group_by_edge (b # bs) d =
     group_by_edge bs (if startswith (rb_router_id b) DHCP_EDGE_PREFIX
       then AList.update (rb_edge_id b) ((case map_of d (rb_edge_id b) of None \<Rightarrow> [] | Some l \<Rightarrow> l) @ [b]) d else d)"

fun validate_dhcp_edges :: "('w, 'd, 't, 'v, 'b, 'm, 'n, 's) hk_env \<Rightarrow> bool \<Rightarrow> (string option \<times> router_binding list) list \<Rightarrow>
    ('w, 't, 'v, 's) hk_state \<Rightarrow> ('w, 't, 'v, 's) hk_state option" where
  "validate_dhcp_edges K readonly [] s = Some s"
| "validate_dhcp_edges K readonly ((edge_id, bs) # es) s =
     Option.bind (validate_dhcp_edge K readonly edge_id bs s) (\<lambda>(r, s).
       validate_dhcp_edges K readonly es
         (case r of
            Inr _ \<Rightarrow> s
          | Inl e \<Rightarrow> warn (''Failed to recover DHCP Edge '' @ edge_ref edge_id @ '' ('' @ he_show_exc K e @ '')'') (count_error s)))"

definition start_job :: "('w, 't, 'v, 's) dhcp_state \<Rightarrow> ('w, 't, 'v, 's) hk_state" where
  "start_job d = \<lparr>hs_dhcp = d, hs_errors = 0, hs_fixed = 0, hs_fixed_sub = 0, hs_info = []\<rparr>"

definition job_result :: "('w, 't, 'v, 's) hk_state \<Rightarrow> hk_result" where
  "job_result s = \<lparr>hk_error_count = hs_errors s, hk_fixed_count = hs_fixed s, hk_error_info = hs_info s\<rparr>"

definition error_bindings :: "('w, 'd, 't, 'v) edge_env \<Rightarrow> ('w, 't, 'v) edge_state \<Rightarrow> router_binding list" where
  "error_bindings E s = get_nsxv_router_bindings (ee_rb E) (ee_like E) (es_rbs s) (Some [(''status'', [ST_ERROR])]) None"

definition run_error_dhcp_edge :: "('w, 'd, 't, 'v, 'b, 'm, 'n, 's) hk_env \<Rightarrow> bool \<Rightarrow> ('w, 't, 'v, 's) dhcp_state \<Rightarrow>
    (('d edge_exc + hk_result) \<times> ('w, 't, 'v, 's) dhcp_state) option" where
  "run_error_dhcp_edge K readonly d =
     (case error_bindings (he_env K) (ds_edge d) of
        [] \<Rightarrow> Some (Inr \<lparr>hk_error_count = 0, hk_fixed_count = 0, hk_error_info = ''No DHCP error state edges detected''\<rparr>, d)
      | bs \<Rightarrow> map_option (\<lambda>s. (Inr (job_result s), hs_dhcp s))
          (validate_dhcp_edges K readonly (group_by_edge bs []) (start_job d)))"

text \<open>The jobs as the housekeeper of the NSX-v plugin loads them.\<close>

definition backup_job :: "('w, 'd, 't, 'v) pool_mgr \<Rightarrow> ('d edge_exc, ('w, 't, 'v, 's) dhcp_state) hk_job" where
  "backup_job M = \<lparr>job_name = ''error_backup_edge'', job_description = ''revalidate backup Edge appliances in ERROR state'',
     job_run = (\<lambda>readonly d. Some (on_edge (run_error_backup_edge M readonly) d))\<rparr>"

definition dhcp_job :: "('w, 'd, 't, 'v, 'b, 'm, 'n, 's) hk_env \<Rightarrow> ('d edge_exc, ('w, 't, 'v, 's) dhcp_state) hk_job" where
  "dhcp_job K = \<lparr>job_name = ''error_dhcp_edge'', job_description = ''revalidate DHCP Edge appliances in ERROR state'',
     job_run = run_error_dhcp_edge K\<rparr>"

subsection \<open>A run that only reads\<close>

text \<open>The tables are as before; the manager has been asked, and no fix is counted.\<close>

definition only_asked :: "('w, 't, 'v, 's) dhcp_state \<Rightarrow> ('w, 't, 'v, 's) dhcp_state \<Rightarrow> bool" where
  "only_asked d d' \<longleftrightarrow> (\<exists>w. d' = d\<lparr>ds_edge := (ds_edge d)\<lparr>es_world := w\<rparr>\<rparr>)"

definition only_read :: "('w, 't, 'v, 's) dhcp_state \<Rightarrow> ('w, 't, 'v, 's) hk_state \<Rightarrow> bool" where
  "only_read d s \<longleftrightarrow> only_asked d (hs_dhcp s) \<and> hs_fixed s = 0"

lemma only_asked_refl [simp]: "only_asked d d"
  by (auto simp: only_asked_def intro: exI [of _ "es_world (ds_edge d)"])

lemma only_asked_world: "only_asked d d' \<Longrightarrow> only_asked d (d'\<lparr>ds_edge := (ds_edge d')\<lparr>es_world := w\<rparr>\<rparr>)"
  by (auto simp: only_asked_def)

lemma only_read_simps [simp]:
  "only_read d (count_error s) = only_read d s" "only_read d (warn m s) = only_read d s"
  "only_read d (s\<lparr>hs_fixed_sub := n\<rparr>) = only_read d s"
  by (simp_all add: only_read_def count_error_def warn_def)

lemma keeps_hk_raise [st_intros]: "keeps_st I (hk_raise r)"
  by (simp add: keeps_st_def hk_raise_def)

lemma fix_binding_reads [st_intros]: "keeps_st (only_read d) (fix_binding K True edge_id zone_name nets b)"
  by (auto simp: keeps_st_def fix_binding_def Let_def split: option.split)

lemma fix_vnic_reads [st_intros]: "keeps_st (only_read d) (fix_vnic K True edge_id v)"
  by (auto simp: keeps_st_def fix_vnic_def Let_def)

lemma fix_tables_reads [st_intros]: "keeps_st (only_read d) (fix_tables K True edge_id bs)"
proof -
  have "keeps_st (only_read d) (\<lambda>s. each_st (fix_vnic K True edge_id) (hk_vnics K edge_id s) s)"
    using keeps_each [where f = "fix_vnic K True edge_id" and I = "only_read d", OF fix_vnic_reads] by (auto simp: keeps_st_def)
  then have "keeps_st (only_read d) (bind_st (each_st (fix_binding K True edge_id z nets) bs)
      (\<lambda>_ s. each_st (fix_vnic K True edge_id) (hk_vnics K edge_id s) s))" for z nets
    by (intro st_intros) auto
  then show ?thesis by (simp add: keeps_st_def fix_tables_def)
qed

lemma read_vnics_reads [st_intros]: "keeps_st (only_read d) (read_vnics K edge_id)"
  by (auto simp: keeps_st_def read_vnics_def on_dhcp_def vcns_call_def on_edge_def call_def only_read_def
      intro: only_asked_world split: prod.split sum.split)

lemma sweep_subs_reads: "only_read d s \<Longrightarrow> only_read d (snd (sweep_subs K edge_id vs index i subs changed s))"
proof (induction K edge_id vs index i subs changed s rule: sweep_subs.induct)
  case (1 K edge_id vs index i subs changed s)
  then show ?case
    by (subst sweep_subs.simps) (auto simp: Let_def split: sum.split bool.split)
qed

lemma keeps_sweep_subs [st_intros]: "keeps_st (only_read d) (sweep_subs K edge_id vs index i subs changed)"
  by (simp add: keeps_st_def sweep_subs_reads)

lemma keeps_split [st_intros]: "(\<And>x y. keeps_st I (f x y)) \<Longrightarrow> keeps_st I (case p of (x, y) \<Rightarrow> f x y)"
  by (cases p) simp

lemma sweep_vnic_reads [st_intros]: "keeps_st (only_read d) (sweep_vnic K edge_id vs vnic)"
  unfolding sweep_vnic_def by (intro st_intros)

lemma sweep_vnics_reads [st_intros]: "keeps_st (only_read d) (sweep_vnics K edge_id vs vnics if_changed)"
  by (induction vnics arbitrary: if_changed) (auto intro!: st_intros)

text \<open>Reading the sub-interfaces of a vnic that is not empty goes to the list inside; writing it back is read again.\<close>

lemma loop_subs_inner:
  assumes "loop_subs vnic = Inr subs" "subs \<noteq> []"
  shows "inner_subs vnic = Inr subs" "loop_subs (set_sub_interfaces is vnic) = Inr is"
    "inner_subs (set_sub_interfaces is vnic) = Inr is"
proof -
  from assms obtain al bl l where j: "vnic = JObj al" "map_of al ''subInterfaces'' = Some (JObj bl)"
    "map_of bl ''subInterfaces'' = Some l" "as_list l = Inr subs"
    by (auto simp: loop_subs_def split: json.splits option.splits)
  then show "inner_subs vnic = Inr subs" "loop_subs (set_sub_interfaces is vnic) = Inr is"
    "inner_subs (set_sub_interfaces is vnic) = Inr is"
    by (simp_all add: inner_subs_def loop_subs_def set_sub_interfaces_def)
qed

lemma mend_sub_reads [st_intros]: "keeps_st (only_read d) (mend_sub K True edge_id network_id tunnel i vnic)"
  by (auto simp: mend_sub_def keeps_st_def bind_st_def hk_raise_def return_st_def split: sum.split)

lemma mend_sub_length:
  assumes "mend_sub K True edge_id network_id tunnel i vnic s = (Inr vnic', s')" "loop_subs vnic = Inr subs" "i < length subs"
  shows "\<exists>subs'. loop_subs vnic' = Inr subs' \<and> length subs' = length subs"
proof -
  from assms(3) have "subs \<noteq> []" by auto
  with assms(2) have "inner_subs vnic = Inr subs" "\<And>is. loop_subs (set_sub_interfaces is vnic) = Inr is"
    using loop_subs_inner [of vnic subs] by auto
  with assms(1) show ?thesis
    by (auto simp: mend_sub_def rename_sub_def bind_st_def hk_raise_def return_st_def split: sum.splits)
qed

lemma mend_subs_reads:
  assumes "only_read d s"
  shows "\<exists>r s'. mend_subs K True edge_id network_id tunnel i vnic found changed s = Some (r, s') \<and> only_read d s'"
  using assms
proof (induction "(case loop_subs vnic of Inr subs \<Rightarrow> length subs | Inl _ \<Rightarrow> 0) - i" arbitrary: i vnic found changed s)
  case 0
  then show ?case
    by (subst mend_subs.simps) (auto split: sum.splits)
next
  case (Suc k)
  then obtain subs where subs: "loop_subs vnic = Inr subs" "length subs - i = Suc k" by (auto split: sum.splits)
  then have i: "i < length subs" by simp
  note IH = Suc.hyps(1)
  show ?case
  proof (cases "jfield ''tunnelId'' (subs ! i)")
    case (Inl e)
    then show ?thesis using subs(1) i Suc.prems by (subst mend_subs.simps) auto
  next
    case (Inr t)
    consider (other) "t \<noteq> JInt tunnel" | (named) "t = JInt tunnel" "jfield_opt ''logicalSwitchName'' (subs ! i) = Inr (JStr network_id)"
      | (mend) "t = JInt tunnel" "jfield_opt ''logicalSwitchName'' (subs ! i) \<noteq> Inr (JStr network_id)" by blast
    then show ?thesis
    proof cases
      case other
      with IH [of vnic "Suc i" s found changed] subs Inr i Suc.prems show ?thesis by (subst mend_subs.simps) auto
    next
      case named
      with IH [of vnic "Suc i" s True changed] subs Inr i Suc.prems show ?thesis by (subst mend_subs.simps) auto
    next
      case mend
      obtain r s' where r: "mend_sub K True edge_id network_id tunnel i vnic s = (r, s')" by (cases "mend_sub K True edge_id network_id tunnel i vnic s")
      with mend_sub_reads [of d K edge_id network_id tunnel i vnic] Suc.prems have s': "only_read d s'"
        by (metis keeps_st_def snd_conv)
      show ?thesis
      proof (cases r)
        case (Inl e)
        with r mend subs Inr i s' show ?thesis by (subst mend_subs.simps) auto
      next
        case (Inr vnic')
        with r mend_sub_length [OF _ subs(1) i] obtain subs' where "loop_subs vnic' = Inr subs'" "length subs' = length subs" by blast
        with IH [of vnic' "Suc i" s' True True] subs s' have
          "\<exists>r s''. mend_subs K True edge_id network_id tunnel (Suc i) vnic' True True s' = Some (r, s'') \<and> only_read d s''" by simp
        with r Inr mend subs(1) \<open>jfield ''tunnelId'' (subs ! i) = Inr t\<close> i show ?thesis by (subst mend_subs.simps) auto
      qed
    qed
  qed
qed


definition reads_on :: "('w, 't, 'v, 's) dhcp_state \<Rightarrow> (('w, 't, 'v, 's) hk_state \<Rightarrow> ('a \<times> ('w, 't, 'v, 's) hk_state) option) \<Rightarrow> bool" where
  "reads_on d f \<longleftrightarrow> (\<forall>s. only_read d s \<longrightarrow> (\<exists>r s'. f s = Some (r, s') \<and> only_read d s'))"

lemma keeps_st_run: "keeps_st I m \<Longrightarrow> I s \<Longrightarrow> m s = (r, s') \<Longrightarrow> I s'"
  unfolding keeps_st_def by (metis snd_conv)

lemma reads_onI: "(\<And>s. only_read d s \<Longrightarrow> \<exists>r s'. f s = Some (r, s') \<and> only_read d s') \<Longrightarrow> reads_on d f"
  by (simp add: reads_on_def)

lemma reads_on_some: "keeps_st (only_read d) m \<Longrightarrow> reads_on d (\<lambda>s. Some (m s))"
  by (auto simp: reads_on_def keeps_st_def) (metis surj_pair snd_conv)

lemma reads_on_bind:
  assumes "reads_on d f" "\<And>r. reads_on d (g r)"
  shows "reads_on d (\<lambda>s. Option.bind (f s) (\<lambda>(r, s). g r s))"
proof (rule reads_onI)
  fix s assume "only_read d s"
  with assms(1) obtain r s' where "f s = Some (r, s')" "only_read d s'" unfolding reads_on_def by blast
  with assms(2) [of r] show "\<exists>r s'. Option.bind (f s) (\<lambda>(r, s). g r s) = Some (r, s') \<and> only_read d s'"
    unfolding reads_on_def by auto
qed

lemma add_missing_sub_reads [st_intros]: "keeps_st (only_read d) (add_missing_sub K True edge_id network_id tunnel vnic)"
  by (auto simp: add_missing_sub_def keeps_st_def bind_st_def hk_raise_def return_st_def split: sum.split)

lemma mend_vnic_reads: "reads_on d (mend_vnic K True edge_id network_id tunnel vnic)"
proof -
  have "reads_on d (\<lambda>s. Some (if found then (Inr (vnic, changed), s)
      else bind_st (add_missing_sub K True edge_id network_id tunnel vnic) (\<lambda>vnic. return_st (vnic, True)) s))" for found vnic changed
  proof -
    have "keeps_st (only_read d) (bind_st (add_missing_sub K True edge_id network_id tunnel vnic) (\<lambda>vnic. return_st (vnic, True)))"
      by (intro st_intros)
    from reads_on_some [OF this] show ?thesis by (simp add: reads_on_def)
  qed
  then have "reads_on d (\<lambda>s. case r of Inl e \<Rightarrow> Some (Inl e, s) | Inr (vnic, found, changed) \<Rightarrow>
      Some (if found then (Inr (vnic, changed), s)
        else bind_st (add_missing_sub K True edge_id network_id tunnel vnic) (\<lambda>vnic. return_st (vnic, True)) s))" for r
    by (cases r) (auto simp: reads_on_def)
  from reads_on_bind [OF _ this, of "mend_subs K True edge_id network_id tunnel 0 vnic False False"] show ?thesis
    unfolding mend_vnic_def by (simp add: reads_on_def mend_subs_reads)
qed

lemma cons_reads: "reads_on d (\<lambda>s. case r of Inl e \<Rightarrow> Some (Inl e, s)
    | Inr (vnics, if_changed) \<Rightarrow> Some (Inr (x # vnics, if_changed), s))"
  by (cases r) (auto simp: reads_on_def)

lemma mend_vnics_reads: "reads_on d (mend_vnics K True edge_id v vnics if_changed)"
proof (induction vnics arbitrary: if_changed)
  case Nil
  then show ?case by (simp add: reads_on_def)
next
  case (Cons vnic vnics)
  show ?case
  proof (cases "jfield ''index'' vnic")
    case (Inl e)
    then show ?thesis by (simp add: reads_on_def)
  next
    case (Inr index)
    have head: "reads_on d (\<lambda>s. if index = JInt (vb_vnic_index v)
        then mend_vnic K True edge_id (edge_ref (vb_network_id v)) (vb_tunnel_index v) vnic s else Some (Inr (vnic, False), s))"
      using mend_vnic_reads [of d K edge_id _ _ vnic] by (simp add: reads_on_def)
    have "reads_on d (\<lambda>s. case r of Inl e \<Rightarrow> Some (Inl e, s) | Inr (vnic, changed) \<Rightarrow>
        Option.bind (mend_vnics K True edge_id v vnics (if changed then AList.update index True if_changed else if_changed) s) (\<lambda>(r, s).
          case r of Inl e \<Rightarrow> Some (Inl e, s) | Inr (vnics, if_changed) \<Rightarrow> Some (Inr (vnic # vnics, if_changed), s)))" for r
    proof (cases r)
      case (Inr p)
      obtain x c where "p = (x, c)" by (cases p)
      with Inr show ?thesis by (simp, intro conjI impI reads_on_bind [OF Cons.IH cons_reads])
    qed (simp add: reads_on_def)
    from reads_on_bind [OF head this] Inr show ?thesis by (simp add: reads_on_def)
  qed
qed

lemma add_missing_subinterfaces_reads: "reads_on d (add_missing_subinterfaces K True edge_id vs vnics if_changed)"
proof (induction vs arbitrary: vnics if_changed)
  case Nil
  then show ?case by (simp add: reads_on_def)
next
  case (Cons v vs)
  have rest: "reads_on d (\<lambda>s. case r of Inl e \<Rightarrow> Some (Inl e, s)
      | Inr (vnics, if_changed) \<Rightarrow> add_missing_subinterfaces K True edge_id vs vnics if_changed s)" for r
    using Cons.IH by (cases r) (auto simp: reads_on_def)
  from reads_on_bind [OF mend_vnics_reads rest, of K edge_id v] Cons.IH show ?case
    by (simp add: reads_on_def)
qed

lemma validate_dhcp_edge_reads: "reads_on d (validate_dhcp_edge K True edge_id bs)"
proof (rule reads_onI)
  fix s assume s: "only_read d s"
  let ?m = "bind_st (fix_tables K True edge_id bs) (\<lambda>_ s. let vs = hk_vnics K edge_id s in
      bind_st (read_vnics K edge_id) (\<lambda>vnics. bind_st (sweep_vnics K edge_id vs vnics []) (\<lambda>(vnics, if_changed).
      return_st (vs, vnics, if_changed))) s)"
  have tail: "keeps_st (only_read d) (\<lambda>s. bind_st (read_vnics K edge_id) (\<lambda>vnics. bind_st (sweep_vnics K edge_id (hk_vnics K edge_id s) vnics [])
      (\<lambda>(vnics, if_changed). return_st (hk_vnics K edge_id s, vnics, if_changed))) s)"
  proof -
    have "keeps_st (only_read d) (bind_st (read_vnics K edge_id) (\<lambda>vnics. bind_st (sweep_vnics K edge_id x vnics [])
        (\<lambda>(vnics, if_changed). return_st (x, vnics, if_changed))))" for x by (intro st_intros)
    then show ?thesis by (simp add: keeps_st_def)
  qed
  have k: "keeps_st (only_read d) ?m"
    unfolding Let_def using keeps_bind [OF fix_tables_reads tail] .
  obtain r s' where m: "?m s = (r, s')" by (cases "?m s")
  with keeps_st_run [OF k s] have s': "only_read d s'" .
  show "\<exists>r s'. validate_dhcp_edge K True edge_id bs s = Some (r, s') \<and> only_read d s'"
  proof (cases r)
    case (Inl e)
    with m s' show ?thesis by (simp add: validate_dhcp_edge_def)
  next
    case (Inr p)
    obtain vs vnics if_changed where p: "p = (vs, vnics, if_changed)" by (cases p)
    from add_missing_subinterfaces_reads [of d K edge_id vs vnics if_changed] s' obtain q s'' where
      "add_missing_subinterfaces K True edge_id vs vnics if_changed s' = Some (q, s'')" "only_read d s''"
      unfolding reads_on_def by blast
    with m Inr p show ?thesis by (cases q) (auto simp: validate_dhcp_edge_def)
  qed
qed

lemma validate_dhcp_edges_reads:
  "only_read d s \<Longrightarrow> \<exists>s'. validate_dhcp_edges K True es s = Some s' \<and> only_read d s'"
proof (induction es arbitrary: s)
  case (Cons e es)
  obtain edge_id bs where e: "e = (edge_id, bs)" by (cases e)
  from validate_dhcp_edge_reads [of d K edge_id bs] Cons.prems obtain r s' where
    "validate_dhcp_edge K True edge_id bs s = Some (r, s')" "only_read d s'" unfolding reads_on_def by blast
  with Cons.IH e show ?case by (cases r) auto
qed simp

lemma dhcp_job_reads: "\<exists>r d'. run_error_dhcp_edge K True d = Some (Inr r, d') \<and> only_asked d d' \<and> hk_fixed_count r = 0"
proof (cases "error_bindings (he_env K) (ds_edge d)")
  case (Cons b bs)
  have "only_read d (start_job d)" by (simp add: only_read_def start_job_def)
  from validate_dhcp_edges_reads [OF this, of K "group_by_edge (b # bs) []"] Cons show ?thesis
    by (auto simp: run_error_dhcp_edge_def only_read_def job_result_def)
qed (simp add: run_error_dhcp_edge_def)

lemma handle_backup_edges_reads: "handle_backup_edges M True bs r s = (Inr (r\<lparr>hk_error_count := hk_error_count r + length bs,
    hk_error_info := fold (\<lambda>b i. housekeeper_warning i (''Backup Edge appliance '' @ edge_ref (rb_edge_id b) @ '' is in ERROR state''))
      bs (hk_error_info r)\<rparr>), s)"
  by (induction bs arbitrary: r) (simp_all add: return_st_def)

lemma backup_job_reads: "\<exists>r. run_error_backup_edge M True s = (Inr r, s) \<and> hk_fixed_count r = 0"
  by (simp add: run_error_backup_edge_def handle_backup_edges_reads split: list.split)

lemma job_reads:
  assumes "j = backup_job M \<or> j = dhcp_job K"
  shows "\<exists>r d'. job_run j True d = Some (Inr r, d') \<and> only_asked d d' \<and> hk_fixed_count r = 0"
  using assms
proof
  assume "j = backup_job M"
  moreover from backup_job_reads obtain r where "run_error_backup_edge M True (ds_edge d) = (Inr r, ds_edge d)" "hk_fixed_count r = 0"
    by blast
  ultimately show ?thesis by (simp add: backup_job_def on_edge_def)
next
  assume "j = dhcp_job K"
  with dhcp_job_reads [of K d] show ?thesis by (simp add: dhcp_job_def)
qed

lemma only_asked_trans: "only_asked d d' \<Longrightarrow> only_asked d' d'' \<Longrightarrow> only_asked d d''"
  by (auto simp: only_asked_def)

lemma run_jobs_reads:
  assumes "\<forall>j \<in> set js. j = backup_job M \<or> j = dhcp_job K"
  shows "\<exists>r' d'. run_jobs Q True js r d = Some (Inr r', d') \<and> only_asked d d' \<and> hk_fixed_count r' = hk_fixed_count r"
  using assms
proof (induction js arbitrary: r d)
  case (Cons j js)
  from Cons.prems job_reads [of j M K d] obtain q d' where q: "job_run j True d = Some (Inr q, d')" "only_asked d d'" "hk_fixed_count q = 0"
    by auto
  let ?r = "\<lparr>hk_error_count = hk_error_count r + hk_error_count q, hk_fixed_count = hk_fixed_count r + hk_fixed_count q,
      hk_error_info = hk_error_info r @ hk_error_info q @ newline\<rparr>"
  from Cons.IH [of ?r d'] Cons.prems obtain r' d'' where
    "run_jobs Q True js ?r d' = Some (Inr r', d'')" "only_asked d' d''" "hk_fixed_count r' = hk_fixed_count r" using q(3) by auto
  with q show ?case using only_asked_trans [of d d' d''] by simp
qed simp

lemma only_asked_result:
  "f = Some (r, Q, d') \<Longrightarrow> only_asked d d' \<Longrightarrow> P Q \<Longrightarrow>
    \<exists>r Q w. f = Some (r, Q, d\<lparr>ds_edge := (ds_edge d)\<lparr>es_world := w\<rparr>\<rparr>) \<and> P Q"
  unfolding only_asked_def by blast

text \<open>C9: A run of the housekeeper that only reads, and any run of a housekeeper that is read only, returns, leaves
  every table and port as it was, and counts no fix: all it does is ask the manager.\<close>

theorem readonly_run_changes_nothing:
  assumes "\<forall>j \<in> set (map snd (hk_jobs Q)). j = backup_job M \<or> j = dhcp_job K" "readonly \<or> hk_readonly Q"
  shows "\<exists>r Q' w. hk_run Q is_admin name readonly d = Some (r, Q', d\<lparr>ds_edge := (ds_edge d)\<lparr>es_world := w\<rparr>\<rparr>) \<and>
    (\<forall>(n, q) \<in> set (hk_results Q'). hk_fixed_count q = 0)"
proof -
  let ?Q = "Q\<lparr>hk_results := []\<rparr>" and ?r = "\<lparr>hk_error_count = 0, hk_fixed_count = 0, hk_error_info = []\<rparr>"
  have same: "\<exists>w. d = d\<lparr>ds_edge := (ds_edge d)\<lparr>es_world := w\<rparr>\<rparr>" using only_asked_refl [of d] by (simp only: only_asked_def)
  have refused: "\<not> readonly \<Longrightarrow> \<not> readwrite_allowed ?Q n" for n using assms(2) by (simp add: readwrite_allowed_def)
  from run_jobs_reads [OF assms(1), of ?Q ?r d] obtain r' d' where
    all: "run_jobs ?Q True (map snd (hk_jobs Q)) ?r d = Some (Inr r', d')" "only_asked d d'" "hk_fixed_count r' = 0" by auto
  have one: "\<exists>q d'. job_run j True d = Some (Inr q, d') \<and> only_asked d d' \<and> hk_fixed_count q = 0"
    if "map_of (hk_jobs Q) name = Some j" for j
    by (rule job_reads) (use assms(1) map_of_SomeD [OF that] in force)
  show ?thesis
  proof (cases "is_admin \<and> readonly")
    case False
    then show ?thesis using same refused by (auto simp: hk_run_def Let_def split: option.split)
  next
    case True
    then have ro: is_admin readonly by auto
    show ?thesis
    proof (cases "name = ALL_DUMMY_JOB_NAME")
      case name: True
      have "hk_run Q is_admin name readonly d = Some (Inr (), Q\<lparr>hk_results := [(name, r')]\<rparr>, d')"
        using all(1) ro name by (simp add: hk_run_def Let_def)
      from only_asked_result [OF this all(2), where P = "\<lambda>Q'. \<forall>(n, q) \<in> set (hk_results Q'). hk_fixed_count q = 0"] all(3)
      show ?thesis by simp
    next
      case name: False
      show ?thesis
      proof (cases "map_of (hk_jobs Q) name")
        case None
        then have "hk_run Q is_admin name readonly d = Some (Inl (ObjectNotFound name), ?Q, d)"
          using ro name by (simp add: hk_run_def Let_def)
        then show ?thesis using same by simp
      next
        case (Some j)
        from one [OF this] obtain q d' where q: "job_run j True d = Some (Inr q, d')" "only_asked d d'" "hk_fixed_count q = 0"
          by blast
        then have "hk_run Q is_admin name readonly d = Some (Inr (), Q\<lparr>hk_results := [(job_name j, q)]\<rparr>, d')"
          using ro name Some by (simp add: hk_run_def Let_def)
        from only_asked_result [OF this q(2), where P = "\<lambda>Q'. \<forall>(n, q) \<in> set (hk_results Q'). hk_fixed_count q = 0"] q(3)
        show ?thesis by simp
      qed
    qed
  qed
qed


subsection \<open>The loop that feeds itself\<close>

text \<open>The sub-interface that the job makes has no name of a switch, so the loop that it is appended under takes it for
  another one to be mended.\<close>

definition mismatched :: "string \<Rightarrow> int \<Rightarrow> json \<Rightarrow> bool" where
  "mismatched network_id tunnel sub \<longleftrightarrow>
     jfield ''tunnelId'' sub = Inr (JInt tunnel) \<and> jfield_opt ''logicalSwitchName'' sub \<noteq> Inr (JStr network_id)"

definition mendable :: "json \<Rightarrow> json list \<Rightarrow> bool" where
  "mendable vnic subs \<longleftrightarrow> (\<exists>i p t. jfield ''index'' vnic = Inr i \<and> vnic_port_group vnic = Inr (Some p) \<and> jfield ''type'' vnic = Inr t) \<and>
     loop_subs vnic = Inr subs \<and> (\<forall>x \<in> set subs. \<exists>t. jfield ''tunnelId'' x = Inr t)"

lemma set_subs_fields:
  assumes "k \<noteq> ''subInterfaces''"
  shows "jfield k (set_sub_interfaces is vnic) = jfield k vnic" "jfield_opt k (set_sub_interfaces is vnic) = jfield_opt k vnic"
  using assms by (cases vnic; auto simp: set_sub_interfaces_def split: sum.split)+

lemma mendable_set:
  assumes "mendable vnic subs" "subs \<noteq> []" "\<forall>x \<in> set subs'. \<exists>t. jfield ''tunnelId'' x = Inr t"
  shows "mendable (set_sub_interfaces subs' vnic) subs'"
  using assms loop_subs_inner(2) [of vnic subs subs']
  by (auto simp: mendable_def set_subs_fields vnic_port_group_def)

lemma jfield_fold_jset:
  assumes "jfield k j = Inr v"
  shows "\<exists>w. jfield k (fold (\<lambda>(k, v). jset k v) kvs j) = Inr w \<and> (k \<notin> fst ` set kvs \<longrightarrow> w = v)"
  using assms
proof (induction kvs arbitrary: j v)
  case (Cons kv kvs)
  obtain k' u where kv: "kv = (k', u)" by (cases kv)
  from jfield_jset [OF Cons.prems, of k' u] have "jfield k (jset k' u j) = Inr (if k = k' then u else v)" by simp
  from Cons.IH [OF this] kv show ?case by auto
qed simp

lemma loop_subs_jset: "k \<noteq> ''subInterfaces'' \<Longrightarrow> loop_subs (jset k v j) = loop_subs j"
  by (cases j) (auto simp: loop_subs_def)

lemma as_trunk_mendable:
  assumes "mendable vnic subs" "vnic_port_group vnic = Inr (Some p)" "as_trunk K index (Some p) vnic = Inr vnic'"
  shows "mendable vnic' subs"
proof (cases "vnic' = vnic")
  case False
  let ?kvs = "[(''name'', JStr (INTERNAL_VNIC_NAME @ he_show K index)), (''type'', JStr ''trunk''),
      (''portgroupId'', opt_json (Some p)), (''mtu'', JInt 1500), (''enableProxyArp'', JBool False),
      (''enableSendRedirects'', JBool True), (''isConnected'', JBool True)]"
  from False assms(3) have v': "vnic' = fold (\<lambda>(k, v). jset k v) ?kvs vnic"
    by (auto simp: as_trunk_def bind_res_Inr_iff split: if_splits)
  from assms(1) obtain i t where f: "jfield ''index'' vnic = Inr i" "jfield ''type'' vnic = Inr t" "loop_subs vnic = Inr subs"
    by (auto simp: mendable_def)
  from f(1) obtain al where al: "vnic = JObj al" using jfield_is_obj by blast
  have "loop_subs vnic' = Inr subs" unfolding v' by (simp add: loop_subs_jset f)
  moreover have "vnic_port_group vnic' = Inr (Some p)"
    unfolding v' al by (simp add: vnic_port_group_def json_opt_def opt_json_def)
  moreover have "\<exists>i. jfield ''index'' vnic' = Inr i" "\<exists>t. jfield ''type'' vnic' = Inr t"
    using jfield_fold_jset [OF f(1), of ?kvs] jfield_fold_jset [OF f(2), of ?kvs] unfolding v' by blast+
  ultimately show ?thesis using assms(1) by (auto simp: mendable_def)
qed (use assms in simp)

lemma recreate_appends:
  assumes "mendable vnic subs" "subs \<noteq> []"
    "retrieve_nsx_switch_id (dh_routes (he_dhcp K)) n (Some (az_name (dh_zone_of (he_dhcp K) n))) = return_st switch"
  shows "\<exists>vnic' iface s'. recreate_vnic_subinterface K n edge_id vnic t s = (Inr vnic', s') \<and>
    mendable vnic' (subs @ [iface]) \<and> mismatched n t iface"
proof -
  from assms(1) obtain i p ty where f: "jfield ''index'' vnic = Inr i" "vnic_port_group vnic = Inr (Some p)" "jfield ''type'' vnic = Inr ty"
    "loop_subs vnic = Inr subs" by (auto simp: mendable_def)
  note inner = loop_subs_inner [OF f(4) assms(2)]
  have d: "\<exists>d. jfield_opt ''subInterfaces'' vnic = Inr d \<and> truthy_json d"
    using f(4) assms(2) by (auto simp: loop_subs_def split: json.splits option.splits)
  let ?face = "\<lambda>u. sub_interface u t switch (he_address_groups K n)"
  obtain u1 s1 where u1: "on_dhcp (fresh_uuid (he_dhcp K)) s = (Inr u1, s1)" by (simp add: on_dhcp_def fresh_uuid_def)
  obtain u2 s2 where u2: "on_dhcp (create_sub_interface (he_dhcp K) n name t (he_address_groups K n) (Some p)) s1 =
      (Inr (Some p, ?face u2), s2)" for name
    by (simp add: on_dhcp_def create_sub_interface_def assms(3) st_defs on_edge_def fresh_uuid_def)
  let ?new = "set_sub_interfaces (subs @ [?face u2]) vnic"
  have face: "jfield ''tunnelId'' (?face u2) = Inr (JInt t)" "mismatched n t (?face u2)"
    by (simp_all add: sub_interface_def mismatched_def)
  have new: "mendable ?new (subs @ [?face u2])"
    using mendable_set [OF assms(1,2)] assms(1) face(1) by (auto simp: mendable_def)
  have pg: "vnic_port_group ?new = Inr (Some p)" using f(2) by (simp add: vnic_port_group_def set_subs_fields)
  have "jfield ''type'' ?new = Inr ty" using f(3) by (simp add: set_subs_fields)
  then obtain vnic' where v': "as_trunk K i (Some p) ?new = Inr vnic'" by (auto simp: as_trunk_def)
  have add: "add_sub (?face u2) vnic = Inr ?new" using d inner(1) by (auto simp: add_sub_def)
  have "recreate_vnic_subinterface K n edge_id vnic t s = (Inr vnic', s2)"
    by (simp add: recreate_vnic_subinterface_def st_defs hk_raise_def f u1 u2 add v')
  with as_trunk_mendable [OF new pg v'] face(2) show ?thesis by blast
qed

lemma mend_sub_appends:
  assumes "mendable vnic subs" "i < length subs"
    "retrieve_nsx_switch_id (dh_routes (he_dhcp K)) n (Some (az_name (dh_zone_of (he_dhcp K) n))) = return_st switch"
  shows "\<exists>vnic' iface s' x. mend_sub K False edge_id n t i vnic s = (Inr vnic', s') \<and>
    mendable vnic' (subs[i := x] @ [iface]) \<and> mismatched n t iface"
proof -
  have ne: "subs \<noteq> []" using assms(2) by auto
  obtain idx where idx: "jfield ''index'' vnic = Inr idx" using assms(1) by (auto simp: mendable_def)
  obtain vnic1 iface s1 where r: "recreate_vnic_subinterface K n edge_id vnic t
      (warn (misplaced_message K edge_id idx t n) (count_error s)) = (Inr vnic1, s1)"
      "mendable vnic1 (subs @ [iface])" "mismatched n t iface"
    using recreate_appends [OF assms(1) ne assms(3), of edge_id t "warn (misplaced_message K edge_id idx t n) (count_error s)"] by blast
  let ?x = "jset ''name'' (JStr n) (subs ! i)"
  have l: "loop_subs vnic1 = Inr (subs @ [iface])" using r(2) by (simp add: mendable_def)
  have "\<exists>t. jfield ''tunnelId'' ?x = Inr t"
  proof -
    from assms(2) have "subs ! i \<in> set subs" by simp
    with assms(1) obtain t' where "jfield ''tunnelId'' (subs ! i) = Inr t'" unfolding mendable_def by blast
    from jfield_jset [OF this, of "''name''"] show ?thesis by auto
  qed
  moreover have "\<forall>x \<in> set (subs @ [iface]). \<exists>t. jfield ''tunnelId'' x = Inr t" using r(2) by (simp add: mendable_def)
  ultimately have "\<forall>x \<in> set (subs[i := ?x] @ [iface]). \<exists>t. jfield ''tunnelId'' x = Inr t"
    using set_update_subset_insert [of subs i ?x] by auto
  from mendable_set [OF r(2) _ this]
  have "mendable (set_sub_interfaces (subs[i := ?x] @ [iface]) vnic1) (subs[i := ?x] @ [iface])" by simp
  moreover have "mend_sub K False edge_id n t i vnic s =
      (Inr (set_sub_interfaces (subs[i := ?x] @ [iface]) vnic1), count_fixed s1)"
    using r(1) loop_subs_inner(1) [OF l] assms(2)
    by (simp add: mend_sub_def st_defs hk_raise_def idx rename_sub_def list_update_append nth_append)
  ultimately show ?thesis using r(3) by blast
qed

definition meets_mismatch :: "string \<Rightarrow> int \<Rightarrow> nat \<Rightarrow> json \<Rightarrow> bool" where
  "meets_mismatch n t i vnic \<longleftrightarrow> (\<exists>subs j. mendable vnic subs \<and> i \<le> j \<and> j < length subs \<and> mismatched n t (subs ! j))"

definition switch_known :: "('w, 'd, 't, 'v, 'b, 'm, 'n, 's) hk_env \<Rightarrow> string \<Rightarrow> bool" where
  "switch_known K n \<longleftrightarrow> (\<exists>switch. retrieve_nsx_switch_id (dh_routes (he_dhcp K)) n (Some (az_name (dh_zone_of (he_dhcp K) n))) =
     (return_st switch :: ('w, 'd, 't, 'v, string option) edge_op))"

text \<open>One round of the loop from such a vnic leads to another round from such a vnic.\<close>

lemma mend_round:
  assumes "meets_mismatch n t i vnic" "switch_known K n"
  obtains subs where "loop_subs vnic = Inr subs" "i < length subs" "\<exists>t. jfield ''tunnelId'' (subs ! i) = Inr t"
    "\<not> mismatched n t (subs ! i) \<Longrightarrow> meets_mismatch n t (Suc i) vnic"
    "mismatched n t (subs ! i) \<Longrightarrow> \<exists>vnic' s'. mend_sub K False edge_id n t i vnic s = (Inr vnic', s') \<and> meets_mismatch n t (Suc i) vnic'"
proof -
  from assms(1) obtain subs j where m: "mendable vnic subs" "i \<le> j" "j < length subs" "mismatched n t (subs ! j)"
    by (auto simp: meets_mismatch_def)
  from assms(2) obtain switch where sw: "retrieve_nsx_switch_id (dh_routes (he_dhcp K)) n (Some (az_name (dh_zone_of (he_dhcp K) n))) =
      return_st switch" by (auto simp: switch_known_def)
  have i: "i < length subs" using m(2,3) by simp
  have l: "loop_subs vnic = Inr subs" "\<forall>x \<in> set subs. \<exists>t. jfield ''tunnelId'' x = Inr t" using m(1) by (auto simp: mendable_def)
  have next_round: "meets_mismatch n t (Suc i) vnic" if "\<not> mismatched n t (subs ! i)"
  proof -
    have "Suc i \<le> j" using that m(2,4) by (cases "i = j") auto
    then show ?thesis using m unfolding meets_mismatch_def by blast
  qed
  have mended: "\<exists>vnic' s'. mend_sub K False edge_id n t i vnic s = (Inr vnic', s') \<and> meets_mismatch n t (Suc i) vnic'"
  proof -
    obtain vnic' iface s' x where r: "mend_sub K False edge_id n t i vnic s = (Inr vnic', s')"
      "mendable vnic' (subs[i := x] @ [iface])" "mismatched n t iface"
      using mend_sub_appends [OF m(1) i sw, of edge_id t s] by blast
    have "Suc i \<le> length subs" "length subs < length (subs[i := x] @ [iface])" "(subs[i := x] @ [iface]) ! length subs = iface"
      using i by (simp_all add: nth_append)
    with r show ?thesis unfolding meets_mismatch_def by metis
  qed
  show thesis by (rule that [OF l(1) i _ next_round mended]) (use l(2) i in auto)
qed

lemma mend_subs_no_result:
  assumes "mend_subs K readonly edge_id n t i vnic found changed s = Some y"
  shows "\<not> (\<not> readonly \<and> switch_known K n \<and> meets_mismatch n t i vnic)"
proof (rule mend_subs.raw_induct [where P = "\<lambda>K readonly edge_id n t i vnic found changed s y.
    \<not> (\<not> readonly \<and> switch_known K n \<and> meets_mismatch n t i vnic)", OF _ assms], goal_cases)
  case (1 f K readonly edge_id n t i vnic found changed s y)
  note IH = 1(1) and body = 1(2)
  show "\<not> (\<not> readonly \<and> switch_known K n \<and> meets_mismatch n t i vnic)"
  proof
    assume bad: "\<not> readonly \<and> switch_known K n \<and> meets_mismatch n t i vnic"
    then obtain subs where r: "loop_subs vnic = Inr subs" "i < length subs" "\<exists>t. jfield ''tunnelId'' (subs ! i) = Inr t"
      "\<not> mismatched n t (subs ! i) \<Longrightarrow> meets_mismatch n t (Suc i) vnic"
      "mismatched n t (subs ! i) \<Longrightarrow> \<exists>vnic' s'. mend_sub K False edge_id n t i vnic s = (Inr vnic', s') \<and> meets_mismatch n t (Suc i) vnic'"
      using mend_round [of n t i vnic K edge_id s] by blast
    then obtain t' where t': "jfield ''tunnelId'' (subs ! i) = Inr t'" by blast
    show False
    proof (cases "mismatched n t (subs ! i)")
      case True
      with r(5) obtain vnic' s' where v: "mend_sub K False edge_id n t i vnic s = (Inr vnic', s')" "meets_mismatch n t (Suc i) vnic'"
        by blast
      from body True t' r(1,2) v(1) bad have "f K readonly edge_id n t (Suc i) vnic' True True s' = Some y"
        by (simp add: mismatched_def)
      from IH [OF this] v(2) bad show False by blast
    next
      case False
      with body t' r(1,2) have "\<exists>found'. f K readonly edge_id n t (Suc i) vnic found' changed s = Some y"
        by (auto simp: mismatched_def split: if_splits)
      then obtain found' where "f K readonly edge_id n t (Suc i) vnic found' changed s = Some y" ..
      from IH [OF this] r(4) [OF False] bad show False by blast
    qed
  qed
qed

text \<open>C11: Once the loop over the sub-interfaces of a vnic meets one that has the tunnel of a binding under the wrong name, the
  job never returns when it may write: the sub-interface it appends has the tunnel, and no name.\<close>

theorem mended_vnic_never_returns:
  assumes "mendable vnic subs" "j < length subs" "mismatched n t (subs ! j)" "switch_known K n"
  shows "mend_vnic K False edge_id n t vnic s = None"
proof -
  have "meets_mismatch n t 0 vnic" using assms(1-3) by (auto simp: meets_mismatch_def)
  with mend_subs_no_result [of K False edge_id n t 0 vnic False False s] assms(4) show ?thesis
    by (cases "mend_subs K False edge_id n t 0 vnic False False s") (auto simp: mend_vnic_def)
qed


subsection \<open>What the sweep leaves\<close>

text \<open>The reference for the sweep: a stray is dropped, and what follows it is kept unseen.\<close>

fun kept_by_sweep :: "('a \<Rightarrow> bool) \<Rightarrow> 'a list \<Rightarrow> 'a list" where
  "kept_by_sweep p [] = []"
| "kept_by_sweep p [x] = (if p x then [x] else [])"
| "kept_by_sweep p (x # y # xs) = (if p x then x # kept_by_sweep p (y # xs) else y # kept_by_sweep p xs)"

lemma kept_by_sweep_Cons: "kept_by_sweep p (x # xs) = (if p x then x # kept_by_sweep p xs
    else case xs of [] \<Rightarrow> [] | y # ys \<Rightarrow> y # kept_by_sweep p ys)"
  by (cases xs) auto

lemma sweep_from:
  assumes "distinct (pre @ rest)" "\<forall>x \<in> set rest. registered vs index x = Inr (p x) \<and> (\<exists>t. jfield ''tunnelId'' x = Inr t)"
  shows "\<exists>s'. sweep_subs K edge_id vs index (length pre) (pre @ rest) changed s =
      (Inr (pre @ kept_by_sweep p rest, changed \<or> kept_by_sweep p rest \<noteq> rest), s') \<and>
    hs_dhcp s' = hs_dhcp s \<and> length rest + hs_errors s = length (kept_by_sweep p rest) + hs_errors s' \<and>
    hs_errors s \<le> hs_errors s'"
  using assms
proof (induction p rest arbitrary: pre changed s rule: kept_by_sweep.induct)
  case (1 p)
  then show ?case by (subst sweep_subs.simps) auto
next
  case (2 p x)
  show ?case
  proof (cases "p x")
    case True
    with 2 show ?thesis
      by (subst sweep_subs.simps) (auto simp: nth_append sweep_subs.simps [of _ _ _ _ "Suc (length pre)"])
  next
    case False
    from 2(1) have "remove1 x (pre @ [x]) = pre" by (simp add: remove1_append)
    with 2 False show ?thesis
      by (subst sweep_subs.simps)
        (auto simp: nth_append Let_def warn_def count_error_def sweep_subs.simps [of _ _ _ _ "Suc (length pre)"])
  qed
next
  case (3 p x y xs)
  show ?case
  proof (cases "p x")
    case True
    have "sweep_subs K edge_id vs index (length pre) (pre @ x # y # xs) changed s =
        sweep_subs K edge_id vs index (length (pre @ [x])) ((pre @ [x]) @ y # xs) changed s"
      using 3(4) True by (subst sweep_subs.simps) (simp add: nth_append)
    with 3(1) [OF True, of "pre @ [x]" changed s] 3(3,4) True show ?thesis by simp
  next
    case False
    from 3(4) obtain t where t: "jfield ''tunnelId'' x = Inr t" by auto
    let ?s = "(warn (stray_message K edge_id index t) (count_error s))\<lparr>hs_fixed_sub := hs_fixed_sub s + 1\<rparr>"
    have s: "hs_dhcp ?s = hs_dhcp s" "hs_errors ?s = hs_errors s + 1" by (simp_all add: warn_def count_error_def)
    have "remove1 x (pre @ x # y # xs) = (pre @ [y]) @ xs" using 3(3) by (simp add: remove1_append)
    then have "sweep_subs K edge_id vs index (length pre) (pre @ x # y # xs) changed s =
        sweep_subs K edge_id vs index (length (pre @ [y])) ((pre @ [y]) @ xs) True ?s"
      using 3(4) False t by (subst sweep_subs.simps) (simp add: nth_append Let_def warn_def count_error_def)
    moreover have "kept_by_sweep p (x # y # xs) \<noteq> x # y # xs" using False 3(3) by auto
    ultimately show ?thesis
      using 3(2) [OF False, of "pre @ [y]" True ?s] 3(3,4) False s by auto
  qed
qed

text \<open>C12: The sweep over the sub-interfaces of a vnic, which removes from the list it goes over, is the reference that drops a
  stray and keeps the one after it unseen: it counts one error for each that it drops, so a stray right after a dropped
  one stays at the manager, uncounted.\<close>

theorem sweep_skips_after_stray:
  assumes "distinct subs" "\<forall>x \<in> set subs. registered vs index x = Inr (p x) \<and> (\<exists>t. jfield ''tunnelId'' x = Inr t)"
  shows "\<exists>s'. sweep_subs K edge_id vs index 0 subs False s =
      (Inr (kept_by_sweep p subs, kept_by_sweep p subs \<noteq> subs), s') \<and> hs_dhcp s' = hs_dhcp s \<and>
    length subs + hs_errors s = length (kept_by_sweep p subs) + hs_errors s'"
  using sweep_from [of "[]" subs vs index p K edge_id False s] assms by auto

subsection \<open>The pooled edges in error after the job\<close>





subsection \<open>Witnesses\<close>

text \<open>A job over the tables of the samples, with a switch for the network 2, and a vnic whose only sub-interface has the tunnel
  of that network under another name.\<close>

definition sample_hk :: "(unit, json, router_binding list, edge_vnic_binding list, tz_network_binding list, network_mapping list,
    internal_network list, edge_dhcp_static_binding list) hk_env" where
  "sample_hk = \<lparr>he_dhcp = sample_dhcp\<lparr>dh_routes := sample_routes\<lparr>re_sw_rows :=
       [\<lparr>nm_neutron_id = ''2'', nm_nsx_id = ''vw-2'', nm_dvs_id = None\<rparr>]\<rparr>\<rparr>,
     he_networks = [''1'', ''2''], he_address_groups = (\<lambda>_. []), he_show_exc = (\<lambda>_. []), he_show = (\<lambda>_. [])\<rparr>"

definition sample_sub_if :: "int \<Rightarrow> string \<Rightarrow> json" where
  "sample_sub_if tunnel name = JObj [(''tunnelId'', JInt tunnel), (''logicalSwitchName'', JStr name), (''name'', JStr ''sub'')]"

definition sample_trunk :: "json list \<Rightarrow> json" where
  "sample_trunk subs = JObj [(''index'', JInt 1), (''type'', JStr ''trunk''), (''isConnected'', JBool True),
     (''portgroupId'', JStr ''pg-1''), (''subInterfaces'', JObj [(''subInterfaces'', JList subs)])]"

definition sample_hk_state :: "(unit, router_binding list, edge_vnic_binding list, edge_dhcp_static_binding list) hk_state" where
  "sample_hk_state = start_job sample_dhcp_state"

theorem readonly_run_changes_nothing_witness:
  "\<exists>r Q w. hk_run (new_housekeeper [backup_job (sample_mgr []), dhcp_job sample_hk] [''error_dhcp_edge''] False []) True ''all'' True
     sample_dhcp_state = Some (r, Q, sample_dhcp_state\<lparr>ds_edge := (ds_edge sample_dhcp_state)\<lparr>es_world := w\<rparr>\<rparr>) \<and>
    (\<forall>(n, q) \<in> set (hk_results Q). hk_fixed_count q = 0)"
  by (rule readonly_run_changes_nothing [of _ "sample_mgr []" sample_hk])
    (simp_all add: new_housekeeper_def backup_job_def dhcp_job_def)

theorem mended_vnic_never_returns_witness:
  "mend_vnic sample_hk False (Some ''edge-1'') ''2'' 1 (sample_trunk [sample_sub_if 1 ''other'']) sample_hk_state = None"
proof (rule mended_vnic_never_returns)
  show "mendable (sample_trunk [sample_sub_if 1 ''other'']) [sample_sub_if 1 ''other'']"
    by (simp add: mendable_def sample_trunk_def sample_sub_if_def loop_subs_def vnic_port_group_def json_opt_def)
  show "mismatched ''2'' 1 ([sample_sub_if 1 ''other''] ! 0)"
    by (simp add: mismatched_def sample_sub_if_def)
  show "switch_known sample_hk ''2''"
    by (simp only: switch_known_def, rule exI [of _ "Some ''vw-2''"])
      (simp add: sample_hk_def retrieve_nsx_switch_id_def sample_dhcp_def sample_routes_def Let_def
        get_network_bindings_def get_nsx_switch_ids_def get_nsx_network_mappings_def list_orm_def)
qed simp

theorem sweep_skips_after_stray_witness:
  "\<exists>s. sweep_subs sample_hk (Some ''edge-1'') [sample_vnic ''edge-1'' 1 ''2''] (JInt 1) 0
      [sample_sub_if 5 ''a'', sample_sub_if 6 ''b'', sample_sub_if 1 ''2''] False sample_hk_state =
    (Inr ([sample_sub_if 6 ''b'', sample_sub_if 1 ''2''], True), s) \<and> hs_errors s = 1"
proof -
  let ?subs = "[sample_sub_if 5 ''a'', sample_sub_if 6 ''b'', sample_sub_if 1 ''2'']" and ?p = "\<lambda>x. x = sample_sub_if 1 ''2''"
  have d: "distinct ?subs" and r: "\<forall>x \<in> set ?subs. registered [sample_vnic ''edge-1'' 1 ''2''] (JInt 1) x = Inr (?p x) \<and>
      (\<exists>t. jfield ''tunnelId'' x = Inr t)"
    by (simp_all add: sample_sub_if_def registered_def vnic_for_def sample_vnic_def free_vnic_def)
  have k: "kept_by_sweep ?p ?subs = [sample_sub_if 6 ''b'', sample_sub_if 1 ''2'']" by (simp add: sample_sub_if_def)
  have z: "hs_errors sample_hk_state = 0" by (simp add: sample_hk_state_def start_job_def)
  from sweep_skips_after_stray [OF d r, of sample_hk "Some ''edge-1''" sample_hk_state] show ?thesis
    unfolding k using z by auto
qed



end
