(* ===== verification/LoadBalancer.thy ===== *)
theory LoadBalancer
  imports VcnsApi
begin

text \<open>
  The load balancer of an edge (\<open>vshield/nsxv_loadbalancer.py\<close>, \<open>nsxv_edge_cfg_obj.py\<close>): objects with a payload, the
  request that they are sent as, in which they refer to each other by numbers, and the objects that are made of the manager's
  answer. A payload is a JSON object; an object that only has a payload is its payload.
\<close>

subsection \<open>Objects\<close>

record lb_pool =
  lp_payload :: json
  lp_members :: "(json, json) pydict"
  lp_monitors :: "(json, json) pydict"

record lb_vserver =
  lv_payload :: json
  lv_app_rules :: "(json, json) pydict"
  lv_app_profile :: "json option"
  lv_default_pool :: "lb_pool option"

record load_balancer =
  lb_payload :: json
  lb_virtual_servers :: "(json, lb_vserver) pydict"

text \<open>The name of an object as a key: a list or a dictionary has no hash.\<close>

definition name_key :: "json \<Rightarrow> py_exc + json" where
  "name_key payload = bind_res (jfield ''name'' payload) (\<lambda>n. case n of JList _ \<Rightarrow> Inl TypeError | JObj _ \<Rightarrow> Inl TypeError | _ \<Rightarrow> Inr n)"

definition add_named :: "('a \<Rightarrow> json) \<Rightarrow> 'a \<Rightarrow> (json, 'a) pydict \<Rightarrow> py_exc + (json, 'a) pydict" where
  "add_named payload x d = bind_res (name_key (payload x)) (\<lambda>n. Inr (AList.update n x d))"

definition new_loadbalancer :: "json \<Rightarrow> json \<Rightarrow> json \<Rightarrow> load_balancer" where
  "new_loadbalancer enabled enable_service_insertion acceleration_enabled =
     \<lparr>lb_payload = JObj [(''enabled'', enabled), (''enableServiceInsertion'', enable_service_insertion),
        (''accelerationEnabled'', acceleration_enabled)], lb_virtual_servers = []\<rparr>"

definition add_virtual_server :: "lb_vserver \<Rightarrow> load_balancer \<Rightarrow> py_exc + load_balancer" where
  "add_virtual_server v L =
     bind_res (add_named lv_payload v (lb_virtual_servers L)) (\<lambda>vs. Inr (L\<lparr>lb_virtual_servers := vs\<rparr>))"

definition del_virtual_server :: "string \<Rightarrow> load_balancer \<Rightarrow> load_balancer" where
  "del_virtual_server name L = L\<lparr>lb_virtual_servers := AList.delete (JStr name) (lb_virtual_servers L)\<rparr>"

text \<open>The persistence of a profile: the cookie is only written when the mode, not the method, is \<open>cookie\<close>.\<close>

definition persistence :: "json \<Rightarrow> json \<Rightarrow> json \<Rightarrow> json \<Rightarrow> json" where
  "persistence persist_method cookie_name cookie_mode expire =
     JObj ([(''method'', persist_method), (''expire'', expire)] @
       (if cookie_mode = JStr ''cookie'' then [(''cookieMode'', cookie_mode), (''cookieName'', cookie_name)] else []))"

definition new_app_profile :: "json \<Rightarrow> json \<Rightarrow> json \<Rightarrow> json \<Rightarrow> json \<Rightarrow> json \<Rightarrow> bool \<Rightarrow> json \<Rightarrow> json \<Rightarrow> json \<Rightarrow> json \<Rightarrow> json" where
  "new_app_profile name server_ssl ssl_pass template xff client_ssl_cert persist persist_method cookie_name cookie_mode expire =
     JObj ([(''name'', name), (''serverSslEnabled'', server_ssl), (''sslPassthrough'', ssl_pass), (''template'', template),
        (''insertXForwardedFor'', xff)] @
      (if persist then [(''persistence'', persistence persist_method cookie_name cookie_mode expire)] else []) @
      (if truthy_json client_ssl_cert
       then [(''clientSsl'', JObj [(''clientAuth'', JStr ''ignore''), (''serviceCertificate'', JList [client_ssl_cert])])] else []))"

definition set_persistence :: "bool \<Rightarrow> json \<Rightarrow> json \<Rightarrow> json \<Rightarrow> json \<Rightarrow> json \<Rightarrow> json" where
  "set_persistence persist persist_method cookie_name cookie_mode expire payload =
     (if persist then jset ''persistence'' (persistence persist_method cookie_name cookie_mode expire) payload
      else (case payload of JObj al \<Rightarrow> JObj (AList.delete ''persistence'' al) | j \<Rightarrow> j))"

definition new_app_rule :: "json \<Rightarrow> json \<Rightarrow> json" where
  "new_app_rule name script = JObj [(''name'', name), (''script'', script)]"

definition new_virtual_server :: "json \<Rightarrow> json \<Rightarrow> json \<Rightarrow> json \<Rightarrow> json \<Rightarrow> json \<Rightarrow> json \<Rightarrow> json \<Rightarrow> lb_vserver" where
  "new_virtual_server name ip port protocol enabled accel limit service_insertion =
     \<lparr>lv_payload = JObj [(''name'', name), (''ipAddress'', ip), (''port'', port), (''protocol'', protocol), (''enabled'', enabled),
        (''accelerationEnabled'', accel), (''connectionLimit'', limit), (''enableServiceInsertion'', service_insertion)],
      lv_app_rules = [], lv_app_profile = None, lv_default_pool = None\<rparr>"

definition add_app_rule :: "json \<Rightarrow> lb_vserver \<Rightarrow> py_exc + lb_vserver" where
  "add_app_rule r v = bind_res (add_named id r (lv_app_rules v)) (\<lambda>rs. Inr (v\<lparr>lv_app_rules := rs\<rparr>))"

definition del_app_rule :: "string \<Rightarrow> lb_vserver \<Rightarrow> lb_vserver" where
  "del_app_rule name v = v\<lparr>lv_app_rules := AList.delete (JStr name) (lv_app_rules v)\<rparr>"

definition set_default_pool :: "lb_pool \<Rightarrow> lb_vserver \<Rightarrow> lb_vserver" where
  "set_default_pool p v = v\<lparr>lv_default_pool := Some p\<rparr>"

definition set_app_profile :: "json \<Rightarrow> lb_vserver \<Rightarrow> lb_vserver" where
  "set_app_profile a v = v\<lparr>lv_app_profile := Some a\<rparr>"

definition new_monitor :: "json \<Rightarrow> json \<Rightarrow> json \<Rightarrow> json \<Rightarrow> json \<Rightarrow> json \<Rightarrow> json \<Rightarrow> json" where
  "new_monitor name interval retries verb timeout mon_type url =
     JObj [(''name'', name), (''interval'', interval), (''maxRetries'', retries), (''method'', verb), (''timeout'', timeout),
       (''type'', mon_type), (''url'', url)]"

definition new_pool_member :: "json \<Rightarrow> json \<Rightarrow> json \<Rightarrow> json \<Rightarrow> json \<Rightarrow> json \<Rightarrow> json \<Rightarrow> json \<Rightarrow> json" where
  "new_pool_member name ip port monitor_port condition wt min_conn max_conn =
     JObj [(''name'', name), (''ipAddress'', ip), (''port'', port), (''monitorPort'', monitor_port), (''condition'', condition),
       (''weight'', wt), (''minConn'', min_conn), (''maxConn'', max_conn)]"

definition new_pool :: "json \<Rightarrow> json \<Rightarrow> json \<Rightarrow> lb_pool" where
  "new_pool name algorithm transparent =
     \<lparr>lp_payload = JObj [(''name'', name), (''algorithm'', algorithm), (''transparent'', transparent)], lp_members = [], lp_monitors = []\<rparr>"

definition add_member :: "json \<Rightarrow> lb_pool \<Rightarrow> py_exc + lb_pool" where
  "add_member m p = bind_res (add_named id m (lp_members p)) (\<lambda>ms. Inr (p\<lparr>lp_members := ms\<rparr>))"

definition del_member :: "string \<Rightarrow> lb_pool \<Rightarrow> lb_pool" where
  "del_member name p = p\<lparr>lp_members := AList.delete (JStr name) (lp_members p)\<rparr>"

definition add_monitor :: "json \<Rightarrow> lb_pool \<Rightarrow> py_exc + lb_pool" where
  "add_monitor m p = bind_res (add_named id m (lp_monitors p)) (\<lambda>ms. Inr (p\<lparr>lp_monitors := ms\<rparr>))"

definition del_monitor :: "string \<Rightarrow> lb_pool \<Rightarrow> lb_pool" where
  "del_monitor name p = p\<lparr>lp_monitors := AList.delete (JStr name) (lp_monitors p)\<rparr>"

subsection \<open>The request\<close>

text \<open>The payloads of a group of objects, each with the next number of its kind.\<close>

fun numbered :: "string \<Rightarrow> string \<Rightarrow> nat \<Rightarrow> json list \<Rightarrow> json list" where
  "numbered key prefix n [] = []"
| "numbered key prefix n (x # xs) = jset key (JStr (prefix @ nat_str n)) x # numbered key prefix (Suc n) xs"

fun numbers :: "string \<Rightarrow> nat \<Rightarrow> nat \<Rightarrow> json list" where
  "numbers prefix n 0 = []"
| "numbers prefix n (Suc k) = JStr (prefix @ nat_str n) # numbers prefix (Suc n) k"

record lb_ids =
  id_server :: nat
  id_rule :: nat
  id_monitor :: nat
  id_member :: nat

record lb_request =
  rq_profiles :: "json list"
  rq_rules :: "json list"
  rq_monitors :: "json list"
  rq_pools :: "json list"
  rq_servers :: "json list"

text \<open>Profiles, pools and servers have one counter each in the code, which stay equal: a server has one of each.\<close>

definition serialize_server :: "lb_ids \<Rightarrow> lb_vserver \<Rightarrow> py_exc + lb_request \<times> lb_ids" where
  "serialize_server i v =
     (case lv_app_profile v of
        None \<Rightarrow> Inl AttributeError
      | Some a \<Rightarrow>
          (case lv_default_pool v of
             None \<Rightarrow> Inl AttributeError
           | Some p \<Rightarrow>
               let n = nat_str (id_server i); rules = map snd (lv_app_rules v); monitors = map snd (lp_monitors p);
                   members = map snd (lp_members p);
                   profile_id = JStr (''applicationProfile-'' @ n); pool_id = JStr (''pool-'' @ n);
                   s_virt = jset ''applicationProfileId'' profile_id (jset ''virtualServerId'' (JStr (''virtualServer-'' @ n)) (lv_payload v));
                   s_virt = (if rules = [] then s_virt
                     else jset ''applicationRuleId'' (JList (numbers ''applicationRule-'' (id_rule i) (length rules))) s_virt);
                   s_pool = jset ''monitorId'' (JList (numbers ''monitor-'' (id_monitor i) (length monitors)))
                     (jset ''member'' (JList (numbered ''memberId'' ''member-'' (id_member i) members)) (jset ''poolId'' pool_id (lp_payload p)))
               in Inr (\<lparr>rq_profiles = [jset ''applicationProfileId'' profile_id a],
                    rq_rules = numbered ''applicationRuleId'' ''applicationRule-'' (id_rule i) rules,
                    rq_monitors = numbered ''monitorId'' ''monitor-'' (id_monitor i) monitors,
                    rq_pools = [s_pool], rq_servers = [jset ''defaultPoolId'' pool_id s_virt]\<rparr>,
                  \<lparr>id_server = id_server i + 1, id_rule = id_rule i + length rules, id_monitor = id_monitor i + length monitors,
                    id_member = id_member i + length members\<rparr>)))"

fun serialize_servers :: "lb_ids \<Rightarrow> lb_vserver list \<Rightarrow> py_exc + lb_request" where
  "serialize_servers i [] = Inr \<lparr>rq_profiles = [], rq_rules = [], rq_monitors = [], rq_pools = [], rq_servers = []\<rparr>"
| "serialize_servers i (v # vs) =
     bind_res (serialize_server i v) (\<lambda>(q, i). bind_res (serialize_servers i vs) (\<lambda>r.
       Inr \<lparr>rq_profiles = rq_profiles q @ rq_profiles r, rq_rules = rq_rules q @ rq_rules r,
         rq_monitors = rq_monitors q @ rq_monitors r, rq_pools = rq_pools q @ rq_pools r, rq_servers = rq_servers q @ rq_servers r\<rparr>))"

definition serializable_payload :: "load_balancer \<Rightarrow> py_exc + json" where
  "serializable_payload L =
     bind_res (serialize_servers \<lparr>id_server = 1, id_rule = 1, id_monitor = 1, id_member = 1\<rparr> (map snd (lb_virtual_servers L))) (\<lambda>q.
       let j = jset ''applicationProfile'' (JList (rq_profiles q)) (lb_payload L);
           j = (if rq_rules q = [] then j else jset ''applicationRule'' (JList (rq_rules q)) j)
       in Inr (fold (\<lambda>(k, v). jset k v) [(''monitor'', JList (rq_monitors q)), (''pool'', JList (rq_pools q)),
            (''virtualServer'', JList (rq_servers q)), (''featureType'', JStr ''loadbalancer_4.0'')] j))"

subsection \<open>The answer\<close>

text \<open>A loop that keeps the last object it makes, and one that hands each to the next step.\<close>

fun last_made :: "('a \<Rightarrow> py_exc + 'b option) \<Rightarrow> 'b option \<Rightarrow> 'a list \<Rightarrow> py_exc + 'b option" where
  "last_made f acc [] = Inr acc"
| "last_made f acc (x # xs) = bind_res (f x) (\<lambda>r. last_made f (case r of None \<Rightarrow> acc | Some y \<Rightarrow> Some y) xs)"

fun each_made :: "('a \<Rightarrow> py_exc + 'b option) \<Rightarrow> ('b \<Rightarrow> 'c \<Rightarrow> py_exc + 'c) \<Rightarrow> 'a list \<Rightarrow> 'c \<Rightarrow> py_exc + 'c" where
  "each_made f g [] c = Inr c"
| "each_made f g (x # xs) c = bind_res (f x) (\<lambda>r. case r of None \<Rightarrow> each_made f g xs c | Some y \<Rightarrow> bind_res (g y c) (each_made f g xs))"

definition fields :: "string list \<Rightarrow> json \<Rightarrow> py_exc + json list" where
  "fields ks j = map_res (\<lambda>k. jfield k j) ks"

definition list_field :: "string \<Rightarrow> json \<Rightarrow> py_exc + json list" where
  "list_field k j = bind_res (jfield k j) as_list"

definition same_field :: "string \<Rightarrow> json \<Rightarrow> string \<Rightarrow> json \<Rightarrow> py_exc + bool" where
  "same_field k x k' y = bind_res (jfield k x) (\<lambda>a. bind_res (jfield k' y) (\<lambda>b. Inr (a = b)))"

definition field_in :: "string \<Rightarrow> json \<Rightarrow> json \<Rightarrow> py_exc + bool" where
  "field_in k x y = bind_res (jfield k x) (\<lambda>a. bind_res (jfield k y) (py_in a))"

definition read_persistence :: "json \<Rightarrow> json \<Rightarrow> py_exc + json" where
  "read_persistence app_prof a =
     bind_res (jfield_opt ''persistence'' app_prof) (\<lambda>d.
       if \<not> truthy_json d then Inr a
       else bind_res (jfield ''method'' d) (\<lambda>m. bind_res (jfield_opt ''cookieName'' d) (\<lambda>n. bind_res (jfield_opt ''cookieMode'' d) (\<lambda>c.
            bind_res (jfield_opt ''expire'' d) (\<lambda>e. Inr (set_persistence True m n c e a))))))"

definition read_profile :: "json \<Rightarrow> json \<Rightarrow> py_exc + json option" where
  "read_profile virt app_prof =
     bind_res (same_field ''applicationProfileId'' virt ''applicationProfileId'' app_prof) (\<lambda>same.
       if \<not> same then Inr None
       else bind_res (fields [''name'', ''serverSslEnabled'', ''sslPassthrough'', ''template'', ''insertXForwardedFor''] app_prof) (\<lambda>fs.
            bind_res (read_persistence app_prof (new_app_profile (fs ! 0) (fs ! 1) (fs ! 2) (fs ! 3) (fs ! 4) JNull False
              (JStr ''cookie'') (JStr ''JSESSIONID'') (JStr ''insert'') (JInt 30))) (\<lambda>a. Inr (Some a))))"

definition read_member :: "json \<Rightarrow> py_exc + json option" where
  "read_member m =
     bind_res (fields [''name'', ''ipAddress'', ''port'', ''monitorPort'', ''condition'', ''weight'', ''minConn'', ''maxConn''] m) (\<lambda>fs.
       Inr (Some (new_pool_member (fs ! 0) (fs ! 1) (fs ! 2) (fs ! 3) (fs ! 4) (fs ! 5) (fs ! 6) (fs ! 7))))"

definition read_monitor :: "json \<Rightarrow> json \<Rightarrow> py_exc + json option" where
  "read_monitor pool mon =
     bind_res (field_in ''monitorId'' mon pool) (\<lambda>mine.
       if \<not> mine then Inr None
       else bind_res (fields [''name'', ''interval'', ''maxRetries'', ''method'', ''timeout'', ''type'', ''url''] mon) (\<lambda>fs.
            Inr (Some (new_monitor (fs ! 0) (fs ! 1) (fs ! 2) (fs ! 3) (fs ! 4) (fs ! 5) (fs ! 6)))))"

definition read_pool :: "json \<Rightarrow> json \<Rightarrow> json \<Rightarrow> py_exc + lb_pool option" where
  "read_pool edge_lb virt pool =
     bind_res (same_field ''defaultPoolId'' virt ''poolId'' pool) (\<lambda>same.
       if \<not> same then Inr None
       else bind_res (fields [''name'', ''algorithm'', ''transparent''] pool) (\<lambda>fs.
            bind_res (list_field ''member'' pool) (\<lambda>ms.
            bind_res (each_made read_member add_member ms (new_pool (fs ! 0) (fs ! 1) (fs ! 2))) (\<lambda>p.
            bind_res (list_field ''monitor'' edge_lb) (\<lambda>mons.
            bind_res (each_made (read_monitor pool) add_monitor mons p) (\<lambda>p. Inr (Some p)))))))"

definition read_rule :: "json \<Rightarrow> json \<Rightarrow> py_exc + json option" where
  "read_rule virt rule =
     bind_res (field_in ''applicationRuleId'' rule virt) (\<lambda>mine.
       if \<not> mine then Inr None
       else bind_res (fields [''name'', ''script''] rule) (\<lambda>fs. Inr (Some (new_app_rule (fs ! 0) (fs ! 1)))))"

definition read_server :: "json \<Rightarrow> json \<Rightarrow> py_exc + lb_vserver" where
  "read_server edge_lb virt =
     bind_res (fields [''name'', ''ipAddress'', ''port'', ''protocol'', ''enabled'', ''accelerationEnabled'', ''connectionLimit''] virt) (\<lambda>fs.
     bind_res (list_field ''applicationProfile'' edge_lb) (\<lambda>profs.
     bind_res (last_made (read_profile virt) None profs) (\<lambda>a.
     bind_res (list_field ''pool'' edge_lb) (\<lambda>pools.
     bind_res (last_made (read_pool edge_lb virt) None pools) (\<lambda>p.
     bind_res (list_field ''applicationRule'' edge_lb) (\<lambda>rules.
     each_made (read_rule virt) add_app_rule rules
       ((new_virtual_server (fs ! 0) (fs ! 1) (fs ! 2) (fs ! 3) (fs ! 4) (fs ! 5) (fs ! 6) (JBool False))
          \<lparr>lv_app_profile := a, lv_default_pool := p\<rparr>)))))))"

definition read_loadbalancer :: "json \<Rightarrow> py_exc + load_balancer" where
  "read_loadbalancer edge_lb =
     bind_res (fields [''enabled'', ''enableServiceInsertion'', ''accelerationEnabled''] edge_lb) (\<lambda>fs.
     bind_res (list_field ''virtualServer'' edge_lb) (\<lambda>virts.
     each_made (\<lambda>virt. bind_res (read_server edge_lb virt) (\<lambda>v. Inr (Some v))) add_virtual_server virts
       (new_loadbalancer (fs ! 0) (fs ! 1) (fs ! 2))))"

subsection \<open>The exchange with the manager\<close>

definition LB_SERVICE_NAME :: string where "LB_SERVICE_NAME = ''loadbalancer''"

definition get_object :: "('w, 'd) vcns \<Rightarrow> string \<Rightarrow> string \<Rightarrow> (json \<Rightarrow> py_exc + 'a) \<Rightarrow> ('w, 'd, 'a) vcns_op" where
  "get_object V edge_id service_name = with_body (json_request V HTTP_GET (URI_PREFIX @ ''/'' @ edge_id @ ''/'' @ service_name) NoParams)"

definition get_loadbalancer :: "('w, 'd) vcns \<Rightarrow> string \<Rightarrow> ('w, 'd, load_balancer) vcns_op" where
  "get_loadbalancer V edge_id = get_object V edge_id (LB_SERVICE_NAME @ ''/config'') read_loadbalancer"

text \<open>The text of the request is never empty.\<close>

definition submit_to_backend :: "('w, 'd) vcns \<Rightarrow> string \<Rightarrow> load_balancer \<Rightarrow> ('w, 'd, headers \<times> 'd content) vcns_op" where
  "submit_to_backend V edge_id L w =
     (case serializable_payload L of
        Inl e \<Rightarrow> (Inl (VPy e), w)
      | Inr j \<Rightarrow> do_request V HTTP_PUT (URI_PREFIX @ ''/'' @ edge_id @ ''/'' @ LB_SERVICE_NAME @ ''/config'') (Raw (json_dumps V j))
          False False [] w)"

subsection \<open>Loops over numbered objects\<close>



lemma numbered_empty [simp]: "numbered key prefix n xs = [] \<longleftrightarrow> xs = []"
  by (cases xs) auto















subsection \<open>What the constructors make\<close>














subsection \<open>The request of servers with a profile and a pool\<close>

















subsection \<open>Reading a pool and a server back\<close>
















end
