(* ===== verification/MhLib.thy ===== *)
theory MhLib
  imports ApiRequest Orm Json "HOL-Library.List_Lexorder" "HOL-Library.Char_ord"
begin

text \<open>
  The library over the controller's REST interface (\<open>nsxlib/mh/__init__.py\<close>, \<open>lsn.py\<close>,
  \<open>switch.py\<close>, and the helpers of \<open>common/utils.py\<close> it uses): the paths and bodies of the
  requests for logical service nodes, their ports and logical switches, and what is read
  from the answers. A function takes the cluster and the state \<open>'b\<close> of the controller, and
  returns an exception or a result with the controller's next state, which an exception
  does not undo. The cluster holds \<open>api_client.request\<close>, the JSON library on texts of type
  \<open>'d\<close>, and two settings. An identifier that is not a string is outside the model.
\<close>

subsection \<open>Exceptions\<close>

text \<open>The exceptions of \<open>neutron_lib.exceptions\<close>, \<open>common/exceptions.py\<close> and of the API client
  that these files raise or catch. \<open>Diverges\<close> stands for a loop over pages that has not ended.\<close>

datatype mh_exc = NotFound | NetworkNotFound string | PortNotFoundOnNetwork string string
  | NeutronException | NeutronConflict | MaintenanceInProgress | Raised raised
  | LsnNotFound string "string option" | LsnPortNotFound "string option" string string
  | LsnConfigurationConflict "string option"
  | PortConfigurationError string "string option" "string option"
  | PluginError string | DbError db_error | BadContext | Diverges

fun is_NotFound :: "mh_exc \<Rightarrow> bool" where
  "is_NotFound NotFound = True"
| "is_NotFound (NetworkNotFound _) = True"
| "is_NotFound (PortNotFoundOnNetwork _ _) = True"
| "is_NotFound (LsnNotFound _ _) = True"
| "is_NotFound (LsnPortNotFound _ _ _) = True"
| "is_NotFound _ = False"

fun is_NsxApi :: "mh_exc \<Rightarrow> bool" where
  "is_NsxApi (Raised (Api _)) = True"
| "is_NsxApi _ = False"

fun is_NsxPlugin :: "mh_exc \<Rightarrow> bool" where
  "is_NsxPlugin MaintenanceInProgress = True"
| "is_NsxPlugin (LsnConfigurationConflict _) = True"
| "is_NsxPlugin (PortConfigurationError _ _ _) = True"
| "is_NsxPlugin (PluginError _) = True"
| "is_NsxPlugin _ = False"

abbreviation "type_error \<equiv> Raised (Other (Py TypeError))"
abbreviation "key_error \<equiv> Raised (Other (Py KeyError))"
abbreviation "index_error \<equiv> Raised (Other (Py IndexError))"

text \<open>\<open>obj[key]\<close>, \<open>obj.get(key)\<close>, iteration over a list, and a value used as a string.\<close>

definition py_res :: "py_exc + 'a \<Rightarrow> mh_exc + 'a" where
  "py_res r = (case r of Inl e \<Rightarrow> Inl (Raised (Other (Py e))) | Inr x \<Rightarrow> Inr x)"

definition jget :: "string \<Rightarrow> json \<Rightarrow> mh_exc + json" where
  "jget k j = py_res (jfield k j)"

definition jget_opt :: "string \<Rightarrow> json \<Rightarrow> mh_exc + json" where
  "jget_opt k j = py_res (jfield_opt k j)"

definition jlist :: "json \<Rightarrow> mh_exc + json list" where
  "jlist j = py_res (as_list j)"

definition jstr :: "json \<Rightarrow> mh_exc + string" where
  "jstr j = py_res (as_str j)"

lemma jget_simps [simp]:
  "jget k (JObj al) = (case map_of al k of Some v \<Rightarrow> Inr v | None \<Rightarrow> Inl key_error)"
  "jget_opt k (JObj al) = Inr (case map_of al k of Some v \<Rightarrow> v | None \<Rightarrow> JNull)"
  "jlist (JList l) = Inr l"
  "jstr (JStr v) = Inr v"
  by (simp_all add: jget_def jget_opt_def jlist_def jstr_def py_res_def split: option.splits)

definition uuid_of :: "json \<Rightarrow> mh_exc + string" where
  "uuid_of j = bind_res (jget ''uuid'' j) jstr"

subsection \<open>Requests (\<open>nsxlib/mh/__init__.py\<close>)\<close>

record ('b, 'd) cluster =
  api_request :: "'b \<Rightarrow> string \<Rightarrow> string \<Rightarrow> 'd option \<Rightarrow> (raised + 'd option) \<times> 'b"
  empty_text :: "'d \<Rightarrow> bool"
  loads :: "'d \<Rightarrow> json option"
  dumps :: "json \<Rightarrow> 'd"
  default_service_cluster_uuid :: "string option"
  neutron_version :: string

abbreviation "HTTP_GET \<equiv> ''GET''"
abbreviation "HTTP_POST \<equiv> ''POST''"
abbreviation "HTTP_DELETE \<equiv> ''DELETE''"
abbreviation "HTTP_PUT \<equiv> ''PUT''"

definition URI_PREFIX :: string where
  "URI_PREFIX = ''/ws.v1''"

record uri_args =
  ua_resource_id :: "string option"
  ua_parent_resource_id :: "string option"
  ua_fields :: "string option"
  ua_relations :: "string option"
  ua_filters :: "(string \<times> string) list"
  ua_types :: "string option"
  ua_is_attachment :: bool
  ua_extra_action :: "string option"

definition no_args :: uri_args where
  "no_args = \<lparr>ua_resource_id = None, ua_parent_resource_id = None, ua_fields = None, ua_relations = None,
     ua_filters = [], ua_types = None, ua_is_attachment = False, ua_extra_action = None\<rparr>"

text \<open>A value formatted with \<open>%s\<close>, and the truth value of an optional string.\<close>

definition fmt :: "string option \<Rightarrow> string" where
  "fmt v = (case v of None \<Rightarrow> ''None'' | Some s \<Rightarrow> s)"

definition given :: "string option \<Rightarrow> bool" where
  "given v \<longleftrightarrow> v \<noteq> None \<and> v \<noteq> Some []"

definition param :: "string \<Rightarrow> string option \<Rightarrow> string list" where
  "param name v = (case v of None \<Rightarrow> [] | Some s \<Rightarrow> [if s = [] then [] else name @ ''='' @ s])"

definition build_uri_path :: "string \<Rightarrow> uri_args \<Rightarrow> string" where
  "build_uri_path resource a =
     (let resources = split_at_char (CHR ''/'') resource;
          res_path = hd resources @ (if given (ua_resource_id a) then ''/'' @ fmt (ua_resource_id a) else []);
          res_path = (if length resources > 1
            then resources ! 1 @ ''/'' @ fmt (ua_parent_resource_id a) @ ''/'' @ res_path else res_path);
          res_path = (if ua_is_attachment a then res_path @ ''/attachment''
            else if given (ua_extra_action a) then res_path @ ''/'' @ fmt (ua_extra_action a) else res_path);
          params = param ''fields'' (ua_fields a) @ param ''relations'' (ua_relations a) @ param ''types'' (ua_types a) @
            map (\<lambda>(k, v). k @ ''='' @ v) (sort_key fst (ua_filters a));
          query_string = join_with ''&'' params
      in URI_PREFIX @ ''/'' @ res_path @ (if query_string = [] then [] else ''?'' @ query_string))"

definition do_request :: "('b, 'd) cluster \<Rightarrow> string \<Rightarrow> string \<Rightarrow> 'd option \<Rightarrow> 'b \<Rightarrow> (mh_exc + json) \<times> 'b" where
  "do_request C method uri body b =
     (case api_request C b method uri body of
        (Inl (Api ResourceNotFound), b) \<Rightarrow> (Inl NotFound, b)
      | (Inl (Api ReadOnlyMode), b) \<Rightarrow> (Inl MaintenanceInProgress, b)
      | (Inl e, b) \<Rightarrow> (Inl (Raised e), b)
      | (Inr None, b) \<Rightarrow> (Inr JNull, b)
      | (Inr (Some d), b) \<Rightarrow>
          if empty_text C d then (Inr JNull, b)
          else (case loads C d of
              None \<Rightarrow> (Inl (Raised (Other (Py ValueError))), b)
            | Some j \<Rightarrow> (Inr j, b)))"

text \<open>A request with a JSON body, and one whose answer is read by \<open>f\<close>.\<close>

definition send_json :: "('b, 'd) cluster \<Rightarrow> string \<Rightarrow> string \<Rightarrow> json \<Rightarrow> 'b \<Rightarrow> (mh_exc + json) \<times> 'b" where
  "send_json C method uri j b = do_request C method uri (Some (dumps C j)) b"

definition reading :: "(json \<Rightarrow> mh_exc + 'a) \<Rightarrow> (mh_exc + json) \<times> 'b \<Rightarrow> (mh_exc + 'a) \<times> 'b" where
  "reading f r = (case r of (x, b) \<Rightarrow> (bind_res x f, b))"

definition no_result :: "(mh_exc + json) \<times> 'b \<Rightarrow> (mh_exc + unit) \<times> 'b" where
  "no_result = reading (\<lambda>_. Inr ())"

definition get_single_query_page :: "('b, 'd) cluster \<Rightarrow> string \<Rightarrow> string option \<Rightarrow> nat \<Rightarrow> bool \<Rightarrow> 'b \<Rightarrow>
    (mh_exc + json \<times> json \<times> json) \<times> 'b" where
  "get_single_query_page C path page_cursor page_length neutron_only b =
     (let params = (if given page_cursor then [''_page_cursor='' @ fmt page_cursor] else []) @
            [''_page_length='' @ nat_str page_length] @ (if neutron_only then [''tag_scope=quantum''] else []);
          path = path @ (if CHR ''?'' \<in> set path then ''&'' else ''?'') @ join_with ''&'' params
      in reading (\<lambda>body. bind_res (jget ''results'' body) (\<lambda>results.
           bind_res (jget_opt ''page_cursor'' body) (\<lambda>cursor.
           bind_res (jget_opt ''result_count'' body) (\<lambda>n. Inr (results, cursor, n)))))
         (do_request C HTTP_GET path None b))"

fun get_all_query_pages :: "nat \<Rightarrow> ('b, 'd) cluster \<Rightarrow> string \<Rightarrow> string option \<Rightarrow> json list \<Rightarrow> 'b \<Rightarrow>
    (mh_exc + json list) \<times> 'b" where
  "get_all_query_pages 0 C path cursor acc b = (Inl Diverges, b)"
| "get_all_query_pages (Suc n) C path cursor acc b =
     (case get_single_query_page C path cursor 1000 True b of
        (Inl e, b) \<Rightarrow> (Inl e, b)
      | (Inr (results, cursor', _), b) \<Rightarrow>
          (case jlist results of
             Inl e \<Rightarrow> (Inl e, b)
           | Inr l \<Rightarrow>
               if \<not> truthy_json cursor' then (Inr (acc @ l), b)
               else (case jstr cursor' of
                   Inl e \<Rightarrow> (Inl e, b)
                 | Inr c \<Rightarrow> get_all_query_pages n C path (Some c) (acc @ l) b)))"

subsection \<open>Tags and names (\<open>common/utils.py\<close>)\<close>

definition get_tags :: "('b, 'd) cluster \<Rightarrow> (string \<times> string) list \<Rightarrow> json" where
  "get_tags C kwargs =
     JList (map (\<lambda>(tag, scope). JObj [(''tag'', JStr tag), (''scope'', JStr scope)])
       (sort_key fst (map (\<lambda>(k, v). (v, k)) kwargs @ [(neutron_version C, ''quantum'')])))"

abbreviation "MAX_DISPLAY_NAME_LEN \<equiv> 40 :: nat"

definition device_id_to_vm_id :: "(string \<Rightarrow> string) \<Rightarrow> string \<Rightarrow> bool \<Rightarrow> string" where
  "device_id_to_vm_id sha1_hex device_id obfuscate =
     (if length device_id > MAX_DISPLAY_NAME_LEN \<or> obfuscate then sha1_hex device_id
      else if device_id = [] then ''N/A'' else device_id)"

definition check_and_truncate :: "string option \<Rightarrow> string" where
  "check_and_truncate display_name =
     (case display_name of None \<Rightarrow> [] | Some s \<Rightarrow>
        if length s > MAX_DISPLAY_NAME_LEN then take MAX_DISPLAY_NAME_LEN s else s)"

subsection \<open>Logical service nodes (\<open>nsxlib/mh/lsn.py\<close>)\<close>

definition SERVICECLUSTER_RESOURCE :: string where "SERVICECLUSTER_RESOURCE = ''edge-cluster''"
definition LSERVICESNODE_RESOURCE :: string where "LSERVICESNODE_RESOURCE = ''lservices-node''"
definition LSERVICESNODEPORT_RESOURCE :: string where
  "LSERVICESNODEPORT_RESOURCE = ''lport/'' @ LSERVICESNODE_RESOURCE"

definition service_cluster_exists :: "('b, 'd) cluster \<Rightarrow> string option \<Rightarrow> 'b \<Rightarrow> (mh_exc + bool) \<times> 'b" where
  "service_cluster_exists C svc_cluster_id b =
     (if \<not> given svc_cluster_id then (Inr False, b)
      else (case do_request C HTTP_GET
              (build_uri_path SERVICECLUSTER_RESOURCE (no_args\<lparr>ua_resource_id := svc_cluster_id\<rparr>)) None b of
          (Inr j, b) \<Rightarrow> (Inr (j \<noteq> JNull), b)
        | (Inl e, b) \<Rightarrow> (if is_NotFound e then Inr False else Inl e, b)))"

definition lsn_body :: "('b, 'd) cluster \<Rightarrow> string \<Rightarrow> json" where
  "lsn_body C network_id =
     JObj [(''edge_cluster_uuid'', opt_json (default_service_cluster_uuid C)),
       (''tags'', get_tags C [(''n_network_id'', network_id)])]"

definition lsn_for_network_create :: "('b, 'd) cluster \<Rightarrow> string \<Rightarrow> 'b \<Rightarrow> (mh_exc + string) \<times> 'b" where
  "lsn_for_network_create C network_id b =
     reading uuid_of (send_json C HTTP_POST (build_uri_path LSERVICESNODE_RESOURCE no_args) (lsn_body C network_id) b)"

text \<open>The one result of a query by tag: NotFound without results, None with several.\<close>

definition one_result :: "json \<Rightarrow> mh_exc + string option" where
  "one_result j = bind_res (jget ''results'' j) (\<lambda>r. bind_res (jlist r) (\<lambda>results.
     case results of
       [] \<Rightarrow> Inl NotFound
     | [x] \<Rightarrow> bind_res (uuid_of x) (\<lambda>u. Inr (Some u))
     | _ \<Rightarrow> Inr None))"

definition tag_filters :: "string \<Rightarrow> string \<Rightarrow> (string \<times> string) list" where
  "tag_filters tag scope = [(''tag'', tag), (''tag_scope'', scope)]"

definition lsn_query_uri :: "string \<Rightarrow> string" where
  "lsn_query_uri network_id = build_uri_path LSERVICESNODE_RESOURCE
     (no_args\<lparr>ua_fields := Some ''uuid'', ua_filters := tag_filters network_id ''n_network_id''\<rparr>)"

definition lsn_for_network_get :: "('b, 'd) cluster \<Rightarrow> string \<Rightarrow> 'b \<Rightarrow> (mh_exc + string option) \<times> 'b" where
  "lsn_for_network_get C network_id b = reading one_result (do_request C HTTP_GET (lsn_query_uri network_id) None b)"

definition lsn_delete :: "('b, 'd) cluster \<Rightarrow> string option \<Rightarrow> 'b \<Rightarrow> (mh_exc + unit) \<times> 'b" where
  "lsn_delete C lsn_id b = no_result (do_request C HTTP_DELETE
     (build_uri_path LSERVICESNODE_RESOURCE (no_args\<lparr>ua_resource_id := lsn_id\<rparr>)) None b)"

definition lsn_port_uri :: "string option \<Rightarrow> string option \<Rightarrow> string" where
  "lsn_port_uri lsn_id lsn_port_id = build_uri_path LSERVICESNODEPORT_RESOURCE
     (no_args\<lparr>ua_parent_resource_id := lsn_id, ua_resource_id := lsn_port_id\<rparr>)"

definition lsn_port_host_entries_update :: "('b, 'd) cluster \<Rightarrow> string option \<Rightarrow> string option \<Rightarrow> string \<Rightarrow> json \<Rightarrow> 'b \<Rightarrow>
    (mh_exc + unit) \<times> 'b" where
  "lsn_port_host_entries_update C lsn_id lsn_port_id conf hosts_data b =
     no_result (send_json C HTTP_PUT
       (build_uri_path LSERVICESNODEPORT_RESOURCE (no_args\<lparr>ua_parent_resource_id := lsn_id,
          ua_resource_id := lsn_port_id, ua_extra_action := Some conf\<rparr>))
       (JObj [(''hosts'', hosts_data)]) b)"

text \<open>The data of a port: its \<open>ip_address\<close>, \<open>mac_address\<close> and \<open>subnet_id\<close>.\<close>

record port_data =
  pd_ip_address :: string
  pd_mac_address :: string
  pd_subnet_id :: string

definition lsn_port_body :: "('b, 'd) cluster \<Rightarrow> port_data \<Rightarrow> json" where
  "lsn_port_body C d =
     JObj [(''ip_address'', JStr (pd_ip_address d)), (''mac_address'', JStr (pd_mac_address d)),
       (''tags'', get_tags C [(''n_mac_address'', pd_mac_address d), (''n_subnet_id'', pd_subnet_id d)]),
       (''type'', JStr ''LogicalServicesNodePortConfig'')]"

definition lsn_port_create :: "('b, 'd) cluster \<Rightarrow> string option \<Rightarrow> port_data \<Rightarrow> 'b \<Rightarrow> (mh_exc + string) \<times> 'b" where
  "lsn_port_create C lsn_id d b =
     reading uuid_of (send_json C HTTP_POST (lsn_port_uri lsn_id None) (lsn_port_body C d) b)"

definition lsn_port_delete :: "('b, 'd) cluster \<Rightarrow> string option \<Rightarrow> string option \<Rightarrow> 'b \<Rightarrow> (mh_exc + unit) \<times> 'b" where
  "lsn_port_delete C lsn_id lsn_port_id b =
     no_result (do_request C HTTP_DELETE (lsn_port_uri lsn_id lsn_port_id) None b)"

definition lsn_port_query_uri :: "string option \<Rightarrow> (string \<times> string) list \<Rightarrow> string" where
  "lsn_port_query_uri lsn_id filters = build_uri_path LSERVICESNODEPORT_RESOURCE
     (no_args\<lparr>ua_parent_resource_id := lsn_id, ua_fields := Some ''uuid'', ua_filters := filters\<rparr>)"

definition lsn_port_get_by :: "('b, 'd) cluster \<Rightarrow> string option \<Rightarrow> (string \<times> string) list \<Rightarrow> 'b \<Rightarrow>
    (mh_exc + string option) \<times> 'b" where
  "lsn_port_get_by C lsn_id filters b =
     reading one_result (do_request C HTTP_GET (lsn_port_query_uri lsn_id filters) None b)"

definition lsn_port_by_mac_get :: "('b, 'd) cluster \<Rightarrow> string option \<Rightarrow> string \<Rightarrow> 'b \<Rightarrow> (mh_exc + string option) \<times> 'b" where
  "lsn_port_by_mac_get C lsn_id mac_address = lsn_port_get_by C lsn_id (tag_filters mac_address ''n_mac_address'')"

definition lsn_port_by_subnet_get :: "('b, 'd) cluster \<Rightarrow> string option \<Rightarrow> string \<Rightarrow> 'b \<Rightarrow> (mh_exc + string option) \<times> 'b" where
  "lsn_port_by_subnet_get C lsn_id subnet_id = lsn_port_get_by C lsn_id (tag_filters subnet_id ''n_subnet_id'')"

text \<open>The subnet of a port is the first of its tags in the subnet's scope.\<close>

fun find_subnet_tag :: "json list \<Rightarrow> mh_exc + json option" where
  "find_subnet_tag [] = Inr None"
| "find_subnet_tag (t # ts) =
     bind_res (jget ''scope'' t) (\<lambda>s.
       if s = JStr ''n_subnet_id'' then bind_res (jget ''tag'' t) (\<lambda>v. Inr (Some v))
       else find_subnet_tag ts)"

definition lsn_port_info_get :: "('b, 'd) cluster \<Rightarrow> string option \<Rightarrow> string option \<Rightarrow> 'b \<Rightarrow> (mh_exc + json) \<times> 'b" where
  "lsn_port_info_get C lsn_id lsn_port_id b =
     reading (\<lambda>result. bind_res (jget ''tags'' result) (\<lambda>tags. bind_res (jlist tags) (\<lambda>ts.
        bind_res (find_subnet_tag ts) (\<lambda>v.
          case (v, result) of
            (Some s, JObj al) \<Rightarrow> Inr (JObj (AList.update ''subnet_id'' s al))
          | _ \<Rightarrow> Inr result))))
       (do_request C HTTP_GET (lsn_port_uri lsn_id lsn_port_id) None b)"

definition lsn_port_plug_network :: "('b, 'd) cluster \<Rightarrow> string option \<Rightarrow> string option \<Rightarrow> string \<Rightarrow> 'b \<Rightarrow>
    (mh_exc + unit) \<times> 'b" where
  "lsn_port_plug_network C lsn_id lsn_port_id lswitch_port_id b =
     (case send_json C HTTP_PUT
         (build_uri_path LSERVICESNODEPORT_RESOURCE (no_args\<lparr>ua_parent_resource_id := lsn_id,
            ua_resource_id := lsn_port_id, ua_is_attachment := True\<rparr>))
         (JObj [(''type'', JStr ''PatchAttachment''), (''peer_port_uuid'', JStr lswitch_port_id)]) b of
        (Inl (Raised (Api Conflict)), b) \<Rightarrow> (Inl (LsnConfigurationConflict lsn_id), b)
      | (Inl e, b) \<Rightarrow> (Inl e, b)
      | (Inr _, b) \<Rightarrow> (Inr (), b))"

definition lsn_action_uri :: "string option \<Rightarrow> string \<Rightarrow> string" where
  "lsn_action_uri lsn_id action = build_uri_path LSERVICESNODE_RESOURCE
     (no_args\<lparr>ua_resource_id := lsn_id, ua_extra_action := Some action\<rparr>)"

definition lsn_configure_action :: "('b, 'd) cluster \<Rightarrow> string option \<Rightarrow> string \<Rightarrow> bool \<Rightarrow> (string \<times> json) list \<Rightarrow> 'b \<Rightarrow>
    (mh_exc + unit) \<times> 'b" where
  "lsn_configure_action C lsn_id action is_enabled obj b =
     no_result (send_json C HTTP_PUT (lsn_action_uri lsn_id action)
       (JObj (fold (\<lambda>(k, v). AList.update k v) obj [(''enabled'', JBool is_enabled)])) b)"

definition lsn_port_configure_action :: "('b, 'd) cluster \<Rightarrow> string option \<Rightarrow> string option \<Rightarrow> string \<Rightarrow> bool \<Rightarrow> json \<Rightarrow> 'b \<Rightarrow>
    (mh_exc + unit) \<times> 'b" where
  "lsn_port_configure_action C lsn_id lsn_port_id action is_enabled obj b =
     (case send_json C HTTP_PUT (lsn_action_uri lsn_id action) (JObj [(''enabled'', JBool is_enabled)]) b of
        (Inl e, b) \<Rightarrow> (Inl e, b)
      | (Inr _, b) \<Rightarrow>
          no_result (send_json C HTTP_PUT
            (build_uri_path LSERVICESNODEPORT_RESOURCE (no_args\<lparr>ua_parent_resource_id := lsn_id,
               ua_resource_id := lsn_port_id, ua_extra_action := Some action\<rparr>)) obj b))"

text \<open>\<open>str(value)\<close> for the values options have: strings, numbers and booleans.\<close>

definition str_json :: "json \<Rightarrow> string" where
  "str_json j = (case j of JStr s \<Rightarrow> s | JInt i \<Rightarrow> (if i < 0 then ''-'' @ nat_str (nat (- i)) else nat_str (nat i)) | JBool b \<Rightarrow> (if b then ''True'' else ''False'') | _ \<Rightarrow> ''None'')"

definition get_opts :: "string \<Rightarrow> json \<Rightarrow> json" where
  "get_opts name value = JObj [(''name'', JStr name), (''value'', JStr (str_json value))]"

definition api_port_dhcp_configure :: "('b, 'd) cluster \<Rightarrow> string option \<Rightarrow> string option \<Rightarrow> bool \<Rightarrow> (string \<times> json) list \<Rightarrow> 'b \<Rightarrow>
    (mh_exc + unit) \<times> 'b" where
  "api_port_dhcp_configure C lsn_id lsn_port_id is_enabled dhcp_options b =
     lsn_port_configure_action C lsn_id lsn_port_id ''dhcp'' is_enabled
       (JObj [(''options'', JList (map (\<lambda>(k, v). get_opts k v) dhcp_options))]) b"

definition SUPPORTED_METADATA_OPTIONS :: "string list" where
  "SUPPORTED_METADATA_OPTIONS = [''metadata_proxy_shared_secret'']"

definition api_metadata_configure :: "('b, 'd) cluster \<Rightarrow> string option \<Rightarrow> bool \<Rightarrow> (string \<times> json) list \<Rightarrow> 'b \<Rightarrow>
    (mh_exc + unit) \<times> 'b" where
  "api_metadata_configure C lsn_id is_enabled info b =
     (case (map_of info ''metadata_server_ip'', map_of info ''metadata_server_port'') of
        (Some ip, Some port) \<Rightarrow>
          let opts = concat (map (\<lambda>opt. case map_of info opt of
                Some v \<Rightarrow> if truthy_json v then [get_opts opt v] else [] | None \<Rightarrow> []) SUPPORTED_METADATA_OPTIONS)
          in lsn_configure_action C lsn_id ''metadata-proxy'' is_enabled
               ([(''metadata_server_ip'', ip), (''metadata_server_port'', port)] @
                (if opts = [] then [] else [(''options'', JList opts)])) b
      | _ \<Rightarrow> (Inl key_error, b))"

definition lsn_port_host_action :: "('b, 'd) cluster \<Rightarrow> string option \<Rightarrow> string option \<Rightarrow> json \<Rightarrow> string \<Rightarrow> string \<Rightarrow> 'b \<Rightarrow>
    (mh_exc + unit) \<times> 'b" where
  "lsn_port_host_action C lsn_id lsn_port_id host_obj extra_action action b =
     no_result (send_json C HTTP_POST
       (build_uri_path LSERVICESNODEPORT_RESOURCE (no_args\<lparr>ua_parent_resource_id := lsn_id, ua_resource_id := lsn_port_id,
          ua_extra_action := Some extra_action, ua_filters := [(''action'', action)]\<rparr>)) host_obj b)"

definition api_port_dhcp_host_add where
  "api_port_dhcp_host_add C lsn_id lsn_port_id host = lsn_port_host_action C lsn_id lsn_port_id host ''dhcp'' ''add_host''"
definition api_port_dhcp_host_remove where
  "api_port_dhcp_host_remove C lsn_id lsn_port_id host = lsn_port_host_action C lsn_id lsn_port_id host ''dhcp'' ''remove_host''"
definition api_port_metadata_host_add where
  "api_port_metadata_host_add C lsn_id lsn_port_id host =
     lsn_port_host_action C lsn_id lsn_port_id host ''metadata-proxy'' ''add_host''"
definition api_port_metadata_host_remove where
  "api_port_metadata_host_remove C lsn_id lsn_port_id host =
     lsn_port_host_action C lsn_id lsn_port_id host ''metadata-proxy'' ''remove_host''"


subsection \<open>Logical switches and their ports (\<open>nsxlib/mh/switch.py\<close>)\<close>

definition LSWITCH_RESOURCE :: string where "LSWITCH_RESOURCE = ''lswitch''"
definition LSWITCHPORT_RESOURCE :: string where "LSWITCHPORT_RESOURCE = ''lport/'' @ LSWITCH_RESOURCE"

definition lookup_switches_by_tag :: "nat \<Rightarrow> ('b, 'd) cluster \<Rightarrow> string \<Rightarrow> 'b \<Rightarrow> (mh_exc + json list) \<times> 'b" where
  "lookup_switches_by_tag n C neutron_net_id b =
     get_all_query_pages n C
       (build_uri_path LSWITCH_RESOURCE (no_args\<lparr>ua_fields := Some ''uuid,display_name,tags,lport_count'',
          ua_relations := Some ''LogicalSwitchStatus'',
          ua_filters := [(''tag'', neutron_net_id), (''tag_scope'', ''quantum_net_id'')]\<rparr>)) None [] b"

text \<open>The loop over the tags of the switch with the network's id. It keeps what it has collected
  when a lookup raises.\<close>

fun add_tagged_switches :: "nat \<Rightarrow> ('b, 'd) cluster \<Rightarrow> string \<Rightarrow> json list \<Rightarrow> json list \<Rightarrow> 'b \<Rightarrow>
    (mh_exc option \<times> json list) \<times> 'b" where
  "add_tagged_switches n C net [] results b = ((None, results), b)"
| "add_tagged_switches n C net (tag # tags) results b =
     (case bind_res (jget ''scope'' tag) (\<lambda>s.
         if s = JStr ''multi_lswitch'' then bind_res (jget ''tag'' tag) (\<lambda>t. Inr (t = JStr ''True'')) else Inr False) of
        Inl e \<Rightarrow> ((Some e, results), b)
      | Inr False \<Rightarrow> add_tagged_switches n C net tags results b
      | Inr True \<Rightarrow>
          (case lookup_switches_by_tag n C net b of
             (Inl e, b) \<Rightarrow> ((Some e, results), b)
           | (Inr l, b) \<Rightarrow> add_tagged_switches n C net tags (results @ l) b))"

definition get_lswitches :: "nat \<Rightarrow> ('b, 'd) cluster \<Rightarrow> string \<Rightarrow> 'b \<Rightarrow> (mh_exc + json list) \<times> 'b" where
  "get_lswitches n C net b =
     (let ((err, results), b) =
        (case do_request C HTTP_GET (build_uri_path LSWITCH_RESOURCE
             (no_args\<lparr>ua_resource_id := Some net, ua_relations := Some ''LogicalSwitchStatus''\<rparr>)) None b of
           (Inl e, b) \<Rightarrow> ((Some e, []), b)
         | (Inr ls, b) \<Rightarrow>
             (case bind_res (jget ''tags'' ls) jlist of
                Inl e \<Rightarrow> ((Some e, [ls]), b)
              | Inr tags \<Rightarrow> add_tagged_switches n C net tags [ls] b))
      in case err of
           None \<Rightarrow> (if results = [] then Inl (NetworkNotFound net) else Inr results, b)
         | Some e \<Rightarrow>
             if \<not> is_NotFound e then (Inl e, b)
             else (case lookup_switches_by_tag n C net b of
                 (Inl e, b) \<Rightarrow> (Inl e, b)
               | (Inr l, b) \<Rightarrow> (if results @ l = [] then Inl (NetworkNotFound net) else Inr (results @ l), b)))"

definition delete_port :: "('b, 'd) cluster \<Rightarrow> string \<Rightarrow> string \<Rightarrow> 'b \<Rightarrow> (mh_exc + unit) \<times> 'b" where
  "delete_port C switch port b =
     (case do_request C HTTP_DELETE (''/ws.v1/lswitch/'' @ switch @ ''/lport/'' @ port) None b of
        (Inr _, b) \<Rightarrow> (Inr (), b)
      | (Inl e, b) \<Rightarrow>
          (Inl (if is_NotFound e then PortNotFoundOnNetwork switch port
                else if is_NsxApi e then NeutronException else e), b))"

text \<open>The first port with the tag, or None.\<close>

definition get_port_by_neutron_tag :: "('b, 'd) cluster \<Rightarrow> string \<Rightarrow> string \<Rightarrow> 'b \<Rightarrow> (mh_exc + json) \<times> 'b" where
  "get_port_by_neutron_tag C lswitch_uuid neutron_port_id b =
     reading (\<lambda>res. bind_res (jget ''results'' res) (\<lambda>r. bind_res (jlist r) (\<lambda>l.
         Inr (case l of [] \<Rightarrow> JNull | p # _ \<Rightarrow> p))))
       (do_request C HTTP_GET (build_uri_path LSWITCHPORT_RESOURCE (no_args\<lparr>ua_parent_resource_id := Some lswitch_uuid,
          ua_fields := Some ''uuid'', ua_filters := [(''tag'', neutron_port_id), (''tag_scope'', ''q_port_id'')]\<rparr>)) None b)"

definition get_port :: "('b, 'd) cluster \<Rightarrow> string \<Rightarrow> string \<Rightarrow> string option \<Rightarrow> 'b \<Rightarrow> (mh_exc + json) \<times> 'b" where
  "get_port C network port relations b =
     (case do_request C HTTP_GET (''/ws.v1/lswitch/'' @ network @ ''/lport/'' @ port @ ''?'' @
         (if given relations then ''relations='' @ fmt relations else [])) None b of
        (Inl e, b) \<Rightarrow> (Inl (if is_NotFound e then PortNotFoundOnNetwork network port else e), b)
      | r \<Rightarrow> r)"

text \<open>The optional settings of a new port; the pairs are its fixed addresses.\<close>

record lport_config =
  lc_mac_address :: "string option"
  lc_fixed_ips :: "string option list"
  lc_port_security_enabled :: bool
  lc_security_profiles :: "string list"
  lc_queue_id :: "string option"
  lc_mac_learning_enabled :: "bool option"
  lc_allowed_address_pairs :: "(string \<times> string) list"

definition default_lport :: lport_config where
  "default_lport = \<lparr>lc_mac_address = None, lc_fixed_ips = [], lc_port_security_enabled = False, lc_security_profiles = [],
     lc_queue_id = None, lc_mac_learning_enabled = None, lc_allowed_address_pairs = []\<rparr>"

definition address_pair :: "json \<Rightarrow> string \<Rightarrow> json" where
  "address_pair mac ip = JObj [(''mac_address'', mac), (''ip_address'', JStr ip)]"

definition configure_extensions :: "(string \<times> json) list \<Rightarrow> lport_config \<Rightarrow> (string \<times> json) list" where
  "configure_extensions lport_obj c =
     (let mac = opt_json (lc_mac_address c);
          fixed = (if lc_port_security_enabled c
            then map (\<lambda>ip. address_pair mac (fmt ip)) (filter given (lc_fixed_ips c)) @ [address_pair mac ''0.0.0.0''] else []);
          pairs = fixed @ map (\<lambda>(m, ip). address_pair (JStr m) ip) (lc_allowed_address_pairs c);
          lport_obj = AList.update ''allowed_address_pairs'' (JList pairs) lport_obj;
          lport_obj = AList.update ''security_profiles'' (JList (map JStr (lc_security_profiles c))) lport_obj;
          lport_obj = AList.update ''queue_uuid'' (opt_json (lc_queue_id c)) lport_obj
      in case lc_mac_learning_enabled c of
           None \<Rightarrow> lport_obj
         | Some l \<Rightarrow> AList.update ''type'' (JStr ''LogicalSwitchPortConfig'') (AList.update ''mac_learning'' (JBool l) lport_obj))"

definition create_lport :: "('b, 'd) cluster \<Rightarrow> (string \<Rightarrow> string) \<Rightarrow> string \<Rightarrow> string \<Rightarrow> string \<Rightarrow> string option \<Rightarrow> string \<Rightarrow>
    bool \<Rightarrow> lport_config \<Rightarrow> 'b \<Rightarrow> (mh_exc + json) \<times> 'b" where
  "create_lport C sha1_hex lswitch_uuid tenant_id neutron_port_id display_name device_id admin_status_enabled c b =
     (let lport_obj = [(''admin_status_enabled'', JBool admin_status_enabled),
            (''display_name'', JStr (check_and_truncate display_name)),
            (''tags'', get_tags C [(''os_tid'', tenant_id), (''q_port_id'', neutron_port_id),
               (''vm_id'', device_id_to_vm_id sha1_hex device_id False)])]
      in reading (\<lambda>result. bind_res (jget ''uuid'' result) (\<lambda>_. Inr result))
           (send_json C HTTP_POST
             (build_uri_path LSWITCHPORT_RESOURCE (no_args\<lparr>ua_parent_resource_id := Some lswitch_uuid\<rparr>))
             (JObj (configure_extensions lport_obj c)) b))"

definition create_lswitch :: "('b, 'd) cluster \<Rightarrow> string \<Rightarrow> string \<Rightarrow> string \<Rightarrow> string option \<Rightarrow> json \<Rightarrow> bool \<Rightarrow> json list \<Rightarrow> 'b \<Rightarrow>
    (mh_exc + json) \<times> 'b" where
  "create_lswitch C replication_mode neutron_net_id tenant_id display_name transport_zones_config shared tags b =
     (let base = (case get_tags C [(''os_tid'', tenant_id), (''quantum_net_id'', neutron_net_id)] of JList l \<Rightarrow> l | _ \<Rightarrow> []);
          all_tags = base @ (if shared then [JObj [(''tag'', JStr ''true''), (''scope'', JStr ''shared'')]] else []) @ tags
      in reading (\<lambda>lswitch. bind_res (jget ''uuid'' lswitch) (\<lambda>_. Inr lswitch))
           (send_json C HTTP_POST (build_uri_path LSWITCH_RESOURCE no_args)
             (JObj [(''display_name'', JStr (check_and_truncate display_name)), (''transport_zones'', transport_zones_config),
                (''replication_mode'', JStr replication_mode), (''tags'', JList all_tags)]) b))"


subsection \<open>Paths\<close>

lemma sort_two: "sort_key fst [a, b] = (if fst a \<le> fst b then [a, b] else [b, a])"
  by simp

lemma tag_filters_sorted: "sort_key fst (tag_filters tag scope) = tag_filters tag scope"
  by (simp add: tag_filters_def less_char_def less_eq_char_def)

lemma lsn_query_uri_eq:
  "lsn_query_uri n = ''/ws.v1/lservices-node?fields=uuid&tag='' @ n @ ''&tag_scope=n_network_id''"
  by (simp add: lsn_query_uri_def build_uri_path_def tag_filters_sorted)
     (simp add: tag_filters_def URI_PREFIX_def LSERVICESNODE_RESOURCE_def no_args_def param_def given_def)

lemma lsn_query_uri_inj: "lsn_query_uri m = lsn_query_uri n \<longleftrightarrow> m = n"
  by (simp add: lsn_query_uri_eq)

definition lsn_uri :: "string option \<Rightarrow> string" where
  "lsn_uri lsn_id = build_uri_path LSERVICESNODE_RESOURCE (no_args\<lparr>ua_resource_id := lsn_id\<rparr>)"

lemma lsn_uri_eq: "i \<noteq> [] \<Longrightarrow> lsn_uri (Some i) = ''/ws.v1/lservices-node/'' @ i"
  by (simp add: lsn_uri_def build_uri_path_def URI_PREFIX_def LSERVICESNODE_RESOURCE_def no_args_def param_def
      given_def fmt_def)

subsection \<open>The tags of a port\<close>

lemma find_subnet_tag_sorted:
  assumes "distinct (map snd ts)" "(v, ''n_subnet_id'') \<in> set ts"
  shows "find_subnet_tag (map (\<lambda>(tag, scope). JObj [(''tag'', JStr tag), (''scope'', JStr scope)]) ts) = Inr (Some (JStr v))"
  using assms by (induction ts) (auto simp: py_res_def image_iff)

text \<open>The tags \<open>lsn_port_create\<close> puts on a port are read back by \<open>lsn_port_info_get\<close>: whatever
  the order the tags are sorted into, a controller that returns the body of the request gives
  the MAC address and, as \<open>subnet_id\<close>, the subnet the port was created for.\<close>

theorem port_tags_roundtrip:
  assumes "api_request C b HTTP_GET (lsn_port_uri l p) None = (Inr (Some d), b')" "\<not> empty_text C d"
    "loads C d = Some (lsn_port_body C dat)"
  shows "\<exists>info. lsn_port_info_get C l p b = (Inr info, b') \<and> jget ''mac_address'' info = Inr (JStr (pd_mac_address dat)) \<and>
    jget_opt ''subnet_id'' info = Inr (JStr (pd_subnet_id dat))"
proof -
  define ts where "ts = sort_key fst [(pd_mac_address dat, ''n_mac_address''), (pd_subnet_id dat, ''n_subnet_id''),
    (neutron_version C, ''quantum'')]"
  have "distinct (map snd ts)"
    by (rule distinct_map [THEN iffD2]) (simp add: ts_def inj_on_def)
  moreover have "(pd_subnet_id dat, ''n_subnet_id'') \<in> set ts" by (simp add: ts_def)
  ultimately have "find_subnet_tag (map (\<lambda>(tag, scope). JObj [(''tag'', JStr tag), (''scope'', JStr scope)]) ts) =
      Inr (Some (JStr (pd_subnet_id dat)))" by (rule find_subnet_tag_sorted)
  moreover have "do_request C HTTP_GET (lsn_port_uri l p) None b = (Inr (lsn_port_body C dat), b')"
    using assms by (simp add: do_request_def)
  moreover have "get_tags C [(''n_mac_address'', pd_mac_address dat), (''n_subnet_id'', pd_subnet_id dat)] =
      JList (map (\<lambda>(tag, scope). JObj [(''tag'', JStr tag), (''scope'', JStr scope)]) ts)"
    by (simp add: get_tags_def ts_def)
  ultimately show ?thesis
    by (simp add: lsn_port_info_get_def reading_def lsn_port_body_def py_res_def)
qed


text \<open>A controller whose every answer is the same value.\<close>

definition echo_cluster :: "json \<Rightarrow> (unit, json) cluster" where
  "echo_cluster j = \<lparr>api_request = (\<lambda>b _ _ _. (Inr (Some j), b)), empty_text = (\<lambda>_. False), loads = Some, dumps = id,
     default_service_cluster_uuid = None, neutron_version = ''17.0''\<rparr>"

theorem port_tags_roundtrip_witness:
  "\<exists>info. lsn_port_info_get (echo_cluster (lsn_port_body (echo_cluster JNull)
       \<lparr>pd_ip_address = ''10.0.0.0/24'', pd_mac_address = ''fa:16'', pd_subnet_id = ''sub''\<rparr>)) (Some ''l'') (Some ''p'') () =
     (Inr info, ()) \<and> jget_opt ''subnet_id'' info = Inr (JStr ''sub'')"
  using port_tags_roundtrip [of "echo_cluster (lsn_port_body (echo_cluster JNull)
       \<lparr>pd_ip_address = ''10.0.0.0/24'', pd_mac_address = ''fa:16'', pd_subnet_id = ''sub''\<rparr>)" "()" "Some ''l''" "Some ''p''" _ "()"
     "\<lparr>pd_ip_address = ''10.0.0.0/24'', pd_mac_address = ''fa:16'', pd_subnet_id = ''sub''\<rparr>"]
  by (auto simp: echo_cluster_def lsn_port_body_def get_tags_def)


end
