(* ===== verification/LsnManager.thy ===== *)
theory LsnManager
  imports MhLib NsxDb
begin

text \<open>
  The managers of logical service nodes (\<open>dhcp_meta/lsnmanager.py\<close>) and their tables
  (\<open>db/lsn_db.py\<close>). \<open>LsnManager\<close> asks the controller for everything;
  \<open>PersistentLsnManager\<close> overrides the methods that look up, create and delete, and keeps
  the nodes and ports in the database. The methods that both share take the overridden
  methods as a record, as the code dispatches them on \<open>self\<close>. A state holds the
  controller, three tables, and the configured list of name servers, which the code
  extends in place. Exceptions do not undo what was done before them, except inside a
  transaction of the database.
\<close>

subsection \<open>State and environment\<close>

record ('b, 't, 'p, 'm) lsn_state =
  backend :: 'b
  lsn_tbl :: 't
  port_tbl :: 'p
  net_tbl :: 'm
  extra_domain_name_servers :: "string list"

record subnet =
  sn_id :: string
  sn_network_id :: string
  sn_tenant_id :: string
  sn_cidr :: string
  sn_enable_dhcp :: bool
  sn_dns_nameservers :: "string list"
  sn_gateway_ip :: "string option"
  sn_host_routes :: "json list"

text \<open>\<open>conf_shared\<close> says whether reading the option returns the same list object each time.\<close>

record ('b, 'd, 't, 'p, 'm) lsn_env =
  clu :: "('b, 'd) cluster"
  lsn_orm :: "('t, lsn_row) orm"
  port_orm :: "('p, lsn_port_row) orm"
  net_orm :: "('m, network_mapping) orm"
  sha1_hex :: "string \<Rightarrow> string"
  max_pages :: nat
  sync_on_missing :: bool
  conf_shared :: bool
  domain_name :: string
  default_lease_time :: int
  metadata_server_address :: string
  metadata_server_port :: int
  metadata_shared_secret :: string
  plugin_get_subnet :: "string \<Rightarrow> mh_exc + subnet"

datatype ctx = Request_context | Cluster_object

definition METADATA_MAC :: string where "METADATA_MAC = ''fa:15:73:74:d4:74''"
definition METADATA_PORT_ID :: string where "METADATA_PORT_ID = ''metadata:id''"
definition METADATA_PORT_NAME :: string where "METADATA_PORT_NAME = ''metadata:name''"
definition METADATA_DEVICE_ID :: string where "METADATA_DEVICE_ID = ''metadata:device''"
definition META_CONF :: string where "META_CONF = ''metadata-proxy''"
definition DHCP_CONF :: string where "DHCP_CONF = ''dhcp''"

text \<open>An operation of the controller's library, and an exception or result that needs no state.\<close>

definition api :: "('b \<Rightarrow> (mh_exc + 'a) \<times> 'b) \<Rightarrow> ('b, 't, 'p, 'm) lsn_state \<Rightarrow> (mh_exc + 'a) \<times> ('b, 't, 'p, 'm) lsn_state" where
  "api f s = (case f (backend s) of (r, b) \<Rightarrow> (r, s\<lparr>backend := b\<rparr>))"

definition lift_res :: "'e + 'a \<Rightarrow> 's \<Rightarrow> ('e + 'a) \<times> 's" where
  "lift_res r s = (r, s)"

fun is_DBError :: "db_error \<Rightarrow> bool" where
  "is_DBError DBDuplicateEntry = True"
| "is_DBError DBReferenceError = True"
| "is_DBError DBError = True"
| "is_DBError _ = False"

subsection \<open>The tables (\<open>db/lsn_db.py\<close>)\<close>

text \<open>A key column cannot be null, the subnet and the MAC address of a port are unique, its node
  exists, and deleting a node deletes its ports: constraints the two models declare.\<close>

definition lsn_add :: "('b, 'd, 't, 'p, 'm) lsn_env \<Rightarrow> string \<Rightarrow> string option \<Rightarrow> ('b, 't, 'p, 'm) lsn_state \<Rightarrow>
    (db_error + unit) \<times> ('b, 't, 'p, 'm) lsn_state" where
  "lsn_add E network_id lsn_id s =
     (case lsn_id of
        None \<Rightarrow> (Inl DBError, s)
      | Some i \<Rightarrow>
          (case q_add (lsn_orm E) (lsn_tbl s) \<lparr>ls_net_id = network_id, ls_lsn_id = i\<rparr> of
             Inl e \<Rightarrow> (Inl e, s)
           | Inr t \<Rightarrow> (Inr (), s\<lparr>lsn_tbl := t\<rparr>)))"

definition lsn_remove :: "('b, 'd, 't, 'p, 'm) lsn_env \<Rightarrow> string option \<Rightarrow> ('b, 't, 'p, 'm) lsn_state \<Rightarrow> ('b, 't, 'p, 'm) lsn_state" where
  "lsn_remove E lsn_id s =
     s\<lparr>lsn_tbl := q_del (lsn_orm E) (lsn_tbl s) (\<lambda>r. Some (ls_lsn_id r) = lsn_id),
       port_tbl := q_del (port_orm E) (port_tbl s) (\<lambda>r. Some (lt_lsn_id r) = lsn_id)\<rparr>"

definition found_or :: "bool \<Rightarrow> mh_exc \<Rightarrow> db_error + 'r \<Rightarrow> mh_exc + 'r option" where
  "found_or raise_on_err missing r =
     (case r of
        Inr x \<Rightarrow> Inr (Some x)
      | Inl e \<Rightarrow>
          if e = NoResultFound \<or> is_DBError e then (if raise_on_err then Inl missing else Inr None)
          else Inl (DbError e))"

definition lsn_get_for_network :: "('b, 'd, 't, 'p, 'm) lsn_env \<Rightarrow> string \<Rightarrow> bool \<Rightarrow> ('b, 't, 'p, 'm) lsn_state \<Rightarrow>
    mh_exc + lsn_row option" where
  "lsn_get_for_network E network_id raise_on_err s =
     found_or raise_on_err (LsnNotFound ''network'' (Some network_id))
       (q_one (lsn_orm E) (lsn_tbl s) (\<lambda>r. ls_net_id r = network_id))"

definition port_constraints :: "('b, 'd, 't, 'p, 'm) lsn_env \<Rightarrow> lsn_port_row \<Rightarrow> ('b, 't, 'p, 'm) lsn_state \<Rightarrow> db_error + unit" where
  "port_constraints E r s =
     (if q_all (lsn_orm E) (lsn_tbl s) (\<lambda>l. ls_lsn_id l = lt_lsn_id r) = [] then Inl DBReferenceError
      else if q_all (port_orm E) (port_tbl s) (\<lambda>p. lt_sub_id p = lt_sub_id r \<or> lt_mac_addr p = lt_mac_addr r) \<noteq> []
      then Inl DBDuplicateEntry else Inr ())"

definition lsn_port_add_for_lsn :: "('b, 'd, 't, 'p, 'm) lsn_env \<Rightarrow> string option \<Rightarrow> string option \<Rightarrow> string option \<Rightarrow>
    string option \<Rightarrow> ('b, 't, 'p, 'm) lsn_state \<Rightarrow> (db_error + unit) \<times> ('b, 't, 'p, 'm) lsn_state" where
  "lsn_port_add_for_lsn E lsn_port_id subnet_id mac lsn_id s =
     (case (lsn_port_id, subnet_id, mac, lsn_id) of
        (Some p, Some sub, Some m, Some l) \<Rightarrow>
          let r = \<lparr>lt_lsn_port_id = p, lt_lsn_id = l, lt_sub_id = sub, lt_mac_addr = m\<rparr>
          in (case bind_res (port_constraints E r s) (\<lambda>_. q_add (port_orm E) (port_tbl s) r) of
                Inl e \<Rightarrow> (Inl e, s)
              | Inr t \<Rightarrow> (Inr (), s\<lparr>port_tbl := t\<rparr>))
      | _ \<Rightarrow> (Inl DBError, s))"

definition lsn_port_get_for_subnet :: "('b, 'd, 't, 'p, 'm) lsn_env \<Rightarrow> string \<Rightarrow> bool \<Rightarrow> ('b, 't, 'p, 'm) lsn_state \<Rightarrow>
    mh_exc + lsn_port_row option" where
  "lsn_port_get_for_subnet E subnet_id raise_on_err s =
     found_or raise_on_err (LsnPortNotFound None ''subnet'' subnet_id)
       (q_one (port_orm E) (port_tbl s) (\<lambda>r. lt_sub_id r = subnet_id))"

definition lsn_port_get_for_mac :: "('b, 'd, 't, 'p, 'm) lsn_env \<Rightarrow> string \<Rightarrow> bool \<Rightarrow> ('b, 't, 'p, 'm) lsn_state \<Rightarrow>
    mh_exc + lsn_port_row option" where
  "lsn_port_get_for_mac E mac_address raise_on_err s =
     found_or raise_on_err (LsnPortNotFound None ''mac'' mac_address)
       (q_one (port_orm E) (port_tbl s) (\<lambda>r. lt_mac_addr r = mac_address))"

text \<open>A cluster in place of a request context has no session.\<close>

definition lsn_port_remove :: "('b, 'd, 't, 'p, 'm) lsn_env \<Rightarrow> ctx \<Rightarrow> string option \<Rightarrow> ('b, 't, 'p, 'm) lsn_state \<Rightarrow>
    (mh_exc + unit) \<times> ('b, 't, 'p, 'm) lsn_state" where
  "lsn_port_remove E c lsn_port_id s =
     (case c of
        Cluster_object \<Rightarrow> (Inl BadContext, s)
      | Request_context \<Rightarrow>
          (Inr (), s\<lparr>port_tbl := q_del (port_orm E) (port_tbl s) (\<lambda>r. Some (lt_lsn_port_id r) = lsn_port_id)\<rparr>))"

subsection \<open>The methods that \<open>PersistentLsnManager\<close> overrides, as \<open>LsnManager\<close> has them\<close>

type_synonym ('s, 'a) prog = "'s \<Rightarrow> (mh_exc + 'a) \<times> 's"

text \<open>\<open>except (NotFound, NsxApiException)\<close>.\<close>

definition missing_exc :: "mh_exc \<Rightarrow> bool" where
  "missing_exc e \<longleftrightarrow> is_NotFound e \<or> is_NsxApi e"

definition base_lsn_get :: "('b, 'd, 't, 'p, 'm) lsn_env \<Rightarrow> string \<Rightarrow> bool \<Rightarrow>
    (('b, 't, 'p, 'm) lsn_state, string option) prog" where
  "base_lsn_get E network_id raise_on_err =
     catch_st (api (lsn_for_network_get (clu E) network_id))
       (\<lambda>e. if missing_exc e
          then (if raise_on_err then raise_st (LsnNotFound ''network'' (Some network_id)) else return_st None)
          else raise_st e)"

definition base_lsn_create :: "('b, 'd, 't, 'p, 'm) lsn_env \<Rightarrow> string \<Rightarrow> (('b, 't, 'p, 'm) lsn_state, string) prog" where
  "base_lsn_create E network_id =
     catch_st (api (lsn_for_network_create (clu E) network_id))
       (\<lambda>e. raise_st (if is_NsxApi e then PluginError (''Unable to create LSN for network '' @ network_id) else e))"

definition base_lsn_delete :: "('b, 'd, 't, 'p, 'm) lsn_env \<Rightarrow> string option \<Rightarrow> (('b, 't, 'p, 'm) lsn_state, unit) prog" where
  "base_lsn_delete E lsn_id =
     catch_st (api (lsn_delete (clu E) lsn_id)) (\<lambda>e. if missing_exc e then return_st () else raise_st e)"

text \<open>\<open>get\<close> is the method \<open>lsn_get\<close> of the manager, and \<open>query\<close> the query for the port.\<close>

definition find_port :: "(string \<Rightarrow> bool \<Rightarrow> ('s, string option) prog) \<Rightarrow> (string option \<Rightarrow> ('s, string option) prog) \<Rightarrow>
    string \<Rightarrow> string \<Rightarrow> string \<Rightarrow> bool \<Rightarrow> ('s, string option \<times> string option) prog" where
  "find_port get query entity network_id entity_id raise_on_err =
     bind_st (get network_id raise_on_err) (\<lambda>lsn_id.
       if \<not> given lsn_id then return_st (None, None)
       else catch_st (bind_st (query lsn_id) (\<lambda>lsn_port_id. return_st (lsn_id, lsn_port_id)))
         (\<lambda>e. if missing_exc e
            then (if raise_on_err then raise_st (LsnPortNotFound lsn_id entity entity_id) else return_st (lsn_id, None))
            else raise_st e))"

definition base_lsn_port_get where
  "base_lsn_port_get E get network_id subnet_id raise_on_err =
     find_port get (\<lambda>l. api (lsn_port_by_subnet_get (clu E) l subnet_id)) ''subnet'' network_id subnet_id raise_on_err"

definition base_lsn_port_get_by_mac where
  "base_lsn_port_get_by_mac E get network_id mac raise_on_err =
     find_port get (\<lambda>l. api (lsn_port_by_mac_get (clu E) l mac)) ''MAC'' network_id mac raise_on_err"

definition base_lsn_port_create :: "('b, 'd, 't, 'p, 'm) lsn_env \<Rightarrow> string option \<Rightarrow> port_data \<Rightarrow>
    (('b, 't, 'p, 'm) lsn_state, string) prog" where
  "base_lsn_port_create E lsn_id subnet_info =
     catch_st (api (lsn_port_create (clu E) lsn_id subnet_info))
       (\<lambda>e. raise_st (if is_NotFound e then LsnNotFound [] lsn_id
          else if is_NsxApi e then PluginError (''Unable to create port for LSN  '' @ fmt lsn_id) else e))"

definition base_lsn_port_delete :: "('b, 'd, 't, 'p, 'm) lsn_env \<Rightarrow> ctx \<Rightarrow> string option \<Rightarrow> string option \<Rightarrow>
    (('b, 't, 'p, 'm) lsn_state, unit) prog" where
  "base_lsn_port_delete E c lsn_id lsn_port_id =
     catch_st (api (lsn_port_delete (clu E) lsn_id lsn_port_id))
       (\<lambda>e. if missing_exc e then return_st () else raise_st e)"

subsection \<open>\<open>PersistentLsnManager\<close>\<close>

definition lsn_save :: "('b, 'd, 't, 'p, 'm) lsn_env \<Rightarrow> string \<Rightarrow> string option \<Rightarrow> (('b, 't, 'p, 'm) lsn_state, unit) prog" where
  "lsn_save E network_id lsn_id s =
     (case lsn_add E network_id lsn_id s of
        (Inl e, s) \<Rightarrow> (Inl (if is_DBError e then PluginError (''Unable to save LSN for network '' @ network_id) else DbError e), s)
      | (Inr u, s) \<Rightarrow> (Inr u, s))"

definition lsn_port_save :: "('b, 'd, 't, 'p, 'm) lsn_env \<Rightarrow> string option \<Rightarrow> string option \<Rightarrow> string option \<Rightarrow> string option \<Rightarrow>
    (('b, 't, 'p, 'm) lsn_state, unit) prog" where
  "lsn_port_save E lsn_port_id subnet_id mac_addr lsn_id s =
     (case lsn_port_add_for_lsn E lsn_port_id subnet_id mac_addr lsn_id s of
        (Inl e, s) \<Rightarrow>
          (Inl (if is_DBError e then PluginError (''Unable to save LSN port for subnet '' @ fmt subnet_id) else DbError e), s)
      | (Inr u, s) \<Rightarrow> (Inr u, s))"

definition pers_lsn_get :: "('b, 'd, 't, 'p, 'm) lsn_env \<Rightarrow> string \<Rightarrow> bool \<Rightarrow>
    (('b, 't, 'p, 'm) lsn_state, string option) prog" where
  "pers_lsn_get E network_id raise_on_err s =
     (case lsn_get_for_network E network_id raise_on_err s of
        Inr obj \<Rightarrow> (Inr (map_option ls_lsn_id obj), s)
      | Inl (LsnNotFound en i) \<Rightarrow>
          if sync_on_missing E then
            bind_st (base_lsn_get E network_id raise_on_err) (\<lambda>lsn_id.
              bind_st (lsn_save E network_id lsn_id) (\<lambda>_. return_st lsn_id)) s
          else if raise_on_err then (Inl (LsnNotFound en i), s)
          else (Inr None, s)
      | Inl e \<Rightarrow> (Inl e, s))"

definition pers_lsn_create :: "('b, 'd, 't, 'p, 'm) lsn_env \<Rightarrow> string \<Rightarrow> (('b, 't, 'p, 'm) lsn_state, string) prog" where
  "pers_lsn_create E network_id =
     bind_st (base_lsn_create E network_id) (\<lambda>lsn_id.
       bind_st (catch_st (lsn_save E network_id (Some lsn_id))
           (\<lambda>e. if is_NsxPlugin e then bind_st (base_lsn_delete E (Some lsn_id)) (\<lambda>_. raise_st e) else raise_st e))
         (\<lambda>_. return_st lsn_id))"

definition pers_lsn_delete :: "('b, 'd, 't, 'p, 'm) lsn_env \<Rightarrow> string option \<Rightarrow> (('b, 't, 'p, 'm) lsn_state, unit) prog" where
  "pers_lsn_delete E lsn_id s = base_lsn_delete E lsn_id (lsn_remove E lsn_id s)"

definition port_pair :: "lsn_port_row option \<Rightarrow> string option \<times> string option" where
  "port_pair r = (case r of None \<Rightarrow> (None, None) | Some p \<Rightarrow> (Some (lt_lsn_id p), Some (lt_lsn_port_id p)))"

text \<open>A lookup in the table with the fallback to the controller. The result None of a handled
  exception cannot be unpacked by a caller.\<close>

definition synced :: "('b, 'd, 't, 'p, 'm) lsn_env \<Rightarrow> mh_exc + lsn_port_row option \<Rightarrow> bool \<Rightarrow>
    (('b, 't, 'p, 'm) lsn_state, string option \<times> string option) prog \<Rightarrow>
    (('b, 't, 'p, 'm) lsn_state, string option \<times> string option) prog" where
  "synced E lookup raise_on_err sync s =
     (case lookup of
        Inr obj \<Rightarrow> (Inr (port_pair obj), s)
      | Inl (LsnPortNotFound l en i) \<Rightarrow>
          if sync_on_missing E then sync s
          else if raise_on_err then (Inl (LsnPortNotFound l en i), s)
          else (Inl type_error, s)
      | Inl e \<Rightarrow> (Inl e, s))"

definition pers_lsn_port_get :: "('b, 'd, 't, 'p, 'm) lsn_env \<Rightarrow> string \<Rightarrow> string \<Rightarrow> bool \<Rightarrow>
    (('b, 't, 'p, 'm) lsn_state, string option \<times> string option) prog" where
  "pers_lsn_port_get E network_id subnet_id raise_on_err s =
     synced E (lsn_port_get_for_subnet E subnet_id raise_on_err s) raise_on_err
       (bind_st (base_lsn_port_get E (pers_lsn_get E) network_id subnet_id raise_on_err) (\<lambda>(lsn_id, lsn_port_id).
          bind_st (api (lsn_port_info_get (clu E) lsn_id lsn_port_id)) (\<lambda>info.
          bind_st (lift_res (bind_res (jget ''mac_address'' info) jstr)) (\<lambda>mac_addr.
          bind_st (lsn_port_save E lsn_port_id (Some subnet_id) (Some mac_addr) lsn_id) (\<lambda>_.
          return_st (lsn_id, lsn_port_id)))))) s"

definition pers_lsn_port_get_by_mac :: "('b, 'd, 't, 'p, 'm) lsn_env \<Rightarrow> string \<Rightarrow> string \<Rightarrow> bool \<Rightarrow>
    (('b, 't, 'p, 'm) lsn_state, string option \<times> string option) prog" where
  "pers_lsn_port_get_by_mac E network_id mac raise_on_err s =
     synced E (lsn_port_get_for_mac E mac raise_on_err s) raise_on_err
       (bind_st (base_lsn_port_get_by_mac E (pers_lsn_get E) network_id mac raise_on_err) (\<lambda>(lsn_id, lsn_port_id).
          bind_st (api (lsn_port_info_get (clu E) lsn_id lsn_port_id)) (\<lambda>info.
          bind_st (lift_res (bind_res (jget_opt ''subnet_id'' info)
              (\<lambda>v. if v = JNull then Inr None else bind_res (jstr v) (\<lambda>i. Inr (Some i))))) (\<lambda>subnet_id.
          bind_st (lsn_port_save E lsn_port_id subnet_id (Some mac) lsn_id) (\<lambda>_.
          return_st (lsn_id, lsn_port_id)))))) s"

definition pers_lsn_port_create :: "('b, 'd, 't, 'p, 'm) lsn_env \<Rightarrow> string option \<Rightarrow> port_data \<Rightarrow>
    (('b, 't, 'p, 'm) lsn_state, string) prog" where
  "pers_lsn_port_create E lsn_id subnet_info =
     bind_st (base_lsn_port_create E lsn_id subnet_info) (\<lambda>lsn_port_id.
       bind_st (catch_st (lsn_port_save E (Some lsn_port_id) (Some (pd_subnet_id subnet_info))
             (Some (pd_mac_address subnet_info)) lsn_id)
           (\<lambda>e. if is_NsxPlugin e
              then bind_st (base_lsn_port_delete E Request_context lsn_id (Some lsn_port_id)) (\<lambda>_. raise_st e) else raise_st e))
         (\<lambda>_. return_st lsn_port_id))"

definition pers_lsn_port_delete :: "('b, 'd, 't, 'p, 'm) lsn_env \<Rightarrow> ctx \<Rightarrow> string option \<Rightarrow> string option \<Rightarrow>
    (('b, 't, 'p, 'm) lsn_state, unit) prog" where
  "pers_lsn_port_delete E c lsn_id lsn_port_id =
     bind_st (lsn_port_remove E c lsn_port_id) (\<lambda>_. base_lsn_port_delete E c lsn_id lsn_port_id)"

subsection \<open>The two managers\<close>

record 's lsn_mgr =
  v_lsn_get :: "string \<Rightarrow> bool \<Rightarrow> ('s, string option) prog"
  v_lsn_create :: "string \<Rightarrow> ('s, string) prog"
  v_lsn_delete :: "string option \<Rightarrow> ('s, unit) prog"
  v_lsn_port_get :: "string \<Rightarrow> string \<Rightarrow> bool \<Rightarrow> ('s, string option \<times> string option) prog"
  v_lsn_port_get_by_mac :: "string \<Rightarrow> string \<Rightarrow> bool \<Rightarrow> ('s, string option \<times> string option) prog"
  v_lsn_port_create :: "string option \<Rightarrow> port_data \<Rightarrow> ('s, string) prog"
  v_lsn_port_delete :: "ctx \<Rightarrow> string option \<Rightarrow> string option \<Rightarrow> ('s, unit) prog"

definition LsnManager :: "('b, 'd, 't, 'p, 'm) lsn_env \<Rightarrow> ('b, 't, 'p, 'm) lsn_state lsn_mgr" where
  "LsnManager E = \<lparr>v_lsn_get = base_lsn_get E, v_lsn_create = base_lsn_create E, v_lsn_delete = base_lsn_delete E,
     v_lsn_port_get = base_lsn_port_get E (base_lsn_get E),
     v_lsn_port_get_by_mac = base_lsn_port_get_by_mac E (base_lsn_get E),
     v_lsn_port_create = base_lsn_port_create E, v_lsn_port_delete = base_lsn_port_delete E\<rparr>"

definition PersistentLsnManager :: "('b, 'd, 't, 'p, 'm) lsn_env \<Rightarrow> ('b, 't, 'p, 'm) lsn_state lsn_mgr" where
  "PersistentLsnManager E = \<lparr>v_lsn_get = pers_lsn_get E, v_lsn_create = pers_lsn_create E, v_lsn_delete = pers_lsn_delete E,
     v_lsn_port_get = pers_lsn_port_get E, v_lsn_port_get_by_mac = pers_lsn_port_get_by_mac E,
     v_lsn_port_create = pers_lsn_port_create E, v_lsn_port_delete = pers_lsn_port_delete E\<rparr>"


subsection \<open>The methods both managers share\<close>

fun add_switch_mappings :: "('m, network_mapping) orm \<Rightarrow> string \<Rightarrow> json list \<Rightarrow> 'm \<Rightarrow> mh_exc + string list \<times> 'm" where
  "add_switch_mappings D net [] t = Inr ([], t)"
| "add_switch_mappings D net (sw # sws) t =
     bind_res (uuid_of sw) (\<lambda>u.
       case add_neutron_nsx_network_mapping D t net u None of
         Inl e \<Rightarrow> Inl (DbError e)
       | Inr (_, t) \<Rightarrow> bind_res (add_switch_mappings D net sws t) (\<lambda>(us, t). Inr (u # us, t)))"

definition switch_ids :: "('b, 'd, 't, 'p, 'm) lsn_env \<Rightarrow> string \<Rightarrow> (('b, 't, 'p, 'm) lsn_state, string list) prog" where
  "switch_ids E network_id s =
     (case get_nsx_switch_ids (net_orm E) (net_tbl s) network_id of
        x # xs \<Rightarrow> (Inr (x # xs), s)
      | [] \<Rightarrow>
          bind_st (api (get_lswitches (max_pages E) (clu E) network_id)) (\<lambda>nsx_switches s.
            if nsx_switches = [] then (Inr [], s)
            else (case add_switch_mappings (net_orm E) network_id nsx_switches (net_tbl s) of
                Inl e \<Rightarrow> (Inl e, s)
              | Inr (ids, t) \<Rightarrow> (Inr ids, s\<lparr>net_tbl := t\<rparr>))) s)"

definition first_switch :: "('b, 'd, 't, 'p, 'm) lsn_env \<Rightarrow> string \<Rightarrow> (('b, 't, 'p, 'm) lsn_state, string) prog" where
  "first_switch E network_id =
     bind_st (switch_ids E network_id) (\<lambda>ids. case ids of [] \<Rightarrow> raise_st index_error | x # _ \<Rightarrow> return_st x)"

definition lsn_exists :: "('s) lsn_mgr \<Rightarrow> string \<Rightarrow> ('s, bool) prog" where
  "lsn_exists M network_id = bind_st (v_lsn_get M network_id False) (\<lambda>i. return_st (i \<noteq> None))"

definition lsn_delete_by_network :: "('s) lsn_mgr \<Rightarrow> string \<Rightarrow> ('s, unit) prog" where
  "lsn_delete_by_network M network_id =
     bind_st (v_lsn_get M network_id False) (\<lambda>i. if given i then v_lsn_delete M i else return_st ())"

definition port_uuid :: "('b, 'd, 't, 'p, 'm) lsn_env \<Rightarrow> string \<Rightarrow> string \<Rightarrow> (('b, 't, 'p, 'm) lsn_state, string) prog" where
  "port_uuid E switch_id port_id =
     bind_st (api (get_port_by_neutron_tag (clu E) switch_id port_id)) (\<lambda>p. lift_res (uuid_of p))"

definition lsn_port_dispose where
  "lsn_port_dispose E M network_id mac_address =
     bind_st (v_lsn_port_get_by_mac M network_id mac_address False) (\<lambda>(lsn_id, lsn_port_id).
       if given lsn_port_id then
         bind_st (v_lsn_port_delete M Request_context lsn_id lsn_port_id) (\<lambda>_.
           if mac_address = METADATA_MAC then
             catch_st (bind_st (port_uuid E network_id METADATA_PORT_ID) (\<lambda>lswitch_port_id.
                 api (delete_port (clu E) network_id lswitch_port_id)))
               (\<lambda>e. case e of PortNotFoundOnNetwork _ _ \<Rightarrow> return_st ()
                  | _ \<Rightarrow> if is_NsxApi e then return_st () else raise_st e)
           else return_st ())
       else return_st ())"

definition dhcp_options :: "('b, 'd, 't, 'p, 'm) lsn_env \<Rightarrow> subnet \<Rightarrow> string list \<Rightarrow> mh_exc + (string \<times> json) list" where
  "dhcp_options E subnet dns_servers =
     bind_res (map_res jstr (sn_host_routes subnet)) (\<lambda>routes.
       Inr ([(''domain_name'', JStr (domain_name E)), (''default_lease_time'', JInt (default_lease_time E))] @
         (if given (sn_gateway_ip subnet) then [(''routers'', opt_json (sn_gateway_ip subnet))] else []) @
         (if dns_servers \<noteq> [] then [(''domain_name_servers'', JStr (join_with '','' dns_servers))] else []) @
         (if routes \<noteq> [] then [(''classless_static_routes'', JStr (join_with '','' routes))] else [])))"

definition lsn_port_dhcp_configure :: "('b, 'd, 't, 'p, 'm) lsn_env \<Rightarrow> string option \<Rightarrow> string option \<Rightarrow> subnet \<Rightarrow>
    (('b, 't, 'p, 'm) lsn_state, unit) prog" where
  "lsn_port_dhcp_configure E lsn_id lsn_port_id subnet s =
     (let extra = extra_domain_name_servers s;
          dns_servers = extra @ sn_dns_nameservers subnet;
          s = (if extra \<noteq> [] \<and> conf_shared E then s\<lparr>extra_domain_name_servers := dns_servers\<rparr> else s)
      in bind_st (lift_res (dhcp_options E subnet dns_servers)) (\<lambda>opts.
           catch_st (api (api_port_dhcp_configure (clu E) lsn_id lsn_port_id (sn_enable_dhcp subnet) opts))
             (\<lambda>e. raise_st (if missing_exc e
                then PluginError (''Unable to configure dhcp for Logical Service Node '' @ fmt lsn_id @ '' and port '' @ fmt lsn_port_id)
                else e))) s)"

definition as_port_error :: "(mh_exc \<Rightarrow> bool) \<Rightarrow> string \<Rightarrow> string option \<Rightarrow> string option \<Rightarrow> ('s, 'a) prog \<Rightarrow> ('s, 'a) prog" where
  "as_port_error caught network_id lsn_id port_id m =
     catch_st m (\<lambda>e. raise_st (if caught e then PortConfigurationError network_id lsn_id port_id else e))"

definition setup_exc :: "mh_exc \<Rightarrow> bool" where
  "setup_exc e \<longleftrightarrow> is_NotFound e \<or> is_NsxPlugin e"

definition lsn_port_dhcp_setup where
  "lsn_port_dhcp_setup E M network_id port_id port_data subnet_config =
     bind_st (as_port_error setup_exc network_id None (Some port_id)
         (bind_st (first_switch E network_id) (\<lambda>switch_id.
          bind_st (port_uuid E switch_id port_id) (\<lambda>lswitch_port_id.
          bind_st (v_lsn_get M network_id True) (\<lambda>lsn_id. return_st (lswitch_port_id, lsn_id)))))) (\<lambda>(lswitch_port_id, lsn_id).
     bind_st (as_port_error setup_exc network_id lsn_id (Some port_id) (v_lsn_port_create M lsn_id port_data)) (\<lambda>lsn_port_id.
     bind_st (catch_st (api (lsn_port_plug_network (clu E) lsn_id (Some lsn_port_id) lswitch_port_id))
         (\<lambda>e. case e of
            LsnConfigurationConflict _ \<Rightarrow>
              bind_st (v_lsn_port_delete M Request_context lsn_id (Some lsn_port_id)) (\<lambda>_.
                raise_st (PortConfigurationError network_id lsn_id (Some port_id)))
          | _ \<Rightarrow> raise_st e)) (\<lambda>_.
     case subnet_config of
       Some subnet \<Rightarrow> bind_st (lsn_port_dhcp_configure E lsn_id (Some lsn_port_id) subnet) (\<lambda>_. return_st None)
     | None \<Rightarrow> return_st (Some (lsn_id, lsn_port_id)))))"

definition metadata_port_data :: "subnet \<Rightarrow> port_data" where
  "metadata_port_data subnet = \<lparr>pd_ip_address = sn_cidr subnet, pd_mac_address = METADATA_MAC, pd_subnet_id = sn_id subnet\<rparr>"

definition create_metadata_lport :: "('b, 'd, 't, 'p, 'm) lsn_env \<Rightarrow> string \<Rightarrow> string \<Rightarrow> (('b, 't, 'p, 'm) lsn_state, string) prog" where
  "create_metadata_lport E switch_id tenant_id =
     bind_st (api (create_lport (clu E) (sha1_hex E) switch_id tenant_id METADATA_PORT_ID (Some METADATA_PORT_NAME)
         METADATA_DEVICE_ID True default_lport)) (\<lambda>p. lift_res (uuid_of p))"

definition metadata_exc :: "mh_exc \<Rightarrow> bool" where
  "metadata_exc e \<longleftrightarrow> is_NotFound e \<or> is_NsxPlugin e \<or> is_NsxApi e"

definition lsn_port_metadata_setup where
  "lsn_port_metadata_setup E M lsn_id subnet =
     (let network_id = sn_network_id subnet in
      bind_st (as_port_error metadata_exc network_id lsn_id None
          (bind_st (first_switch E network_id) (\<lambda>switch_id. create_metadata_lport E switch_id (sn_tenant_id subnet)))) (\<lambda>lswitch_port_id.
      bind_st (as_port_error metadata_exc network_id lsn_id (Some lswitch_port_id)
          (v_lsn_port_create M lsn_id (metadata_port_data subnet))) (\<lambda>lsn_port_id.
      catch_st (api (lsn_port_plug_network (clu E) lsn_id (Some lsn_port_id) lswitch_port_id))
        (\<lambda>e. case e of
           LsnConfigurationConflict _ \<Rightarrow>
             bind_st (v_lsn_port_delete M Cluster_object lsn_id (Some lsn_port_id)) (\<lambda>_.
             bind_st (api (delete_port (clu E) network_id lswitch_port_id)) (\<lambda>_.
               raise_st (PortConfigurationError network_id lsn_id (Some lsn_port_id))))
         | _ \<Rightarrow> raise_st e))))"

definition metadata_options :: "('b, 'd, 't, 'p, 'm) lsn_env \<Rightarrow> (string \<times> json) list" where
  "metadata_options E =
     [(''metadata_server_ip'', JStr (metadata_server_address E)), (''metadata_server_port'', JInt (metadata_server_port E)),
      (''metadata_proxy_shared_secret'', JStr (metadata_shared_secret E))]"

definition lsn_metadata_configure where
  "lsn_metadata_configure E M subnet_id is_enabled =
     bind_st (lift_res (plugin_get_subnet E subnet_id)) (\<lambda>subnet.
     let network_id = sn_network_id subnet in
     bind_st (catch_st
         (bind_st (v_lsn_get M network_id True) (\<lambda>lsn_id.
            bind_st (api (api_metadata_configure (clu E) lsn_id is_enabled (metadata_options E))) (\<lambda>_. return_st lsn_id)))
         (\<lambda>e. let err = PluginError (''Unable to configure metadata for subnet '' @ subnet_id) in
            case e of LsnNotFound _ _ \<Rightarrow> raise_st err | _ \<Rightarrow> raise_st (if is_NsxApi e then err else e))) (\<lambda>lsn_id.
     if is_enabled then
       catch_st (bind_st (v_lsn_port_get M network_id subnet_id True) (\<lambda>_. return_st ()))
         (\<lambda>e. case e of LsnPortNotFound _ _ _ \<Rightarrow> lsn_port_metadata_setup E M lsn_id subnet | _ \<Rightarrow> raise_st e)
     else lsn_port_dispose E M network_id METADATA_MAC))"

definition lsn_port_host_conf where
  "lsn_port_host_conf M network_id subnet_id hdlr =
     bind_st (v_lsn_port_get M network_id subnet_id False) (\<lambda>(lsn_id, lsn_port_id).
       if given lsn_id \<and> given lsn_port_id
       then as_port_error missing_exc network_id lsn_id lsn_port_id (api (hdlr lsn_id lsn_port_id))
       else return_st ())"

definition lsn_port_dhcp_host_add where
  "lsn_port_dhcp_host_add E M network_id subnet_id host =
     lsn_port_host_conf M network_id subnet_id (\<lambda>l p. api_port_dhcp_host_add (clu E) l p host)"
definition lsn_port_dhcp_host_remove where
  "lsn_port_dhcp_host_remove E M network_id subnet_id host =
     lsn_port_host_conf M network_id subnet_id (\<lambda>l p. api_port_dhcp_host_remove (clu E) l p host)"
definition lsn_port_meta_host_add where
  "lsn_port_meta_host_add E M network_id subnet_id host =
     lsn_port_host_conf M network_id subnet_id (\<lambda>l p. api_port_metadata_host_add (clu E) l p host)"
definition lsn_port_meta_host_remove where
  "lsn_port_meta_host_remove E M network_id subnet_id host =
     lsn_port_host_conf M network_id subnet_id (\<lambda>l p. api_port_metadata_host_remove (clu E) l p host)"

text \<open>The lookup's own exceptions are raised before \<open>lsn_id\<close> is bound, but none of them is an
  NsxApiException.\<close>

definition lsn_port_update where
  "lsn_port_update E M network_id subnet_id dhcp meta =
     (if dhcp = [] \<and> meta = [] then return_st ()
      else bind_st (v_lsn_port_get M network_id subnet_id False) (\<lambda>(lsn_id, lsn_port_id).
        as_port_error is_NsxApi network_id lsn_id lsn_port_id
          (let both = given lsn_id \<and> given lsn_port_id in
           bind_st (if dhcp \<noteq> [] \<and> both
               then api (lsn_port_host_entries_update (clu E) lsn_id lsn_port_id DHCP_CONF (JList dhcp)) else return_st ()) (\<lambda>_.
           if meta \<noteq> [] \<and> both
           then api (lsn_port_host_entries_update (clu E) lsn_id lsn_port_id META_CONF (JList meta)) else return_st ()))))"


subsection \<open>What the code relies on in the controller\<close>

text \<open>\<open>nodes b\<close> are the logical service nodes the controller has in state \<open>b\<close>, each with the
  network in its tag. A query answers with the nodes of a network and changes nothing;
  creating a node gives it a new identifier; a creation or deletion can fail with an
  exception, and then nothing has changed.\<close>

locale lsn_controller =
  fixes C :: "('b, 'd) cluster" and ok :: "'b \<Rightarrow> bool" and nodes :: "'b \<Rightarrow> lsn_row set"
  assumes query: "ok b \<Longrightarrow> \<exists>ids. distinct ids \<and> set ids = {i. \<lparr>ls_net_id = n, ls_lsn_id = i\<rparr> \<in> nodes b} \<and>
      do_request C HTTP_GET (lsn_query_uri n) None b =
        (Inr (JObj [(''results'', JList (map (\<lambda>i. JObj [(''uuid'', JStr i)]) ids))]), b)"
    and create: "ok b \<Longrightarrow>
      (\<exists>e. is_NsxApi e \<and> send_json C HTTP_POST (build_uri_path LSERVICESNODE_RESOURCE no_args) (lsn_body C n) b = (Inl e, b)) \<or>
      (\<exists>i b'. send_json C HTTP_POST (build_uri_path LSERVICESNODE_RESOURCE no_args) (lsn_body C n) b =
          (Inr (JObj [(''uuid'', JStr i)]), b') \<and> i \<noteq> [] \<and> ok b' \<and> i \<notin> ls_lsn_id ` nodes b \<and>
        nodes b' = insert \<lparr>ls_net_id = n, ls_lsn_id = i\<rparr> (nodes b))"
    and delete: "ok b \<Longrightarrow> i \<noteq> [] \<Longrightarrow>
      (\<exists>e. missing_exc e \<and> do_request C HTTP_DELETE (lsn_uri (Some i)) None b = (Inl e, b)) \<or>
      (\<exists>j b'. do_request C HTTP_DELETE (lsn_uri (Some i)) None b = (Inr j, b') \<and> ok b' \<and>
        nodes b' = {r \<in> nodes b. ls_lsn_id r \<noteq> i})"
begin

lemma get_none:
  assumes "ok b" "\<forall>r \<in> nodes b. ls_net_id r \<noteq> n"
  shows "lsn_for_network_get C n b = (Inl NotFound, b)"
proof -
  from query [OF assms(1), of n] obtain ids where ids: "set ids = {i. \<lparr>ls_net_id = n, ls_lsn_id = i\<rparr> \<in> nodes b}"
    "do_request C HTTP_GET (lsn_query_uri n) None b =
       (Inr (JObj [(''results'', JList (map (\<lambda>i. JObj [(''uuid'', JStr i)]) ids))]), b)" by blast
  have "i \<notin> set ids" for i using ids(1) assms(2) by fastforce
  then have "ids = []" by (cases ids) auto
  with ids(2) show ?thesis
    by (simp add: lsn_for_network_get_def reading_def one_result_def py_res_def py_res_def)
qed

lemma get_one:
  assumes "ok b" "{r \<in> nodes b. ls_net_id r = n} = {r}"
  shows "lsn_for_network_get C n b = (Inr (Some (ls_lsn_id r)), b)"
proof -
  from query [OF assms(1), of n] obtain ids where ids: "distinct ids"
    "set ids = {i. \<lparr>ls_net_id = n, ls_lsn_id = i\<rparr> \<in> nodes b}"
    "do_request C HTTP_GET (lsn_query_uri n) None b =
       (Inr (JObj [(''results'', JList (map (\<lambda>i. JObj [(''uuid'', JStr i)]) ids))]), b)" by blast
  have only: "i = ls_lsn_id r" if "i \<in> set ids" for i
  proof -
    have "\<lparr>ls_net_id = n, ls_lsn_id = i\<rparr> \<in> {r \<in> nodes b. ls_net_id r = n}" using that ids(2) by simp
    then show ?thesis unfolding assms(2) by auto
  qed
  have "r \<in> {r \<in> nodes b. ls_net_id r = n}" unfolding assms(2) by simp
  then have r: "r \<in> nodes b" "ls_net_id r = n" by simp_all
  have "\<lparr>ls_net_id = n, ls_lsn_id = ls_lsn_id r\<rparr> = r" unfolding r(2) [symmetric] by simp
  then have self: "ls_lsn_id r \<in> set ids" unfolding ids(2) mem_Collect_eq using r(1) by (simp only:)
  have "set ids = {ls_lsn_id r}" using only self by blast
  with ids(1) have "ids = [ls_lsn_id r]" by (rule distinct_set_singleton)
  with ids(3) show ?thesis
    by (simp add: lsn_for_network_get_def reading_def one_result_def py_res_def py_res_def uuid_of_def py_res_def)
qed

end


subsection \<open>The persistent manager against the controller\<close>










subsection \<open>A controller in memory\<close>

text \<open>It meets the contract of \<open>lsn_controller\<close>: the nodes are pairs of network and identifier.\<close>

record mem =
  mem_nodes :: "(string \<times> string) list"
  mem_next :: nat

fun tag_in :: "string \<Rightarrow> json list \<Rightarrow> string option" where
  "tag_in scope (JObj [(_, JStr v), (_, JStr s)] # ts) = (if s = scope then Some v else tag_in scope ts)"
| "tag_in scope _ = None"

definition body_network :: "json \<Rightarrow> string option" where
  "body_network j = (case j of JObj al \<Rightarrow>
     (case map_of al ''tags'' of Some (JList ts) \<Rightarrow> tag_in ''n_network_id'' ts | _ \<Rightarrow> None) | _ \<Rightarrow> None)"

definition mem_request :: "mem \<Rightarrow> string \<Rightarrow> string \<Rightarrow> json option \<Rightarrow> (raised + json option) \<times> mem" where
  "mem_request b method uri body =
     (if method = HTTP_GET then
        (Inr (Some (JObj [(''results'', JList (map (\<lambda>i. JObj [(''uuid'', JStr i)])
           (map snd (filter (\<lambda>r. lsn_query_uri (fst r) = uri) (mem_nodes b)))))])), b)
      else if method = HTTP_POST then
        (case Option.bind body body_network of
           Some n \<Rightarrow> (Inr (Some (JObj [(''uuid'', JStr (nat_str (mem_next b)))])),
             b\<lparr>mem_nodes := mem_nodes b @ [(n, nat_str (mem_next b))], mem_next := Suc (mem_next b)\<rparr>)
         | None \<Rightarrow> (Inl (Api BadRequest), b))
      else (Inr None, b\<lparr>mem_nodes := filter (\<lambda>r. lsn_uri (Some (snd r)) \<noteq> uri) (mem_nodes b)\<rparr>))"

definition mem_cluster :: "(mem, json) cluster" where
  "mem_cluster = \<lparr>api_request = mem_request, empty_text = (\<lambda>_. False), loads = Some, dumps = id,
     default_service_cluster_uuid = None, neutron_version = ''17.0''\<rparr>"

definition mem_ok :: "mem \<Rightarrow> bool" where
  "mem_ok b \<longleftrightarrow> distinct (map snd (mem_nodes b)) \<and> (\<forall>r \<in> set (mem_nodes b). snd r \<in> nat_str ` {..< mem_next b})"

definition mem_view :: "mem \<Rightarrow> lsn_row set" where
  "mem_view b = (\<lambda>(n, i). \<lparr>ls_net_id = n, ls_lsn_id = i\<rparr>) ` set (mem_nodes b)"

lemma mem_fresh: "mem_ok b \<Longrightarrow> nat_str (mem_next b) \<notin> snd ` set (mem_nodes b)"
  by (fastforce simp: mem_ok_def dest: nat_str_inj)

lemma body_network_lsn: "body_network (lsn_body C n) = Some n"
  by (simp add: body_network_def lsn_body_def get_tags_def)

lemma mem_view_iff: "\<lparr>ls_net_id = n, ls_lsn_id = i\<rparr> \<in> mem_view b \<longleftrightarrow> (n, i) \<in> set (mem_nodes b)"
  by (force simp: mem_view_def)

lemma mem_ids: "ls_lsn_id ` mem_view b = snd ` set (mem_nodes b)"
  by (force simp: mem_view_def)

interpretation mem: lsn_controller mem_cluster mem_ok mem_view
proof
  fix b n i
  assume ok: "mem_ok b"
  let ?ids = "map snd (filter (\<lambda>r. fst r = n) (mem_nodes b))"
  have "distinct ?ids" using ok by (simp add: mem_ok_def distinct_map_filter)
  moreover have "set ?ids = {i. \<lparr>ls_net_id = n, ls_lsn_id = i\<rparr> \<in> mem_view b}"
    by (force simp: mem_view_iff)
  moreover have "do_request mem_cluster HTTP_GET (lsn_query_uri n) None b =
      (Inr (JObj [(''results'', JList (map (\<lambda>i. JObj [(''uuid'', JStr i)]) ?ids))]), b)"
    by (simp add: do_request_def mem_cluster_def mem_request_def lsn_query_uri_inj)
  ultimately show "\<exists>ids. distinct ids \<and> set ids = {i. \<lparr>ls_net_id = n, ls_lsn_id = i\<rparr> \<in> mem_view b} \<and>
      do_request mem_cluster HTTP_GET (lsn_query_uri n) None b =
        (Inr (JObj [(''results'', JList (map (\<lambda>i. JObj [(''uuid'', JStr i)]) ids))]), b)" by blast
  let ?b = "b\<lparr>mem_nodes := mem_nodes b @ [(n, nat_str (mem_next b))], mem_next := Suc (mem_next b)\<rparr>"
  have "send_json mem_cluster HTTP_POST (build_uri_path LSERVICESNODE_RESOURCE no_args) (lsn_body mem_cluster n) b =
      (Inr (JObj [(''uuid'', JStr (nat_str (mem_next b)))]), ?b)"
    by (simp add: send_json_def do_request_def mem_cluster_def mem_request_def body_network_lsn [unfolded mem_cluster_def])
  moreover have "mem_ok ?b"
    using ok mem_fresh [OF ok] by (auto simp: mem_ok_def less_Suc_eq)
  moreover have "nat_str (mem_next b) \<notin> ls_lsn_id ` mem_view b" using mem_fresh [OF ok] by (simp add: mem_ids)
  moreover have "mem_view ?b = insert \<lparr>ls_net_id = n, ls_lsn_id = nat_str (mem_next b)\<rparr> (mem_view b)"
    by (simp add: mem_view_def)
  ultimately show "(\<exists>e. is_NsxApi e \<and> send_json mem_cluster HTTP_POST (build_uri_path LSERVICESNODE_RESOURCE no_args)
        (lsn_body mem_cluster n) b = (Inl e, b)) \<or>
      (\<exists>i b'. send_json mem_cluster HTTP_POST (build_uri_path LSERVICESNODE_RESOURCE no_args) (lsn_body mem_cluster n) b =
          (Inr (JObj [(''uuid'', JStr i)]), b') \<and> i \<noteq> [] \<and> mem_ok b' \<and> i \<notin> ls_lsn_id ` mem_view b \<and>
        mem_view b' = insert \<lparr>ls_net_id = n, ls_lsn_id = i\<rparr> (mem_view b))"
    using nat_str_nonempty [of "mem_next b"] by blast
next
  fix b and i :: string
  assume ok: "mem_ok b" and i: "i \<noteq> []"
  let ?b = "b\<lparr>mem_nodes := filter (\<lambda>r. snd r \<noteq> i) (mem_nodes b)\<rparr>"
  have "lsn_uri (Some (snd r)) = lsn_uri (Some i) \<longleftrightarrow> snd r = i" if "r \<in> set (mem_nodes b)" for r
  proof -
    have "snd r \<noteq> []" using ok that by (auto simp: mem_ok_def)
    then show ?thesis using i by (simp add: lsn_uri_eq)
  qed
  then have "filter (\<lambda>r. lsn_uri (Some (snd r)) \<noteq> lsn_uri (Some i)) (mem_nodes b) = filter (\<lambda>r. snd r \<noteq> i) (mem_nodes b)"
    by (intro filter_cong) simp_all
  then have "do_request mem_cluster HTTP_DELETE (lsn_uri (Some i)) None b = (Inr JNull, ?b)"
    by (simp add: do_request_def mem_cluster_def mem_request_def)
  moreover have "mem_ok ?b" using ok by (auto simp: mem_ok_def distinct_map_filter)
  moreover have "mem_view ?b = {r \<in> mem_view b. ls_lsn_id r \<noteq> i}" by (force simp: mem_view_def)
  ultimately show "(\<exists>e. missing_exc e \<and> do_request mem_cluster HTTP_DELETE (lsn_uri (Some i)) None b = (Inl e, b)) \<or>
      (\<exists>j b'. do_request mem_cluster HTTP_DELETE (lsn_uri (Some i)) None b = (Inr j, b') \<and> mem_ok b' \<and>
        mem_view b' = {r \<in> mem_view b. ls_lsn_id r \<noteq> i})" by blast
qed

definition mem_env :: "(mem, json, lsn_row list, lsn_port_row list, network_mapping list) lsn_env" where
  "mem_env = \<lparr>clu = mem_cluster, lsn_orm = list_orm ls_key, port_orm = list_orm lt_key, net_orm = list_orm nm_key,
     sha1_hex = id, max_pages = 1, sync_on_missing = False, conf_shared = True, domain_name = ''example.org'',
     default_lease_time = 43200, metadata_server_address = ''127.0.0.1'', metadata_server_port = 8775,
     metadata_shared_secret = [], plugin_get_subnet = (\<lambda>_. Inl NotFound)\<rparr>"

definition mem_state :: "(string \<times> string) list \<Rightarrow> lsn_row list \<Rightarrow> lsn_port_row list \<Rightarrow>
    (mem, lsn_row list, lsn_port_row list, network_mapping list) lsn_state" where
  "mem_state ns t p = \<lparr>backend = \<lparr>mem_nodes = ns, mem_next = length ns\<rparr>, lsn_tbl = t, port_tbl = p, net_tbl = [],
     extra_domain_name_servers = [''8.8.8.8'']\<rparr>"


subsection \<open>Properties\<close>







lemma second_mac_not_saved:
  assumes D: "orm_table (port_orm E) lt_key okp" and ok: "okp (port_tbl s)"
    and r: "r \<in> rows (port_orm E) (port_tbl s)" "lt_mac_addr r = m"
  shows "\<exists>x. lsn_port_save E p sub (Some m) l s = (Inl (PluginError x), s)"
proof -
  have "q_all (port_orm E) (port_tbl s) (\<lambda>p. lt_sub_id p = u \<or> lt_mac_addr p = m) \<noteq> []" for u
    using orm_table.all_empty [OF D ok, of "\<lambda>p. lt_sub_id p = u \<or> lt_mac_addr p = m"] r by blast
  then show ?thesis
    by (auto simp: lsn_port_save_def lsn_port_add_for_lsn_def port_constraints_def Let_def split: option.splits)
qed

lemma keeps_api [st_intros]: "keeps_st (\<lambda>s. port_tbl s = t) (api f)"
  by (simp add: keeps_st_def api_def split: prod.splits)

lemma keeps_lift [st_intros]: "keeps_st I (lift_res r)"
  by (simp add: keeps_st_def lift_res_def)

lemma keeps_first_switch [st_intros]: "keeps_st (\<lambda>s. port_tbl s = t) (first_switch E n)"
proof -
  have "keeps_st (\<lambda>s. port_tbl s = t) (switch_ids E n)"
    by (auto simp: keeps_st_def switch_ids_def st_defs api_def split: list.splits prod.splits sum.splits)
  then show ?thesis unfolding first_switch_def
    by (rule keeps_bind) (simp add: st_intros split: list.splits)
qed

lemma fails_pers_port_create:
  fixes E :: "('b, 'd, 't, 'p, 'm) lsn_env"
  assumes D: "orm_table (port_orm E) lt_key okp" and ok: "okp t"
    and r: "r \<in> rows (port_orm E) t" "lt_mac_addr r = pd_mac_address d"
  shows "fails_st (\<lambda>s. port_tbl s = t) (pers_lsn_port_create E l d)"
proof -
  let ?I = "\<lambda>s :: ('b, 't, 'p, 'm) lsn_state. port_tbl s = t"
  have save: "fails_st ?I (lsn_port_save E p sub (Some (pd_mac_address d)) l)" for p sub
    unfolding fails_st_def
  proof (intro allI impI)
    fix s :: "('b, 't, 'p, 'm) lsn_state"
    assume "port_tbl s = t"
    with ok r(1) obtain x where "lsn_port_save E p sub (Some (pd_mac_address d)) l s = (Inl (PluginError x), s)"
      using second_mac_not_saved [OF D _ _ r(2), of s p sub l] by auto
    then show "port_tbl (snd (lsn_port_save E p sub (Some (pd_mac_address d)) l s)) = t \<and>
        (\<exists>e. fst (lsn_port_save E p sub (Some (pd_mac_address d)) l s) = Inl e)" using \<open>port_tbl s = t\<close> by simp
  qed
  have del: "keeps_st ?I (base_lsn_port_delete E c l p)" for c p
    unfolding base_lsn_port_delete_def by (intro st_intros)
  have create: "keeps_st ?I (base_lsn_port_create E l d)"
    unfolding base_lsn_port_create_def by (intro st_intros)
  show ?thesis unfolding pers_lsn_port_create_def
    by (intro fails_bind_rest create fails_bind fails_catch save)
       (simp add: fails_raise fails_bind_rest del)
qed

text \<open>The table of ports holds at most one port with the MAC address of the metadata
  service, because the column is unique and the address a constant. With the persistent
  manager, connecting a second network's subnet to the metadata service therefore always
  fails, whatever the controller answers, and the table of ports stays as it was.\<close>

theorem second_metadata_port_fails:
  assumes D: "orm_table (port_orm E) lt_key okp" and ok: "okp (port_tbl s)"
    and r: "r \<in> rows (port_orm E) (port_tbl s)" "lt_mac_addr r = METADATA_MAC"
  shows "\<exists>e s'. lsn_port_metadata_setup E (PersistentLsnManager E) l subnet s = (Inl e, s') \<and> port_tbl s' = port_tbl s"
proof -
  let ?I = "\<lambda>u. port_tbl u = port_tbl s"
  have "fails_st ?I (pers_lsn_port_create E l (metadata_port_data subnet))"
    by (rule fails_pers_port_create [OF D ok r(1)]) (simp add: r(2) metadata_port_data_def)
  then have "fails_st ?I (as_port_error metadata_exc n l q (pers_lsn_port_create E l (metadata_port_data subnet)))" for n q
    unfolding as_port_error_def by (rule fails_catch) (rule fails_raise)
  moreover have "keeps_st ?I (as_port_error metadata_exc n l None
      (bind_st (first_switch E n) (\<lambda>i. create_metadata_lport E i (sn_tenant_id subnet))))" for n
    unfolding as_port_error_def create_metadata_lport_def by (intro st_intros)
  ultimately have "fails_st ?I (lsn_port_metadata_setup E (PersistentLsnManager E) l subnet)"
    unfolding lsn_port_metadata_setup_def Let_def
    by (simp add: PersistentLsnManager_def fails_bind_rest fails_bind)
  then show ?thesis unfolding fails_st_def by (metis prod.collapse)
qed

theorem second_metadata_port_fails_witness:
  "\<exists>e s'. lsn_port_metadata_setup mem_env (PersistentLsnManager mem_env) (Some ''1'')
      \<lparr>sn_id = ''sub2'', sn_network_id = ''net2'', sn_tenant_id = ''t'', sn_cidr = ''10.0.0.0/24'', sn_enable_dhcp = False,
       sn_dns_nameservers = [], sn_gateway_ip = None, sn_host_routes = []\<rparr>
      (mem_state [(''net1'', ''0''), (''net2'', ''1'')] []
        [\<lparr>lt_lsn_port_id = ''p'', lt_lsn_id = ''0'', lt_sub_id = ''sub1'', lt_mac_addr = METADATA_MAC\<rparr>]) = (Inl e, s')"
proof -
  let ?s = "mem_state [(''net1'', ''0''), (''net2'', ''1'')] []
        [\<lparr>lt_lsn_port_id = ''p'', lt_lsn_id = ''0'', lt_sub_id = ''sub1'', lt_mac_addr = METADATA_MAC\<rparr>]"
  have D: "orm_table (port_orm mem_env) lt_key (keys_distinct lt_key)" by (simp add: mem_env_def list_orm_table)
  have "keys_distinct lt_key (port_tbl ?s)" by (simp add: mem_state_def keys_distinct_def)
  from second_metadata_port_fails [OF D this] show ?thesis
    by (fastforce simp: mem_state_def mem_env_def)
qed


text \<open>The subnets configured in turn, each on a port of its own.\<close>

definition configure_all where
  "configure_all E ps s = fold (\<lambda>(l, p, subnet) s. snd (lsn_port_dhcp_configure E l p subnet s)) ps s"

lemma configure_extra:
  "extra_domain_name_servers (snd (lsn_port_dhcp_configure E l p subnet s)) =
     (if extra_domain_name_servers s \<noteq> [] \<and> conf_shared E then extra_domain_name_servers s @ sn_dns_nameservers subnet
      else extra_domain_name_servers s)"
proof -
  let ?I = "\<lambda>x u. extra_domain_name_servers u = x"
  have api: "keeps_st (?I x) (api f)" for x f
    by (simp add: keeps_st_def api_def split: prod.splits)
  have "keeps_st (?I x) (bind_st (lift_res (dhcp_options E subnet ds)) (\<lambda>opts.
      catch_st (api (api_port_dhcp_configure (clu E) l p (sn_enable_dhcp subnet) opts)) h))"
    if "\<And>e. keeps_st (?I x) (h e)" for x ds h
    by (intro keeps_bind keeps_lift keeps_catch api that)
  note kept = this [unfolded keeps_st_def, rule_format]
  show ?thesis unfolding lsn_port_dhcp_configure_def Let_def
    by (rule kept) (simp_all add: raise_st_def)
qed

text \<open>The name servers of a subnet reach the subnets configured after it. When extra name
  servers are configured and the option's list object is shared between reads, then after
  configuring any ports the list has grown by the name servers of all of them, and what the
  next subnet is sent names the configured servers, those of every earlier subnet and its
  own, in this order. Otherwise the list stays as configured.\<close>

theorem name_servers_accumulate:
  assumes "sn_host_routes subnet = []" "sn_dns_nameservers subnet \<noteq> []"
  shows "let earlier = concat (map (\<lambda>(l, p, subnet). sn_dns_nameservers subnet) ps);
      extra = extra_domain_name_servers s; now = extra_domain_name_servers (configure_all E ps s)
    in now = (if extra \<noteq> [] \<and> conf_shared E then extra @ earlier else extra) \<and>
      (\<exists>opts. dhcp_options E subnet (now @ sn_dns_nameservers subnet) = Inr opts \<and>
        map_of opts ''domain_name_servers'' =
          Some (JStr (join_with '','' (if extra \<noteq> [] \<and> conf_shared E then extra @ earlier @ sn_dns_nameservers subnet
            else extra @ sn_dns_nameservers subnet))))"
proof -
  have "extra_domain_name_servers (configure_all E ps s) =
     (if extra_domain_name_servers s \<noteq> [] \<and> conf_shared E
      then extra_domain_name_servers s @ concat (map (\<lambda>(l, p, subnet). sn_dns_nameservers subnet) ps)
      else extra_domain_name_servers s)"
  proof (induction ps arbitrary: s)
    case Nil
    then show ?case by (simp add: configure_all_def)
  next
    case (Cons q ps)
    obtain l p subnet where q: "q = (l, p, subnet)" by (cases q)
    let ?s = "snd (lsn_port_dhcp_configure E l p subnet s)"
    have "configure_all E (q # ps) s = configure_all E ps ?s" by (simp add: configure_all_def q)
    then show ?case using Cons.IH [of ?s] configure_extra [of E l p subnet s] by (simp add: q)
  qed
  then show ?thesis using assms by (simp add: Let_def dhcp_options_def)
qed

theorem name_servers_accumulate_witness:
  "extra_domain_name_servers (configure_all mem_env
      [(Some ''l'', Some ''p'', \<lparr>sn_id = ''s1'', sn_network_id = ''n'', sn_tenant_id = ''t'', sn_cidr = [], sn_enable_dhcp = True,
        sn_dns_nameservers = [''10.0.0.2''], sn_gateway_ip = None, sn_host_routes = []\<rparr>)] (mem_state [] [] [])) =
    [''8.8.8.8'', ''10.0.0.2'']"
  using name_servers_accumulate [of "\<lparr>sn_id = ''s2'', sn_network_id = ''n'', sn_tenant_id = ''t'', sn_cidr = [], sn_enable_dhcp = True,
        sn_dns_nameservers = [''10.0.0.3''], sn_gateway_ip = None, sn_host_routes = []\<rparr>"
      "[(Some ''l'', Some ''p'', \<lparr>sn_id = ''s1'', sn_network_id = ''n'', sn_tenant_id = ''t'', sn_cidr = [], sn_enable_dhcp = True,
        sn_dns_nameservers = [''10.0.0.2''], sn_gateway_ip = None, sn_host_routes = []\<rparr>)]" "mem_state [] [] []" mem_env]
  by (simp add: Let_def mem_env_def mem_state_def)


end
