(* ===== verification/Tasks.thy ===== *)
theory Tasks
  imports Prelude
begin

text \<open>
  The task manager of the NSX-v plugin (\<open>plugins/nsx_v/vshield/tasks/tasks.py\<close>). Task
  objects live in a store indexed by references; the deque of submitted tasks, the
  dictionary from resources to their queues and the task of the main thread hold
  references. A callback of a task may raise or return a status and may change the
  environment's state \<open>'w\<close>, but does not touch the manager. An \<open>Event\<close> is a reference
  into a table that records whether it was sent.

  The first part translates the operations of \<open>Task\<close> and \<open>TaskManager\<close>. The second gives
  the interleaving of the threads as a step relation: the main green thread can be
  suspended inside the execute callback, the periodic sweep and the calls of the public
  methods run between two such points.
\<close>

section \<open>Task objects\<close>

datatype task_status = PENDING | COMPLETED | ERROR | ABORT

datatype task_state = NONE | START | EXECUTED | STATUS | RESULT

fun state_num :: "task_state \<Rightarrow> int" where
  "state_num NONE = - 1"
| "state_num START = 0"
| "state_num EXECUTED = 1"
| "state_num STATUS = 2"
| "state_num RESULT = 3"

lemma state_num_inj [simp]: "state_num s = state_num t \<longleftrightarrow> s = t"
  by (cases s; cases t) auto

instantiation task_state :: linorder
begin

definition less_eq_task_state :: "task_state \<Rightarrow> task_state \<Rightarrow> bool" where
  "less_eq_task_state s t \<longleftrightarrow> state_num s \<le> state_num t"

definition less_task_state :: "task_state \<Rightarrow> task_state \<Rightarrow> bool" where
  "less_task_state s t \<longleftrightarrow> state_num s < state_num t"

instance
  by standard (auto simp: less_eq_task_state_def less_task_state_def)

end

text \<open>What a callback does: raise an exception, or return a status or Python's None.\<close>

datatype cb_result = Raised | Returned "task_status option"

type_synonym 'w callback = "nat \<Rightarrow> task_status option \<Rightarrow> 'w \<Rightarrow> cb_result \<times> 'w"

record 'w task =
  t_name :: string
  resource_id :: string
  execute_callback :: "'w callback"
  status_callback :: "'w callback"
  result_callback :: "'w callback"
  t_id :: "nat option"
  status :: "task_status option"
  monitors :: "task_state \<Rightarrow> 'w callback list"
  states :: "task_state \<Rightarrow> nat option"
  state :: task_state

datatype event_state = Unsent | Sent | SentSkipped task_state task_state

record 'w manager =
  heap :: "nat \<Rightarrow> 'w task"
  events :: "nat \<Rightarrow> event_state"
  next_event :: nat
  tasks_queue :: "nat list"
  tasks :: "(string, nat list) pydict"
  main_exec :: "nat option"
  stopped :: bool
  running :: bool
  world :: 'w

definition nop :: "'w callback" where
  "nop t st w = (Returned (Some COMPLETED), w)"

definition new_task ::
  "string \<Rightarrow> string \<Rightarrow> 'w callback \<Rightarrow> 'w callback option \<Rightarrow> 'w callback option \<Rightarrow> 'w task" where
  "new_task nm rid ex st res =
     \<lparr>t_name = nm, resource_id = rid, execute_callback = ex,
      status_callback = (case st of None \<Rightarrow> nop | Some f \<Rightarrow> f),
      result_callback = (case res of None \<Rightarrow> nop | Some f \<Rightarrow> f),
      t_id = None, status = None, monitors = (\<lambda>_. []), states = (\<lambda>_. None), state = NONE\<rparr>"

definition upd_task :: "nat \<Rightarrow> ('w task \<Rightarrow> 'w task) \<Rightarrow> 'w manager \<Rightarrow> 'w manager" where
  "upd_task t f m = m\<lparr>heap := (heap m)(t := f (heap m t))\<rparr>"

definition add_monitor ::
  "nat \<Rightarrow> task_state \<Rightarrow> 'w callback \<Rightarrow> 'w manager \<Rightarrow> 'w manager" where
  "add_monitor t act f = upd_task t (\<lambda>k. k\<lparr>monitors := (monitors k)(act := monitors k act @ [f])\<rparr>)"

definition add_start_monitor :: "nat \<Rightarrow> 'w callback \<Rightarrow> 'w manager \<Rightarrow> 'w manager" where
  "add_start_monitor t f = add_monitor t START f"

definition add_executed_monitor :: "nat \<Rightarrow> 'w callback \<Rightarrow> 'w manager \<Rightarrow> 'w manager" where
  "add_executed_monitor t f = add_monitor t EXECUTED f"

definition add_result_monitor :: "nat \<Rightarrow> 'w callback \<Rightarrow> 'w manager \<Rightarrow> 'w manager" where
  "add_result_monitor t f = add_monitor t RESULT f"

text \<open>Sending the event registered for a state, if there is one, and forgetting it.\<close>

definition signal :: "nat \<Rightarrow> event_state \<Rightarrow> task_state \<Rightarrow> 'w manager \<Rightarrow> 'w manager" where
  "signal t out s m =
     (case states (heap m t) s of
        None \<Rightarrow> m
      | Some e \<Rightarrow>
          upd_task t (\<lambda>k. k\<lparr>states := (states k)(s := None)\<rparr>) (m\<lparr>events := (events m)(e := out)\<rparr>))"

definition move_state :: "nat \<Rightarrow> task_state \<Rightarrow> 'w manager \<Rightarrow> 'w manager" where
  "move_state t s m =
     fold (\<lambda>s'. signal t (SentSkipped s' s) s')
       (filter (\<lambda>s'. s' < s) [START, EXECUTED, STATUS, RESULT])
       (signal t Sent s (upd_task t (\<lambda>k. k\<lparr>state := s\<rparr>) m))"

fun run_monitors :: "'w callback list \<Rightarrow> nat \<Rightarrow> 'w manager \<Rightarrow> 'w manager" where
  "run_monitors [] t m = m"
| "run_monitors (f # fs) t m =
     run_monitors fs t (m\<lparr>world := snd (f t (status (heap m t)) (world m))\<rparr>)"

definition invoke_monitor :: "nat \<Rightarrow> task_state \<Rightarrow> 'w manager \<Rightarrow> 'w manager" where
  "invoke_monitor t s m = move_state t s (run_monitors (monitors (heap m t) s) t m)"

definition update_status :: "nat \<Rightarrow> task_status option \<Rightarrow> 'w manager \<Rightarrow> 'w manager" where
  "update_status t st m =
     (if status (heap m t) = st then m else upd_task t (\<lambda>k. k\<lparr>status := st\<rparr>) m)"

datatype wait_result = InvalidState task_state | Passed | WaitOn nat

definition wait :: "nat \<Rightarrow> task_state \<Rightarrow> 'w manager \<Rightarrow> wait_result \<times> 'w manager" where
  "wait t s m =
     (if s < START \<or> s > RESULT \<or> s = STATUS then (InvalidState s, m)
      else if s \<le> state (heap m t) then (Passed, m)
      else
        (let e = next_event m
         in (WaitOn e,
             upd_task t (\<lambda>k. k\<lparr>states := (states k)(s := Some e)\<rparr>)
               (m\<lparr>events := (events m)(e := Unsent), next_event := Suc e\<rparr>))))"

section \<open>The manager\<close>

text \<open>The status a callback's outcome stands for: an exception counts as ERROR.\<close>

fun cb_status :: "cb_result \<Rightarrow> task_status option" where
  "cb_status Raised = Some ERROR"
| "cb_status (Returned st) = st"

text \<open>\<open>_execute\<close> up to the callback, and from the callback's return on.\<close>

definition execute_start :: "nat \<Rightarrow> 'w manager \<Rightarrow> 'w manager" where
  "execute_start t m = invoke_monitor t START m"

definition execute_return :: "nat \<Rightarrow> 'w manager \<Rightarrow> task_status option \<times> 'w manager" where
  "execute_return t m =
     (let (r, w) = execute_callback (heap m t) t (status (heap m t)) (world m);
          st = cb_status r
      in (st, invoke_monitor t EXECUTED (update_status t st (m\<lparr>world := w\<rparr>))))"

definition execute :: "nat \<Rightarrow> 'w manager \<Rightarrow> task_status option \<times> 'w manager" where
  "execute t m = execute_return t (execute_start t m)"

definition result_task :: "nat \<Rightarrow> 'w manager \<Rightarrow> 'w manager" where
  "result_task t m =
     invoke_monitor t RESULT
       (m\<lparr>world := snd (result_callback (heap m t) t (status (heap m t)) (world m))\<rparr>)"

definition enqueue :: "nat \<Rightarrow> 'w manager \<Rightarrow> 'w manager" where
  "enqueue t m =
     (let rid = resource_id (heap m t)
      in case map_of (tasks m) rid of
           Some q \<Rightarrow> m\<lparr>tasks := AList.update rid (q @ [t]) (tasks m)\<rparr>
         | None \<Rightarrow> m\<lparr>tasks := AList.update rid [t] (tasks m)\<rparr>)"

text \<open>\<open>_dequeue\<close> with \<open>run_next\<close> false: publish the result and take the task out.\<close>

definition dequeue1 :: "nat \<Rightarrow> 'w manager \<Rightarrow> py_exc option \<times> 'w manager" where
  "dequeue1 t m =
     (let m1 = result_task t m; rid = resource_id (heap m1 t)
      in case map_of (tasks m1) rid of
           None \<Rightarrow> (Some KeyError, m1)
         | Some q \<Rightarrow>
             if t \<notin> set q then (Some ValueError, m1)
             else if remove1 t q = [] then (None, m1\<lparr>tasks := AList.delete rid (tasks m1)\<rparr>)
             else (None, m1\<lparr>tasks := AList.update rid (remove1 t q) (tasks m1)\<rparr>))"

text \<open>Structural facts: the operations on one task leave the manager's queues alone.\<close>

lemma upd_task_sel [simp]:
  "heap (upd_task t f m) = (heap m)(t := f (heap m t))"
  "events (upd_task t f m) = events m" "next_event (upd_task t f m) = next_event m"
  "tasks_queue (upd_task t f m) = tasks_queue m" "tasks (upd_task t f m) = tasks m"
  "main_exec (upd_task t f m) = main_exec m" "stopped (upd_task t f m) = stopped m"
  "running (upd_task t f m) = running m" "world (upd_task t f m) = world m"
  by (simp_all add: upd_task_def)

text \<open>
  \<open>same_queues\<close>: nothing but the store, the events and the environment may differ, and in
  the store nothing but the status, the state and the registered events of one task.
\<close>

definition same_queues :: "nat \<Rightarrow> 'w manager \<Rightarrow> 'w manager \<Rightarrow> bool" where
  "same_queues t m m' \<longleftrightarrow>
     tasks_queue m' = tasks_queue m \<and> tasks m' = tasks m \<and> main_exec m' = main_exec m \<and>
     stopped m' = stopped m \<and> running m' = running m \<and> next_event m' = next_event m \<and>
     (\<forall>u. u \<noteq> t \<longrightarrow> heap m' u = heap m u) \<and>
     resource_id (heap m' t) = resource_id (heap m t)"

lemma same_queues_refl [simp]: "same_queues t m m"
  by (simp add: same_queues_def)

lemma same_queues_trans: "same_queues t m m' \<Longrightarrow> same_queues t m' m'' \<Longrightarrow> same_queues t m m''"
  by (simp add: same_queues_def)

lemma same_queuesD:
  assumes "same_queues t m m'"
  shows "tasks_queue m' = tasks_queue m" "tasks m' = tasks m" "main_exec m' = main_exec m"
    "stopped m' = stopped m" "running m' = running m" "next_event m' = next_event m"
    "u \<noteq> t \<Longrightarrow> heap m' u = heap m u" "resource_id (heap m' v) = resource_id (heap m v)"
  using assms by (auto simp: same_queues_def)

lemma same_queues_signal: "same_queues t m (signal t out s m)"
  by (auto simp: signal_def same_queues_def split: option.splits)

lemma same_queues_fold_signal:
  "same_queues t m (fold (\<lambda>s'. signal t (g s') s') ss m)"
proof (induction ss arbitrary: m)
  case Nil
  show ?case by simp
next
  case (Cons s ss)
  show ?case
    using same_queues_trans [OF same_queues_signal Cons.IH] by simp
qed

lemma same_queues_move_state: "same_queues t m (move_state t s m)"
proof -
  have "same_queues t m (upd_task t (\<lambda>k. k\<lparr>state := s\<rparr>) m)"
    by (simp add: same_queues_def)
  then show ?thesis
    unfolding move_state_def
    by (rule same_queues_trans [OF _ same_queues_trans [OF same_queues_signal same_queues_fold_signal]])
qed

lemma same_queues_run_monitors: "same_queues t m (run_monitors fs t m)"
proof (induction fs arbitrary: m)
  case Nil
  show ?case by simp
next
  case (Cons f fs)
  have "same_queues t m (m\<lparr>world := w\<rparr>)" for w
    by (simp add: same_queues_def)
  then show ?case
    using same_queues_trans Cons.IH by fastforce
qed

lemma same_queues_invoke_monitor: "same_queues t m (invoke_monitor t s m)"
  unfolding invoke_monitor_def
  by (rule same_queues_trans [OF same_queues_run_monitors same_queues_move_state])

lemma same_queues_update_status: "same_queues t m (update_status t st m)"
  by (simp add: update_status_def same_queues_def)

lemma same_queues_world: "same_queues t m (m\<lparr>world := w\<rparr>)"
  by (simp add: same_queues_def)

lemma same_queues_execute_start: "same_queues t m (execute_start t m)"
  by (simp add: execute_start_def same_queues_invoke_monitor)

lemma same_queues_execute_return: "same_queues t m (snd (execute_return t m))"
  unfolding execute_return_def
  by (simp add: Let_def split: prod.split)
    (blast intro: same_queues_trans [OF same_queues_world
        same_queues_trans [OF same_queues_update_status same_queues_invoke_monitor]])

lemma same_queues_execute: "same_queues t m (snd (execute t m))"
  unfolding execute_def
  by (rule same_queues_trans [OF same_queues_execute_start same_queues_execute_return])

lemma same_queues_result_task: "same_queues t m (result_task t m)"
  unfolding result_task_def
  by (rule same_queues_trans [OF same_queues_world same_queues_invoke_monitor])

lemmas same_queues_intros =
  same_queues_refl same_queues_update_status same_queues_execute_start
  same_queues_execute_return same_queues_execute same_queues_result_task

lemmas execute_queues [simp] = same_queuesD(1-6,8) [OF same_queues_execute]
lemmas execute_start_queues [simp] = same_queuesD(1-6,8) [OF same_queues_execute_start]
lemmas execute_return_queues [simp] = same_queuesD(1-6,8) [OF same_queues_execute_return]
lemmas result_task_queues [simp] = same_queuesD(1-6,8) [OF same_queues_result_task]
lemmas update_status_queues [simp] = same_queuesD(1-6,8) [OF same_queues_update_status]

lemmas execute_other = same_queuesD(7) [OF same_queues_execute]
lemmas execute_return_other = same_queuesD(7) [OF same_queues_execute_return]
lemmas update_status_other = same_queuesD(7) [OF same_queues_update_status]

text \<open>
  Processing the queue of a resource after its head has finished: execute the next tasks
  until one is pending or none is left. Every completed task leaves the queues, so their
  total length is the measure that decreases.
\<close>

lemma dequeue1_weight:
  assumes "dequeue1 t m = (None, m')"
  shows "weight (tasks m') < weight (tasks m)"
proof -
  obtain q where q: "map_of (tasks m) (resource_id (heap m t)) = Some q" and t: "t \<in> set q"
    and m': "tasks m' = (if remove1 t q = [] then AList.delete (resource_id (heap m t)) (tasks m)
        else AList.update (resource_id (heap m t)) (remove1 t q) (tasks m))"
    using assms by (auto simp: dequeue1_def Let_def split: option.splits if_splits)
  have len: "length (remove1 t q) < length q"
    using t by (metis One_nat_def Suc_pred length_pos_if_in_set length_remove1 lessI)
  show ?thesis
    using m' weight_update [OF q, of "remove1 t q"] weight_delete_Some [OF q] len
    by (auto split: if_splits)
qed

lemma execute_tasks: "(st, m1) = execute t m \<Longrightarrow> tasks m1 = tasks m"
  by (metis execute_queues(2) snd_conv)

function run_next_loop :: "string \<Rightarrow> 'w manager \<Rightarrow> py_exc option \<times> 'w manager" where
  "run_next_loop rid m =
     (case map_of (tasks m) rid of
        None \<Rightarrow> (None, m)
      | Some [] \<Rightarrow> (None, m)
      | Some (t # ts) \<Rightarrow>
          (case execute t m of
             (st, m1) \<Rightarrow>
               if st = Some PENDING then (None, m1)
               else
                 (case dequeue1 t m1 of
                    (Some e, m2) \<Rightarrow> (Some e, m2)
                  | (None, m2) \<Rightarrow> run_next_loop rid m2)))"
  by pat_completeness auto
termination
  by (relation "measure (\<lambda>(rid, m). weight (tasks m))") (auto dest!: execute_tasks dequeue1_weight [OF sym])

declare run_next_loop.simps [simp del]

definition dequeue :: "nat \<Rightarrow> bool \<Rightarrow> 'w manager \<Rightarrow> py_exc option \<times> 'w manager" where
  "dequeue t run_next m =
     (case dequeue1 t m of
        (Some e, m1) \<Rightarrow> (Some e, m1)
      | (None, m1) \<Rightarrow>
          if run_next then run_next_loop (resource_id (heap m1 t)) m1 else (None, m1))"

text \<open>
  The periodic sweep iterates over the live dictionary: the iterator raises as soon as
  the number of keys differs from the one it started with.
\<close>

fun check_loop :: "nat \<Rightarrow> string list \<Rightarrow> 'w manager \<Rightarrow> py_exc option \<times> 'w manager" where
  "check_loop n [] m =
     (if length (tasks m) \<noteq> n then (Some RuntimeError, m) else (None, m))"
| "check_loop n (r # rs) m =
     (if length (tasks m) \<noteq> n then (Some RuntimeError, m)
      else if stopped m then (None, m)
      else
        (case map_of (tasks m) r of
           None \<Rightarrow> (Some KeyError, m)
         | Some [] \<Rightarrow> (Some IndexError, m)
         | Some (t # ts) \<Rightarrow>
             (let (res, w) = status_callback (heap m t) t (status (heap m t)) (world m);
                  st = cb_status res;
                  m1 = update_status t st (m\<lparr>world := w\<rparr>)
              in if st \<noteq> Some PENDING
                 then (case dequeue t True m1 of
                         (Some e, m2) \<Rightarrow> (Some e, m2)
                       | (None, m2) \<Rightarrow> check_loop n rs m2)
                 else check_loop n rs m1)))"

definition check_pending_tasks :: "'w manager \<Rightarrow> py_exc option \<times> 'w manager" where
  "check_pending_tasks m = check_loop (length (tasks m)) (map fst (tasks m)) m"

text \<open>The body of the looping call: an exception of the sweep is logged and dropped.\<close>

definition monitor_tick :: "'w manager \<Rightarrow> 'w manager" where
  "monitor_tick m = snd (check_pending_tasks m)"

fun abort_tasks :: "nat list \<Rightarrow> 'w manager \<Rightarrow> py_exc option \<times> 'w manager" where
  "abort_tasks [] m = (None, m)"
| "abort_tasks (t # ts) m =
     (case dequeue t False (update_status t (Some ABORT) m) of
        (Some e, m1) \<Rightarrow> (Some e, m1)
      | (None, m1) \<Rightarrow> abort_tasks ts m1)"

fun abort_resources :: "string list \<Rightarrow> 'w manager \<Rightarrow> py_exc option \<times> 'w manager" where
  "abort_resources [] m = (None, m)"
| "abort_resources (r # rs) m =
     (case map_of (tasks m) r of
        None \<Rightarrow> (Some KeyError, m)
      | Some q \<Rightarrow>
          (case abort_tasks q m of
             (Some e, m1) \<Rightarrow> (Some e, m1)
           | (None, m1) \<Rightarrow> abort_resources rs m1))"

definition abort :: "'w manager \<Rightarrow> py_exc option \<times> 'w manager" where
  "abort m =
     (let m1 = (fold enqueue (tasks_queue m) m)\<lparr>tasks_queue := []\<rparr>
      in abort_resources (map fst (tasks m1)) m1)"

section \<open>The main thread and the public methods\<close>

definition get_task :: "'w manager \<Rightarrow> (nat \<times> 'w manager) option" where
  "get_task m =
     (case tasks_queue m of
        [] \<Rightarrow> None
      | t # q \<Rightarrow> Some (t, m\<lparr>tasks_queue := q\<rparr>))"

text \<open>The \<open>finally\<close> clause of \<open>run\<close>: what becomes of the task the thread was executing.\<close>

definition run_finally :: "nat \<Rightarrow> 'w manager \<Rightarrow> 'w manager" where
  "run_finally t m =
     (let m1 = m\<lparr>main_exec := None\<rparr>
      in case status (heap m1 t) of
           None \<Rightarrow> enqueue t m1
         | Some st \<Rightarrow> if st \<noteq> PENDING then result_task t m1 else enqueue t m1)"

text \<open>
  One iteration of \<open>run\<close>, in two halves around the execute callback. The first half stops,
  blocks on an empty deque, passes a task on to the queue of a busy resource, or starts
  it; the second half runs when the callback returns.
\<close>

datatype run_outcome = Stopping | Blocked | Continue | Executing

definition run_begin :: "'w manager \<Rightarrow> run_outcome \<times> 'w manager" where
  "run_begin m =
     (if stopped m then (Stopping, m)
      else
        (case get_task m of
           None \<Rightarrow> (Blocked, m)
         | Some (t, m1) \<Rightarrow>
             if map_of (tasks m1) (resource_id (heap m1 t)) \<noteq> None
             then (Continue, enqueue t m1)
             else (Executing, execute_start t (m1\<lparr>main_exec := Some t\<rparr>))))"

definition run_end :: "nat \<Rightarrow> 'w manager \<Rightarrow> 'w manager" where
  "run_end t m = run_finally t (snd (execute_return t m))"

definition add :: "nat \<Rightarrow> nat \<Rightarrow> 'w manager \<Rightarrow> 'w manager" where
  "add t uuid m =
     (upd_task t (\<lambda>k. k\<lparr>t_id := Some uuid\<rparr>) m)\<lparr>tasks_queue := tasks_queue m @ [t]\<rparr>"

text \<open>
  \<open>stop\<close> kills the main thread. A thread inside a callback leaves it by an exception that
  \<open>_execute\<close> does not catch, so that only the \<open>finally\<close> clause runs.
\<close>

definition kill_thread :: "'w manager \<Rightarrow> 'w manager" where
  "kill_thread m = (case main_exec m of None \<Rightarrow> m | Some t \<Rightarrow> run_finally t m)"

definition stop :: "'w manager \<Rightarrow> py_exc option \<times> 'w manager" where
  "stop m =
     (if \<not> running m then (None, m)
      else abort ((kill_thread (m\<lparr>stopped := True\<rparr>))\<lparr>running := False\<rparr>))"

definition start :: "'w manager \<Rightarrow> 'w manager" where
  "start m = (if running m then m else m\<lparr>stopped := False, running := True\<rparr>)"



definition new_manager :: "(nat \<Rightarrow> 'w task) \<Rightarrow> 'w \<Rightarrow> 'w manager" where
  "new_manager h w =
     \<lparr>heap = h, events = (\<lambda>_. Unsent), next_event = 0, tasks_queue = [], tasks = [],
      main_exec = None, stopped = False, running = False, world = w\<rparr>"

text \<open>
  The tasks the manager is responsible for, by resource and in the order it will process
  them: the resource's queue, then the task in the main thread, then the submitted ones.
\<close>

definition queue_of :: "'w manager \<Rightarrow> string \<Rightarrow> nat list" where
  "queue_of m r = (case map_of (tasks m) r of None \<Rightarrow> [] | Some q \<Rightarrow> q)"

definition main_list :: "'w manager \<Rightarrow> nat list" where
  "main_list m = (case main_exec m of None \<Rightarrow> [] | Some t \<Rightarrow> [t])"

definition resource_seq :: "'w manager \<Rightarrow> string \<Rightarrow> nat list" where
  "resource_seq m r =
     queue_of m r @ filter (\<lambda>t. resource_id (heap m t) = r) (main_list m @ tasks_queue m)"

definition is_live :: "'w manager \<Rightarrow> nat \<Rightarrow> bool" where
  "is_live m t \<longleftrightarrow> t \<in> set (resource_seq m (resource_id (heap m t)))"

section \<open>The threads as a step relation\<close>

text \<open>
  A task is added once, fresh from its constructor. The main thread is either at the top of
  its loop or inside a callback (\<open>main_exec\<close>); the periodic sweep, \<open>add\<close>, \<open>wait\<close>, \<open>stop\<close>
  and \<open>start\<close> can come at any time.
\<close>

inductive tm_step :: "'w manager \<Rightarrow> 'w manager \<Rightarrow> bool" where
  add_step: "\<not> is_live m t \<Longrightarrow> state (heap m t) = NONE \<Longrightarrow> status (heap m t) = None \<Longrightarrow>
     tm_step m (add t i m)"
| begin_step: "running m \<Longrightarrow> main_exec m = None \<Longrightarrow> run_begin m = (out, m') \<Longrightarrow> tm_step m m'"
| end_step: "running m \<Longrightarrow> main_exec m = Some t \<Longrightarrow> tm_step m (run_end t m)"
| tick_step: "running m \<Longrightarrow> tm_step m (monitor_tick m)"
| wait_step: "wait t s m = (r, m') \<Longrightarrow> tm_step m m'"
| stop_step: "stop m = (None, m') \<Longrightarrow> tm_step m m'"
| start_step: "tm_step m (start m)"

inductive reachable :: "'w manager \<Rightarrow> bool" where
  init: "(\<And>t. states (h t) = (\<lambda>_. None)) \<Longrightarrow> reachable (new_manager h w)"
| step: "reachable m \<Longrightarrow> tm_step m m' \<Longrightarrow> reachable m'"

inductive_cases tm_stepE: "tm_step m m'"

section \<open>What the operations do to a task\<close>

lemma signal_heap:
  "heap (signal t out s m) =
     (heap m)(t := (heap m t)\<lparr>states := (states (heap m t))(s := None)\<rparr>)"
  by (auto simp: signal_def fun_eq_iff split: option.splits)

lemma fold_signal_heap:
  "heap (fold (\<lambda>s'. signal t (g s') s') ss m) =
     (heap m)(t := (heap m t)\<lparr>states := (\<lambda>s. if s \<in> set ss then None else states (heap m t) s)\<rparr>)"
  by (induction ss arbitrary: m) (auto simp: signal_heap fun_eq_iff)

lemma move_state_heap:
  "heap (move_state t s m) t =
     (heap m t)\<lparr>state := s,
       states := (\<lambda>s'. if s' = s \<or> s' \<noteq> NONE \<and> s' < s then None else states (heap m t) s')\<rparr>"
proof -
  have "(s' \<in> set (filter (\<lambda>s'. s' < s) [START, EXECUTED, STATUS, RESULT])) = (s' \<noteq> NONE \<and> s' < s)" for s'
    by (cases s') auto
  then show ?thesis
    unfolding move_state_def by (simp add: fold_signal_heap signal_heap fun_eq_iff del: set_filter)
qed

lemma run_monitors_heap [simp]: "heap (run_monitors fs t m) = heap m"
  by (induction fs arbitrary: m) simp_all

lemma invoke_monitor_state [simp]:
  "state (heap (invoke_monitor t s m) t) = s"
  "status (heap (invoke_monitor t s m) t) = status (heap m t)"
  by (simp_all add: invoke_monitor_def move_state_heap)

lemma invoke_monitor_states:
  "states (heap (invoke_monitor t s m) t) =
     (\<lambda>s'. if s' = s \<or> s' \<noteq> NONE \<and> s' < s then None else states (heap m t) s')"
  by (auto simp: invoke_monitor_def move_state_heap fun_eq_iff)

lemma update_status_fields [simp]:
  "status (heap (update_status t st m) t) = st"
  "state (heap (update_status t st m) u) = state (heap m u)"
  "states (heap (update_status t st m) u) = states (heap m u)"
  by (auto simp: update_status_def)

lemma execute_return_fields [simp]:
  "state (heap (snd (execute_return t m)) t) = EXECUTED"
  "status (heap (snd (execute_return t m)) t) = fst (execute_return t m)"
  by (simp_all add: execute_return_def Let_def split: prod.split)

lemma execute_start_fields [simp]:
  "state (heap (execute_start t m) t) = START"
  "status (heap (execute_start t m) t) = status (heap m t)"
  by (simp_all add: execute_start_def)


lemma result_task_fields [simp]:
  "state (heap (result_task t m) t) = RESULT"
  "status (heap (result_task t m) t) = status (heap m t)"
  by (simp_all add: result_task_def)


lemma queue_of_upd [simp]:
  "queue_of (m\<lparr>tasks_queue := q\<rparr>) r = queue_of m r"
  "queue_of (m\<lparr>main_exec := x\<rparr>) r = queue_of m r"
  "queue_of (m\<lparr>stopped := b\<rparr>) r = queue_of m r"
  "queue_of (m\<lparr>running := b\<rparr>) r = queue_of m r"
  "queue_of (m\<lparr>world := w\<rparr>) r = queue_of m r"
  by (simp_all add: queue_of_def)

lemma enqueue_fields [simp]:
  "heap (enqueue t m) = heap m" "tasks_queue (enqueue t m) = tasks_queue m"
  "main_exec (enqueue t m) = main_exec m" "stopped (enqueue t m) = stopped m"
  "running (enqueue t m) = running m" "next_event (enqueue t m) = next_event m"
  "events (enqueue t m) = events m"
  by (simp_all add: enqueue_def Let_def split: option.split)



lemma enqueue_distinct [simp]:
  "distinct (map fst (tasks m)) \<Longrightarrow> distinct (map fst (tasks (enqueue t m)))"
  by (simp add: enqueue_def Let_def split: option.split)


section \<open>The invariant\<close>























subsection \<open>The queue of a resource is worked off from the front\<close>











section \<open>The step relation keeps the invariant\<close>






lemma add_heap: "state (heap (add t i m) u) = state (heap m u)"
  "status (heap (add t i m) u) = status (heap m u)"
  "resource_id (heap (add t i m) u) = resource_id (heap m u)"
  "states (heap (add t i m) u) = states (heap m u)"
  by (auto simp: add_def)

lemma add_sel [simp]:
  "tasks (add t i m) = tasks m" "tasks_queue (add t i m) = tasks_queue m @ [t]"
  "main_exec (add t i m) = main_exec m" "stopped (add t i m) = stopped m"
  "running (add t i m) = running m" "next_event (add t i m) = next_event m"
  "events (add t i m) = events m"
  by (simp_all add: add_def)





text \<open>The first half of an iteration of the main loop.\<close>

lemma run_begin_cases:
  assumes "run_begin m = (out, m')"
  obtains "m' = m"
  | t q where "tasks_queue m = t # q" "map_of (tasks m) (resource_id (heap m t)) \<noteq> None"
      "m' = enqueue t (m\<lparr>tasks_queue := q\<rparr>)"
  | t q where "tasks_queue m = t # q" "map_of (tasks m) (resource_id (heap m t)) = None"
      "m' = execute_start t (m\<lparr>tasks_queue := q, main_exec := Some t\<rparr>)"
proof (cases "stopped m \<or> tasks_queue m = []")
  case True
  then have "m' = m"
    using assms by (auto simp: run_begin_def get_task_def split: if_splits)
  then show thesis by (rule that(1))
next
  case False
  then obtain t q where tq: "tasks_queue m = t # q"
    by (metis list.exhaust)
  show thesis
  proof (cases "map_of (tasks m) (resource_id (heap m t)) = None")
    case True
    with False tq assms have "m' = execute_start t (m\<lparr>tasks_queue := q, main_exec := Some t\<rparr>)"
      by (simp add: run_begin_def get_task_def)
    with tq True show thesis by (rule that(3))
  next
    case busy: False
    with False tq assms have "m' = enqueue t (m\<lparr>tasks_queue := q\<rparr>)"
      by (simp add: run_begin_def get_task_def)
    with tq busy show thesis by (rule that(2))
  qed
qed











subsection \<open>Stopping\<close>








lemma wait_cases:
  assumes "wait t s m = (r, m')"
  obtains "m' = m" "\<And>e. r \<noteq> WaitOn e"
  | e where "r = WaitOn e" "e = next_event m" "START \<le> s" "state (heap m t) < s"
      "m' = upd_task t (\<lambda>k. k\<lparr>states := (states k)(s := Some e)\<rparr>)
               (m\<lparr>events := (events m)(e := Unsent), next_event := Suc e\<rparr>)"
proof -
  consider "s < START \<or> s > RESULT \<or> s = STATUS"
    | "\<not> (s < START \<or> s > RESULT \<or> s = STATUS)" "s \<le> state (heap m t)"
    | "\<not> (s < START \<or> s > RESULT \<or> s = STATUS)" "\<not> s \<le> state (heap m t)"
    by blast
  then show thesis
  proof cases
    case 1
    with assms have "m' = m" "r = InvalidState s" by (simp_all add: wait_def)
    then show thesis by (intro that(1)) simp_all
  next
    case 2
    with assms have "m' = m" "r = Passed" by (simp_all only: wait_def if_True if_False prod.inject)
    then show thesis by (intro that(1)) simp_all
  next
    case 3
    with assms show thesis
      by (intro that(2) [of "next_event m"])
        (simp_all only: wait_def if_True if_False Let_def prod.inject not_le not_less de_Morgan_disj)
  qed
qed





section \<open>Waiters\<close>

text \<open>
  \<open>quiet\<close>: nothing new is registered, only registered events are sent, and a task that
  has events for future states only keeps it that way.
\<close>

definition future_only :: "'w task \<Rightarrow> bool" where
  "future_only k \<longleftrightarrow> (\<forall>s e. states k s = Some e \<longrightarrow> state k < s)"

definition quiet :: "'w manager \<Rightarrow> 'w manager \<Rightarrow> bool" where
  "quiet m m' \<longleftrightarrow>
     next_event m' = next_event m \<and>
     (\<forall>t s e. states (heap m' t) s = Some e \<longrightarrow> states (heap m t) s = Some e) \<and>
     (\<forall>e. (\<forall>t s. states (heap m t) s \<noteq> Some e) \<longrightarrow> events m' e = events m e) \<and>
     (\<forall>t. future_only (heap m t) \<longrightarrow> future_only (heap m' t))"

lemma not_less_NONE: "\<not> s < NONE"
  by (cases s) (simp_all add: less_task_state_def)

lemma quiet_refl [simp]: "quiet m m"
  by (simp add: quiet_def)

lemma quiet_trans: "quiet m m1 \<Longrightarrow> quiet m1 m2 \<Longrightarrow> quiet m m2"
  unfolding quiet_def by metis

lemma quiet_structural:
  assumes "heap m' = heap m" "events m' = events m" "next_event m' = next_event m"
  shows "quiet m m'"
  using assms by (simp add: quiet_def)

lemma signal_events:
  "events (signal t out s m) =
     (case states (heap m t) s of None \<Rightarrow> events m | Some e \<Rightarrow> (events m)(e := out))"
  by (simp add: signal_def split: option.split)

lemma fold_signal_events:
  "(\<forall>s. states (heap m t) s \<noteq> Some e) \<Longrightarrow>
   events (fold (\<lambda>s'. signal t (g s') s') ss m) e = events m e"
  by (induction ss arbitrary: m) (auto simp: signal_events signal_heap split: option.splits)

lemma run_monitors_events [simp]: "events (run_monitors fs t m) = events m"
  by (induction fs arbitrary: m) simp_all

lemma invoke_monitor_events:
  assumes "\<forall>s. states (heap m t) s \<noteq> Some e"
  shows "events (invoke_monitor t s m) e = events m e"
  using assms unfolding invoke_monitor_def move_state_def
  by (subst fold_signal_events) (auto simp: signal_heap signal_events split: option.split)

lemma quiet_invoke_monitor: "quiet m (invoke_monitor t s m)"
proof -
  note sq = same_queuesD [OF same_queues_invoke_monitor [of t m s]]
  have "future_only (heap (invoke_monitor t s m) u)" if "future_only (heap m u)" for u
  proof (cases "u = t")
    case True
    have "s < s'" if st: "states (heap (invoke_monitor t s m) t) s' = Some e" for s' e
    proof -
      from st have a: "s' \<noteq> s" "s' = NONE \<or> \<not> s' < s" "states (heap m t) s' = Some e"
        by (auto simp: invoke_monitor_states split: if_splits)
      then have "state (heap m t) < s'"
        using \<open>future_only (heap m u)\<close> True by (simp add: future_only_def)
      then have "s' \<noteq> NONE" by (auto simp: not_less_NONE)
      with a show ?thesis by (metis linorder_neqE)
    qed
    with True show ?thesis by (simp add: future_only_def)
  next
    case False
    with that sq(7) show ?thesis by simp
  qed
  moreover have "states (heap m u) s' = Some e"
    if "states (heap (invoke_monitor t s m) u) s' = Some e" for u s' e
    using that sq(7) [of u] by (cases "u = t") (auto simp: invoke_monitor_states split: if_splits)
  ultimately show ?thesis
    using sq(6) invoke_monitor_events [of m t] by (simp add: quiet_def)
qed

lemma quiet_update_status: "quiet m (update_status t st m)"
  by (simp add: quiet_def future_only_def) (simp add: update_status_def)

lemma quiet_enqueue: "quiet m (enqueue t m)"
  by (rule quiet_structural) simp_all

lemma quiet_execute_start: "quiet m (execute_start t m)"
  by (simp add: execute_start_def quiet_invoke_monitor)

lemma quiet_world: "quiet m (m\<lparr>world := w\<rparr>)"
  by (rule quiet_structural) simp_all

lemma quiet_execute_return: "quiet m (snd (execute_return t m))"
  unfolding execute_return_def
  by (simp add: Let_def split: prod.split)
    (blast intro: quiet_trans [OF quiet_world quiet_trans [OF quiet_update_status quiet_invoke_monitor]])

lemma quiet_execute: "quiet m (snd (execute t m))"
  unfolding execute_def by (rule quiet_trans [OF quiet_execute_start quiet_execute_return])

lemma quiet_result_task: "quiet m (result_task t m)"
  unfolding result_task_def by (rule quiet_trans [OF quiet_world quiet_invoke_monitor])

lemma quiet_tasks_upd: "quiet m m' \<Longrightarrow> quiet m (m'\<lparr>tasks := q\<rparr>)"
  by (simp add: quiet_def)

lemma quiet_dequeue1: "quiet m (snd (dequeue1 t m))"
  using quiet_result_task [of m t]
  by (auto simp: dequeue1_def Let_def quiet_tasks_upd split: option.split)

lemma quiet_run_next_loop: "quiet m (snd (run_next_loop r m))"
proof (induction r m rule: run_next_loop.induct)
  case (1 rid m)
  show ?case
  proof (cases "queue_of m rid")
    case Nil
    then have "run_next_loop rid m = (None, m)"
      by (simp add: run_next_loop.simps [of rid m] queue_of_def split: option.splits)
    then show ?thesis by simp
  next
    case (Cons t ts)
    then have q: "map_of (tasks m) rid = Some (t # ts)"
      by (auto simp: queue_of_def split: option.splits)
    obtain st m1 where ex: "execute t m = (st, m1)" by force
    have q1: "quiet m m1" using quiet_execute [of m t] ex by simp
    obtain e m2 where dq: "dequeue1 t m1 = (e, m2)" by force
    have q2: "quiet m m2" using quiet_trans [OF q1 quiet_dequeue1 [of m1 t]] dq by simp
    show ?thesis
    proof (cases "st = Some PENDING \<or> e \<noteq> None")
      case True
      with q ex dq q1 q2 show ?thesis
        by (auto simp: run_next_loop.simps [of rid m])
    next
      case False
      then have "quiet m2 (snd (run_next_loop rid m2))"
        using 1 [OF q refl ex [symmetric]] dq by simp
      then show ?thesis
        using quiet_trans [OF q2] False q ex dq by (simp add: run_next_loop.simps [of rid m])
    qed
  qed
qed

lemma quiet_dequeue: "quiet m (snd (dequeue t b m))"
  using quiet_dequeue1 [of m t] quiet_trans [OF _ quiet_run_next_loop]
  by (auto simp: dequeue_def split: prod.split option.split)

lemma quiet_check_loop: "quiet m (snd (check_loop n rs m))"
proof (induction rs arbitrary: m)
  case Nil
  show ?case by simp
next
  case (Cons r rs)
  show ?case
  proof (cases "length (tasks m) \<noteq> n \<or> stopped m \<or> queue_of m r = []")
    case True
    then have "snd (check_loop n (r # rs) m) = m"
      by (auto simp: queue_of_def split: option.splits)
    then show ?thesis by simp
  next
    case False
    then obtain t ts where q: "map_of (tasks m) r = Some (t # ts)"
      by (auto simp: queue_of_def neq_Nil_conv split: option.splits)
    obtain res w' where sc: "status_callback (heap m t) t (status (heap m t)) (world m) = (res, w')"
      by force
    define m1 where "m1 = update_status t (cb_status res) (m\<lparr>world := w'\<rparr>)"
    have q1: "quiet m m1"
      unfolding m1_def by (rule quiet_trans [OF quiet_world quiet_update_status])
    obtain e m2 where dq: "dequeue t True m1 = (e, m2)" by force
    have q2: "quiet m m2"
      using quiet_trans [OF q1 quiet_dequeue [of m1 t True]] dq by simp
    have "check_loop n (r # rs) m =
      (if cb_status res \<noteq> Some PENDING
       then (case e of Some e' \<Rightarrow> (Some e', m2) | None \<Rightarrow> check_loop n rs m2)
       else check_loop n rs m1)"
      using False q sc dq by (cases e) (simp_all add: m1_def [symmetric])
    then show ?thesis
      using q1 q2 quiet_trans [OF q1 Cons.IH [of m1]] quiet_trans [OF q2 Cons.IH [of m2]]
      by (auto split: option.split)
  qed
qed

lemma quiet_abort_tasks: "quiet m (snd (abort_tasks ts m))"
proof (induction ts arbitrary: m)
  case Nil
  show ?case by simp
next
  case (Cons t ts)
  obtain e m1 where dq: "dequeue t False (update_status t (Some ABORT) m) = (e, m1)" by force
  have "quiet m m1"
    using quiet_trans [OF quiet_update_status quiet_dequeue [of _ t False]] dq by (metis snd_conv)
  then show ?case
    using quiet_trans [OF _ Cons.IH [of m1]] dq by (auto split: option.split)
qed

lemma quiet_abort_resources: "quiet m (snd (abort_resources rs m))"
proof (induction rs arbitrary: m)
  case Nil
  show ?case by simp
next
  case (Cons r rs)
  show ?case
  proof (cases "map_of (tasks m) r")
    case None
    then show ?thesis by simp
  next
    case (Some q)
    obtain e m1 where ab: "abort_tasks q m = (e, m1)" by force
    then have "quiet m m1"
      using quiet_abort_tasks [of m q] by simp
    then show ?thesis
      using quiet_trans [OF _ Cons.IH [of m1]] Some ab by (auto split: option.split)
  qed
qed

lemma quiet_fold_enqueue: "quiet m (fold enqueue ts m)"
  by (induction ts arbitrary: m) (auto intro: quiet_trans [OF quiet_enqueue])

lemma quiet_abort: "quiet m (snd (abort m))"
proof -
  have "quiet m ((fold enqueue (tasks_queue m) m)\<lparr>tasks_queue := []\<rparr>)"
    using quiet_fold_enqueue [of m "tasks_queue m"] by (simp add: quiet_def)
  then show ?thesis
    unfolding abort_def Let_def by (rule quiet_trans [OF _ quiet_abort_resources])
qed

lemma quiet_run_finally: "quiet m (run_finally t m)"
proof -
  have "quiet m (m\<lparr>main_exec := None\<rparr>)"
    by (rule quiet_structural) simp_all
  then show ?thesis
    using quiet_trans [OF _ quiet_enqueue] quiet_trans [OF _ quiet_result_task]
    by (auto simp: run_finally_def Let_def split: option.split)
qed

lemma quiet_run_begin: "run_begin m = (out, m') \<Longrightarrow> quiet m m'"
proof (erule run_begin_cases)
  fix t q
  assume "m' = execute_start t (m\<lparr>tasks_queue := q, main_exec := Some t\<rparr>)"
  moreover have "quiet m (m\<lparr>tasks_queue := q, main_exec := Some t\<rparr>)"
    by (rule quiet_structural) simp_all
  ultimately show "quiet m m'"
    using quiet_trans [OF _ quiet_execute_start] by simp
qed (auto intro: quiet_structural)

lemma quiet_run_end: "quiet m (run_end t m)"
  unfolding run_end_def by (rule quiet_trans [OF quiet_execute_return quiet_run_finally])

lemma quiet_stop: "quiet m (snd (stop m))"
proof (cases "running m")
  case True
  define m1 where "m1 = kill_thread (m\<lparr>stopped := True\<rparr>)"
  have "quiet (m\<lparr>stopped := True\<rparr>) m1"
    by (simp add: m1_def kill_thread_def quiet_run_finally split: option.split)
  then have "quiet m (m1\<lparr>running := False\<rparr>)"
    by (simp add: quiet_def)
  then show ?thesis
    using True quiet_trans [OF _ quiet_abort] by (simp add: stop_def m1_def)
qed (simp add: stop_def)

text \<open>Every step but \<open>wait\<close> is quiet.\<close>

lemma tm_step_quiet:
  assumes "tm_step m m'"
  shows "quiet m m' \<or> (\<exists>t s r. wait t s m = (r, m'))"
  using assms
proof (cases rule: tm_step.cases)
  case (add_step t i)
  then show ?thesis
    by (auto simp: quiet_def add_heap future_only_def)
next
  case stop_step
  then show ?thesis using quiet_stop [of m] by (metis snd_conv)
qed (auto simp: quiet_run_begin quiet_run_end start_def monitor_tick_def check_pending_tasks_def
    quiet_check_loop intro: quiet_structural)

section \<open>The properties\<close>


text \<open>
  Example states used by the witnesses: one task whose execute callback reports PENDING,
  submitted to a running manager, then started, then waiting for its status.
\<close>

definition demo_pending :: "unit callback" where
  "demo_pending t st w = (Returned (Some PENDING), w)"

definition demo0 :: "unit manager" where
  "demo0 = start (new_manager (\<lambda>t. new_task ''job'' ''edge-1'' demo_pending None None) ())"

definition demo1 :: "unit manager" where
  "demo1 = snd (run_begin (add 0 7 demo0))"

definition demo2 :: "unit manager" where
  "demo2 = run_end 0 demo1"

lemma demo0_reachable: "reachable demo0"
  unfolding demo0_def
  by (rule reachable.step [OF reachable.init tm_step.start_step]) (simp add: new_task_def)

lemmas demo_defs = demo0_def demo1_def demo2_def demo_pending_def start_def new_manager_def new_task_def
  add_def run_begin_def get_task_def execute_start_def invoke_monitor_def move_state_def signal_def
  upd_task_def run_end_def execute_return_def update_status_def run_finally_def enqueue_def
  queue_of_def main_list_def resource_seq_def is_live_def less_task_state_def less_eq_task_state_def Let_def

lemma demo_added: "reachable (add 0 7 demo0)"
  by (rule reachable.step [OF demo0_reachable tm_step.add_step]) (simp_all add: demo_defs)

lemma demo1_reachable: "reachable demo1"
  by (rule reachable.step [OF demo_added tm_step.begin_step [of _ "fst (run_begin (add 0 7 demo0))"]])
    (simp_all add: demo1_def, simp_all add: demo_defs)

lemma demo1_facts: "main_exec demo1 = Some 0" "state (heap demo1 0) = START" "is_live demo1 0"
  "running demo1" "tasks demo1 = []"
  by (simp_all add: demo_defs)

lemma demo2_reachable: "reachable demo2"
  unfolding demo2_def by (rule reachable.step [OF demo1_reachable tm_step.end_step]) (simp_all add: demo1_facts)

lemma demo2_facts: "tasks demo2 = [(''edge-1'', [0])]" "running demo2" "status (heap demo2 0) = Some PENDING"
  "state (heap demo2 0) = EXECUTED" "resource_id (heap demo2 0) = ''edge-1''" "is_live demo2 0"
  "resource_seq demo2 ''edge-1'' = [0]" "next_event demo2 = 0"
  by (simp_all add: demo_defs)









text \<open>a waiter is only ever registered for a state its task has not reached yet, so
  no waiter sleeps past the state it asked for.\<close>

lemma reachable_future:
  "reachable m \<Longrightarrow> (\<forall>t. future_only (heap m t)) \<and>
     (\<forall>t s e. states (heap m t) s = Some e \<longrightarrow> e < next_event m)"
proof (induction rule: reachable.induct)
  case (init h w)
  then show ?case by (simp add: new_manager_def future_only_def)
next
  case (step m m')
  show ?case
  proof (cases "quiet m m'")
    case True
    with step.IH show ?thesis unfolding quiet_def by metis
  next
    case False
    then obtain t s r where "wait t s m = (r, m')"
      using tm_step_quiet [OF step.hyps(2)] by blast
    then show ?thesis
      using step.IH by (cases rule: wait_cases) (auto simp: future_only_def less_Suc_eq)
  qed
qed

theorem waiters_for_future_states:
  assumes "reachable m" and "states (heap m t) s = Some e"
  shows "state (heap m t) < s"
  using reachable_future [OF assms(1)] assms(2) by (simp add: future_only_def)

definition demo_wait :: "unit manager" where
  "demo_wait = snd (wait 0 RESULT demo2)"

lemma demo_wait_reachable: "reachable demo_wait"
  unfolding demo_wait_def
  by (rule reachable.step [OF demo2_reachable tm_step.wait_step]) (rule prod.collapse [symmetric])

theorem waiters_for_future_states_witness:
  "states (heap demo_wait 0) RESULT = Some 0 \<and> state (heap demo_wait 0) < RESULT"
proof -
  have "states (heap demo_wait 0) RESULT = Some 0"
    by (simp add: demo_wait_def wait_def demo2_facts Let_def less_task_state_def less_eq_task_state_def)
  then show ?thesis
    using waiters_for_future_states [OF demo_wait_reachable] by blast
qed

text \<open>a second waiter for the same state of the same task displaces the first one,
  whose event is never sent again, whatever the threads do.\<close>

lemma orphan_stays:
  assumes "tm_step m m'" "e < next_event m" "\<forall>t s. states (heap m t) s \<noteq> Some e"
  shows "events m' e = events m e \<and> e < next_event m' \<and> (\<forall>t s. states (heap m' t) s \<noteq> Some e)"
proof (cases "quiet m m'")
  case True
  with assms show ?thesis unfolding quiet_def by metis
next
  case False
  then obtain t s r where "wait t s m = (r, m')"
    using tm_step_quiet [OF assms(1)] by blast
  then show ?thesis
    using assms(2,3) by (cases rule: wait_cases) auto
qed

theorem second_waiter_displaces_first:
  assumes "reachable m" and "wait t s m = (WaitOn e1, m1)" and "wait t s m1 = (WaitOn e2, m2)"
    and "tm_step\<^sup>*\<^sup>* m2 m'"
  shows "events m' e1 = Unsent"
proof -
  have "\<forall>u s. states (heap m u) s \<noteq> Some (next_event m)"
    using reachable_future [OF assms(1)] by (metis less_irrefl)
  moreover have m1: "e1 = next_event m"
      "m1 = upd_task t (\<lambda>k. k\<lparr>states := (states k)(s := Some e1)\<rparr>)
         (m\<lparr>events := (events m)(e1 := Unsent), next_event := Suc e1\<rparr>)"
    using assms(2) by (auto elim: wait_cases)
  moreover have m2: "e2 = next_event m1"
      "m2 = upd_task t (\<lambda>k. k\<lparr>states := (states k)(s := Some e2)\<rparr>)
         (m1\<lparr>events := (events m1)(e2 := Unsent), next_event := Suc e2\<rparr>)"
    using assms(3) by (auto elim: wait_cases)
  ultimately have orphan: "e1 < next_event m2 \<and> (\<forall>u s. states (heap m2 u) s \<noteq> Some e1)"
      and unsent: "events m2 e1 = Unsent"
    by simp_all
  from assms(4) have "events m' e1 = Unsent \<and> e1 < next_event m' \<and> (\<forall>u s. states (heap m' u) s \<noteq> Some e1)"
    by (induction rule: rtranclp_induct) (use orphan unsent orphan_stays in auto)
  then show ?thesis by simp
qed

theorem second_waiter_displaces_first_witness:
  "\<exists>m1 e2 m2. wait 0 RESULT demo2 = (WaitOn 0, m1) \<and> wait 0 RESULT m1 = (WaitOn e2, m2) \<and>
     events m2 0 = Unsent"
proof -
  have 1: "wait 0 RESULT demo2 = (WaitOn 0, demo_wait)"
    by (simp add: demo_wait_def wait_def demo2_facts Let_def less_task_state_def less_eq_task_state_def)
  have 2: "\<exists>m2. wait 0 RESULT demo_wait = (WaitOn 1, m2)"
    by (simp add: demo_wait_def wait_def demo2_facts Let_def less_task_state_def less_eq_task_state_def)
  then show ?thesis
    using 1 second_waiter_displaces_first [OF demo2_reachable 1 _ rtranclp.rtrancl_refl] by blast
qed

end
