(* ===== verification/VpnValidator.thy ===== *)
theory VpnValidator
  imports Json
begin

text \<open>
  The validators of IPsec services (\<open>services/vpnaas/common_v3/ipsec_validator.py\<close> with its two subclasses, and
  \<open>services/vpnaas/nsxv/ipsec_validator.py\<close>). Services, connections, policies and routers are dictionaries that the plugins of Neutron
  hand out: the functions that give them are parameters, and so are the limits of vmware_nsxlib and whether two sets of networks of
  netaddr have an address in common. A function of a plugin takes the context of the caller, or the elevated one.
\<close>

subsection \<open>The plugins\<close>

datatype 'x vpn_exc = Vpn_invalid | Vpn_py py_exc | Vpn_other 'x

record ('c, 'x) vpn_plugin =
  vp_elevated :: "'c \<Rightarrow> 'c"
  vp_vpnservice :: "'c \<Rightarrow> json \<Rightarrow> 'x vpn_exc + json"
  vp_connections :: "'c \<Rightarrow> json option \<Rightarrow> 'x vpn_exc + json list"
  vp_endpoint_info :: "'c \<Rightarrow> json \<Rightarrow> 'x vpn_exc + json"
  vp_subnet :: "'c \<Rightarrow> json \<Rightarrow> 'x vpn_exc + json"
  vp_ikepolicy :: "'c \<Rightarrow> json \<Rightarrow> 'x vpn_exc + json"
  vp_ipsecpolicy :: "'c \<Rightarrow> json \<Rightarrow> 'x vpn_exc + json"
  vp_routers :: "'c \<Rightarrow> 'x vpn_exc + json list"
  vp_router :: "'c \<Rightarrow> json \<Rightarrow> 'x vpn_exc + json"
  vp_router_cidrs :: "'c \<Rightarrow> json \<Rightarrow> 'x vpn_exc + json list"
  vp_tier0_of :: "'c \<Rightarrow> json \<Rightarrow> 'x vpn_exc + json"
  vp_tier0 :: "json \<Rightarrow> 'x vpn_exc + json"
  vp_overlap :: "json list \<Rightarrow> json list \<Rightarrow> 'x vpn_exc + bool"
  vp_snat_by_default :: json
  vp_general_service :: "'c \<Rightarrow> json \<Rightarrow> 'x vpn_exc + unit"
  vp_general_ipsec :: "'c \<Rightarrow> json \<Rightarrow> 'x vpn_exc + unit"
  vp_general_ike :: "'c \<Rightarrow> json \<Rightarrow> 'x vpn_exc + unit"

text \<open>What the two plugins support, with the limits of the library.\<close>

record vpn_support =
  vs_auth :: "string list"
  vs_pfs :: "string list"
  vs_ha_mode :: string
  vs_endpoint_groups :: bool
  vs_no_snat :: bool
  vs_ike_lifetime :: "int \<times> int"
  vs_ipsec_lifetime :: "int \<times> int"
  vs_dpd_timeout :: "int \<times> int"

definition v3_support :: "int \<times> int \<Rightarrow> int \<times> int \<Rightarrow> int \<times> int \<Rightarrow> vpn_support" where
  "v3_support ike ipsec dpd = \<lparr>vs_auth = [''sha1'', ''sha256''], vs_pfs = [''group14''], vs_ha_mode = ''high_availability_mode'',
     vs_endpoint_groups = False, vs_no_snat = True, vs_ike_lifetime = ike, vs_ipsec_lifetime = ipsec, vs_dpd_timeout = dpd\<rparr>"

definition policy_support :: "int \<times> int \<Rightarrow> int \<times> int \<Rightarrow> int \<times> int \<Rightarrow> vpn_support" where
  "policy_support ike ipsec dpd = \<lparr>vs_auth = [''sha1'', ''sha256'', ''sha384'', ''sha512''],
     vs_pfs = [''group2'', ''group5'', ''group14''], vs_ha_mode = ''ha_mode'', vs_endpoint_groups = True, vs_no_snat = False,
     vs_ike_lifetime = ike, vs_ipsec_lifetime = ipsec, vs_dpd_timeout = dpd\<rparr>"

definition vpn_py :: "py_exc + 'a \<Rightarrow> 'x vpn_exc + 'a" where
  "vpn_py r = (case r of Inl e \<Rightarrow> Inl (Vpn_py e) | Inr x \<Rightarrow> Inr x)"

lemma vpn_py_simps [simp]: "vpn_py (Inl e) = Inl (Vpn_py e)" "vpn_py (Inr x) = Inr x" "vpn_py r = Inr x \<longleftrightarrow> r = Inr x"
  by (auto simp: vpn_py_def split: sum.splits)

text \<open>\<open>x in d\<close> for a dictionary: a list or a dictionary has no hash.\<close>

definition is_key :: "json \<Rightarrow> string list \<Rightarrow> py_exc + bool" where
  "is_key j ks = (case j of JList _ \<Rightarrow> Inl TypeError | JObj _ \<Rightarrow> Inl TypeError | JStr s \<Rightarrow> Inr (s \<in> set ks) | _ \<Rightarrow> Inr False)"

definition one_of :: "string list \<Rightarrow> string \<Rightarrow> json \<Rightarrow> 'x vpn_exc + unit" where
  "one_of ks k info =
     bind_res (vpn_py (jfield_opt k info)) (\<lambda>v.
       if \<not> truthy_json v then Inr () else bind_res (vpn_py (is_key v ks)) (\<lambda>b. guard_res b Vpn_invalid))"

text \<open>A number outside its limits; \<open><\<close> takes numbers only.\<close>

definition outside :: "int \<times> int \<Rightarrow> json \<Rightarrow> py_exc + bool" where
  "outside limits j =
     (case j of
        JInt i \<Rightarrow> Inr (i < fst limits \<or> i > snd limits)
      | JBool b \<Rightarrow> Inr ((if b then 1 else 0) < fst limits \<or> (if b then 1 else 0) > snd limits)
      | _ \<Rightarrow> Inl TypeError)"

subsection \<open>Policies\<close>

definition validate_policy_lifetime :: "int \<times> int \<Rightarrow> json \<Rightarrow> 'x vpn_exc + unit" where
  "validate_policy_lifetime limits info =
     bind_res (vpn_py (jfield_opt ''lifetime'' info)) (\<lambda>l.
       if \<not> truthy_json l then Inr ()
       else bind_res (vpn_py (jfield_opt ''units'' l)) (\<lambda>u.
         if u \<noteq> JStr ''seconds'' then Inl Vpn_invalid
         else bind_res (vpn_py (jfield_opt ''value'' l)) (\<lambda>v.
           if \<not> truthy_json v then Inr ()
           else bind_res (vpn_py (outside limits v)) (\<lambda>b. guard_res (\<not> b) Vpn_invalid))))"

definition validate_policy_auth_algorithm :: "vpn_support \<Rightarrow> json \<Rightarrow> 'x vpn_exc + unit" where
  "validate_policy_auth_algorithm S = one_of (vs_auth S) ''auth_algorithm''"

definition V3_ENCRYPTION_ALGORITHM_MAP :: "string list" where "V3_ENCRYPTION_ALGORITHM_MAP = [''aes-128'', ''aes-256'']"

definition validate_policy_encryption_algorithm :: "json \<Rightarrow> 'x vpn_exc + unit" where
  "validate_policy_encryption_algorithm = one_of V3_ENCRYPTION_ALGORITHM_MAP ''encryption_algorithm''"

definition validate_policy_pfs :: "vpn_support \<Rightarrow> json \<Rightarrow> 'x vpn_exc + unit" where
  "validate_policy_pfs S = one_of (vs_pfs S) ''pfs''"

definition DPD_ACTION_MAP :: "string list" where "DPD_ACTION_MAP = [''hold'', ''disabled'']"

definition validate_dpd :: "vpn_support \<Rightarrow> json \<Rightarrow> 'x vpn_exc + unit" where
  "validate_dpd S connection =
     bind_res (vpn_py (jfield_opt ''dpd'' connection)) (\<lambda>d.
       if \<not> truthy_json d then Inr ()
       else bind_res (vpn_py (jfield_opt ''action'' d)) (\<lambda>a. bind_res (vpn_py (is_key a DPD_ACTION_MAP)) (\<lambda>b.
         if \<not> b then Inl Vpn_invalid
         else bind_res (vpn_py (jfield_opt ''timeout'' d)) (\<lambda>t. bind_res (vpn_py (outside (vs_dpd_timeout S) t)) (\<lambda>b.
                guard_res (\<not> b) Vpn_invalid)))))"

definition validate_psk :: "json \<Rightarrow> 'x vpn_exc + unit" where
  "validate_psk connection =
     bind_res (vpn_py (py_in (JStr ''psk'') connection)) (\<lambda>has.
       if \<not> has then Inr () else bind_res (vpn_py (jfield ''psk'' connection)) (\<lambda>v. guard_res (truthy_json v) Vpn_invalid))"

definition common_policy :: "vpn_support \<Rightarrow> int \<times> int \<Rightarrow> json \<Rightarrow> 'x vpn_exc + unit" where
  "common_policy S limits info =
     bind_res (validate_policy_lifetime limits info) (\<lambda>_. bind_res (validate_policy_auth_algorithm S info) (\<lambda>_.
     bind_res (validate_policy_encryption_algorithm info) (\<lambda>_. validate_policy_pfs S info)))"

definition validate_ipsec_policy :: "('c, 'x) vpn_plugin \<Rightarrow> vpn_support \<Rightarrow> 'c \<Rightarrow> json \<Rightarrow> 'x vpn_exc + unit" where
  "validate_ipsec_policy P S c info =
     bind_res (vp_general_ipsec P c info) (\<lambda>_. bind_res (common_policy S (vs_ipsec_lifetime S) info) (\<lambda>_.
     bind_res (one_of [''tunnel''] ''encapsulation_mode'' info) (\<lambda>_. one_of [''esp''] ''transform_protocol'' info)))"

definition validate_ike_policy :: "('c, 'x) vpn_plugin \<Rightarrow> vpn_support \<Rightarrow> 'c \<Rightarrow> json \<Rightarrow> 'x vpn_exc + unit" where
  "validate_ike_policy P S c info =
     bind_res (vp_general_ike P c info) (\<lambda>_. bind_res (common_policy S (vs_ike_lifetime S) info) (\<lambda>_.
     bind_res (vpn_py (jfield_default ''phase1-negotiation-mode'' (JStr ''main'') info)) (\<lambda>m. guard_res (m = JStr ''main'') Vpn_invalid)))"

subsection \<open>Networks of a connection\<close>

definition get_local_cidrs :: "('c, 'x) vpn_plugin \<Rightarrow> 'c \<Rightarrow> json \<Rightarrow> 'x vpn_exc + json list" where
  "get_local_cidrs P c conn =
     bind_res (vpn_py (jfield_opt ''vpnservice_id'' conn)) (\<lambda>i. bind_res (vp_vpnservice P c i) (\<lambda>srv.
     bind_res (vpn_py (jfield ''subnet'' srv)) (\<lambda>subnet.
       if truthy_json subnet then bind_res (vpn_py (jfield ''cidr'' subnet)) (\<lambda>cidr. Inr [cidr])
       else bind_res (vp_endpoint_info P c conn) (\<lambda>conn. bind_res (vpn_py (jfield ''local_epg_subnets'' conn)) (\<lambda>g.
            bind_res (vpn_py (jfield ''endpoints'' g)) (\<lambda>l. bind_res (vpn_py (as_list l)) (\<lambda>subs.
            map_res (\<lambda>sub. bind_res (vp_subnet P c sub) (\<lambda>s. vpn_py (jfield ''cidr'' s))) subs)))))))"

definition get_peer_cidrs :: "('c, 'x) vpn_plugin \<Rightarrow> 'c \<Rightarrow> json \<Rightarrow> 'x vpn_exc + json list" where
  "get_peer_cidrs P c conn =
     bind_res (vpn_py (jfield ''peer_cidrs'' conn)) (\<lambda>l.
       if truthy_json l then vpn_py (as_list l)
       else bind_res (vp_endpoint_info P c conn) (\<lambda>conn. bind_res (vpn_py (jfield ''peer_epg_cidrs'' conn)) (\<lambda>g.
            bind_res (vpn_py (jfield ''endpoints'' g)) (\<lambda>l. vpn_py (as_list l)))))"

definition service_local_address :: "('c, 'x) vpn_plugin \<Rightarrow> 'c \<Rightarrow> json \<Rightarrow> 'x vpn_exc + json" where
  "service_local_address P c i = bind_res (vp_vpnservice P c i) (\<lambda>srv. vpn_py (jfield ''external_v4_ip'' srv))"

text \<open>The connection itself and those in error are passed over.\<close>

definition passed_over :: "json \<Rightarrow> json \<Rightarrow> py_exc + bool" where
  "passed_over mine conn =
     bind_res (jfield ''id'' conn) (\<lambda>i. bind_res (jfield_opt ''id'' mine) (\<lambda>j.
       if i = j then Inr True else bind_res (jfield ''status'' conn) (\<lambda>s. Inr (s = JStr ''ERROR''))))"

definition each_other :: "json \<Rightarrow> (json \<Rightarrow> 'x vpn_exc + unit) \<Rightarrow> json list \<Rightarrow> 'x vpn_exc + unit" where
  "each_other mine f = each_res (\<lambda>conn. bind_res (vpn_py (passed_over mine conn)) (\<lambda>b. if b then Inr () else f conn))"

definition refuse_overlap :: "('c, 'x) vpn_plugin \<Rightarrow> json list \<Rightarrow> json list \<Rightarrow> 'x vpn_exc + unit" where
  "refuse_overlap P xs ys = bind_res (vp_overlap P xs ys) (\<lambda>b. guard_res (\<not> b) Vpn_invalid)"

definition check_policy_rules_overlap :: "('c, 'x) vpn_plugin \<Rightarrow> 'c \<Rightarrow> json \<Rightarrow> 'x vpn_exc + unit" where
  "check_policy_rules_overlap P c mine =
     (let adm = vp_elevated P c in
      bind_res (vp_connections P adm None) (\<lambda>conns.
        if conns = [] then Inr ()
        else bind_res (get_local_cidrs P c mine) (\<lambda>local. bind_res (get_peer_cidrs P c mine) (\<lambda>peer.
          each_other mine (\<lambda>conn. bind_res (get_peer_cidrs P adm conn) (\<lambda>peer'. bind_res (vp_overlap P peer' peer) (\<lambda>b.
            if \<not> b then Inr () else bind_res (get_local_cidrs P adm conn) (\<lambda>local'. refuse_overlap P local' local)))) conns))))"

definition check_unique_addresses :: "('c, 'x) vpn_plugin \<Rightarrow> 'c \<Rightarrow> json \<Rightarrow> 'x vpn_exc + unit" where
  "check_unique_addresses P c mine =
     bind_res (vpn_py (jfield_opt ''vpnservice_id'' mine)) (\<lambda>i. bind_res (service_local_address P c i) (\<lambda>addr.
     bind_res (vpn_py (jfield_opt ''peer_address'' mine)) (\<lambda>peer.
     bind_res (vp_connections P (vp_elevated P c) (Some peer)) (\<lambda>conns.
       each_other mine (\<lambda>conn. bind_res (vpn_py (jfield_opt ''vpnservice_id'' conn)) (\<lambda>i'.
         bind_res (service_local_address P (vp_elevated P c) i') (\<lambda>addr'. guard_res (addr' \<noteq> addr) Vpn_invalid))) conns))))"

text \<open>Routers that advertise their networks: others with a gateway and without NAT.\<close>

definition advertises :: "('c, 'x) vpn_plugin \<Rightarrow> json \<Rightarrow> json \<Rightarrow> py_exc + bool" where
  "advertises P this_router rtr =
     bind_res (jfield ''id'' rtr) (\<lambda>i.
       if i = this_router then Inr False
       else bind_res (jfield_opt ''external_gateway_info'' rtr) (\<lambda>g.
         if \<not> truthy_json g then Inr False
         else bind_res (jfield_default ''enable_snat'' (vp_snat_by_default P) g) (\<lambda>b. Inr (\<not> truthy_json b))))"

fun keep_res :: "('a \<Rightarrow> 'e + bool) \<Rightarrow> 'a list \<Rightarrow> 'e + 'a list" where
  "keep_res f [] = Inr []"
| "keep_res f (x # xs) = bind_res (f x) (\<lambda>b. bind_res (keep_res f xs) (\<lambda>ys. Inr (if b then x # ys else ys)))"

definition check_advertisment_overlap :: "('c, 'x) vpn_plugin \<Rightarrow> 'c \<Rightarrow> json \<Rightarrow> 'x vpn_exc + unit" where
  "check_advertisment_overlap P c mine =
     (let adm = vp_elevated P c in
      bind_res (vpn_py (jfield_opt ''vpnservice_id'' mine)) (\<lambda>i. bind_res (vp_vpnservice P adm i) (\<lambda>srv.
      bind_res (vpn_py (jfield ''router_id'' srv)) (\<lambda>this_router. bind_res (get_local_cidrs P c mine) (\<lambda>local.
      bind_res (vp_routers P adm) (\<lambda>routers. bind_res (vpn_py (keep_res (advertises P this_router) routers)) (\<lambda>routers.
      bind_res (each_res (\<lambda>rtr. bind_res (vpn_py (jfield ''id'' rtr)) (\<lambda>i. bind_res (vp_router_cidrs P adm i) (\<lambda>subnets.
          if subnets = [] then Inr () else refuse_overlap P subnets local))) routers) (\<lambda>_.
      bind_res (vp_connections P adm None) (\<lambda>conns.
        each_other mine (\<lambda>conn. bind_res (vpn_py (jfield_opt ''vpnservice_id'' conn)) (\<lambda>i'. bind_res (vp_vpnservice P adm i') (\<lambda>srv'.
          bind_res (vpn_py (jfield ''router_id'' srv')) (\<lambda>r. if r = this_router then Inr ()
            else bind_res (get_local_cidrs P c conn) (\<lambda>local'. refuse_overlap P local' local))))) conns)))))))))"

definition validate_ipsec_site_connection :: "('c, 'x) vpn_plugin \<Rightarrow> vpn_support \<Rightarrow> 'c \<Rightarrow> json \<Rightarrow> 'x vpn_exc + unit" where
  "validate_ipsec_site_connection P S c conn =
     bind_res (validate_dpd S conn) (\<lambda>_. bind_res (validate_psk conn) (\<lambda>_.
     bind_res (vpn_py (jfield_opt ''ikepolicy_id'' conn)) (\<lambda>i.
     bind_res (if truthy_json i then bind_res (vp_ikepolicy P c i) (validate_ike_policy P S c) else Inr ()) (\<lambda>_.
     bind_res (vpn_py (jfield_opt ''ipsecpolicy_id'' conn)) (\<lambda>i.
     bind_res (if truthy_json i then bind_res (vp_ipsecpolicy P c i) (validate_ipsec_policy P S c) else Inr ()) (\<lambda>_.
     bind_res (vpn_py (jfield_opt ''vpnservice_id'' conn)) (\<lambda>i.
       if \<not> truthy_json i then Inr ()
       else bind_res (check_advertisment_overlap P c conn) (\<lambda>_. bind_res (check_unique_addresses P c conn) (\<lambda>_.
            check_policy_rules_overlap P c conn))))))))) "

subsection \<open>Services\<close>

definition validate_t0_ha_mode :: "('c, 'x) vpn_plugin \<Rightarrow> vpn_support \<Rightarrow> json \<Rightarrow> 'x vpn_exc + unit" where
  "validate_t0_ha_mode P S uuid =
     bind_res (vp_tier0 P uuid) (\<lambda>t. if \<not> truthy_json t then Inl Vpn_invalid
       else bind_res (vpn_py (jfield_opt (vs_ha_mode S) t)) (\<lambda>m. guard_res (m = JStr ''ACTIVE_STANDBY'') Vpn_invalid))"

definition v3_validate_router :: "('c, 'x) vpn_plugin \<Rightarrow> vpn_support \<Rightarrow> 'c \<Rightarrow> json \<Rightarrow> 'x vpn_exc + unit" where
  "v3_validate_router P S c router_id =
     bind_res (vp_router P c router_id) (\<lambda>r. bind_res (vp_tier0_of P c r) (\<lambda>t. bind_res (validate_t0_ha_mode P S t) (\<lambda>_.
       if \<not> vs_no_snat S then Inr ()
       else bind_res (vp_router P c router_id) (\<lambda>r. bind_res (vpn_py (jfield ''enable_snat'' r)) (\<lambda>b. guard_res (\<not> truthy_json b) Vpn_invalid)))))"

definition validate_vpnservice :: "('c, 'x) vpn_plugin \<Rightarrow> vpn_support \<Rightarrow> 'c \<Rightarrow> json \<Rightarrow> 'x vpn_exc + unit" where
  "validate_vpnservice P S c srv =
     bind_res (vp_general_service P c srv) (\<lambda>_. bind_res (vpn_py (jfield ''router_id'' srv)) (\<lambda>r.
     bind_res (v3_validate_router P S c r) (\<lambda>_.
       if vs_endpoint_groups S then Inr () else bind_res (vpn_py (jfield ''subnet_id'' srv)) (\<lambda>s. guard_res (truthy_json s) Vpn_invalid))))"

subsection \<open>The validator of NSX-v\<close>

definition ENCRYPTION_ALGORITHM_MAP :: "(string, string) pydict" where
  "ENCRYPTION_ALGORITHM_MAP = [(''3des'', ''3des''), (''aes-128'', ''aes''), (''aes-256'', ''aes256'')]"

definition PFS_MAP :: "(string, string) pydict" where
  "PFS_MAP = [(''group2'', ''dh2''), (''group5'', ''dh5'')]"

definition validate_ikepolicy_version :: "json \<Rightarrow> 'x vpn_exc + unit" where
  "validate_ikepolicy_version info = bind_res (vpn_py (jfield_opt ''ike_version'' info)) (\<lambda>v. guard_res (v = JStr ''v1'') Vpn_invalid)"

text \<open>The message of the error mixes a named and an unnamed conversion, and cannot be formatted.\<close>

definition validate_ikepolicy_pfs :: "json \<Rightarrow> 'x vpn_exc + unit" where
  "validate_ikepolicy_pfs info =
     bind_res (vpn_py (jfield ''pfs'' info)) (\<lambda>v. bind_res (vpn_py (is_key v (map fst PFS_MAP))) (\<lambda>b. guard_res b (Vpn_py TypeError)))"

definition validate_encryption_algorithm :: "json \<Rightarrow> 'x vpn_exc + unit" where
  "validate_encryption_algorithm info =
     bind_res (vpn_py (jfield ''encryption_algorithm'' info)) (\<lambda>v. bind_res (vpn_py (is_key v (map fst ENCRYPTION_ALGORITHM_MAP))) (\<lambda>b.
       guard_res b Vpn_invalid))"

text \<open>A member of a tuple is compared, and needs no hash.\<close>

definition nsxv_validate_ipsec_policy :: "json \<Rightarrow> 'x vpn_exc + unit" where
  "nsxv_validate_ipsec_policy info =
     bind_res (vpn_py (jfield ''encapsulation_mode'' info)) (\<lambda>m. guard_res (m = JStr ''tunnel'') Vpn_invalid)"

text \<open>Differences are only logged, but every field up to the first difference is read.\<close>

fun match_fields :: "string list \<Rightarrow> json \<Rightarrow> json \<Rightarrow> py_exc + unit" where
  "match_fields [] a b = Inr ()"
| "match_fields (k # ks) a b =
     bind_res (jfield k a) (\<lambda>x. bind_res (jfield k b) (\<lambda>y. if x = y then match_fields ks a b else Inr ()))"

definition validate_policies_matching_algorithms :: "json \<Rightarrow> json \<Rightarrow> 'x vpn_exc + unit" where
  "validate_policies_matching_algorithms ike ipsec = vpn_py (match_fields [''auth_algorithm'', ''encryption_algorithm'', ''pfs''] ike ipsec)"

definition nsxv_validate_router :: "('c, 'x) vpn_plugin \<Rightarrow> 'c \<Rightarrow> json \<Rightarrow> 'x vpn_exc + unit" where
  "nsxv_validate_router P c router_id =
     bind_res (vp_router P c router_id) (\<lambda>r. bind_res (vpn_py (jfield_opt ''router_type'' r)) (\<lambda>t. guard_res (t \<noteq> JStr ''shared'') Vpn_invalid))"

definition nsxv_validate_vpnservice :: "('c, 'x) vpn_plugin \<Rightarrow> 'c \<Rightarrow> json \<Rightarrow> 'x vpn_exc + unit" where
  "nsxv_validate_vpnservice P c srv =
     bind_res (vp_general_service P c srv) (\<lambda>_. bind_res (vpn_py (jfield ''router_id'' srv)) (\<lambda>r.
     bind_res (nsxv_validate_router P c r) (\<lambda>_.
     bind_res (vpn_py (jfield ''subnet_id'' srv)) (\<lambda>s. guard_res (truthy_json s) Vpn_invalid))))"

definition nsxv_validate_site_connection :: "('c, 'x) vpn_plugin \<Rightarrow> 'c \<Rightarrow> json \<Rightarrow> 'x vpn_exc + unit" where
  "nsxv_validate_site_connection P c conn =
     bind_res (vpn_py (jfield_opt ''ikepolicy_id'' conn)) (\<lambda>i.
     bind_res (if truthy_json i then bind_res (vp_ikepolicy P c i) (\<lambda>ike. bind_res (validate_ikepolicy_version ike) (\<lambda>_.
          bind_res (validate_ikepolicy_pfs ike) (\<lambda>_. bind_res (validate_encryption_algorithm ike) (\<lambda>_. Inr (Some ike)))))
        else Inr None) (\<lambda>ike.
     bind_res (vpn_py (jfield_opt ''ipsecpolicy_id'' conn)) (\<lambda>i.
     bind_res (if truthy_json i then bind_res (vp_ipsecpolicy P c i) (\<lambda>ipsec. bind_res (nsxv_validate_ipsec_policy ipsec) (\<lambda>_. Inr (Some ipsec)))
        else Inr None) (\<lambda>ipsec.
       case (ike, ipsec) of (Some a, Some b) \<Rightarrow> validate_policies_matching_algorithms a b | _ \<Rightarrow> Inr ()))))"

subsection \<open>Connections that do not conflict\<close>

text \<open>Two connections conflict if both their networks and those of their peers overlap, if they have the local address and that
  of the peer in common, or if they belong to different routers and their networks overlap.\<close>

definition router_of :: "('c, 'x) vpn_plugin \<Rightarrow> 'c \<Rightarrow> json \<Rightarrow> 'x vpn_exc + json" where
  "router_of P c conn =
     bind_res (vpn_py (jfield_opt ''vpnservice_id'' conn)) (\<lambda>i. bind_res (vp_vpnservice P c i) (\<lambda>srv. vpn_py (jfield ''router_id'' srv)))"

definition local_address_of :: "('c, 'x) vpn_plugin \<Rightarrow> 'c \<Rightarrow> json \<Rightarrow> 'x vpn_exc + json" where
  "local_address_of P c conn = bind_res (vpn_py (jfield_opt ''vpnservice_id'' conn)) (service_local_address P c)"

definition meet :: "('c, 'x) vpn_plugin \<Rightarrow> 'x vpn_exc + json list \<Rightarrow> 'x vpn_exc + json list \<Rightarrow> bool" where
  "meet P m n \<longleftrightarrow> (\<exists>xs ys. m = Inr xs \<and> n = Inr ys \<and> vp_overlap P xs ys = Inr True)"

definition same_res :: "'e + 'a \<Rightarrow> 'e + 'a \<Rightarrow> bool" where
  "same_res m n \<longleftrightarrow> (\<exists>x. m = Inr x \<and> n = Inr x)"

definition differ_res :: "'e + 'a \<Rightarrow> 'e + 'a \<Rightarrow> bool" where
  "differ_res m n \<longleftrightarrow> (\<exists>x y. m = Inr x \<and> n = Inr y \<and> x \<noteq> y)"

definition conflict :: "('c, 'x) vpn_plugin \<Rightarrow> 'c \<Rightarrow> json \<Rightarrow> json \<Rightarrow> bool" where
  "conflict P c a b \<longleftrightarrow>
     meet P (get_peer_cidrs P c a) (get_peer_cidrs P c b) \<and> meet P (get_local_cidrs P c a) (get_local_cidrs P c b) \<or>
     same_res (jfield_opt ''peer_address'' a) (jfield_opt ''peer_address'' b) \<and> same_res (local_address_of P c a) (local_address_of P c b) \<or>
     differ_res (router_of P c a) (router_of P c b) \<and> meet P (get_local_cidrs P c a) (get_local_cidrs P c b)"

definition conflict_free :: "('c, 'x) vpn_plugin \<Rightarrow> 'c \<Rightarrow> json list \<Rightarrow> bool" where
  "conflict_free P c conns \<longleftrightarrow>
     (\<forall>a \<in> set conns. \<forall>b \<in> set conns. jfield ''status'' a \<noteq> Inr (JStr ''ERROR'') \<and> jfield ''status'' b \<noteq> Inr (JStr ''ERROR'') \<and>
        jfield ''id'' a \<noteq> jfield ''id'' b \<longrightarrow> \<not> conflict P c a b)"

lemma each_other_Inr:
  "each_other mine f conns = (Inr () :: 'x vpn_exc + unit) \<longleftrightarrow>
    (\<forall>x \<in> set conns. \<exists>b. passed_over mine x = Inr b \<and> (b \<or> f x = Inr ()))"
proof -
  have "bind_res (vpn_py (passed_over mine x)) (\<lambda>b. if b then Inr () else f x) = Inr () \<longleftrightarrow>
      (\<exists>b. passed_over mine x = Inr b \<and> (b \<or> f x = Inr ()))" for x
    by (cases "passed_over mine x") simp_all
  then show ?thesis unfolding each_other_def each_res_Inr_iff by simp
qed

lemma not_passed:
  assumes "jfield ''id'' mine = Inr i" "passed_over mine x = Inr b" "jfield ''id'' x \<noteq> Inr i" "jfield ''status'' x \<noteq> Inr (JStr ''ERROR'')"
  shows "\<not> b"
proof -
  obtain al where "mine = JObj al" using jfield_is_obj [OF assms(1)] by blast
  with assms have "jfield_opt ''id'' mine = Inr i" by (auto split: option.splits)
  with assms(2-4) show ?thesis by (auto simp: passed_over_def bind_res_Inr_iff split: if_splits)
qed

lemma rules_checked:
  assumes "check_policy_rules_overlap P c mine = Inr ()" "vp_elevated P c = c" "vp_connections P c None = Inr conns" "x \<in> set conns"
    and "\<And>b. passed_over mine x = Inr b \<Longrightarrow> \<not> b"
  shows "\<not> (meet P (get_peer_cidrs P c x) (get_peer_cidrs P c mine) \<and> meet P (get_local_cidrs P c x) (get_local_cidrs P c mine))"
proof -
  have "conns \<noteq> []" using assms(4) by auto
  with assms(1-3) obtain local peer where mine: "get_local_cidrs P c mine = Inr local" "get_peer_cidrs P c mine = Inr peer"
    "each_other mine (\<lambda>conn. bind_res (get_peer_cidrs P c conn) (\<lambda>peer'. bind_res (vp_overlap P peer' peer) (\<lambda>b.
       if \<not> b then Inr () else bind_res (get_local_cidrs P c conn) (\<lambda>local'. refuse_overlap P local' local)))) conns = Inr ()"
    unfolding check_policy_rules_overlap_def Let_def by (auto simp only: bind_res_Inr_iff if_False simp_thms)
  from mine(3) assms(4,5) have "bind_res (get_peer_cidrs P c x) (\<lambda>peer'. bind_res (vp_overlap P peer' peer) (\<lambda>b.
       if \<not> b then Inr () else bind_res (get_local_cidrs P c x) (\<lambda>local'. refuse_overlap P local' local))) = Inr ()"
    unfolding each_other_Inr by blast
  then show ?thesis using mine(1,2) by (auto simp: meet_def refuse_overlap_def)
qed

lemma addresses_checked:
  assumes "check_unique_addresses P c mine = Inr ()" "vp_elevated P c = c"
    and "\<And>p. vp_connections P c (Some p) = Inr (filter (\<lambda>x. jfield_opt ''peer_address'' x = Inr p) conns)" "x \<in> set conns"
    and "\<And>b. passed_over mine x = Inr b \<Longrightarrow> \<not> b"
  shows "\<not> (same_res (jfield_opt ''peer_address'' x) (jfield_opt ''peer_address'' mine) \<and>
    same_res (local_address_of P c x) (local_address_of P c mine))"
proof
  assume same: "same_res (jfield_opt ''peer_address'' x) (jfield_opt ''peer_address'' mine) \<and>
    same_res (local_address_of P c x) (local_address_of P c mine)"
  then obtain p a where pa: "jfield_opt ''peer_address'' x = Inr p" "jfield_opt ''peer_address'' mine = Inr p"
    "local_address_of P c x = Inr a" "local_address_of P c mine = Inr a" by (auto simp: same_res_def)
  let ?f = "\<lambda>conn. bind_res (vpn_py (jfield_opt ''vpnservice_id'' conn)) (\<lambda>i'.
         bind_res (service_local_address P c i') (\<lambda>addr'. guard_res (addr' \<noteq> a) Vpn_invalid))"
  from assms(1-3) pa(2,4) have "each_other mine ?f (filter (\<lambda>x. jfield_opt ''peer_address'' x = Inr p) conns) = Inr ()"
    by (auto simp: check_unique_addresses_def local_address_of_def bind_res_Inr_iff)
  with assms(4,5) pa(1) have "?f x = Inr ()" unfolding each_other_Inr by auto
  with pa(3) show False by (auto simp: local_address_of_def bind_res_Inr_iff)
qed

lemma adverts_checked:
  assumes "check_advertisment_overlap P c mine = Inr ()" "vp_elevated P c = c" "vp_connections P c None = Inr conns" "x \<in> set conns"
    and "\<And>b. passed_over mine x = Inr b \<Longrightarrow> \<not> b"
  shows "\<not> (differ_res (router_of P c x) (router_of P c mine) \<and> meet P (get_local_cidrs P c x) (get_local_cidrs P c mine))"
proof -
  let ?f = "\<lambda>this_router local conn. bind_res (vpn_py (jfield_opt ''vpnservice_id'' conn)) (\<lambda>i'. bind_res (vp_vpnservice P c i') (\<lambda>srv'.
          bind_res (vpn_py (jfield ''router_id'' srv')) (\<lambda>r. if r = this_router then Inr ()
            else bind_res (get_local_cidrs P c conn) (\<lambda>local'. refuse_overlap P local' local))))"
  from assms(1-3) obtain r local where mine: "router_of P c mine = Inr r" "get_local_cidrs P c mine = Inr local"
    "each_other mine (?f r local) conns = Inr ()"
    unfolding check_advertisment_overlap_def Let_def router_of_def by (auto simp: bind_res_Inr_iff)
  from mine(3) assms(4,5) have "?f r local x = Inr ()" unfolding each_other_Inr by blast
  then show ?thesis using mine(1,2) by (auto simp: meet_def refuse_overlap_def differ_res_def router_of_def bind_res_Inr_iff split: if_splits)
qed

lemma same_res_sym: "same_res m n \<Longrightarrow> same_res n m"
  and differ_res_sym: "differ_res m n \<Longrightarrow> differ_res n m"
  by (auto simp: same_res_def differ_res_def)

lemma meet_sym: "(\<And>xs ys. vp_overlap P xs ys = vp_overlap P ys xs) \<Longrightarrow> meet P m n \<Longrightarrow> meet P n m"
  by (auto simp: meet_def)

lemma conflict_sym:
  assumes "\<And>xs ys. vp_overlap P xs ys = vp_overlap P ys xs" "conflict P c a b"
  shows "conflict P c b a"
  using assms(2) unfolding conflict_def by (blast intro: same_res_sym differ_res_sym meet_sym [OF assms(1)])

lemma accepted_no_conflict:
  assumes "validate_ipsec_site_connection P S c mine = Inr ()" "vp_elevated P c = c" "vp_connections P c None = Inr conns"
    and "\<And>p. vp_connections P c (Some p) = Inr (filter (\<lambda>x. jfield_opt ''peer_address'' x = Inr p) conns)"
    and "jfield_opt ''vpnservice_id'' mine = Inr srv" "truthy_json srv" "jfield ''id'' mine = Inr i"
    and "x \<in> set conns" "jfield ''id'' x \<noteq> Inr i" "jfield ''status'' x \<noteq> Inr (JStr ''ERROR'')"
  shows "\<not> conflict P c x mine"
proof -
  from assms(1,5,6) have ok: "check_advertisment_overlap P c mine = Inr ()" "check_unique_addresses P c mine = Inr ()"
    "check_policy_rules_overlap P c mine = Inr ()" by (auto simp: validate_ipsec_site_connection_def bind_res_Inr_iff)
  have skip: "\<not> b" if "passed_over mine x = Inr b" for b using not_passed [OF assms(7) that assms(9,10)] .
  from rules_checked [OF ok(3) assms(2,3,8) skip] addresses_checked [OF ok(2) assms(2,4,8) skip]
    adverts_checked [OF ok(1) assms(2,3,8) skip] show ?thesis unfolding conflict_def by blast
qed

text \<open>C26: connections that are free of conflicts stay so when the validator accepts another one: no two of them, of whatever
  tenants and leaving out those in error, have overlapping networks on both ends, both addresses in common, or
  overlapping networks behind different routers. The caller may see all connections.\<close>

theorem accepted_connections_do_not_conflict:
  assumes "validate_ipsec_site_connection P S c mine = Inr ()" "vp_elevated P c = c" "vp_connections P c None = Inr conns"
    and "\<And>p. vp_connections P c (Some p) = Inr (filter (\<lambda>x. jfield_opt ''peer_address'' x = Inr p) conns)"
    and "\<And>xs ys. vp_overlap P xs ys = vp_overlap P ys xs"
    and "jfield_opt ''vpnservice_id'' mine = Inr srv" "truthy_json srv" "jfield ''id'' mine = Inr i" "conflict_free P c conns"
  shows "conflict_free P c (conns @ [mine])"
  unfolding conflict_free_def
proof (intro ballI impI, elim conjE)
  fix a b
  assume ab: "a \<in> set (conns @ [mine])" "b \<in> set (conns @ [mine])" "jfield ''status'' a \<noteq> Inr (JStr ''ERROR'')"
    "jfield ''status'' b \<noteq> Inr (JStr ''ERROR'')" "jfield ''id'' a \<noteq> jfield ''id'' b"
  note new = accepted_no_conflict [OF assms(1-4,6-8)]
  consider "a \<in> set conns" "b \<in> set conns" | "a \<in> set conns" "b = mine" | "a = mine" "b \<in> set conns" using ab(1,2,5) by auto
  then show "\<not> conflict P c a b"
  proof cases
    case 1
    then show ?thesis using assms(9) ab(3-5) unfolding conflict_free_def by blast
  next
    case 2
    then show ?thesis using new [of a] ab assms(8) by simp
  next
    case 3
    then show ?thesis using new [of b] ab assms(8) conflict_sym [OF assms(5)] by metis
  qed
qed

text \<open>Three connections, of which one is in error; an address is a network, and networks overlap if they are equal.\<close>

definition sample_conn :: "string \<Rightarrow> string \<Rightarrow> string \<Rightarrow> string \<Rightarrow> json" where
  "sample_conn i srv peer status = JObj [(''id'', JStr i), (''vpnservice_id'', JStr srv), (''peer_address'', JStr peer),
     (''peer_cidrs'', JList [JStr peer]), (''status'', JStr status)]"

definition sample_conns :: "json list" where
  "sample_conns = [sample_conn ''c1'' ''s1'' ''1.1.1.1'' ''ACTIVE'', sample_conn ''c2'' ''s2'' ''2.2.2.2'' ''ERROR'']"

definition sample_vpn :: "(unit, unit) vpn_plugin" where
  "sample_vpn = \<lparr>vp_elevated = id,
     vp_vpnservice = (\<lambda>_ i. Inr (JObj [(''subnet'', JObj [(''cidr'', i)]), (''router_id'', i), (''external_v4_ip'', i)])),
     vp_connections = (\<lambda>_ f. Inr (case f of None \<Rightarrow> sample_conns | Some p \<Rightarrow> filter (\<lambda>x. jfield_opt ''peer_address'' x = Inr p) sample_conns)),
     vp_endpoint_info = (\<lambda>_ c. Inr c), vp_subnet = (\<lambda>_ _. Inl Vpn_invalid), vp_ikepolicy = (\<lambda>_ _. Inl Vpn_invalid),
     vp_ipsecpolicy = (\<lambda>_ _. Inl Vpn_invalid), vp_routers = (\<lambda>_. Inr []), vp_router = (\<lambda>_ _. Inl Vpn_invalid),
     vp_router_cidrs = (\<lambda>_ _. Inr []), vp_tier0_of = (\<lambda>_ _. Inr JNull), vp_tier0 = (\<lambda>_. Inr JNull),
     vp_overlap = (\<lambda>xs ys. Inr (\<exists>x \<in> set xs. x \<in> set ys)), vp_snat_by_default = JBool True,
     vp_general_service = (\<lambda>_ _. Inr ()), vp_general_ipsec = (\<lambda>_ _. Inr ()), vp_general_ike = (\<lambda>_ _. Inr ())\<rparr>"

theorem accepted_connections_do_not_conflict_witness:
  "conflict_free sample_vpn () (sample_conns @ [sample_conn ''c3'' ''s2'' ''2.2.2.2'' ''ACTIVE''])"
proof (rule accepted_connections_do_not_conflict)
  show "validate_ipsec_site_connection sample_vpn (v3_support (0, 9) (0, 9) (0, 9)) () (sample_conn ''c3'' ''s2'' ''2.2.2.2'' ''ACTIVE'') = Inr ()"
    by code_simp
  show "conflict_free sample_vpn () sample_conns" by (simp add: conflict_free_def sample_conns_def sample_conn_def)
qed (auto simp: sample_vpn_def sample_conn_def)

end
