(* ===== verification/VpnDriver.thy ===== *)
theory VpnDriver
  imports EdgeRouting VpnValidator
begin

text \<open>
  The IPsec driver of NSX-v (\<open>services/vpnaas/nsxv/ipsec_driver.py\<close>): the sites of an edge are one configuration at the manager,
  which every operation reads, changes and writes as a whole. What the operations do to the tables of the service plugin is a list of
  calls; the update of the router's firewall is an operation of the core plugin, and a parameter.
\<close>

subsection \<open>State\<close>

datatype 'd ipsec_exc = Ip_edge "'d edge_exc" | Ip_vpn "unit vpn_exc" | Ip_mapping_not_found

datatype plugin_call = Set_status json json string | Drop_service json | Tunnel_ips json "json option" "json option"

record ('w, 't, 'v) vpn_state =
  vn_edge :: "('w, 't, 'v) edge_state"
  vn_calls :: "plugin_call list"

record ('w, 'd, 't, 'v, 'c) vpn_env =
  ve_edge :: "('w, 'd, 't, 'v) edge_env"
  ve_plugin :: "('c, unit) vpn_plugin"
  ve_firewall :: "'c \<Rightarrow> json \<Rightarrow> ('w, 'd, 't, 'v, unit) edge_op"
  ve_version :: "json \<Rightarrow> int"

type_synonym ('w, 'd, 't, 'v, 'a) vpn_op = "('w, 't, 'v) vpn_state \<Rightarrow> ('d ipsec_exc + 'a) \<times> ('w, 't, 'v) vpn_state"

definition on_edges :: "('w, 'd, 't, 'v, 'a) edge_op \<Rightarrow> ('w, 'd, 't, 'v, 'a) vpn_op" where
  "on_edges m s =
     (case m (vn_edge s) of (r, e) \<Rightarrow> (case r of Inl x \<Rightarrow> Inl (Ip_edge x) | Inr x \<Rightarrow> Inr x, s\<lparr>vn_edge := e\<rparr>))"

definition on_vcns :: "('w, 'd, 'a) vcns_op \<Rightarrow> ('w, 'd, 't, 'v, 'a) vpn_op" where
  "on_vcns m = on_edges (\<lambda>e. case m (es_world e) of (r, w) \<Rightarrow> (case r of Inl x \<Rightarrow> Inl (EVcns x) | Inr x \<Rightarrow> Inr x, e\<lparr>es_world := w\<rparr>))"

definition vd_raise :: "py_exc + 'a \<Rightarrow> ('w, 'd, 't, 'v, 'a) vpn_op" where
  "vd_raise r s = (case r of Inl e \<Rightarrow> Inl (Ip_edge (EPy e)) | Inr x \<Rightarrow> Inr x, s)"

definition vd_plugin :: "unit vpn_exc + 'a \<Rightarrow> ('w, 'd, 't, 'v, 'a) vpn_op" where
  "vd_plugin r s = (case r of Inl e \<Rightarrow> Inl (Ip_vpn e) | Inr x \<Rightarrow> Inr x, s)"

definition call :: "plugin_call \<Rightarrow> ('w, 'd, 't, 'v, unit) vpn_op" where
  "call x s = (Inr (), s\<lparr>vn_calls := vn_calls s @ [x]\<rparr>)"

text \<open>A handler of \<open>VcnsApiException\<close>.\<close>

definition except_vcns :: "('w, 'd, 't, 'v, 'a) vpn_op \<Rightarrow> ('w, 'd, 't, 'v, 'a) vpn_op \<Rightarrow> ('w, 'd, 't, 'v, 'a) vpn_op" where
  "except_vcns m h = catch_st m (\<lambda>e s. case e of Ip_edge (EVcns (Vcns _ _)) \<Rightarrow> h s | _ \<Rightarrow> (Inl e, s))"

definition plugin_error :: "string \<Rightarrow> ('w, 'd, 't, 'v, 'a) vpn_op" where
  "plugin_error msg s = (Inl (Ip_edge (EPlugin msg)), s)"

subsection \<open>Edges and sites\<close>

definition get_router_edge_id :: "('w, 'd, 't, 'v, 'c) vpn_env \<Rightarrow> 'c \<Rightarrow> json \<Rightarrow> ('w, 'd, 't, 'v, string \<times> string option) vpn_op" where
  "get_router_edge_id D c vpnservice_id =
     bind_st (vd_plugin (vp_vpnservice (ve_plugin D) c vpnservice_id)) (\<lambda>srv.
     bind_st (vd_raise (bind_res (jfield ''router_id'' srv) as_str)) (\<lambda>router_id s.
       let E = ve_edge D in
       case rb_of E router_id (vn_edge s) of
         None \<Rightarrow> plugin_error (''Couldn't find edge binding for router '' @ router_id) s
       | Some b \<Rightarrow>
           if rb_edge_type b \<noteq> VDR_EDGE then (Inr (router_id, rb_edge_id b), s)
           else bind_st (vd_raise (get_plr_by_tlr_id E router_id (vn_edge s))) (\<lambda>plr s.
             case Option.bind plr (\<lambda>p. rb_of E p (vn_edge s)) of
               None \<Rightarrow> vd_raise (Inl TypeError) s
             | Some b \<Rightarrow> (Inr (the plr, rb_edge_id b), s)) s))"

text \<open>\<open>MAP.get(key)\<close>.\<close>

definition map_get :: "(string, string) pydict \<Rightarrow> json \<Rightarrow> py_exc + json" where
  "map_get m k =
     (case k of JList _ \<Rightarrow> Inl TypeError | JObj _ \<Rightarrow> Inl TypeError
      | JStr s \<Rightarrow> Inr (opt_json (map_of m s)) | _ \<Rightarrow> Inr JNull)"

definition gateway_address :: "json \<Rightarrow> py_exc + json" where
  "gateway_address router =
     bind_res (jfield ''external_gateway_info'' router) (\<lambda>g. bind_res (jfield ''external_fixed_ips'' g) (\<lambda>l.
     bind_res (json_hd l) (jfield ''ip_address'')))"

definition local_cidr :: "json \<Rightarrow> py_exc + json" where
  "local_cidr srv = bind_res (jfield ''subnet'' srv) (jfield ''cidr'')"

definition site_json :: "json \<Rightarrow> json \<Rightarrow> json \<Rightarrow> json \<Rightarrow> py_exc + json" where
  "site_json conn ipsecpolicy cidr addr =
     bind_res (bind_res (jfield_opt ''encryption_algorithm'' ipsecpolicy) (map_get ENCRYPTION_ALGORITHM_MAP)) (\<lambda>encrypt.
     bind_res (bind_res (jfield_opt ''pfs'' ipsecpolicy) (map_get PFS_MAP)) (\<lambda>dh.
     bind_res (jfield_opt ''name'' conn) (\<lambda>name. bind_res (jfield_opt ''description'' conn) (\<lambda>description.
     bind_res (jfield ''peer_id'' conn) (\<lambda>peer_id. bind_res (jfield_opt ''peer_address'' conn) (\<lambda>peer_address.
     bind_res (jfield_opt ''peer_cidrs'' conn) (\<lambda>peer_cidrs. bind_res (jfield_opt ''auth_mode'' conn) (\<lambda>auth_mode.
     bind_res (jfield_opt ''psk'' conn) (\<lambda>psk.
       Inr (JObj [(''enabled'', JBool True), (''enablePfs'', JBool True), (''dhGroup'', dh), (''name'', name),
         (''description'', description), (''localId'', addr), (''localIp'', addr), (''peerId'', peer_id), (''peerIp'', peer_address),
         (''localSubnets'', JObj [(''subnets'', JList [cidr])]), (''peerSubnets'', JObj [(''subnets'', peer_cidrs)]),
         (''authenticationMode'', auth_mode), (''psk'', psk), (''encryptionAlgorithm'', encrypt)]))))))))))"

definition convert_ipsec_conn :: "('w, 'd, 't, 'v, 'c) vpn_env \<Rightarrow> 'c \<Rightarrow> json \<Rightarrow> ('w, 'd, 't, 'v, json) vpn_op" where
  "convert_ipsec_conn D c conn =
     (let P = ve_plugin D in
      bind_st (vd_raise (jfield ''ipsecpolicy_id'' conn)) (\<lambda>ipsec_id. bind_st (vd_raise (jfield ''vpnservice_id'' conn)) (\<lambda>srv_id.
      bind_st (vd_plugin (vp_ipsecpolicy P c ipsec_id)) (\<lambda>ipsecpolicy. bind_st (vd_plugin (vp_vpnservice P c srv_id)) (\<lambda>srv.
      bind_st (vd_raise (local_cidr srv)) (\<lambda>cidr. bind_st (vd_raise (jfield ''router_id'' srv)) (\<lambda>router_id.
      bind_st (vd_plugin (vp_router P c router_id)) (\<lambda>router. bind_st (vd_raise (gateway_address router)) (\<lambda>addr.
        vd_raise (site_json conn ipsecpolicy cidr addr))))))))))"

definition read_ipsec_config :: "('w, 'd, 't, 'v, 'c) vpn_env \<Rightarrow> string \<Rightarrow> ('w, 'd, 't, 'v, json) vpn_op" where
  "read_ipsec_config D edge_id = on_vcns (with_body (get_ipsec_config (ee_vcns (ve_edge D)) edge_id) Inr)"

text \<open>The sites of a configuration that is enabled; none otherwise.\<close>

definition enabled_sites :: "json \<Rightarrow> py_exc + json list option" where
  "enabled_sites conf =
     bind_res (jfield ''enabled'' conf) (\<lambda>b.
       if \<not> truthy_json b then Inr None
       else bind_res (jfield ''sites'' conf) (\<lambda>s. bind_res (jfield ''sites'' s) (\<lambda>l. bind_res (as_list l) (\<lambda>l. Inr (Some l)))))"

definition generate_new_sites :: "('w, 'd, 't, 'v, 'c) vpn_env \<Rightarrow> string \<Rightarrow> json \<Rightarrow> ('w, 'd, 't, 'v, json list) vpn_op" where
  "generate_new_sites D edge_id site =
     bind_st (read_ipsec_config D edge_id) (\<lambda>conf. bind_st (vd_raise (enabled_sites conf)) (\<lambda>l.
       return_st ((case l of None \<Rightarrow> [] | Some l \<Rightarrow> l) @ [site])))"

definition site_firewall_rule :: "json \<Rightarrow> py_exc + json" where
  "site_firewall_rule site =
     bind_res (bind_res (jfield ''peerSubnets'' site) (jfield ''subnets'')) (\<lambda>peer.
     bind_res (bind_res (jfield ''localSubnets'' site) (jfield ''subnets'')) (\<lambda>local.
     bind_res (jfield_default ''name'' (JStr ''rule'') site) (\<lambda>name. bind_res (as_str name) (\<lambda>name.
       Inr (JObj [(''name'', JStr (''VPN '' @ name)), (''action'', JStr ''allow''), (''enabled'', JBool True),
         (''source_ip_address'', peer), (''destination_ip_address'', local)])))))"

definition generate_ipsecvpn_firewall_rules :: "('w, 'd, 't, 'v, 'c) vpn_env \<Rightarrow> string \<Rightarrow> ('w, 'd, 't, 'v, json list) vpn_op" where
  "generate_ipsecvpn_firewall_rules D edge_id =
     bind_st (read_ipsec_config D edge_id) (\<lambda>conf. bind_st (vd_raise (enabled_sites conf)) (\<lambda>l.
       vd_raise (map_res site_firewall_rule (case l of None \<Rightarrow> [] | Some l \<Rightarrow> l))))"

definition update_firewall_rules :: "('w, 'd, 't, 'v, 'c) vpn_env \<Rightarrow> 'c \<Rightarrow> json \<Rightarrow> ('w, 'd, 't, 'v, unit) vpn_op" where
  "update_firewall_rules D c srv_id =
     bind_st (vd_plugin (vp_vpnservice (ve_plugin D) c srv_id)) (\<lambda>srv. bind_st (vd_raise (jfield ''router_id'' srv)) (\<lambda>r.
       on_edges (ve_firewall D c r)))"

text \<open>An exception of the manager is made one of the plugin here.\<close>

definition update_sites :: "('w, 'd, 't, 'v, 'c) vpn_env \<Rightarrow> string \<Rightarrow> json list \<Rightarrow> bool \<Rightarrow> ('w, 'd, 't, 'v, unit) vpn_op" where
  "update_sites D edge_id sites enabled =
     except_vcns
       (bind_st (on_vcns (VcnsApi.update_ipsec_config (ee_vcns (ve_edge D)) edge_id
            (JObj [(''featureType'', JStr ''ipsec_4.0''), (''enabled'', JBool enabled), (''sites'', JObj [(''sites'', JList sites)])])))
          (\<lambda>_. return_st ()))
       (plugin_error (''Failed to update ipsec vpn configuration with edge_id: '' @ edge_id))"

subsection \<open>Operations on connections\<close>

definition fail_with_status :: "json \<Rightarrow> json \<Rightarrow> string \<Rightarrow> ('w, 'd, 't, 'v, unit) vpn_op" where
  "fail_with_status srv_id ipsec_id msg = bind_st (call (Set_status srv_id ipsec_id ''ERROR'')) (\<lambda>_. plugin_error msg)"

definition create_ipsec_site_connection :: "('w, 'd, 't, 'v, 'c) vpn_env \<Rightarrow> 'c \<Rightarrow> json \<Rightarrow> ('w, 'd, 't, 'v, unit) vpn_op" where
  "create_ipsec_site_connection D c conn =
     bind_st (convert_ipsec_conn D c conn) (\<lambda>site. bind_st (vd_raise (jfield ''vpnservice_id'' conn)) (\<lambda>srv_id.
     bind_st (get_router_edge_id D c srv_id) (\<lambda>(_, edge).
       let edge_id = edge_ref edge in
       bind_st (generate_new_sites D edge_id site) (\<lambda>sites. bind_st (vd_raise (jfield ''id'' conn)) (\<lambda>ipsec_id.
       bind_st (except_vcns (update_sites D edge_id sites True)
          (fail_with_status srv_id ipsec_id (''Failed to create ipsec site connection configuration with '' @ edge_id))) (\<lambda>_.
       bind_st (except_vcns (update_firewall_rules D c srv_id)
          (fail_with_status srv_id ipsec_id (''Failed to update firewall rule for ipsec vpn with '' @ edge_id))) (\<lambda>_.
       call (Set_status srv_id ipsec_id ''ACTIVE''))))))))"

text \<open>The first site between the networks of a connection.\<close>

fun matching_site :: "json \<Rightarrow> json \<Rightarrow> json list \<Rightarrow> py_exc + json option" where
  "matching_site conn cidr [] = Inr None"
| "matching_site conn cidr (s # ss) =
     bind_res (bind_res (jfield ''peerSubnets'' s) (jfield_opt ''subnets'')) (\<lambda>p. bind_res (jfield ''peer_cidrs'' conn) (\<lambda>peer.
       if p \<noteq> peer then matching_site conn cidr ss
       else bind_res (bind_res (jfield ''localSubnets'' s) (jfield_opt ''subnets'')) (\<lambda>l. bind_res (json_hd l) (\<lambda>h.
            if h = cidr then Inr (Some s) else matching_site conn cidr ss))))"

definition find_vse_site :: "('w, 'd, 't, 'v, 'c) vpn_env \<Rightarrow> 'c \<Rightarrow> string \<Rightarrow> json \<Rightarrow> ('w, 'd, 't, 'v, (json \<times> json list) option) vpn_op" where
  "find_vse_site D c edge_id site =
     bind_st (read_ipsec_config D edge_id) (\<lambda>conf. bind_st (vd_raise (jfield ''vpnservice_id'' site)) (\<lambda>srv_id.
     bind_st (vd_plugin (vp_vpnservice (ve_plugin D) c srv_id)) (\<lambda>srv. bind_st (vd_raise (local_cidr srv)) (\<lambda>cidr.
     bind_st (vd_raise (jfield ''enabled'' conf)) (\<lambda>b.
       if \<not> truthy_json b then return_st None
       else bind_st (vd_raise (bind_res (jfield ''sites'' conf) (\<lambda>s. bind_res (jfield_opt ''sites'' s) as_list))) (\<lambda>l.
            bind_st (vd_raise (matching_site site cidr l)) (\<lambda>m.
              return_st (map_option (\<lambda>s. (s, l)) m))))))))"

definition delete_ipsec_site_connection :: "('w, 'd, 't, 'v, 'c) vpn_env \<Rightarrow> 'c \<Rightarrow> json \<Rightarrow> ('w, 'd, 't, 'v, unit) vpn_op" where
  "delete_ipsec_site_connection D c conn =
     bind_st (vd_raise (jfield ''id'' conn)) (\<lambda>_. bind_st (vd_raise (jfield ''vpnservice_id'' conn)) (\<lambda>srv_id.
     bind_st (get_router_edge_id D c srv_id) (\<lambda>(_, edge).
       let edge_id = edge_ref edge in
       bind_st (find_vse_site D c edge_id conn) (\<lambda>found.
         case found of
           None \<Rightarrow> (\<lambda>s. (Inl Ip_mapping_not_found, s))
         | Some (site, sites) \<Rightarrow>
             let rest = remove1 site sites in
             bind_st (except_vcns (update_sites D edge_id rest (rest \<noteq> [])) (vd_raise (Inl KeyError))) (\<lambda>_.
             except_vcns (update_firewall_rules D c srv_id)
               (plugin_error (''Failed to update firewall rule for ipsec vpn with '' @ edge_id)))))))"

text \<open>The new address of the peer is only taken if the request has a field \<open>peer_addresses\<close>.\<close>

definition changed_site :: "json \<Rightarrow> json \<Rightarrow> py_exc + json" where
  "changed_site conn site =
     bind_res (py_in (JStr ''peer_addresses'') conn) (\<lambda>b.
     bind_res (if b then bind_res (jfield ''peer_address'' conn) (\<lambda>a. Inr (jset ''peerIp'' a site)) else Inr site) (\<lambda>site.
     bind_res (py_in (JStr ''peer_cidrs'') conn) (\<lambda>b.
       if \<not> b then Inr site
       else bind_res (jfield ''peer_cidrs'' conn) (\<lambda>l. bind_res (jfield ''peerSubnets'' site) (\<lambda>p.
            Inr (jset ''peerSubnets'' (jset ''subnets'' l p) site))))))"

definition update_site_dict :: "('w, 'd, 't, 'v, 'c) vpn_env \<Rightarrow> 'c \<Rightarrow> string \<Rightarrow> json \<Rightarrow> json \<Rightarrow> ('w, 'd, 't, 'v, json list option) vpn_op" where
  "update_site_dict D c edge_id old conn =
     bind_st (find_vse_site D c edge_id old) (\<lambda>found.
       case found of
         None \<Rightarrow> return_st None
       | Some (site, sites) \<Rightarrow> bind_st (vd_raise (changed_site conn site)) (\<lambda>new. return_st (Some (remove1 site sites @ [new]))))"

definition update_ipsec_site_connection :: "('w, 'd, 't, 'v, 'c) vpn_env \<Rightarrow> 'c \<Rightarrow> json \<Rightarrow> json \<Rightarrow> ('w, 'd, 't, 'v, unit) vpn_op" where
  "update_ipsec_site_connection D c old conn =
     bind_st (vd_raise (jfield ''vpnservice_id'' old)) (\<lambda>srv_id. bind_st (vd_raise (jfield ''id'' old)) (\<lambda>ipsec_id.
     bind_st (get_router_edge_id D c srv_id) (\<lambda>(_, edge).
       let edge_id = edge_ref edge in
       bind_st (update_site_dict D c edge_id old conn) (\<lambda>sites.
         case sites of
           None \<Rightarrow> bind_st (call (Set_status srv_id ipsec_id ''ERROR'')) (\<lambda>_ s. (Inl Ip_mapping_not_found, s))
         | Some sites \<Rightarrow>
             bind_st (except_vcns (update_sites D edge_id sites True)
                (fail_with_status srv_id ipsec_id (''Failed to create ipsec site connection configuration with '' @ edge_id))) (\<lambda>_.
             bind_st (vd_raise (py_in (JStr ''peer_cidrs'') conn)) (\<lambda>b.
               if \<not> b then return_st ()
               else except_vcns (update_firewall_rules D c srv_id)
                 (fail_with_status srv_id ipsec_id (''Failed to update firewall rule for ipsec vpn with '' @ edge_id))))))))"

subsection \<open>Services\<close>

text \<open>The first address of either version.\<close>

fun get_gateway_ips :: "('w, 'd, 't, 'v, 'c) vpn_env \<Rightarrow> json list \<Rightarrow> json option \<Rightarrow> json option \<Rightarrow> py_exc + json option \<times> json option" where
  "get_gateway_ips D [] v4 v6 = Inr (v4, v6)"
| "get_gateway_ips D (ip # ips) v4 v6 =
     bind_res (jfield ''ip_address'' ip) (\<lambda>a.
       if ve_version D a = 4 then get_gateway_ips D ips (if v4 = None then Some a else v4) v6
       else get_gateway_ips D ips v4 (if v6 = None then Some a else v6))"

definition create_vpnservice :: "('w, 'd, 't, 'v, 'c) vpn_env \<Rightarrow> 'c \<Rightarrow> json \<Rightarrow> ('w, 'd, 't, 'v, unit) vpn_op" where
  "create_vpnservice D c srv =
     bind_st (vd_raise (jfield ''id'' srv)) (\<lambda>srv_id.
     bind_st (catch_st (vd_plugin (nsxv_validate_vpnservice (ve_plugin D) c srv))
        (\<lambda>e. bind_st (call (Drop_service srv_id)) (\<lambda>_ s. (Inl e, s)))) (\<lambda>_.
     bind_st (vd_plugin (vp_vpnservice (ve_plugin D) c srv_id)) (\<lambda>srv.
     bind_st (vd_raise (bind_res (jfield ''router'' srv) (\<lambda>r. bind_res (jfield ''gw_port'' r) (\<lambda>g. bind_res (jfield ''fixed_ips'' g) (\<lambda>l.
        bind_res (as_list l) (\<lambda>ips. get_gateway_ips D ips None None)))))) (\<lambda>(v4, v6).
     call (Tunnel_ips srv_id v4 v6)))))"

subsection \<open>What the operations do at the manager\<close>

lemma vd_simps [simp]:
  "vd_raise (Inr x) s = (Inr x, s)" "vd_raise (Inl e) s = (Inl (Ip_edge (EPy e)), s)"
  "vd_plugin (Inr x) s = (Inr x, s)" "vd_plugin (Inl e') s = (Inl (Ip_vpn e'), s)"
  "call y s = (Inr (), s\<lparr>vn_calls := vn_calls s @ [y]\<rparr>)"
  by (simp_all add: vd_raise_def vd_plugin_def call_def)

definition at_world :: "'w \<Rightarrow> ('w, 't, 'v) vpn_state \<Rightarrow> ('w, 't, 'v) vpn_state" where
  "at_world w s = s\<lparr>vn_edge := (vn_edge s)\<lparr>es_world := w\<rparr>\<rparr>"

definition world :: "('w, 't, 'v) vpn_state \<Rightarrow> 'w" where
  "world s = es_world (vn_edge s)"

lemma world_simps [simp]:
  "world (at_world w s) = w" "at_world w (at_world w' s) = at_world w s" "vn_calls (at_world w s) = vn_calls s"
  "world (s\<lparr>vn_calls := l\<rparr>) = world s" "es_rbs (vn_edge (at_world w s)) = es_rbs (vn_edge s)"
  "(at_world w s)\<lparr>vn_calls := l\<rparr> = at_world w (s\<lparr>vn_calls := l\<rparr>)"
  by (simp_all add: world_def at_world_def)

definition sites_config :: "json list \<Rightarrow> bool \<Rightarrow> json" where
  "sites_config sites enabled =
     JObj [(''featureType'', JStr ''ipsec_4.0''), (''enabled'', JBool enabled), (''sites'', JObj [(''sites'', JList sites)])]"

definition active_sites :: "json \<Rightarrow> json list" where
  "active_sites conf = (case enabled_sites conf of Inr (Some l) \<Rightarrow> l | _ \<Rightarrow> [])"

lemma active_config: "enabled_sites (sites_config l b) = Inr (if b then Some l else None)"
  by (simp add: sites_config_def enabled_sites_def)


locale ipsec_manager =
  fixes V :: "('w, 'd) vcns" and edge_id :: string and ok :: "'w \<Rightarrow> bool" and conf :: "'w \<Rightarrow> json"
  assumes get_conf: "ok w \<Longrightarrow> \<exists>h w'. VcnsApi.get_ipsec_config V edge_id w = (Inr (h, Parsed (conf w)), w') \<and> ok w' \<and> conf w' = conf w"
    and put_conf: "ok w \<Longrightarrow> truthy_json j \<Longrightarrow> \<exists>r w'. VcnsApi.update_ipsec_config V edge_id j w = (Inr r, w') \<and> ok w' \<and> conf w' = j"
begin

lemma read_conf:
  assumes "ok (world s)" "ee_vcns (ve_edge D) = V"
  shows "\<exists>w. read_ipsec_config D edge_id s = (Inr (conf (world s)), at_world w s) \<and> ok w \<and> conf w = conf (world s)"
proof -
  from get_conf [OF assms(1)] obtain h w where "VcnsApi.get_ipsec_config V edge_id (world s) = (Inr (h, Parsed (conf (world s))), w)"
    "ok w" "conf w = conf (world s)" by blast
  then show ?thesis using assms(2)
    by (intro exI [of _ w])
      (simp add: read_ipsec_config_def on_vcns_def on_edges_def with_body_def body_of_def bind_st_def world_def at_world_def)
qed

lemma put_sites:
  assumes "ok (world s)" "ee_vcns (ve_edge D) = V"
  shows "\<exists>w. update_sites D edge_id l b s = (Inr (), at_world w s) \<and> ok w \<and> conf w = sites_config l b"
proof -
  have "truthy_json (sites_config l b)" by (simp add: sites_config_def)
  from put_conf [OF assms(1) this] obtain r w where "VcnsApi.update_ipsec_config V edge_id (sites_config l b) (world s) = (Inr r, w)"
    "ok w" "conf w = sites_config l b" by blast
  then show ?thesis using assms(2)
    by (intro exI [of _ w])
      (simp add: update_sites_def except_vcns_def catch_st_def on_vcns_def on_edges_def bind_st_def world_def at_world_def
        sites_config_def return_st_def)
qed

end

subsection \<open>A connection that is created and deleted\<close>

text \<open>A connection of a service with a subnet, whose router has an edge of its own.\<close>

record vpn_case =
  vc_conn :: json
  vc_site :: json
  vc_srv_id :: json
  vc_srv :: json
  vc_cidr :: json
  vc_router :: string
  vc_peer :: json

definition resolved :: "('w, 'd, 't, 'v, 'c) vpn_env \<Rightarrow> 'c \<Rightarrow> vpn_case \<Rightarrow> bool" where
  "resolved D c x \<longleftrightarrow>
     (\<exists>pol_id pol router addr. jfield ''ipsecpolicy_id'' (vc_conn x) = Inr pol_id \<and> vp_ipsecpolicy (ve_plugin D) c pol_id = Inr pol \<and>
        vp_router (ve_plugin D) c (JStr (vc_router x)) = Inr router \<and> gateway_address router = Inr addr \<and>
        site_json (vc_conn x) pol (vc_cidr x) addr = Inr (vc_site x)) \<and>
     jfield ''vpnservice_id'' (vc_conn x) = Inr (vc_srv_id x) \<and> vp_vpnservice (ve_plugin D) c (vc_srv_id x) = Inr (vc_srv x) \<and>
     local_cidr (vc_srv x) = Inr (vc_cidr x) \<and> jfield ''router_id'' (vc_srv x) = Inr (JStr (vc_router x)) \<and>
     jfield ''peer_cidrs'' (vc_conn x) = Inr (vc_peer x)"

lemma resolved_convert: "resolved D c x \<Longrightarrow> convert_ipsec_conn D c (vc_conn x) s = (Inr (vc_site x), s)"
  by (auto simp: resolved_def convert_ipsec_conn_def bind_st_def Let_def)

lemma site_fields:
  assumes "site_json conn pol cidr addr = Inr site" "jfield_opt ''peer_cidrs'' conn = Inr peer"
  shows "jfield ''peerSubnets'' site = Inr (JObj [(''subnets'', peer)]) \<and>
    jfield ''localSubnets'' site = Inr (JObj [(''subnets'', JList [cidr])])"
  using assms by (auto simp: site_json_def bind_res_Inr_iff)

lemma resolved_site:
  assumes "resolved D c x"
  shows "jfield ''peerSubnets'' (vc_site x) = Inr (JObj [(''subnets'', vc_peer x)])"
    and "jfield ''localSubnets'' (vc_site x) = Inr (JObj [(''subnets'', JList [vc_cidr x])])"
proof -
  obtain pol addr where "site_json (vc_conn x) pol (vc_cidr x) addr = Inr (vc_site x)" and peer: "jfield ''peer_cidrs'' (vc_conn x) = Inr (vc_peer x)"
    using assms by (auto simp: resolved_def)
  moreover have "jfield_opt ''peer_cidrs'' (vc_conn x) = Inr (vc_peer x)"
    using jfield_is_obj [OF peer] peer by (auto split: option.splits)
  ultimately show "jfield ''peerSubnets'' (vc_site x) = Inr (JObj [(''subnets'', vc_peer x)])"
    "jfield ''localSubnets'' (vc_site x) = Inr (JObj [(''subnets'', JList [vc_cidr x])])"
    using site_fields by blast+
qed

lemma match_self: "resolved D c x \<Longrightarrow> matching_site (vc_conn x) (vc_cidr x) (vc_site x # l) = Inr (Some (vc_site x))"
  using resolved_site [of D c x] by (simp add: resolved_def)

lemma match_last:
  assumes "resolved D c x" "matching_site (vc_conn x) (vc_cidr x) l = Inr None"
  shows "matching_site (vc_conn x) (vc_cidr x) (l @ [vc_site x]) = Inr (Some (vc_site x))" "vc_site x \<notin> set l"
  using assms(2)
proof (induction l)
  case (Cons s l)
  {
    case 1
    then show ?case using Cons.IH(1) by (auto simp: bind_res_Inr_iff split: if_splits)
  next
    case 2
    then have "vc_site x \<notin> set l" using Cons.IH(2) by (auto simp: bind_res_Inr_iff split: if_splits)
    moreover have "s \<noteq> vc_site x" using 2 match_self [OF assms(1), of l] by (auto simp del: matching_site.simps)
    ultimately show ?case by simp
  }
qed (use match_self [OF assms(1)] in simp_all)


definition on_own_edge :: "('w, 'd, 't, 'v, 'c) vpn_env \<Rightarrow> vpn_case \<Rightarrow> string \<Rightarrow> ('w, 't, 'v) vpn_state \<Rightarrow> bool" where
  "on_own_edge D x edge_id s \<longleftrightarrow>
     (\<exists>b. q_first (ee_rb (ve_edge D)) (es_rbs (vn_edge s)) (\<lambda>r. rb_router_id r = vc_router x) = Some b \<and> rb_edge_type b \<noteq> VDR_EDGE \<and>
        rb_edge_id b = Some edge_id)"

lemma own_edge:
  assumes "resolved D c x" "on_own_edge D x edge_id s"
  shows "get_router_edge_id D c (vc_srv_id x) s = (Inr (vc_router x, Some edge_id), s)"
  using assms
  by (auto simp: resolved_def on_own_edge_def get_router_edge_id_def bind_st_def Let_def rb_of_def get_nsxv_router_binding_def)

lemma own_edge_at: "on_own_edge D x edge_id (at_world w s) = on_own_edge D x edge_id s"
  "on_own_edge D x edge_id (s\<lparr>vn_calls := l\<rparr>) = on_own_edge D x edge_id s"
  by (simp_all add: on_own_edge_def)

text \<open>The update of the router's firewall leaves the sites of the edge alone.\<close>

definition keeps_sites :: "('w, 'd, 't, 'v, 'c) vpn_env \<Rightarrow> 'c \<Rightarrow> ('w \<Rightarrow> bool) \<Rightarrow> ('w \<Rightarrow> json) \<Rightarrow> string \<Rightarrow> bool" where
  "keeps_sites D c ok conf r \<longleftrightarrow>
     (\<forall>e. ok (es_world e) \<longrightarrow> (\<exists>w. ve_firewall D c (JStr r) e = (Inr (), e\<lparr>es_world := w\<rparr>) \<and> ok w \<and> conf w = conf (es_world e)))"

lemma firewall_kept:
  assumes "resolved D c x" "keeps_sites D c ok conf (vc_router x)" "ok (world s)"
  shows "\<exists>w. (\<forall>h. except_vcns (update_firewall_rules D c (vc_srv_id x)) h s = (Inr (), at_world w s)) \<and> ok w \<and> conf w = conf (world s)"
proof -
  from assms(2,3) obtain w where "ve_firewall D c (JStr (vc_router x)) (vn_edge s) = (Inr (), (vn_edge s)\<lparr>es_world := w\<rparr>)" "ok w"
    "conf w = conf (world s)" unfolding keeps_sites_def world_def by blast
  with assms(1) show ?thesis
    by (intro exI [of _ w])
      (auto simp: resolved_def except_vcns_def catch_st_def update_firewall_rules_def bind_st_def on_edges_def at_world_def)
qed

context ipsec_manager
begin

lemma create_adds_site:
  assumes D: "ee_vcns (ve_edge D) = V" and x: "resolved D c x" "on_own_edge D x edge_id s" "keeps_sites D c ok conf (vc_router x)"
    and i: "jfield ''id'' (vc_conn x) = Inr i" and s: "ok (world s)" "enabled_sites (conf (world s)) = Inr l"
  shows "\<exists>w. create_ipsec_site_connection D c (vc_conn x) s =
      (Inr (), at_world w (s\<lparr>vn_calls := vn_calls s @ [Set_status (vc_srv_id x) i ''ACTIVE'']\<rparr>)) \<and> ok w \<and>
    conf w = sites_config ((case l of None \<Rightarrow> [] | Some l \<Rightarrow> l) @ [vc_site x]) True"
proof -
  let ?l = "(case l of None \<Rightarrow> [] | Some l \<Rightarrow> l) @ [vc_site x]"
  have srv: "jfield ''vpnservice_id'' (vc_conn x) = Inr (vc_srv_id x)" using x(1) by (simp add: resolved_def)
  from read_conf [OF s(1) D] obtain w1 where r: "read_ipsec_config D edge_id s = (Inr (conf (world s)), at_world w1 s)" "ok w1" by blast
  from put_sites [of "at_world w1 s" D ?l True] r(2) D obtain w2 where
    p: "update_sites D edge_id ?l True (at_world w1 s) = (Inr (), at_world w2 s)" "ok w2" "conf w2 = sites_config ?l True" by auto
  from firewall_kept [OF x(1,3), of "at_world w2 s"] p(2,3) obtain w3 where
    f: "\<And>h. except_vcns (update_firewall_rules D c (vc_srv_id x)) h (at_world w2 s) = (Inr (), at_world w3 s)" "ok w3" "conf w3 = sites_config ?l True"
    by auto
  show ?thesis
    using resolved_convert [OF x(1)] own_edge [OF x(1,2)] srv i r(1) p(1) f s(2)
    by (intro exI [of _ w3])
      (simp add: create_ipsec_site_connection_def bind_st_def Let_def edge_ref_def generate_new_sites_def return_st_def
        except_vcns_def [of "update_sites D edge_id ?l True"] catch_st_def)
qed

lemma delete_removes_site:
  assumes D: "ee_vcns (ve_edge D) = V" and x: "resolved D c x" "on_own_edge D x edge_id s" "keeps_sites D c ok conf (vc_router x)"
    and i: "jfield ''id'' (vc_conn x) = Inr i" and s: "ok (world s)" "conf (world s) = sites_config l True"
    and m: "matching_site (vc_conn x) (vc_cidr x) l = Inr (Some y)"
  shows "\<exists>w. delete_ipsec_site_connection D c (vc_conn x) s = (Inr (), at_world w s) \<and> ok w \<and>
    conf w = sites_config (remove1 y l) (remove1 y l \<noteq> [])"
proof -
  let ?l = "remove1 y l"
  have srv: "jfield ''vpnservice_id'' (vc_conn x) = Inr (vc_srv_id x)" "vp_vpnservice (ve_plugin D) c (vc_srv_id x) = Inr (vc_srv x)"
    "local_cidr (vc_srv x) = Inr (vc_cidr x)" using x(1) by (simp_all add: resolved_def)
  from read_conf [OF s(1) D] obtain w1 where r: "read_ipsec_config D edge_id s = (Inr (sites_config l True), at_world w1 s)" "ok w1"
    unfolding s(2) by blast
  from put_sites [of "at_world w1 s" D ?l "?l \<noteq> []"] r(2) D obtain w2 where
    p: "update_sites D edge_id ?l (?l \<noteq> []) (at_world w1 s) = (Inr (), at_world w2 s)" "ok w2" "conf w2 = sites_config ?l (?l \<noteq> [])" by auto
  from firewall_kept [OF x(1,3), of "at_world w2 s"] p(2,3) obtain w3 where
    f: "\<And>h. except_vcns (update_firewall_rules D c (vc_srv_id x)) h (at_world w2 s) = (Inr (), at_world w3 s)" "ok w3"
      "conf w3 = sites_config ?l (?l \<noteq> [])"
    by auto
  have find: "find_vse_site D c edge_id (vc_conn x) s = (Inr (Some (y, l)), at_world w1 s)"
    using r(1) srv m by (simp add: find_vse_site_def bind_st_def return_st_def sites_config_def)
  show ?thesis
    using own_edge [OF x(1,2)] srv i find p(1) f
    by (intro exI [of _ w3])
      (simp add: delete_ipsec_site_connection_def bind_st_def Let_def edge_ref_def
        except_vcns_def [of "update_sites D edge_id ?l (?l \<noteq> [])"] catch_st_def)
qed

lemma create_then_delete:
  assumes D: "ee_vcns (ve_edge D) = V" and x: "resolved D c x" "on_own_edge D x edge_id s" "keeps_sites D c ok conf (vc_router x)"
    and i: "jfield ''id'' (vc_conn x) = Inr i" and s: "ok (world s)" "enabled_sites (conf (world s)) = Inr l"
    and new: "matching_site (vc_conn x) (vc_cidr x) (active_sites (conf (world s))) = Inr None"
  shows "\<exists>s1 s2. create_ipsec_site_connection D c (vc_conn x) s = (Inr (), s1) \<and>
    active_sites (conf (world s1)) = active_sites (conf (world s)) @ [vc_site x] \<and>
    vn_calls s1 = vn_calls s @ [Set_status (vc_srv_id x) i ''ACTIVE''] \<and>
    delete_ipsec_site_connection D c (vc_conn x) s1 = (Inr (), s2) \<and>
    active_sites (conf (world s2)) = active_sites (conf (world s)) \<and> vn_calls s2 = vn_calls s1"
proof -
  have l: "active_sites (conf (world s)) = (case l of None \<Rightarrow> [] | Some l \<Rightarrow> l)" using s(2) by (simp add: active_sites_def split: option.split)
  let ?l = "active_sites (conf (world s))" let ?calls = "vn_calls s @ [Set_status (vc_srv_id x) i ''ACTIVE'']"
  from create_adds_site [OF assms(1-7)] obtain w where c: "create_ipsec_site_connection D c (vc_conn x) s =
      (Inr (), at_world w (s\<lparr>vn_calls := ?calls\<rparr>))" "ok w" "conf w = sites_config (?l @ [vc_site x]) True" unfolding l by blast
  let ?s = "at_world w (s\<lparr>vn_calls := ?calls\<rparr>)"
  note last = match_last [OF x(1) new]
  have "remove1 (vc_site x) (?l @ [vc_site x]) = ?l" using last(2) by (simp add: remove1_append)
  with delete_removes_site [OF D x(1) _ x(3) i _ _ last(1), of ?s] c(2,3) x(2) obtain w' where
    d: "delete_ipsec_site_connection D c (vc_conn x) ?s = (Inr (), at_world w' ?s)" "ok w'" "conf w' = sites_config ?l (?l \<noteq> [])"
    by (auto simp: own_edge_at)
  show ?thesis
    by (intro exI [of _ ?s] exI [of _ "at_world w' ?s"]) (simp add: c d active_sites_def active_config split: option.split)
qed

end


text \<open>C27: a connection that is created and then deleted: creating adds its site to those that the manager has for the edge and
  makes the connection active, and deleting takes that site away again, if there was none between the same networks before.
  The manager keeps the configuration that it is sent, and the update of the firewall leaves the sites alone.\<close>

theorem created_connection_is_deleted:
  assumes "ipsec_manager (ee_vcns (ve_edge D)) edge_id ok conf" "resolved D c x" "on_own_edge D x edge_id s"
    and "keeps_sites D c ok conf (vc_router x)" "jfield ''id'' (vc_conn x) = Inr i"
    and "ok (world s)" "enabled_sites (conf (world s)) = Inr l"
    and "matching_site (vc_conn x) (vc_cidr x) (active_sites (conf (world s))) = Inr None"
  shows "\<exists>s1 s2. create_ipsec_site_connection D c (vc_conn x) s = (Inr (), s1) \<and>
    active_sites (conf (world s1)) = active_sites (conf (world s)) @ [vc_site x] \<and>
    vn_calls s1 = vn_calls s @ [Set_status (vc_srv_id x) i ''ACTIVE''] \<and>
    delete_ipsec_site_connection D c (vc_conn x) s1 = (Inr (), s2) \<and>
    active_sites (conf (world s2)) = active_sites (conf (world s)) \<and> vn_calls s2 = vn_calls s1"
  by (rule ipsec_manager.create_then_delete [OF assms(1) refl assms(2-8)])

text \<open>A manager that keeps one configuration, a router with an edge, and a connection.\<close>

definition kept_vcns :: "(json, json) vcns" where
  "kept_vcns = \<lparr>exchange = (\<lambda>w _ _ _ _ b. (Response 200 [] (case b of Some c \<Rightarrow> c | None \<Rightarrow> w), case b of Some c \<Rightarrow> c | None \<Rightarrow> w)),
     v_loads = Some, json_dumps = id, xml_dumps = id, xml_errorcode = (\<lambda>_. None),
     to_int = (\<lambda>j. case j of JInt i \<Rightarrow> Some i | _ \<Rightarrow> None), is_empty = (\<lambda>_. False), max_retries = 3\<rparr>"

lemma kept_request:
  "json_request kept_vcns verb uri (Encoded j) w = (Inr ([], Parsed (if truthy_json j then j else w)), if truthy_json j then j else w)"
  "json_request kept_vcns verb uri NoParams w = (Inr ([], Parsed w), w)"
  by (simp_all add: json_request_def do_request_def client_request_def retry_upon_exception_def helper_request_def encode_params_def
      kept_vcns_def bind_st_def numeral_3_eq_3)

interpretation kept: ipsec_manager kept_vcns edge_id "\<lambda>_. True" id for edge_id
  by unfold_locales (auto simp: VcnsApi.get_ipsec_config_def VcnsApi.update_ipsec_config_def kept_request)


definition vpn_sample :: "(json, json) vcns \<Rightarrow> (json, json, router_binding list, edge_vnic_binding list, unit) vpn_env" where
  "vpn_sample V = \<lparr>ve_edge = echo_env\<lparr>ee_vcns := V\<rparr>,
     ve_plugin = sample_vpn\<lparr>vp_ipsecpolicy := (\<lambda>_ _. Inr (JObj [(''encryption_algorithm'', JStr ''aes-256''), (''pfs'', JStr ''group5'')])),
       vp_vpnservice := (\<lambda>_ _. Inr (JObj [(''subnet'', JObj [(''cidr'', JStr ''10.0.0.0/24'')]), (''router_id'', JStr ''r1'')])),
       vp_router := (\<lambda>_ _. Inr (JObj [(''external_gateway_info'', JObj [(''external_fixed_ips'',
         JList [JObj [(''ip_address'', JStr ''172.16.0.5'')]])])]))\<rparr>,
     ve_firewall = (\<lambda>_ _ e. (Inr (), e)), ve_version = (\<lambda>_. 4)\<rparr>"

definition vpn_conn :: json where
  "vpn_conn = JObj [(''id'', JStr ''c1''), (''vpnservice_id'', JStr ''s1''), (''ipsecpolicy_id'', JStr ''p1''), (''name'', JStr ''a''),
     (''peer_id'', JStr ''1.1.1.1''), (''peer_address'', JStr ''1.1.1.1''), (''peer_cidrs'', JList [JStr ''10.7.0.0/24'']),
     (''auth_mode'', JStr ''psk''), (''psk'', JStr ''k'')]"

definition vpn_sample_case :: vpn_case where
  "vpn_sample_case = \<lparr>vc_conn = vpn_conn,
     vc_site = projr (site_json vpn_conn (projr (vp_ipsecpolicy (ve_plugin (vpn_sample kept_vcns)) () JNull)) (JStr ''10.0.0.0/24'')
       (JStr ''172.16.0.5'')),
     vc_srv_id = JStr ''s1'', vc_srv = projr (vp_vpnservice (ve_plugin (vpn_sample kept_vcns)) () JNull), vc_cidr = JStr ''10.0.0.0/24'',
     vc_router = ''r1'', vc_peer = JList [JStr ''10.7.0.0/24'']\<rparr>"

definition other_site :: json where
  "other_site = JObj [(''name'', JStr ''b''), (''peerSubnets'', JObj [(''subnets'', JList [JStr ''10.8.0.0/24''])]),
     (''localSubnets'', JObj [(''subnets'', JList [JStr ''10.0.0.0/24''])])]"

definition vpn_sample_state :: "(json, router_binding list, edge_vnic_binding list) vpn_state" where
  "vpn_sample_state = \<lparr>vn_edge = echo_state\<lparr>es_world := sites_config [other_site] True\<rparr>, vn_calls = []\<rparr>"

theorem created_connection_is_deleted_witness:
  "\<exists>s1 s2. create_ipsec_site_connection (vpn_sample kept_vcns) () vpn_conn vpn_sample_state = (Inr (), s1) \<and>
    active_sites (world s1) = [other_site, vc_site vpn_sample_case] \<and>
    delete_ipsec_site_connection (vpn_sample kept_vcns) () vpn_conn s1 = (Inr (), s2) \<and> active_sites (world s2) = [other_site]"
proof -
  let ?D = "vpn_sample kept_vcns" let ?s = vpn_sample_state let ?x = vpn_sample_case
  have m: "ipsec_manager (ee_vcns (ve_edge ?D)) ''edge-1'' (\<lambda>_. True) id"
    using kept.ipsec_manager_axioms by (simp add: vpn_sample_def)
  have r: "resolved ?D () ?x"
    unfolding resolved_def
    by (rule conjI, rule exI [of _ "JStr ''p1''"], rule exI [of _ "projr (vp_ipsecpolicy (ve_plugin ?D) () JNull)"],
        rule exI [of _ "projr (vp_router (ve_plugin ?D) () JNull)"], rule exI [of _ "JStr ''172.16.0.5''"]; code_simp)
  have e: "on_own_edge ?D ?x ''edge-1'' ?s"
    unfolding on_own_edge_def by (rule exI [of _ "sample_row ''r1'' ST_ACTIVE (Some ''edge-1'')"]) code_simp
  have k: "keeps_sites ?D () (\<lambda>_. True) id (vc_router ?x)"
    by (auto simp: keeps_sites_def vpn_sample_def intro: edge_state.equality)
  have i: "jfield ''id'' (vc_conn ?x) = Inr (JStr ''c1'')" and l: "enabled_sites (id (world ?s)) = Inr (Some [other_site])"
    and n: "matching_site (vc_conn ?x) (vc_cidr ?x) (active_sites (id (world ?s))) = Inr None"
    and a: "active_sites (world ?s) = [other_site]" by code_simp+
  have c: "vc_conn ?x = vpn_conn" by (simp add: vpn_sample_case_def)
  from created_connection_is_deleted [OF m r e k i TrueI l n] show ?thesis unfolding c a id_apply append.simps by blast
qed



end
