(* ===== verification/Zones.thy ===== *)
theory Zones
  imports EdgePool ApiRequest
begin

text \<open>
  The availability zones (\<open>common/availability_zones.py\<close>, \<open>plugins/nsx_v/availability_zones.py\<close>): a zone is made of a line of
  the configuration, of a section of its own, or of the global options, and a network or router is given the zone of its first
  hint. The configuration is read through oslo.config: a record of the options' values, with the values of each zone's
  section. A zone extends the record that the operations on edges use.
\<close>

subsection \<open>Configuration\<close>

record az_opts =
  ao_resource_pool_id :: "string option"
  ao_datastore_id :: "string option"
  ao_edge_ha :: bool
  ao_ha_datastore_id :: "string option"
  ao_ha_placement_random :: "bool option"
  ao_datacenter_moid :: "string option"
  ao_backup_edge_pool :: "string list"
  ao_external_network :: "string option"
  ao_vdn_scope_id :: "string option"
  ao_dvs_id :: "string option"
  ao_edge_host_groups :: "string list"
  ao_exclusive_dhcp_edge :: bool
  ao_bind_floatingip_to_all_interfaces :: bool
  ao_mgt_net_moid :: "string option"
  ao_mgt_net_proxy_ips :: "string list"
  ao_mgt_net_proxy_netmask :: "string option"
  ao_mgt_net_default_gateway :: "string option"

record nsxv_conf =
  cf_resource_pool_id :: "string option"
  cf_datastore_id :: "string option"
  cf_edge_ha :: bool
  cf_ha_datastore_id :: "string option"
  cf_ha_placement_random :: bool
  cf_datacenter_moid :: "string option"
  cf_backup_edge_pool :: "string list"
  cf_external_network :: "string option"
  cf_vdn_scope_id :: "string option"
  cf_dvs_id :: "string option"
  cf_edge_host_groups :: "string list"
  cf_exclusive_dhcp_edge :: bool
  cf_bind_floatingip_to_all_interfaces :: bool
  cf_mgt_net_moid :: "string option"
  cf_mgt_net_proxy_ips :: "string list"
  cf_mgt_net_proxy_netmask :: "string option"
  cf_mgt_net_default_gateway :: "string option"
  cf_availability_zones :: "string list"
  cf_section :: "string \<Rightarrow> az_opts"
  cf_default_zones :: "string list"
  cf_tvd_default_zones :: "string list"
  cf_cluster_moid :: "string list"
  cf_init_validation :: bool

record zone = az +
  zn_is_default :: bool
  zn_metadata_support :: bool
  zn_mgt_net_moid :: "string option"
  zn_mgt_net_proxy_ips :: "string list"
  zn_mgt_net_proxy_netmask :: "string option"
  zn_mgt_net_default_gateway :: "string option"

datatype 'd zone_exc = Bad_option string | Az_not_found string | Many_hints | Zone_manager "'d vcns_exc"

text \<open>A section exists for every zone of the option, but for none if the first is a line with values.\<close>

definition az_registered :: "nsxv_conf \<Rightarrow> string \<Rightarrow> bool" where
  "az_registered C name \<longleftrightarrow>
     (case cf_availability_zones C of [] \<Rightarrow> False | z # zs \<Rightarrow> CHR '':'' \<notin> set z \<and> name \<in> set (z # zs))"

definition get_nsxv_az_opts :: "nsxv_conf \<Rightarrow> string \<Rightarrow> 'd zone_exc + az_opts" where
  "get_nsxv_az_opts C name = (if az_registered C name then Inr (cf_section C name) else Inl (Bad_option (''az:'' @ name)))"

text \<open>A text that is set, and an option with the global one in its place.\<close>

definition given :: "string option \<Rightarrow> bool" where
  "given v \<longleftrightarrow> v \<noteq> None \<and> v \<noteq> Some []"

definition or_global :: "string option \<Rightarrow> string option \<Rightarrow> string option" where
  "or_global v g = (if given v then v else g)"

subsection \<open>One zone\<close>

definition zone_defaults :: "nsxv_conf \<Rightarrow> zone" where
  "zone_defaults C = \<lparr>az_name = [], az_datacenter_moid = cf_datacenter_moid C, az_resource_pool = cf_resource_pool_id C,
     az_datastore_id = cf_datastore_id C, az_ha_datastore_id = cf_ha_datastore_id C, az_ha_placement_random = cf_ha_placement_random C,
     az_edge_ha = cf_edge_ha C, az_external_network = cf_external_network C, az_edge_host_groups = cf_edge_host_groups C,
     az_backup_edge_pool = cf_backup_edge_pool C, az_dvs_id = cf_dvs_id C, az_vdn_scope_id = cf_vdn_scope_id C,
     az_bind_floatingip_to_all_interfaces = cf_bind_floatingip_to_all_interfaces C,
     az_exclusive_dhcp_edge = cf_exclusive_dhcp_edge C, zn_is_default = False, zn_metadata_support = True,
     zn_mgt_net_moid = cf_mgt_net_moid C, zn_mgt_net_proxy_ips = cf_mgt_net_proxy_ips C,
     zn_mgt_net_proxy_netmask = cf_mgt_net_proxy_netmask C, zn_mgt_net_default_gateway = cf_mgt_net_default_gateway C\<rparr>"

definition without_metadata :: "zone \<Rightarrow> zone" where
  "without_metadata z = z\<lparr>zn_metadata_support := False, zn_mgt_net_moid := None, zn_mgt_net_proxy_ips := [],
     zn_mgt_net_proxy_netmask := None, zn_mgt_net_default_gateway := None\<rparr>"

text \<open>\<open>name:resource pool:datastore:edge_ha:HA datastore\<close>; the other options are the global ones.\<close>

definition init_from_config_line :: "nsxv_conf \<Rightarrow> string \<Rightarrow> zone \<Rightarrow> 'd zone_exc + zone" where
  "init_from_config_line C line z =
     (let vs = split_at_char (CHR '':'') line in
      if length vs < 4 \<or> length vs > 5 then Inl (Bad_option ''availability_zones'')
      else if lower (vs ! 3) \<noteq> ''true'' \<and> lower (vs ! 3) \<noteq> ''false'' then Inl (Bad_option ''availability_zones'')
      else
        let edge_ha = (lower (vs ! 3) = ''true'') in
        if \<not> edge_ha \<and> length vs = 5 then Inl (Bad_option ''availability_zones'')
        else Inr (without_metadata (z\<lparr>az_resource_pool := Some (vs ! 1), az_datastore_id := Some (vs ! 2), az_edge_ha := edge_ha,
               az_ha_datastore_id := (if length vs = 5 then Some (vs ! 4) else None),
               az_ha_placement_random := cf_ha_placement_random C, az_datacenter_moid := cf_datacenter_moid C,
               az_backup_edge_pool := cf_backup_edge_pool C, az_external_network := cf_external_network C,
               az_vdn_scope_id := cf_vdn_scope_id C, az_dvs_id := cf_dvs_id C, az_edge_host_groups := cf_edge_host_groups C,
               az_exclusive_dhcp_edge := cf_exclusive_dhcp_edge C,
               az_bind_floatingip_to_all_interfaces := cf_bind_floatingip_to_all_interfaces C\<rparr>)))"

text \<open>The metadata options of a section: proxy addresses of its own, which must not be among the global ones, or none, for which
  the switch must be the global one.\<close>

definition init_metadata :: "nsxv_conf \<Rightarrow> az_opts \<Rightarrow> zone \<Rightarrow> 'd zone_exc + zone" where
  "init_metadata C o' z =
     (let ips = ao_mgt_net_proxy_ips o' in
      if ips \<noteq> [] then
        (if set ips \<inter> set (cf_mgt_net_proxy_ips C) \<noteq> {} then Inl (Bad_option ''mgt_net_proxy_ips'')
         else Inr (z\<lparr>zn_metadata_support := True, zn_mgt_net_proxy_ips := ips,
                zn_mgt_net_moid := or_global (ao_mgt_net_moid o') (cf_mgt_net_moid C),
                zn_mgt_net_proxy_netmask := or_global (ao_mgt_net_proxy_netmask o') (cf_mgt_net_proxy_netmask C),
                zn_mgt_net_default_gateway := or_global (ao_mgt_net_default_gateway o') (cf_mgt_net_default_gateway C)\<rparr>))
      else if given (ao_dvs_id o') \<and> ao_dvs_id o' \<noteq> cf_dvs_id C then Inl (Bad_option ''mgt_net_proxy_ips'')
      else Inr (without_metadata z))"

definition init_from_config_section :: "nsxv_conf \<Rightarrow> string \<Rightarrow> zone \<Rightarrow> 'd zone_exc + zone" where
  "init_from_config_section C name z =
     bind_res (get_nsxv_az_opts C name) (\<lambda>o'.
       if \<not> given (ao_resource_pool_id o') then Inl (Bad_option ''resource_pool_id'')
       else if \<not> given (ao_datastore_id o') then Inl (Bad_option ''datastore_id'')
       else
         let ha_datastore = (if ao_edge_ha o' then ao_ha_datastore_id o' else None) in
         if given ha_datastore \<and> \<not> ao_edge_ha o' then Inl (Bad_option ''ha_datastore_id'')
         else init_metadata C o' (z\<lparr>az_resource_pool := ao_resource_pool_id o', az_datastore_id := ao_datastore_id o',
                az_edge_ha := ao_edge_ha o', az_ha_datastore_id := ha_datastore,
                az_ha_placement_random := (case ao_ha_placement_random o' of Some b \<Rightarrow> b | None \<Rightarrow> cf_ha_placement_random C),
                az_datacenter_moid := or_global (ao_datacenter_moid o') (cf_datacenter_moid C),
                az_backup_edge_pool := (if ao_backup_edge_pool o' \<noteq> [] then ao_backup_edge_pool o' else cf_backup_edge_pool C),
                az_external_network := or_global (ao_external_network o') (cf_external_network C),
                az_vdn_scope_id := or_global (ao_vdn_scope_id o') (cf_vdn_scope_id C),
                az_dvs_id := or_global (ao_dvs_id o') (cf_dvs_id C),
                az_edge_host_groups := (if ao_edge_host_groups o' \<noteq> [] then ao_edge_host_groups o' else cf_edge_host_groups C),
                az_exclusive_dhcp_edge := ao_exclusive_dhcp_edge o',
                az_bind_floatingip_to_all_interfaces := ao_bind_floatingip_to_all_interfaces o'\<rparr>))"

definition validate_zone_name :: "string \<Rightarrow> 'd zone_exc + unit" where
  "validate_zone_name name = guard_res (length name \<le> 36) (Bad_option ''availability_zones'')"

definition new_zone :: "nsxv_conf \<Rightarrow> string option \<Rightarrow> 'd zone_exc + zone" where
  "new_zone C line =
     (let z = zone_defaults C in
      case line of
        Some l \<Rightarrow>
          if l = [] then Inr (z\<lparr>az_name := DEFAULT_NAME, zn_is_default := True\<rparr>)
          else if CHR '':'' \<in> set l then
            let name = hd (split_at_char (CHR '':'') l) in
            bind_res (validate_zone_name name) (\<lambda>_. init_from_config_line C l (z\<lparr>az_name := name\<rparr>))
          else bind_res (validate_zone_name l) (\<lambda>_. init_from_config_section C l (z\<lparr>az_name := l\<rparr>))
      | None \<Rightarrow> Inr (z\<lparr>az_name := DEFAULT_NAME, zn_is_default := True\<rparr>))"

subsection \<open>All zones\<close>

record zones =
  zs_zones :: "(string, zone) pydict"
  zs_default :: zone

fun add_zones :: "nsxv_conf \<Rightarrow> string option list \<Rightarrow> (string, zone) pydict \<Rightarrow> 'd zone_exc + (string, zone) pydict" where
  "add_zones C [] d = Inr d"
| "add_zones C (l # ls) d = bind_res (new_zone C l) (\<lambda>z. add_zones C ls (AList.update (az_name z) z d))"

definition new_zones :: "nsxv_conf \<Rightarrow> bool \<Rightarrow> 'd zone_exc + zones" where
  "new_zones C use_tvd_config =
     bind_res (add_zones C (map Some (cf_availability_zones C) @ [None]) []) (\<lambda>d.
       case (if use_tvd_config then cf_tvd_default_zones C else cf_default_zones C) of
         [] \<Rightarrow> (case map_of d DEFAULT_NAME of Some z \<Rightarrow> Inr \<lparr>zs_zones = d, zs_default = z\<rparr> | None \<Rightarrow> Inl (Zone_manager (VPy KeyError)))
       | [n] \<Rightarrow> (case map_of d n of Some z \<Rightarrow> Inr \<lparr>zs_zones = d, zs_default = z\<rparr> | None \<Rightarrow> Inl (Bad_option ''default_availability_zones''))
       | _ \<Rightarrow> Inl (Bad_option ''default_availability_zones''))"

definition zone_named :: "zones \<Rightarrow> string \<Rightarrow> zone" where
  "zone_named Z name = (case map_of (zs_zones Z) name of Some z \<Rightarrow> z | None \<Rightarrow> zs_default Z)"

definition list_availability_zones :: "zones \<Rightarrow> string list" where
  "list_availability_zones Z = map fst (zs_zones Z)"

definition list_availability_zones_objects :: "zones \<Rightarrow> zone list" where
  "list_availability_zones_objects Z = map snd (zs_zones Z)"

text \<open>Which of several unknown hints the exception names does not matter: there is one hint at most.\<close>

definition validate_obj_azs :: "zones \<Rightarrow> string list \<Rightarrow> 'd zone_exc + unit" where
  "validate_obj_azs Z hints =
     (if length hints > 1 then Inl Many_hints
      else (case filter (\<lambda>h. h \<notin> set (list_availability_zones Z)) hints of [] \<Rightarrow> Inr () | h # _ \<Rightarrow> Inl (Az_not_found h)))"

text \<open>The zone that is found is an object, and so never false: an unknown hint is not refused here.\<close>

definition get_az_by_hint :: "zones \<Rightarrow> string \<Rightarrow> zone" where
  "get_az_by_hint Z hint = zone_named Z hint"

definition get_obj_az_by_hints :: "zones \<Rightarrow> string list option \<Rightarrow> zone" where
  "get_obj_az_by_hints Z hints = (case hints of Some (h # _) \<Rightarrow> get_az_by_hint Z h | _ \<Rightarrow> zs_default Z)"

definition get_inventory :: "zones \<Rightarrow> string set" where
  "get_inventory Z = set (concat (map (\<lambda>z. map the (filter given [az_resource_pool z, az_datastore_id z, az_ha_datastore_id z]))
     (list_availability_zones_objects Z)))"

definition get_unique_non_default_param :: "(zone \<Rightarrow> string option) \<Rightarrow> zones \<Rightarrow> string list" where
  "get_unique_non_default_param f Z =
     (let zs = list_availability_zones_objects Z;
          default_val = (case filter zn_is_default zs of [] \<Rightarrow> None | ds \<Rightarrow> f (List.last ds));
          vals = remdups (map (\<lambda>z. the (f z)) (filter (\<lambda>z. \<not> zn_is_default z \<and> given (f z)) zs))
      in if given default_val then removeAll (the default_val) vals else vals)"

definition get_additional_vdn_scope :: "zones \<Rightarrow> string list" where
  "get_additional_vdn_scope = get_unique_non_default_param az_vdn_scope_id"
definition get_additional_mgt_net :: "zones \<Rightarrow> string list" where
  "get_additional_mgt_net = get_unique_non_default_param zn_mgt_net_moid"
definition get_additional_ext_net :: "zones \<Rightarrow> string list" where
  "get_additional_ext_net = get_unique_non_default_param az_external_network"
definition get_additional_datacenter :: "zones \<Rightarrow> string list" where
  "get_additional_datacenter = get_unique_non_default_param az_datacenter_moid"
definition get_additional_dvs_ids :: "zones \<Rightarrow> string list" where
  "get_additional_dvs_ids = get_unique_non_default_param az_dvs_id"

subsection \<open>Versions\<close>

text \<open>\<open>LooseVersion\<close>: runs of digits are numbers, runs of other characters are texts, and dots only separate.\<close>

datatype version_part = Vnum int | Vtext string

definition char_kind :: "char \<Rightarrow> nat" where
  "char_kind c = (let n = of_char c :: nat in if 48 \<le> n \<and> n \<le> 57 then 0 else if 97 \<le> n \<and> n \<le> 122 then 1 else if c = CHR ''.'' then 2 else 3)"

fun runs :: "string \<Rightarrow> string list" where
  "runs [] = []"
| "runs (c # cs) = (case runs cs of [] \<Rightarrow> [[c]] | r # rs \<Rightarrow> if char_kind (hd r) = char_kind c then (c # r) # rs else [c] # r # rs)"

definition version_parts :: "string \<Rightarrow> version_part list" where
  "version_parts s = map (\<lambda>r. if char_kind (hd r) = 0 then Vnum (the (py_int r)) else Vtext r) (filter (\<lambda>r. char_kind (hd r) \<noteq> 2) (runs s))"

fun text_less :: "string \<Rightarrow> string \<Rightarrow> bool" where
  "text_less s [] = False"
| "text_less [] (d # t) = True"
| "text_less (c # s) (d # t) = ((of_char c :: nat) < of_char d \<or> c = d \<and> text_less s t)"

fun parts_less :: "version_part list \<Rightarrow> version_part list \<Rightarrow> py_exc + bool" where
  "parts_less ps [] = Inr False"
| "parts_less [] (q # qs) = Inr True"
| "parts_less (p # ps) (q # qs) =
     (if p = q then parts_less ps qs
      else (case (p, q) of (Vnum a, Vnum b) \<Rightarrow> Inr (a < b) | (Vtext a, Vtext b) \<Rightarrow> Inr (text_less a b) | _ \<Rightarrow> Inl TypeError))"

definition version_at_least :: "string \<Rightarrow> string \<Rightarrow> py_exc + bool" where
  "version_at_least v w = bind_res (parts_less (version_parts v) (version_parts w)) (\<lambda>b. Inr (\<not> b))"

definition is_nsxv_version_6_2 :: "string \<Rightarrow> py_exc + bool" where "is_nsxv_version_6_2 v = version_at_least v ''6.2''"
definition is_nsxv_version_6_3 :: "string \<Rightarrow> py_exc + bool" where "is_nsxv_version_6_3 v = version_at_least v ''6.3''"
definition is_nsxv_version_6_4_6 :: "string \<Rightarrow> py_exc + bool" where "is_nsxv_version_6_4_6 v = version_at_least v ''6.4.6''"
definition is_nsxv_version_6_4_9 :: "string \<Rightarrow> py_exc + bool" where "is_nsxv_version_6_4_9 v = version_at_least v ''6.4.9''"

definition is_nsxv_dhcp_binding_supported :: "string \<Rightarrow> py_exc + bool" where
  "is_nsxv_dhcp_binding_supported v =
     bind_res (version_at_least v ''6.3.3'') (\<lambda>a. if a then Inr True
       else bind_res (version_at_least v ''6.2.8'') (\<lambda>b. if \<not> b then Inr False
       else bind_res (version_at_least v ''6.3'') (\<lambda>c. Inr (\<not> c))))"

subsection \<open>Connectivity\<close>

definition validate_opt_connectivity :: "json \<Rightarrow> string \<Rightarrow> string option \<Rightarrow> py_exc + bool" where
  "validate_opt_connectivity info field v =
     bind_res (bind_res (jfield_default field (JList []) info) as_list)
       (\<lambda>objs. bind_res (map_res (jfield ''id'') (takeWhile (\<lambda>o'. jfield ''id'' o' \<noteq> Inr (opt_json v)) objs))
          (\<lambda>_. Inr (\<exists>o' \<in> set objs. jfield ''id'' o' = Inr (opt_json v))))"

definition on_network :: "json \<Rightarrow> string option \<Rightarrow> py_exc + bool" where
  "on_network info v =
     bind_res (validate_opt_connectivity info ''standardNetworks'' v) (\<lambda>a.
     bind_res (validate_opt_connectivity info ''distributedVirtualPortGroups'' v) (\<lambda>b. Inr (a \<or> b)))"

record connected =
  cn_ext :: bool
  cn_mgt :: bool
  cn_dvs :: bool

definition check_cluster :: "zone \<Rightarrow> json \<Rightarrow> connected \<Rightarrow> py_exc + connected" where
  "check_cluster z info c =
     bind_res (on_network info (az_external_network z)) (\<lambda>ext.
     bind_res (if given (zn_mgt_net_moid z) then on_network info (zn_mgt_net_moid z) else Inr False) (\<lambda>mgt.
     bind_res (if given (az_dvs_id z) then validate_opt_connectivity info ''distributedVirtualSwitches'' (az_dvs_id z) else Inr False) (\<lambda>dvs.
       Inr \<lparr>cn_ext = cn_ext c \<or> ext, cn_mgt = cn_mgt c \<or> mgt, cn_dvs = cn_dvs c \<or> dvs\<rparr>)))"

fun find_cluster :: "string \<Rightarrow> json list \<Rightarrow> py_exc + json option" where
  "find_cluster name [] = Inr None"
| "find_cluster name (i # is) =
     bind_res (jfield_opt ''clusterId'' i) (\<lambda>c. if c = JStr name then Inr (Some i) else find_cluster name is)"

definition zone_py :: "py_exc + 'a \<Rightarrow> 'd zone_exc + 'a" where
  "zone_py r = (case r of Inl e \<Rightarrow> Inl (Zone_manager (VPy e)) | Inr x \<Rightarrow> Inr x)"

fun check_clusters :: "nsxv_conf \<Rightarrow> zone \<Rightarrow> json list \<Rightarrow> string list \<Rightarrow> connected \<Rightarrow> 'd zone_exc + connected" where
  "check_clusters C z infos [] c = Inr c"
| "check_clusters C z infos (name # names) c =
     bind_res (zone_py (find_cluster name infos)) (\<lambda>found.
       case found of
         Some info \<Rightarrow> bind_res (zone_py (check_cluster z info c)) (check_clusters C z infos names)
       | None \<Rightarrow> if cf_init_validation C then Inl (Bad_option ''vdn_scope_id'') else check_clusters C z infos names c)"

text \<open>What is missing is refused, or, without \<open>init_validation\<close>, only logged.\<close>

definition refuse_unless :: "nsxv_conf \<Rightarrow> bool \<Rightarrow> string \<Rightarrow> 'd zone_exc + unit" where
  "refuse_unless C ok opt = guard_res (ok \<or> \<not> cf_init_validation C) (Bad_option opt)"

definition check_connectivity :: "nsxv_conf \<Rightarrow> zone \<Rightarrow> json \<Rightarrow> 'd zone_exc + unit" where
  "check_connectivity C z info =
     (if \<not> truthy_json info then Inr ()
      else bind_res (zone_py (jfield_opt ''clustersInfo'' info)) (\<lambda>infos.
        if \<not> truthy_json infos then Inr ()
        else bind_res (zone_py (as_list infos)) (\<lambda>infos.
          bind_res (check_clusters C z infos (cf_cluster_moid C) \<lparr>cn_ext = False, cn_mgt = False, cn_dvs = False\<rparr>) (\<lambda>c.
          bind_res (refuse_unless C (given (az_external_network z) \<longrightarrow> cn_ext c) ''external_network'') (\<lambda>_.
          bind_res (refuse_unless C (given (zn_mgt_net_moid z) \<longrightarrow> cn_mgt c) ''mgt_net_moid'') (\<lambda>_.
          refuse_unless C (given (az_dvs_id z) \<longrightarrow> cn_dvs c) ''dvs_id''))))))"

definition validate_az_connectivity :: "nsxv_conf \<Rightarrow> ('w, 'd) vcns \<Rightarrow> zone \<Rightarrow> 'w \<Rightarrow> ('d zone_exc + unit) \<times> 'w" where
  "validate_az_connectivity C V z w =
     (case get_tz_connectivity_info V (edge_ref (az_vdn_scope_id z)) w of
        (Inl e, w) \<Rightarrow> (Inl (Zone_manager e), w)
      | (Inr info, w) \<Rightarrow> (check_connectivity C z info, w))"

definition validate_connectivity :: "nsxv_conf \<Rightarrow> ('w, 'd) vcns \<Rightarrow> zones \<Rightarrow> json option \<Rightarrow> 'w \<Rightarrow> ('d zone_exc + unit) \<times> 'w" where
  "validate_connectivity C V Z cached w =
     (case get_version V cached w of
        ((ver, _), w) \<Rightarrow>
          (case bind_res (as_str ver) is_nsxv_version_6_4_6 of
             Inl e \<Rightarrow> (Inl (Zone_manager (VPy e)), w)
           | Inr b \<Rightarrow>
               if \<not> b \<or> cf_cluster_moid C = [] then (Inr (), w)
               else each_st (validate_az_connectivity C V) (list_availability_zones_objects Z) w))"

subsection \<open>What a configuration makes\<close>

text \<open>A zone with options of its own: where to deploy is set, a second datastore needs high availability, and metadata proxies of
  its own differ from the global ones.\<close>

definition own_zone :: "nsxv_conf \<Rightarrow> zone \<Rightarrow> bool" where
  "own_zone C z \<longleftrightarrow> \<not> zn_is_default z \<and> az_resource_pool z \<noteq> None \<and> az_datastore_id z \<noteq> None \<and>
     (\<not> az_edge_ha z \<longrightarrow> az_ha_datastore_id z = None) \<and> length (az_name z) \<le> 36 \<and>
     (if zn_metadata_support z then zn_mgt_net_proxy_ips z \<noteq> [] \<and> set (zn_mgt_net_proxy_ips z) \<inter> set (cf_mgt_net_proxy_ips C) = {}
      else zn_mgt_net_moid z = None \<and> zn_mgt_net_proxy_ips z = [])"

definition default_zone :: "nsxv_conf \<Rightarrow> zone" where
  "default_zone C = (zone_defaults C)\<lparr>az_name := DEFAULT_NAME, zn_is_default := True\<rparr>"

definition zone_line_name :: "string \<Rightarrow> string" where
  "zone_line_name l = hd (split_at_char (CHR '':'') l)"

lemma split_hd: "CHR '':'' \<notin> set l \<Longrightarrow> split_at_char (CHR '':'') l = [l]"
  by (rule split_at_char_plain)

lemma own_metadata:
  assumes "init_metadata C o' z = Inr z'" "\<not> zn_is_default z"
  shows "az_name z' = az_name z \<and> az_resource_pool z' = az_resource_pool z \<and> az_datastore_id z' = az_datastore_id z \<and>
    az_edge_ha z' = az_edge_ha z \<and> az_ha_datastore_id z' = az_ha_datastore_id z \<and> \<not> zn_is_default z' \<and>
    (if zn_metadata_support z' then zn_mgt_net_proxy_ips z' \<noteq> [] \<and> set (zn_mgt_net_proxy_ips z') \<inter> set (cf_mgt_net_proxy_ips C) = {}
     else zn_mgt_net_moid z' = None \<and> zn_mgt_net_proxy_ips z' = [])"
  using assms by (auto simp: init_metadata_def without_metadata_def Let_def split: if_splits)

lemma section_zone:
  assumes "init_from_config_section C name z = (Inr z' :: 'd zone_exc + zone)" "\<not> zn_is_default z"
  shows "az_name z' = az_name z \<and> \<not> zn_is_default z' \<and> given (az_resource_pool z') \<and> given (az_datastore_id z') \<and>
    (\<not> az_edge_ha z' \<longrightarrow> az_ha_datastore_id z' = None) \<and>
    (if zn_metadata_support z' then zn_mgt_net_proxy_ips z' \<noteq> [] \<and> set (zn_mgt_net_proxy_ips z') \<inter> set (cf_mgt_net_proxy_ips C) = {}
     else zn_mgt_net_moid z' = None \<and> zn_mgt_net_proxy_ips z' = [])"
proof -
  obtain o' where o': "given (ao_resource_pool_id o')" "given (ao_datastore_id o')"
    "\<exists>y. init_metadata C o' y = (Inr z' :: 'd zone_exc + zone) \<and> \<not> zn_is_default y \<and> az_name y = az_name z \<and>
       az_resource_pool y = ao_resource_pool_id o' \<and> az_datastore_id y = ao_datastore_id o' \<and> az_edge_ha y = ao_edge_ha o' \<and>
       az_ha_datastore_id y = (if ao_edge_ha o' then ao_ha_datastore_id o' else None)"
  proof -
    from assms show thesis
      unfolding init_from_config_section_def Let_def bind_res_Inr_iff
      by (elim exE conjE, intro that) (auto split: if_splits simp del: ex_simps intro!: exI)
  qed
  then obtain y where y: "init_metadata C o' y = (Inr z' :: 'd zone_exc + zone)" "\<not> zn_is_default y" "az_name y = az_name z"
    "az_resource_pool y = ao_resource_pool_id o'" "az_datastore_id y = ao_datastore_id o'" "az_edge_ha y = ao_edge_ha o'"
    "az_ha_datastore_id y = (if ao_edge_ha o' then ao_ha_datastore_id o' else None)" by auto
  from own_metadata [OF y(1,2)] y o'(1,2) show ?thesis by auto
qed

lemma new_zone_Some:
  assumes "new_zone C (Some l) = (Inr z :: 'd zone_exc + zone)" "l \<noteq> []"
  shows "own_zone C z \<and> az_name z = zone_line_name l"
proof (cases "CHR '':'' \<in> set l")
  case True
  with assms show ?thesis
    by (auto simp: new_zone_def own_zone_def zone_line_name_def bind_res_Inr_iff validate_zone_name_def init_from_config_line_def
        without_metadata_def zone_defaults_def Let_def split: if_splits)
next
  case False
  with assms have l: "length l \<le> 36" "init_from_config_section C l ((zone_defaults C)\<lparr>az_name := l\<rparr>) = (Inr z :: 'd zone_exc + zone)"
    by (auto simp: new_zone_def bind_res_Inr_iff validate_zone_name_def Let_def)
  from section_zone [OF l(2)] l(1) False show ?thesis
    by (auto simp: own_zone_def given_def zone_line_name_def split_hd zone_defaults_def)
qed

definition good_zones :: "nsxv_conf \<Rightarrow> (string, zone) pydict \<Rightarrow> bool" where
  "good_zones C d \<longleftrightarrow> distinct (map fst d) \<and>
     (\<forall>(n, z) \<in> set d. az_name z = n \<and> (own_zone C z \<or> z = default_zone C))"

lemma good_zones_update:
  assumes "good_zones C d" "own_zone C z \<or> z = default_zone C"
  shows "good_zones C (AList.update (az_name z) z d)"
proof -
  have "(n, y) \<in> set (AList.update (az_name z) z d) \<Longrightarrow> (n, y) = (az_name z, z) \<or> (n, y) \<in> set d" for n y
    by (induction d) (auto split: if_splits)
  with assms show ?thesis unfolding good_zones_def by (fastforce simp: distinct_update)
qed

lemma add_zones_good:
  assumes "add_zones C ls d = (Inr d' :: 'd zone_exc + (string, zone) pydict)" "good_zones C d"
  shows "good_zones C d' \<and> (\<forall>n. n \<in> fst ` set d \<or> (\<exists>l \<in> set ls. n = (case l of Some l \<Rightarrow> if l = [] then DEFAULT_NAME else zone_line_name l | None \<Rightarrow> DEFAULT_NAME)) \<longleftrightarrow> n \<in> fst ` set d')"
  using assms
proof (induction ls arbitrary: d)
  case (Cons l ls)
  then obtain z where z: "new_zone C l = (Inr z :: 'd zone_exc + zone)"
    "add_zones C ls (AList.update (az_name z) z d) = (Inr d' :: 'd zone_exc + (string, zone) pydict)"
    by (auto simp: bind_res_Inr_iff)
  have nz: "(own_zone C z \<or> z = default_zone C) \<and> az_name z = (case l of Some l \<Rightarrow> if l = [] then DEFAULT_NAME else zone_line_name l | None \<Rightarrow> DEFAULT_NAME)"
  proof (cases l)
    case (Some k)
    show ?thesis
    proof (cases "k = []")
      case True
      then show ?thesis using z(1) Some by (auto simp: new_zone_def default_zone_def Let_def)
    qed (use z(1) Some new_zone_Some in auto)
  qed (use z(1) in \<open>auto simp: new_zone_def default_zone_def\<close>)
  from Cons.IH [OF z(2) good_zones_update [OF Cons.prems(2)]] nz show ?case by (auto simp: dom_update)
qed auto


lemma new_zones_add:
  assumes "new_zones C tvd = (Inr Z :: 'd zone_exc + zones)"
  shows "add_zones C (map Some (cf_availability_zones C) @ [None]) [] = (Inr (zs_zones Z) :: 'd zone_exc + (string, zone) pydict)"
    and "zs_default Z \<in> snd ` set (zs_zones Z)"
proof -
  from assms obtain d where d: "add_zones C (map Some (cf_availability_zones C) @ [None]) [] = (Inr d :: 'd zone_exc + (string, zone) pydict)"
    "(case (if tvd then cf_tvd_default_zones C else cf_default_zones C) of
         [] \<Rightarrow> (case map_of d DEFAULT_NAME of Some z \<Rightarrow> Inr \<lparr>zs_zones = d, zs_default = z\<rparr> | None \<Rightarrow> Inl (Zone_manager (VPy KeyError)))
       | [n] \<Rightarrow> (case map_of d n of Some z \<Rightarrow> Inr \<lparr>zs_zones = d, zs_default = z\<rparr> | None \<Rightarrow> Inl (Bad_option ''default_availability_zones''))
       | _ \<Rightarrow> Inl (Bad_option ''default_availability_zones'')) = (Inr Z :: 'd zone_exc + zones)"
    unfolding new_zones_def bind_res_Inr_iff by blast
  obtain n z where z: "map_of d n = Some z" "Z = \<lparr>zs_zones = d, zs_default = z\<rparr>"
  proof (cases "if tvd then cf_tvd_default_zones C else cf_default_zones C")
    case Nil
    with d(2) that show thesis unfolding Nil by (cases "map_of d DEFAULT_NAME") auto
  next
    case (Cons n ns)
    with d(2) that show thesis unfolding Cons by (cases ns; cases "map_of d n") auto
  qed
  show "add_zones C (map Some (cf_availability_zones C) @ [None]) [] = (Inr (zs_zones Z) :: 'd zone_exc + (string, zone) pydict)"
    using d(1) z(2) by simp
  show "zs_default Z \<in> snd ` set (zs_zones Z)" using map_of_SomeD [OF z(1)] z(2) by (auto intro: rev_image_eqI)
qed



text \<open>a network or router whose hints have been accepted gets the zone of the hint, and the default zone without one.\<close>

theorem accepted_hint_is_used:
  assumes "new_zones C tvd = (Inr Z :: 'd zone_exc + zones)" "validate_obj_azs Z hints = (Inr () :: 'd zone_exc + unit)"
  shows "get_obj_az_by_hints Z (Some hints) \<in> set (list_availability_zones_objects Z) \<and>
    (hints = [] \<and> get_obj_az_by_hints Z (Some hints) = zs_default Z \<or>
     (\<exists>h. hints = [h] \<and> az_name (get_obj_az_by_hints Z (Some hints)) = h))"
proof (cases hints)
  case Nil
  then show ?thesis using new_zones_add(2) [OF assms(1)] by (simp add: get_obj_az_by_hints_def list_availability_zones_objects_def)
next
  case (Cons h t)
  with assms(2) have h: "hints = [h]" "h \<in> fst ` set (zs_zones Z)"
    by (auto simp: validate_obj_azs_def list_availability_zones_def split: if_splits list.splits)
  then obtain z where z: "map_of (zs_zones Z) h = Some z" by (metis map_of_eq_None_iff not_None_eq)
  have "good_zones C (zs_zones Z)"
    using add_zones_good [OF new_zones_add(1) [OF assms(1)]] by (simp add: good_zones_def)
  with map_of_SomeD [OF z] have "az_name z = h" by (auto simp: good_zones_def)
  with z map_of_SomeD [OF z] show ?thesis
    by (auto simp: h(1) get_obj_az_by_hints_def get_az_by_hint_def zone_named_def list_availability_zones_objects_def intro: rev_image_eqI)
qed

definition sample_section :: az_opts where
  "sample_section = \<lparr>ao_resource_pool_id = Some ''pool-2'', ao_datastore_id = Some ''ds-2'', ao_edge_ha = False, ao_ha_datastore_id = Some ''ds-3'',
     ao_ha_placement_random = None, ao_datacenter_moid = None, ao_backup_edge_pool = [], ao_external_network = None, ao_vdn_scope_id = None,
     ao_dvs_id = None, ao_edge_host_groups = [], ao_exclusive_dhcp_edge = False, ao_bind_floatingip_to_all_interfaces = False,
     ao_mgt_net_moid = None, ao_mgt_net_proxy_ips = [''10.1.0.2''], ao_mgt_net_proxy_netmask = None, ao_mgt_net_default_gateway = None\<rparr>"

definition sample_conf :: nsxv_conf where
  "sample_conf = \<lparr>cf_resource_pool_id = Some ''pool-1'', cf_datastore_id = Some ''ds-1'', cf_edge_ha = False, cf_ha_datastore_id = None,
     cf_ha_placement_random = False, cf_datacenter_moid = Some ''dc-1'', cf_backup_edge_pool = [], cf_external_network = Some ''net-1'',
     cf_vdn_scope_id = Some ''scope-1'', cf_dvs_id = Some ''dvs-1'', cf_edge_host_groups = [], cf_exclusive_dhcp_edge = False,
     cf_bind_floatingip_to_all_interfaces = False, cf_mgt_net_moid = Some ''net-2'', cf_mgt_net_proxy_ips = [''10.0.0.2''],
     cf_mgt_net_proxy_netmask = None, cf_mgt_net_default_gateway = None, cf_availability_zones = [''east'', ''default'', ''west:p:d:True:h''],
     cf_section = (\<lambda>_. sample_section), cf_default_zones = [''west''], cf_tvd_default_zones = [], cf_cluster_moid = [''c1''],
     cf_init_validation = True\<rparr>"

definition sample_zones :: zones where
  "sample_zones = projr (new_zones sample_conf False :: unit zone_exc + zones)"

lemma sample_zones: "new_zones sample_conf False = (Inr sample_zones :: unit zone_exc + zones)"
proof -
  have "\<not> isl (new_zones sample_conf False :: unit zone_exc + zones)" by code_simp
  then show ?thesis unfolding sample_zones_def by (cases "new_zones sample_conf False :: unit zone_exc + zones") auto
qed


theorem accepted_hint_is_used_witness: "az_name (get_obj_az_by_hints sample_zones (Some [''west''])) = ''west''"
proof -
  have "validate_obj_azs sample_zones [''west''] = (Inr () :: unit zone_exc + unit)" by code_simp
  from accepted_hint_is_used [OF sample_zones this] show ?thesis by simp
qed


subsection \<open>What an accepted configuration is connected to\<close>







end
