(* ===== verification/Spec2Isabelle.thy ===== *)
theory Spec2Isabelle
  imports ApiClient ApiRequest DhcpConfig EdgeAppliance EdgeDhcp EdgeFirewall EdgePool EdgeRouting Housekeeper Json LoadBalancer LsnManager MhLib NsxDb NsxModels NsxvDb NsxvModels Orm Prelude PrioQueue Tasks VcnsApi VpnDriver VpnValidator Zones
begin

text \<open>
  A model of the parts of the VMware NSX plugins of OpenStack Neutron (\<open>vmware_nsx/\<close>) that keep state of their own: the
  task manager, the database of the NSX-v plugin, the REST clients, the edges with their pool, and the managers
  of logical service nodes. Each theory translates the files it names, one definition for each function or method, in the
  order of the source; the lemmas about a group of definitions follow it.

  \<^bold>\<open>The program\<close>

  A plugin is loaded by the Neutron server and turns calls of the Neutron API into requests to a controller. The NSX-v
  plugin gives every router, and every network with DHCP, an edge appliance, or a share of one. \<open>EdgeManager\<close> picks the
  edge: it draws from a pool of edges that were deployed in advance and records what it did in the tables of
  \<open>nsxv_db\<close>. \<open>EdgeApplianceDriver\<close> builds the requests about an edge and \<open>Vcns\<close> sends them. Slow requests are tasks of
  the task manager, which runs the tasks of one resource one at a time. The NSX-mh plugin talks to a cluster of controllers
  through the pool of connections of \<open>api_client\<close> and \<open>nsxlib/mh\<close>; \<open>lsnmanager\<close> uses them to run DHCP on service nodes.

  \<^bold>\<open>Theories\<close>

  \<^item> \<open>Prelude\<close>: results as sums with the error on the left (\<open>bind_res\<close>, \<open>map_res\<close>), operations on a state
    that may raise without undoing what they did (\<open>bind_st\<close>, \<open>catch_st\<close>, with the rules \<open>st_intros\<close>
    for invariants), dictionaries as association lists, decimal numerals, \<open>int()\<close> and \<open>strip()\<close> on text. \<open>Json\<close>:
    decoded JSON values. \<open>Orm\<close>: the locale \<open>orm_table\<close>, what the code relies on of SQLAlchemy,
    with the list implementation that interprets it. \<open>PrioQueue\<close>: the locale of the priority queue of eventlet.
  \<^item> \<open>Tasks\<close> (\<open>vshield/tasks/tasks.py\<close>): \<open>Task\<close> objects in a store, the queues of the resources, and the main
    thread, the callers and the status poller as an inductive step relation \<open>tm_step\<close> whose reachable states
    satisfy an invariant. Tasks of a resource run one at a time and in the order in which they were added;
    \<open>stop\<close> aborts all of them.
  \<^item> \<open>NsxvModels\<close>, \<open>NsxvDb\<close> (\<open>db/nsxv_models.py\<close>, \<open>db/nsxv_db.py\<close>): tables and queries; which vnic an edge gives to a
    network, and that freeing undoes it. \<open>NsxModels\<close>, \<open>NsxDb\<close> (\<open>db/nsx_models.py\<close>, \<open>db/db.py\<close>): the tables of
    mappings of the other plugins.
  \<^item> \<open>ApiClient\<close>, \<open>ApiRequest\<close> (\<open>api_client/\<close>): the pool of connections with its priorities, and requests with their
    redirects and retries. No request loses a connection of the pool, and the number of attempts is bounded.
  \<^item> \<open>MhLib\<close>, \<open>LsnManager\<close> (\<open>nsxlib/mh/\<close>, \<open>db/lsn_db.py\<close>, \<open>dhcp_meta/lsnmanager.py\<close>): the manager with a table refines
    the one that asks the controller.
  \<^item> \<open>VcnsApi\<close> (\<open>vshield/vcns.py\<close>, \<open>VcnsApiClient.py\<close>): the exceptions of the client, its nested retries, and one definition
    for each request.
  \<^item> \<open>EdgeAppliance\<close> (\<open>edge_appliance_driver.py\<close>, \<open>NsxVCallbacks\<close>), and \<open>EdgePool\<close>, \<open>DhcpConfig\<close>, \<open>EdgeRouting\<close>, \<open>EdgeDhcp\<close>
    (\<open>edge_utils.py\<close>): the pool returns to its bounds, an edge that is drawn is active, an edge that is returned is not
    lost, a router goes to the edge with most room, a network to an edge that has no conflict and room for it,
    the sub-interfaces that are sent do not overlap, routes are read back as they were written.
  \<^item> \<open>Housekeeper\<close> (\<open>plugins/common/housekeeper/\<close>, \<open>plugins/nsx_v/housekeeper/\<close>): the registry of jobs and the two jobs that
    repair edges. A read-only run changes nothing, a run leaves no pooled edge in error, and one kind of misplaced
    sub-interface makes the repair of a vnic run forever.
  \<^item> \<open>LoadBalancer\<close> (\<open>nsxv_loadbalancer.py\<close>, \<open>nsxv_edge_cfg_obj.py\<close>) and \<open>EdgeFirewall\<close> (\<open>edge_firewall_driver.py\<close>): the
    services of an edge. A load balancer is read back from its own request if every server has a rule; the table of the firewall
    has the identifiers that the manager reports under the tags that were sent; ports of rules do not survive the conversion.
  \<^item> \<open>Zones\<close> (\<open>availability_zones.py\<close>, common and of NSX-v): the zones that a configuration makes are consistent, an accepted hint
    is the zone that is used, and an accepted zone is connected.
  \<^item> \<open>VpnValidator\<close>, \<open>VpnDriver\<close> (\<open>services/vpnaas/\<close>): the validators of the three plugins keep the connections of all tenants
    free of conflicts; the driver of NSX-v keeps the sites of an edge at the manager (locale \<open>ipsec_manager\<close>), and deleting a
    connection undoes creating it.

  \<^bold>\<open>How the code is rendered\<close>

  What the code reaches outside the repository is a parameter: the exchange over HTTP, the database, the queue,
  netaddr, the clock, random choices, the order of a set, and the functions of Neutron's base classes. A parameter
  of which a property needs more than its type has a named hypothesis (a locale, or an assumption of the theorem), and
  a witness that instantiates it with a concrete function. Exceptions are values; an exception leaves the changes made before it,
  except for the transaction of one database operation. Each operation on the edges is one step: the locks that the
  code takes around them are not modelled. The task manager, whose purpose is concurrency, has a step for each
  interleaving point of its threads.

  \<^bold>\<open>Loops\<close>

  Loops over lists are structural recursion. The others: draining and searching the pool of connections recurses on the
  size of the queue; \<open>issue_loop\<close> follows at most \<open>redirects\<close> redirects and \<open>handle_loop\<close> makes at most \<open>retries\<close>
  attempts, both numbers from the code's options; \<open>with_retries\<close> counts the attempts of the decorator; picking an edge
  shortens the list of candidates. The pages of a result of the controller end only if the controller
  ends them: \<open>get_all_query_pages\<close> has a bound on the pages, and \<open>Diverges\<close> when it is reached. \<open>grow_pool\<close>, which deploys
  edges until there are enough rows, is a partial function in the option monad: \<open>None\<close> is the loop that does not return, and
  the property about the pool proves that it returns. So is \<open>mend_subs\<close> of the housekeeper, which goes over a list that it
  appends to; that it need not return is a property. \<open>wait_unused\<close> makes the number of attempts of the code.

  \<^bold>\<open>Not modelled\<close>

  The plugins themselves (\<open>plugins/*/plugin.py\<close>) and most drivers of services are handlers over base classes
  of Neutron, vmware_nsxlib and oslo.vmware, which are not in the repository; the modelled files hold what they share.
  The requests that parse or build XML with ElementTree, socket timeouts, logging, configuration declarations, migrations, command
  line tools and API replay are left out. The manifest lists every component with its status.
\<close>

end
